(* ===== verification/Update_Prelude.thy ===== *)
theory Update_Prelude
  imports Main "HOL-Library.Word" "HOL-Library.Char_ord" "HOL-Library.List_Lexorder"
    "HOL-Library.Product_Lexorder"
begin

text \<open>
  Shared vocabulary of the development: the machine integer types of the C++ sources, the
  lemma collections the component theories fill, the contract of an \<open>enum class\<close> that is
  cast to and from its underlying integer, and generic lemmas on lists that several
  components use.
\<close>

section \<open>Machine integers\<close>

type_synonym int32_t = "32 word"
type_synonym uint32_t = "32 word"
type_synonym int64_t = "64 word"
type_synonym uint64_t = "64 word"
type_synonym size_t = "64 word"

text \<open>Conversions the compiler inserts: sign extension and truncation.\<close>

abbreviation size_of_int32 :: "int32_t \<Rightarrow> size_t" where
  "size_of_int32 w \<equiv> scast w"

abbreviation size_of_uint32 :: "uint32_t \<Rightarrow> size_t" where
  "size_of_uint32 w \<equiv> ucast w"

abbreviation uint32_of_size :: "size_t \<Rightarrow> uint32_t" where
  "uint32_of_size w \<equiv> ucast w"

abbreviation int64_of_int32 :: "int32_t \<Rightarrow> int64_t" where
  "int64_of_int32 w \<equiv> scast w"

lemma sint_inject: "sint v = sint w \<longleftrightarrow> v = (w :: 'a::len word)"
proof
  assume "sint v = sint w"
  then have "(of_int (sint v) :: 'a word) = of_int (sint w)" by simp
  then show "v = w" by simp
qed simp

section \<open>Lemma collections\<close>

named_theorems enum_simps \<open>codes of enumerators and decoding of codes\<close>
named_theorems codec_simps \<open>items written by the parcel writers\<close>
named_theorems store_simps \<open>effect of the table operators on the stored rows\<close>
named_theorems world_frame \<open>parts of the service state an operation leaves alone\<close>

section \<open>Enumerations and their integer codes\<close>

text \<open>
  A C++ \<open>enum class\<close> value is one of its enumerators or, after a \<open>static_cast\<close> from an
  integer that names none of them, an unnamed value. Each enumeration is a datatype with
  the source's enumerators and one constructor for the unnamed values. \<open>code\<close> is
  \<open>CAST_INT\<close>, \<open>decode\<close> the \<open>static_cast\<close> back, \<open>named\<close> holds on the enumerators.
\<close>

locale enum_class =
  fixes code :: "'e \<Rightarrow> int32_t"
    and decode :: "int32_t \<Rightarrow> 'e"
    and named :: "'e \<Rightarrow> bool"
  assumes code_decode: "code (decode w) = w"
    and decode_code: "named e \<Longrightarrow> decode (code e) = e"
begin

lemma code_inject: "named e \<Longrightarrow> named f \<Longrightarrow> code e = code f \<longleftrightarrow> e = f"
  by (metis decode_code)

lemma decode_inject: "decode v = decode w \<longleftrightarrow> v = w"
  by (metis code_decode)

definition wf :: "'e \<Rightarrow> bool" where
  "wf e \<longleftrightarrow> decode (code e) = e"

lemma wf_named: "named e \<Longrightarrow> wf e"
  by (simp add: wf_def decode_code)

lemma wf_decode: "wf (decode w)"
  by (simp add: wf_def code_decode)

end

section \<open>Postconditions of sequenced calls\<close>

text \<open>
  \<open>post Q t\<close> says that the result \<open>t\<close> satisfies \<open>Q\<close>. Rules for one call followed by the rest
  of the function are stated for \<open>post Q (let (x, s) = call in rest x s)\<close> and applied in the
  order of the calls.
\<close>

definition post :: "('a \<Rightarrow> bool) \<Rightarrow> 'a \<Rightarrow> bool" where
  "post Q t \<longleftrightarrow> Q t"

lemma post_let_pair:
  "post (\<lambda>(x, s). R x s) c \<Longrightarrow> (\<And>x s. R x s \<Longrightarrow> post Q (f x s)) \<Longrightarrow>
   post Q (let (x, s) = c in f x s)"
  by (cases c) (simp add: post_def)

section \<open>Lists\<close>

lemma map_update_unaffected:
  "(\<forall>x \<in> set xs. \<not> P x) \<Longrightarrow> map (\<lambda>x. if P x then f x else x) xs = xs"
  by (induction xs) auto

lemma foldl_inv:
  assumes "I s" and "\<And>s x. x \<in> set xs \<Longrightarrow> I s \<Longrightarrow> I (f s x)"
  shows "I (foldl f s xs)"
  using assms by (induction xs arbitrary: s) auto

end
