(* ===== verification/Progress_Thread.thy ===== *)
theory Progress_Thread
  imports Update_Prelude
begin

text \<open>
  The thread behind a download (\<open>ProgressThread\<close> of \<open>progress_thread.cpp\<close>): a loop that waits for
  a wake-up, runs its work and stops when it is told to exit or when the work says so. The
  other threads call \<open>StartProgress\<close>, \<open>StopProgress\<close> and \<open>ExitThread\<close>. Everything between two
  waits happens under the lock, so the system is a state machine whose events are these
  calls and the moves of the loop.
\<close>

section \<open>State and events\<close>

text \<open>
  Where the loop is: no thread was created, it is at the top of the loop, it runs the work, or
  its function has returned.
\<close>

datatype LoopState = NoThread | AtTop | Working | Returned

record ProgressThread =
  pt_loop :: LoopState
  pt_isWake :: bool
  pt_isExitThread :: bool

definition ProgressThread_new :: ProgressThread where
  "ProgressThread_new = \<lparr>pt_loop = NoThread, pt_isWake = False, pt_isExitThread = False\<rparr>"

text \<open>\<open>pDealThread_\<close> is not null from the creation of the thread until \<open>ExitThread\<close> has joined it.\<close>

definition StartProgress :: "ProgressThread \<Rightarrow> ProgressThread" where
  "StartProgress s =
     (let s = (if pt_loop s = NoThread then s\<lparr>pt_loop := AtTop\<rparr> else s) in s\<lparr>pt_isWake := True\<rparr>)"

definition StopProgress :: "ProgressThread \<Rightarrow> ProgressThread" where
  "StopProgress s = s\<lparr>pt_isWake := True, pt_isExitThread := False\<rparr>"

text \<open>\<open>ExitThread\<close> in two parts: the signal, and the join, which waits for the function to return.\<close>

definition ExitThread_signal :: "ProgressThread \<Rightarrow> ProgressThread" where
  "ExitThread_signal s = s\<lparr>pt_isWake := True, pt_isExitThread := True\<rparr>"

definition ExitThread_join :: "ProgressThread \<Rightarrow> ProgressThread option" where
  "ExitThread_join s =
     (case pt_loop s of
        NoThread \<Rightarrow> Some s
      | Returned \<Rightarrow> Some (s\<lparr>pt_loop := NoThread\<rparr>)
      | _ \<Rightarrow> None)"

text \<open>One move of \<open>ExecuteThreadFunc\<close>; \<open>goOn\<close> is what the work returns. \<open>None\<close>: it waits or is done.\<close>

definition loop_move :: "bool \<Rightarrow> ProgressThread \<Rightarrow> ProgressThread option" where
  "loop_move goOn s =
     (case pt_loop s of
        AtTop \<Rightarrow>
          (if \<not> pt_isWake s then None
           else if pt_isExitThread s then Some (s\<lparr>pt_loop := Returned\<rparr>)
           else Some (s\<lparr>pt_loop := Working, pt_isWake := False\<rparr>))
      | Working \<Rightarrow> Some (s\<lparr>pt_loop := (if goOn then AtTop else Returned)\<rparr>)
      | _ \<Rightarrow> None)"

datatype ThreadEvent = StartCall | StopCall | ExitCall | JoinCall | Loop bool

fun thread_event :: "ThreadEvent \<Rightarrow> ProgressThread \<Rightarrow> ProgressThread option" where
  "thread_event StartCall s = Some (StartProgress s)"
| "thread_event StopCall s = Some (StopProgress s)"
| "thread_event ExitCall s = Some (ExitThread_signal s)"
| "thread_event JoinCall s = ExitThread_join s"
| "thread_event (Loop goOn) s = loop_move goOn s"

text \<open>The executions, with the number of times the work was started.\<close>

inductive thread_run :: "ThreadEvent list \<Rightarrow> nat \<Rightarrow> ProgressThread \<Rightarrow> bool" where
  thread_init: "thread_run [] 0 ProgressThread_new"
| thread_next: "thread_run es n s \<Longrightarrow> thread_event e s = Some s' \<Longrightarrow>
    thread_run (es @ [e]) (if pt_loop s \<noteq> Working \<and> pt_loop s' = Working then n + 1 else n) s'"

section \<open>Properties\<close>

lemmas thread_defs = StartProgress_def StopProgress_def ExitThread_signal_def ExitThread_join_def loop_move_def

text \<open>One event: the work starts only from a wake-up, which it uses up.\<close>

lemma work_uses_wake:
  assumes "thread_event e s = Some s'"
  shows "(if pt_loop s \<noteq> Working \<and> pt_loop s' = Working then 1 else 0) + of_bool (pt_isWake s') \<le>
    of_bool (pt_isWake s) + (if e \<in> {StartCall, StopCall, ExitCall} then 1 else 0 :: nat)"
  using assms by (cases e) (auto simp: thread_defs Let_def split: LoopState.splits if_splits)

lemma runs_bounded:
  assumes "thread_run es n s"
  shows "n + of_bool (pt_isWake s) \<le> length (filter (\<lambda>e. e \<in> {StartCall, StopCall, ExitCall}) es)"
  using assms
proof induction
  case thread_init
  then show ?case by (simp add: ProgressThread_new_def)
next
  case (thread_next es n s e s')
  then show ?case using work_uses_wake [OF thread_next.hyps(2)] by (auto split: if_splits)
qed

lemma returned_stays:
  assumes "thread_event e s = Some s'" and "pt_loop s = Returned" and "e \<noteq> JoinCall"
  shows "pt_loop s' = Returned"
  using assms by (cases e) (auto simp: thread_defs Let_def)

text \<open>The moves of the loop alone, with what the work returns each time.\<close>

fun loop_moves :: "bool list \<Rightarrow> ProgressThread \<Rightarrow> ProgressThread" where
  "loop_moves [] s = s"
| "loop_moves (g # gs) s = (case loop_move g s of None \<Rightarrow> s | Some s' \<Rightarrow> loop_moves gs s')"

lemma exit_reaches_end:
  assumes "pt_isExitThread s" and "pt_isWake s" and "pt_loop s \<noteq> NoThread"
  shows "pt_loop (loop_moves [g1, g2] s) = Returned"
  using assms by (cases "pt_loop s") (auto simp: loop_move_def)

text \<open>
  C29. Every start of the work of a download thread uses up one wake-up: in any execution the
  work has started at most as often as \<open>StartProgress\<close>, \<open>StopProgress\<close> and \<open>ExitThread\<close> were called, so starts
  in quick succession may be merged, but work is never run twice for one start.
\<close>

theorem thread_work_bounded:
  assumes "thread_run es n s"
  shows "n \<le> length (filter (\<lambda>e. e \<in> {StartCall, StopCall, ExitCall}) es)"
  using runs_bounded [OF assms] by simp

lemma sample_thread_run: "thread_run [StartCall, Loop True] 1 (ProgressThread_new\<lparr>pt_loop := Working\<rparr>)"
proof -
  have "thread_run [StartCall] 0 (StartProgress ProgressThread_new)"
    using thread_next [OF thread_init, of StartCall "StartProgress ProgressThread_new"]
    by (simp add: ProgressThread_new_def StartProgress_def)
  from thread_next [OF this, of "Loop True" "ProgressThread_new\<lparr>pt_loop := Working\<rparr>"]
  show ?thesis by (simp add: ProgressThread_new_def thread_defs)
qed

theorem thread_work_bounded_witness:
  "(1 :: nat) \<le> length (filter (\<lambda>e. e \<in> {StartCall, StopCall, ExitCall}) [StartCall, Loop True])"
  using thread_work_bounded [OF sample_thread_run] by simp

text \<open>
  C30. \<open>ExitThread\<close> does not wait for ever on a thread that is left alone: once the signal is
  given, the thread function returns after at most two of its own moves, whatever its work
  returns, and the join succeeds. A thread whose work has ended it, on the other hand, accepts
  further starts and never works again until it is joined.
\<close>

theorem thread_exit_ends:
  "(pt_loop s \<noteq> NoThread \<longrightarrow>
      ExitThread_join (loop_moves [g1, g2] (ExitThread_signal s)) \<noteq> None) \<and>
   (pt_loop s = Returned \<and> JoinCall \<notin> set es \<longrightarrow>
      (\<forall>s'. foldl (\<lambda>r e. Option.bind r (thread_event e)) (Some s) es = Some s' \<longrightarrow> pt_loop s' = Returned))"
proof -
  have ends: "pt_loop (loop_moves [g1, g2] (ExitThread_signal s)) = Returned" if "pt_loop s \<noteq> NoThread"
    using that by (intro exit_reaches_end) (simp_all add: ExitThread_signal_def)
  have gone: "foldl (\<lambda>r e. Option.bind r (thread_event e)) None es = None" for es
    by (induction es) simp_all
  have stays: "pt_loop s = Returned \<Longrightarrow> JoinCall \<notin> set es \<Longrightarrow>
      foldl (\<lambda>r e. Option.bind r (thread_event e)) (Some s) es = Some s' \<Longrightarrow> pt_loop s' = Returned" for s'
  proof (induction es arbitrary: s)
    case (Cons e es)
    then obtain s1 where s1: "thread_event e s = Some s1"
      by (cases "thread_event e s") (simp_all add: gone)
    have "pt_loop s1 = Returned" by (rule returned_stays [OF s1]) (use Cons.prems in auto)
    then show ?case using Cons.IH [of s1] Cons.prems(2,3) s1 by simp
  qed simp
  show ?thesis
  proof (intro conjI impI allI)
    assume "pt_loop s \<noteq> NoThread"
    from ends [OF this] show "ExitThread_join (loop_moves [g1, g2] (ExitThread_signal s)) \<noteq> None"
      by (simp only: ExitThread_join_def LoopState.case option.distinct not_False_eq_True)
  next
    fix s'
    assume "pt_loop s = Returned \<and> JoinCall \<notin> set es"
      and "foldl (\<lambda>r e. Option.bind r (thread_event e)) (Some s) es = Some s'"
    then show "pt_loop s' = Returned" by (elim conjE) (rule stays)
  qed
qed

theorem thread_exit_ends_witness:
  "ExitThread_join (loop_moves [True, True] (ExitThread_signal (ProgressThread_new\<lparr>pt_loop := Working\<rparr>))) \<noteq> None \<and>
   map_option pt_loop (foldl (\<lambda>r e. Option.bind r (thread_event e)) (Some (ProgressThread_new\<lparr>pt_loop := Returned\<rparr>))
      [StartCall, StartCall]) = Some Returned"
  using thread_exit_ends [of "ProgressThread_new\<lparr>pt_loop := Working\<rparr>" True True "[]"]
    thread_exit_ends [of "ProgressThread_new\<lparr>pt_loop := Returned\<rparr>" True True "[StartCall, StartCall]"]
  by (simp add: ProgressThread_new_def)

end
