(* ===== verification/Update_Types.thy ===== *)
theory Update_Types
  imports Update_Prelude
begin

text \<open>
  The data exchanged between the components, from
  \<open>interfaces/inner_api/include/update_helper.h\<close>: enumerations with their integer codes,
  the option and result structs, and the ordering on \<open>UpgradeInfo\<close> that keys the client
  map of the service. Fields carry the initials of their struct, because the C++ structs
  share field names.
\<close>

section \<open>Enumerations\<close>

datatype CallResult =
    APP_NOT_GRANTED | NOT_SYSTEM_APP | PARAM_ERR | UN_SUPPORT
  | SUCCESS | FAIL | DEV_UPG_INFO_ERR | FORBIDDEN | IPC_ERR | TIME_OUT
  | DB_ERROR | IO_ERROR | NET_ERROR
  | CallResult_unnamed int32_t

fun CallResult_code :: "CallResult \<Rightarrow> int32_t" where
  "CallResult_code CallResult.APP_NOT_GRANTED = 201"
| "CallResult_code CallResult.NOT_SYSTEM_APP = 202"
| "CallResult_code CallResult.PARAM_ERR = 401"
| "CallResult_code CallResult.UN_SUPPORT = 801"
| "CallResult_code CallResult.SUCCESS = 0"
| "CallResult_code CallResult.FAIL = 100"
| "CallResult_code CallResult.DEV_UPG_INFO_ERR = 102"
| "CallResult_code CallResult.FORBIDDEN = 103"
| "CallResult_code CallResult.IPC_ERR = 104"
| "CallResult_code CallResult.TIME_OUT = 402"
| "CallResult_code CallResult.DB_ERROR = 501"
| "CallResult_code CallResult.IO_ERROR = 502"
| "CallResult_code CallResult.NET_ERROR = 503"
| "CallResult_code (CallResult_unnamed w) = w"

definition CallResult_of :: "int32_t \<Rightarrow> CallResult" where
  "CallResult_of w =
     (if w = 201 then CallResult.APP_NOT_GRANTED else if w = 202 then CallResult.NOT_SYSTEM_APP
      else if w = 401 then CallResult.PARAM_ERR else if w = 801 then CallResult.UN_SUPPORT
      else if w = 0 then CallResult.SUCCESS else if w = 100 then CallResult.FAIL
      else if w = 102 then CallResult.DEV_UPG_INFO_ERR else if w = 103 then CallResult.FORBIDDEN
      else if w = 104 then CallResult.IPC_ERR else if w = 402 then CallResult.TIME_OUT
      else if w = 501 then CallResult.DB_ERROR else if w = 502 then CallResult.IO_ERROR
      else if w = 503 then CallResult.NET_ERROR else CallResult_unnamed w)"

datatype UpgradeStatus =
    INIT
  | CHECKING_VERSION | CHECK_VERSION_FAIL | CHECK_VERSION_SUCCESS
  | DOWNLOADING | DOWNLOAD_PAUSE | DOWNLOAD_CANCEL | DOWNLOAD_FAIL | DOWNLOAD_SUCCESS
  | VERIFYING | VERIFY_FAIL | VERIFY_SUCCESS
  | PACKAGE_TRANSING | PACKAGE_TRANS_FAIL | PACKAGE_TRANS_SUCCESS
  | INSTALLING | INSTALL_FAIL | INSTALL_SUCCESS
  | UPDATING | UPDATE_FAIL | UPDATE_SUCCESS
  | UpgradeStatus_unnamed int32_t

fun UpgradeStatus_code :: "UpgradeStatus \<Rightarrow> int32_t" where
  "UpgradeStatus_code UpgradeStatus.INIT = 0"
| "UpgradeStatus_code UpgradeStatus.CHECKING_VERSION = 10"
| "UpgradeStatus_code UpgradeStatus.CHECK_VERSION_FAIL = 11"
| "UpgradeStatus_code UpgradeStatus.CHECK_VERSION_SUCCESS = 12"
| "UpgradeStatus_code UpgradeStatus.DOWNLOADING = 20"
| "UpgradeStatus_code UpgradeStatus.DOWNLOAD_PAUSE = 21"
| "UpgradeStatus_code UpgradeStatus.DOWNLOAD_CANCEL = 22"
| "UpgradeStatus_code UpgradeStatus.DOWNLOAD_FAIL = 23"
| "UpgradeStatus_code UpgradeStatus.DOWNLOAD_SUCCESS = 24"
| "UpgradeStatus_code UpgradeStatus.VERIFYING = 30"
| "UpgradeStatus_code UpgradeStatus.VERIFY_FAIL = 31"
| "UpgradeStatus_code UpgradeStatus.VERIFY_SUCCESS = 32"
| "UpgradeStatus_code UpgradeStatus.PACKAGE_TRANSING = 70"
| "UpgradeStatus_code UpgradeStatus.PACKAGE_TRANS_FAIL = 71"
| "UpgradeStatus_code UpgradeStatus.PACKAGE_TRANS_SUCCESS = 72"
| "UpgradeStatus_code UpgradeStatus.INSTALLING = 80"
| "UpgradeStatus_code UpgradeStatus.INSTALL_FAIL = 81"
| "UpgradeStatus_code UpgradeStatus.INSTALL_SUCCESS = 82"
| "UpgradeStatus_code UpgradeStatus.UPDATING = 90"
| "UpgradeStatus_code UpgradeStatus.UPDATE_FAIL = 91"
| "UpgradeStatus_code UpgradeStatus.UPDATE_SUCCESS = 92"
| "UpgradeStatus_code (UpgradeStatus_unnamed w) = w"

definition UpgradeStatus_of :: "int32_t \<Rightarrow> UpgradeStatus" where
  "UpgradeStatus_of w =
     (if w = 0 then UpgradeStatus.INIT
      else if w = 10 then UpgradeStatus.CHECKING_VERSION
      else if w = 11 then UpgradeStatus.CHECK_VERSION_FAIL
      else if w = 12 then UpgradeStatus.CHECK_VERSION_SUCCESS
      else if w = 20 then UpgradeStatus.DOWNLOADING
      else if w = 21 then UpgradeStatus.DOWNLOAD_PAUSE
      else if w = 22 then UpgradeStatus.DOWNLOAD_CANCEL
      else if w = 23 then UpgradeStatus.DOWNLOAD_FAIL
      else if w = 24 then UpgradeStatus.DOWNLOAD_SUCCESS
      else if w = 30 then UpgradeStatus.VERIFYING
      else if w = 31 then UpgradeStatus.VERIFY_FAIL
      else if w = 32 then UpgradeStatus.VERIFY_SUCCESS
      else if w = 70 then UpgradeStatus.PACKAGE_TRANSING
      else if w = 71 then UpgradeStatus.PACKAGE_TRANS_FAIL
      else if w = 72 then UpgradeStatus.PACKAGE_TRANS_SUCCESS
      else if w = 80 then UpgradeStatus.INSTALLING
      else if w = 81 then UpgradeStatus.INSTALL_FAIL
      else if w = 82 then UpgradeStatus.INSTALL_SUCCESS
      else if w = 90 then UpgradeStatus.UPDATING
      else if w = 91 then UpgradeStatus.UPDATE_FAIL
      else if w = 92 then UpgradeStatus.UPDATE_SUCCESS
      else UpgradeStatus_unnamed w)"

datatype PackageType = DYNAMIC | NORMAL | PackageType_unnamed int32_t

fun PackageType_code :: "PackageType \<Rightarrow> int32_t" where
  "PackageType_code PackageType.DYNAMIC = 0"
| "PackageType_code PackageType.NORMAL = 1"
| "PackageType_code (PackageType_unnamed w) = w"

definition PackageType_of :: "int32_t \<Rightarrow> PackageType" where
  "PackageType_of w =
     (if w = 0 then PackageType.DYNAMIC else if w = 1 then PackageType.NORMAL
      else PackageType_unnamed w)"

datatype ComponentType = INVALID | OTA

fun ComponentType_code :: "ComponentType \<Rightarrow> int32_t" where
  "ComponentType_code ComponentType.INVALID = 0"
| "ComponentType_code ComponentType.OTA = 1"

datatype EffectiveMode = COLD | LIVE | LIVE_AND_COLD

fun EffectiveMode_code :: "EffectiveMode \<Rightarrow> size_t" where
  "EffectiveMode_code EffectiveMode.COLD = 1"
| "EffectiveMode_code EffectiveMode.LIVE = 2"
| "EffectiveMode_code EffectiveMode.LIVE_AND_COLD = 3"

datatype NetType =
    NO_NET | CELLULAR | METERED_WIFI | NOT_METERED_WIFI
  | CELLULAR_AND_METERED_WIFI | CELLULAR_AND_NOT_METERED_WIFI | WIFI | CELLULAR_AND_WIFI
  | NetType_unnamed int32_t

fun NetType_code :: "NetType \<Rightarrow> int32_t" where
  "NetType_code NetType.NO_NET = 0"
| "NetType_code NetType.CELLULAR = 1"
| "NetType_code NetType.METERED_WIFI = 2"
| "NetType_code NetType.NOT_METERED_WIFI = 4"
| "NetType_code NetType.CELLULAR_AND_METERED_WIFI = 3"
| "NetType_code NetType.CELLULAR_AND_NOT_METERED_WIFI = 5"
| "NetType_code NetType.WIFI = 6"
| "NetType_code NetType.CELLULAR_AND_WIFI = 7"
| "NetType_code (NetType_unnamed w) = w"

definition NetType_of :: "int32_t \<Rightarrow> NetType" where
  "NetType_of w =
     (if w = 0 then NetType.NO_NET else if w = 1 then NetType.CELLULAR
      else if w = 2 then NetType.METERED_WIFI else if w = 4 then NetType.NOT_METERED_WIFI
      else if w = 3 then NetType.CELLULAR_AND_METERED_WIFI
      else if w = 5 then NetType.CELLULAR_AND_NOT_METERED_WIFI
      else if w = 6 then NetType.WIFI else if w = 7 then NetType.CELLULAR_AND_WIFI
      else NetType_unnamed w)"

datatype Order =
    DOWNLOAD | INSTALL | DOWNLOAD_AND_INSTALL | APPLY | INSTALL_AND_APPLY
  | Order_unnamed int32_t

fun Order_code :: "Order \<Rightarrow> int32_t" where
  "Order_code Order.DOWNLOAD = 1"
| "Order_code Order.INSTALL = 2"
| "Order_code Order.DOWNLOAD_AND_INSTALL = 3"
| "Order_code Order.APPLY = 4"
| "Order_code Order.INSTALL_AND_APPLY = 6"
| "Order_code (Order_unnamed w) = w"

definition Order_of :: "int32_t \<Rightarrow> Order" where
  "Order_of w =
     (if w = 1 then Order.DOWNLOAD else if w = 2 then Order.INSTALL
      else if w = 3 then Order.DOWNLOAD_AND_INSTALL else if w = 4 then Order.APPLY
      else if w = 6 then Order.INSTALL_AND_APPLY else Order_unnamed w)"

datatype BusinessSubType = FIRMWARE | PARAM | BusinessSubType_unnamed int32_t

fun BusinessSubType_code :: "BusinessSubType \<Rightarrow> int32_t" where
  "BusinessSubType_code BusinessSubType.FIRMWARE = 1"
| "BusinessSubType_code BusinessSubType.PARAM = 2"
| "BusinessSubType_code (BusinessSubType_unnamed w) = w"

definition BusinessSubType_of :: "int32_t \<Rightarrow> BusinessSubType" where
  "BusinessSubType_of w =
     (if w = 1 then BusinessSubType.FIRMWARE else if w = 2 then BusinessSubType.PARAM
      else BusinessSubType_unnamed w)"

datatype DescriptionType = CONTENT | URI | ID | DescriptionType_unnamed int32_t

fun DescriptionType_code :: "DescriptionType \<Rightarrow> int32_t" where
  "DescriptionType_code DescriptionType.CONTENT = 0"
| "DescriptionType_code DescriptionType.URI = 1"
| "DescriptionType_code DescriptionType.ID = 2"
| "DescriptionType_code (DescriptionType_unnamed w) = w"

definition DescriptionType_of :: "int32_t \<Rightarrow> DescriptionType" where
  "DescriptionType_of w =
     (if w = 0 then DescriptionType.CONTENT else if w = 1 then DescriptionType.URI
      else if w = 2 then DescriptionType.ID else DescriptionType_unnamed w)"

datatype DescriptionFormat = STANDARD | SIMPLIFIED | DescriptionFormat_unnamed int32_t

fun DescriptionFormat_code :: "DescriptionFormat \<Rightarrow> int32_t" where
  "DescriptionFormat_code DescriptionFormat.STANDARD = 0"
| "DescriptionFormat_code DescriptionFormat.SIMPLIFIED = 1"
| "DescriptionFormat_code (DescriptionFormat_unnamed w) = w"

definition DescriptionFormat_of :: "int32_t \<Rightarrow> DescriptionFormat" where
  "DescriptionFormat_of w =
     (if w = 0 then DescriptionFormat.STANDARD else if w = 1 then DescriptionFormat.SIMPLIFIED
      else DescriptionFormat_unnamed w)"

datatype EventId =
    EVENT_TASK_BASE | EVENT_TASK_RECEIVE | EVENT_TASK_CANCEL | EVENT_DOWNLOAD_WAIT
  | EVENT_DOWNLOAD_START | EVENT_DOWNLOAD_UPDATE | EVENT_DOWNLOAD_PAUSE | EVENT_DOWNLOAD_RESUME
  | EVENT_DOWNLOAD_SUCCESS | EVENT_DOWNLOAD_FAIL | EVENT_UPGRADE_WAIT | EVENT_UPGRADE_START
  | EVENT_UPGRADE_UPDATE | EVENT_APPLY_WAIT | EVENT_APPLY_START | EVENT_UPGRADE_SUCCESS
  | EVENT_UPGRADE_FAIL | EVENT_AUTH_START | EVENT_AUTH_SUCCESS | EVENT_DOWNLOAD_CANCEL
  | EVENT_INITIALIZE
  | EventId_unnamed int32_t

fun EventId_code :: "EventId \<Rightarrow> int32_t" where
  "EventId_code EventId.EVENT_TASK_BASE = 0x01000000"
| "EventId_code EventId.EVENT_TASK_RECEIVE = 0x01000001"
| "EventId_code EventId.EVENT_TASK_CANCEL = 0x01000002"
| "EventId_code EventId.EVENT_DOWNLOAD_WAIT = 0x01000003"
| "EventId_code EventId.EVENT_DOWNLOAD_START = 0x01000004"
| "EventId_code EventId.EVENT_DOWNLOAD_UPDATE = 0x01000005"
| "EventId_code EventId.EVENT_DOWNLOAD_PAUSE = 0x01000006"
| "EventId_code EventId.EVENT_DOWNLOAD_RESUME = 0x01000007"
| "EventId_code EventId.EVENT_DOWNLOAD_SUCCESS = 0x01000008"
| "EventId_code EventId.EVENT_DOWNLOAD_FAIL = 0x01000009"
| "EventId_code EventId.EVENT_UPGRADE_WAIT = 0x0100000A"
| "EventId_code EventId.EVENT_UPGRADE_START = 0x0100000B"
| "EventId_code EventId.EVENT_UPGRADE_UPDATE = 0x0100000C"
| "EventId_code EventId.EVENT_APPLY_WAIT = 0x0100000D"
| "EventId_code EventId.EVENT_APPLY_START = 0x0100000E"
| "EventId_code EventId.EVENT_UPGRADE_SUCCESS = 0x0100000F"
| "EventId_code EventId.EVENT_UPGRADE_FAIL = 0x01000010"
| "EventId_code EventId.EVENT_AUTH_START = 0x01000011"
| "EventId_code EventId.EVENT_AUTH_SUCCESS = 0x01000012"
| "EventId_code EventId.EVENT_DOWNLOAD_CANCEL = 0x01000013"
| "EventId_code EventId.EVENT_INITIALIZE = 0x01000014"
| "EventId_code (EventId_unnamed w) = w"

definition EventId_of :: "int32_t \<Rightarrow> EventId" where
  "EventId_of w =
     (if w = 0x01000000 then EventId.EVENT_TASK_BASE
      else if w = 0x01000001 then EventId.EVENT_TASK_RECEIVE
      else if w = 0x01000002 then EventId.EVENT_TASK_CANCEL
      else if w = 0x01000003 then EventId.EVENT_DOWNLOAD_WAIT
      else if w = 0x01000004 then EventId.EVENT_DOWNLOAD_START
      else if w = 0x01000005 then EventId.EVENT_DOWNLOAD_UPDATE
      else if w = 0x01000006 then EventId.EVENT_DOWNLOAD_PAUSE
      else if w = 0x01000007 then EventId.EVENT_DOWNLOAD_RESUME
      else if w = 0x01000008 then EventId.EVENT_DOWNLOAD_SUCCESS
      else if w = 0x01000009 then EventId.EVENT_DOWNLOAD_FAIL
      else if w = 0x0100000A then EventId.EVENT_UPGRADE_WAIT
      else if w = 0x0100000B then EventId.EVENT_UPGRADE_START
      else if w = 0x0100000C then EventId.EVENT_UPGRADE_UPDATE
      else if w = 0x0100000D then EventId.EVENT_APPLY_WAIT
      else if w = 0x0100000E then EventId.EVENT_APPLY_START
      else if w = 0x0100000F then EventId.EVENT_UPGRADE_SUCCESS
      else if w = 0x01000010 then EventId.EVENT_UPGRADE_FAIL
      else if w = 0x01000011 then EventId.EVENT_AUTH_START
      else if w = 0x01000012 then EventId.EVENT_AUTH_SUCCESS
      else if w = 0x01000013 then EventId.EVENT_DOWNLOAD_CANCEL
      else if w = 0x01000014 then EventId.EVENT_INITIALIZE
      else EventId_unnamed w)"

section \<open>Structs\<close>

text \<open>
  \<open>BusinessType\<close> and \<open>UpgradeInfo\<close> are the keys of the client map, ordered by their
  \<open>operator<\<close>; they are single-constructor datatypes with the source's field names as
  selectors, so that the order can be an instance of the library's \<open>preorder\<close> class.
\<close>

datatype BusinessType = BusinessType (vendor: string) (subType: BusinessSubType)

datatype UpgradeInfo =
  UpgradeInfo (upgradeApp: string) (businessType: BusinessType)
    (upgradeDevId: string) (controlDevId: string)

definition BusinessType_less :: "BusinessType \<Rightarrow> BusinessType \<Rightarrow> bool" where
  "BusinessType_less a b =
     (if vendor a < vendor b then True
      else if vendor b < vendor a then False
      else if sint (BusinessSubType_code (subType a)) < sint (BusinessSubType_code (subType b)) then True
      else if sint (BusinessSubType_code (subType b)) < sint (BusinessSubType_code (subType a)) then False
      else False)"

definition UpgradeInfo_less :: "UpgradeInfo \<Rightarrow> UpgradeInfo \<Rightarrow> bool" where
  "UpgradeInfo_less a r =
     (if upgradeApp a < upgradeApp r then True
      else if upgradeApp r < upgradeApp a then False
      else if BusinessType_less (businessType a) (businessType r) then True
      else if BusinessType_less (businessType r) (businessType a) then False
      else if upgradeDevId a < upgradeDevId r then True
      else if upgradeDevId r < upgradeDevId a then False
      else if controlDevId a < controlDevId r then True
      else if controlDevId r < controlDevId a then False
      else False)"

definition LOCAL_UPGRADE_INFO :: string where
  "LOCAL_UPGRADE_INFO = ''LocalUpgradeInfo''"

definition IsLocal :: "UpgradeInfo \<Rightarrow> bool" where
  "IsLocal info \<longleftrightarrow> upgradeApp info = LOCAL_UPGRADE_INFO"

text \<open>The value of a default-constructed \<open>UpgradeInfo\<close>.\<close>

definition UpgradeInfo_default :: UpgradeInfo where
  "UpgradeInfo_default = UpgradeInfo '''' (BusinessType '''' BusinessSubType.FIRMWARE) '''' ''''"

record VersionDigestInfo =
  vd_versionDigest :: string

record ErrorMessage =
  em_errorCode :: int32_t
  em_errorMessage :: string

record DescriptionOptions =
  do_format :: DescriptionFormat
  do_language :: string

record DownloadOptions =
  dl_allowNetwork :: NetType
  dl_order :: Order

record ResumeDownloadOptions =
  rd_allowNetwork :: NetType

record PauseDownloadOptions =
  pd_isAllowAutoResume :: bool

record UpgradeOptions =
  uo_order :: Order

record ClearOptions =
  co_status :: UpgradeStatus

record DescriptionInfo =
  di_descriptionType :: DescriptionType
  di_content :: string

record ComponentDescription =
  cd_componentId :: string
  cd_descriptionInfo :: DescriptionInfo

record VersionComponent =
  vc_componentId :: string
  vc_componentType :: int32_t
  vc_upgradeAction :: string
  vc_displayVersion :: string
  vc_innerVersion :: string
  vc_size :: size_t
  vc_effectiveMode :: size_t
  vc_descriptionInfo :: DescriptionInfo
  vc_componentExtra :: string

record CurrentVersionInfo =
  cv_osVersion :: string
  cv_deviceName :: string
  cv_versionComponents :: "VersionComponent list"

record NewVersionInfo =
  nv_versionDigestInfo :: VersionDigestInfo
  nv_versionComponents :: "VersionComponent list"

record VersionDescriptionInfo =
  vi_componentDescriptions :: "ComponentDescription list"

record CheckResult =
  cr_isExistNewVersion :: bool
  cr_newVersionInfo :: NewVersionInfo

record TaskBody =
  tb_versionDigestInfo :: VersionDigestInfo
  tb_status :: UpgradeStatus
  tb_subStatus :: int32_t
  tb_progress :: int32_t
  tb_installMode :: int32_t
  tb_errorMessages :: "ErrorMessage list"
  tb_versionComponents :: "VersionComponent list"

record TaskInfo =
  ti_existTask :: bool
  ti_taskBody :: TaskBody

record Progress =
  pr_percent :: uint32_t
  pr_status :: UpgradeStatus
  pr_endReason :: string

record ErrMsg =
  er_errorCode :: int32_t
  er_errorMsg :: string

record BusinessError =
  be_message :: string
  be_errorNum :: CallResult
  be_data :: "ErrorMessage list"

record UpgradePeriod =
  up_start :: uint32_t
  up_end :: uint32_t

text \<open>The array \<open>autoUpgradePeriods[2]\<close> is a pair.\<close>

record UpgradePolicy =
  upo_downloadStrategy :: bool
  upo_autoUpgradeStrategy :: bool
  upo_autoUpgradePeriods :: "UpgradePeriod \<times> UpgradePeriod"

record EventInfo =
  ei_eventId :: EventId
  ei_taskBody :: TaskBody

text \<open>Default member initialisers of the structs.\<close>

definition DescriptionInfo_default :: DescriptionInfo where
  "DescriptionInfo_default = \<lparr>di_descriptionType = DescriptionType.CONTENT, di_content = []\<rparr>"

definition VersionComponent_default :: VersionComponent where
  "VersionComponent_default =
     \<lparr>vc_componentId = [], vc_componentType = ComponentType_code ComponentType.INVALID,
      vc_upgradeAction = [], vc_displayVersion = [], vc_innerVersion = [],
      vc_size = 0, vc_effectiveMode = EffectiveMode_code EffectiveMode.COLD,
      vc_descriptionInfo = DescriptionInfo_default, vc_componentExtra = []\<rparr>"

definition NewVersionInfo_default :: NewVersionInfo where
  "NewVersionInfo_default =
     \<lparr>nv_versionDigestInfo = \<lparr>vd_versionDigest = []\<rparr>, nv_versionComponents = []\<rparr>"

definition CheckResult_default :: CheckResult where
  "CheckResult_default =
     \<lparr>cr_isExistNewVersion = False, cr_newVersionInfo = NewVersionInfo_default\<rparr>"

definition ErrorMessage_default :: ErrorMessage where
  "ErrorMessage_default = \<lparr>em_errorCode = 0, em_errorMessage = []\<rparr>"

definition TaskBody_default :: TaskBody where
  "TaskBody_default =
     \<lparr>tb_versionDigestInfo = \<lparr>vd_versionDigest = []\<rparr>, tb_status = UpgradeStatus.INIT,
      tb_subStatus = UpgradeStatus_code UpgradeStatus.INIT, tb_progress = 0, tb_installMode = 0,
      tb_errorMessages = [], tb_versionComponents = []\<rparr>"

definition Progress_default :: Progress where
  "Progress_default = \<lparr>pr_percent = 0, pr_status = UpgradeStatus.INIT, pr_endReason = []\<rparr>"

definition ErrMsg_default :: ErrMsg where
  "ErrMsg_default = \<lparr>er_errorCode = 0, er_errorMsg = []\<rparr>"

definition BusinessError_default :: BusinessError where
  "BusinessError_default = \<lparr>be_message = [], be_errorNum = CallResult.SUCCESS, be_data = []\<rparr>"

section \<open>Operations on the structs\<close>

definition Build :: "CallResult \<Rightarrow> string \<Rightarrow> BusinessError \<Rightarrow> BusinessError" where
  "Build callResult msg be = be\<lparr>be_errorNum := callResult, be_message := msg\<rparr>"

definition AddErrorMessage :: "int32_t \<Rightarrow> string \<Rightarrow> BusinessError \<Rightarrow> BusinessError" where
  "AddErrorMessage errorCode errorMessage be =
     be\<lparr>be_data := be_data be @ [\<lparr>em_errorCode = errorCode, em_errorMessage = errorMessage\<rparr>]\<rparr>"

definition IsUpgradeFailed :: "UpgradeStatus \<Rightarrow> bool" where
  "IsUpgradeFailed st \<longleftrightarrow>
     st = UpgradeStatus.DOWNLOAD_FAIL \<or> st = UpgradeStatus.PACKAGE_TRANS_FAIL \<or>
     st = UpgradeStatus.INSTALL_FAIL \<or> st = UpgradeStatus.UPDATE_FAIL \<or>
     st = UpgradeStatus.VERIFY_FAIL"

fun IsValidEnum :: "int32_t list \<Rightarrow> int32_t \<Rightarrow> bool" where
  "IsValidEnum [] number = False"
| "IsValidEnum (i # is) number = (if number = i then True else IsValidEnum is number)"

section \<open>Enumerations satisfy the contract\<close>

definition CallResult_named :: "CallResult \<Rightarrow> bool" where
  "CallResult_named e \<longleftrightarrow> (case e of CallResult_unnamed _ \<Rightarrow> False | _ \<Rightarrow> True)"

definition UpgradeStatus_named :: "UpgradeStatus \<Rightarrow> bool" where
  "UpgradeStatus_named e \<longleftrightarrow> (case e of UpgradeStatus_unnamed _ \<Rightarrow> False | _ \<Rightarrow> True)"

definition PackageType_named :: "PackageType \<Rightarrow> bool" where
  "PackageType_named e \<longleftrightarrow> (case e of PackageType_unnamed _ \<Rightarrow> False | _ \<Rightarrow> True)"

definition NetType_named :: "NetType \<Rightarrow> bool" where
  "NetType_named e \<longleftrightarrow> (case e of NetType_unnamed _ \<Rightarrow> False | _ \<Rightarrow> True)"

definition Order_named :: "Order \<Rightarrow> bool" where
  "Order_named e \<longleftrightarrow> (case e of Order_unnamed _ \<Rightarrow> False | _ \<Rightarrow> True)"

definition BusinessSubType_named :: "BusinessSubType \<Rightarrow> bool" where
  "BusinessSubType_named e \<longleftrightarrow> (case e of BusinessSubType_unnamed _ \<Rightarrow> False | _ \<Rightarrow> True)"

definition DescriptionType_named :: "DescriptionType \<Rightarrow> bool" where
  "DescriptionType_named e \<longleftrightarrow> (case e of DescriptionType_unnamed _ \<Rightarrow> False | _ \<Rightarrow> True)"

definition DescriptionFormat_named :: "DescriptionFormat \<Rightarrow> bool" where
  "DescriptionFormat_named e \<longleftrightarrow> (case e of DescriptionFormat_unnamed _ \<Rightarrow> False | _ \<Rightarrow> True)"

definition EventId_named :: "EventId \<Rightarrow> bool" where
  "EventId_named e \<longleftrightarrow> (case e of EventId_unnamed _ \<Rightarrow> False | _ \<Rightarrow> True)"

lemmas named_defs [enum_simps] = CallResult_named_def UpgradeStatus_named_def PackageType_named_def
  NetType_named_def Order_named_def BusinessSubType_named_def DescriptionType_named_def
  DescriptionFormat_named_def EventId_named_def

interpretation cr: enum_class CallResult_code CallResult_of CallResult_named
proof
  fix w show "CallResult_code (CallResult_of w) = w" by (simp add: CallResult_of_def)
next
  fix e show "CallResult_named e \<Longrightarrow> CallResult_of (CallResult_code e) = e"
    by (cases e) (simp_all add: CallResult_of_def CallResult_named_def)
qed

interpretation us: enum_class UpgradeStatus_code UpgradeStatus_of UpgradeStatus_named
proof
  fix w show "UpgradeStatus_code (UpgradeStatus_of w) = w" by (simp add: UpgradeStatus_of_def)
next
  fix e show "UpgradeStatus_named e \<Longrightarrow> UpgradeStatus_of (UpgradeStatus_code e) = e"
    by (cases e) (simp_all add: UpgradeStatus_of_def UpgradeStatus_named_def)
qed

interpretation pt: enum_class PackageType_code PackageType_of PackageType_named
proof
  fix w show "PackageType_code (PackageType_of w) = w" by (simp add: PackageType_of_def)
next
  fix e show "PackageType_named e \<Longrightarrow> PackageType_of (PackageType_code e) = e"
    by (cases e) (simp_all add: PackageType_of_def PackageType_named_def)
qed

interpretation nt: enum_class NetType_code NetType_of NetType_named
proof
  fix w show "NetType_code (NetType_of w) = w" by (simp add: NetType_of_def)
next
  fix e show "NetType_named e \<Longrightarrow> NetType_of (NetType_code e) = e"
    by (cases e) (simp_all add: NetType_of_def NetType_named_def)
qed

interpretation od: enum_class Order_code Order_of Order_named
proof
  fix w show "Order_code (Order_of w) = w" by (simp add: Order_of_def)
next
  fix e show "Order_named e \<Longrightarrow> Order_of (Order_code e) = e"
    by (cases e) (simp_all add: Order_of_def Order_named_def)
qed

interpretation bs: enum_class BusinessSubType_code BusinessSubType_of BusinessSubType_named
proof
  fix w show "BusinessSubType_code (BusinessSubType_of w) = w" by (simp add: BusinessSubType_of_def)
next
  fix e show "BusinessSubType_named e \<Longrightarrow> BusinessSubType_of (BusinessSubType_code e) = e"
    by (cases e) (simp_all add: BusinessSubType_of_def BusinessSubType_named_def)
qed

interpretation dt: enum_class DescriptionType_code DescriptionType_of DescriptionType_named
proof
  fix w show "DescriptionType_code (DescriptionType_of w) = w" by (simp add: DescriptionType_of_def)
next
  fix e show "DescriptionType_named e \<Longrightarrow> DescriptionType_of (DescriptionType_code e) = e"
    by (cases e) (simp_all add: DescriptionType_of_def DescriptionType_named_def)
qed

interpretation df: enum_class DescriptionFormat_code DescriptionFormat_of DescriptionFormat_named
proof
  fix w show "DescriptionFormat_code (DescriptionFormat_of w) = w" by (simp add: DescriptionFormat_of_def)
next
  fix e show "DescriptionFormat_named e \<Longrightarrow> DescriptionFormat_of (DescriptionFormat_code e) = e"
    by (cases e) (simp_all add: DescriptionFormat_of_def DescriptionFormat_named_def)
qed

interpretation ev: enum_class EventId_code EventId_of EventId_named
proof
  fix w show "EventId_code (EventId_of w) = w" by (simp add: EventId_of_def)
next
  fix e show "EventId_named e \<Longrightarrow> EventId_of (EventId_code e) = e"
    by (cases e) (simp_all add: EventId_of_def EventId_named_def)
qed

lemma IsValidEnum_iff: "IsValidEnum is n \<longleftrightarrow> n \<in> set is"
  by (induction "is" n rule: IsValidEnum.induct) auto

section \<open>The order on client keys\<close>

text \<open>
  \<open>UpgradeInfo_less\<close> is the lexicographic order of the key below, so it inherits the laws of
  the library's order on tuples.
\<close>

definition UpgradeInfo_key :: "UpgradeInfo \<Rightarrow> string \<times> string \<times> int \<times> string \<times> string" where
  "UpgradeInfo_key a =
     (upgradeApp a, vendor (businessType a), sint (BusinessSubType_code (subType (businessType a))),
      upgradeDevId a, controlDevId a)"

lemma BusinessType_less_key:
  "BusinessType_less a b \<longleftrightarrow>
     (vendor a, sint (BusinessSubType_code (subType a))) < (vendor b, sint (BusinessSubType_code (subType b)))"
  by (auto simp: BusinessType_less_def less_prod_def' split: if_splits)

lemma UpgradeInfo_less_key: "UpgradeInfo_less a b \<longleftrightarrow> UpgradeInfo_key a < UpgradeInfo_key b"
  by (auto simp: UpgradeInfo_less_def BusinessType_less_key UpgradeInfo_key_def less_prod_def'
      split: if_splits)

instantiation UpgradeInfo :: preorder
begin

definition less_UpgradeInfo :: "UpgradeInfo \<Rightarrow> UpgradeInfo \<Rightarrow> bool" where
  "a < b \<longleftrightarrow> UpgradeInfo_less a b"

definition less_eq_UpgradeInfo :: "UpgradeInfo \<Rightarrow> UpgradeInfo \<Rightarrow> bool" where
  "a \<le> b \<longleftrightarrow> \<not> UpgradeInfo_less b a"

instance
proof
  fix a b c :: UpgradeInfo
  show "a < b \<longleftrightarrow> a \<le> b \<and> \<not> b \<le> a"
    by (auto simp: less_UpgradeInfo_def less_eq_UpgradeInfo_def UpgradeInfo_less_key)
  show "a \<le> a" by (simp add: less_eq_UpgradeInfo_def UpgradeInfo_less_key)
  show "a \<le> b \<Longrightarrow> b \<le> c \<Longrightarrow> a \<le> c"
    by (simp add: less_eq_UpgradeInfo_def UpgradeInfo_less_key)
qed

end

definition UpgradeInfo_wf :: "UpgradeInfo \<Rightarrow> bool" where
  "UpgradeInfo_wf a \<longleftrightarrow> bs.wf (subType (businessType a))"

lemma UpgradeInfo_key_inject:
  assumes "UpgradeInfo_wf a" and "UpgradeInfo_wf b" and "UpgradeInfo_key a = UpgradeInfo_key b"
  shows "a = b"
proof -
  from assms(3) have "BusinessSubType_code (subType (businessType a)) =
      BusinessSubType_code (subType (businessType b))"
    by (simp add: UpgradeInfo_key_def sint_inject)
  with assms(1,2) have "subType (businessType a) = subType (businessType b)"
    by (metis UpgradeInfo_wf_def bs.wf_def)
  with assms(3) show ?thesis
    by (simp add: UpgradeInfo_key_def UpgradeInfo.expand BusinessType.expand)
qed

text \<open>
  \<open>UpgradeInfo::operator<\<close> orders the keys of the client map strictly: it is irreflexive
  and transitive, of two keys without order either is the other, field by field, and no two
  keys are each below the other. So \<open>std::map<UpgradeInfo, ClientProxy>\<close> finds a client
  exactly under its own four fields.
\<close>

theorem UpgradeInfo_less_strict_total:
  "\<not> UpgradeInfo_less a a \<and>
   (UpgradeInfo_less a b \<and> UpgradeInfo_less b c \<longrightarrow> UpgradeInfo_less a c) \<and>
   (UpgradeInfo_wf a \<and> UpgradeInfo_wf b \<longrightarrow>
     (\<not> UpgradeInfo_less a b \<and> \<not> UpgradeInfo_less b a) = (a = b))"
  using UpgradeInfo_key_inject [of a b] by (auto simp: UpgradeInfo_less_key)

theorem UpgradeInfo_less_strict_total_witness:
  "UpgradeInfo_less (UpgradeInfo ''a'' (BusinessType ''public'' BusinessSubType.FIRMWARE) [] [])
     (UpgradeInfo ''b'' (BusinessType ''public'' BusinessSubType.FIRMWARE) [] []) \<and>
   (\<not> UpgradeInfo_less (UpgradeInfo ''a'' (BusinessType ''public'' BusinessSubType.FIRMWARE) [] [])
       (UpgradeInfo ''a'' (BusinessType ''public'' BusinessSubType.PARAM) [] []) \<and>
     \<not> UpgradeInfo_less (UpgradeInfo ''a'' (BusinessType ''public'' BusinessSubType.PARAM) [] [])
       (UpgradeInfo ''a'' (BusinessType ''public'' BusinessSubType.FIRMWARE) [] [])) = False"
  using UpgradeInfo_less_strict_total
    [of "UpgradeInfo ''a'' (BusinessType ''public'' BusinessSubType.FIRMWARE) [] []"
       "UpgradeInfo ''a'' (BusinessType ''public'' BusinessSubType.PARAM) [] []"]
  by (simp add: UpgradeInfo_wf_def bs.wf_def BusinessSubType_of_def UpgradeInfo_less_def)

end
