(* ===== verification/Rdb_Table.thy ===== *)
theory Rdb_Table
  imports Update_Prelude
begin

text \<open>
  The table layer of \<open>services/core/ability/sqlite/core\<close>: \<open>SqliteDb\<close> (\<open>sqlite_db.cpp\<close>), the
  value conversion of \<open>ITable\<close> (\<open>itable.h\<close>) and the generic operations of
  \<open>TableBaseOperator\<close> (\<open>table_base_operator.h\<close>). The relational store itself (NativeRdb) is
  the parameter \<open>S\<close>; the locale \<open>rdb_store\<close> states what a call that returns \<open>E_OK\<close> does to the
  rows, and that a failing call changes nothing. The locale \<open>typed_table\<close> lifts the bucket
  operations to lists of C++ structs; the firmware tables are its interpretations.
\<close>

section \<open>The relational store, a parameter\<close>

datatype DbValue = DbInt int32_t | DbLong int64_t | DbText string

type_synonym ValuesBucket = "string \<rightharpoonup> DbValue"

record RdbPredicates =
  rp_table :: string
  rp_equalTo :: "(string \<times> string) list"

text \<open>
  \<open>rdb_open\<close> tells whether \<open>RdbHelper::GetRdbStore\<close> delivers a store; every other operation
  returns the store's result code first.
\<close>

record 'd RdbStore =
  rdb_open :: "'d \<Rightarrow> bool"
  rdb_BatchInsert :: "string \<Rightarrow> ValuesBucket list \<Rightarrow> 'd \<Rightarrow> int32_t \<times> int64_t \<times> 'd"
  rdb_Delete :: "RdbPredicates \<Rightarrow> 'd \<Rightarrow> int32_t \<times> int32_t \<times> 'd"
  rdb_Update :: "ValuesBucket \<Rightarrow> RdbPredicates \<Rightarrow> 'd \<Rightarrow> int32_t \<times> int32_t \<times> 'd"
  rdb_Query :: "RdbPredicates \<Rightarrow> 'd \<Rightarrow> ValuesBucket list option"

definition E_OK :: int32_t where
  "E_OK = 0"

definition COLUMN_ID :: string where
  "COLUMN_ID = ''id''"

definition EqualTo :: "string \<Rightarrow> string \<Rightarrow> RdbPredicates \<Rightarrow> RdbPredicates" where
  "EqualTo column v p = p\<lparr>rp_equalTo := rp_equalTo p @ [(column, v)]\<rparr>"

definition RdbPredicates_of :: "string \<Rightarrow> RdbPredicates" where
  "RdbPredicates_of t = \<lparr>rp_table = t, rp_equalTo = []\<rparr>"

section \<open>SqliteDb\<close>

definition SqliteDb_Insert :: "'d RdbStore \<Rightarrow> string \<Rightarrow> ValuesBucket list \<Rightarrow> 'd \<Rightarrow> bool \<times> 'd" where
  "SqliteDb_Insert S tableName bs d =
     (if \<not> rdb_open S d then (False, d)
      else let (ret, _, d) = rdb_BatchInsert S tableName bs d
           in if ret \<noteq> E_OK then (False, d) else (True, d))"

definition SqliteDb_Delete :: "'d RdbStore \<Rightarrow> RdbPredicates \<Rightarrow> 'd \<Rightarrow> bool \<times> int32_t \<times> 'd" where
  "SqliteDb_Delete S predicates d =
     (if \<not> rdb_open S d then (False, 0, d)
      else let (ret, deletedRows, d) = rdb_Delete S predicates d
           in if ret \<noteq> E_OK then (False, deletedRows, d) else (True, deletedRows, d))"

definition SqliteDb_Query :: "'d RdbStore \<Rightarrow> RdbPredicates \<Rightarrow> 'd \<Rightarrow> ValuesBucket list option" where
  "SqliteDb_Query S predicates d = (if \<not> rdb_open S d then None else rdb_Query S predicates d)"

definition SqliteDb_Update ::
  "'d RdbStore \<Rightarrow> ValuesBucket \<Rightarrow> RdbPredicates \<Rightarrow> 'd \<Rightarrow> bool \<times> int32_t \<times> 'd" where
  "SqliteDb_Update S vs predicates d =
     (if \<not> rdb_open S d then (False, 0, d)
      else let (ret, changedRows, d) = rdb_Update S vs predicates d
           in if ret \<noteq> E_OK then (False, changedRows, d) else (True, changedRows, d))"

section \<open>ITable: columns and fields\<close>

text \<open>
  \<open>GetColumnValue\<close> assigns the field when the column has a value of its type and leaves it as
  it is otherwise; \<open>PutColumnValue\<close> stores a boolean as 0 or 1.
\<close>

fun GetColumnText :: "ValuesBucket \<Rightarrow> string \<Rightarrow> string \<Rightarrow> string" where
  "GetColumnText r c dflt = (case r c of Some (DbText s) \<Rightarrow> s | _ \<Rightarrow> dflt)"

fun GetColumnInt :: "ValuesBucket \<Rightarrow> string \<Rightarrow> int32_t \<Rightarrow> int32_t" where
  "GetColumnInt r c dflt = (case r c of Some (DbInt w) \<Rightarrow> w | _ \<Rightarrow> dflt)"

fun GetColumnLong :: "ValuesBucket \<Rightarrow> string \<Rightarrow> int64_t \<Rightarrow> int64_t" where
  "GetColumnLong r c dflt = (case r c of Some (DbLong w) \<Rightarrow> w | _ \<Rightarrow> dflt)"

text \<open>
  The boolean overload reads into an \<open>int32_t\<close> that starts as 0, so a column without an
  integer gives \<open>false\<close> and not the old value of the field.
\<close>

fun GetColumnBool :: "ValuesBucket \<Rightarrow> string \<Rightarrow> bool" where
  "GetColumnBool r c = (GetColumnInt r c 0 \<noteq> 0)"

definition PutColumnText :: "string \<Rightarrow> string \<Rightarrow> ValuesBucket \<Rightarrow> ValuesBucket" where
  "PutColumnText c v b = b(c \<mapsto> DbText v)"

definition PutColumnInt :: "string \<Rightarrow> int32_t \<Rightarrow> ValuesBucket \<Rightarrow> ValuesBucket" where
  "PutColumnInt c v b = b(c \<mapsto> DbInt v)"

definition PutColumnLong :: "string \<Rightarrow> int64_t \<Rightarrow> ValuesBucket \<Rightarrow> ValuesBucket" where
  "PutColumnLong c v b = b(c \<mapsto> DbLong v)"

definition PutColumnBool :: "string \<Rightarrow> bool \<Rightarrow> ValuesBucket \<Rightarrow> ValuesBucket" where
  "PutColumnBool c v b = b(c \<mapsto> DbInt (if v then 1 else 0))"

text \<open>The virtual functions of a table and the value \<open>T value;\<close> a row is parsed into.\<close>

record 'a ITable =
  it_GetTableName :: string
  it_new :: 'a
  it_ParseDbValue :: "ValuesBucket \<Rightarrow> 'a \<Rightarrow> 'a"
  it_BuildDbValue :: "'a \<Rightarrow> ValuesBucket"

definition ParseDbValues :: "'a ITable \<Rightarrow> ValuesBucket list \<Rightarrow> 'a list \<Rightarrow> 'a list" where
  "ParseDbValues T resultSet vs =
     foldl (\<lambda>vs r. vs @ [it_ParseDbValue T r (it_new T)]) vs resultSet"

definition BuildDbValues :: "'a ITable \<Rightarrow> 'a list \<Rightarrow> ValuesBucket list" where
  "BuildDbValues T vs = foldl (\<lambda>bs v. bs @ [it_BuildDbValue T v]) [] vs"

section \<open>TableBaseOperator\<close>

definition Table_Insert :: "'d RdbStore \<Rightarrow> 'a ITable \<Rightarrow> 'a list \<Rightarrow> 'd \<Rightarrow> bool \<times> 'd" where
  "Table_Insert S T vs d = SqliteDb_Insert S (it_GetTableName T) (BuildDbValues T vs) d"

definition Table_Insert1 :: "'d RdbStore \<Rightarrow> 'a ITable \<Rightarrow> 'a \<Rightarrow> 'd \<Rightarrow> bool \<times> 'd" where
  "Table_Insert1 S T v d = Table_Insert S T [v] d"

definition Table_Delete :: "'d RdbStore \<Rightarrow> RdbPredicates \<Rightarrow> 'd \<Rightarrow> bool \<times> int32_t \<times> 'd" where
  "Table_Delete S predicates d = SqliteDb_Delete S predicates d"

definition Table_DeleteAll :: "'d RdbStore \<Rightarrow> 'a ITable \<Rightarrow> 'd \<Rightarrow> bool \<times> 'd" where
  "Table_DeleteAll S T d =
     (let (ok, _, d) = Table_Delete S (RdbPredicates_of (it_GetTableName T)) d in (ok, d))"

definition Table_Query :: "'d RdbStore \<Rightarrow> 'a ITable \<Rightarrow> RdbPredicates \<Rightarrow> 'a list \<Rightarrow> 'd \<Rightarrow> bool \<times> 'a list" where
  "Table_Query S T predicates results d =
     (case SqliteDb_Query S predicates d of
        None \<Rightarrow> (False, results)
      | Some resultSet \<Rightarrow> (True, ParseDbValues T resultSet results))"

definition Table_QueryAll :: "'d RdbStore \<Rightarrow> 'a ITable \<Rightarrow> 'a list \<Rightarrow> 'd \<Rightarrow> bool \<times> 'a list" where
  "Table_QueryAll S T results d =
     Table_Query S T (RdbPredicates_of (it_GetTableName T)) results d"

definition Table_Update :: "'d RdbStore \<Rightarrow> ValuesBucket \<Rightarrow> RdbPredicates \<Rightarrow> 'd \<Rightarrow> bool \<times> 'd" where
  "Table_Update S vs predicates d =
     (let (ok, _, d) = SqliteDb_Update S vs predicates d in (ok, d))"

section \<open>What the code relies on\<close>

definition row_matches :: "RdbPredicates \<Rightarrow> ValuesBucket \<Rightarrow> bool" where
  "row_matches p r = list_all (\<lambda>(c, v). r c = Some (DbText v)) (rp_equalTo p)"

text \<open>
  The laws of the store: a call that returns \<open>E_OK\<close> has the effect its name says on the rows
  of its table and none on other tables, inserted rows get an id of the store's choosing, and
  a call that returns another code leaves every row as it was. Equality predicates are used
  on text columns only.
\<close>

locale rdb_store =
  fixes S :: "'d RdbStore"
    and rows :: "'d \<Rightarrow> string \<Rightarrow> ValuesBucket list"
  assumes insert_effect: "rdb_BatchInsert S t bs d = (E_OK, n, d') \<Longrightarrow>
        \<exists>ids. length ids = length bs \<and>
          rows d' = (rows d)(t := rows d t @ map2 (\<lambda>i b. b(COLUMN_ID \<mapsto> DbInt i)) ids bs)"
    and insert_fail: "rdb_BatchInsert S t bs d = (ret, n, d') \<Longrightarrow> ret \<noteq> E_OK \<Longrightarrow> rows d' = rows d"
    and delete_effect: "rdb_Delete S p d = (E_OK, k, d') \<Longrightarrow>
        rows d' = (rows d)(rp_table p := filter (\<lambda>r. \<not> row_matches p r) (rows d (rp_table p)))"
    and delete_fail: "rdb_Delete S p d = (ret, k, d') \<Longrightarrow> ret \<noteq> E_OK \<Longrightarrow> rows d' = rows d"
    and update_effect: "rdb_Update S b p d = (E_OK, k, d') \<Longrightarrow>
        rows d' = (rows d)(rp_table p :=
          map (\<lambda>r. if row_matches p r then r ++ b else r) (rows d (rp_table p)))"
    and update_fail: "rdb_Update S b p d = (ret, k, d') \<Longrightarrow> ret \<noteq> E_OK \<Longrightarrow> rows d' = rows d"
    and query_result: "rdb_Query S p d = Some rs \<Longrightarrow> rs = filter (row_matches p) (rows d (rp_table p))"

text \<open>A store that can be opened and whose calls succeed.\<close>

locale rdb_reliable = rdb_store +
  assumes opens: "rdb_open S d"
    and insert_ok: "fst (rdb_BatchInsert S t bs d) = E_OK"
    and delete_ok: "fst (rdb_Delete S p d) = E_OK"
    and update_ok: "fst (rdb_Update S b p d) = E_OK"
    and query_ok: "rdb_Query S p d \<noteq> None"
begin

lemma Insert_rows:
  "\<exists>ids. length ids = length bs \<and> fst (SqliteDb_Insert S t bs d) \<and>
     rows (snd (SqliteDb_Insert S t bs d)) =
       (rows d)(t := rows d t @ map2 (\<lambda>i b. b(COLUMN_ID \<mapsto> DbInt i)) ids bs)"
  using insert_effect [of t bs d] insert_ok [of t bs d]
  by (cases "rdb_BatchInsert S t bs d") (auto simp: SqliteDb_Insert_def opens)

lemma Delete_rows:
  "fst (SqliteDb_Delete S p d)"
  "rows (snd (snd (SqliteDb_Delete S p d))) =
     (rows d)(rp_table p := filter (\<lambda>r. \<not> row_matches p r) (rows d (rp_table p)))"
  using delete_effect [of p d] delete_ok [of p d]
  by (cases "rdb_Delete S p d"; auto simp: SqliteDb_Delete_def opens)+

lemma Update_rows:
  "fst (SqliteDb_Update S b p d)"
  "rows (snd (snd (SqliteDb_Update S b p d))) =
     (rows d)(rp_table p := map (\<lambda>r. if row_matches p r then r ++ b else r) (rows d (rp_table p)))"
  using update_effect [of b p d] update_ok [of b p d]
  by (cases "rdb_Update S b p d"; auto simp: SqliteDb_Update_def opens)+

lemma Query_rows: "SqliteDb_Query S p d = Some (filter (row_matches p) (rows d (rp_table p)))"
  using query_result [of p d] query_ok [of p d] by (auto simp: SqliteDb_Query_def opens)

end

lemma ParseDbValues_map: "ParseDbValues T rs vs = vs @ map (\<lambda>r. it_ParseDbValue T r (it_new T)) rs"
  unfolding ParseDbValues_def by (induction rs arbitrary: vs) simp_all

lemma BuildDbValues_map: "BuildDbValues T vs = map (it_BuildDbValue T) vs"
proof -
  have "foldl (\<lambda>bs v. bs @ [it_BuildDbValue T v]) bs vs = bs @ map (it_BuildDbValue T) vs" for bs
    by (induction vs arbitrary: bs) simp_all
  then show ?thesis by (simp add: BuildDbValues_def)
qed

lemma row_matches_single: "row_matches (EqualTo c v (RdbPredicates_of t)) r \<longleftrightarrow> r c = Some (DbText v)"
  by (simp add: row_matches_def EqualTo_def RdbPredicates_of_def)

lemma rp_table_simps [simp]: "rp_table (RdbPredicates_of t) = t" "rp_table (EqualTo c v p) = rp_table p"
  by (simp_all add: RdbPredicates_of_def EqualTo_def)

lemma row_matches_all [simp]: "row_matches (RdbPredicates_of t) r"
  by (simp add: row_matches_def RdbPredicates_of_def)

section \<open>Typed tables\<close>

text \<open>
  A table over a reliable store. \<open>row_ok\<close> holds on the rows the table's own operations write;
  \<open>written x i\<close> is the struct that comes back when \<open>x\<close> was inserted and got id \<open>i\<close>.
\<close>

locale typed_table = rdb_reliable S rows
  for S :: "'d RdbStore" and rows :: "'d \<Rightarrow> string \<Rightarrow> ValuesBucket list" +
  fixes T :: "'a ITable"
    and row_ok :: "ValuesBucket \<Rightarrow> bool"
    and storable :: "'a \<Rightarrow> bool"
    and written :: "'a \<Rightarrow> int32_t \<Rightarrow> 'a"
  assumes row_ok_build: "row_ok ((it_BuildDbValue T x)(COLUMN_ID \<mapsto> DbInt i))"
    and parse_build: "storable x \<Longrightarrow>
      it_ParseDbValue T ((it_BuildDbValue T x)(COLUMN_ID \<mapsto> DbInt i)) (it_new T) = written x i"
begin

definition parse :: "ValuesBucket \<Rightarrow> 'a" where
  "parse r = it_ParseDbValue T r (it_new T)"

definition contents :: "'d \<Rightarrow> 'a list" where
  "contents d = map parse (rows d (it_GetTableName T))"

definition typed :: "'d \<Rightarrow> bool" where
  "typed d = list_all row_ok (rows d (it_GetTableName T))"

lemma QueryAll: "Table_QueryAll S T acc d = (True, acc @ contents d)"
  by (simp add: Table_QueryAll_def Table_Query_def Query_rows ParseDbValues_map contents_def
      parse_def [abs_def])

lemma DeleteAll:
  "fst (Table_DeleteAll S T d)" "contents (snd (Table_DeleteAll S T d)) = []"
  "typed (snd (Table_DeleteAll S T d))"
  "t \<noteq> it_GetTableName T \<Longrightarrow> rows (snd (Table_DeleteAll S T d)) t = rows d t"
  using Delete_rows [of "RdbPredicates_of (it_GetTableName T)" d]
  by (auto simp: Table_DeleteAll_def Table_Delete_def split_beta contents_def typed_def)

lemma Insert:
  assumes "list_all storable xs"
  shows "\<exists>ids. length ids = length xs \<and> fst (Table_Insert S T xs d) \<and>
    contents (snd (Table_Insert S T xs d)) = contents d @ map2 written xs ids \<and>
    (typed d \<longrightarrow> typed (snd (Table_Insert S T xs d))) \<and>
    (\<forall>t. t \<noteq> it_GetTableName T \<longrightarrow> rows (snd (Table_Insert S T xs d)) t = rows d t)"
proof -
  obtain ids where len: "length ids = length xs" and ok: "fst (Table_Insert S T xs d)"
    and rs: "rows (snd (Table_Insert S T xs d)) = (rows d)(it_GetTableName T :=
        rows d (it_GetTableName T) @
        map2 (\<lambda>i b. b(COLUMN_ID \<mapsto> DbInt i)) ids (map (it_BuildDbValue T) xs))"
    using Insert_rows [of "map (it_BuildDbValue T) xs" "it_GetTableName T" d]
    by (auto simp: Table_Insert_def BuildDbValues_map)
  have "map parse (map2 (\<lambda>i b. b(COLUMN_ID \<mapsto> DbInt i)) ids (map (it_BuildDbValue T) xs)) =
      map2 written xs ids"
    using len assms
    by (induction ids xs rule: list_induct2) (simp_all add: parse_def parse_build)
  moreover have "list_all row_ok (map2 (\<lambda>i b. b(COLUMN_ID \<mapsto> DbInt i)) ids (map (it_BuildDbValue T) xs))"
    using len by (induction ids xs rule: list_induct2) (simp_all add: row_ok_build [unfolded fun_upd_def])
  ultimately show ?thesis
    using len ok rs by (intro exI [of _ ids]) (simp add: contents_def typed_def)
qed

text \<open>An update through a text key column, seen on the structs.\<close>

lemma Update_key:
  assumes "typed d"
    and key: "\<And>r. row_ok r \<Longrightarrow> r c = Some (DbText v) \<longleftrightarrow> k (parse r) = v"
    and upd: "\<And>r. row_ok r \<Longrightarrow> parse (r ++ b) = u (parse r) \<and> row_ok (r ++ b)"
  defines "d' \<equiv> snd (Table_Update S b (EqualTo c v (RdbPredicates_of (it_GetTableName T))) d)"
  shows "fst (Table_Update S b (EqualTo c v (RdbPredicates_of (it_GetTableName T))) d)"
    and "contents d' = map (\<lambda>x. if k x = v then u x else x) (contents d)"
    and "typed d'"
    and "t \<noteq> it_GetTableName T \<Longrightarrow> rows d' t = rows d t"
proof -
  let ?p = "EqualTo c v (RdbPredicates_of (it_GetTableName T))"
  have rs: "rows d' = (rows d)(it_GetTableName T :=
      map (\<lambda>r. if r c = Some (DbText v) then r ++ b else r) (rows d (it_GetTableName T)))"
    using Update_rows(2) [of b ?p d] by (simp add: d'_def Table_Update_def split_beta row_matches_single)
  show "fst (Table_Update S b ?p d)"
    using Update_rows(1) [of b ?p d] by (simp add: Table_Update_def split_beta)
  show "contents d' = map (\<lambda>x. if k x = v then u x else x) (contents d)"
    using assms(1) by (auto simp: rs contents_def typed_def list_all_iff key upd)
  show "typed d'"
    using assms(1) by (auto simp: rs typed_def list_all_iff upd)
  show "t \<noteq> it_GetTableName T \<Longrightarrow> rows d' t = rows d t"
    by (simp add: rs)
qed

text \<open>A query through a text key column.\<close>

lemma Query_key:
  assumes "typed d" and key: "\<And>r. row_ok r \<Longrightarrow> r c = Some (DbText v) \<longleftrightarrow> k (parse r) = v"
  shows "Table_Query S T (EqualTo c v (RdbPredicates_of (it_GetTableName T))) acc d =
    (True, acc @ filter (\<lambda>x. k x = v) (contents d))"
proof -
  have "map parse (filter (\<lambda>r. r c = Some (DbText v)) rs) = filter (\<lambda>x. k x = v) (map parse rs)"
    if "list_all row_ok rs" for rs
    using that by (induction rs) (simp_all add: key)
  then show ?thesis
    using assms(1) unfolding typed_def
    by (simp add: Table_Query_def Query_rows ParseDbValues_map contents_def row_matches_single [abs_def]
        parse_def [abs_def])
qed

end

section \<open>A store as lists of rows\<close>

text \<open>A concrete store: the tables as lists of rows and the next id.\<close>

type_synonym list_db = "(string \<Rightarrow> ValuesBucket list) \<times> int32_t"

definition list_store :: "list_db RdbStore" where
  "list_store =
     \<lparr>rdb_open = \<lambda>d. True,
      rdb_BatchInsert = \<lambda>t bs (rows, n).
        (E_OK, of_nat (length bs),
         (rows(t := rows t @ map2 (\<lambda>i b. b(COLUMN_ID \<mapsto> DbInt (n + of_nat i))) [0..<length bs] bs),
          n + of_nat (length bs))),
      rdb_Delete = \<lambda>p (rows, n).
        (E_OK, of_nat (length (filter (row_matches p) (rows (rp_table p)))),
         (rows(rp_table p := filter (\<lambda>r. \<not> row_matches p r) (rows (rp_table p))), n)),
      rdb_Update = \<lambda>b p (rows, n).
        (E_OK, of_nat (length (filter (row_matches p) (rows (rp_table p)))),
         (rows(rp_table p := map (\<lambda>r. if row_matches p r then r ++ b else r) (rows (rp_table p))), n)),
      rdb_Query = \<lambda>p (rows, n). Some (filter (row_matches p) (rows (rp_table p)))\<rparr>"

definition empty_list_db :: list_db where
  "empty_list_db = (\<lambda>_. [], 1)"

interpretation ls: rdb_reliable list_store fst
proof (unfold_locales, goal_cases)
  case (1 t bs d n d')
  then show ?case
    by (intro exI [of _ "map (\<lambda>i. snd d + of_nat i) [0..<length bs]"])
      (auto simp: list_store_def split_beta zip_map1 comp_def)
qed (auto simp: list_store_def split_beta)

end
