(* ===== verification/String_Utils.thy ===== *)
theory String_Utils
  imports Update_Prelude
begin

text \<open>
  The string helpers the service computes with: \<open>StringUtils\<close>
  (\<open>services/core/ability/utils/include/string_utils.h\<close>) and the version arithmetic of
  \<open>CombinePackageVersionUtils\<close> (\<open>services/firmware/utils/src/firmware_combine_version_utils.cpp\<close>),
  over the operations of \<open>std::string\<close> they use. Positions are natural numbers, \<open>npos\<close> is
  \<open>None\<close>, and lengths computed by subtraction wrap as \<open>size_t\<close> does.
\<close>

section \<open>Operations of std::string\<close>

definition find_from :: "(char \<Rightarrow> bool) \<Rightarrow> string \<Rightarrow> nat \<Rightarrow> nat option" where
  "find_from P s pos =
     (let n = length (takeWhile (\<lambda>c. \<not> P c) (drop pos s))
      in if pos + n < length s then Some (pos + n) else None)"

definition find_char :: "string \<Rightarrow> char \<Rightarrow> nat \<Rightarrow> nat option" where
  "find_char s c pos = find_from (\<lambda>x. x = c) s pos"

definition find_first_not_of :: "string \<Rightarrow> char \<Rightarrow> nat \<Rightarrow> nat option" where
  "find_first_not_of s c pos = find_from (\<lambda>x. x \<noteq> c) s pos"

definition find_last_of :: "string \<Rightarrow> string \<Rightarrow> nat option" where
  "find_last_of s cs =
     (let n = length (takeWhile (\<lambda>c. c \<notin> set cs) (rev s))
      in if n < length s then Some (length s - 1 - n) else None)"

fun is_prefix :: "string \<Rightarrow> string \<Rightarrow> bool" where
  "is_prefix [] ys = True"
| "is_prefix (x # xs) [] = False"
| "is_prefix (x # xs) (y # ys) = (x = y \<and> is_prefix xs ys)"

fun find_str0 :: "string \<Rightarrow> string \<Rightarrow> nat option" where
  "find_str0 sub [] = (if sub = [] then Some 0 else None)"
| "find_str0 sub (y # ys) =
     (if is_prefix sub (y # ys) then Some 0 else map_option Suc (find_str0 sub ys))"

definition find_str :: "string \<Rightarrow> string \<Rightarrow> nat \<Rightarrow> nat option" where
  "find_str s sub pos =
     (if length s < pos then None else map_option (\<lambda>n. pos + n) (find_str0 sub (drop pos s)))"

definition substr :: "string \<Rightarrow> nat \<Rightarrow> nat \<Rightarrow> string" where
  "substr s pos len = take len (drop pos s)"

definition size_minus :: "nat \<Rightarrow> nat \<Rightarrow> nat" where
  "size_minus a b = unat (of_nat a - of_nat b :: size_t)"

definition is_space :: "char \<Rightarrow> bool" where
  "is_space c \<longleftrightarrow> c = CHR '' '' \<or> (9 \<le> (of_char c :: nat) \<and> (of_char c :: nat) \<le> 13)"

definition is_digit :: "char \<Rightarrow> bool" where
  "is_digit c \<longleftrightarrow> 48 \<le> (of_char c :: nat) \<and> (of_char c :: nat) \<le> 57"

section \<open>Numbers and strings\<close>

fun digits_of :: "nat \<Rightarrow> string" where
  "digits_of n =
     (if n < 10 then [char_of (48 + n)] else digits_of (n div 10) @ [char_of (48 + n mod 10)])"

declare digits_of.simps [simp del]

definition to_string_int :: "int \<Rightarrow> string" where
  "to_string_int i = (if i < 0 then CHR ''-'' # digits_of (nat (- i)) else digits_of (nat i))"

definition to_string :: "int32_t \<Rightarrow> string" where
  "to_string w = to_string_int (sint w)"

definition to_string64 :: "int64_t \<Rightarrow> string" where
  "to_string64 w = to_string_int (sint w)"

definition digits_value :: "string \<Rightarrow> int" where
  "digits_value ds = foldl (\<lambda>v c. 10 * v + (of_char c - 48)) 0 ds"

text \<open>The number at the front of a string, after white space and an optional sign.\<close>

definition leading_int :: "string \<Rightarrow> int option" where
  "leading_int s =
     (let s = dropWhile is_space s;
          (neg, s) = (case s of c # r \<Rightarrow> if c = CHR ''-'' then (True, r)
                        else if c = CHR ''+'' then (False, r) else (False, s) | [] \<Rightarrow> (False, s));
          ds = takeWhile is_digit s
      in if ds = [] then None else Some (if neg then - digits_value ds else digits_value ds))"

text \<open>
  \<open>stoi\<close> throws when there is no number or it does not fit; \<open>atoi\<close> gives 0 when there is no
  number, and its result is unspecified when it does not fit (here the value modulo \<open>2 ^ 32\<close>).
\<close>

definition stoi :: "string \<Rightarrow> int32_t option" where
  "stoi s = (case leading_int s of None \<Rightarrow> None
     | Some i \<Rightarrow> if - (2 ^ 31) \<le> i \<and> i < 2 ^ 31 then Some (of_int i) else None)"

definition atoi :: "string \<Rightarrow> int32_t" where
  "atoi s = (case leading_int s of None \<Rightarrow> 0 | Some i \<Rightarrow> of_int i)"

section \<open>StringUtils\<close>

definition LTrim :: "string \<Rightarrow> string" where
  "LTrim s = dropWhile is_space s"

definition RTrim :: "string \<Rightarrow> string" where
  "RTrim s = rev (dropWhile is_space (rev s))"

definition Trim :: "string \<Rightarrow> string" where
  "Trim s = RTrim (LTrim s)"

lemma find_from_bounds: "find_from P s pos = Some i \<Longrightarrow> pos \<le> i \<and> i < length s"
  by (auto simp: find_from_def Let_def split: if_splits)

lemma nth_after_takeWhile:
  "length (takeWhile Q xs) < length xs \<Longrightarrow> \<not> Q (xs ! length (takeWhile Q xs))"
  by (induction xs) auto

lemma find_from_holds: "find_from P s pos = Some i \<Longrightarrow> P (s ! i)"
proof -
  assume "find_from P s pos = Some i"
  then have i: "i = pos + length (takeWhile (\<lambda>c. \<not> P c) (drop pos s))" and "i < length s"
    by (auto simp: find_from_def Let_def split: if_splits)
  then show "P (s ! i)"
    using nth_after_takeWhile [of "\<lambda>c. \<not> P c" "drop pos s"] by simp
qed

function split_loop :: "string \<Rightarrow> char \<Rightarrow> nat \<Rightarrow> string list" where
  "split_loop s d e =
     (case find_first_not_of s d e of
        None \<Rightarrow> []
      | Some start \<Rightarrow>
          (case find_char s d start of
             None \<Rightarrow> [drop start s]
           | Some e' \<Rightarrow> substr s start (e' - start) # split_loop s d e'))"
  by pat_completeness auto
termination
proof (relation "measure (\<lambda>(s, d, e). length s - e)", simp)
  fix s d e start e'
  assume "find_first_not_of s d e = Some start" and "find_char s d start = Some e'"
  then have "e \<le> start" "s ! start \<noteq> d" "start \<le> e'" "s ! e' = d" "e' < length s"
    using find_from_bounds [of "\<lambda>x. x \<noteq> d" s e start] find_from_holds [of "\<lambda>x. x \<noteq> d" s e start]
      find_from_bounds [of "\<lambda>x. x = d" s start e'] find_from_holds [of "\<lambda>x. x = d" s start e']
    by (simp_all add: find_first_not_of_def find_char_def)
  then have "e < e'" by (cases "start = e'") auto
  then show "((s, d, e'), s, d, e) \<in> measure (\<lambda>(s, d, e). length s - e)"
    using \<open>e' < length s\<close> by simp
qed

declare split_loop.simps [simp del]

definition Split :: "string \<Rightarrow> char \<Rightarrow> string list" where
  "Split str delimiter = split_loop str delimiter 0"

definition GetBoolStr :: "bool \<Rightarrow> string" where
  "GetBoolStr isTrue = (if isTrue then ''true'' else ''false'')"

text \<open>The third argument of \<open>substr\<close> is a length; the code passes the end index.\<close>

definition SafeSubString :: "string \<Rightarrow> int32_t \<Rightarrow> int32_t \<Rightarrow> string \<Rightarrow> string" where
  "SafeSubString sourceStr beginIndex endIndex defaultStr =
     (if sourceStr = [] then defaultStr
      else if sint beginIndex < 0 \<or> length sourceStr < unat (size_of_int32 endIndex)
            \<or> sint endIndex < sint beginIndex then defaultStr
      else substr sourceStr (nat (sint beginIndex)) (nat (sint endIndex)))"

definition GetEnumValueString :: "string \<Rightarrow> string" where
  "GetEnumValueString enumItem =
     (case find_str enumItem ''::'' 0 of
        None \<Rightarrow> []
      | Some split \<Rightarrow> substr enumItem (split + 2) (length enumItem))"

definition GetLastSplitString :: "string \<Rightarrow> string \<Rightarrow> string" where
  "GetLastSplitString stringName splitStr =
     (case find_last_of stringName splitStr of
        None \<Rightarrow> []
      | Some found \<Rightarrow> substr stringName (found + 1) (length stringName))"

partial_function (option) replace_loop :: "string \<Rightarrow> string \<Rightarrow> string \<Rightarrow> nat \<Rightarrow> string option" where
  "replace_loop sub new result pos =
     (case find_str result sub pos of
        None \<Rightarrow> Some result
      | Some p \<Rightarrow>
          replace_loop sub new (take p result @ new @ drop (p + length sub) result) (p + length new))"

definition ReplaceStringAll :: "string \<Rightarrow> string \<Rightarrow> string \<Rightarrow> string option" where
  "ReplaceStringAll srcString subString newString = replace_loop subString newString srcString 0"

definition StringRemove :: "string \<Rightarrow> string \<Rightarrow> string \<Rightarrow> string" where
  "StringRemove sourceString startString endString =
     (if sourceString = [] then sourceString
      else
        (case find_str sourceString startString 0 of
           None \<Rightarrow> sourceString
         | Some indexStart \<Rightarrow>
             (case find_str sourceString endString indexStart of
                None \<Rightarrow> sourceString
              | Some indexEnd \<Rightarrow>
                  substr sourceString 0 indexStart @
                  substr sourceString (indexEnd + length endString) (length sourceString))))"

section \<open>CombinePackageVersionUtils\<close>

definition HandleBaseVersion :: "string \<Rightarrow> string" where
  "HandleBaseVersion baseVersion =
     (case find_char baseVersion CHR '' '' 0 of
        None \<Rightarrow> []
      | Some start \<Rightarrow>
          (case find_char baseVersion CHR ''('' 0 of
             None \<Rightarrow> drop start baseVersion
           | Some e \<Rightarrow> substr baseVersion start (size_minus e start)))"

text \<open>The scan for the run of digits; it ends because \<open>mid\<close> grows to \<open>end\<close>.\<close>

function log_scan :: "string \<Rightarrow> nat \<Rightarrow> nat \<Rightarrow> bool \<Rightarrow> nat \<times> bool" where
  "log_scan s e mid isNumbers =
     (if mid < e then
        (let mid = mid + 1 in
         if is_digit (s ! mid) then log_scan s e mid True
         else if isNumbers then (mid, isNumbers) else log_scan s e mid isNumbers)
      else (mid, isNumbers))"
  by pat_completeness auto
termination
  by (relation "measure (\<lambda>(s, e, mid, b). e - mid)") auto

declare log_scan.simps [simp del]

definition HandleBaseVersionLog :: "string \<Rightarrow> string \<times> string \<Rightarrow> string \<times> string" where
  "HandleBaseVersionLog baseVersion baseAndLog =
     (case (find_last_of baseVersion ''('', find_last_of baseVersion '')'') of
        (Some start, Some e) \<Rightarrow>
          (let start = start + 1;
               (mid, isNumbers) = log_scan baseVersion e start False
           in if mid = e \<and> \<not> isNumbers then ([], substr baseVersion start (size_minus mid start))
              else (substr baseVersion start (size_minus mid start),
                    substr baseVersion mid (size_minus e mid)))
      | _ \<Rightarrow> baseAndLog)"

definition HandleCustVersion :: "string \<Rightarrow> string" where
  "HandleCustVersion custVersion =
     (case (find_last_of custVersion ''('', find_last_of custVersion '')'', find_last_of custVersion ''.'') of
        (Some mid, Some e, Some start) \<Rightarrow>
          substr custVersion (mid + 1) (size_minus (size_minus e mid) 1) @ ''E'' @
          substr custVersion (start + 1) (size_minus (size_minus mid start) 1)
      | _ \<Rightarrow> [])"

definition HandlePreloadVersion :: "string \<Rightarrow> string" where
  "HandlePreloadVersion preloadVersion =
     (case (find_last_of preloadVersion ''R'', find_last_of preloadVersion '')'') of
        (Some start, Some e) \<Rightarrow>
          (let preload = substr preloadVersion start (size_minus e start) in
           (case (find_last_of preloadVersion ''.'', find_last_of preloadVersion ''('') of
              (Some start, Some e) \<Rightarrow>
                preload @ ''P'' @ substr preloadVersion (start + 1) (size_minus (size_minus e start) 1)
            | _ \<Rightarrow> []))
      | _ \<Rightarrow> [])"

definition GetPackageVersion :: "string \<Rightarrow> string \<Rightarrow> string \<Rightarrow> string \<Rightarrow> string" where
  "GetPackageVersion deviceName baseVersion custVersion preloadVersion =
     (let base = HandleBaseVersion baseVersion;
          (baseLog, log) = HandleBaseVersionLog baseVersion ([], []);
          cust = HandleCustVersion custVersion;
          preload = HandlePreloadVersion preloadVersion
      in deviceName @ base @ ''('' @ baseLog @ cust @ preload @ log @ '')'')"

section \<open>Lemmas\<close>

lemma takeWhile_holds: "k < length (takeWhile Q xs) \<Longrightarrow> Q (xs ! k)"
  by (metis nth_mem set_takeWhileD takeWhile_nth)

lemma find_from_between:
  assumes "find_from P s pos = Some i" and "pos \<le> j" and "j < i"
  shows "\<not> P (s ! j)"
proof -
  have "i = pos + length (takeWhile (\<lambda>c. \<not> P c) (drop pos s))" "i < length s"
    using assms(1) by (auto simp: find_from_def Let_def split: if_splits)
  then show ?thesis
    using takeWhile_holds [of "j - pos" "\<lambda>c. \<not> P c" "drop pos s"] assms(2,3) by simp
qed

lemma find_from_None:
  assumes "find_from P s pos = None" and "pos \<le> j" and "j < length s"
  shows "\<not> P (s ! j)"
proof -
  have "length s \<le> pos + length (takeWhile (\<lambda>c. \<not> P c) (drop pos s))"
    using assms(1) by (auto simp: find_from_def Let_def split: if_splits)
  then show ?thesis
    using takeWhile_holds [of "j - pos" "\<lambda>c. \<not> P c" "drop pos s"] assms(2,3) by simp
qed

lemma filter_drop_substr:
  assumes "a \<le> b" and "b \<le> length s" and "\<And>j. a \<le> j \<Longrightarrow> j < b \<Longrightarrow> P (s ! j)"
  shows "filter P (drop a s) = take (b - a) (drop a s) @ filter P (drop b s)"
proof -
  have "drop a s = take (b - a) (drop a s) @ drop b s"
    using assms(1) by (metis append_take_drop_id drop_drop le_add_diff_inverse2)
  moreover have "filter P (take (b - a) (drop a s)) = take (b - a) (drop a s)"
    using assms by (auto simp: filter_id_conv in_set_conv_nth)
  ultimately show ?thesis by (metis filter_append)
qed

lemma filter_drop_skip:
  assumes "a \<le> b" and "b \<le> length s" and "\<And>j. a \<le> j \<Longrightarrow> j < b \<Longrightarrow> \<not> P (s ! j)"
  shows "filter P (drop a s) = filter P (drop b s)"
proof -
  have "drop a s = take (b - a) (drop a s) @ drop b s"
    using assms(1) by (metis append_take_drop_id drop_drop le_add_diff_inverse2)
  moreover have "filter P (take (b - a) (drop a s)) = []"
    using assms by (auto simp: filter_empty_conv in_set_conv_nth)
  ultimately show ?thesis by (metis filter_append append_Nil)
qed

lemma split_loop_correct:
  "concat (split_loop s d e) = filter (\<lambda>c. c \<noteq> d) (drop e s) \<and>
   (\<forall>t \<in> set (split_loop s d e). t \<noteq> [] \<and> d \<notin> set t)"
proof (induction s d e rule: split_loop.induct)
  case (1 s d e)
  show ?case
  proof (cases "find_first_not_of s d e")
    case None
    then have "\<And>j. e \<le> j \<Longrightarrow> j < length s \<Longrightarrow> s ! j = d"
      using find_from_None [of "\<lambda>x. x \<noteq> d" s e] by (auto simp: find_first_not_of_def)
    then have "filter (\<lambda>c. c \<noteq> d) (drop e s) = []"
      by (auto simp: filter_empty_conv in_set_conv_nth)
    then show ?thesis by (simp add: split_loop.simps [of s d e] None)
  next
    case (Some start)
    then have start: "e \<le> start" "start < length s" "s ! start \<noteq> d"
      using find_from_bounds [of "\<lambda>x. x \<noteq> d" s e start] find_from_holds [of "\<lambda>x. x \<noteq> d" s e start]
      by (simp_all add: find_first_not_of_def)
    have skip: "filter (\<lambda>c. c \<noteq> d) (drop e s) = filter (\<lambda>c. c \<noteq> d) (drop start s)"
      using start find_from_between [of "\<lambda>x. x \<noteq> d" s e start] Some
      by (intro filter_drop_skip) (auto simp: find_first_not_of_def)
    show ?thesis
    proof (cases "find_char s d start")
      case None
      then have "\<And>j. start \<le> j \<Longrightarrow> j < length s \<Longrightarrow> s ! j \<noteq> d"
        using find_from_None [of "\<lambda>x. x = d" s start] by (auto simp: find_char_def)
      then have "d \<notin> set (drop start s)" by (auto simp: in_set_conv_nth)
      moreover from this have "filter (\<lambda>c. c \<noteq> d) (drop start s) = drop start s"
        by (auto simp: filter_id_conv)
      ultimately show ?thesis
        using start skip by (auto simp: split_loop.simps [of s d e] Some None)
    next
      case (Some e')
      note fc = this
      then have e': "start \<le> e'" "e' < length s" "s ! e' = d"
        using find_from_bounds [of "\<lambda>x. x = d" s start e'] find_from_holds [of "\<lambda>x. x = d" s start e']
        by (simp_all add: find_char_def)
      have tok: "\<And>j. start \<le> j \<Longrightarrow> j < e' \<Longrightarrow> s ! j \<noteq> d"
        using find_from_between [of "\<lambda>x. x = d" s start e'] fc by (auto simp: find_char_def)
      have "start < e'" using start e' by (cases "start = e'") auto
      then have "substr s start (e' - start) \<noteq> [] \<and> d \<notin> set (substr s start (e' - start))"
        using tok start e' by (auto simp: substr_def in_set_conv_nth)
      moreover have "filter (\<lambda>c. c \<noteq> d) (drop start s) =
          substr s start (e' - start) @ filter (\<lambda>c. c \<noteq> d) (drop e' s)"
        unfolding substr_def using start e' tok by (intro filter_drop_substr) auto
      ultimately show ?thesis
        using "1.IH" [OF \<open>find_first_not_of s d e = Some start\<close> fc] skip
        by (simp add: split_loop.simps [of s d e] \<open>find_first_not_of s d e = Some start\<close> fc)
    qed
  qed
qed

text \<open>
  \<open>Split\<close> loses nothing and invents nothing: its tokens are not empty, contain no
  delimiter, and their concatenation is the string without the delimiters.
\<close>

theorem Split_tokens:
  "concat (Split s d) = filter (\<lambda>c. c \<noteq> d) s \<and> (\<forall>t \<in> set (Split s d). t \<noteq> [] \<and> d \<notin> set t)"
  using split_loop_correct [of s d 0] by (simp add: Split_def)

theorem Split_tokens_witness:
  "concat (Split ''a|bc||d'' CHR ''|'') = ''abcd'' \<and> [] \<notin> set (Split ''a|bc||d'' CHR ''|'')"
  using Split_tokens [of "''a|bc||d''" "CHR ''|''"] by auto

subsection \<open>Replacement\<close>

lemma is_prefix_append: "is_prefix xs ys \<longleftrightarrow> (\<exists>zs. ys = xs @ zs)"
  by (induction xs ys rule: is_prefix.induct) auto

lemma find_str0_bound: "find_str0 sub s = Some n \<Longrightarrow> n + length sub \<le> length s"
  by (induction s arbitrary: n) (auto simp: is_prefix_append split: if_splits dest: arg_cong [of _ _ length])

text \<open>Reference: scan once, replacing every occurrence met.\<close>

function replace_ref :: "string \<Rightarrow> string \<Rightarrow> string \<Rightarrow> string" where
  "replace_ref sub new s =
     (if sub = [] then s
      else
        (case find_str0 sub s of
           None \<Rightarrow> s
         | Some n \<Rightarrow> take n s @ new @ replace_ref sub new (drop (n + length sub) s)))"
  by pat_completeness auto
termination
  by (relation "measure (\<lambda>(sub, new, s). length s)")
    (auto dest!: find_str0_bound simp: neq_Nil_conv)

declare replace_ref.simps [simp del]

lemma find_str_append:
  "find_str (done @ rest) sub (length done) = map_option (\<lambda>n. length done + n) (find_str0 sub rest)"
  by (simp add: find_str_def)

lemma replace_loop_ref:
  assumes "sub \<noteq> []"
  shows "replace_loop sub new (done @ rest) (length done) = Some (done @ replace_ref sub new rest)"
  using assms
proof (induction sub new rest arbitrary: "done" rule: replace_ref.induct)
  case (1 sub new rest)
  show ?case
  proof (cases "find_str0 sub rest")
    case None
    then show ?thesis
      by (simp add: replace_loop.simps [of sub] replace_ref.simps [of sub new rest] find_str_append "1.prems")
  next
    case (Some n)
    have "n \<le> length rest" using find_str0_bound [OF Some] by simp
    moreover have "replace_loop sub new ((done @ take n rest @ new) @ drop (n + length sub) rest)
        (length (done @ take n rest @ new)) =
      Some ((done @ take n rest @ new) @ replace_ref sub new (drop (n + length sub) rest))"
      using "1.IH" [OF "1.prems" Some "1.prems"] .
    ultimately show ?thesis
      using "1.prems"
      by (simp add: replace_loop.simps [of sub new "done @ rest"] replace_ref.simps [of sub new rest]
          find_str_append Some ac_simps)
  qed
qed

lemma replace_loop_diverges:
  assumes "replace_loop sub new result pos = Some r"
  shows "sub = [] \<Longrightarrow> new \<noteq> [] \<Longrightarrow> pos \<le> length result \<Longrightarrow> False"
  using assms
proof (induction rule: replace_loop.raw_induct [rotated 1, consumes 1])
  case (1 loop sub new result pos r)
  have "find_str0 [] xs = Some 0" for xs by (cases xs) simp_all
  with 1(1) [of sub new "take pos result @ new @ drop pos result" "pos + length new" r] 1(2-)
  show ?case by (auto simp: find_str_def split: option.splits)
qed

text \<open>
  \<open>ReplaceStringAll\<close> returns for every non-empty pattern, with every occurrence met from
  left to right replaced and the inserted text not scanned again; with an empty pattern and a
  non-empty replacement the loop never ends.
\<close>

theorem ReplaceStringAll_result:
  "(sub \<noteq> [] \<longrightarrow> ReplaceStringAll s sub new = Some (replace_ref sub new s)) \<and>
   (sub = [] \<and> new \<noteq> [] \<longrightarrow> ReplaceStringAll s sub new = None)"
proof (intro conjI impI)
  assume "sub \<noteq> []"
  then show "ReplaceStringAll s sub new = Some (replace_ref sub new s)"
    using replace_loop_ref [of sub new "[]" s] by (simp add: ReplaceStringAll_def)
next
  assume *: "sub = [] \<and> new \<noteq> []"
  show "ReplaceStringAll s sub new = None"
  proof (cases "replace_loop sub new s 0")
    case (Some r)
    then show ?thesis using replace_loop_diverges [OF Some] * by simp
  qed (simp add: ReplaceStringAll_def)
qed

theorem ReplaceStringAll_result_witness:
  "ReplaceStringAll ''quotaAquotaquot'' ''quota'' ''#'' = Some ''#A#quot'' \<and>
   ReplaceStringAll ''x'' [] ''y'' = None"
  using ReplaceStringAll_result [of "''quota''" "''quotaAquotaquot''" "''#''"]
    ReplaceStringAll_result [of "[]" "''x''" "''y''"]
  by (simp add: replace_ref.simps)

subsection \<open>Numbers\<close>

lemma digit_char: "n < 10 \<Longrightarrow> is_digit (char_of (48 + n)) \<and> (of_char (char_of (48 + n)) :: int) = 48 + int n"
proof -
  assume "n < 10"
  then have "(of_char (char_of (48 + n)) :: nat) = 48 + n" by simp
  moreover from this have "(of_char (char_of (48 + n)) :: int) = int (48 + n)"
    by (metis of_nat_of_char)
  ultimately show ?thesis using \<open>n < 10\<close> by (simp add: is_digit_def)
qed

lemma digits_value_append: "digits_value (ds @ [c]) = 10 * digits_value ds + (of_char c - 48)"
  by (simp add: digits_value_def)

lemma digits_of_value: "list_all is_digit (digits_of n) \<and> digits_of n \<noteq> [] \<and> digits_value (digits_of n) = int n"
proof (induction n rule: digits_of.induct)
  case (1 n)
  show ?case
  proof (cases "n < 10")
    case True
    then show ?thesis using digit_char [of n] by (simp add: digits_of.simps [of n] digits_value_def)
  next
    case False
    have "digits_of n = digits_of (n div 10) @ [char_of (48 + n mod 10)]"
      using False by (simp add: digits_of.simps [of n])
    moreover have "10 * int (n div 10) + int (n mod 10) = int n"
      by (metis mult_div_mod_eq of_nat_add of_nat_mult of_nat_numeral)
    ultimately show ?thesis
      using 1 [OF False] digit_char [of "n mod 10"] by (simp add: digits_value_append)
  qed
qed

lemma digit_not_sign: "is_digit c \<Longrightarrow> \<not> is_space c \<and> c \<noteq> CHR ''-'' \<and> c \<noteq> CHR ''+''"
  by (auto simp: is_digit_def is_space_def)

lemma leading_int_to_string: "leading_int (to_string_int i) = Some i"
proof -
  have tw: "takeWhile is_digit (digits_of n) = digits_of n" for n
    using digits_of_value [of n] by (simp add: takeWhile_eq_all_conv list_all_iff)
  show ?thesis
  proof (cases "i < 0")
    case True
    then show ?thesis
      using digits_of_value [of "nat (- i)"]
      by (simp add: leading_int_def to_string_int_def is_space_def Let_def tw)
  next
    case False
    obtain c cs where d: "digits_of (nat i) = c # cs" and c: "is_digit c"
      using digits_of_value [of "nat i"] by (cases "digits_of (nat i)") auto
    then have "takeWhile is_digit cs = cs" using tw [of "nat i"] by (simp add: takeWhile_eq_all_conv)
    then show ?thesis
      using False d digit_not_sign [OF c] digits_of_value [of "nat i"]
      by (simp add: leading_int_def to_string_int_def Let_def del: takeWhile_eq_all_conv)
  qed
qed

text \<open>
  Error codes travel through \<open>endReason\<close> as decimal text: \<open>std::stoi\<close> and \<open>atoi\<close> of
  \<open>std::to_string\<close> give back every 32-bit integer.
\<close>

lemma stoi_to_string: "stoi (to_string w) = Some w \<and> atoi (to_string w) = w"
  using sint_greater_eq [of w] sint_less [of w]
  by (simp add: stoi_def atoi_def to_string_def leading_int_to_string)

end
