(* ===== verification/Platform.thy ===== *)
theory Platform
  imports Update_Types Rdb_Table String_Utils
begin

unbundle bit_operations_syntax

text \<open>
  What the service sees of the device, and the thin utility classes over it. The operating
  system, the preference store, the hash library and the clock are the parameter \<open>E\<close>, acting
  on one external state; \<open>PreferencesUtil\<close>, \<open>FileUtils\<close>, \<open>DeviceAdapter\<close> and \<open>Sha256Utils\<close>
  (\<open>services/core/ability\<close>) are modelled over it. \<open>StatusCache\<close> and \<open>NetManager\<close> keep their own
  state. The locale \<open>platform\<close> states that the store works and that the operations of one part
  leave the others alone.
\<close>

section \<open>The device, a parameter\<close>

datatype PrefValue = PrefString string | PrefBool bool | PrefInt int32_t | PrefLong int64_t

text \<open>
  \<open>pl_file_good\<close> is \<open>ifstream::good\<close> after opening, \<open>pl_file_size\<close> is
  \<open>std::filesystem::file_size\<close>, \<open>pl_space\<close> the free space, \<open>pl_read_param\<close> is
  \<open>SystemReadParam\<close>; \<open>None\<close> is an error code. \<open>pl_sha256\<close> is the digest as hexadecimal text.
\<close>

record 'x Platform =
  pl_rdb :: "'x RdbStore"
  pl_prefs_open :: "'x \<Rightarrow> bool"
  pl_prefs_put :: "string \<Rightarrow> PrefValue \<Rightarrow> 'x \<Rightarrow> int32_t \<times> 'x"
  pl_prefs_get :: "string \<Rightarrow> 'x \<Rightarrow> PrefValue option"
  pl_prefs_delete :: "string \<Rightarrow> 'x \<Rightarrow> int32_t \<times> 'x"
  pl_prefs_clear :: "'x \<Rightarrow> int32_t \<times> 'x"
  pl_prefs_flush :: "'x \<Rightarrow> int32_t \<times> 'x"
  pl_file_good :: "string \<Rightarrow> 'x \<Rightarrow> bool"
  pl_file_size :: "string \<Rightarrow> 'x \<Rightarrow> int64_t option"
  pl_space :: "string \<Rightarrow> 'x \<Rightarrow> uint64_t option"
  pl_write_file :: "string \<Rightarrow> string \<Rightarrow> 'x \<Rightarrow> bool \<times> 'x"
  pl_read_file :: "string \<Rightarrow> 'x \<Rightarrow> string option"
  pl_dir_entries :: "string \<Rightarrow> 'x \<Rightarrow> string list"
  pl_remove_all :: "string \<Rightarrow> 'x \<Rightarrow> 'x"
  pl_remove :: "string \<Rightarrow> 'x \<Rightarrow> 'x"
  pl_create_dir :: "string \<Rightarrow> int32_t \<Rightarrow> 'x \<Rightarrow> bool \<times> 'x"
  pl_read_param :: "string \<Rightarrow> 'x \<Rightarrow> string option"
  pl_timestamp :: "'x \<Rightarrow> int64_t"
  pl_sha256 :: "string \<Rightarrow> string option"
  pl_file_sha256 :: "string \<Rightarrow> 'x \<Rightarrow> string"

section \<open>PreferencesUtil\<close>

definition Prefs_RefreshSync :: "'x Platform \<Rightarrow> 'x \<Rightarrow> bool \<times> 'x" where
  "Prefs_RefreshSync E x =
     (if \<not> pl_prefs_open E x then (False, x)
      else let (ret, x) = pl_prefs_flush E x in if ret \<noteq> E_OK then (False, x) else (True, x))"

definition Prefs_Save :: "'x Platform \<Rightarrow> string \<Rightarrow> PrefValue \<Rightarrow> 'x \<Rightarrow> bool \<times> 'x" where
  "Prefs_Save E key v x =
     (if \<not> pl_prefs_open E x then (False, x)
      else let (ret, x) = pl_prefs_put E key v x
           in if ret \<noteq> E_OK then (False, x) else Prefs_RefreshSync E x)"

definition SaveString :: "'x Platform \<Rightarrow> string \<Rightarrow> string \<Rightarrow> 'x \<Rightarrow> bool \<times> 'x" where
  "SaveString E key v x = Prefs_Save E key (PrefString v) x"

definition SaveBool :: "'x Platform \<Rightarrow> string \<Rightarrow> bool \<Rightarrow> 'x \<Rightarrow> bool \<times> 'x" where
  "SaveBool E key v x = Prefs_Save E key (PrefBool v) x"

definition SaveInt :: "'x Platform \<Rightarrow> string \<Rightarrow> int32_t \<Rightarrow> 'x \<Rightarrow> bool \<times> 'x" where
  "SaveInt E key v x = Prefs_Save E key (PrefInt v) x"

definition SaveLong :: "'x Platform \<Rightarrow> string \<Rightarrow> int64_t \<Rightarrow> 'x \<Rightarrow> bool \<times> 'x" where
  "SaveLong E key v x = Prefs_Save E key (PrefLong v) x"

text \<open>A value of another type, like an absent key, gives the default.\<close>

definition ObtainString :: "'x Platform \<Rightarrow> string \<Rightarrow> string \<Rightarrow> 'x \<Rightarrow> string" where
  "ObtainString E key defValue x =
     (if \<not> pl_prefs_open E x then defValue
      else case pl_prefs_get E key x of Some (PrefString v) \<Rightarrow> v | _ \<Rightarrow> defValue)"

definition ObtainBool :: "'x Platform \<Rightarrow> string \<Rightarrow> bool \<Rightarrow> 'x \<Rightarrow> bool" where
  "ObtainBool E key defValue x =
     (if \<not> pl_prefs_open E x then defValue
      else case pl_prefs_get E key x of Some (PrefBool v) \<Rightarrow> v | _ \<Rightarrow> defValue)"

definition ObtainInt :: "'x Platform \<Rightarrow> string \<Rightarrow> int32_t \<Rightarrow> 'x \<Rightarrow> int32_t" where
  "ObtainInt E key defValue x =
     (if \<not> pl_prefs_open E x then defValue
      else case pl_prefs_get E key x of Some (PrefInt v) \<Rightarrow> v | _ \<Rightarrow> defValue)"

definition ObtainLong :: "'x Platform \<Rightarrow> string \<Rightarrow> int64_t \<Rightarrow> 'x \<Rightarrow> int64_t" where
  "ObtainLong E key defValue x =
     (if \<not> pl_prefs_open E x then defValue
      else case pl_prefs_get E key x of Some (PrefLong v) \<Rightarrow> v | _ \<Rightarrow> defValue)"

definition Prefs_IsExist :: "'x Platform \<Rightarrow> string \<Rightarrow> 'x \<Rightarrow> bool" where
  "Prefs_IsExist E key x = (if \<not> pl_prefs_open E x then False else pl_prefs_get E key x \<noteq> None)"

definition Prefs_Remove :: "'x Platform \<Rightarrow> string \<Rightarrow> 'x \<Rightarrow> bool \<times> 'x" where
  "Prefs_Remove E key x =
     (if \<not> pl_prefs_open E x then (False, x)
      else let (ret, x) = pl_prefs_delete E key x
           in if ret \<noteq> E_OK then (False, x) else Prefs_RefreshSync E x)"

definition Prefs_RemoveAll :: "'x Platform \<Rightarrow> 'x \<Rightarrow> bool \<times> 'x" where
  "Prefs_RemoveAll E x =
     (if \<not> pl_prefs_open E x then (False, x)
      else let (ret, x) = pl_prefs_clear E x
           in if ret \<noteq> E_OK then (False, x) else Prefs_RefreshSync E x)"

section \<open>FileUtils\<close>

definition GetFileSize :: "'x Platform \<Rightarrow> string \<Rightarrow> 'x \<Rightarrow> int64_t" where
  "GetFileSize E fileName x = (case pl_file_size E fileName x of None \<Rightarrow> 0 | Some n \<Rightarrow> n)"

definition IsFileExist :: "'x Platform \<Rightarrow> string \<Rightarrow> 'x \<Rightarrow> bool" where
  "IsFileExist E fileName x = pl_file_good E fileName x"

text \<open>The required space is compared as an unsigned number.\<close>

definition FileUtils_IsSpaceEnough :: "'x Platform \<Rightarrow> string \<Rightarrow> int64_t \<Rightarrow> 'x \<Rightarrow> bool" where
  "FileUtils_IsSpaceEnough E filePath requiredSpace x =
     (let freeSpace = (case pl_space E filePath x of None \<Rightarrow> 0 | Some n \<Rightarrow> n)
      in requiredSpace \<le> freeSpace)"

definition SaveDataToFile :: "'x Platform \<Rightarrow> string \<Rightarrow> string \<Rightarrow> 'x \<Rightarrow> bool \<times> 'x" where
  "SaveDataToFile E filePath d x = pl_write_file E filePath d x"

definition ReadDataFromFile :: "'x Platform \<Rightarrow> string \<Rightarrow> 'x \<Rightarrow> string" where
  "ReadDataFromFile E filePath x = (case pl_read_file E filePath x of None \<Rightarrow> [] | Some s \<Rightarrow> s)"

definition DeleteFile :: "'x Platform \<Rightarrow> string \<Rightarrow> bool \<Rightarrow> 'x \<Rightarrow> 'x" where
  "DeleteFile E rootPath isDeleteRootDir x =
     (if \<not> IsFileExist E rootPath x then x
      else if isDeleteRootDir then pl_remove_all E rootPath x
      else foldl (\<lambda>x entry. pl_remove_all E entry x) x (pl_dir_entries E rootPath x))"

record DirInfo =
  dir_dirName :: string
  dir_dirPermissions :: int32_t
  dir_isAllowDestroyContents :: bool

definition CreatDirWithPermission :: "'x Platform \<Rightarrow> string \<Rightarrow> int32_t \<Rightarrow> 'x \<Rightarrow> bool \<times> 'x" where
  "CreatDirWithPermission E fileDir dirPermission x =
     (if fileDir = [] \<or> find_str fileDir ''/.'' 0 \<noteq> None \<or> find_str fileDir ''./'' 0 \<noteq> None then (False, x)
      else pl_create_dir E fileDir dirPermission x)"

text \<open>The map of base directories only feeds the permissions of later directory creation.\<close>

definition InitAndCreateBaseDirs :: "'x Platform \<Rightarrow> DirInfo list \<Rightarrow> 'x \<Rightarrow> 'x" where
  "InitAndCreateBaseDirs E dirInfos x =
     (if dirInfos = [] then x
      else foldl (\<lambda>x d. if \<not> IsFileExist E (dir_dirName d) x
                        then snd (CreatDirWithPermission E (dir_dirName d) (dir_dirPermissions d) x) else x)
             x dirInfos)"

definition DestroyBaseDirectory :: "'x Platform \<Rightarrow> DirInfo list \<Rightarrow> 'x \<Rightarrow> 'x" where
  "DestroyBaseDirectory E dirInfos x =
     (if dirInfos = [] then x
      else foldl (\<lambda>x d. if dir_isAllowDestroyContents d then DeleteFile E (dir_dirName d) False x else x)
             x dirInfos)"

section \<open>DeviceAdapter and Sha256Utils\<close>

definition GetParameter :: "'x Platform \<Rightarrow> string \<Rightarrow> string \<Rightarrow> 'x \<Rightarrow> string" where
  "GetParameter E key def x =
     (case pl_read_param E key x of
        Some v \<Rightarrow> v
      | None \<Rightarrow> if length def + 1 \<le> 128 then def else [])"

definition GetDeviceName :: "'x Platform \<Rightarrow> 'x \<Rightarrow> string" where
  "GetDeviceName E x = GetParameter E ''const.product.model'' [] x"

definition GetOsVersion :: "'x Platform \<Rightarrow> 'x \<Rightarrow> string" where
  "GetOsVersion E x = GetParameter E ''const.ohos.fullname'' [] x"

definition GetDisplayVersion :: "'x Platform \<Rightarrow> 'x \<Rightarrow> string" where
  "GetDisplayVersion E x = GetParameter E ''const.product.software.version'' [] x"

definition GetRealVersion :: "'x Platform \<Rightarrow> 'x \<Rightarrow> string" where
  "GetRealVersion E x = GetParameter E ''const.build.ver.physical'' [] x"

definition GetBootSlot :: "'x Platform \<Rightarrow> 'x \<Rightarrow> string" where
  "GetBootSlot E x = GetParameter E ''ohos.boot.bootslots'' ''0'' x"

definition CalculateHashCode :: "'x Platform \<Rightarrow> string \<Rightarrow> string" where
  "CalculateHashCode E inputStr = (case pl_sha256 E inputStr of None \<Rightarrow> [] | Some d \<Rightarrow> d)"

definition to_lower :: "char \<Rightarrow> char" where
  "to_lower c = (let n = of_char c :: nat in if 65 \<le> n \<and> n \<le> 90 then char_of (n + 32) else c)"

definition CheckFileSha256String :: "'x Platform \<Rightarrow> string \<Rightarrow> string \<Rightarrow> 'x \<Rightarrow> bool" where
  "CheckFileSha256String E fileName sha256String x =
     (if \<not> IsFileExist E fileName x then False
      else map to_lower (pl_file_sha256 E fileName x) = map to_lower sha256String)"

section \<open>StatusCache\<close>

record StatusCache =
  sc_isChecking :: bool
  sc_lastCheckTime :: int64_t

definition StatusCache_new :: StatusCache where
  "StatusCache_new = \<lparr>sc_isChecking = False, sc_lastCheckTime = - 1\<rparr>"

definition FIVE_MINUTES_SECONDS :: int where
  "FIVE_MINUTES_SECONDS = 300"

text \<open>Timestamps are seconds since 1970; their difference does not overflow.\<close>

definition StatusCache_IsChecking :: "int64_t \<Rightarrow> StatusCache \<Rightarrow> bool" where
  "StatusCache_IsChecking now s =
     (if sc_lastCheckTime s \<noteq> - 1 \<and> FIVE_MINUTES_SECONDS < \<bar>sint now - sint (sc_lastCheckTime s)\<bar> then False
      else sc_isChecking s)"

definition StatusCache_SetIsChecking :: "int64_t \<Rightarrow> bool \<Rightarrow> StatusCache \<Rightarrow> StatusCache" where
  "StatusCache_SetIsChecking now isChecking s =
     (let s = s\<lparr>sc_isChecking := isChecking\<rparr>
      in if sc_isChecking s then s\<lparr>sc_lastCheckTime := now\<rparr> else s)"

section \<open>NetManager\<close>

text \<open>
  The registered callbacks, by type; the only one the service registers is the firmware
  listener. \<open>OnNetChange\<close> returns the types of the callbacks it calls, in the map's order.
\<close>

record NetManager =
  nm_netType :: NetType
  nm_callbacks :: "(int32_t \<times> NetType list) list"

definition NetManager_new :: NetManager where
  "NetManager_new = \<lparr>nm_netType = NetType.NO_NET, nm_callbacks = []\<rparr>"

definition IsBaseNetType :: "NetType \<Rightarrow> bool" where
  "IsBaseNetType t \<longleftrightarrow> t = NetType.NO_NET \<or> t = NetType.CELLULAR \<or> t = NetType.METERED_WIFI \<or>
     t = NetType.NOT_METERED_WIFI"

definition IsNetAvailable :: "NetType \<Rightarrow> NetManager \<Rightarrow> bool" where
  "IsNetAvailable t m \<longleftrightarrow> 0 < NetType_code (nm_netType m) AND NetType_code t"

definition NetManager_RegisterCallback :: "int32_t \<Rightarrow> NetType list \<Rightarrow> NetManager \<Rightarrow> bool \<times> NetManager" where
  "NetManager_RegisterCallback callbackType netTypes m =
     (if netTypes = [] then (False, m)
      else if \<not> list_all IsBaseNetType netTypes then (False, m)
      else (True, m\<lparr>nm_callbacks := insort_key fst (callbackType, netTypes)
                     (filter (\<lambda>c. fst c \<noteq> callbackType) (nm_callbacks m))\<rparr>))"

definition NetManager_UnregisterCallback :: "int32_t \<Rightarrow> NetManager \<Rightarrow> NetManager" where
  "NetManager_UnregisterCallback callbackType m =
     m\<lparr>nm_callbacks := filter (\<lambda>c. fst c \<noteq> callbackType) (nm_callbacks m)\<rparr>"

definition OnNetChange :: "NetType \<Rightarrow> NetManager \<Rightarrow> bool \<times> int32_t list \<times> NetManager" where
  "OnNetChange t m =
     (if \<not> IsBaseNetType t then (False, [], m)
      else if t = nm_netType m then (True, [], m)
      else (True, map fst (filter (\<lambda>c. t \<in> set (snd c)) (nm_callbacks m)), m\<lparr>nm_netType := t\<rparr>))"

section \<open>What the code relies on\<close>

text \<open>
  A device whose database works and whose preference and file operations do not touch the
  database. Nothing is assumed of the result of a file or preference operation.
\<close>

locale platform = rdb_reliable "pl_rdb E" rows
  for E :: "'x Platform" and rows :: "'x \<Rightarrow> string \<Rightarrow> ValuesBucket list" +
  assumes rows_prefs_put: "rows (snd (pl_prefs_put E k v x)) = rows x"
    and rows_prefs_delete: "rows (snd (pl_prefs_delete E k x)) = rows x"
    and rows_prefs_clear: "rows (snd (pl_prefs_clear E x)) = rows x"
    and rows_prefs_flush: "rows (snd (pl_prefs_flush E x)) = rows x"
    and rows_write_file: "rows (snd (pl_write_file E f s x)) = rows x"
    and rows_remove_all: "rows (pl_remove_all E f x) = rows x"
    and rows_remove: "rows (pl_remove E f x) = rows x"
    and rows_create_dir: "rows (snd (pl_create_dir E f p x)) = rows x"
begin

lemma rows_Prefs_RefreshSync: "rows (snd (Prefs_RefreshSync E x)) = rows x"
  using rows_prefs_flush [of x] by (simp add: Prefs_RefreshSync_def split_beta)

lemma rows_Prefs_Save: "rows (snd (Prefs_Save E k v x)) = rows x"
  using rows_prefs_put [of k v x] by (simp add: Prefs_Save_def split_beta rows_Prefs_RefreshSync)

lemma rows_DeleteFile: "rows (DeleteFile E p b x) = rows x"
proof -
  have "rows (foldl (\<lambda>x e. pl_remove_all E e x) x es) = rows x" for es
    using foldl_inv [of "\<lambda>y. rows y = rows x" x es] by (simp add: rows_remove_all)
  then show ?thesis by (simp add: DeleteFile_def rows_remove_all)
qed

lemma rows_SaveDataToFile: "rows (snd (SaveDataToFile E f s x)) = rows x"
  by (simp add: SaveDataToFile_def rows_write_file)

end

section \<open>Properties\<close>

text \<open>
  A check is never blocked for more than five minutes: after \<open>SetIsChecking(true)\<close> the cache
  answers that a check is running exactly while the clock is within 300 seconds of that
  moment in either direction, and \<open>SetIsChecking(false)\<close> ends it at once.
\<close>

theorem StatusCache_window:
  assumes "t0 \<noteq> - 1"
  shows "StatusCache_IsChecking now (StatusCache_SetIsChecking t0 True s) = (\<bar>sint now - sint t0\<bar> \<le> 300) \<and>
    \<not> StatusCache_IsChecking now (StatusCache_SetIsChecking t1 False s)"
  using assms
  by (simp add: StatusCache_IsChecking_def StatusCache_SetIsChecking_def FIVE_MINUTES_SECONDS_def)

theorem StatusCache_window_witness:
  "StatusCache_IsChecking 400 (StatusCache_SetIsChecking 100 True StatusCache_new) \<and>
   \<not> StatusCache_IsChecking 401 (StatusCache_SetIsChecking 100 True StatusCache_new)"
  using StatusCache_window [of 100 400 StatusCache_new] StatusCache_window [of 100 401 StatusCache_new]
  by simp

text \<open>
  Network classes: a combined network type is available exactly when the current base
  network is one of its parts, and no network makes every request unavailable.
\<close>

theorem IsNetAvailable_classes:
  assumes "IsBaseNetType (nm_netType m)"
  shows "IsNetAvailable NetType.WIFI m =
      (nm_netType m = NetType.METERED_WIFI \<or> nm_netType m = NetType.NOT_METERED_WIFI) \<and>
    IsNetAvailable NetType.CELLULAR_AND_WIFI m = (nm_netType m \<noteq> NetType.NO_NET) \<and>
    IsNetAvailable NetType.NOT_METERED_WIFI m = (nm_netType m = NetType.NOT_METERED_WIFI)"
  using assms by (auto simp: IsBaseNetType_def IsNetAvailable_def)

theorem IsNetAvailable_classes_witness:
  "IsNetAvailable NetType.WIFI (NetManager_new\<lparr>nm_netType := NetType.METERED_WIFI\<rparr>) \<and>
   \<not> IsNetAvailable NetType.CELLULAR_AND_WIFI NetManager_new"
  using IsNetAvailable_classes [of "NetManager_new\<lparr>nm_netType := NetType.METERED_WIFI\<rparr>"]
    IsNetAvailable_classes [of NetManager_new]
  by (simp add: NetManager_new_def IsBaseNetType_def)

end
