(* ===== verification/Firmware_Store.thy ===== *)
theory Firmware_Store
  imports Update_Types Rdb_Table
begin

text \<open>
  The firmware database, \<open>services/firmware/data/db\<close>: the task table with at most one upgrade
  task, the component table with one row per package of the new version, and their operators.
  The theory shows that what is built into a row is what is parsed from it, and lifts every
  operator to lists of \<open>FirmwareTask\<close> and \<open>FirmwareComponent\<close>; the locale \<open>firmware_db\<close> is the
  contract the pipeline theories use.
\<close>

section \<open>Enumerations of firmware_common.h\<close>

datatype FirmwareStep = INIT | CHECK_STEP | DOWNLOAD_STEP | AUTH_STEP | INSTALL_STEP | APPLY_STEP | COMPLETE

datatype CheckStatus =
    CHECK_SUCCESS | CHECK_FAIL | FILE_LIST_REQUEST_SUCCESS | FILE_LIST_REQUEST_FAIL
  | CHANGELOG_REQUEST_SUCCESS | CHANGELOG_REQUEST_FAIL

datatype BlType = HOTA_TYPE | COTA_TYPE | DYNAMIC_TYPE

datatype InstallType = QUICK_FIX | SYS_INSTALLER | UPDATER

datatype CombinationType = INVALLID_TYPE | HOTA | CombinationType_unnamed int32_t

fun CombinationType_code :: "CombinationType \<Rightarrow> int32_t" where
  "CombinationType_code CombinationType.INVALLID_TYPE = 0"
| "CombinationType_code CombinationType.HOTA = 1"
| "CombinationType_code (CombinationType_unnamed w) = w"

definition CombinationType_of :: "int32_t \<Rightarrow> CombinationType" where
  "CombinationType_of w =
     (if w = 0 then CombinationType.INVALLID_TYPE else if w = 1 then CombinationType.HOTA
      else CombinationType_unnamed w)"

definition CombinationType_named :: "CombinationType \<Rightarrow> bool" where
  "CombinationType_named e \<longleftrightarrow> (case e of CombinationType_unnamed _ \<Rightarrow> False | _ \<Rightarrow> True)"

datatype DownloadMode = MANUAL | AUTO | DownloadMode_unnamed int32_t

fun DownloadMode_code :: "DownloadMode \<Rightarrow> int32_t" where
  "DownloadMode_code DownloadMode.MANUAL = 0"
| "DownloadMode_code DownloadMode.AUTO = 1"
| "DownloadMode_code (DownloadMode_unnamed w) = w"

definition DownloadMode_of :: "int32_t \<Rightarrow> DownloadMode" where
  "DownloadMode_of w =
     (if w = 0 then DownloadMode.MANUAL else if w = 1 then DownloadMode.AUTO
      else DownloadMode_unnamed w)"

definition DownloadMode_named :: "DownloadMode \<Rightarrow> bool" where
  "DownloadMode_named e \<longleftrightarrow> (case e of DownloadMode_unnamed _ \<Rightarrow> False | _ \<Rightarrow> True)"

datatype UpgradeMode = MANUAL | NIGHT | UpgradeMode_unnamed int32_t

fun UpgradeMode_code :: "UpgradeMode \<Rightarrow> int32_t" where
  "UpgradeMode_code UpgradeMode.MANUAL = 0"
| "UpgradeMode_code UpgradeMode.NIGHT = 1"
| "UpgradeMode_code (UpgradeMode_unnamed w) = w"

definition UpgradeMode_of :: "int32_t \<Rightarrow> UpgradeMode" where
  "UpgradeMode_of w =
     (if w = 0 then UpgradeMode.MANUAL else if w = 1 then UpgradeMode.NIGHT
      else UpgradeMode_unnamed w)"

definition UpgradeMode_named :: "UpgradeMode \<Rightarrow> bool" where
  "UpgradeMode_named e \<longleftrightarrow> (case e of UpgradeMode_unnamed _ \<Rightarrow> False | _ \<Rightarrow> True)"

datatype DownloadEndReason =
    INIT | SUCCESS | DOWNLOADING | FAIL | VERIFY_FAIL | IO_EXCEPTION | REDIRECT | SERVER_TIMEOUT
  | PAUSE | CANCEL | NO_ENOUGH_MEMORY | NET_NOT_AVAILIABLE | DOWNLAOD_INFO_EMPTY | CURL_ERROR
  | SYSTEM_BUSY | INIT_PACKAGE_FAIL | NET_CHANGE

fun DownloadEndReason_code :: "DownloadEndReason \<Rightarrow> int32_t" where
  "DownloadEndReason_code DownloadEndReason.INIT = 0"
| "DownloadEndReason_code DownloadEndReason.SUCCESS = 1"
| "DownloadEndReason_code DownloadEndReason.DOWNLOADING = 2"
| "DownloadEndReason_code DownloadEndReason.FAIL = 3"
| "DownloadEndReason_code DownloadEndReason.VERIFY_FAIL = 4"
| "DownloadEndReason_code DownloadEndReason.IO_EXCEPTION = 5"
| "DownloadEndReason_code DownloadEndReason.REDIRECT = 6"
| "DownloadEndReason_code DownloadEndReason.SERVER_TIMEOUT = 7"
| "DownloadEndReason_code DownloadEndReason.PAUSE = 8"
| "DownloadEndReason_code DownloadEndReason.CANCEL = 9"
| "DownloadEndReason_code DownloadEndReason.NO_ENOUGH_MEMORY = 10"
| "DownloadEndReason_code DownloadEndReason.NET_NOT_AVAILIABLE = 11"
| "DownloadEndReason_code DownloadEndReason.DOWNLAOD_INFO_EMPTY = 12"
| "DownloadEndReason_code DownloadEndReason.CURL_ERROR = 13"
| "DownloadEndReason_code DownloadEndReason.SYSTEM_BUSY = 14"
| "DownloadEndReason_code DownloadEndReason.INIT_PACKAGE_FAIL = 15"
| "DownloadEndReason_code DownloadEndReason.NET_CHANGE = 16"

interpretation ct: enum_class CombinationType_code CombinationType_of CombinationType_named
proof
  fix e show "CombinationType_named e \<Longrightarrow> CombinationType_of (CombinationType_code e) = e"
    by (cases e) (simp_all add: CombinationType_of_def CombinationType_named_def)
qed (simp add: CombinationType_of_def)

interpretation dm: enum_class DownloadMode_code DownloadMode_of DownloadMode_named
proof
  fix e show "DownloadMode_named e \<Longrightarrow> DownloadMode_of (DownloadMode_code e) = e"
    by (cases e) (simp_all add: DownloadMode_of_def DownloadMode_named_def)
qed (simp add: DownloadMode_of_def)

interpretation um: enum_class UpgradeMode_code UpgradeMode_of UpgradeMode_named
proof
  fix e show "UpgradeMode_named e \<Longrightarrow> UpgradeMode_of (UpgradeMode_code e) = e"
    by (cases e) (simp_all add: UpgradeMode_of_def UpgradeMode_named_def)
qed (simp add: UpgradeMode_of_def)

lemmas store_named_defs [enum_simps] =
  CombinationType_named_def DownloadMode_named_def UpgradeMode_named_def

section \<open>Rows as structs\<close>

text \<open>\<open>isNeedRestart\<close> has no initialiser in the source; the model starts it as false.\<close>

record FirmwareComponent =
  fc_id :: int32_t
  fc_versionId :: string
  fc_packageIndex :: int32_t
  fc_versionPackageType :: PackageType
  fc_targetBlVersionNumber :: string
  fc_targetBlDisplayVersionNumber :: string
  fc_versionNumber :: string
  fc_blVersionInfo :: string
  fc_componentId :: string
  fc_descriptPackageId :: string
  fc_changelogUrl :: string
  fc_blVersionType :: int32_t
  fc_isNeedRestart :: bool
  fc_patchType :: int32_t
  fc_url :: string
  fc_reserveUrl :: string
  fc_storageType :: int32_t
  fc_fileName :: string
  fc_size :: int64_t
  fc_verifyInfo :: string
  fc_spath :: string
  fc_status :: UpgradeStatus
  fc_progress :: int32_t

definition FirmwareComponent_default :: FirmwareComponent where
  "FirmwareComponent_default =
     \<lparr>fc_id = 0, fc_versionId = [], fc_packageIndex = 0, fc_versionPackageType = PackageType.DYNAMIC,
      fc_targetBlVersionNumber = [], fc_targetBlDisplayVersionNumber = [], fc_versionNumber = [],
      fc_blVersionInfo = [], fc_componentId = [], fc_descriptPackageId = [], fc_changelogUrl = [],
      fc_blVersionType = 0, fc_isNeedRestart = False, fc_patchType = 0, fc_url = [],
      fc_reserveUrl = [], fc_storageType = 0, fc_fileName = [], fc_size = 0, fc_verifyInfo = [],
      fc_spath = [], fc_status = UpgradeStatus.INIT, fc_progress = 0\<rparr>"

record FirmwareTask =
  ft_taskId :: string
  ft_status :: UpgradeStatus
  ft_progress :: int32_t
  ft_errorCode :: int32_t
  ft_errorMsg :: string
  ft_isExistTask :: bool
  ft_downloadTaskId :: string
  ft_combinationType :: CombinationType
  ft_downloadOrder :: Order
  ft_downloadAllowNetwork :: NetType
  ft_downloadMode :: DownloadMode
  ft_upgradeOrder :: Order
  ft_upgradeMode :: UpgradeMode
  ft_authResult :: string
  ft_updateToken :: string
  ft_deviceToken :: string
  ft_tokenHMac :: string
  ft_currentVersionList :: string
  ft_authTime :: int64_t

definition FirmwareTask_default :: FirmwareTask where
  "FirmwareTask_default =
     \<lparr>ft_taskId = [], ft_status = UpgradeStatus.INIT, ft_progress = 0, ft_errorCode = 0,
      ft_errorMsg = [], ft_isExistTask = False, ft_downloadTaskId = [],
      ft_combinationType = CombinationType.INVALLID_TYPE, ft_downloadOrder = Order.DOWNLOAD,
      ft_downloadAllowNetwork = NetType.NOT_METERED_WIFI, ft_downloadMode = DownloadMode.MANUAL,
      ft_upgradeOrder = Order.INSTALL, ft_upgradeMode = UpgradeMode.MANUAL, ft_authResult = [],
      ft_updateToken = [], ft_deviceToken = [], ft_tokenHMac = [], ft_currentVersionList = [],
      ft_authTime = 0\<rparr>"

section \<open>The component table\<close>

definition FIRMWARE_TABLE_COMPONENT :: string where
  "FIRMWARE_TABLE_COMPONENT = ''component''"

definition Component_ParseDbValue :: "ValuesBucket \<Rightarrow> FirmwareComponent \<Rightarrow> FirmwareComponent" where
  "Component_ParseDbValue r v =
     v\<lparr>fc_id := GetColumnInt r COLUMN_ID (fc_id v),
       fc_versionId := GetColumnText r ''versionId'' (fc_versionId v),
       fc_versionPackageType := PackageType_of (GetColumnInt r ''versionPackageType'' (PackageType_code PackageType.DYNAMIC)),
       fc_packageIndex := GetColumnInt r ''packageIndex'' (fc_packageIndex v),
       fc_targetBlDisplayVersionNumber := GetColumnText r ''targetBlDisplayVersionNumber'' (fc_targetBlDisplayVersionNumber v),
       fc_targetBlVersionNumber := GetColumnText r ''targetBlVersionNumber'' (fc_targetBlVersionNumber v),
       fc_versionNumber := GetColumnText r ''versionNumber'' (fc_versionNumber v),
       fc_blVersionInfo := GetColumnText r ''blVersionInfo'' (fc_blVersionInfo v),
       fc_descriptPackageId := GetColumnText r ''descriptPackageId'' (fc_descriptPackageId v),
       fc_componentId := GetColumnText r ''componentId'' (fc_componentId v),
       fc_changelogUrl := GetColumnText r ''changelogUrl'' (fc_changelogUrl v),
       fc_blVersionType := GetColumnInt r ''blVersionType'' (fc_blVersionType v),
       fc_isNeedRestart := GetColumnBool r ''isNeedRestart'',
       fc_patchType := GetColumnInt r ''patchType'' (fc_patchType v),
       fc_url := GetColumnText r ''url'' (fc_url v),
       fc_reserveUrl := GetColumnText r ''reserveUrl'' (fc_reserveUrl v),
       fc_storageType := GetColumnInt r ''storageType'' (fc_storageType v),
       fc_verifyInfo := GetColumnText r ''verifyInfo'' (fc_verifyInfo v),
       fc_size := GetColumnLong r ''size'' (fc_size v),
       fc_fileName := GetColumnText r ''fileName'' (fc_fileName v),
       fc_spath := GetColumnText r ''spath'' (fc_spath v),
       fc_status := UpgradeStatus_of (GetColumnInt r ''status'' (UpgradeStatus_code UpgradeStatus.INIT)),
       fc_progress := GetColumnInt r ''progress'' (fc_progress v)\<rparr>"

definition Component_BuildDbValue :: "FirmwareComponent \<Rightarrow> ValuesBucket" where
  "Component_BuildDbValue v =
     (let b = (\<lambda>_. None);
          b = PutColumnText ''versionId'' (fc_versionId v) b;
          b = PutColumnInt ''versionPackageType'' (PackageType_code (fc_versionPackageType v)) b;
          b = PutColumnInt ''packageIndex'' (fc_packageIndex v) b;
          b = PutColumnText ''targetBlDisplayVersionNumber'' (fc_targetBlDisplayVersionNumber v) b;
          b = PutColumnText ''targetBlVersionNumber'' (fc_targetBlVersionNumber v) b;
          b = PutColumnText ''versionNumber'' (fc_versionNumber v) b;
          b = PutColumnText ''blVersionInfo'' (fc_blVersionInfo v) b;
          b = PutColumnText ''descriptPackageId'' (fc_descriptPackageId v) b;
          b = PutColumnText ''componentId'' (fc_componentId v) b;
          b = PutColumnText ''changelogUrl'' (fc_changelogUrl v) b;
          b = PutColumnInt ''blVersionType'' (fc_blVersionType v) b;
          b = PutColumnBool ''isNeedRestart'' (fc_isNeedRestart v) b;
          b = PutColumnInt ''patchType'' (fc_patchType v) b;
          b = PutColumnText ''url'' (fc_url v) b;
          b = PutColumnText ''reserveUrl'' (fc_reserveUrl v) b;
          b = PutColumnInt ''storageType'' (fc_storageType v) b;
          b = PutColumnText ''verifyInfo'' (fc_verifyInfo v) b;
          b = PutColumnLong ''size'' (fc_size v) b;
          b = PutColumnText ''fileName'' (fc_fileName v) b;
          b = PutColumnText ''spath'' (fc_spath v) b;
          b = PutColumnInt ''status'' (UpgradeStatus_code (fc_status v)) b;
          b = PutColumnInt ''progress'' (fc_progress v) b
      in b)"

definition FirmwareComponentTable :: "FirmwareComponent ITable" where
  "FirmwareComponentTable =
     \<lparr>it_GetTableName = FIRMWARE_TABLE_COMPONENT, it_new = FirmwareComponent_default,
      it_ParseDbValue = Component_ParseDbValue, it_BuildDbValue = Component_BuildDbValue\<rparr>"

definition Component_UpdateProgressByUrl ::
  "'d RdbStore \<Rightarrow> string \<Rightarrow> UpgradeStatus \<Rightarrow> int32_t \<Rightarrow> 'd \<Rightarrow> bool \<times> 'd" where
  "Component_UpdateProgressByUrl S url status progress d =
     (let vs = (\<lambda>_. None);
          vs = vs(''status'' \<mapsto> DbInt (UpgradeStatus_code status));
          vs = vs(''progress'' \<mapsto> DbInt progress);
          predicates = RdbPredicates_of FIRMWARE_TABLE_COMPONENT;
          predicates = EqualTo ''url'' url predicates
      in Table_Update S vs predicates d)"

definition Component_UpdateUrlByVersionId :: "'d RdbStore \<Rightarrow> string \<Rightarrow> string \<Rightarrow> 'd \<Rightarrow> bool \<times> 'd" where
  "Component_UpdateUrlByVersionId S versionId url d =
     (let vs = (\<lambda>_. None);
          vs = vs(''url'' \<mapsto> DbText url);
          predicates = RdbPredicates_of FIRMWARE_TABLE_COMPONENT;
          predicates = EqualTo ''versionId'' versionId predicates
      in Table_Update S vs predicates d)"

definition Component_QueryByVersionId ::
  "'d RdbStore \<Rightarrow> string \<Rightarrow> FirmwareComponent \<Rightarrow> 'd \<Rightarrow> bool \<times> FirmwareComponent" where
  "Component_QueryByVersionId S versionId component d =
     (let predicates = EqualTo ''versionId'' versionId (RdbPredicates_of FIRMWARE_TABLE_COMPONENT);
          (ok, components) = Table_Query S FirmwareComponentTable predicates [] d
      in if ok \<and> components \<noteq> [] then (True, hd components) else (False, component))"

definition Component_QueryByUrl ::
  "'d RdbStore \<Rightarrow> string \<Rightarrow> FirmwareComponent \<Rightarrow> 'd \<Rightarrow> bool \<times> FirmwareComponent" where
  "Component_QueryByUrl S url component d =
     (let predicates = EqualTo ''url'' url (RdbPredicates_of FIRMWARE_TABLE_COMPONENT);
          (ok, components) = Table_Query S FirmwareComponentTable predicates [] d
      in if ok \<and> components \<noteq> [] then (True, hd components) else (False, component))"

section \<open>The task table\<close>

definition FIRMWARE_TABLE_TASK :: string where
  "FIRMWARE_TABLE_TASK = ''task''"

definition Task_ParseDbValue :: "ValuesBucket \<Rightarrow> FirmwareTask \<Rightarrow> FirmwareTask" where
  "Task_ParseDbValue r v =
     v\<lparr>ft_taskId := GetColumnText r ''taskId'' (ft_taskId v),
       ft_status := UpgradeStatus_of (GetColumnInt r ''status'' (UpgradeStatus_code UpgradeStatus.INIT)),
       ft_progress := GetColumnInt r ''progress'' (ft_progress v),
       ft_downloadTaskId := GetColumnText r ''downloadTaskId'' (ft_downloadTaskId v),
       ft_errorCode := GetColumnInt r ''errorCode'' (ft_errorCode v),
       ft_errorMsg := GetColumnText r ''errorMsg'' (ft_errorMsg v),
       ft_combinationType := CombinationType_of (GetColumnInt r ''combinationType'' (CombinationType_code CombinationType.INVALLID_TYPE)),
       ft_downloadMode := DownloadMode_of (GetColumnInt r ''downloadMode'' (DownloadMode_code DownloadMode.MANUAL)),
       ft_downloadAllowNetwork := NetType_of (GetColumnInt r ''downloadAllowNetwork'' (NetType_code NetType.WIFI)),
       ft_downloadOrder := Order_of (GetColumnInt r ''downloadOrder'' (NetType_code NetType.WIFI)),
       ft_upgradeMode := UpgradeMode_of (GetColumnInt r ''upgradeMode'' (UpgradeMode_code UpgradeMode.MANUAL)),
       ft_upgradeOrder := Order_of (GetColumnInt r ''upgradeOrder'' (Order_code Order.INSTALL_AND_APPLY)),
       ft_authResult := GetColumnText r ''authResult'' (ft_authResult v),
       ft_updateToken := GetColumnText r ''updateToken'' (ft_updateToken v),
       ft_deviceToken := GetColumnText r ''deviceToken'' (ft_deviceToken v),
       ft_tokenHMac := GetColumnText r ''tokenHMac'' (ft_tokenHMac v),
       ft_currentVersionList := GetColumnText r ''currentVersionList'' (ft_currentVersionList v),
       ft_authTime := GetColumnLong r ''authTime'' (ft_authTime v)\<rparr>"

definition Task_BuildDbValue :: "FirmwareTask \<Rightarrow> ValuesBucket" where
  "Task_BuildDbValue v =
     (let b = (\<lambda>_. None);
          b = PutColumnText ''taskId'' (ft_taskId v) b;
          b = PutColumnInt ''status'' (UpgradeStatus_code (ft_status v)) b;
          b = PutColumnInt ''progress'' (ft_progress v) b;
          b = PutColumnText ''downloadTaskId'' (ft_downloadTaskId v) b;
          b = PutColumnInt ''errorCode'' (ft_errorCode v) b;
          b = PutColumnText ''errorMsg'' (ft_errorMsg v) b;
          b = PutColumnInt ''combinationType'' (CombinationType_code (ft_combinationType v)) b;
          b = PutColumnInt ''downloadMode'' (DownloadMode_code (ft_downloadMode v)) b;
          b = PutColumnInt ''downloadAllowNetwork'' (NetType_code (ft_downloadAllowNetwork v)) b;
          b = PutColumnInt ''downloadOrder'' (Order_code (ft_downloadOrder v)) b;
          b = PutColumnInt ''upgradeMode'' (UpgradeMode_code (ft_upgradeMode v)) b;
          b = PutColumnInt ''upgradeOrder'' (Order_code (ft_upgradeOrder v)) b;
          b = PutColumnText ''authResult'' (ft_authResult v) b;
          b = PutColumnText ''updateToken'' (ft_updateToken v) b;
          b = PutColumnText ''deviceToken'' (ft_deviceToken v) b;
          b = PutColumnText ''tokenHMac'' (ft_tokenHMac v) b;
          b = PutColumnText ''currentVersionList'' (ft_currentVersionList v) b;
          b = PutColumnLong ''authTime'' (ft_authTime v) b
      in b)"

definition FirmwareTaskTable :: "FirmwareTask ITable" where
  "FirmwareTaskTable =
     \<lparr>it_GetTableName = FIRMWARE_TABLE_TASK, it_new = FirmwareTask_default,
      it_ParseDbValue = Task_ParseDbValue, it_BuildDbValue = Task_BuildDbValue\<rparr>"

definition Task_QueryTask :: "'d RdbStore \<Rightarrow> FirmwareTask \<Rightarrow> 'd \<Rightarrow> FirmwareTask" where
  "Task_QueryTask S task d =
     (let (_, taskList) = Table_QueryAll S FirmwareTaskTable [] d
      in if taskList = [] then task\<lparr>ft_isExistTask := False\<rparr>
         else (hd taskList)\<lparr>ft_isExistTask := True\<rparr>)"

definition Task_UpdateByTaskId :: "'d RdbStore \<Rightarrow> string \<Rightarrow> ValuesBucket \<Rightarrow> 'd \<Rightarrow> bool \<times> 'd" where
  "Task_UpdateByTaskId S taskId vs d =
     (let predicates = EqualTo ''taskId'' taskId (RdbPredicates_of FIRMWARE_TABLE_TASK)
      in Table_Update S vs predicates d)"

definition Task_UpdateProgressByTaskId ::
  "'d RdbStore \<Rightarrow> string \<Rightarrow> UpgradeStatus \<Rightarrow> int32_t \<Rightarrow> 'd \<Rightarrow> bool \<times> 'd" where
  "Task_UpdateProgressByTaskId S taskId status progress d =
     Task_UpdateByTaskId S taskId
       [''status'' \<mapsto> DbInt (UpgradeStatus_code status), ''progress'' \<mapsto> DbInt progress] d"

definition Task_UpdateErrMsgByTaskId ::
  "'d RdbStore \<Rightarrow> string \<Rightarrow> int32_t \<Rightarrow> string \<Rightarrow> 'd \<Rightarrow> bool \<times> 'd" where
  "Task_UpdateErrMsgByTaskId S taskId errorCode errorMsg d =
     Task_UpdateByTaskId S taskId [''errorCode'' \<mapsto> DbInt errorCode, ''errorMsg'' \<mapsto> DbText errorMsg] d"

definition Task_UpdateDownloadTaskIdByTaskId ::
  "'d RdbStore \<Rightarrow> string \<Rightarrow> string \<Rightarrow> 'd \<Rightarrow> bool \<times> 'd" where
  "Task_UpdateDownloadTaskIdByTaskId S taskId downloadTaskId d =
     Task_UpdateByTaskId S taskId [''downloadTaskId'' \<mapsto> DbText downloadTaskId] d"

definition Task_UpdateCombinationTypeByTaskId ::
  "'d RdbStore \<Rightarrow> string \<Rightarrow> CombinationType \<Rightarrow> 'd \<Rightarrow> bool \<times> 'd" where
  "Task_UpdateCombinationTypeByTaskId S taskId combinationType d =
     Task_UpdateByTaskId S taskId
       [''combinationType'' \<mapsto> DbInt (CombinationType_code combinationType)] d"

definition Task_UpdateDownloadModeByTaskId ::
  "'d RdbStore \<Rightarrow> string \<Rightarrow> DownloadMode \<Rightarrow> 'd \<Rightarrow> bool \<times> 'd" where
  "Task_UpdateDownloadModeByTaskId S taskId downloadMode d =
     Task_UpdateByTaskId S taskId [''downloadMode'' \<mapsto> DbInt (DownloadMode_code downloadMode)] d"

definition Task_UpdateDownloadAllowNetworkByTaskId ::
  "'d RdbStore \<Rightarrow> string \<Rightarrow> NetType \<Rightarrow> 'd \<Rightarrow> bool \<times> 'd" where
  "Task_UpdateDownloadAllowNetworkByTaskId S taskId downloadAllowNetwork d =
     Task_UpdateByTaskId S taskId
       [''downloadAllowNetwork'' \<mapsto> DbInt (NetType_code downloadAllowNetwork)] d"

definition Task_UpdateDownloadOrderByTaskId :: "'d RdbStore \<Rightarrow> string \<Rightarrow> Order \<Rightarrow> 'd \<Rightarrow> bool \<times> 'd" where
  "Task_UpdateDownloadOrderByTaskId S taskId downloadOrder d =
     Task_UpdateByTaskId S taskId [''downloadOrder'' \<mapsto> DbInt (Order_code downloadOrder)] d"

definition Task_UpdateDownloadOptionByTaskId ::
  "'d RdbStore \<Rightarrow> string \<Rightarrow> DownloadMode \<Rightarrow> NetType \<Rightarrow> Order \<Rightarrow> 'd \<Rightarrow> bool \<times> 'd" where
  "Task_UpdateDownloadOptionByTaskId S taskId downloadMode downloadAllowNetwork downloadOrder d =
     Task_UpdateByTaskId S taskId
       [''downloadMode'' \<mapsto> DbInt (DownloadMode_code downloadMode),
        ''downloadAllowNetwork'' \<mapsto> DbInt (NetType_code downloadAllowNetwork),
        ''downloadOrder'' \<mapsto> DbInt (Order_code downloadOrder)] d"

definition Task_UpdateUpgradeModeByTaskId :: "'d RdbStore \<Rightarrow> string \<Rightarrow> UpgradeMode \<Rightarrow> 'd \<Rightarrow> bool \<times> 'd" where
  "Task_UpdateUpgradeModeByTaskId S taskId upgradeMode d =
     Task_UpdateByTaskId S taskId [''upgradeMode'' \<mapsto> DbInt (UpgradeMode_code upgradeMode)] d"

definition Task_UpdateUpgradeOrderByTaskId :: "'d RdbStore \<Rightarrow> string \<Rightarrow> Order \<Rightarrow> 'd \<Rightarrow> bool \<times> 'd" where
  "Task_UpdateUpgradeOrderByTaskId S taskId upgradeOrder d =
     Task_UpdateByTaskId S taskId [''upgradeOrder'' \<mapsto> DbInt (Order_code upgradeOrder)] d"

section \<open>What a row gives back\<close>

definition task_row_ok :: "ValuesBucket \<Rightarrow> bool" where
  "task_row_ok r = (\<exists>s. r ''taskId'' = Some (DbText s))"

definition component_row_ok :: "ValuesBucket \<Rightarrow> bool" where
  "component_row_ok r = ((\<exists>s. r ''versionId'' = Some (DbText s)) \<and> (\<exists>s. r ''url'' = Some (DbText s)))"

definition task_storable :: "FirmwareTask \<Rightarrow> bool" where
  "task_storable t \<longleftrightarrow> us.wf (ft_status t) \<and> ct.wf (ft_combinationType t) \<and>
     dm.wf (ft_downloadMode t) \<and> nt.wf (ft_downloadAllowNetwork t) \<and> od.wf (ft_downloadOrder t) \<and>
     um.wf (ft_upgradeMode t) \<and> od.wf (ft_upgradeOrder t)"

definition component_storable :: "FirmwareComponent \<Rightarrow> bool" where
  "component_storable c \<longleftrightarrow> pt.wf (fc_versionPackageType c) \<and> us.wf (fc_status c)"

lemmas put_defs = PutColumnText_def PutColumnInt_def PutColumnLong_def PutColumnBool_def

lemma Task_parse_build:
  assumes "task_storable t"
  shows "Task_ParseDbValue ((Task_BuildDbValue t)(COLUMN_ID \<mapsto> DbInt i)) FirmwareTask_default =
    t\<lparr>ft_isExistTask := False\<rparr>"
  using assms
  by (simp add: Task_ParseDbValue_def Task_BuildDbValue_def put_defs COLUMN_ID_def
      FirmwareTask_default_def task_storable_def us.wf_def ct.wf_def dm.wf_def nt.wf_def od.wf_def
      um.wf_def)

lemma Component_parse_build:
  assumes "component_storable c"
  shows "Component_ParseDbValue ((Component_BuildDbValue c)(COLUMN_ID \<mapsto> DbInt i))
    FirmwareComponent_default = c\<lparr>fc_id := i\<rparr>"
  using assms
  by (simp add: Component_ParseDbValue_def Component_BuildDbValue_def put_defs COLUMN_ID_def
      FirmwareComponent_default_def component_storable_def us.wf_def pt.wf_def)

lemma table_simps [simp]:
  "it_GetTableName FirmwareTaskTable = FIRMWARE_TABLE_TASK"
  "it_new FirmwareTaskTable = FirmwareTask_default"
  "it_ParseDbValue FirmwareTaskTable = Task_ParseDbValue"
  "it_BuildDbValue FirmwareTaskTable = Task_BuildDbValue"
  "it_GetTableName FirmwareComponentTable = FIRMWARE_TABLE_COMPONENT"
  "it_new FirmwareComponentTable = FirmwareComponent_default"
  "it_ParseDbValue FirmwareComponentTable = Component_ParseDbValue"
  "it_BuildDbValue FirmwareComponentTable = Component_BuildDbValue"
  by (simp_all add: FirmwareTaskTable_def FirmwareComponentTable_def)

lemma task_row_ok_build: "task_row_ok ((Task_BuildDbValue t)(COLUMN_ID \<mapsto> DbInt i))"
  by (simp add: task_row_ok_def Task_BuildDbValue_def put_defs COLUMN_ID_def)

lemma component_row_ok_build: "component_row_ok ((Component_BuildDbValue c)(COLUMN_ID \<mapsto> DbInt i))"
  by (simp add: component_row_ok_def Component_BuildDbValue_def put_defs COLUMN_ID_def)

sublocale rdb_reliable \<subseteq> tt: typed_table S rows FirmwareTaskTable task_row_ok task_storable
  "\<lambda>t i. t\<lparr>ft_isExistTask := False\<rparr>"
  by unfold_locales (simp_all add: Task_parse_build task_row_ok_build del: fun_upd_apply)

sublocale rdb_reliable \<subseteq> kt: typed_table S rows FirmwareComponentTable component_row_ok
  component_storable "\<lambda>c i. c\<lparr>fc_id := i\<rparr>"
  by unfold_locales (simp_all add: Component_parse_build component_row_ok_build del: fun_upd_apply)

section \<open>The database as lists of structs\<close>

definition tasks_of :: "('d \<Rightarrow> string \<Rightarrow> ValuesBucket list) \<Rightarrow> 'd \<Rightarrow> FirmwareTask list" where
  "tasks_of rows d =
     map (\<lambda>r. Task_ParseDbValue r FirmwareTask_default) (rows d FIRMWARE_TABLE_TASK)"

definition components_of :: "('d \<Rightarrow> string \<Rightarrow> ValuesBucket list) \<Rightarrow> 'd \<Rightarrow> FirmwareComponent list" where
  "components_of rows d =
     map (\<lambda>r. Component_ParseDbValue r FirmwareComponent_default) (rows d FIRMWARE_TABLE_COMPONENT)"

definition db_typed :: "('d \<Rightarrow> string \<Rightarrow> ValuesBucket list) \<Rightarrow> 'd \<Rightarrow> bool" where
  "db_typed rows d =
     (list_all task_row_ok (rows d FIRMWARE_TABLE_TASK) \<and>
      list_all component_row_ok (rows d FIRMWARE_TABLE_COMPONENT))"

text \<open>
  The contract of the two tables: every operator seen on the lists of structs. Updates apply
  to every row with the key, a query by key returns the first one.
\<close>

locale firmware_db =
  fixes S :: "'d RdbStore"
    and tasks :: "'d \<Rightarrow> FirmwareTask list"
    and components :: "'d \<Rightarrow> FirmwareComponent list"
    and wf :: "'d \<Rightarrow> bool"
  assumes query_task: "Task_QueryTask S t d =
      (case tasks d of [] \<Rightarrow> t\<lparr>ft_isExistTask := False\<rparr> | x # _ \<Rightarrow> x\<lparr>ft_isExistTask := True\<rparr>)"
    and query_components: "Table_QueryAll S FirmwareComponentTable acc d = (True, acc @ components d)"
    and query_by_version: "wf d \<Longrightarrow> Component_QueryByVersionId S v c d =
      (case filter (\<lambda>x. fc_versionId x = v) (components d) of [] \<Rightarrow> (False, c) | x # _ \<Rightarrow> (True, x))"
    and query_by_url: "wf d \<Longrightarrow> Component_QueryByUrl S u c d =
      (case filter (\<lambda>x. fc_url x = u) (components d) of [] \<Rightarrow> (False, c) | x # _ \<Rightarrow> (True, x))"
    and insert_task: "wf d \<Longrightarrow> task_storable t \<Longrightarrow> Table_Insert1 S FirmwareTaskTable t d = (ok, d') \<Longrightarrow>
      ok \<and> wf d' \<and> tasks d' = tasks d @ [t\<lparr>ft_isExistTask := False\<rparr>] \<and> components d' = components d"
    and insert_components: "wf d \<Longrightarrow> list_all component_storable cs \<Longrightarrow>
      Table_Insert S FirmwareComponentTable cs d = (ok, d') \<Longrightarrow>
      ok \<and> wf d' \<and> tasks d' = tasks d \<and>
      (\<exists>ids. length ids = length cs \<and>
         components d' = components d @ map2 (\<lambda>c i. c\<lparr>fc_id := i\<rparr>) cs ids)"
    and delete_tasks: "wf d \<Longrightarrow> Table_DeleteAll S FirmwareTaskTable d = (ok, d') \<Longrightarrow>
      ok \<and> wf d' \<and> tasks d' = [] \<and> components d' = components d"
    and delete_components: "wf d \<Longrightarrow> Table_DeleteAll S FirmwareComponentTable d = (ok, d') \<Longrightarrow>
      ok \<and> wf d' \<and> tasks d' = tasks d \<and> components d' = []"
    and update_progress: "wf d \<Longrightarrow> us.wf st \<Longrightarrow> Task_UpdateProgressByTaskId S i st pr d = (ok, d') \<Longrightarrow>
      ok \<and> wf d' \<and> components d' = components d \<and>
      tasks d' = map (\<lambda>t. if ft_taskId t = i then t\<lparr>ft_status := st, ft_progress := pr\<rparr> else t) (tasks d)"
    and update_err: "wf d \<Longrightarrow> Task_UpdateErrMsgByTaskId S i ec em d = (ok, d') \<Longrightarrow>
      ok \<and> wf d' \<and> components d' = components d \<and>
      tasks d' = map (\<lambda>t. if ft_taskId t = i then t\<lparr>ft_errorCode := ec, ft_errorMsg := em\<rparr> else t) (tasks d)"
    and update_download_task: "wf d \<Longrightarrow> Task_UpdateDownloadTaskIdByTaskId S i x d = (ok, d') \<Longrightarrow>
      ok \<and> wf d' \<and> components d' = components d \<and>
      tasks d' = map (\<lambda>t. if ft_taskId t = i then t\<lparr>ft_downloadTaskId := x\<rparr> else t) (tasks d)"
    and update_download_option: "wf d \<Longrightarrow> dm.wf m \<Longrightarrow> nt.wf n \<Longrightarrow> od.wf r \<Longrightarrow>
      Task_UpdateDownloadOptionByTaskId S i m n r d = (ok, d') \<Longrightarrow>
      ok \<and> wf d' \<and> components d' = components d \<and>
      tasks d' = map (\<lambda>t. if ft_taskId t = i
        then t\<lparr>ft_downloadMode := m, ft_downloadAllowNetwork := n, ft_downloadOrder := r\<rparr> else t) (tasks d)"
    and update_component_progress: "wf d \<Longrightarrow> us.wf st \<Longrightarrow>
      Component_UpdateProgressByUrl S u st pr d = (ok, d') \<Longrightarrow>
      ok \<and> wf d' \<and> tasks d' = tasks d \<and>
      components d' = map (\<lambda>c. if fc_url c = u then c\<lparr>fc_status := st, fc_progress := pr\<rparr> else c) (components d)"
    and update_url: "wf d \<Longrightarrow> Component_UpdateUrlByVersionId S v u d = (ok, d') \<Longrightarrow>
      ok \<and> wf d' \<and> tasks d' = tasks d \<and>
      components d' = map (\<lambda>c. if fc_versionId c = v then c\<lparr>fc_url := u\<rparr> else c) (components d)"

context rdb_reliable
begin

lemma tasks_of_contents: "tasks_of rows d = tt.contents d"
  by (simp add: tasks_of_def tt.contents_def tt.parse_def [abs_def])

lemma components_of_contents: "components_of rows d = kt.contents d"
  by (simp add: components_of_def kt.contents_def kt.parse_def [abs_def])

lemma db_typed_typed: "db_typed rows d \<longleftrightarrow> tt.typed d \<and> kt.typed d"
  by (simp add: db_typed_def tt.typed_def kt.typed_def)

lemma other_table:
  "rows d' FIRMWARE_TABLE_COMPONENT = rows d FIRMWARE_TABLE_COMPONENT \<Longrightarrow>
   kt.contents d' = kt.contents d \<and> kt.typed d' = kt.typed d"
  "rows d' FIRMWARE_TABLE_TASK = rows d FIRMWARE_TABLE_TASK \<Longrightarrow>
   tt.contents d' = tt.contents d \<and> tt.typed d' = tt.typed d"
  by (simp_all add: kt.contents_def kt.typed_def tt.contents_def tt.typed_def)

lemma table_names_differ: "FIRMWARE_TABLE_TASK \<noteq> FIRMWARE_TABLE_COMPONENT"
  "FIRMWARE_TABLE_COMPONENT \<noteq> FIRMWARE_TABLE_TASK"
  by (simp_all add: FIRMWARE_TABLE_TASK_def FIRMWARE_TABLE_COMPONENT_def)

lemmas db_views = tasks_of_contents components_of_contents db_typed_typed

lemma task_key: "task_row_ok r \<Longrightarrow> r ''taskId'' = Some (DbText v) \<longleftrightarrow> ft_taskId (tt.parse r) = v"
  by (auto simp: task_row_ok_def tt.parse_def Task_ParseDbValue_def)

lemma version_key:
  "component_row_ok r \<Longrightarrow> r ''versionId'' = Some (DbText v) \<longleftrightarrow> fc_versionId (kt.parse r) = v"
  by (auto simp: component_row_ok_def kt.parse_def Component_ParseDbValue_def)

lemma url_key: "component_row_ok r \<Longrightarrow> r ''url'' = Some (DbText v) \<longleftrightarrow> fc_url (kt.parse r) = v"
  by (auto simp: component_row_ok_def kt.parse_def Component_ParseDbValue_def)

lemma task_update:
  assumes "db_typed rows d" and "Task_UpdateByTaskId S i b d = (ok, d')"
    and upd: "\<And>r. tt.parse (r ++ b) = u (tt.parse r)" and "b ''taskId'' = None"
  shows "ok \<and> db_typed rows d' \<and> components_of rows d' = components_of rows d \<and>
    tasks_of rows d' = map (\<lambda>t. if ft_taskId t = i then u t else t) (tasks_of rows d)"
proof -
  have typed: "tt.typed d" "kt.typed d" using assms(1) by (simp_all add: db_views)
  have ok': "tt.parse (r ++ b) = u (tt.parse r) \<and> task_row_ok (r ++ b)" if "task_row_ok r" for r
    using that assms(4) by (auto simp: upd task_row_ok_def map_add_dom_app_simps domIff)
  note U = tt.Update_key [OF typed(1), of "''taskId''" i ft_taskId b u, OF task_key ok']
  have upd_eq: "Table_Update S b (EqualTo ''taskId'' i (RdbPredicates_of FIRMWARE_TABLE_TASK)) d = (ok, d')"
    using assms(2) by (simp add: Task_UpdateByTaskId_def)
  from U(1) U(2) U(3) U(4) [of FIRMWARE_TABLE_COMPONENT] other_table(1) [of d' d] typed
  show ?thesis
    by (simp add: db_views upd_eq table_names_differ)
qed

lemma component_update:
  assumes "db_typed rows d"
    and "Table_Update S b (EqualTo c v (RdbPredicates_of FIRMWARE_TABLE_COMPONENT)) d = (ok, d')"
    and upd: "\<And>r. kt.parse (r ++ b) = u (kt.parse r)" and "\<And>r. component_row_ok r \<Longrightarrow> component_row_ok (r ++ b)"
    and key: "\<And>r. component_row_ok r \<Longrightarrow> r c = Some (DbText v) \<longleftrightarrow> k (kt.parse r) = v"
  shows "ok \<and> db_typed rows d' \<and> tasks_of rows d' = tasks_of rows d \<and>
    components_of rows d' = map (\<lambda>x. if k x = v then u x else x) (components_of rows d)"
proof -
  have typed: "tt.typed d" "kt.typed d" using assms(1) by (simp_all add: db_views)
  have ok': "kt.parse (r ++ b) = u (kt.parse r) \<and> component_row_ok (r ++ b)" if "component_row_ok r" for r
    using that assms(4) by (simp add: upd)
  note U = kt.Update_key [OF typed(2), of c v k b u, OF key ok']
  have upd_eq: "Table_Update S b (EqualTo c v (RdbPredicates_of FIRMWARE_TABLE_COMPONENT)) d = (ok, d')"
    using assms(2) by simp
  from U(1) U(2) U(3) U(4) [of FIRMWARE_TABLE_TASK] other_table(2) [of d' d] typed
  show ?thesis
    by (simp add: db_views upd_eq table_names_differ)
qed

end

sublocale rdb_reliable \<subseteq> fd: firmware_db S "tasks_of rows" "components_of rows" "db_typed rows"
proof (unfold_locales, goal_cases)
  case (1 t d)
  then show ?case
    by (simp add: Task_QueryTask_def tt.QueryAll db_views split: list.split)
next
  case (2 acc d)
  then show ?case using kt.QueryAll [of acc d] by (simp add: db_views)
next
  case (3 d v c)
  then show ?case
    using kt.Query_key [of d "''versionId''" v fc_versionId "[]", OF _ version_key]
    by (simp add: Component_QueryByVersionId_def db_views split: list.split)
next
  case (4 d u c)
  then show ?case
    using kt.Query_key [of d "''url''" u fc_url "[]", OF _ url_key]
    by (simp add: Component_QueryByUrl_def db_views split: list.split)
next
  case (5 d t ok d')
  then show ?case
    using tt.Insert [of "[t]" d] other_table(1) [of d' d]
    by (auto simp: Table_Insert1_def db_views table_names_differ length_Suc_conv)
next
  case (6 d cs ok d')
  then show ?case
    using kt.Insert [of cs d] other_table(2) [of d' d]
    by (auto simp: db_views table_names_differ)
next
  case (7 d ok d')
  then show ?case
    using tt.DeleteAll(1-3) [of d] tt.DeleteAll(4) [of FIRMWARE_TABLE_COMPONENT d] other_table(1) [of d' d]
    by (simp add: db_views table_names_differ)
next
  case (8 d ok d')
  then show ?case
    using kt.DeleteAll(1-3) [of d] kt.DeleteAll(4) [of FIRMWARE_TABLE_TASK d] other_table(2) [of d' d]
    by (simp add: db_views table_names_differ)
next
  case (9 d st i pr ok d')
  from 9(1) 9(3) [unfolded Task_UpdateProgressByTaskId_def] show ?case
    by (rule task_update) (use 9 in \<open>simp_all add: tt.parse_def Task_ParseDbValue_def us.wf_def\<close>)
next
  case (10 d i ec em ok d')
  from 10(1) 10(2) [unfolded Task_UpdateErrMsgByTaskId_def] show ?case
    by (rule task_update) (use 10 in \<open>simp_all add: tt.parse_def Task_ParseDbValue_def\<close>)
next
  case (11 d i x ok d')
  from 11(1) 11(2) [unfolded Task_UpdateDownloadTaskIdByTaskId_def] show ?case
    by (rule task_update) (use 11 in \<open>simp_all add: tt.parse_def Task_ParseDbValue_def\<close>)
next
  case (12 d m n r i ok d')
  from 12(1) 12(5) [unfolded Task_UpdateDownloadOptionByTaskId_def] show ?case
    by (rule task_update) (use 12 in \<open>simp_all add: tt.parse_def Task_ParseDbValue_def dm.wf_def nt.wf_def od.wf_def\<close>)
next
  case (13 d st u pr ok d')
  from 13(1) 13(3) [unfolded Component_UpdateProgressByUrl_def Let_def] show ?case
    by (rule component_update [OF _ _ _ _ url_key])
      (use 13 in \<open>simp_all add: kt.parse_def Component_ParseDbValue_def component_row_ok_def us.wf_def
      COLUMN_ID_def\<close>)
next
  case (14 d v u ok d')
  from 14(1) 14(2) [unfolded Component_UpdateUrlByVersionId_def Let_def] show ?case
    by (rule component_update [OF _ _ _ _ version_key])
      (use 14 in \<open>simp_all add: kt.parse_def Component_ParseDbValue_def component_row_ok_def
      COLUMN_ID_def\<close>)
qed

section \<open>Properties\<close>

context rdb_reliable
begin

lemma insert_query:
  assumes "db_typed rows d"
    and "task_storable t" and "list_all component_storable cs"
    and "Table_DeleteAll S FirmwareTaskTable d = (ok1, d1)"
    and "Table_DeleteAll S FirmwareComponentTable d1 = (ok2, d2)"
    and "Table_Insert1 S FirmwareTaskTable t d2 = (ok3, d3)"
    and "Table_Insert S FirmwareComponentTable cs d3 = (ok4, d4)"
  shows "Task_QueryTask S t0 d4 = t\<lparr>ft_isExistTask := True\<rparr> \<and>
    (\<exists>ids. length ids = length cs \<and>
      Table_QueryAll S FirmwareComponentTable [] d4 = (True, map2 (\<lambda>c i. c\<lparr>fc_id := i\<rparr>) cs ids))"
  using fd.delete_tasks [OF assms(1,4)] fd.delete_components [OF _ assms(5)]
    fd.insert_task [OF _ assms(2,6)] fd.insert_components [OF _ assms(3,7)]
  by (auto simp: fd.query_task fd.query_components)

lemmas progress_refines = fd.update_progress fd.update_component_progress

end

text \<open>
  What the check wrote is what a later start of the service finds. On a store that works,
  clearing both tables and inserting a task and its components makes \<open>QueryTask\<close> return that
  task, marked as existing, and \<open>QueryAll\<close> return the components in order, each with the id
  the store gave it and every other field unchanged.
\<close>

theorem insert_then_query:
  assumes "rdb_reliable S rows" and "db_typed rows d"
    and "task_storable t" and "list_all component_storable cs"
    and "Table_DeleteAll S FirmwareTaskTable d = (ok1, d1)"
    and "Table_DeleteAll S FirmwareComponentTable d1 = (ok2, d2)"
    and "Table_Insert1 S FirmwareTaskTable t d2 = (ok3, d3)"
    and "Table_Insert S FirmwareComponentTable cs d3 = (ok4, d4)"
  shows "Task_QueryTask S t0 d4 = t\<lparr>ft_isExistTask := True\<rparr> \<and>
    (\<exists>ids. length ids = length cs \<and>
      Table_QueryAll S FirmwareComponentTable [] d4 = (True, map2 (\<lambda>c i. c\<lparr>fc_id := i\<rparr>) cs ids))"
  by (rule rdb_reliable.insert_query [OF assms])

definition sample_task :: FirmwareTask where
  "sample_task = FirmwareTask_default\<lparr>ft_taskId := ''t1'', ft_status := UpgradeStatus.CHECK_VERSION_SUCCESS\<rparr>"

lemma sample_task_storable: "task_storable sample_task"
  by (simp add: sample_task_def task_storable_def FirmwareTask_default_def us.wf_named ct.wf_named
      dm.wf_named nt.wf_named od.wf_named um.wf_named enum_simps)

lemma default_component_storable: "component_storable (FirmwareComponent_default\<lparr>fc_url := u\<rparr>)"
  by (simp add: component_storable_def FirmwareComponent_default_def us.wf_named pt.wf_named enum_simps)

lemma empty_db_typed: "db_typed fst empty_list_db"
  by (simp add: db_typed_def empty_list_db_def)

theorem insert_then_query_witness:
  "\<exists>d4. Task_QueryTask list_store FirmwareTask_default d4 = sample_task\<lparr>ft_isExistTask := True\<rparr> \<and>
    length (snd (Table_QueryAll list_store FirmwareComponentTable [] d4)) = 2"
proof -
  obtain ok1 d1 where 1: "Table_DeleteAll list_store FirmwareTaskTable empty_list_db = (ok1, d1)"
    by (rule prod.exhaust)
  obtain ok2 d2 where 2: "Table_DeleteAll list_store FirmwareComponentTable d1 = (ok2, d2)" by (rule prod.exhaust)
  obtain ok3 d3 where 3: "Table_Insert1 list_store FirmwareTaskTable sample_task d2 = (ok3, d3)"
    by (rule prod.exhaust)
  let ?cs = "[FirmwareComponent_default\<lparr>fc_url := ''u1''\<rparr>, FirmwareComponent_default\<lparr>fc_url := ''u2''\<rparr>]"
  obtain ok4 d4 where 4: "Table_Insert list_store FirmwareComponentTable ?cs d3 = (ok4, d4)" by (rule prod.exhaust)
  have "list_all component_storable ?cs" by (simp add: default_component_storable)
  from insert_then_query [OF ls.rdb_reliable_axioms empty_db_typed sample_task_storable this 1 2 3 4,
      of FirmwareTask_default]
  show ?thesis by (intro exI [of _ d4]) auto
qed

text \<open>
  Progress reaches the rows it is meant for and nothing else: on a store that works,
  \<open>UpdateProgressByTaskId\<close> sets status and progress of every task with that id and
  \<open>UpdateProgressByUrl\<close> those of every component with that url; other fields, other rows and
  the other table keep their values.
\<close>

theorem progress_updates:
  assumes "rdb_reliable S rows" and "db_typed rows d" and "us.wf st"
  shows "(Task_UpdateProgressByTaskId S i st pr d = (ok, d') \<longrightarrow>
      ok \<and> components_of rows d' = components_of rows d \<and>
      tasks_of rows d' = map (\<lambda>t. if ft_taskId t = i then t\<lparr>ft_status := st, ft_progress := pr\<rparr> else t)
        (tasks_of rows d)) \<and>
    (Component_UpdateProgressByUrl S u st pr d = (ok, d') \<longrightarrow>
      ok \<and> tasks_of rows d' = tasks_of rows d \<and>
      components_of rows d' = map (\<lambda>c. if fc_url c = u then c\<lparr>fc_status := st, fc_progress := pr\<rparr> else c)
        (components_of rows d))"
  using rdb_reliable.progress_refines [OF assms] by blast

theorem progress_updates_witness:
  "\<exists>ok d'. Task_UpdateProgressByTaskId list_store ''t1'' UpgradeStatus.DOWNLOADING 40
      (snd (Table_Insert1 list_store FirmwareTaskTable sample_task empty_list_db)) = (ok, d') \<and> ok \<and>
    tasks_of fst d' =
      map (\<lambda>t. if ft_taskId t = ''t1'' then t\<lparr>ft_status := UpgradeStatus.DOWNLOADING, ft_progress := 40\<rparr> else t)
        (tasks_of fst (snd (Table_Insert1 list_store FirmwareTaskTable sample_task empty_list_db)))"
proof -
  obtain ok d where 1: "Table_Insert1 list_store FirmwareTaskTable sample_task empty_list_db = (ok, d)"
    by (rule prod.exhaust)
  have "db_typed fst d"
    using ls.fd.insert_task [OF empty_db_typed sample_task_storable 1] by simp
  moreover have "us.wf UpgradeStatus.DOWNLOADING" by (simp add: us.wf_named enum_simps)
  moreover obtain ok' d' where 2: "Task_UpdateProgressByTaskId list_store ''t1'' UpgradeStatus.DOWNLOADING 40 d = (ok', d')"
    by (rule prod.exhaust)
  ultimately show ?thesis
    using progress_updates [OF ls.rdb_reliable_axioms, of d UpgradeStatus.DOWNLOADING "''t1''" 40 ok' d'] 1 2
    by (intro exI [of _ ok'] exI [of _ d']) simp
qed

text \<open>
  A store that refuses a call keeps the database: whenever an insert, delete or update of a
  table reports \<open>false\<close>, the tasks and the components are what they were.
\<close>

theorem failed_write_keeps_db:
  assumes "rdb_store S rows"
  shows "(Table_Insert S T vs d = (False, d') \<longrightarrow> rows d' = rows d) \<and>
    (Table_DeleteAll S T d = (False, d') \<longrightarrow> rows d' = rows d) \<and>
    (Table_Update S b p d = (False, d') \<longrightarrow> rows d' = rows d)"
  using rdb_store.insert_fail [OF assms] rdb_store.delete_fail [OF assms] rdb_store.update_fail [OF assms]
  by (auto simp: Table_Insert_def Table_DeleteAll_def Table_Delete_def Table_Update_def
      SqliteDb_Insert_def SqliteDb_Delete_def SqliteDb_Update_def split: if_splits prod.splits)

definition closed_store :: "list_db RdbStore" where
  "closed_store = list_store\<lparr>rdb_open := \<lambda>_. False\<rparr>"

theorem failed_write_keeps_db_witness:
  "\<exists>d'. Table_Insert closed_store FirmwareTaskTable [sample_task] empty_list_db = (False, d') \<and>
     fst d' = fst empty_list_db"
proof -
  have "rdb_store closed_store fst"
    using ls.rdb_store_axioms by (simp add: closed_store_def rdb_store_def)
  moreover have "fst (Table_Insert closed_store FirmwareTaskTable [sample_task] empty_list_db) = False"
    by (simp add: Table_Insert_def SqliteDb_Insert_def closed_store_def)
  ultimately show ?thesis
    using failed_write_keeps_db [of closed_store fst FirmwareTaskTable "[sample_task]" empty_list_db]
    by (metis prod.collapse)
qed

end
