(* ===== verification/Update_Json.thy ===== *)
theory Update_Json
  imports Update_Types String_Utils
begin

unbundle bit_operations_syntax

text \<open>
  The JSON text an event notification carries: \<open>JsonBuilder\<close>
  (\<open>interfaces/inner_api/include/json_builder.h\<close>), the \<open>GetJsonBuilder\<close> functions of
  \<open>services/engine/src/update_helper.cpp\<close> and the table of members each event shows
  (\<open>g_taskBodyTemplateMap\<close>). The reference is a JSON tree and its rendering.
\<close>

section \<open>JsonBuilder\<close>

record JsonBuilder =
  jb_builder :: string
  jb_isFirstItem :: bool

definition JsonBuilder_new :: JsonBuilder where
  "JsonBuilder_new = \<lparr>jb_builder = [], jb_isFirstItem = True\<rparr>"

definition quote :: string where
  "quote = [CHR 0x22]"

definition jb_Append :: "string \<Rightarrow> JsonBuilder \<Rightarrow> JsonBuilder" where
  "jb_Append qualifier b = b\<lparr>jb_builder := jb_builder b @ qualifier\<rparr>"

definition jb_AppendComma :: "JsonBuilder \<Rightarrow> JsonBuilder" where
  "jb_AppendComma b =
     (if jb_isFirstItem b then b\<lparr>jb_isFirstItem := False\<rparr>
      else b\<lparr>jb_builder := jb_builder b @ '',''\<rparr>)"

definition jb_AppendNum :: "string \<Rightarrow> string \<Rightarrow> JsonBuilder \<Rightarrow> JsonBuilder" where
  "jb_AppendNum key v b =
     (let b = jb_AppendComma b
      in b\<lparr>jb_builder := jb_builder b @ quote @ key @ quote @ '':'' @ v\<rparr>)"

definition jb_AppendInt32 :: "string \<Rightarrow> int32_t \<Rightarrow> JsonBuilder \<Rightarrow> JsonBuilder" where
  "jb_AppendInt32 key v b = jb_AppendNum key (to_string v) b"

definition jb_AppendInt64 :: "string \<Rightarrow> int64_t \<Rightarrow> JsonBuilder \<Rightarrow> JsonBuilder" where
  "jb_AppendInt64 key v b = jb_AppendNum key (to_string64 v) b"

definition jb_AppendStr :: "string \<Rightarrow> string \<Rightarrow> JsonBuilder \<Rightarrow> JsonBuilder" where
  "jb_AppendStr key v b =
     (let b = jb_AppendComma b
      in b\<lparr>jb_builder := jb_builder b @ quote @ key @ quote @ '':'' @ quote @ v @ quote\<rparr>)"

definition jb_ToJson :: "JsonBuilder \<Rightarrow> string" where
  "jb_ToJson b = jb_builder b"

definition jb_AppendObj :: "string \<Rightarrow> JsonBuilder \<Rightarrow> JsonBuilder \<Rightarrow> JsonBuilder" where
  "jb_AppendObj key v b =
     (let b = jb_AppendComma b
      in b\<lparr>jb_builder := jb_builder b @ quote @ key @ quote @ '':'' @ jb_ToJson v\<rparr>)"

fun jb_array :: "JsonBuilder list \<Rightarrow> JsonBuilder \<Rightarrow> JsonBuilder" where
  "jb_array [] a = a"
| "jb_array [v] a = jb_Append (jb_ToJson v) a"
| "jb_array (v # vs) a = jb_array vs (jb_Append '','' (jb_Append (jb_ToJson v) a))"

definition jb_AppendList :: "string \<Rightarrow> JsonBuilder list \<Rightarrow> JsonBuilder \<Rightarrow> JsonBuilder" where
  "jb_AppendList key valueList b =
     (if valueList \<noteq> [] then
        (let jsonArray = jb_Append ''['' JsonBuilder_new;
             jsonArray = jb_array valueList jsonArray;
             jsonArray = jb_Append '']'' jsonArray
         in jb_AppendObj key jsonArray b)
      else b)"

section \<open>The builders of the structs\<close>

definition BusinessType_GetJsonBuilder :: "BusinessType \<Rightarrow> JsonBuilder" where
  "BusinessType_GetJsonBuilder t =
     (let b = jb_Append ''{'' JsonBuilder_new;
          b = jb_AppendStr ''vendor'' (vendor t) b;
          b = jb_AppendInt32 ''subType'' (BusinessSubType_code (subType t)) b
      in jb_Append ''}'' b)"

definition VersionDigestInfo_GetJsonBuilder :: "VersionDigestInfo \<Rightarrow> JsonBuilder" where
  "VersionDigestInfo_GetJsonBuilder d =
     jb_Append ''}'' (jb_AppendStr ''versionDigest'' (vd_versionDigest d) (jb_Append ''{'' JsonBuilder_new))"

definition ErrorMessage_GetJsonBuilder :: "ErrorMessage \<Rightarrow> JsonBuilder" where
  "ErrorMessage_GetJsonBuilder e =
     (let b = jb_Append ''{'' JsonBuilder_new;
          b = jb_AppendInt32 ''errorCode'' (em_errorCode e) b;
          b = jb_AppendStr ''errorMessage'' (em_errorMessage e) b
      in jb_Append ''}'' b)"

definition DescriptionInfo_GetJsonBuilder :: "DescriptionInfo \<Rightarrow> JsonBuilder" where
  "DescriptionInfo_GetJsonBuilder d =
     (let b = jb_Append ''{'' JsonBuilder_new;
          b = jb_AppendInt32 ''descriptionType'' (DescriptionType_code (di_descriptionType d)) b;
          b = jb_AppendStr ''content'' (di_content d) b
      in jb_Append ''}'' b)"

definition VersionComponent_GetJsonBuilder :: "VersionComponent \<Rightarrow> JsonBuilder" where
  "VersionComponent_GetJsonBuilder c =
     (let b = jb_Append ''{'' JsonBuilder_new;
          b = jb_AppendStr ''componentId'' (vc_componentId c) b;
          b = jb_AppendInt32 ''componentType'' (vc_componentType c) b;
          b = jb_AppendStr ''upgradeAction'' (vc_upgradeAction c) b;
          b = jb_AppendStr ''displayVersion'' (vc_displayVersion c) b;
          b = jb_AppendStr ''innerVersion'' (vc_innerVersion c) b;
          b = jb_AppendInt64 ''size'' (vc_size c) b;
          b = jb_AppendInt32 ''effectiveMode'' (uint32_of_size (vc_effectiveMode c)) b;
          b = jb_AppendObj ''descriptionInfo'' (DescriptionInfo_GetJsonBuilder (vc_descriptionInfo c)) b;
          b = jb_AppendStr ''componentExtra'' (vc_componentExtra c) b
      in jb_Append ''}'' b)"

definition VERSION_DIGEST_INFO :: uint32_t where "VERSION_DIGEST_INFO = 0x00000001"
definition UPGRADE_STATUS :: uint32_t where "UPGRADE_STATUS = 0x00000010"
definition SUB_STATUS :: uint32_t where "SUB_STATUS = 0x00000100"
definition PROGRESS :: uint32_t where "PROGRESS = 0x00001000"
definition INSTALL_MODE :: uint32_t where "INSTALL_MODE = 0x00010000"
definition ERROR_MESSAGE :: uint32_t where "ERROR_MESSAGE = 0x00100000"
definition VERSION_COMPONENT :: uint32_t where "VERSION_COMPONENT = 0x01000000"

fun g_taskBodyTemplateMap :: "EventId \<Rightarrow> uint32_t option" where
  "g_taskBodyTemplateMap EVENT_TASK_RECEIVE = Some VERSION_DIGEST_INFO"
| "g_taskBodyTemplateMap EVENT_TASK_CANCEL = Some VERSION_DIGEST_INFO"
| "g_taskBodyTemplateMap EVENT_DOWNLOAD_WAIT = Some (VERSION_DIGEST_INFO OR UPGRADE_STATUS OR INSTALL_MODE)"
| "g_taskBodyTemplateMap EVENT_DOWNLOAD_START = Some (VERSION_DIGEST_INFO OR INSTALL_MODE)"
| "g_taskBodyTemplateMap EVENT_DOWNLOAD_UPDATE =
     Some (VERSION_DIGEST_INFO OR UPGRADE_STATUS OR PROGRESS OR INSTALL_MODE)"
| "g_taskBodyTemplateMap EVENT_DOWNLOAD_PAUSE =
     Some (VERSION_DIGEST_INFO OR UPGRADE_STATUS OR PROGRESS OR INSTALL_MODE OR ERROR_MESSAGE)"
| "g_taskBodyTemplateMap EVENT_DOWNLOAD_RESUME =
     Some (VERSION_DIGEST_INFO OR UPGRADE_STATUS OR PROGRESS OR INSTALL_MODE)"
| "g_taskBodyTemplateMap EVENT_DOWNLOAD_SUCCESS = Some (VERSION_DIGEST_INFO OR INSTALL_MODE)"
| "g_taskBodyTemplateMap EVENT_DOWNLOAD_CANCEL = Some (VERSION_DIGEST_INFO OR UPGRADE_STATUS)"
| "g_taskBodyTemplateMap EVENT_DOWNLOAD_FAIL = Some (VERSION_DIGEST_INFO OR INSTALL_MODE OR ERROR_MESSAGE)"
| "g_taskBodyTemplateMap EVENT_UPGRADE_WAIT =
     Some (VERSION_DIGEST_INFO OR UPGRADE_STATUS OR INSTALL_MODE OR ERROR_MESSAGE)"
| "g_taskBodyTemplateMap EVENT_UPGRADE_START = Some (VERSION_DIGEST_INFO OR UPGRADE_STATUS OR INSTALL_MODE)"
| "g_taskBodyTemplateMap EVENT_UPGRADE_UPDATE =
     Some (VERSION_DIGEST_INFO OR UPGRADE_STATUS OR PROGRESS OR INSTALL_MODE)"
| "g_taskBodyTemplateMap EVENT_APPLY_WAIT = Some (VERSION_DIGEST_INFO OR UPGRADE_STATUS OR ERROR_MESSAGE)"
| "g_taskBodyTemplateMap EVENT_APPLY_START = Some VERSION_DIGEST_INFO"
| "g_taskBodyTemplateMap EVENT_UPGRADE_SUCCESS = Some (VERSION_DIGEST_INFO OR VERSION_COMPONENT)"
| "g_taskBodyTemplateMap EVENT_UPGRADE_FAIL =
     Some (VERSION_DIGEST_INFO OR VERSION_COMPONENT OR ERROR_MESSAGE)"
| "g_taskBodyTemplateMap EVENT_AUTH_START =
     Some (VERSION_DIGEST_INFO OR VERSION_COMPONENT OR UPGRADE_STATUS)"
| "g_taskBodyTemplateMap EVENT_AUTH_SUCCESS =
     Some (VERSION_DIGEST_INFO OR VERSION_COMPONENT OR UPGRADE_STATUS)"
| "g_taskBodyTemplateMap EVENT_INITIALIZE = Some UPGRADE_STATUS"
| "g_taskBodyTemplateMap _ = None"

definition TaskBody_GetJsonBuilder :: "EventId \<Rightarrow> TaskBody \<Rightarrow> JsonBuilder" where
  "TaskBody_GetJsonBuilder eventId t =
     (case g_taskBodyTemplateMap eventId of
        None \<Rightarrow> JsonBuilder_new
      | Some taskBodyTemplate \<Rightarrow>
          (let b = jb_Append ''{'' JsonBuilder_new;
               b = (if taskBodyTemplate AND VERSION_DIGEST_INFO \<noteq> 0
                    then jb_AppendObj ''versionDigestInfo''
                           (VersionDigestInfo_GetJsonBuilder (tb_versionDigestInfo t)) b else b);
               b = (if taskBodyTemplate AND UPGRADE_STATUS \<noteq> 0
                    then jb_AppendInt32 ''status'' (UpgradeStatus_code (tb_status t)) b else b);
               b = (if taskBodyTemplate AND SUB_STATUS \<noteq> 0
                    then jb_AppendInt32 ''subStatus'' (tb_subStatus t) b else b);
               b = (if taskBodyTemplate AND PROGRESS \<noteq> 0
                    then jb_AppendInt32 ''progress'' (tb_progress t) b else b);
               b = (if taskBodyTemplate AND INSTALL_MODE \<noteq> 0
                    then jb_AppendInt32 ''installMode'' (tb_installMode t) b else b);
               b = (if taskBodyTemplate AND ERROR_MESSAGE \<noteq> 0
                    then jb_AppendList ''errorMessages'' (map ErrorMessage_GetJsonBuilder (tb_errorMessages t)) b
                    else b);
               b = (if taskBodyTemplate AND VERSION_COMPONENT \<noteq> 0
                    then jb_AppendList ''versionComponents''
                           (map VersionComponent_GetJsonBuilder (tb_versionComponents t)) b else b)
           in jb_Append ''}'' b))"

definition EventInfo_GetJsonBuilder :: "EventInfo \<Rightarrow> JsonBuilder" where
  "EventInfo_GetJsonBuilder e =
     (let b = jb_Append ''{'' JsonBuilder_new;
          b = jb_AppendInt32 ''eventId'' (EventId_code (ei_eventId e)) b;
          b = jb_AppendObj ''taskBody'' (TaskBody_GetJsonBuilder (ei_eventId e) (ei_taskBody e)) b
      in jb_Append ''}'' b)"

definition EventInfo_ToJson :: "EventInfo \<Rightarrow> string" where
  "EventInfo_ToJson e = jb_ToJson (EventInfo_GetJsonBuilder e)"

section \<open>Reference: JSON trees\<close>

datatype json = JNum string | JStr string | JObj "(string \<times> json) list" | JArr "json list"

fun join :: "string list \<Rightarrow> string" where
  "join [] = []"
| "join [x] = x"
| "join (x # xs) = x @ '','' @ join xs"

fun render :: "json \<Rightarrow> string" and render_fields :: "(string \<times> json) list \<Rightarrow> string list"
  and render_items :: "json list \<Rightarrow> string list" where
  "render (JNum n) = n"
| "render (JStr s) = quote @ s @ quote"
| "render (JObj fs) = ''{'' @ join (render_fields fs) @ ''}''"
| "render (JArr vs) = ''['' @ join (render_items vs) @ '']''"
| "render_fields [] = []"
| "render_fields ((k, v) # fs) = (quote @ k @ quote @ '':'' @ render v) # render_fields fs"
| "render_items [] = []"
| "render_items (v # vs) = render v # render_items vs"

lemma join_snoc: "join (xs @ [y]) = (if xs = [] then y else join xs @ '','' @ y)"
  by (induction xs rule: join.induct) simp_all

lemma render_fields_snoc:
  "render_fields (fs @ [(k, v)]) = render_fields fs @ [quote @ k @ quote @ '':'' @ render v]"
  by (induction fs) auto

lemma render_fields_Nil: "render_fields fs = [] \<longleftrightarrow> fs = []"
  by (cases fs) auto

lemma render_items_map: "render_items vs = map render vs"
  by (induction vs) auto

text \<open>A builder in the middle of an object: the text so far is the opening brace and the fields.\<close>

definition open_obj :: "JsonBuilder \<Rightarrow> (string \<times> json) list \<Rightarrow> bool" where
  "open_obj b fs \<longleftrightarrow> jb_builder b = ''{'' @ join (render_fields fs) \<and> jb_isFirstItem b = (fs = [])"

lemma open_obj_start: "open_obj (jb_Append ''{'' JsonBuilder_new) []"
  by (simp add: open_obj_def jb_Append_def JsonBuilder_new_def)

lemma open_obj_item:
  assumes "open_obj b fs"
  shows "open_obj (jb_AppendInt32 k w b) (fs @ [(k, JNum (to_string w))])"
    and "open_obj (jb_AppendInt64 k l b) (fs @ [(k, JNum (to_string64 l))])"
    and "open_obj (jb_AppendStr k s b) (fs @ [(k, JStr s)])"
    and "jb_ToJson c = render v \<Longrightarrow> open_obj (jb_AppendObj k c b) (fs @ [(k, v)])"
  using assms
  by (auto simp: open_obj_def jb_AppendInt32_def jb_AppendInt64_def jb_AppendNum_def jb_AppendStr_def
      jb_AppendObj_def jb_AppendComma_def Let_def render_fields_snoc join_snoc render_fields_Nil)

lemma open_obj_close: "open_obj b fs \<Longrightarrow> jb_ToJson (jb_Append ''}'' b) = render (JObj fs)"
  by (simp add: open_obj_def jb_ToJson_def jb_Append_def)

lemma jb_array_text: "jb_builder (jb_array vs a) = jb_builder a @ join (map jb_ToJson vs)"
  by (induction vs a rule: jb_array.induct) (simp_all add: jb_Append_def)

lemma open_obj_list:
  assumes "open_obj b fs" and "map jb_ToJson bs = map render vs"
  shows "open_obj (jb_AppendList k bs b) (fs @ (if vs = [] then [] else [(k, JArr vs)]))"
proof (cases "vs = []")
  case True
  with assms show ?thesis by (simp add: jb_AppendList_def)
next
  case False
  let ?a = "jb_Append '']'' (jb_array bs (jb_Append ''['' JsonBuilder_new))"
  have "jb_ToJson ?a = render (JArr vs)"
    using assms(2) by (simp add: jb_ToJson_def jb_Append_def JsonBuilder_new_def jb_array_text
        render_items_map)
  moreover have "bs \<noteq> []" using False assms(2) by auto
  ultimately show ?thesis
    using False open_obj_item(4) [OF assms(1)] by (simp add: jb_AppendList_def)
qed

definition VersionDigest_json :: "VersionDigestInfo \<Rightarrow> json" where
  "VersionDigest_json d = JObj [(''versionDigest'', JStr (vd_versionDigest d))]"

definition ErrorMessage_json :: "ErrorMessage \<Rightarrow> json" where
  "ErrorMessage_json e =
     JObj [(''errorCode'', JNum (to_string (em_errorCode e))), (''errorMessage'', JStr (em_errorMessage e))]"

definition DescriptionInfo_json :: "DescriptionInfo \<Rightarrow> json" where
  "DescriptionInfo_json d =
     JObj [(''descriptionType'', JNum (to_string (DescriptionType_code (di_descriptionType d)))),
           (''content'', JStr (di_content d))]"

definition VersionComponent_json :: "VersionComponent \<Rightarrow> json" where
  "VersionComponent_json c =
     JObj [(''componentId'', JStr (vc_componentId c)),
           (''componentType'', JNum (to_string (vc_componentType c))),
           (''upgradeAction'', JStr (vc_upgradeAction c)), (''displayVersion'', JStr (vc_displayVersion c)),
           (''innerVersion'', JStr (vc_innerVersion c)), (''size'', JNum (to_string64 (vc_size c))),
           (''effectiveMode'', JNum (to_string (uint32_of_size (vc_effectiveMode c)))),
           (''descriptionInfo'', DescriptionInfo_json (vc_descriptionInfo c)),
           (''componentExtra'', JStr (vc_componentExtra c))]"

definition TaskBody_json :: "uint32_t \<Rightarrow> TaskBody \<Rightarrow> json" where
  "TaskBody_json m t =
     JObj ((if m AND VERSION_DIGEST_INFO \<noteq> 0 then [(''versionDigestInfo'', VersionDigest_json (tb_versionDigestInfo t))] else []) @
           (if m AND UPGRADE_STATUS \<noteq> 0 then [(''status'', JNum (to_string (UpgradeStatus_code (tb_status t))))] else []) @
           (if m AND SUB_STATUS \<noteq> 0 then [(''subStatus'', JNum (to_string (tb_subStatus t)))] else []) @
           (if m AND PROGRESS \<noteq> 0 then [(''progress'', JNum (to_string (tb_progress t)))] else []) @
           (if m AND INSTALL_MODE \<noteq> 0 then [(''installMode'', JNum (to_string (tb_installMode t)))] else []) @
           (if m AND ERROR_MESSAGE \<noteq> 0 \<and> tb_errorMessages t \<noteq> []
            then [(''errorMessages'', JArr (map ErrorMessage_json (tb_errorMessages t)))] else []) @
           (if m AND VERSION_COMPONENT \<noteq> 0 \<and> tb_versionComponents t \<noteq> []
            then [(''versionComponents'', JArr (map VersionComponent_json (tb_versionComponents t)))] else []))"

lemmas append_defs = jb_AppendInt32_def jb_AppendInt64_def jb_AppendNum_def jb_AppendStr_def
  jb_AppendObj_def jb_AppendComma_def jb_Append_def jb_ToJson_def JsonBuilder_new_def Let_def

lemma VersionDigest_text:
  "jb_ToJson (VersionDigestInfo_GetJsonBuilder d) = render (VersionDigest_json d)"
  by (simp add: VersionDigestInfo_GetJsonBuilder_def VersionDigest_json_def append_defs)

lemma ErrorMessage_text: "jb_ToJson (ErrorMessage_GetJsonBuilder e) = render (ErrorMessage_json e)"
  by (simp add: ErrorMessage_GetJsonBuilder_def ErrorMessage_json_def append_defs)

lemma DescriptionInfo_text:
  "jb_ToJson (DescriptionInfo_GetJsonBuilder i) = render (DescriptionInfo_json i)"
  by (simp add: DescriptionInfo_GetJsonBuilder_def DescriptionInfo_json_def append_defs)

lemma VersionComponent_text:
  "jb_ToJson (VersionComponent_GetJsonBuilder c) = render (VersionComponent_json c)"
  unfolding VersionComponent_GetJsonBuilder_def VersionComponent_json_def Let_def
  using open_obj_close [OF open_obj_item(3) [OF open_obj_item(4) [OF open_obj_item(1) [OF
      open_obj_item(2) [OF open_obj_item(3) [OF open_obj_item(3) [OF open_obj_item(3) [OF
      open_obj_item(1) [OF open_obj_item(3) [OF open_obj_start]]]]]]] DescriptionInfo_text]]]
  by (simp only: append.simps)

lemmas struct_texts = VersionDigest_text ErrorMessage_text VersionComponent_text

lemma open_obj_if:
  "open_obj b fs \<Longrightarrow> (open_obj b fs \<Longrightarrow> open_obj (h b) (fs @ gs)) \<Longrightarrow>
   open_obj (if c then h b else b) (fs @ (if c then gs else []))"
  "open_obj b [] \<Longrightarrow> (open_obj b [] \<Longrightarrow> open_obj (h b) ([] @ gs)) \<Longrightarrow>
   open_obj (if c then h b else b) (if c then gs else [])"
  by simp_all

lemma TaskBody_text:
  assumes "g_taskBodyTemplateMap eventId = Some m"
  shows "jb_ToJson (TaskBody_GetJsonBuilder eventId t) = render (TaskBody_json m t)"
proof -
  have ifs: "(if c \<and> xs \<noteq> [] then [(k, JArr (map f xs))] else []) =
      (if c then if map f xs = [] then [] else [(k, JArr (map f xs))] else [])" for c k f and xs :: "'a list"
    by simp
  show ?thesis
    unfolding TaskBody_GetJsonBuilder_def TaskBody_json_def assms option.simps Let_def ifs
    unfolding append_assoc [symmetric]
    by (rule open_obj_close, (rule open_obj_if)+, rule open_obj_start)
      (erule open_obj_item open_obj_item(4) [OF _ VersionDigest_text] open_obj_list,
        (simp only: map_map comp_def struct_texts)?)+
qed

definition EventInfo_json :: "uint32_t \<Rightarrow> EventInfo \<Rightarrow> json" where
  "EventInfo_json m e =
     JObj [(''eventId'', JNum (to_string (EventId_code (ei_eventId e)))),
           (''taskBody'', TaskBody_json m (ei_taskBody e))]"

text \<open>
  The text of an event whose id is in the template table is the rendering of a JSON object
  with the event id and exactly the members the table gives for that event, in the order of
  the table's bits, arrays left out when empty. For any other id, which \<open>ProgressCallback\<close> uses
  for a status outside its map, the member \<open>taskBody\<close> has no value and the text is not JSON.
\<close>

theorem EventInfo_ToJson_text:
  "(case g_taskBodyTemplateMap (ei_eventId e) of
      Some m \<Rightarrow> EventInfo_ToJson e = render (EventInfo_json m e)
    | None \<Rightarrow> EventInfo_ToJson e =
        ''{'' @ quote @ ''eventId'' @ quote @ '':'' @ to_string (EventId_code (ei_eventId e)) @ '','' @
        quote @ ''taskBody'' @ quote @ '':}'')"
proof (cases "g_taskBodyTemplateMap (ei_eventId e)")
  case None
  then show ?thesis
    by (simp add: EventInfo_ToJson_def EventInfo_GetJsonBuilder_def TaskBody_GetJsonBuilder_def append_defs)
next
  case (Some m)
  then show ?thesis
    unfolding EventInfo_ToJson_def EventInfo_GetJsonBuilder_def EventInfo_json_def Let_def
    using open_obj_close [OF open_obj_item(4) [OF open_obj_item(1) [OF open_obj_start]
        TaskBody_text [OF Some]]]
    by (simp only: append.simps option.simps)
qed

end
