(* ===== verification/Std_Map.thy ===== *)
theory Std_Map
  imports Update_Types
begin

text \<open>
  \<open>std::map\<close>: the associations in key order, two keys being the same key when neither is below
  the other. \<open>insert\<close> and \<open>emplace\<close> keep an association that is already there. The locale is the
  contract of \<open>std::map\<close> for a strict weak order, interpreted on the two orders the service
  uses: \<open>UpgradeInfo::operator<\<close> for the client map and the order of strings.
\<close>

fun om_find :: "('k \<Rightarrow> 'k \<Rightarrow> bool) \<Rightarrow> 'k \<Rightarrow> ('k \<times> 'v) list \<Rightarrow> 'v option" where
  "om_find lt k [] = None"
| "om_find lt k ((k', v) # m) =
     (if lt k k' then None else if lt k' k then om_find lt k m else Some v)"

fun om_insert :: "('k \<Rightarrow> 'k \<Rightarrow> bool) \<Rightarrow> 'k \<Rightarrow> 'v \<Rightarrow> ('k \<times> 'v) list \<Rightarrow> ('k \<times> 'v) list" where
  "om_insert lt k v [] = [(k, v)]"
| "om_insert lt k v ((k', v') # m) =
     (if lt k k' then (k, v) # (k', v') # m
      else if lt k' k then (k', v') # om_insert lt k v m
      else (k', v') # m)"

fun om_erase :: "('k \<Rightarrow> 'k \<Rightarrow> bool) \<Rightarrow> 'k \<Rightarrow> ('k \<times> 'v) list \<Rightarrow> ('k \<times> 'v) list" where
  "om_erase lt k [] = []"
| "om_erase lt k ((k', v') # m) =
     (if lt k k' then (k', v') # m
      else if lt k' k then (k', v') # om_erase lt k m
      else m)"

text \<open>\<open>operator[]\<close> of the map followed by an assignment.\<close>

fun om_assign :: "('k \<Rightarrow> 'k \<Rightarrow> bool) \<Rightarrow> 'k \<Rightarrow> 'v \<Rightarrow> ('k \<times> 'v) list \<Rightarrow> ('k \<times> 'v) list" where
  "om_assign lt k v [] = [(k, v)]"
| "om_assign lt k v ((k', v') # m) =
     (if lt k k' then (k, v) # (k', v') # m
      else if lt k' k then (k', v') # om_assign lt k v m
      else (k', v) # m)"

definition same_key :: "('k \<Rightarrow> 'k \<Rightarrow> bool) \<Rightarrow> 'k \<Rightarrow> 'k \<Rightarrow> bool" where
  "same_key lt a b \<longleftrightarrow> \<not> lt a b \<and> \<not> lt b a"

definition om_ordered :: "('k \<Rightarrow> 'k \<Rightarrow> bool) \<Rightarrow> ('k \<times> 'v) list \<Rightarrow> bool" where
  "om_ordered lt m = sorted_wrt lt (map fst m)"

locale std_map =
  fixes lt :: "'k \<Rightarrow> 'k \<Rightarrow> bool"
  assumes irrefl: "\<not> lt a a"
    and trans: "lt a b \<Longrightarrow> lt b c \<Longrightarrow> lt a c"
    and weak: "\<not> lt a b \<Longrightarrow> \<not> lt b c \<Longrightarrow> \<not> lt a c"
begin

lemma ordered_Nil: "om_ordered lt []"
  by (simp add: om_ordered_def)

lemma ordered_Cons: "om_ordered lt ((k, v) # m) \<longleftrightarrow> (\<forall>(k', v') \<in> set m. lt k k') \<and> om_ordered lt m"
  by (auto simp: om_ordered_def)

lemma same_refl: "same_key lt a a"
  by (simp add: same_key_def irrefl)

lemma same_less: "same_key lt a b \<Longrightarrow> lt a c \<longleftrightarrow> lt b c"
  unfolding same_key_def using weak trans by blast

lemma less_same: "same_key lt a b \<Longrightarrow> lt c a \<longleftrightarrow> lt c b"
  unfolding same_key_def using weak trans by blast

lemma insert_keys: "(k', v') \<in> set (om_insert lt k v m) \<Longrightarrow> (k', v') = (k, v) \<or> (k', v') \<in> set m"
  by (induction m) (auto split: if_splits)

lemma ordered_insert: "om_ordered lt m \<Longrightarrow> om_ordered lt (om_insert lt k v m)"
  by (induction m) (fastforce simp: ordered_Cons dest: insert_keys trans)+

lemma erase_keys: "p \<in> set (om_erase lt k m) \<Longrightarrow> p \<in> set m"
  by (induction m) (auto split: if_splits)

lemma ordered_erase: "om_ordered lt m \<Longrightarrow> om_ordered lt (om_erase lt k m)"
  by (induction m) (auto simp: ordered_Cons dest!: erase_keys)

lemma find_above: "(\<forall>(k', v') \<in> set m. lt k k') \<Longrightarrow> om_find lt k m = None"
  by (cases m) auto

lemma find_same: "same_key lt j k \<Longrightarrow> om_find lt j m = om_find lt k m"
  by (induction m) (auto simp: same_less less_same)

lemma find_insert:
  "om_ordered lt m \<Longrightarrow> om_find lt j (om_insert lt k v m) =
     (if same_key lt j k \<and> om_find lt k m = None then Some v else om_find lt j m)"
proof (induction m)
  case Nil
  show ?case by (simp add: same_key_def)
next
  case (Cons p m)
  obtain k' v' where p: "p = (k', v')" by force
  show ?case
  proof (cases "same_key lt j k")
    case True
    note eq = same_less [OF True] less_same [OF True]
    show ?thesis using Cons True by (auto simp: p ordered_Cons eq irrefl)
  next
    case False
    then have "lt j k \<or> lt k j" by (simp add: same_key_def)
    then show ?thesis using Cons False trans [of j k k'] trans [of k' k j]
      by (auto simp: p ordered_Cons)
  qed
qed

lemma find_erase:
  "om_ordered lt m \<Longrightarrow> om_find lt j (om_erase lt k m) =
     (if same_key lt j k then None else om_find lt j m)"
proof (induction m)
  case Nil
  show ?case by simp
next
  case (Cons p m)
  obtain k' v' where p: "p = (k', v')" by force
  have above: "om_find lt k' m = None" using Cons.prems by (simp add: p ordered_Cons find_above)
  show ?case
  proof (cases "same_key lt j k")
    case True
    then have "om_find lt j m = None" if "same_key lt k k'"
      using that above by (metis find_same)
    moreover note eq = same_less [OF True] less_same [OF True]
    ultimately show ?thesis using Cons True by (auto simp: p ordered_Cons eq same_key_def [of _ k k'])
  next
    case False
    show ?thesis
    proof (cases "same_key lt k k'")
      case True
      then have "lt j k' \<or> lt k' j" using False
        by (simp add: same_key_def same_less [OF True, symmetric] less_same [OF True, symmetric] disj_commute)
      moreover have "lt j k' \<Longrightarrow> om_find lt j m = None"
        using Cons.prems by (intro find_above) (auto simp: p ordered_Cons intro: trans)
      ultimately show ?thesis using True False by (auto simp: p same_key_def)
    next
      case False
      then show ?thesis using Cons \<open>\<not> same_key lt j k\<close>
        by (auto simp: p ordered_Cons same_key_def)
    qed
  qed
qed

lemma erase_absent: "om_ordered lt m \<Longrightarrow> om_find lt k m = None \<Longrightarrow> om_erase lt k m = m"
  by (induction m) (auto simp: ordered_Cons split: if_splits)

end

interpretation um: std_map UpgradeInfo_less
  by unfold_locales (auto simp: UpgradeInfo_less_key)

interpretation sm: std_map "(<) :: string \<Rightarrow> string \<Rightarrow> bool"
  by unfold_locales auto

end
