(* ===== verification/Firmware_World.thy ===== *)
theory Firmware_World
  imports Platform Firmware_Store Update_Json Std_Map
begin

text \<open>
  The state of the running service and the operations every part of it uses: the registered
  clients (\<open>update_service.cpp\<close>), the per-business cache (\<open>update_service_cache.cpp\<close>), the
  notifications (\<open>base_callback_utils.cpp\<close>, \<open>update_service_util_hmos.cpp\<close>, \<open>update_notify.cpp\<close>)
  and the helpers of the firmware component (\<open>firmware_update_helper.cpp\<close>,
  \<open>firmware_changelog_utils.cpp\<close>, \<open>firmware_file_utils.h\<close>). Singletons and static members of
  the sources are fields of one record. The locale \<open>firmware_world\<close> is the view of the
  database the pipeline theories reason with.
\<close>

section \<open>State\<close>

record UpgradeInterval =
  ui_timeStart :: uint64_t
  ui_timeEnd :: uint64_t

record UpdateServiceCache =
  uc_upgradeInfo :: UpgradeInfo
  uc_checkInterval :: uint64_t
  uc_downloadInterval :: uint64_t
  uc_upgradeInterval :: UpgradeInterval
  uc_paramUpgradeInfo :: UpgradeInfo
  uc_paramCheckInterval :: uint64_t
  uc_paramDownloadInterval :: uint64_t
  uc_paramUpgradeInterval :: UpgradeInterval

definition UpgradeInterval_default :: UpgradeInterval where
  "UpgradeInterval_default = \<lparr>ui_timeStart = 0, ui_timeEnd = 0\<rparr>"

definition UpdateServiceCache_new :: UpdateServiceCache where
  "UpdateServiceCache_new =
     \<lparr>uc_upgradeInfo = UpgradeInfo_default, uc_checkInterval = 0, uc_downloadInterval = 0,
      uc_upgradeInterval = UpgradeInterval_default, uc_paramUpgradeInfo = UpgradeInfo_default,
      uc_paramCheckInterval = 0, uc_paramDownloadInterval = 0,
      uc_paramUpgradeInterval = UpgradeInterval_default\<rparr>"

text \<open>
  A client callback is a remote object, named by a number; a client may register a null
  callback. What leaves the service is recorded in the order it is sent: an event or a check
  result for a registered callback, or the text sent to the update application.
\<close>

type_synonym Callback = nat

datatype Notice =
    OnEvent Callback EventInfo
  | OnCheckVersionDone Callback BusinessError CheckResult
  | AppService string string

text \<open>
  \<open>w_started\<close> says that \<open>updateService_\<close> is set, \<open>w_remoteIdle\<close> is \<open>isRemoteIdle_\<close> of the access
  manager, \<open>w_isNoNet\<close> and \<open>w_isCancel\<close> are the static flags of \<open>ProgressThread\<close>.
\<close>

record 'x World =
  w_ext :: 'x
  w_sent :: "Notice list"
  w_status :: StatusCache
  w_net :: NetManager
  w_isNoNet :: bool
  w_isCancel :: bool
  w_cache :: UpdateServiceCache
  w_clients :: "(UpgradeInfo \<times> Callback option) list"
  w_remoteIdle :: bool
  w_started :: bool

definition World_new :: "'x \<Rightarrow> 'x World" where
  "World_new x =
     \<lparr>w_ext = x, w_sent = [], w_status = StatusCache_new, w_net = NetManager_new, w_isNoNet = False,
      w_isCancel = False, w_cache = UpdateServiceCache_new, w_clients = [], w_remoteIdle = True,
      w_started = False\<rparr>"

text \<open>An operation of the device, run on the service state.\<close>

definition on_ext :: "('x \<Rightarrow> 'a \<times> 'x) \<Rightarrow> 'x World \<Rightarrow> 'a \<times> 'x World" where
  "on_ext f w = (let (a, x) = f (w_ext w) in (a, w\<lparr>w_ext := x\<rparr>))"

definition do_ext :: "('x \<Rightarrow> 'a \<times> 'x) \<Rightarrow> 'x World \<Rightarrow> 'x World" where
  "do_ext f w = snd (on_ext f w)"

section \<open>UpdateServiceCache\<close>

definition IsTypelegal :: "BusinessSubType \<Rightarrow> bool" where
  "IsTypelegal t \<longleftrightarrow> t = BusinessSubType.FIRMWARE \<or> t = BusinessSubType.PARAM"

definition IsParamType :: "BusinessSubType \<Rightarrow> bool" where
  "IsParamType t \<longleftrightarrow> t = BusinessSubType.PARAM"

definition Cache_GetUpgradeInfo :: "BusinessSubType \<Rightarrow> UpdateServiceCache \<Rightarrow> UpgradeInfo" where
  "Cache_GetUpgradeInfo t c =
     (if \<not> IsTypelegal t then UpgradeInfo_default
      else if IsParamType t then uc_paramUpgradeInfo c else uc_upgradeInfo c)"

definition Cache_SetUpgradeInfo :: "UpgradeInfo \<Rightarrow> UpdateServiceCache \<Rightarrow> UpdateServiceCache" where
  "Cache_SetUpgradeInfo info c =
     (let t = subType (businessType info)
      in if \<not> IsTypelegal t then c
         else if IsParamType t then c\<lparr>uc_paramUpgradeInfo := info\<rparr> else c\<lparr>uc_upgradeInfo := info\<rparr>)"

definition GetCheckInterval :: "BusinessSubType \<Rightarrow> UpdateServiceCache \<Rightarrow> uint64_t" where
  "GetCheckInterval t c =
     (if \<not> IsTypelegal t then 0
      else if IsParamType t then uc_paramCheckInterval c else uc_checkInterval c)"

definition SetCheckInterval :: "BusinessSubType \<Rightarrow> uint64_t \<Rightarrow> UpdateServiceCache \<Rightarrow> UpdateServiceCache" where
  "SetCheckInterval t interval c =
     (if \<not> IsTypelegal t then c
      else if IsParamType t then c\<lparr>uc_paramCheckInterval := interval\<rparr>
      else c\<lparr>uc_checkInterval := interval\<rparr>)"

definition GetDownloadInterval :: "BusinessSubType \<Rightarrow> UpdateServiceCache \<Rightarrow> uint64_t" where
  "GetDownloadInterval t c =
     (if \<not> IsTypelegal t then 0
      else if IsParamType t then uc_paramDownloadInterval c else uc_downloadInterval c)"

definition SetDownloadInterval :: "BusinessSubType \<Rightarrow> uint64_t \<Rightarrow> UpdateServiceCache \<Rightarrow> UpdateServiceCache" where
  "SetDownloadInterval t interval c =
     (if \<not> IsTypelegal t then c
      else if IsParamType t then c\<lparr>uc_paramDownloadInterval := interval\<rparr>
      else c\<lparr>uc_downloadInterval := interval\<rparr>)"

definition GetUpgradeInterval :: "BusinessSubType \<Rightarrow> UpdateServiceCache \<Rightarrow> UpgradeInterval" where
  "GetUpgradeInterval t c =
     (if \<not> IsTypelegal t then UpgradeInterval_default
      else if IsParamType t then uc_paramUpgradeInterval c else uc_upgradeInterval c)"

definition SetUpgradeStartTime :: "BusinessSubType \<Rightarrow> uint64_t \<Rightarrow> UpdateServiceCache \<Rightarrow> UpdateServiceCache" where
  "SetUpgradeStartTime t time c =
     (if \<not> IsTypelegal t then c
      else if IsParamType t
      then c\<lparr>uc_paramUpgradeInterval := (uc_paramUpgradeInterval c)\<lparr>ui_timeStart := time\<rparr>\<rparr>
      else c\<lparr>uc_upgradeInterval := (uc_upgradeInterval c)\<lparr>ui_timeStart := time\<rparr>\<rparr>)"

definition SetUpgradeEndTime :: "BusinessSubType \<Rightarrow> uint64_t \<Rightarrow> UpdateServiceCache \<Rightarrow> UpdateServiceCache" where
  "SetUpgradeEndTime t time c =
     (if \<not> IsTypelegal t then c
      else if IsParamType t
      then c\<lparr>uc_paramUpgradeInterval := (uc_paramUpgradeInterval c)\<lparr>ui_timeEnd := time\<rparr>\<rparr>
      else c\<lparr>uc_upgradeInterval := (uc_upgradeInterval c)\<lparr>ui_timeEnd := time\<rparr>\<rparr>)"

section \<open>Clients of the service\<close>

definition SetRemoteIdle :: "bool \<Rightarrow> 'x World \<Rightarrow> 'x World" where
  "SetRemoteIdle isRemoteIdle w = w\<lparr>w_remoteIdle := isRemoteIdle\<rparr>"

definition UnregisterUpdateCallback :: "UpgradeInfo \<Rightarrow> 'x World \<Rightarrow> 'x World" where
  "UnregisterUpdateCallback info w =
     (case om_find UpgradeInfo_less info (w_clients w) of
        None \<Rightarrow> w
      | Some _ \<Rightarrow>
          (let w = w\<lparr>w_clients := om_erase UpgradeInfo_less info (w_clients w)\<rparr>
           in SetRemoteIdle (w_clients w = []) w))"

definition RegisterUpdateCallback :: "UpgradeInfo \<Rightarrow> Callback option \<Rightarrow> 'x World \<Rightarrow> 'x World" where
  "RegisterUpdateCallback info updateCallback w =
     (let w = UnregisterUpdateCallback info w;
          w = w\<lparr>w_clients := om_insert UpgradeInfo_less info updateCallback (w_clients w)\<rparr>;
          w = (if \<not> IsLocal info then w\<lparr>w_cache := Cache_SetUpgradeInfo info (w_cache w)\<rparr> else w)
      in SetRemoteIdle (w_clients w = []) w)"

definition UpdateService_GetUpgradeCallback :: "UpgradeInfo \<Rightarrow> 'x World \<Rightarrow> Callback option" where
  "UpdateService_GetUpgradeCallback info w =
     (case om_find UpgradeInfo_less info (w_clients w) of None \<Rightarrow> None | Some c \<Rightarrow> c)"

text \<open>The death recipient of a client.\<close>

definition OnRemoteDied :: "UpgradeInfo \<Rightarrow> 'x World \<Rightarrow> 'x World" where
  "OnRemoteDied upgradeInfo w = (if w_started w then UnregisterUpdateCallback upgradeInfo w else w)"

section \<open>Notifications\<close>

definition OUC_PACKAGE_NAME :: string where
  "OUC_PACKAGE_NAME = ''com.ohos.updateapp''"

definition SubscribeInfo_ToJson :: "BusinessSubType \<Rightarrow> string" where
  "SubscribeInfo_ToJson t =
     (let b = jb_Append ''{'' JsonBuilder_new;
          b = jb_AppendStr ''upgradeApp'' OUC_PACKAGE_NAME b;
          b = jb_AppendObj ''businessType'' (BusinessType_GetJsonBuilder (BusinessType [] t)) b;
          b = jb_AppendStr ''abilityName'' [] b;
          b = jb_AppendStr ''subscriberDevId'' [] b;
          b = jb_AppendStr ''devUpgradeId'' [] b
      in jb_ToJson (jb_Append ''}'' b))"

definition NotifyToAppService :: "string \<Rightarrow> string \<Rightarrow> 'x World \<Rightarrow> 'x World" where
  "NotifyToAppService eventInfo subscribeInfo w =
     (if eventInfo = [] then w else w\<lparr>w_sent := w_sent w @ [AppService eventInfo subscribeInfo]\<rparr>)"

definition NotifyToHap :: "EventInfo \<Rightarrow> 'x World \<Rightarrow> 'x World" where
  "NotifyToHap info w =
     (let eventInfoStr = EventInfo_ToJson info
      in if eventInfoStr \<noteq> []
         then NotifyToAppService eventInfoStr (SubscribeInfo_ToJson BusinessSubType.FIRMWARE) w else w)"

definition BaseCallback_GetUpgradeCallback :: "UpgradeInfo \<Rightarrow> 'x World \<Rightarrow> Callback option" where
  "BaseCallback_GetUpgradeCallback upgradeInfo w =
     (if \<not> w_started w then None else UpdateService_GetUpgradeCallback upgradeInfo w)"

definition CallbackToHap :: "EventInfo \<Rightarrow> 'x World \<Rightarrow> 'x World" where
  "CallbackToHap eventInfo w =
     (let upgradeInfo = Cache_GetUpgradeInfo BusinessSubType.FIRMWARE (w_cache w)
      in case BaseCallback_GetUpgradeCallback upgradeInfo w of
           Some cb \<Rightarrow> w\<lparr>w_sent := w_sent w @ [OnEvent cb eventInfo]\<rparr>
         | None \<Rightarrow> NotifyToHap eventInfo w)"

definition NotifyEvent ::
  "string \<Rightarrow> EventId \<Rightarrow> UpgradeStatus \<Rightarrow> ErrorMessage \<Rightarrow> VersionComponent list \<Rightarrow> 'x World \<Rightarrow> 'x World" where
  "NotifyEvent versionDigestInfo eventId status errorMessage versionComponents w =
     (let taskBody = TaskBody_default
            \<lparr>tb_status := status, tb_versionDigestInfo := \<lparr>vd_versionDigest = versionDigestInfo\<rparr>,
             tb_errorMessages := tb_errorMessages TaskBody_default @ [errorMessage],
             tb_versionComponents := versionComponents\<rparr>
      in NotifyToHap \<lparr>ei_eventId = eventId, ei_taskBody = taskBody\<rparr> w)"

text \<open>The event of a progress status; a status outside the table keeps \<open>EVENT_TASK_BASE\<close>.\<close>

fun progress_event :: "UpgradeStatus \<Rightarrow> EventId" where
  "progress_event UpgradeStatus.DOWNLOADING = EVENT_DOWNLOAD_UPDATE"
| "progress_event UpgradeStatus.DOWNLOAD_PAUSE = EVENT_DOWNLOAD_PAUSE"
| "progress_event UpgradeStatus.DOWNLOAD_CANCEL = EVENT_DOWNLOAD_CANCEL"
| "progress_event UpgradeStatus.DOWNLOAD_FAIL = EVENT_DOWNLOAD_FAIL"
| "progress_event UpgradeStatus.VERIFY_FAIL = EVENT_DOWNLOAD_FAIL"
| "progress_event UpgradeStatus.DOWNLOAD_SUCCESS = EVENT_DOWNLOAD_SUCCESS"
| "progress_event UpgradeStatus.INSTALLING = EVENT_UPGRADE_UPDATE"
| "progress_event UpgradeStatus.INSTALL_FAIL = EVENT_UPGRADE_FAIL"
| "progress_event UpgradeStatus.INSTALL_SUCCESS = EVENT_APPLY_WAIT"
| "progress_event UpgradeStatus.UPDATING = EVENT_UPGRADE_UPDATE"
| "progress_event UpgradeStatus.UPDATE_FAIL = EVENT_UPGRADE_FAIL"
| "progress_event UpgradeStatus.UPDATE_SUCCESS = EVENT_UPGRADE_SUCCESS"
| "progress_event _ = EVENT_TASK_BASE"

definition BuildTaskBody :: "Progress \<Rightarrow> TaskBody \<Rightarrow> TaskBody" where
  "BuildTaskBody progress taskBody =
     (let taskBody = taskBody\<lparr>tb_status := pr_status progress, tb_progress := pr_percent progress\<rparr>;
          errorCode = atoi (pr_endReason progress)
      in if errorCode \<noteq> 0
         then taskBody\<lparr>tb_errorMessages := tb_errorMessages taskBody @
                [\<lparr>em_errorCode = errorCode, em_errorMessage = pr_endReason progress\<rparr>]\<rparr>
         else taskBody)"

definition ProgressCallback :: "string \<Rightarrow> Progress \<Rightarrow> 'x World \<Rightarrow> 'x World" where
  "ProgressCallback versionDigestInfo progress w =
     (let eventId = progress_event (pr_status progress);
          taskBody = TaskBody_default\<lparr>tb_versionDigestInfo := \<lparr>vd_versionDigest = versionDigestInfo\<rparr>\<rparr>;
          taskBody = BuildTaskBody progress taskBody
      in CallbackToHap \<lparr>ei_eventId = eventId, ei_taskBody = taskBody\<rparr> w)"

definition UpdateServiceUtil_GetUpgradeCallback :: "UpgradeInfo \<Rightarrow> 'x World \<Rightarrow> Callback option" where
  "UpdateServiceUtil_GetUpgradeCallback upgradeInfo w =
     (if \<not> w_started w then None else UpdateService_GetUpgradeCallback upgradeInfo w)"

definition SearchCallback :: "UpgradeInfo \<Rightarrow> BusinessError \<Rightarrow> CheckResult \<Rightarrow> 'x World \<Rightarrow> 'x World" where
  "SearchCallback upgradeInfo businessError checkResult w =
     (case UpdateServiceUtil_GetUpgradeCallback upgradeInfo w of
        None \<Rightarrow> w
      | Some cb \<Rightarrow> w\<lparr>w_sent := w_sent w @ [OnCheckVersionDone cb businessError checkResult]\<rparr>)"

section \<open>Helpers of the firmware component\<close>

definition DUPDATE_ENGINE_PACKAGE_ROOT_PATH :: string where
  "DUPDATE_ENGINE_PACKAGE_ROOT_PATH = ''/data/update/ota_package''"

definition FILES_ROOT_PATH :: string where
  "FILES_ROOT_PATH = ''/data/service/el1/public/update/dupdate_engine/files''"

definition PACKAGE_ROOT_PATH :: string where
  "PACKAGE_ROOT_PATH = DUPDATE_ENGINE_PACKAGE_ROOT_PATH @ ''/firmware''"

definition PACKAGE_PATH :: string where
  "PACKAGE_PATH = PACKAGE_ROOT_PATH @ ''/versions''"

definition ENCRYPTED_ROOT_PATH :: string where
  "ENCRYPTED_ROOT_PATH = FILES_ROOT_PATH @ ''/firmware''"

definition CHANGELOG_PATH :: string where
  "CHANGELOG_PATH = ENCRYPTED_ROOT_PATH @ ''/changelogs''"

definition HOTA_CURRENT_COMPONENT_ID :: string where
  "HOTA_CURRENT_COMPONENT_ID = ''hota_current_component_id''"

definition AUTO_DOWNLOAD_SWITCH :: string where
  "AUTO_DOWNLOAD_SWITCH = ''auto_download_switch''"

definition ONE_HUNDRED :: int32_t where
  "ONE_HUNDRED = 100"

fun BlType_code :: "BlType \<Rightarrow> int32_t" where
  "BlType_code BlType.HOTA_TYPE = 1"
| "BlType_code BlType.COTA_TYPE = 2"
| "BlType_code BlType.DYNAMIC_TYPE = 100"

definition FirmwareFileUtils_IsSpaceEnough :: "'x Platform \<Rightarrow> int64_t \<Rightarrow> 'x World \<Rightarrow> bool" where
  "FirmwareFileUtils_IsSpaceEnough E requiredSpace w =
     FileUtils_IsSpaceEnough E DUPDATE_ENGINE_PACKAGE_ROOT_PATH requiredSpace (w_ext w)"

definition DeleteDownloadFiles :: "'x Platform \<Rightarrow> 'x World \<Rightarrow> 'x World" where
  "DeleteDownloadFiles E w = w\<lparr>w_ext := DeleteFile E PACKAGE_PATH False (w_ext w)\<rparr>"

definition FirmwareStatusCache_IsChecking :: "'x Platform \<Rightarrow> 'x World \<Rightarrow> bool" where
  "FirmwareStatusCache_IsChecking E w = StatusCache_IsChecking (pl_timestamp E (w_ext w)) (w_status w)"

definition FirmwareStatusCache_SetIsChecking :: "'x Platform \<Rightarrow> bool \<Rightarrow> 'x World \<Rightarrow> 'x World" where
  "FirmwareStatusCache_SetIsChecking E b w =
     w\<lparr>w_status := StatusCache_SetIsChecking (pl_timestamp E (w_ext w)) b (w_status w)\<rparr>"

text \<open>The operators of the two tables, on the service state.\<close>

definition QueryTask :: "'x Platform \<Rightarrow> FirmwareTask \<Rightarrow> 'x World \<Rightarrow> FirmwareTask" where
  "QueryTask E task w = Task_QueryTask (pl_rdb E) task (w_ext w)"

definition QueryAllComponents :: "'x Platform \<Rightarrow> 'x World \<Rightarrow> FirmwareComponent list" where
  "QueryAllComponents E w = snd (Table_QueryAll (pl_rdb E) FirmwareComponentTable [] (w_ext w))"

definition UpdateTaskProgress :: "'x Platform \<Rightarrow> string \<Rightarrow> UpgradeStatus \<Rightarrow> int32_t \<Rightarrow> 'x World \<Rightarrow> 'x World" where
  "UpdateTaskProgress E taskId status progress w =
     do_ext (Task_UpdateProgressByTaskId (pl_rdb E) taskId status progress) w"

definition UpdateComponentProgress :: "'x Platform \<Rightarrow> string \<Rightarrow> UpgradeStatus \<Rightarrow> int32_t \<Rightarrow> 'x World \<Rightarrow> 'x World" where
  "UpdateComponentProgress E url status progress w =
     do_ext (Component_UpdateProgressByUrl (pl_rdb E) url status progress) w"

definition BuildTaskId :: "'x Platform \<Rightarrow> FirmwareComponent list \<Rightarrow> string" where
  "BuildTaskId E componentList =
     (if componentList = [] then []
      else CalculateHashCode E
        (foldl (\<lambda>taskId c. (if taskId \<noteq> [] then taskId @ ''_'' else taskId) @ fc_versionId c) [] componentList))"

definition ClearFirmwareInfo :: "'x Platform \<Rightarrow> 'x World \<Rightarrow> 'x World" where
  "ClearFirmwareInfo E w =
     (let w = do_ext (Table_DeleteAll (pl_rdb E) FirmwareTaskTable) w;
          w = do_ext (Table_DeleteAll (pl_rdb E) FirmwareComponentTable) w
      in DeleteDownloadFiles E w)"

definition IsBatteryEnough :: "int32_t \<Rightarrow> bool" where
  "IsBatteryEnough batteryLimit = True"

definition FirmwareUpdateHelper_GetInstallType :: "'x Platform \<Rightarrow> 'x World \<Rightarrow> InstallType" where
  "FirmwareUpdateHelper_GetInstallType E w =
     (if GetBootSlot E (w_ext w) = ''2'' then InstallType.SYS_INSTALLER else InstallType.UPDATER)"

definition BuildHotaVersionComponent :: "'x Platform \<Rightarrow> FirmwareComponent list \<Rightarrow> 'x World \<Rightarrow> VersionComponent" where
  "BuildHotaVersionComponent E hotaComponents w =
     VersionComponent_default
       \<lparr>vc_componentId := fc_componentId (hd hotaComponents),
        vc_upgradeAction := ''upgrade'',
        vc_componentType := ComponentType_code ComponentType.OTA,
        vc_effectiveMode :=
          (if FirmwareUpdateHelper_GetInstallType E w = InstallType.SYS_INSTALLER
           then EffectiveMode_code EffectiveMode.LIVE_AND_COLD else EffectiveMode_code EffectiveMode.COLD),
        vc_innerVersion := fc_targetBlVersionNumber (hd hotaComponents),
        vc_displayVersion := fc_targetBlDisplayVersionNumber (hd hotaComponents),
        vc_size := foldl (\<lambda>s c. s + fc_size c) (vc_size VersionComponent_default) hotaComponents\<rparr>"

text \<open>The version numbers the last two branches read into local variables are not used.\<close>

definition BuildNewVersionInfo ::
  "'x Platform \<Rightarrow> FirmwareComponent list \<Rightarrow> VersionComponent list \<Rightarrow> 'x World \<Rightarrow> VersionComponent list" where
  "BuildNewVersionInfo E components versionComponents w =
     (if components = [] then versionComponents
      else let hotaComponents = filter (\<lambda>c. fc_blVersionType c = BlType_code BlType.HOTA_TYPE \<or>
                 fc_blVersionType c = BlType_code BlType.DYNAMIC_TYPE) components
           in if hotaComponents \<noteq> [] then versionComponents @ [BuildHotaVersionComponent E hotaComponents w]
              else versionComponents)"

definition BuildCurrentVersionInfo :: "'x Platform \<Rightarrow> CurrentVersionInfo \<Rightarrow> 'x World \<Rightarrow> CurrentVersionInfo" where
  "BuildCurrentVersionInfo E info w =
     (let x = w_ext w;
          info = info\<lparr>cv_osVersion := GetOsVersion E x, cv_deviceName := GetDeviceName E x\<rparr>;
          hotaVersionComponent = VersionComponent_default
            \<lparr>vc_displayVersion := GetDisplayVersion E x, vc_innerVersion := GetRealVersion E x,
             vc_descriptionInfo := (vc_descriptionInfo VersionComponent_default)\<lparr>di_descriptionType := DescriptionType.ID\<rparr>,
             vc_componentId := ObtainString E HOTA_CURRENT_COMPONENT_ID [] x,
             vc_componentType := ComponentType_code ComponentType.OTA\<rparr>
      in info\<lparr>cv_versionComponents := cv_versionComponents info @ [hotaVersionComponent]\<rparr>)"

definition IsUpgradePackagesReady :: "'x Platform \<Rightarrow> FirmwareComponent list \<Rightarrow> 'x World \<Rightarrow> bool" where
  "IsUpgradePackagesReady E componentList w =
     (if componentList = [] then False
      else list_all (\<lambda>c. if \<not> IsFileExist E (fc_spath c) (w_ext w) then False
                         else GetFileSize E (fc_spath c) (w_ext w) = fc_size c) componentList)"

definition GetNewVersionComponentIds :: "'x Platform \<Rightarrow> 'x World \<Rightarrow> string list" where
  "GetNewVersionComponentIds E w =
     foldl (\<lambda>ids c. if fc_componentId c \<notin> set ids then ids @ [fc_componentId c] else ids) []
       (QueryAllComponents E w)"

definition GetCurrentVersionComponentIds :: "'x Platform \<Rightarrow> 'x World \<Rightarrow> string list" where
  "GetCurrentVersionComponentIds E w =
     (if Prefs_IsExist E HOTA_CURRENT_COMPONENT_ID (w_ext w)
      then [ObtainString E HOTA_CURRENT_COMPONENT_ID [] (w_ext w)] else [])"

definition SaveHotaCurrentVersionComponentId :: "'x Platform \<Rightarrow> 'x World \<Rightarrow> 'x World" where
  "SaveHotaCurrentVersionComponentId E w =
     (case find (\<lambda>c. fc_versionPackageType c = PackageType.NORMAL) (QueryAllComponents E w) of
        Some c \<Rightarrow> do_ext (SaveString E HOTA_CURRENT_COMPONENT_ID (fc_componentId c)) w
      | None \<Rightarrow> w)"

definition GetAllComponentIds :: "'x Platform \<Rightarrow> string list \<Rightarrow> 'x World \<Rightarrow> string list" where
  "GetAllComponentIds E componentIds w =
     componentIds @ GetCurrentVersionComponentIds E w @ GetNewVersionComponentIds E w"

definition UPDATE_ACTION :: string where
  "UPDATE_ACTION = ''update_action''"

definition GetUpdateAction :: "'x Platform \<Rightarrow> 'x World \<Rightarrow> string" where
  "GetUpdateAction E w =
     (if ObtainString E UPDATE_ACTION [] (w_ext w) = ''recovery'' then ''recovery'' else ''upgrade'')"

text \<open>The error numbers of \<open>dupdate_errno.h\<close> the service reports, an unscoped C enumeration.\<close>

definition DUPDATE_ERR_INTERNAL_ERROR :: int32_t where "DUPDATE_ERR_INTERNAL_ERROR = - 100"
definition DUPDATE_ERR_SYSTEM_BUSY_ON_CHECK :: int32_t where "DUPDATE_ERR_SYSTEM_BUSY_ON_CHECK = - 207"
definition DUPDATE_ERR_DOWNLOAD_COMMON_ERROR :: int32_t where "DUPDATE_ERR_DOWNLOAD_COMMON_ERROR = - 300"
definition DUPDATE_ERR_DLOAD_REQUEST_FAIL :: int32_t where "DUPDATE_ERR_DLOAD_REQUEST_FAIL = - 301"
definition DUPDATE_ERR_NO_ENOUGH_MEMORY :: int32_t where "DUPDATE_ERR_NO_ENOUGH_MEMORY = - 304"
definition DUPDATE_ERR_VERIFY_PACKAGE_FAIL :: int32_t where "DUPDATE_ERR_VERIFY_PACKAGE_FAIL = - 305"
definition DUPDATE_ERR_SYSTEM_BUSY_ON_DOWNLOAD :: int32_t where "DUPDATE_ERR_SYSTEM_BUSY_ON_DOWNLOAD = - 307"
definition DUPDATE_ERR_UPDATE_COMMON_ERROR :: int32_t where "DUPDATE_ERR_UPDATE_COMMON_ERROR = - 400"
definition DUPDATE_ERR_SYSTEM_BUSY_ON_INSTALL :: int32_t where "DUPDATE_ERR_SYSTEM_BUSY_ON_INSTALL = - 407"
definition DUPDATE_ERR_IPC_ERROR :: int32_t where "DUPDATE_ERR_IPC_ERROR = - 410"
definition DUPDATE_ERR_UPDATE_PRECHECK_FAIL :: int32_t where "DUPDATE_ERR_UPDATE_PRECHECK_FAIL = - 420"
definition DUPDATE_ERR_UPDATE_REBOOT_FAIL :: int32_t where "DUPDATE_ERR_UPDATE_REBOOT_FAIL = - 421"
definition DUPDATE_ERR_LOW_BATTERY_LEVEL :: int32_t where "DUPDATE_ERR_LOW_BATTERY_LEVEL = - 830"

lemmas errno_defs [enum_simps] =
  DUPDATE_ERR_INTERNAL_ERROR_def
  DUPDATE_ERR_SYSTEM_BUSY_ON_CHECK_def
  DUPDATE_ERR_DOWNLOAD_COMMON_ERROR_def
  DUPDATE_ERR_DLOAD_REQUEST_FAIL_def
  DUPDATE_ERR_NO_ENOUGH_MEMORY_def
  DUPDATE_ERR_VERIFY_PACKAGE_FAIL_def
  DUPDATE_ERR_SYSTEM_BUSY_ON_DOWNLOAD_def
  DUPDATE_ERR_UPDATE_COMMON_ERROR_def
  DUPDATE_ERR_SYSTEM_BUSY_ON_INSTALL_def
  DUPDATE_ERR_IPC_ERROR_def
  DUPDATE_ERR_UPDATE_PRECHECK_FAIL_def
  DUPDATE_ERR_UPDATE_REBOOT_FAIL_def
  DUPDATE_ERR_LOW_BATTERY_LEVEL_def

section \<open>What notifications leave alone\<close>

lemma EventInfo_ToJson_not_Nil: "EventInfo_ToJson e \<noteq> []"
  by (simp add: EventInfo_ToJson_def EventInfo_GetJsonBuilder_def jb_Append_def jb_ToJson_def Let_def)

lemma NotifyToHap_sent:
  "NotifyToHap e w =
     w\<lparr>w_sent := w_sent w @ [AppService (EventInfo_ToJson e) (SubscribeInfo_ToJson BusinessSubType.FIRMWARE)]\<rparr>"
  by (simp add: NotifyToHap_def NotifyToAppService_def EventInfo_ToJson_not_Nil Let_def)

definition notice_for :: "EventInfo \<Rightarrow> 'x World \<Rightarrow> Notice" where
  "notice_for e w =
     (case BaseCallback_GetUpgradeCallback (Cache_GetUpgradeInfo BusinessSubType.FIRMWARE (w_cache w)) w of
        Some cb \<Rightarrow> OnEvent cb e
      | None \<Rightarrow> AppService (EventInfo_ToJson e) (SubscribeInfo_ToJson BusinessSubType.FIRMWARE))"

lemma CallbackToHap_sent: "CallbackToHap e w = w\<lparr>w_sent := w_sent w @ [notice_for e w]\<rparr>"
  by (simp add: CallbackToHap_def notice_for_def NotifyToHap_sent Let_def split: option.split)

lemma NotifyEvent_only_sent: "\<exists>n. NotifyEvent d e st m vs w = w\<lparr>w_sent := w_sent w @ [n]\<rparr>"
  by (auto simp: NotifyEvent_def NotifyToHap_sent Let_def)

lemma ProgressCallback_only_sent: "\<exists>n. ProgressCallback d p w = w\<lparr>w_sent := w_sent w @ [n]\<rparr>"
  by (auto simp: ProgressCallback_def CallbackToHap_sent Let_def)

lemma NotifyEvent_frame [simp, world_frame]:
  "w_ext (NotifyEvent d e st m vs w) = w_ext w"
  "w_status (NotifyEvent d e st m vs w) = w_status w"
  "w_net (NotifyEvent d e st m vs w) = w_net w"
  "w_clients (NotifyEvent d e st m vs w) = w_clients w"
  "w_cache (NotifyEvent d e st m vs w) = w_cache w"
  "w_started (NotifyEvent d e st m vs w) = w_started w"
  "w_isNoNet (NotifyEvent d e st m vs w) = w_isNoNet w"
  "w_isCancel (NotifyEvent d e st m vs w) = w_isCancel w"
  using NotifyEvent_only_sent [of d e st m vs w] by auto

lemma ProgressCallback_frame [simp, world_frame]:
  "w_ext (ProgressCallback d p w) = w_ext w"
  "w_status (ProgressCallback d p w) = w_status w"
  "w_net (ProgressCallback d p w) = w_net w"
  "w_clients (ProgressCallback d p w) = w_clients w"
  "w_cache (ProgressCallback d p w) = w_cache w"
  "w_started (ProgressCallback d p w) = w_started w"
  "w_isNoNet (ProgressCallback d p w) = w_isNoNet w"
  "w_isCancel (ProgressCallback d p w) = w_isCancel w"
  using ProgressCallback_only_sent [of d p w] by auto

lemma SearchCallback_frame [simp, world_frame]:
  "w_ext (SearchCallback i b c w) = w_ext w"
  by (simp add: SearchCallback_def split: option.split)

lemma SetIsChecking_frame [simp, world_frame]:
  "w_ext (FirmwareStatusCache_SetIsChecking E b w) = w_ext w"
  "w_sent (FirmwareStatusCache_SetIsChecking E b w) = w_sent w"
  "w_net (FirmwareStatusCache_SetIsChecking E b w) = w_net w"
  by (simp_all add: FirmwareStatusCache_SetIsChecking_def)

lemma do_ext_frame [simp, world_frame]:
  "w_ext (do_ext f w) = snd (f (w_ext w))"
  "w_sent (do_ext f w) = w_sent w"
  "w_status (do_ext f w) = w_status w"
  "w_net (do_ext f w) = w_net w"
  "w_clients (do_ext f w) = w_clients w"
  "w_cache (do_ext f w) = w_cache w"
  "w_started (do_ext f w) = w_started w"
  "w_isNoNet (do_ext f w) = w_isNoNet w"
  "w_isCancel (do_ext f w) = w_isCancel w"
  by (simp_all add: do_ext_def on_ext_def split_beta)

section \<open>The database as the pipeline sees it\<close>

text \<open>The rows of the two tables in the service state, and that they are rows the service wrote.\<close>

definition w_tasks :: "('x \<Rightarrow> string \<Rightarrow> ValuesBucket list) \<Rightarrow> 'x World \<Rightarrow> FirmwareTask list" where
  "w_tasks rows w = tasks_of rows (w_ext w)"

definition w_components :: "('x \<Rightarrow> string \<Rightarrow> ValuesBucket list) \<Rightarrow> 'x World \<Rightarrow> FirmwareComponent list" where
  "w_components rows w = components_of rows (w_ext w)"

definition w_typed :: "('x \<Rightarrow> string \<Rightarrow> ValuesBucket list) \<Rightarrow> 'x World \<Rightarrow> bool" where
  "w_typed rows w = db_typed rows (w_ext w)"

lemma same_ext:
  "w_ext w' = w_ext w \<Longrightarrow> w_tasks rows w' = w_tasks rows w"
  "w_ext w' = w_ext w \<Longrightarrow> w_components rows w' = w_components rows w"
  "w_ext w' = w_ext w \<Longrightarrow> w_typed rows w' = w_typed rows w"
  by (simp_all add: w_tasks_def w_components_def w_typed_def)

lemmas w_db_defs = w_tasks_def w_components_def w_typed_def

text \<open>
  The contract between the pipeline and the state: what each operation does to the two lists.
\<close>

locale firmware_world =
  fixes E :: "'x Platform"
    and tasks :: "'x World \<Rightarrow> FirmwareTask list"
    and components :: "'x World \<Rightarrow> FirmwareComponent list"
    and typed :: "'x World \<Rightarrow> bool"
  assumes task_query: "QueryTask E t w =
      (case tasks w of [] \<Rightarrow> t\<lparr>ft_isExistTask := False\<rparr> | x # _ \<Rightarrow> x\<lparr>ft_isExistTask := True\<rparr>)"
    and component_query: "QueryAllComponents E w = components w"
    and task_progress: "typed w \<Longrightarrow> us.wf st \<Longrightarrow>
      typed (UpdateTaskProgress E i st pr w) \<and>
      components (UpdateTaskProgress E i st pr w) = components w \<and>
      tasks (UpdateTaskProgress E i st pr w) =
        map (\<lambda>t. if ft_taskId t = i then t\<lparr>ft_status := st, ft_progress := pr\<rparr> else t) (tasks w)"
    and component_progress: "typed w \<Longrightarrow> us.wf st \<Longrightarrow>
      typed (UpdateComponentProgress E u st pr w) \<and>
      tasks (UpdateComponentProgress E u st pr w) = tasks w \<and>
      components (UpdateComponentProgress E u st pr w) =
        map (\<lambda>c. if fc_url c = u then c\<lparr>fc_status := st, fc_progress := pr\<rparr> else c) (components w)"
    and clear: "typed w \<Longrightarrow>
      typed (ClearFirmwareInfo E w) \<and> tasks (ClearFirmwareInfo E w) = [] \<and>
      components (ClearFirmwareInfo E w) = []"
    and ext_only: "w_ext w' = w_ext w \<Longrightarrow>
      tasks w' = tasks w \<and> components w' = components w \<and> typed w' = typed w"
begin

lemma notify_db [simp]:
  "tasks (NotifyEvent d e st m vs w) = tasks w"
  "components (NotifyEvent d e st m vs w) = components w"
  "typed (NotifyEvent d e st m vs w) = typed w"
  "tasks (ProgressCallback d p w) = tasks w"
  "components (ProgressCallback d p w) = components w"
  "typed (ProgressCallback d p w) = typed w"
  "tasks (SearchCallback i be cr w) = tasks w"
  "components (SearchCallback i be cr w) = components w"
  "typed (SearchCallback i be cr w) = typed w"
  "tasks (FirmwareStatusCache_SetIsChecking E b w) = tasks w"
  "components (FirmwareStatusCache_SetIsChecking E b w) = components w"
  "typed (FirmwareStatusCache_SetIsChecking E b w) = typed w"
  using ext_only [of "NotifyEvent d e st m vs w" w] ext_only [of "ProgressCallback d p w" w]
    ext_only [of "SearchCallback i be cr w" w] ext_only [of "FirmwareStatusCache_SetIsChecking E b w" w]
  by simp_all

lemma task_query_Nil: "tasks w = [] \<Longrightarrow> QueryTask E t w = t\<lparr>ft_isExistTask := False\<rparr>"
  by (simp add: task_query)

lemma task_query_Cons: "tasks w = x # xs \<Longrightarrow> QueryTask E t w = x\<lparr>ft_isExistTask := True\<rparr>"
  by (simp add: task_query)

lemma task_exists: "ft_isExistTask (QueryTask E t w) \<longleftrightarrow> tasks w \<noteq> []"
  by (simp add: task_query split: list.split)

text \<open>One update per component, as the loops over \<open>componentList\<close> do.\<close>

lemma progress_loop:
  assumes "typed w" and "us.wf st"
  shows "typed (foldl (\<lambda>w c. UpdateComponentProgress E (fc_url c) st pr w) w cs) \<and>
    tasks (foldl (\<lambda>w c. UpdateComponentProgress E (fc_url c) st pr w) w cs) = tasks w \<and>
    components (foldl (\<lambda>w c. UpdateComponentProgress E (fc_url c) st pr w) w cs) =
      map (\<lambda>c. if fc_url c \<in> fc_url ` set cs then c\<lparr>fc_status := st, fc_progress := pr\<rparr> else c) (components w)"
  using assms
proof (induction cs arbitrary: w)
  case Nil
  then show ?case by simp
next
  case (Cons c cs)
  note step = component_progress [OF Cons.prems, of "fc_url c" pr]
  show ?case
    using step Cons.IH [of "UpdateComponentProgress E (fc_url c) st pr w"] Cons.prems
    by (auto simp: comp_def)
qed

end

context platform
begin

lemma rows_ext_only: "rows x' = rows x \<Longrightarrow> tasks_of rows x' = tasks_of rows x \<and>
  components_of rows x' = components_of rows x \<and> db_typed rows x' = db_typed rows x"
  by (simp add: tasks_of_def components_of_def db_typed_def)

lemma delete_files_db:
  "w_tasks rows (DeleteDownloadFiles E w) = w_tasks rows w"
  "w_components rows (DeleteDownloadFiles E w) = w_components rows w"
  "w_typed rows (DeleteDownloadFiles E w) = w_typed rows w"
  using rows_ext_only [OF rows_DeleteFile [of PACKAGE_PATH False "w_ext w"]]
  by (simp_all add: w_db_defs DeleteDownloadFiles_def)

lemma clear_db:
  assumes "w_typed rows w"
  shows "w_typed rows (ClearFirmwareInfo E w) \<and> w_tasks rows (ClearFirmwareInfo E w) = [] \<and>
    w_components rows (ClearFirmwareInfo E w) = []"
proof -
  obtain ok1 x1 where 1: "Table_DeleteAll (pl_rdb E) FirmwareTaskTable (w_ext w) = (ok1, x1)" by force
  obtain ok2 x2 where 2: "Table_DeleteAll (pl_rdb E) FirmwareComponentTable x1 = (ok2, x2)" by force
  note d1 = fd.delete_tasks [OF assms [unfolded w_typed_def] 1]
  then have "db_typed rows x1" by simp
  note d2 = fd.delete_components [OF this 2]
  show ?thesis using d1 d2 rows_ext_only [OF rows_DeleteFile [of PACKAGE_PATH False x2]]
    by (simp add: ClearFirmwareInfo_def DeleteDownloadFiles_def w_db_defs Let_def 1 2)
qed

end

sublocale platform \<subseteq> fw: firmware_world E "w_tasks rows" "w_components rows" "w_typed rows"
proof (unfold_locales, goal_cases)
  case (1 t w)
  then show ?case by (simp add: QueryTask_def fd.query_task w_tasks_def)
next
  case (2 w)
  then show ?case by (simp add: QueryAllComponents_def fd.query_components w_components_def)
next
  case (3 w st i pr)
  then show ?case
    using fd.update_progress [of "w_ext w" st i pr "fst (Task_UpdateProgressByTaskId (pl_rdb E) i st pr (w_ext w))"
        "snd (Task_UpdateProgressByTaskId (pl_rdb E) i st pr (w_ext w))"]
    by (simp add: UpdateTaskProgress_def w_db_defs)
next
  case (4 w st u pr)
  then show ?case
    using fd.update_component_progress [of "w_ext w" st u pr
        "fst (Component_UpdateProgressByUrl (pl_rdb E) u st pr (w_ext w))"
        "snd (Component_UpdateProgressByUrl (pl_rdb E) u st pr (w_ext w))"]
    by (simp add: UpdateComponentProgress_def w_db_defs)
next
  case (5 w)
  then show ?case by (rule clear_db)
next
  case (6 w' w)
  then show ?case by (simp add: w_db_defs)
qed

section \<open>Properties\<close>

text \<open>The calls that change the client map, and the partial function they maintain.\<close>

datatype ClientCall =
    RegisterCall UpgradeInfo "Callback option"
  | UnregisterCall UpgradeInfo
  | DiedCall UpgradeInfo

fun client_call :: "'x World \<Rightarrow> ClientCall \<Rightarrow> 'x World" where
  "client_call w (RegisterCall i cb) = RegisterUpdateCallback i cb w"
| "client_call w (UnregisterCall i) = UnregisterUpdateCallback i w"
| "client_call w (DiedCall i) = OnRemoteDied i w"

fun client_spec :: "(UpgradeInfo \<Rightarrow> Callback option option) \<Rightarrow> ClientCall \<Rightarrow> UpgradeInfo \<Rightarrow> Callback option option" where
  "client_spec f (RegisterCall i cb) j = (if same_key UpgradeInfo_less j i then Some cb else f j)"
| "client_spec f (UnregisterCall i) j = (if same_key UpgradeInfo_less j i then None else f j)"
| "client_spec f (DiedCall i) j = (if same_key UpgradeInfo_less j i then None else f j)"

definition client_run :: "'x \<Rightarrow> ClientCall list \<Rightarrow> 'x World" where
  "client_run x calls = foldl client_call ((World_new x)\<lparr>w_started := True\<rparr>) calls"

definition clients_ok :: "'x World \<Rightarrow> bool" where
  "clients_ok w \<longleftrightarrow> w_started w \<and> om_ordered UpgradeInfo_less (w_clients w) \<and>
     w_remoteIdle w = (w_clients w = [])"

lemma unregister_refines:
  assumes "clients_ok w"
  shows "clients_ok (UnregisterUpdateCallback i w) \<and>
    om_find UpgradeInfo_less j (w_clients (UnregisterUpdateCallback i w)) =
      (if same_key UpgradeInfo_less j i then None else om_find UpgradeInfo_less j (w_clients w))"
  using assms um.find_erase [of "w_clients w" j i] um.find_same [of j i "w_clients w"]
  by (auto simp: UnregisterUpdateCallback_def clients_ok_def SetRemoteIdle_def um.ordered_erase
      split: option.split)

lemma register_refines:
  assumes "clients_ok w"
  shows "clients_ok (RegisterUpdateCallback i cb w) \<and>
    om_find UpgradeInfo_less j (w_clients (RegisterUpdateCallback i cb w)) =
      (if same_key UpgradeInfo_less j i then Some cb else om_find UpgradeInfo_less j (w_clients w))"
proof -
  let ?v = "UnregisterUpdateCallback i w"
  have v: "clients_ok ?v" "om_find UpgradeInfo_less i (w_clients ?v) = None"
    "om_find UpgradeInfo_less j (w_clients ?v) =
       (if same_key UpgradeInfo_less j i then None else om_find UpgradeInfo_less j (w_clients w))"
    using unregister_refines [OF assms, of i] um.same_refl [of i] by auto
  have "om_ordered UpgradeInfo_less (w_clients ?v)" using v(1) by (simp add: clients_ok_def)
  note ins = um.find_insert [OF this, of j i cb] um.ordered_insert [OF this, of i cb]
  show ?thesis using v ins
    by (simp add: RegisterUpdateCallback_def clients_ok_def SetRemoteIdle_def Let_def)
qed

lemma client_call_refines:
  assumes "clients_ok w"
  shows "clients_ok (client_call w c) \<and>
    om_find UpgradeInfo_less j (w_clients (client_call w c)) =
      client_spec (\<lambda>j. om_find UpgradeInfo_less j (w_clients w)) c j"
proof -
  have "w_started w" using assms by (simp add: clients_ok_def)
  then show ?thesis using unregister_refines [OF assms] register_refines [OF assms]
    by (cases c) (simp_all add: OnRemoteDied_def)
qed

lemma client_calls_refine:
  assumes "clients_ok w"
  shows "clients_ok (foldl client_call w cs) \<and>
    (\<lambda>j. om_find UpgradeInfo_less j (w_clients (foldl client_call w cs))) =
      foldl client_spec (\<lambda>j. om_find UpgradeInfo_less j (w_clients w)) cs"
  using assms
proof (induction cs arbitrary: w)
  case Nil
  then show ?case by simp
next
  case (Cons c cs)
  have "(\<lambda>j. om_find UpgradeInfo_less j (w_clients (client_call w c))) =
      client_spec (\<lambda>j. om_find UpgradeInfo_less j (w_clients w)) c"
    using client_call_refines [OF Cons.prems, of c] by (intro ext) simp
  then show ?case using Cons.IH [of "client_call w c"] client_call_refines [OF Cons.prems, of c] by simp
qed

text \<open>
  C25. The client map of the service is a partial function on upgrade informations: after any
  sequence of registrations, unregistrations and client deaths on the started service,
  \<open>GetUpgradeCallback\<close> answers the callback registered last for the same information, nothing
  when it was removed since, and the access manager is told that no client is left exactly
  when the map is empty.
\<close>

theorem client_map_refines:
  "UpdateService_GetUpgradeCallback j (client_run x calls) =
      (case foldl client_spec (\<lambda>_. None) calls j of None \<Rightarrow> None | Some cb \<Rightarrow> cb) \<and>
   w_remoteIdle (client_run x calls) = (w_clients (client_run x calls) = [])"
proof -
  have "clients_ok ((World_new x)\<lparr>w_started := True\<rparr>)"
    by (simp add: clients_ok_def World_new_def um.ordered_Nil)
  from client_calls_refine [OF this, of calls] show ?thesis
    unfolding client_run_def clients_ok_def UpdateService_GetUpgradeCallback_def
    by (simp add: World_new_def fun_eq_iff)
qed

end
