(* ===== verification/Memory_Device.thy ===== *)
theory Memory_Device
  imports Firmware_World
begin

text \<open>
  A device kept in memory: the list store for the database, association lists for files,
  preferences and system parameters, a fixed clock and a fixed amount of free space. It
  satisfies the laws of \<open>platform\<close>, so these can hold together, and the witnesses of the
  pipeline theories run on it. The content of a file is its own digest here.
\<close>

record MemDevice =
  md_db :: list_db
  md_files :: "(string \<times> string) list"
  md_prefs :: "(string \<times> PrefValue) list"
  md_params :: "(string \<times> string) list"
  md_now :: int64_t
  md_space :: uint64_t

definition empty_device :: MemDevice where
  "empty_device = \<lparr>md_db = empty_list_db, md_files = [], md_prefs = [], md_params = [], md_now = 0, md_space = 0\<rparr>"

definition md_rows :: "MemDevice \<Rightarrow> string \<Rightarrow> ValuesBucket list" where
  "md_rows m = fst (md_db m)"

definition al_put :: "string \<Rightarrow> 'v \<Rightarrow> (string \<times> 'v) list \<Rightarrow> (string \<times> 'v) list" where
  "al_put k v m = (k, v) # filter (\<lambda>p. fst p \<noteq> k) m"

definition is_below :: "string \<Rightarrow> string \<Rightarrow> bool" where
  "is_below dir f \<longleftrightarrow> f = dir \<or> take (length dir + 1) f = dir @ ''/''"

definition memory_device :: "MemDevice Platform" where
  "memory_device =
     \<lparr>pl_rdb =
        \<lparr>rdb_open = \<lambda>m. True,
         rdb_BatchInsert = \<lambda>t bs m. let (r, n, d) = rdb_BatchInsert list_store t bs (md_db m) in (r, n, m\<lparr>md_db := d\<rparr>),
         rdb_Delete = \<lambda>p m. let (r, n, d) = rdb_Delete list_store p (md_db m) in (r, n, m\<lparr>md_db := d\<rparr>),
         rdb_Update = \<lambda>b p m. let (r, n, d) = rdb_Update list_store b p (md_db m) in (r, n, m\<lparr>md_db := d\<rparr>),
         rdb_Query = \<lambda>p m. rdb_Query list_store p (md_db m)\<rparr>,
      pl_prefs_open = \<lambda>m. True,
      pl_prefs_put = \<lambda>k v m. (E_OK, m\<lparr>md_prefs := al_put k v (md_prefs m)\<rparr>),
      pl_prefs_get = \<lambda>k m. map_of (md_prefs m) k,
      pl_prefs_delete = \<lambda>k m. (E_OK, m\<lparr>md_prefs := filter (\<lambda>p. fst p \<noteq> k) (md_prefs m)\<rparr>),
      pl_prefs_clear = \<lambda>m. (E_OK, m\<lparr>md_prefs := []\<rparr>),
      pl_prefs_flush = \<lambda>m. (E_OK, m),
      pl_file_good = \<lambda>f m. map_of (md_files m) f \<noteq> None,
      pl_file_size = \<lambda>f m. map_option (\<lambda>c. of_nat (length c)) (map_of (md_files m) f),
      pl_space = \<lambda>f m. Some (md_space m),
      pl_write_file = \<lambda>f c m. (True, m\<lparr>md_files := al_put f c (md_files m)\<rparr>),
      pl_read_file = \<lambda>f m. map_of (md_files m) f,
      pl_dir_entries = \<lambda>d m. filter (\<lambda>f. f \<noteq> d \<and> is_below d f) (map fst (md_files m)),
      pl_remove_all = \<lambda>d m. m\<lparr>md_files := filter (\<lambda>p. \<not> is_below d (fst p)) (md_files m)\<rparr>,
      pl_remove = \<lambda>f m. m\<lparr>md_files := filter (\<lambda>p. fst p \<noteq> f) (md_files m)\<rparr>,
      pl_create_dir = \<lambda>d p m. (True, m\<lparr>md_files := al_put d [] (md_files m)\<rparr>),
      pl_read_param = \<lambda>k m. map_of (md_params m) k,
      pl_timestamp = md_now,
      pl_sha256 = Some,
      pl_file_sha256 = \<lambda>f m. case map_of (md_files m) f of None \<Rightarrow> [] | Some c \<Rightarrow> c\<rparr>"

lemma memory_rdb:
  "rdb_open (pl_rdb memory_device) m"
  "rdb_BatchInsert (pl_rdb memory_device) t bs m =
     (let (r, n, d) = rdb_BatchInsert list_store t bs (md_db m) in (r, n, m\<lparr>md_db := d\<rparr>))"
  "rdb_Delete (pl_rdb memory_device) p m =
     (let (r, n, d) = rdb_Delete list_store p (md_db m) in (r, n, m\<lparr>md_db := d\<rparr>))"
  "rdb_Update (pl_rdb memory_device) b p m =
     (let (r, n, d) = rdb_Update list_store b p (md_db m) in (r, n, m\<lparr>md_db := d\<rparr>))"
  "rdb_Query (pl_rdb memory_device) p m = rdb_Query list_store p (md_db m)"
  by (simp_all add: memory_device_def)

interpretation md: platform memory_device md_rows
proof (unfold_locales, goal_cases)
  case (1 t bs m n m')
  then show ?case
    using ls.insert_effect [of t bs "md_db m" n "md_db m'"]
    by (auto simp: memory_rdb md_rows_def split_beta Let_def prod_eq_iff)
next
  case (3 p m k m')
  then show ?case using ls.delete_effect [of p "md_db m" k "md_db m'"]
    by (auto simp: memory_rdb md_rows_def split_beta Let_def prod_eq_iff)
next
  case (5 b p m k m')
  then show ?case using ls.update_effect [of b p "md_db m" k "md_db m'"]
    by (auto simp: memory_rdb md_rows_def split_beta Let_def prod_eq_iff)
next
  case (7 p m rs)
  then show ?case using ls.query_result [of p "md_db m" rs] by (simp add: memory_rdb md_rows_def)
qed (use ls.insert_ok ls.delete_ok ls.update_ok ls.query_ok in
    \<open>auto simp: memory_rdb md_rows_def split_beta Let_def memory_device_def\<close>)

text \<open>A device with one task and some components in its tables, and the service started on it.\<close>

definition stored_device :: "FirmwareTask \<Rightarrow> FirmwareComponent list \<Rightarrow> MemDevice" where
  "stored_device t cs = empty_device
     \<lparr>md_db := ((\<lambda>_. [])
        (FIRMWARE_TABLE_TASK := [(Task_BuildDbValue t)(COLUMN_ID \<mapsto> DbInt 1)],
         FIRMWARE_TABLE_COMPONENT := map (\<lambda>c. (Component_BuildDbValue c)(COLUMN_ID \<mapsto> DbInt (fc_id c))) cs), 2),
      md_space := 1000000000\<rparr>"

definition stored_world :: "FirmwareTask \<Rightarrow> FirmwareComponent list \<Rightarrow> MemDevice World" where
  "stored_world t cs = (World_new (stored_device t cs))
     \<lparr>w_started := True, w_net := NetManager_new\<lparr>nm_netType := NetType.NOT_METERED_WIFI\<rparr>\<rparr>"

lemma stored_world_db:
  assumes "task_storable t" and "list_all component_storable cs"
  shows "w_typed md_rows (stored_world t cs) \<and> w_tasks md_rows (stored_world t cs) = [t\<lparr>ft_isExistTask := False\<rparr>] \<and>
    w_components md_rows (stored_world t cs) = cs"
proof -
  have "map (\<lambda>c. Component_ParseDbValue ((Component_BuildDbValue c)(COLUMN_ID \<mapsto> DbInt (fc_id c)))
      FirmwareComponent_default) cs = cs"
    using assms(2) by (induction cs) (simp_all add: Component_parse_build del: fun_upd_apply)
  moreover have "list_all component_row_ok
      (map (\<lambda>c. (Component_BuildDbValue c)(COLUMN_ID \<mapsto> DbInt (fc_id c))) cs)"
    by (simp add: list_all_iff component_row_ok_build del: fun_upd_apply)
  moreover have "FIRMWARE_TABLE_TASK \<noteq> FIRMWARE_TABLE_COMPONENT"
    by (simp add: FIRMWARE_TABLE_TASK_def FIRMWARE_TABLE_COMPONENT_def)
  ultimately show ?thesis
    using Task_parse_build [OF assms(1), of 1] task_row_ok_build [of t 1]
    by (simp add: stored_world_def stored_device_def World_new_def w_db_defs tasks_of_def components_of_def
        db_typed_def md_rows_def empty_device_def comp_def)
qed

end
