(* ===== verification/Firmware_Check.thy ===== *)
theory Firmware_Check
  imports Memory_Device
begin

text \<open>
  The search for a new version: \<open>JsonUtils\<close>, the analysis of the server's answer
  (\<open>firmware_check_analyze_utils.cpp\<close>), the request itself (\<open>firmware_icheck.h\<close>), the executor,
  the data processor that turns the answer into the task and component tables, and the manual
  check mode. The JSON parsers and the network are parameters: what one request met is a
  record of the results of its library calls.
\<close>

section \<open>JSON values and JsonUtils\<close>

text \<open>
  The value tree of the JSON library. An object lists its members in key order. A number is
  an integer or, for a floating point literal, the integer it is truncated to when it is
  converted.
\<close>

datatype Json =
    JvNull | JvBool bool | JvInt int | JvFloat int | JvString string
  | JvArray "Json list" | JvObject "(string \<times> Json) list"

fun jv_find :: "Json \<Rightarrow> string \<Rightarrow> Json option" where
  "jv_find (JvObject ms) key = map_of ms key"
| "jv_find _ _ = None"

text \<open>A range-based \<open>for\<close> over a value visits elements, member values, or the value itself.\<close>

fun jv_elements :: "Json \<Rightarrow> Json list" where
  "jv_elements (JvArray vs) = vs"
| "jv_elements (JvObject ms) = map snd ms"
| "jv_elements JvNull = []"
| "jv_elements v = [v]"

datatype JsonParseError = ERR_OK | COMMOM_ERROR | MISSING_PROP | TYPE_ERROR

fun JsonParseError_code :: "JsonParseError \<Rightarrow> int32_t" where
  "JsonParseError_code ERR_OK = 0"
| "JsonParseError_code COMMOM_ERROR = 1"
| "JsonParseError_code MISSING_PROP = 2"
| "JsonParseError_code TYPE_ERROR = 3"

text \<open>\<open>GetValueAndSetTo\<close> at the two types it is used with here; the old value stays on an error.\<close>

definition GetValueAndSetTo_string :: "Json \<Rightarrow> string \<Rightarrow> string \<Rightarrow> int32_t \<times> string" where
  "GetValueAndSetTo_string jsonObject key v =
     (case jv_find jsonObject key of
        None \<Rightarrow> (JsonParseError_code MISSING_PROP, v)
      | Some (JvString s) \<Rightarrow> (JsonParseError_code ERR_OK, s)
      | Some _ \<Rightarrow> (JsonParseError_code TYPE_ERROR, v))"

definition GetValueAndSetTo_int32 :: "Json \<Rightarrow> string \<Rightarrow> int32_t \<Rightarrow> int32_t \<times> int32_t" where
  "GetValueAndSetTo_int32 jsonObject key v =
     (case jv_find jsonObject key of
        None \<Rightarrow> (JsonParseError_code MISSING_PROP, v)
      | Some (JvInt i) \<Rightarrow> (JsonParseError_code ERR_OK, of_int i)
      | Some (JvFloat i) \<Rightarrow> (JsonParseError_code ERR_OK, of_int i)
      | Some _ \<Rightarrow> (JsonParseError_code TYPE_ERROR, v))"

definition ParseAndGetJsonObject :: "(string \<Rightarrow> Json option) \<Rightarrow> string \<Rightarrow> Json option" where
  "ParseAndGetJsonObject parse jsonStr =
     (case parse jsonStr of Some (JvObject ms) \<Rightarrow> Some (JvObject ms) | _ \<Rightarrow> None)"

section \<open>FirmwareCheckAnalyzeUtils\<close>

datatype CheckResultStatus =
  STATUS_SYSTEM_ERROR | STATUS_NEW_VERSION_AVAILABLE | STATUS_NEW_VERSION_NOT_AVAILABLE | STATUS_SERVER_IS_BUSY

fun CheckResultStatus_code :: "CheckResultStatus \<Rightarrow> int32_t" where
  "CheckResultStatus_code STATUS_SYSTEM_ERROR = - 1"
| "CheckResultStatus_code STATUS_NEW_VERSION_AVAILABLE = 0"
| "CheckResultStatus_code STATUS_NEW_VERSION_NOT_AVAILABLE = 1"
| "CheckResultStatus_code STATUS_SERVER_IS_BUSY = 2"

definition IsLegalStatus :: "int32_t \<Rightarrow> bool" where
  "IsLegalStatus status \<longleftrightarrow> status = CheckResultStatus_code STATUS_NEW_VERSION_AVAILABLE \<or>
     status = CheckResultStatus_code STATUS_NEW_VERSION_NOT_AVAILABLE"

text \<open>
  What one entry adds to the error count. The subscript with \<open>blVersionInfo\<close> throws on an entry
  that is neither an object nor null: \<open>None\<close>. The response built beside it is dropped by the
  caller.
\<close>

definition bl_version_entry :: "Json \<Rightarrow> int32_t \<Rightarrow> Json \<Rightarrow> int32_t option" where
  "bl_version_entry root ret result =
     (let (_, status) = GetValueAndSetTo_int32 root ''searchStatus'' (CheckResultStatus_code STATUS_SYSTEM_ERROR)
      in if status = CheckResultStatus_code STATUS_NEW_VERSION_AVAILABLE then
           (let ret = ret + fst (GetValueAndSetTo_string result ''descriptPackageId'' []);
                ret = ret + fst (GetValueAndSetTo_int32 result ''packageType'' (PackageType_code PackageType.DYNAMIC));
                ret = ret + fst (GetValueAndSetTo_string result ''versionName'' []);
                ret = ret + fst (GetValueAndSetTo_string result ''versionName'' [])
            in case result of
                 JvObject _ \<Rightarrow>
                   (let ret = ret + fst (GetValueAndSetTo_string result ''versionCode'' []);
                        ret = ret + fst (GetValueAndSetTo_string result ''url'' [])
                    in Some ret)
               | JvNull \<Rightarrow>
                   (let ret = ret + fst (GetValueAndSetTo_string result ''versionCode'' []);
                        ret = ret + fst (GetValueAndSetTo_string result ''url'' [])
                    in Some ret)
               | _ \<Rightarrow> None)
         else Some ret)"

fun bl_version_entries :: "Json \<Rightarrow> int32_t \<Rightarrow> Json list \<Rightarrow> int32_t option" where
  "bl_version_entries root ret [] = Some ret"
| "bl_version_entries root ret (result # results) =
     (case bl_version_entry root ret result of
        None \<Rightarrow> None
      | Some ret \<Rightarrow> bl_version_entries root ret results)"

definition AnalyzeBlVersionCheckResults :: "Json \<Rightarrow> int32_t option" where
  "AnalyzeBlVersionCheckResults root =
     (case jv_find root ''checkResults'' of
        None \<Rightarrow> Some (JsonParseError_code MISSING_PROP)
      | Some results \<Rightarrow> bl_version_entries root (JsonParseError_code ERR_OK) (jv_elements results))"

text \<open>\<open>junk\<close> is what the uninitialised local \<open>int32_t\<close> variables of the function hold.\<close>

definition analyze_component :: "int32_t \<Rightarrow> int32_t \<Rightarrow> Json \<Rightarrow> int32_t \<times> FirmwareComponent" where
  "analyze_component junk ret result =
     (let c = FirmwareComponent_default;
          (e, v) = GetValueAndSetTo_string result ''descriptPackageId'' (fc_descriptPackageId c);
          ret = ret + e; c = c\<lparr>fc_descriptPackageId := v\<rparr>;
          (e, v) = GetValueAndSetTo_string result ''url'' (fc_url c);
          ret = ret + e; c = c\<lparr>fc_url := v\<rparr>;
          (e, componetSize) = GetValueAndSetTo_int32 result ''size'' junk;
          ret = ret + e; c = c\<lparr>fc_size := int64_of_int32 componetSize\<rparr>;
          c = c\<lparr>fc_fileName := GetLastSplitString (fc_url c) ''/''\<rparr>;
          (e, v) = GetValueAndSetTo_string result ''verifyInfo'' (fc_verifyInfo c);
          ret = ret + e; c = c\<lparr>fc_verifyInfo := v\<rparr>;
          (e, v) = GetValueAndSetTo_string result ''versionCode'' (fc_versionNumber c);
          ret = ret + e; c = c\<lparr>fc_versionNumber := v\<rparr>;
          (e, v) = GetValueAndSetTo_string result ''versionName'' (fc_targetBlVersionNumber c);
          ret = ret + e; c = c\<lparr>fc_targetBlVersionNumber := v\<rparr>;
          c = c\<lparr>fc_targetBlDisplayVersionNumber := fc_targetBlVersionNumber c\<rparr>;
          c = c\<lparr>fc_blVersionType := 1\<rparr>;
          c = c\<lparr>fc_componentId := fc_descriptPackageId c\<rparr>;
          c = c\<lparr>fc_versionPackageType := PackageType.NORMAL\<rparr>
      in (ret, c))"

fun analyze_components :: "int32_t \<Rightarrow> int32_t \<Rightarrow> FirmwareComponent list \<Rightarrow> Json list \<Rightarrow> int32_t \<times> FirmwareComponent list" where
  "analyze_components junk ret cs [] = (ret, cs)"
| "analyze_components junk ret cs (result # results) =
     (let (ret, c) = analyze_component junk ret result
      in analyze_components junk ret (cs @ [c]) results)"

fun write_changelogs ::
  "'x Platform \<Rightarrow> int32_t \<Rightarrow> string \<Rightarrow> int32_t \<Rightarrow> Json list \<Rightarrow> 'x World \<Rightarrow> (int32_t \<times> 'x World) option" where
  "write_changelogs E junk componentId ret [] w = Some (ret, w)"
| "write_changelogs E junk componentId ret (descriptInfo # infos) w =
     (let (e, descriptInfoType) = GetValueAndSetTo_int32 descriptInfo ''descriptionType'' junk;
          ret = ret + e;
          (e, descContent) = GetValueAndSetTo_string descriptInfo ''content'' [];
          ret = ret + e
      in case ReplaceStringAll descContent ''quota'' quote of
           None \<Rightarrow> None
         | Some descContent \<Rightarrow>
             (let changelogFilePath = CHANGELOG_PATH @ ''/'' @ componentId @ ''.xml'';
                  d = to_string descriptInfoType @ ''|'' @ descContent;
                  w = do_ext (SaveDataToFile E changelogFilePath d) w
              in write_changelogs E junk componentId ret infos w))"

definition AnalyzeComponents ::
  "'x Platform \<Rightarrow> int32_t \<Rightarrow> Json \<Rightarrow> 'x World \<Rightarrow> (int32_t \<times> FirmwareComponent list \<times> 'x World) option" where
  "AnalyzeComponents E junk root w =
     (case jv_find root ''checkResults'' of
        None \<Rightarrow> Some (JsonParseError_code MISSING_PROP, [], w)
      | Some results \<Rightarrow>
          (let (ret, cs) = analyze_components junk (JsonParseError_code ERR_OK) [] (jv_elements results);
               componentId = (if cs = [] then [] else fc_descriptPackageId (last cs))
           in case jv_find root ''descriptInfo'' of
                None \<Rightarrow> Some (JsonParseError_code MISSING_PROP, cs, w)
              | Some infos \<Rightarrow>
                  (case write_changelogs E junk componentId ret (jv_elements infos) w of
                     None \<Rightarrow> None
                   | Some (ret, w) \<Rightarrow> Some (ret, cs, w))))"

text \<open>The list handed in, the response status and the state; \<open>None\<close> is an exception.\<close>

definition DoAnalyze ::
  "'x Platform \<Rightarrow> (string \<Rightarrow> Json option) \<Rightarrow> int32_t \<Rightarrow> string \<Rightarrow> FirmwareComponent list \<Rightarrow> 'x World \<Rightarrow>
   (FirmwareComponent list \<times> string \<times> 'x World) option" where
  "DoAnalyze E parse junk rawJson components w =
     (case ParseAndGetJsonObject parse rawJson of
        None \<Rightarrow> Some (components, [], w)
      | Some root \<Rightarrow>
          (let (_, status) = GetValueAndSetTo_int32 root ''searchStatus'' (CheckResultStatus_code STATUS_SYSTEM_ERROR);
               responseStatus = to_string status
           in if \<not> IsLegalStatus status then Some (components, responseStatus, w)
              else if status = CheckResultStatus_code STATUS_NEW_VERSION_AVAILABLE then
                (case AnalyzeBlVersionCheckResults root of
                   None \<Rightarrow> None
                 | Some ret1 \<Rightarrow>
                     (case AnalyzeComponents E junk root w of
                        None \<Rightarrow> None
                      | Some (ret2, cs, w) \<Rightarrow>
                          (if ret1 + ret2 = JsonParseError_code ERR_OK then Some (cs, responseStatus, w)
                           else Some (components, responseStatus, w))))
              else Some ([], responseStatus, w)))"

section \<open>FirmwareICheck\<close>

text \<open>
  What one request meets: the results of the socket and TLS calls, \<open>SSL_read\<close> with the buffer
  after it (\<open>JSON_MAX_SIZE\<close> characters), and the two JSON parsers. \<open>cn_cjson\<close> is \<open>cJSON_Parse\<close>
  followed by \<open>cJSON_GetObjectItem\<close> for \<open>searchStatus\<close>: no tree, no item, or \<open>valueint\<close>.
\<close>

record CheckNet =
  cn_socket :: int32_t
  cn_inet_pton :: "string \<Rightarrow> int32_t"
  cn_connect :: int32_t
  cn_ssl_ctx :: bool
  cn_ssl_new :: bool
  cn_ssl_connect :: int32_t
  cn_ssl_read :: "int32_t \<times> string"
  cn_cjson :: "string \<Rightarrow> int32_t option option"
  cn_json :: "string \<Rightarrow> Json option"
  cn_junk :: int32_t

record NetworkResponse =
  nr_status :: int64_t
  nr_content :: string

definition HTTP_SUCCESS :: int64_t where
  "HTTP_SUCCESS = 200"

definition ParseJsonFile :: "CheckNet \<Rightarrow> string \<Rightarrow> int32_t \<times> NetworkResponse" where
  "ParseJsonFile N buffer =
     (let response = \<lparr>nr_status = HTTP_SUCCESS, nr_content = buffer\<rparr>
      in case cn_cjson N buffer of
           None \<Rightarrow> (- 1, response)
         | Some None \<Rightarrow> (- 1, response)
         | Some (Some valueint) \<Rightarrow> (valueint, response))"

definition ReadDataFromSSL :: "CheckNet \<Rightarrow> NetworkResponse \<Rightarrow> int32_t \<times> NetworkResponse" where
  "ReadDataFromSSL N response =
     (if \<not> cn_ssl_ctx N then (- 1, response)
      else if \<not> cn_ssl_new N then (- 1, response)
      else if cn_ssl_connect N \<noteq> - 1 then
        (let (len, buffer) = cn_ssl_read N
         in if 0 <s len then
              (let (ret, response) = ParseJsonFile N buffer
               in if ret = 0 then (0, response) else (- 1, response))
            else (- 1, response))
      else (- 1, response))"

text \<open>The callback's arguments; a failed call ends with \<open>CHECK_FAIL\<close> and an empty list.\<close>

definition ICheck_DoAction ::
  "'x Platform \<Rightarrow> CheckNet \<Rightarrow> 'x World \<Rightarrow> (CheckStatus \<times> FirmwareComponent list \<times> 'x World) option" where
  "ICheck_DoAction E N w =
     (if cn_socket N <s 0 then Some (CheckStatus.CHECK_FAIL, [], w)
      else let serverIp = (case pl_read_param E ''update.serverip.search'' (w_ext w) of
                             None \<Rightarrow> ''127.0.0.1'' | Some v \<Rightarrow> v)
      in if \<not> 0 <s cn_inet_pton N serverIp then Some (CheckStatus.CHECK_FAIL, [], w)
      else if cn_connect N \<noteq> 0 then Some (CheckStatus.CHECK_FAIL, [], w)
      else let (ret, response) = ReadDataFromSSL N \<lparr>nr_status = - 1, nr_content = []\<rparr>
      in if ret \<noteq> 0 then Some (CheckStatus.CHECK_FAIL, [], w)
      else if nr_status response \<noteq> HTTP_SUCCESS \<or> nr_content response = [] then
        Some (CheckStatus.CHECK_FAIL, [], w)
      else case DoAnalyze E (cn_json N) (cn_junk N) (nr_content response) [] w of
             None \<Rightarrow> None
           | Some (cs, _, w) \<Rightarrow> Some (CheckStatus.CHECK_SUCCESS, cs, w))"

section \<open>FirmwareCheckExecutor\<close>

text \<open>\<open>Execute\<close> starts a thread with \<open>DoCheck\<close>; the thread ends in the callback.\<close>

definition CheckExecutor_Execute :: "'x Platform \<Rightarrow> 'x World \<Rightarrow> 'x World" where
  "CheckExecutor_Execute E w = FirmwareStatusCache_SetIsChecking E True w"

definition SetComponentCheckStatus :: "FirmwareComponent list \<Rightarrow> FirmwareComponent list" where
  "SetComponentCheckStatus cs = map (\<lambda>c. c\<lparr>fc_status := UpgradeStatus.CHECK_VERSION_SUCCESS\<rparr>) cs"

definition CheckExecutor_DoCheck ::
  "'x Platform \<Rightarrow> CheckNet \<Rightarrow> 'x World \<Rightarrow> (CheckStatus \<times> FirmwareComponent list \<times> 'x World) option" where
  "CheckExecutor_DoCheck E N w =
     (case ICheck_DoAction E N w of
        None \<Rightarrow> None
      | Some (status, cs, w) \<Rightarrow>
          (let cs = (if status = CheckStatus.CHECK_FAIL \<or> cs = [] then cs else SetComponentCheckStatus cs)
           in Some (status, cs, FirmwareStatusCache_SetIsChecking E False w)))"

section \<open>FirmwareCheckDataProcessor\<close>

record FirmwareCheckDataProcessor =
  cp_componentList :: "FirmwareComponent list"
  cp_isSameWithDb :: bool
  cp_status :: CheckStatus

definition FirmwareCheckDataProcessor_new :: FirmwareCheckDataProcessor where
  "FirmwareCheckDataProcessor_new =
     \<lparr>cp_componentList = [], cp_isSameWithDb = True, cp_status = CheckStatus.CHECK_FAIL\<rparr>"

definition IsCheckFailed :: "FirmwareCheckDataProcessor \<Rightarrow> bool" where
  "IsCheckFailed p \<longleftrightarrow> cp_status p = CheckStatus.CHECK_FAIL \<or>
     cp_status p = CheckStatus.FILE_LIST_REQUEST_FAIL \<or> cp_status p = CheckStatus.CHANGELOG_REQUEST_FAIL"

definition HasNewVersion :: "FirmwareCheckDataProcessor \<Rightarrow> bool" where
  "HasNewVersion p \<longleftrightarrow> cp_componentList p \<noteq> []"

definition HasUndoneTask :: "'x Platform \<Rightarrow> 'x World \<Rightarrow> bool" where
  "HasUndoneTask E w =
     (let task = QueryTask E FirmwareTask_default w
      in if \<not> ft_isExistTask task then False
         else ft_status task = UpgradeStatus.DOWNLOADING \<or> ft_status task = UpgradeStatus.DOWNLOAD_PAUSE \<or>
           ft_status task = UpgradeStatus.VERIFYING \<or> ft_status task = UpgradeStatus.INSTALLING \<or>
           ft_status task = UpgradeStatus.UPDATING)"

definition IsUpdateOnStatus :: "'x Platform \<Rightarrow> 'x World \<Rightarrow> bool" where
  "IsUpdateOnStatus E w =
     (let task = QueryTask E FirmwareTask_default w
      in if \<not> ft_isExistTask task then False else ft_status task = UpgradeStatus.UPDATING)"

definition BuildComponentSPath :: "FirmwareComponent list \<Rightarrow> FirmwareComponent list" where
  "BuildComponentSPath cs = map (\<lambda>c. c\<lparr>fc_spath := PACKAGE_PATH @ ''/'' @ fc_fileName c\<rparr>) cs"

definition same_in_db :: "'x Platform \<Rightarrow> 'x World \<Rightarrow> FirmwareComponent \<Rightarrow> bool" where
  "same_in_db E w serverResult =
     (let (hasResult, dbResult) =
            Component_QueryByVersionId (pl_rdb E) (fc_versionId serverResult) FirmwareComponent_default (w_ext w)
      in \<not> (\<not> hasResult \<or> fc_size dbResult \<noteq> fc_size serverResult \<or>
            fc_verifyInfo dbResult \<noteq> fc_verifyInfo serverResult))"

definition IsVersionSameWithDb :: "'x Platform \<Rightarrow> FirmwareCheckDataProcessor \<Rightarrow> 'x World \<Rightarrow> bool" where
  "IsVersionSameWithDb E p w =
     (if length (QueryAllComponents E w) \<noteq> length (cp_componentList p) then False
      else list_all (same_in_db E w) (cp_componentList p))"

definition UpdateFirmwareComponent :: "'x Platform \<Rightarrow> FirmwareCheckDataProcessor \<Rightarrow> 'x World \<Rightarrow> 'x World" where
  "UpdateFirmwareComponent E p w =
     (let task = QueryTask E FirmwareTask_default w
      in if \<not> ft_isExistTask task then w
         else if ft_status task \<noteq> UpgradeStatus.CHECK_VERSION_SUCCESS then w
         else foldl (\<lambda>w c. do_ext (Component_UpdateUrlByVersionId (pl_rdb E) (fc_versionId c) (fc_url c)) w)
                w (cp_componentList p))"

text \<open>\<open>CAST_UINT\<close> and bitwise or on the codes of \<open>CombinationType\<close>.\<close>

definition GetCombinationType :: "FirmwareComponent list \<Rightarrow> CombinationType" where
  "GetCombinationType cs =
     CombinationType_of
       (foldl (\<lambda>t c. if fc_blVersionType c = BlType_code BlType.HOTA_TYPE
                     then or t (CombinationType_code CombinationType.HOTA) else t)
          (CombinationType_code CombinationType.INVALLID_TYPE) cs)"

definition HandleNewVersion ::
  "'x Platform \<Rightarrow> FirmwareCheckDataProcessor \<Rightarrow> 'x World \<Rightarrow> FirmwareCheckDataProcessor \<times> 'x World" where
  "HandleNewVersion E p w =
     (let p = p\<lparr>cp_isSameWithDb := IsVersionSameWithDb E p w\<rparr>
      in if cp_isSameWithDb p then (p, UpdateFirmwareComponent E p w)
         else
           (let w = ClearFirmwareInfo E w;
                p = p\<lparr>cp_componentList := BuildComponentSPath (cp_componentList p)\<rparr>;
                w = do_ext (Table_Insert (pl_rdb E) FirmwareComponentTable (cp_componentList p)) w;
                task = FirmwareTask_default
                  \<lparr>ft_taskId := BuildTaskId E (cp_componentList p),
                   ft_status := UpgradeStatus.CHECK_VERSION_SUCCESS,
                   ft_combinationType := GetCombinationType (cp_componentList p)\<rparr>;
                w = do_ext (Table_Insert1 (pl_rdb E) FirmwareTaskTable task) w
            in (p, w)))"

definition HandleNoNewVersion :: "'x Platform \<Rightarrow> 'x World \<Rightarrow> 'x World" where
  "HandleNoNewVersion E w =
     (let task = QueryTask E FirmwareTask_default w;
          w = (if ft_isExistTask task
               then NotifyEvent (ft_taskId task) EVENT_TASK_CANCEL UpgradeStatus.INIT ErrorMessage_default [] w
               else w)
      in ClearFirmwareInfo E w)"

text \<open>\<open>RefreshPollingCycle\<close> only logs, \<open>HandleUndoneEvent\<close> does nothing.\<close>

definition HandleCheckResult ::
  "'x Platform \<Rightarrow> FirmwareCheckDataProcessor \<Rightarrow> 'x World \<Rightarrow> FirmwareCheckDataProcessor \<times> 'x World" where
  "HandleCheckResult E p w =
     (if IsCheckFailed p then (p, w)
      else if HasUndoneTask E w then (p, w)
      else if HasNewVersion p then HandleNewVersion E p w
      else (p, HandleNoNewVersion E w))"

definition CheckProcessor_SetCheckResult ::
  "'x Platform \<Rightarrow> CheckStatus \<Rightarrow> FirmwareComponent list \<Rightarrow> FirmwareCheckDataProcessor \<Rightarrow> 'x World \<Rightarrow>
   FirmwareCheckDataProcessor \<times> 'x World" where
  "CheckProcessor_SetCheckResult E status componentList p w =
     HandleCheckResult E (p\<lparr>cp_status := status, cp_componentList := componentList\<rparr>) w"

definition BuildVersionDigest :: "'x Platform \<Rightarrow> FirmwareComponent list \<Rightarrow> NewVersionInfo \<Rightarrow> NewVersionInfo" where
  "BuildVersionDigest E componentList info =
     info\<lparr>nv_versionDigestInfo := (nv_versionDigestInfo info)\<lparr>vd_versionDigest := BuildTaskId E componentList\<rparr>\<rparr>"

definition BuildCheckResult :: "'x Platform \<Rightarrow> FirmwareCheckDataProcessor \<Rightarrow> CheckResult \<Rightarrow> 'x World \<Rightarrow> CheckResult" where
  "BuildCheckResult E p checkResult w =
     (if IsCheckFailed p then checkResult
      else
        (let dbComponentList = QueryAllComponents E w;
             checkResult = checkResult\<lparr>cr_isExistNewVersion := (dbComponentList \<noteq> [])\<rparr>
         in if cr_isExistNewVersion checkResult then
              (let info = BuildVersionDigest E dbComponentList (cr_newVersionInfo checkResult);
                   info = info\<lparr>nv_versionComponents :=
                            BuildNewVersionInfo E dbComponentList (nv_versionComponents info) w\<rparr>
               in checkResult\<lparr>cr_newVersionInfo := info\<rparr>)
            else checkResult))"

section \<open>FirmwareManualCheckMode\<close>

record FirmwareManualCheckMode =
  mc_checkDataProcessor :: FirmwareCheckDataProcessor
  mc_businessError :: BusinessError

definition FirmwareManualCheckMode_new :: FirmwareManualCheckMode where
  "FirmwareManualCheckMode_new =
     \<lparr>mc_checkDataProcessor = FirmwareCheckDataProcessor_new, mc_businessError = BusinessError_default\<rparr>"

definition SearchStatus_NET_ERROR :: int32_t where
  "SearchStatus_NET_ERROR = - 2"

definition check_refused :: "int32_t \<Rightarrow> string \<Rightarrow> string \<Rightarrow> FirmwareManualCheckMode \<Rightarrow> FirmwareManualCheckMode" where
  "check_refused code msg detail m =
     m\<lparr>mc_businessError := AddErrorMessage code detail (Build CallResult.FAIL msg (mc_businessError m))\<rparr>"

definition Check_GetStepAfterInit ::
  "'x Platform \<Rightarrow> FirmwareManualCheckMode \<Rightarrow> 'x World \<Rightarrow> FirmwareStep \<times> FirmwareManualCheckMode" where
  "Check_GetStepAfterInit E m w =
     (if FirmwareStatusCache_IsChecking E w then
        (FirmwareStep.COMPLETE,
         check_refused DUPDATE_ERR_SYSTEM_BUSY_ON_CHECK ''system busy!'' ''checkNewVersion is checking!'' m)
      else if IsUpdateOnStatus E w then
        (FirmwareStep.COMPLETE,
         check_refused DUPDATE_ERR_SYSTEM_BUSY_ON_INSTALL ''system busy!'' ''system is updating!'' m)
      else if \<not> IsNetAvailable NetType.CELLULAR_AND_WIFI (w_net w) then
        (FirmwareStep.COMPLETE,
         check_refused SearchStatus_NET_ERROR ''CheckNewVersionService no network!''
           ''CheckNewVersionService no network !'' m)
      else (FirmwareStep.CHECK_STEP, m))"

definition Check_GetStepAfterCheck ::
  "'x Platform \<Rightarrow> FirmwareManualCheckMode \<Rightarrow> 'x World \<Rightarrow> FirmwareStep \<times> 'x World" where
  "Check_GetStepAfterCheck E m w =
     (let p = mc_checkDataProcessor m
      in if IsCheckFailed p \<or> cp_isSameWithDb p \<or> \<not> HasNewVersion p then (FirmwareStep.COMPLETE, w)
         else
           (let task = QueryTask E FirmwareTask_default w;
                w = (if ft_status task = UpgradeStatus.CHECK_VERSION_SUCCESS then
                       (let w = NotifyEvent (ft_taskId task) EVENT_TASK_RECEIVE
                                  UpgradeStatus.CHECK_VERSION_SUCCESS ErrorMessage_default [] w
                        in if \<not> ObtainBool E AUTO_DOWNLOAD_SWITCH False (w_ext w)
                           then NotifyEvent (ft_taskId task) EVENT_DOWNLOAD_WAIT
                                  UpgradeStatus.CHECK_VERSION_SUCCESS ErrorMessage_default [] w
                           else w)
                     else w)
            in (FirmwareStep.COMPLETE, w)))"

definition Check_GetNextStep ::
  "'x Platform \<Rightarrow> FirmwareStep \<Rightarrow> FirmwareManualCheckMode \<Rightarrow> 'x World \<Rightarrow>
   FirmwareStep \<times> FirmwareManualCheckMode \<times> 'x World" where
  "Check_GetNextStep E step m w =
     (case step of
        FirmwareStep.INIT \<Rightarrow> (let (s, m) = Check_GetStepAfterInit E m w in (s, m, w))
      | FirmwareStep.CHECK_STEP \<Rightarrow> (let (s, w) = Check_GetStepAfterCheck E m w in (s, m, w))
      | _ \<Rightarrow> (FirmwareStep.COMPLETE, m, w))"

definition Check_SetCheckResult ::
  "'x Platform \<Rightarrow> CheckStatus \<Rightarrow> FirmwareComponent list \<Rightarrow> FirmwareManualCheckMode \<Rightarrow> 'x World \<Rightarrow>
   FirmwareManualCheckMode \<times> 'x World" where
  "Check_SetCheckResult E status componentList m w =
     (let (p, w) = CheckProcessor_SetCheckResult E status componentList (mc_checkDataProcessor m) w
      in (m\<lparr>mc_checkDataProcessor := p\<rparr>, w))"

text \<open>\<open>onCheckComplete_\<close> is the lambda of \<open>CheckNewVersion\<close>: the answer goes to the client.\<close>

definition Check_HandleComplete :: "'x Platform \<Rightarrow> FirmwareManualCheckMode \<Rightarrow> 'x World \<Rightarrow> 'x World" where
  "Check_HandleComplete E m w =
     SearchCallback (Cache_GetUpgradeInfo BusinessSubType.FIRMWARE (w_cache w)) (mc_businessError m)
       (BuildCheckResult E (mc_checkDataProcessor m) CheckResult_default w) w"

section \<open>The tables after a check\<close>

definition check_failed :: "CheckStatus \<Rightarrow> bool" where
  "check_failed st \<longleftrightarrow>
     st \<in> {CheckStatus.CHECK_FAIL, CheckStatus.FILE_LIST_REQUEST_FAIL, CheckStatus.CHANGELOG_REQUEST_FAIL}"

definition undone :: "FirmwareTask list \<Rightarrow> bool" where
  "undone ts \<longleftrightarrow> ts \<noteq> [] \<and> ft_status (hd ts) \<in>
     {UpgradeStatus.DOWNLOADING, UpgradeStatus.DOWNLOAD_PAUSE, UpgradeStatus.VERIFYING,
      UpgradeStatus.INSTALLING, UpgradeStatus.UPDATING}"

text \<open>The task a new version is stored with, and its components as they are stored.\<close>

definition new_version_task :: "'x Platform \<Rightarrow> FirmwareComponent list \<Rightarrow> FirmwareTask" where
  "new_version_task E cs = FirmwareTask_default
     \<lparr>ft_taskId := BuildTaskId E cs, ft_status := UpgradeStatus.CHECK_VERSION_SUCCESS,
      ft_combinationType := GetCombinationType cs\<rparr>"

lemma BuildTaskId_spath: "BuildTaskId E (BuildComponentSPath cs) = BuildTaskId E cs"
proof -
  have "foldl (\<lambda>taskId c. (if taskId \<noteq> [] then taskId @ ''_'' else taskId) @ fc_versionId c) a
      (BuildComponentSPath cs) =
    foldl (\<lambda>taskId c. (if taskId \<noteq> [] then taskId @ ''_'' else taskId) @ fc_versionId c) a cs" for a
    by (induction cs arbitrary: a) (simp_all add: BuildComponentSPath_def)
  then show ?thesis by (simp add: BuildTaskId_def) (simp add: BuildComponentSPath_def)
qed

lemma GetCombinationType_spath: "GetCombinationType (BuildComponentSPath cs) = GetCombinationType cs"
proof -
  have "foldl (\<lambda>t c. if fc_blVersionType c = k then f t else t) a (BuildComponentSPath cs) =
    foldl (\<lambda>t c. if fc_blVersionType c = k then f t else t) a cs" for a k and f :: "int32_t \<Rightarrow> int32_t"
    by (induction cs arbitrary: a) (simp_all add: BuildComponentSPath_def)
  then show ?thesis by (simp add: GetCombinationType_def)
qed

lemma new_version_storable: "task_storable (new_version_task E cs)"
  by (simp add: task_storable_def new_version_task_def FirmwareTask_default_def us.wf_named ct.wf_decode
      GetCombinationType_def dm.wf_named nt.wf_named od.wf_named um.wf_named enum_simps
      DownloadMode_named_def UpgradeMode_named_def)

lemma spath_storable: "list_all component_storable cs \<Longrightarrow> list_all component_storable (BuildComponentSPath cs)"
  by (induction cs) (auto simp: BuildComponentSPath_def component_storable_def)

context platform
begin

lemma insert_version_db:
  assumes "w_typed rows w" and "list_all component_storable cs" and "task_storable t"
  defines "w' \<equiv> do_ext (Table_Insert1 (pl_rdb E) FirmwareTaskTable t)
    (do_ext (Table_Insert (pl_rdb E) FirmwareComponentTable cs) w)"
  shows "w_typed rows w' \<and> w_tasks rows w' = w_tasks rows w @ [t\<lparr>ft_isExistTask := False\<rparr>] \<and>
    (\<exists>ids. length ids = length cs \<and>
       w_components rows w' = w_components rows w @ map2 (\<lambda>c i. c\<lparr>fc_id := i\<rparr>) cs ids)"
proof -
  obtain ok1 x1 where 1: "Table_Insert (pl_rdb E) FirmwareComponentTable cs (w_ext w) = (ok1, x1)" by force
  obtain ok2 x2 where 2: "Table_Insert1 (pl_rdb E) FirmwareTaskTable t x1 = (ok2, x2)" by force
  note i1 = fd.insert_components [OF assms(1) [unfolded w_typed_def] assms(2) 1]
  then have "db_typed rows x1" by simp
  note i2 = fd.insert_task [OF this assms(3) 2]
  show ?thesis using i1 i2 by (simp add: w'_def w_db_defs 1 2)
qed

lemma update_url_db:
  assumes "w_typed rows w"
  shows "w_typed rows (do_ext (Component_UpdateUrlByVersionId (pl_rdb E) v u) w) \<and>
    w_tasks rows (do_ext (Component_UpdateUrlByVersionId (pl_rdb E) v u) w) = w_tasks rows w \<and>
    w_components rows (do_ext (Component_UpdateUrlByVersionId (pl_rdb E) v u) w) =
      map (\<lambda>c. if fc_versionId c = v then c\<lparr>fc_url := u\<rparr> else c) (w_components rows w)"
  using fd.update_url [of "w_ext w" v u "fst (Component_UpdateUrlByVersionId (pl_rdb E) v u (w_ext w))"
      "snd (Component_UpdateUrlByVersionId (pl_rdb E) v u (w_ext w))"] assms
  by (simp add: w_db_defs)

lemma UpdateFirmwareComponent_db:
  assumes "w_typed rows w"
  shows "w_typed rows (UpdateFirmwareComponent E p w) \<and>
    w_tasks rows (UpdateFirmwareComponent E p w) = w_tasks rows w \<and>
    map (\<lambda>c. c\<lparr>fc_url := []\<rparr>) (w_components rows (UpdateFirmwareComponent E p w)) =
      map (\<lambda>c. c\<lparr>fc_url := []\<rparr>) (w_components rows w)"
proof -
  let ?f = "\<lambda>w c. do_ext (Component_UpdateUrlByVersionId (pl_rdb E) (fc_versionId c) (fc_url c)) w"
  let ?I = "\<lambda>v. w_typed rows v \<and> w_tasks rows v = w_tasks rows w \<and>
    map (\<lambda>c. c\<lparr>fc_url := []\<rparr>) (w_components rows v) = map (\<lambda>c. c\<lparr>fc_url := []\<rparr>) (w_components rows w)"
  have "?I (foldl ?f w (cp_componentList p))"
  proof (rule foldl_inv [where I = ?I])
    fix v c assume v: "?I v"
    have eq: "map (\<lambda>d. (if fc_versionId d = fc_versionId c then d\<lparr>fc_url := fc_url c\<rparr> else d)\<lparr>fc_url := []\<rparr>) ds =
        map (\<lambda>d. d\<lparr>fc_url := []\<rparr>) ds" for ds :: "FirmwareComponent list"
      by (induction ds) auto
    show "?I (?f v c)" using v update_url_db [of v "fc_versionId c" "fc_url c"]
      by (simp add: comp_def eq)
  qed (use assms in simp)
  then show ?thesis using assms by (simp add: UpdateFirmwareComponent_def Let_def)
qed

lemma HasUndoneTask_db: "HasUndoneTask E w = undone (w_tasks rows w)"
  by (simp add: HasUndoneTask_def fw.task_query undone_def Let_def split: list.split)

lemma new_version_db:
  assumes "w_typed rows w" and "list_all component_storable cs"
    and "CheckProcessor_SetCheckResult E st cs p w = (p', w')"
    and "\<not> check_failed st" and "\<not> undone (w_tasks rows w)" and "cs \<noteq> []" and "\<not> cp_isSameWithDb p'"
  shows "w_typed rows w' \<and> w_tasks rows w' = [new_version_task E cs] \<and>
    (\<exists>ids. length ids = length cs \<and>
       w_components rows w' = map2 (\<lambda>c i. c\<lparr>fc_id := i\<rparr>) (BuildComponentSPath cs) ids)"
proof -
  let ?c = "ClearFirmwareInfo E w"
  have ins: "w' = do_ext (Table_Insert1 (pl_rdb E) FirmwareTaskTable (new_version_task E cs))
      (do_ext (Table_Insert (pl_rdb E) FirmwareComponentTable (BuildComponentSPath cs)) ?c)"
    using assms(3-7)
    by (auto simp: CheckProcessor_SetCheckResult_def HandleCheckResult_def IsCheckFailed_def check_failed_def
        HasUndoneTask_db HasNewVersion_def HandleNewVersion_def new_version_task_def BuildTaskId_spath
        GetCombinationType_spath Let_def split: if_splits)
  have new: "(new_version_task E cs)\<lparr>ft_isExistTask := False\<rparr> = new_version_task E cs"
    by (simp add: new_version_task_def FirmwareTask_default_def)
  show ?thesis
    using insert_version_db [OF _ spath_storable [OF assms(2)] new_version_storable, of ?c E cs]
      clear_db [OF assms(1)]
    by (simp add: ins new) (simp add: BuildComponentSPath_def)
qed

lemma other_results_db:
  assumes "w_typed rows w"
    and "CheckProcessor_SetCheckResult E st cs p w = (p', w')"
  shows "(check_failed st \<or> undone (w_tasks rows w) \<longrightarrow> w' = w) \<and>
    (\<not> check_failed st \<and> \<not> undone (w_tasks rows w) \<and> cs = [] \<longrightarrow>
       w_typed rows w' \<and> w_tasks rows w' = [] \<and> w_components rows w' = []) \<and>
    (\<not> check_failed st \<and> \<not> undone (w_tasks rows w) \<and> cs \<noteq> [] \<and> cp_isSameWithDb p' \<longrightarrow>
       w_typed rows w' \<and> w_tasks rows w' = w_tasks rows w \<and>
       map (\<lambda>c. c\<lparr>fc_url := []\<rparr>) (w_components rows w') = map (\<lambda>c. c\<lparr>fc_url := []\<rparr>) (w_components rows w))"
proof -
  note defs = CheckProcessor_SetCheckResult_def HandleCheckResult_def IsCheckFailed_def check_failed_def
    HasUndoneTask_db HasNewVersion_def
  have none: "w_typed rows (HandleNoNewVersion E w) \<and> w_tasks rows (HandleNoNewVersion E w) = [] \<and>
    w_components rows (HandleNoNewVersion E w) = []"
    using assms(1) fw.clear by (simp add: HandleNoNewVersion_def Let_def)
  have same: "w' = UpdateFirmwareComponent E p' w"
    if "\<not> check_failed st" "\<not> undone (w_tasks rows w)" "cs \<noteq> []" "cp_isSameWithDb p'"
    using that assms(2) by (auto simp: defs HandleNewVersion_def Let_def split: if_splits)
  show ?thesis
    using assms(2) none same UpdateFirmwareComponent_db [OF assms(1), of p']
    by (auto simp: defs split: if_splits)
qed

end

section \<open>The analysis of the answer\<close>

definition jv_string :: "Json \<Rightarrow> string \<Rightarrow> string option" where
  "jv_string v k = (case jv_find v k of Some (JvString s) \<Rightarrow> Some s | _ \<Rightarrow> None)"

definition jv_int :: "Json \<Rightarrow> string \<Rightarrow> int32_t option" where
  "jv_int v k = (case jv_find v k of Some (JvInt i) \<Rightarrow> Some (of_int i) | Some (JvFloat i) \<Rightarrow> Some (of_int i) | _ \<Rightarrow> None)"

text \<open>The fields the analysis requires of an entry and of a description, and what it reads.\<close>

definition complete_entry :: "Json \<Rightarrow> bool" where
  "complete_entry r \<longleftrightarrow>
     (\<forall>k \<in> {''descriptPackageId'', ''url'', ''verifyInfo'', ''versionCode'', ''versionName''}. jv_string r k \<noteq> None) \<and>
     jv_int r ''size'' \<noteq> None \<and> jv_int r ''packageType'' \<noteq> None"

definition complete_info :: "Json \<Rightarrow> bool" where
  "complete_info d \<longleftrightarrow> jv_int d ''descriptionType'' \<noteq> None \<and> jv_string d ''content'' \<noteq> None"

definition component_of :: "Json \<Rightarrow> FirmwareComponent" where
  "component_of r = FirmwareComponent_default
     \<lparr>fc_descriptPackageId := the (jv_string r ''descriptPackageId''), fc_url := the (jv_string r ''url''),
      fc_size := scast (the (jv_int r ''size'')),
      fc_fileName := GetLastSplitString (the (jv_string r ''url'')) ''/'',
      fc_verifyInfo := the (jv_string r ''verifyInfo''), fc_versionNumber := the (jv_string r ''versionCode''),
      fc_targetBlVersionNumber := the (jv_string r ''versionName''),
      fc_targetBlDisplayVersionNumber := the (jv_string r ''versionName''), fc_blVersionType := 1,
      fc_componentId := the (jv_string r ''descriptPackageId''), fc_versionPackageType := PackageType.NORMAL\<rparr>"

text \<open>The error count as a number: at most three for each field.\<close>

definition string_err :: "Json \<Rightarrow> string \<Rightarrow> nat" where
  "string_err v k = unat (fst (GetValueAndSetTo_string v k []))"

definition int_err :: "Json \<Rightarrow> string \<Rightarrow> nat" where
  "int_err v k = unat (fst (GetValueAndSetTo_int32 v k 0))"

lemma GetString_eq: "GetValueAndSetTo_string v k d =
  (of_nat (string_err v k), case jv_string v k of Some s \<Rightarrow> s | None \<Rightarrow> d)"
  by (simp add: GetValueAndSetTo_string_def string_err_def jv_string_def split: option.split Json.split)

lemma GetInt_eq: "GetValueAndSetTo_int32 v k d =
  (of_nat (int_err v k), case jv_int v k of Some s \<Rightarrow> s | None \<Rightarrow> d)"
  by (simp add: GetValueAndSetTo_int32_def int_err_def jv_int_def split: option.split Json.split)

lemma string_err_bound: "string_err v k \<le> 3" "string_err v k = 0 \<longleftrightarrow> jv_string v k \<noteq> None"
  by (simp_all add: string_err_def GetValueAndSetTo_string_def jv_string_def split: option.split Json.split)

lemma int_err_bound: "int_err v k \<le> 3" "int_err v k = 0 \<longleftrightarrow> jv_int v k \<noteq> None"
  by (simp_all add: int_err_def GetValueAndSetTo_int32_def jv_int_def split: option.split Json.split)

definition entry_err :: "Json \<Rightarrow> nat" where
  "entry_err r = string_err r ''descriptPackageId'' + string_err r ''url'' + int_err r ''size'' +
     string_err r ''verifyInfo'' + string_err r ''versionCode'' + string_err r ''versionName''"

definition bl_err :: "Json \<Rightarrow> nat" where
  "bl_err r = string_err r ''descriptPackageId'' + int_err r ''packageType'' + string_err r ''versionName'' +
     string_err r ''versionName'' + string_err r ''versionCode'' + string_err r ''url''"

definition info_err :: "Json \<Rightarrow> nat" where
  "info_err d = int_err d ''descriptionType'' + string_err d ''content''"

lemma err_bounds: "entry_err r \<le> 18" "bl_err r \<le> 18" "info_err d \<le> 6"
proof -
  note s = string_err_bound(1) [of r] and i = int_err_bound(1) [of r]
  show "entry_err r \<le> 18" unfolding entry_err_def
    using s [of "''descriptPackageId''"] s [of "''url''"] i [of "''size''"] s [of "''verifyInfo''"]
      s [of "''versionCode''"] s [of "''versionName''"] by linarith
  show "bl_err r \<le> 18" unfolding bl_err_def
    using s [of "''descriptPackageId''"] s [of "''url''"] i [of "''packageType''"]
      s [of "''versionCode''"] s [of "''versionName''"] by linarith
  show "info_err d \<le> 6" unfolding info_err_def
    using string_err_bound(1) [of d "''content''"] int_err_bound(1) [of d "''descriptionType''"] by linarith
qed

lemma errs_complete: "entry_err r = 0 \<and> bl_err r = 0 \<longleftrightarrow> complete_entry r" "info_err d = 0 \<longleftrightarrow> complete_info d"
  by (auto simp: entry_err_def bl_err_def info_err_def complete_entry_def complete_info_def
      string_err_bound(2) int_err_bound(2))

lemma analyze_component_eq:
  "fst (analyze_component junk ret r) = ret + of_nat (entry_err r)"
  "complete_entry r \<Longrightarrow> snd (analyze_component junk ret r) = component_of r"
proof -
  show "fst (analyze_component junk ret r) = ret + of_nat (entry_err r)"
    by (simp add: analyze_component_def entry_err_def GetString_eq GetInt_eq Let_def ac_simps)
  assume "complete_entry r"
  then show "snd (analyze_component junk ret r) = component_of r"
    by (auto simp: analyze_component_def component_of_def GetString_eq GetInt_eq complete_entry_def Let_def)
qed

lemma analyze_components_eq:
  "fst (analyze_components junk ret cs rs) = ret + of_nat (sum_list (map entry_err rs))"
  "(\<forall>r \<in> set rs. complete_entry r) \<Longrightarrow> snd (analyze_components junk ret cs rs) = cs @ map component_of rs"
  by (induction rs arbitrary: ret cs) (simp_all add: split_beta analyze_component_eq)

lemma bl_version_entries_eq:
  assumes "jv_int root ''searchStatus'' = Some 0" and "\<forall>r \<in> set rs. \<exists>fs. r = JvObject fs"
  shows "bl_version_entries root ret rs = Some (ret + of_nat (sum_list (map bl_err rs)))"
  using assms(2)
proof (induction rs arbitrary: ret)
  case (Cons r rs)
  have "bl_version_entry root ret r = Some (ret + of_nat (bl_err r))"
    using assms(1) Cons.prems
    by (auto simp: bl_version_entry_def GetString_eq GetInt_eq bl_err_def Let_def)
  then show ?case using Cons by simp
qed simp

lemma write_changelogs_eq:
  "\<exists>w'. write_changelogs E junk i ret ds w = Some (ret + of_nat (sum_list (map info_err ds)), w')"
proof (induction ds arbitrary: ret w)
  case (Cons d ds)
  have "\<exists>t. ReplaceStringAll s ''quota'' quote = Some t" for s
    using replace_loop_ref [of "''quota''" quote "[]" s] by (simp add: ReplaceStringAll_def)
  then obtain t where t: "ReplaceStringAll (case jv_string d ''content'' of None \<Rightarrow> [] | Some s \<Rightarrow> s) ''quota'' quote = Some t"
    by blast
  have "\<exists>w'. write_changelogs E junk i (ret + of_nat (int_err d ''descriptionType'') +
      of_nat (string_err d ''content'')) ds v = Some (ret + of_nat (sum_list (map info_err (d # ds))), w')" for v
    using Cons.IH [of "ret + of_nat (int_err d ''descriptionType'') + of_nat (string_err d ''content'')" v]
    by (simp add: info_err_def [of d] add.assoc)
  then show ?case by (simp add: GetString_eq GetInt_eq Let_def t del: sum_list.Cons list.map)
qed simp

lemma sum_list_bound: "(\<And>x. f x \<le> k) \<Longrightarrow> sum_list (map f xs) \<le> k * length xs"
  by (induction xs) (simp_all add: add_mono)

lemma err_count_zero: "n < 4294967296 \<Longrightarrow> (of_nat n :: 32 word) = 0 \<longleftrightarrow> n = 0"
  by (auto simp: word_of_nat_eq_0_iff dest: dvd_imp_le)

lemma AnalyzeComponents_eq:
  assumes "jv_find root ''checkResults'' = Some (JvArray rs)"
    and "jv_find root ''descriptInfo'' = Some (JvArray ds)"
  shows "\<exists>w'. AnalyzeComponents E junk root w =
    Some (of_nat (sum_list (map entry_err rs) + sum_list (map info_err ds)),
          snd (analyze_components junk 0 [] rs), w')"
proof -
  obtain ret cs where a: "analyze_components junk 0 [] rs = (ret, cs)" by force
  then have ret: "ret = of_nat (sum_list (map entry_err rs))"
    using analyze_components_eq(1) [of junk 0 "[]" rs] by simp
  obtain w' where "write_changelogs E junk (if cs = [] then [] else fc_descriptPackageId (last cs)) ret ds w =
      Some (ret + of_nat (sum_list (map info_err ds)), w')"
    using write_changelogs_eq by blast
  then show ?thesis using assms a ret by (simp add: AnalyzeComponents_def Let_def)
qed

section \<open>Properties\<close>

text \<open>
  C8. A successful search that brings a version the tables do not hold replaces them: after it
  the task table holds exactly one task, in state \<open>CHECK_VERSION_SUCCESS\<close> under the digest of
  the new components and with default options, and the component table holds exactly the new
  components in the server's order, with the download paths filled in.
\<close>

theorem check_replaces_version:
  assumes "platform E rows" and "w_typed rows w" and "list_all component_storable cs"
    and "CheckProcessor_SetCheckResult E st cs p w = (p', w')"
    and "\<not> check_failed st" and "\<not> undone (w_tasks rows w)" and "cs \<noteq> []" and "\<not> cp_isSameWithDb p'"
  shows "w_tasks rows w' = [FirmwareTask_default
      \<lparr>ft_taskId := BuildTaskId E cs, ft_status := UpgradeStatus.CHECK_VERSION_SUCCESS,
       ft_combinationType := GetCombinationType cs\<rparr>] \<and>
    map (\<lambda>c. c\<lparr>fc_id := 0\<rparr>) (w_components rows w') =
      map (\<lambda>c. c\<lparr>fc_id := 0, fc_spath := PACKAGE_PATH @ ''/'' @ fc_fileName c\<rparr>) cs"
proof -
  have drop: "length ids = length ds \<Longrightarrow>
      map (\<lambda>c. c\<lparr>fc_id := 0\<rparr>) (map2 (\<lambda>c i. c\<lparr>fc_id := i\<rparr>) ds ids) = map (\<lambda>c. c\<lparr>fc_id := 0\<rparr>) ds"
    for ds :: "FirmwareComponent list" and ids
    by (induction ids ds rule: list_induct2) simp_all
  obtain ids where "length ids = length (BuildComponentSPath cs)"
    "w_components rows w' = map2 (\<lambda>c i. c\<lparr>fc_id := i\<rparr>) (BuildComponentSPath cs) ids"
    "w_tasks rows w' = [new_version_task E cs]"
    using platform.new_version_db [OF assms] by (auto simp: BuildComponentSPath_def)
  then show ?thesis using drop [of ids "BuildComponentSPath cs"]
    by (simp add: new_version_task_def) (simp add: BuildComponentSPath_def comp_def)
qed

definition sample_component :: FirmwareComponent where
  "sample_component = FirmwareComponent_default
     \<lparr>fc_url := ''http://s/a.zip'', fc_fileName := ''a.zip'', fc_size := 3, fc_verifyInfo := ''abc'',
      fc_blVersionType := 1, fc_versionPackageType := PackageType.NORMAL,
      fc_status := UpgradeStatus.CHECK_VERSION_SUCCESS\<rparr>"

lemma sample_component_storable: "component_storable sample_component"
  by (simp add: sample_component_def component_storable_def us.wf_named pt.wf_named enum_simps)

lemma empty_device_typed: "w_typed md_rows (World_new empty_device)"
  by (simp add: w_typed_def World_new_def empty_device_def md_rows_def empty_list_db_def db_typed_def)

lemma empty_device_tasks: "w_tasks md_rows (World_new empty_device) = []"
  by (simp add: w_tasks_def World_new_def empty_device_def md_rows_def empty_list_db_def tasks_of_def)

lemma empty_device_components: "w_components md_rows (World_new empty_device) = []"
  by (simp add: w_components_def World_new_def empty_device_def md_rows_def empty_list_db_def components_of_def)

lemma sample_check_not_same:
  "\<not> cp_isSameWithDb (fst (CheckProcessor_SetCheckResult memory_device CheckStatus.CHECK_SUCCESS
      [sample_component] FirmwareCheckDataProcessor_new (World_new empty_device)))"
proof -
  have "QueryAllComponents memory_device (World_new empty_device) = []"
    by (simp add: md.fw.component_query empty_device_components)
  moreover have "\<not> HasUndoneTask memory_device (World_new empty_device)"
    by (simp add: md.HasUndoneTask_db empty_device_tasks undone_def)
  ultimately show ?thesis
    by (simp add: CheckProcessor_SetCheckResult_def HandleCheckResult_def IsCheckFailed_def HasNewVersion_def
        HandleNewVersion_def IsVersionSameWithDb_def Let_def)
qed

theorem check_replaces_version_witness:
  "let w' = snd (CheckProcessor_SetCheckResult memory_device CheckStatus.CHECK_SUCCESS [sample_component]
     FirmwareCheckDataProcessor_new (World_new empty_device))
   in w_tasks md_rows w' = [FirmwareTask_default
        \<lparr>ft_taskId := BuildTaskId memory_device [sample_component],
         ft_status := UpgradeStatus.CHECK_VERSION_SUCCESS,
         ft_combinationType := GetCombinationType [sample_component]\<rparr>] \<and>
      length (w_components md_rows w') = 1"
proof -
  obtain p' w' where r: "CheckProcessor_SetCheckResult memory_device CheckStatus.CHECK_SUCCESS
      [sample_component] FirmwareCheckDataProcessor_new (World_new empty_device) = (p', w')" by force
  have "\<not> cp_isSameWithDb p'" using sample_check_not_same r by simp
  with check_replaces_version [OF md.platform_axioms empty_device_typed _ r]
  have *: "w_tasks md_rows w' = [FirmwareTask_default
        \<lparr>ft_taskId := BuildTaskId memory_device [sample_component],
         ft_status := UpgradeStatus.CHECK_VERSION_SUCCESS,
         ft_combinationType := GetCombinationType [sample_component]\<rparr>]"
    "map (\<lambda>c. c\<lparr>fc_id := 0\<rparr>) (w_components md_rows w') =
      map (\<lambda>c. c\<lparr>fc_id := 0, fc_spath := PACKAGE_PATH @ ''/'' @ fc_fileName c\<rparr>) [sample_component]"
    by (simp_all add: check_failed_def undone_def empty_device_tasks sample_component_storable)
  from arg_cong [OF *(2), of length] *(1) show ?thesis by (simp add: r)
qed

text \<open>
  C9. A check never disturbs an upgrade that is under way: when the search failed, or the task
  is downloading, paused, verifying, installing or updating, the whole service state stays as
  it is. A successful search without a version empties both tables. A search that brings the
  version already stored changes at most the download addresses.
\<close>

theorem check_keeps_running_task:
  assumes "platform E rows" and "w_typed rows w"
    and "CheckProcessor_SetCheckResult E st cs p w = (p', w')"
  shows "(check_failed st \<or> undone (w_tasks rows w) \<longrightarrow> w' = w) \<and>
    (\<not> check_failed st \<and> \<not> undone (w_tasks rows w) \<and> cs = [] \<longrightarrow>
       w_tasks rows w' = [] \<and> w_components rows w' = []) \<and>
    (\<not> check_failed st \<and> \<not> undone (w_tasks rows w) \<and> cs \<noteq> [] \<and> cp_isSameWithDb p' \<longrightarrow>
       w_tasks rows w' = w_tasks rows w \<and>
       map (\<lambda>c. c\<lparr>fc_url := []\<rparr>) (w_components rows w') = map (\<lambda>c. c\<lparr>fc_url := []\<rparr>) (w_components rows w))"
  using platform.other_results_db [OF assms] by blast

theorem check_keeps_running_task_witness:
  "snd (CheckProcessor_SetCheckResult memory_device CheckStatus.CHECK_FAIL [sample_component]
     FirmwareCheckDataProcessor_new (World_new empty_device)) = World_new empty_device"
  using check_keeps_running_task [OF md.platform_axioms empty_device_typed surjective_pairing,
      of CheckStatus.CHECK_FAIL "[sample_component]" FirmwareCheckDataProcessor_new]
  by (simp add: check_failed_def)


definition sample_entry :: Json where
  "sample_entry = JvObject
     [(''descriptPackageId'', JvString ''id''), (''packageType'', JvInt 1), (''size'', JvInt 3),
      (''url'', JvString ''http://s/a.zip''), (''verifyInfo'', JvString ''abc''),
      (''versionCode'', JvString ''2''), (''versionName'', JvString ''v2'')]"

definition sample_answer :: "Json list \<Rightarrow> Json list \<Rightarrow> (string \<times> Json) list" where
  "sample_answer rs ds =
     [(''checkResults'', JvArray rs), (''descriptInfo'', JvArray ds), (''searchStatus'', JvInt 0)]"

lemma sample_entry_complete: "complete_entry sample_entry"
  by (simp add: complete_entry_def sample_entry_def jv_string_def jv_int_def)

lemma sample_entry_object: "\<exists>fs. sample_entry = JvObject fs"
  by (simp add: sample_entry_def)

lemma empty_entry_incomplete: "\<not> complete_entry (JvObject [])"
  by (simp add: complete_entry_def jv_int_def)


section \<open>A check from start to end\<close>

text \<open>What the thread and the flow do with one request: the answer is processed, then reported.\<close>

definition check_run :: "'x Platform \<Rightarrow> CheckNet \<Rightarrow> FirmwareManualCheckMode \<Rightarrow> 'x World \<Rightarrow> 'x World option" where
  "check_run E N m w =
     (case CheckExecutor_DoCheck E N w of
        None \<Rightarrow> None
      | Some (status, cs, w) \<Rightarrow>
          (let (m, w) = Check_SetCheckResult E status cs m w;
               (step, m, w) = Check_GetNextStep E FirmwareStep.CHECK_STEP m w
           in Some (if step = FirmwareStep.COMPLETE then Check_HandleComplete E m w else w)))"

lemma ICheck_no_version:
  assumes "cn_cjson N (snd (cn_ssl_read N)) = Some (Some s)" and "s \<noteq> 0"
  shows "ICheck_DoAction E N w = Some (CheckStatus.CHECK_FAIL, [], w)"
  using assms by (auto simp: ICheck_DoAction_def ReadDataFromSSL_def ParseJsonFile_def Let_def split_beta)

text \<open>
  C37. A server that answers that there is no new version (\<open>searchStatus\<close> 1, or any other status
  but 0) is treated as a failed request: the stored task and components stay, no cancel event
  is sent, the check is no longer marked as running, and the client that asked gets exactly
  one answer, with the error number of success and no new version.
\<close>

theorem no_version_answer_is_failure:
  assumes "cn_cjson N (snd (cn_ssl_read N)) = Some (Some s)" and "s \<noteq> 0"
    and "UpdateServiceUtil_GetUpgradeCallback (Cache_GetUpgradeInfo BusinessSubType.FIRMWARE (w_cache w)) w = Some cb"
  shows "check_run E N FirmwareManualCheckMode_new w =
    Some (w\<lparr>w_status := (w_status w)\<lparr>sc_isChecking := False\<rparr>,
            w_sent := w_sent w @ [OnCheckVersionDone cb BusinessError_default CheckResult_default]\<rparr>)"
proof -
  have cb: "UpdateServiceUtil_GetUpgradeCallback i (w\<lparr>w_status := st\<rparr>) = UpdateServiceUtil_GetUpgradeCallback i w" for i st
    by (simp add: UpdateServiceUtil_GetUpgradeCallback_def UpdateService_GetUpgradeCallback_def)
  show ?thesis
    using assms(3)
    by (simp add: check_run_def CheckExecutor_DoCheck_def ICheck_no_version [OF assms(1,2)]
        FirmwareStatusCache_SetIsChecking_def StatusCache_SetIsChecking_def Check_SetCheckResult_def
        CheckProcessor_SetCheckResult_def HandleCheckResult_def IsCheckFailed_def Check_GetNextStep_def
        Check_GetStepAfterCheck_def Check_HandleComplete_def BuildCheckResult_def SearchCallback_def
        FirmwareManualCheckMode_new_def FirmwareCheckDataProcessor_new_def Let_def cb)
qed

definition sample_net :: "string \<Rightarrow> int32_t \<Rightarrow> CheckNet" where
  "sample_net answer searchStatus =
     \<lparr>cn_socket = 3, cn_inet_pton = \<lambda>_. 1, cn_connect = 0, cn_ssl_ctx = True, cn_ssl_new = True,
      cn_ssl_connect = 1, cn_ssl_read = (of_nat (length answer), answer), cn_cjson = \<lambda>_. Some (Some searchStatus),
      cn_json = \<lambda>_. None, cn_junk = 0\<rparr>"

definition sample_client :: UpgradeInfo where
  "sample_client = UpgradeInfo ''app'' (BusinessType ''public'' BusinessSubType.FIRMWARE) [] []"

theorem no_version_answer_is_failure_witness:
  "let w = RegisterUpdateCallback sample_client (Some 5) ((World_new empty_device)\<lparr>w_started := True\<rparr>)
   in map_option w_sent (check_run memory_device (sample_net ''x'' 1) FirmwareManualCheckMode_new w) =
        Some [OnCheckVersionDone 5 BusinessError_default CheckResult_default]"
proof -
  let ?w = "RegisterUpdateCallback sample_client (Some 5) ((World_new empty_device)\<lparr>w_started := True\<rparr>)"
  have "UpdateServiceUtil_GetUpgradeCallback (Cache_GetUpgradeInfo BusinessSubType.FIRMWARE (w_cache ?w)) ?w = Some 5"
    and sent: "w_sent ?w = []"
    by (simp_all add: RegisterUpdateCallback_def UnregisterUpdateCallback_def World_new_def sample_client_def
        IsLocal_def LOCAL_UPGRADE_INFO_def Cache_SetUpgradeInfo_def Cache_GetUpgradeInfo_def IsTypelegal_def
        IsParamType_def SetRemoteIdle_def UpdateServiceUtil_GetUpgradeCallback_def
        UpdateService_GetUpgradeCallback_def Let_def um.irrefl)
  from no_version_answer_is_failure [OF _ _ this(1), of "sample_net ''x'' 1" 1 memory_device] sent
  show ?thesis by (simp add: sample_net_def)
qed

end
