(* ===== verification/Firmware_Download.thy ===== *)
theory Firmware_Download
  imports Firmware_Check "HOL-Library.Signed_Division"
begin

text \<open>
  The download of the packages: the thread that runs a transfer (\<open>progress_thread.cpp\<close>), the
  executor that starts it and records its progress (\<open>firmware_download_executor.cpp\<close>), the data
  processor and the download mode. Callbacks are function arguments, as they are in the code:
  \<open>cb\<close> takes what the code hands to the callback and the state behind it. A result \<open>None\<close> is an
  uncaught exception or the use of an object that is already deleted. The transfer library is a
  parameter: what one transfer does is a record of its results.
\<close>

type_synonym ('f, 'x) on_progress = "Progress \<Rightarrow> 'f \<Rightarrow> 'x World \<Rightarrow> ('f \<times> 'x World) option"

section \<open>DownloadThread\<close>

definition DOWNLOAD_FINISH_PERCENT :: uint32_t where
  "DOWNLOAD_FINISH_PERCENT = 100"

definition DOWNLOAD_PERIOD_PERCENT :: uint32_t where
  "DOWNLOAD_PERIOD_PERCENT = 1"

record DownloadThread =
  dt_downloadProgress :: Progress
  dt_serverUrl :: string
  dt_downloadFileName :: string
  dt_exitDownload :: bool

definition DownloadThread_new :: DownloadThread where
  "DownloadThread_new =
     \<lparr>dt_downloadProgress = Progress_default, dt_serverUrl = [], dt_downloadFileName = [], dt_exitDownload = False\<rparr>"

definition StartDownload :: "string \<Rightarrow> string \<Rightarrow> DownloadThread \<Rightarrow> DownloadThread" where
  "StartDownload fileName url t =
     t\<lparr>dt_downloadFileName := fileName, dt_serverUrl := url, dt_exitDownload := False\<rparr>"

definition StopDownload :: "DownloadThread \<Rightarrow> DownloadThread" where
  "StopDownload t = t\<lparr>dt_exitDownload := True\<rparr>"

definition find_dot :: "string \<Rightarrow> bool" where
  "find_dot fileName \<longleftrightarrow> find_str fileName ''/.'' 0 \<noteq> None \<or> find_str fileName ''./'' 0 \<noteq> None"

definition GetLocalFileLength :: "'x Platform \<Rightarrow> string \<Rightarrow> 'x World \<Rightarrow> size_t" where
  "GetLocalFileLength E fileName w =
     (if find_dot fileName then 0
      else case pl_file_size E fileName (w_ext w) of None \<Rightarrow> 0 | Some n \<Rightarrow> n)"

text \<open>
  \<open>cb\<close> is \<open>callback_\<close> applied to the address and the file name of the thread. The first component
  of the result is the return value.
\<close>

definition DealAbnormal ::
  "('f, 'x) on_progress \<Rightarrow> uint32_t \<Rightarrow> DownloadThread \<Rightarrow> 'f \<Rightarrow> 'x World \<Rightarrow>
   (bool \<times> DownloadThread \<times> 'f \<times> 'x World) option" where
  "DealAbnormal cb percent t f w =
     (if w_isNoNet w \<or> w_isCancel w then
        (let p = dt_downloadProgress t;
             p = p\<lparr>pr_endReason :=
                   (if w_isNoNet w then to_string (DownloadEndReason_code DownloadEndReason.NET_NOT_AVAILIABLE)
                    else to_string (DownloadEndReason_code DownloadEndReason.CANCEL)),
                  pr_percent := percent,
                  pr_status := (if w_isNoNet w then UpgradeStatus.DOWNLOAD_FAIL else UpgradeStatus.DOWNLOAD_CANCEL)\<rparr>;
             t = t\<lparr>dt_downloadProgress := p\<rparr>;
             w = (if w_isCancel w then w\<lparr>w_isCancel := False\<rparr> else w)
         in case cb p f w of
              None \<Rightarrow> None
            | Some (f, w) \<Rightarrow> Some (True, t, f, w))
      else Some (False, t, f, w))"

definition Thread_DownloadCallback ::
  "'x Platform \<Rightarrow> ('f, 'x) on_progress \<Rightarrow> uint32_t \<Rightarrow> UpgradeStatus \<Rightarrow> string \<Rightarrow> DownloadThread \<Rightarrow> 'f \<Rightarrow> 'x World \<Rightarrow>
   (int32_t \<times> DownloadThread \<times> 'f \<times> 'x World) option" where
  "Thread_DownloadCallback E cb percent status error t f w =
     (if dt_exitDownload t then Some (- 1, t, f, w)
      else case DealAbnormal cb percent t f w of
        None \<Rightarrow> None
      | Some (abnormal, t, f, w) \<Rightarrow>
          (if abnormal then Some (- 1, t, f, w)
           else let p = dt_downloadProgress t
           in if pr_status p = status \<and> pr_percent p = percent then Some (0, t, f, w)
           else
             (let skip = (status \<noteq> UpgradeStatus.DOWNLOAD_FAIL \<and> percent \<noteq> DOWNLOAD_FINISH_PERCENT \<and>
                          percent < pr_percent p + DOWNLOAD_PERIOD_PERCENT);
                  w = (if status = UpgradeStatus.DOWNLOAD_FAIL \<and> IsFileExist E (dt_downloadFileName t) (w_ext w)
                       then w\<lparr>w_ext := pl_remove E (dt_downloadFileName t) (w_ext w)\<rparr> else w)
              in if skip then Some (0, t, f, w)
                 else if percent = DOWNLOAD_FINISH_PERCENT \<and> status = UpgradeStatus.DOWNLOADING then Some (0, t, f, w)
                 else
                   (let p = p\<lparr>pr_endReason := error, pr_percent := percent, pr_status := status\<rparr>;
                        t = t\<lparr>dt_downloadProgress := p\<rparr>
                    in case cb p f w of
                         None \<Rightarrow> None
                       | Some (f, w) \<Rightarrow> Some (0, t, f, w)))))"

text \<open>
  One transfer of the library: whether the file can be opened and a handle made, the calls of
  its progress function in order, and whether it ends well when it is not aborted. A progress
  callback that does not return 0 aborts it. The flags of \<open>ProgressThread\<close> are set by other
  threads while the transfer runs: each call comes with the percentage computed, the network
  flag at that moment and whether the user has cancelled since the call before.
\<close>

record TransferCall =
  tc_percent :: uint32_t
  tc_isNoNet :: bool
  tc_cancelled :: bool

record Transfer =
  tr_fopen :: bool
  tr_init :: bool
  tr_calls :: "TransferCall list"
  tr_ok :: bool

definition set_flags :: "TransferCall \<Rightarrow> 'x World \<Rightarrow> 'x World" where
  "set_flags c w = w\<lparr>w_isNoNet := tc_isNoNet c, w_isCancel := w_isCancel w \<or> tc_cancelled c\<rparr>"

datatype CurlCode = CURLE_OK | CURLE_ABORTED_BY_CALLBACK | CURLE_OTHER

fun curl_easy_perform ::
  "'x Platform \<Rightarrow> ('f, 'x) on_progress \<Rightarrow> bool \<Rightarrow> TransferCall list \<Rightarrow> DownloadThread \<Rightarrow> 'f \<Rightarrow> 'x World \<Rightarrow>
   (CurlCode \<times> DownloadThread \<times> 'f \<times> 'x World) option" where
  "curl_easy_perform E cb ok [] t f w = Some (if ok then CURLE_OK else CURLE_OTHER, t, f, w)"
| "curl_easy_perform E cb ok (c # cs) t f w =
     (case Thread_DownloadCallback E cb (tc_percent c) UpgradeStatus.DOWNLOADING [] t f (set_flags c w) of
        None \<Rightarrow> None
      | Some (ret, t, f, w) \<Rightarrow>
          if ret \<noteq> 0 then Some (CURLE_ABORTED_BY_CALLBACK, t, f, w)
          else curl_easy_perform E cb ok cs t f w)"

definition thread_report ::
  "'x Platform \<Rightarrow> ('f, 'x) on_progress \<Rightarrow> uint32_t \<Rightarrow> UpgradeStatus \<Rightarrow> string \<Rightarrow> DownloadThread \<Rightarrow> 'f \<Rightarrow> 'x World \<Rightarrow>
   (DownloadThread \<times> 'f \<times> 'x World) option" where
  "thread_report E cb percent status error t f w = map_option snd (Thread_DownloadCallback E cb percent status error t f w)"

text \<open>The return value tells the thread whether to wait for another start; it is dropped here.\<close>

definition ProcessThreadExecute ::
  "'x Platform \<Rightarrow> ('f, 'x) on_progress \<Rightarrow> Transfer \<Rightarrow> DownloadThread \<Rightarrow> 'f \<Rightarrow> 'x World \<Rightarrow>
   (DownloadThread \<times> 'f \<times> 'x World) option" where
  "ProcessThreadExecute E cb T t f w =
     (if find_dot (dt_downloadFileName t)
      then thread_report E cb 0 UpgradeStatus.DOWNLOAD_FAIL ''Failed to check file'' t f w
      else if \<not> tr_fopen T
      then thread_report E cb 0 UpgradeStatus.DOWNLOAD_FAIL ''Failed ot open file'' t f w
      else if \<not> tr_init T
      then thread_report E cb 0 UpgradeStatus.DOWNLOAD_FAIL ''Failed to init curl'' t f w
      else case curl_easy_perform E cb (tr_ok T) (tr_calls T) t f w of
             None \<Rightarrow> None
           | Some (res, t, f, w) \<Rightarrow>
               (if res \<noteq> CURLE_OK then
                  (if res \<noteq> CURLE_ABORTED_BY_CALLBACK
                   then thread_report E cb 0 UpgradeStatus.DOWNLOAD_FAIL
                          (to_string (DownloadEndReason_code DownloadEndReason.CURL_ERROR)) t f w
                   else Some (t, f, w))
                else thread_report E cb DOWNLOAD_FINISH_PERCENT UpgradeStatus.DOWNLOAD_SUCCESS [] t f w))"

section \<open>FirmwareDownloadExecutor\<close>

record FirmwareDownloadExecutor =
  de_components :: "FirmwareComponent list"
  de_tasks :: FirmwareTask
  de_upgradeStatus :: UpgradeStatus

definition VerifyDownloadPkg :: "'x Platform \<Rightarrow> string \<Rightarrow> FirmwareDownloadExecutor \<Rightarrow> 'x World \<Rightarrow> bool" where
  "VerifyDownloadPkg E pkgName e w =
     (let verifyInfo = (case find (\<lambda>c. fc_spath c = pkgName) (de_components e) of
                          None \<Rightarrow> [] | Some c \<Rightarrow> fc_verifyInfo c)
      in if verifyInfo \<noteq> [] \<and> \<not> CheckFileSha256String E pkgName verifyInfo (w_ext w) then False else True)"

definition Executor_DownloadCallback ::
  "'x Platform \<Rightarrow> ('f, 'x) on_progress \<Rightarrow> string \<Rightarrow> string \<Rightarrow> Progress \<Rightarrow> FirmwareDownloadExecutor \<Rightarrow> 'f \<Rightarrow> 'x World \<Rightarrow>
   (FirmwareDownloadExecutor \<times> 'f \<times> 'x World) option" where
  "Executor_DownloadCallback E progressCallback serverUrl packageName progress e f w =
     (let e = e\<lparr>de_upgradeStatus := UpgradeStatus.DOWNLOADING\<rparr>;
          e = (if pr_status progress = UpgradeStatus.DOWNLOAD_FAIL \<or> pr_status progress = UpgradeStatus.DOWNLOAD_SUCCESS
               then e\<lparr>de_upgradeStatus := pr_status progress\<rparr> else e);
          downloadProgress = progress;
          (downloadProgress, w) =
            (if de_upgradeStatus e = UpgradeStatus.DOWNLOAD_SUCCESS \<and> \<not> VerifyDownloadPkg E packageName e w
             then (downloadProgress\<lparr>pr_status := UpgradeStatus.DOWNLOAD_FAIL,
                                    pr_endReason := to_string DUPDATE_ERR_VERIFY_PACKAGE_FAIL\<rparr>,
                   w\<lparr>w_ext := pl_remove E packageName (w_ext w)\<rparr>)
             else (downloadProgress, w));
          w = UpdateComponentProgress E serverUrl (pr_status progress) (pr_percent progress) w;
          w = UpdateTaskProgress E (ft_taskId (de_tasks e)) (pr_status downloadProgress) (pr_percent downloadProgress) w
      in case progressCallback downloadProgress f w of
           None \<Rightarrow> None
         | Some (f, w) \<Rightarrow> Some (e, f, w))"

text \<open>
  The loop over the packages. It creates the package directory when needed, reports a package
  that is already there, and starts a thread for each; \<open>started\<close> collects the threads in order,
  \<open>create\<close> says for each whether its thread could be created.
\<close>

fun perform_packages ::
  "'x Platform \<Rightarrow> ('f, 'x) on_progress \<Rightarrow> (string \<Rightarrow> bool) \<Rightarrow> FirmwareComponent list \<Rightarrow> DownloadThread list \<Rightarrow>
   FirmwareDownloadExecutor \<Rightarrow> 'f \<Rightarrow> 'x World \<Rightarrow>
   (DownloadThread list \<times> FirmwareDownloadExecutor \<times> 'f \<times> 'x World) option" where
  "perform_packages E cb create [] started e f w = Some (started, e, f, w)"
| "perform_packages E cb create (c # cs) started e f w =
     (let w = (if \<not> IsFileExist E DUPDATE_ENGINE_PACKAGE_ROOT_PATH (w_ext w)
               then do_ext (pl_create_dir E DUPDATE_ENGINE_PACKAGE_ROOT_PATH 511) w else w);
          localFileLength = GetLocalFileLength E (fc_spath c) w
      in case (if localFileLength = fc_size c \<and> fc_size c \<noteq> 0
               then Executor_DownloadCallback E cb (fc_url c) (fc_spath c)
                      \<lparr>pr_percent = DOWNLOAD_FINISH_PERCENT, pr_status = UpgradeStatus.DOWNLOAD_SUCCESS, pr_endReason = []\<rparr> e f w
               else Some (e, f, w)) of
           None \<Rightarrow> None
         | Some (e, f, w) \<Rightarrow>
             (let e = e\<lparr>de_upgradeStatus := UpgradeStatus.DOWNLOADING\<rparr>
              in if create (fc_spath c)
                 then perform_packages E cb create cs
                        (started @ [StartDownload (fc_spath c) (fc_url c) DownloadThread_new]) e f w
                 else (case cb (Progress_default\<lparr>pr_status := UpgradeStatus.DOWNLOAD_FAIL,
                              pr_endReason := to_string (DownloadEndReason_code DownloadEndReason.FAIL)\<rparr>) f w of
                         None \<Rightarrow> None
                       | Some (f, w) \<Rightarrow> perform_packages E cb create cs started e f w)))"

definition PerformDownload ::
  "'x Platform \<Rightarrow> ('f, 'x) on_progress \<Rightarrow> (string \<Rightarrow> bool) \<Rightarrow> FirmwareDownloadExecutor \<Rightarrow> 'f \<Rightarrow> 'x World \<Rightarrow>
   (DownloadThread list \<times> FirmwareDownloadExecutor \<times> 'f \<times> 'x World) option" where
  "PerformDownload E cb create e f w =
     (case perform_packages E cb create (de_components e) [] e f w of
        None \<Rightarrow> None
      | Some (started, e, f, w) \<Rightarrow>
          Some (started, e, f,
            NotifyEvent (ft_taskId (de_tasks e)) EVENT_DOWNLOAD_START UpgradeStatus.DOWNLOADING ErrorMessage_default [] w))"

definition DownloadExecutor_DoDownload ::
  "'x Platform \<Rightarrow> ('f, 'x) on_progress \<Rightarrow> (string \<Rightarrow> bool) \<Rightarrow> 'f \<Rightarrow> 'x World \<Rightarrow>
   (DownloadThread list \<times> FirmwareDownloadExecutor \<times> 'f \<times> 'x World) option" where
  "DownloadExecutor_DoDownload E cb create f w =
     (let e = \<lparr>de_components = QueryAllComponents E w, de_tasks = FirmwareTask_default,
               de_upgradeStatus = UpgradeStatus.INIT\<rparr>
      in if de_components e = [] then
           (case cb (Progress_default\<lparr>pr_status := UpgradeStatus.DOWNLOAD_FAIL, pr_endReason := ''no task''\<rparr>) f w of
              None \<Rightarrow> None
            | Some (f, w) \<Rightarrow> Some ([], e, f, w))
         else
           (let e = e\<lparr>de_tasks := QueryTask E (de_tasks e) w\<rparr>
            in if ft_downloadTaskId (de_tasks e) = [] then PerformDownload E cb create e f w
               else (case cb (Progress_default\<lparr>pr_status := UpgradeStatus.DOWNLOAD_FAIL, pr_endReason := ''not support''\<rparr>) f w of
                       None \<Rightarrow> None
                     | Some (f, w) \<Rightarrow> Some ([], e, f, w))))"

section \<open>FirmwareDownloadDataProcessor\<close>

record FirmwareDownloadDataProcessor =
  dd_downloadProgress :: Progress
  dd_tasks :: FirmwareTask

definition FirmwareDownloadDataProcessor_new :: FirmwareDownloadDataProcessor where
  "FirmwareDownloadDataProcessor_new = \<lparr>dd_downloadProgress = Progress_default, dd_tasks = FirmwareTask_default\<rparr>"

definition IsDownloadSuccess :: "'x Platform \<Rightarrow> 'x World \<Rightarrow> bool" where
  "IsDownloadSuccess E w =
     (let task = QueryTask E FirmwareTask_default w
      in if \<not> ft_isExistTask task then False else ft_status task = UpgradeStatus.DOWNLOAD_SUCCESS)"

text \<open>Division of signed integers rounds towards zero.\<close>

definition remaining_size :: "FirmwareComponent \<Rightarrow> int64_t" where
  "remaining_size c =
     of_int (sint (int64_of_int32 (ONE_HUNDRED - fc_progress c) * fc_size c) sdiv sint (int64_of_int32 ONE_HUNDRED))"

definition Download_IsSpaceEnough :: "'x Platform \<Rightarrow> int64_t \<Rightarrow> 'x World \<Rightarrow> bool \<times> int64_t" where
  "Download_IsSpaceEnough E requireTotalSize w =
     (let requireTotalSize = foldl (\<lambda>r c. r + remaining_size c) requireTotalSize (QueryAllComponents E w)
      in (FirmwareFileUtils_IsSpaceEnough E requireTotalSize w, requireTotalSize))"

definition DownloadProcessor_GetTask ::
  "'x Platform \<Rightarrow> FirmwareDownloadDataProcessor \<Rightarrow> 'x World \<Rightarrow> FirmwareDownloadDataProcessor" where
  "DownloadProcessor_GetTask E d w =
     (if \<not> ft_isExistTask (dd_tasks d) then d\<lparr>dd_tasks := QueryTask E (dd_tasks d) w\<rparr> else d)"

definition DownloadProcessor_SetDownloadProgress ::
  "'x Platform \<Rightarrow> Progress \<Rightarrow> FirmwareDownloadDataProcessor \<Rightarrow> 'x World \<Rightarrow> FirmwareDownloadDataProcessor \<times> 'x World" where
  "DownloadProcessor_SetDownloadProgress E progress d w =
     (let d = d\<lparr>dd_downloadProgress := progress\<rparr>;
          d = DownloadProcessor_GetTask E d w
      in (d, ProgressCallback (ft_taskId (dd_tasks d)) progress w))"

section \<open>FirmwareDownloadMode\<close>

record FirmwareDownloadMode =
  dm_processor :: FirmwareDownloadDataProcessor
  dm_downloadOptions :: DownloadOptions
  dm_businessError :: BusinessError
  dm_tasks :: FirmwareTask

definition FirmwareDownloadMode_new :: "DownloadOptions \<Rightarrow> BusinessError \<Rightarrow> FirmwareDownloadMode" where
  "FirmwareDownloadMode_new options businessError =
     \<lparr>dm_processor = FirmwareDownloadDataProcessor_new, dm_downloadOptions = options,
      dm_businessError = businessError, dm_tasks = FirmwareTask_default\<rparr>"

definition DownloadMode_GetTask :: "'x Platform \<Rightarrow> FirmwareDownloadMode \<Rightarrow> 'x World \<Rightarrow> FirmwareDownloadMode" where
  "DownloadMode_GetTask E m w =
     (if \<not> ft_isExistTask (dm_tasks m) then m\<lparr>dm_tasks := QueryTask E (dm_tasks m) w\<rparr> else m)"

definition Download_GetStepAfterInit ::
  "'x Platform \<Rightarrow> FirmwareDownloadMode \<Rightarrow> 'x World \<Rightarrow> FirmwareStep \<times> FirmwareDownloadMode" where
  "Download_GetStepAfterInit E m w =
     (let m = DownloadMode_GetTask E m w
      in if \<not> ft_isExistTask (dm_tasks m) then
           (FirmwareStep.COMPLETE, m\<lparr>dm_businessError := Build CallResult.FAIL ''no task!'' (dm_businessError m)\<rparr>)
      else let taskStatus = ft_status (dm_tasks m)
      in if taskStatus \<noteq> UpgradeStatus.CHECK_VERSION_SUCCESS \<and> taskStatus \<noteq> UpgradeStatus.DOWNLOAD_FAIL \<and>
            taskStatus \<noteq> UpgradeStatus.DOWNLOAD_PAUSE then
           (FirmwareStep.COMPLETE, m\<lparr>dm_businessError := Build CallResult.FAIL ''status error!'' (dm_businessError m)\<rparr>)
      else if taskStatus = UpgradeStatus.DOWNLOADING then
           (FirmwareStep.COMPLETE, m\<lparr>dm_businessError :=
              AddErrorMessage DUPDATE_ERR_SYSTEM_BUSY_ON_DOWNLOAD ''busy on Downloading!''
                (Build CallResult.FAIL ''system busy!'' (dm_businessError m))\<rparr>)
      else if \<not> IsNetAvailable NetType.CELLULAR_AND_WIFI (w_net w) then
           (FirmwareStep.COMPLETE, m\<lparr>dm_businessError :=
              AddErrorMessage DUPDATE_ERR_DLOAD_REQUEST_FAIL ''download no network!''
                (Build CallResult.FAIL ''download no network!'' (dm_businessError m))\<rparr>)
      else let (isSpaceEnough, requireTotalSize) = Download_IsSpaceEnough E 0 w
      in if \<not> isSpaceEnough then
           (FirmwareStep.COMPLETE, m\<lparr>dm_businessError :=
              AddErrorMessage DUPDATE_ERR_NO_ENOUGH_MEMORY (to_string64 requireTotalSize)
                (Build CallResult.FAIL ''download condition fail!'' (dm_businessError m))\<rparr>)
      else (FirmwareStep.DOWNLOAD_STEP, m))"

definition DownloadPauseProcess :: "FirmwareTask \<Rightarrow> ErrorMessage \<Rightarrow> 'x World \<Rightarrow> 'x World" where
  "DownloadPauseProcess task errorMessage w =
     NotifyEvent (ft_taskId task) EVENT_DOWNLOAD_PAUSE UpgradeStatus.DOWNLOAD_PAUSE errorMessage [] w"

definition DownloadFailProcess :: "'x Platform \<Rightarrow> FirmwareTask \<Rightarrow> ErrorMessage \<Rightarrow> 'x World \<Rightarrow> 'x World" where
  "DownloadFailProcess E task errorMessage w =
     ClearFirmwareInfo E
       (NotifyEvent (ft_taskId task) EVENT_DOWNLOAD_FAIL UpgradeStatus.DOWNLOAD_FAIL errorMessage [] w)"

definition DownloadCancelProcess :: "'x Platform \<Rightarrow> FirmwareTask \<Rightarrow> ErrorMessage \<Rightarrow> 'x World \<Rightarrow> 'x World" where
  "DownloadCancelProcess E task errorMessage w =
     (let w = NotifyEvent (ft_taskId task) EVENT_DOWNLOAD_CANCEL UpgradeStatus.DOWNLOAD_CANCEL errorMessage [] w;
          w = UpdateTaskProgress E (ft_taskId task) UpgradeStatus.CHECK_VERSION_SUCCESS 0 w;
          w = foldl (\<lambda>w c. UpdateComponentProgress E (fc_url c) UpgradeStatus.CHECK_VERSION_SUCCESS 0 w) w
                (QueryAllComponents E w);
          w = do_ext (Task_UpdateDownloadTaskIdByTaskId (pl_rdb E) (ft_taskId task) []) w
      in DeleteDownloadFiles E w)"

definition DownloadSucessProcess :: "FirmwareTask \<Rightarrow> 'x World \<Rightarrow> 'x World" where
  "DownloadSucessProcess task w =
     NotifyEvent (ft_taskId task) EVENT_UPGRADE_WAIT UpgradeStatus.DOWNLOAD_SUCCESS ErrorMessage_default [] w"

text \<open>\<open>stoi\<close> throws on an end reason that does not start with a number: \<open>None\<close>.\<close>

definition Download_GetStepAfterDownload ::
  "'x Platform \<Rightarrow> FirmwareDownloadMode \<Rightarrow> 'x World \<Rightarrow> (FirmwareStep \<times> 'x World) option" where
  "Download_GetStepAfterDownload E m w =
     (let task = QueryTask E FirmwareTask_default w
      in if \<not> ft_isExistTask task then Some (FirmwareStep.COMPLETE, w)
      else let endReason = pr_endReason (dd_downloadProgress (dm_processor m))
      in case (if endReason \<noteq> [] then map_option (\<lambda>i. ErrorMessage_default\<lparr>em_errorCode := i\<rparr>) (stoi endReason)
               else Some ErrorMessage_default) of
           None \<Rightarrow> None
         | Some errorMessage \<Rightarrow>
             Some (FirmwareStep.COMPLETE,
               (case ft_status task of
                  UpgradeStatus.DOWNLOAD_PAUSE \<Rightarrow> DownloadPauseProcess task errorMessage w
                | UpgradeStatus.DOWNLOAD_FAIL \<Rightarrow> DownloadFailProcess E task errorMessage w
                | UpgradeStatus.DOWNLOAD_CANCEL \<Rightarrow> DownloadCancelProcess E task errorMessage w
                | UpgradeStatus.DOWNLOAD_SUCCESS \<Rightarrow> DownloadSucessProcess task w
                | _ \<Rightarrow> w)))"

definition Download_GetNextStep ::
  "'x Platform \<Rightarrow> FirmwareStep \<Rightarrow> FirmwareDownloadMode \<Rightarrow> 'x World \<Rightarrow>
   (FirmwareStep \<times> FirmwareDownloadMode \<times> 'x World) option" where
  "Download_GetNextStep E step m w =
     (case step of
        FirmwareStep.INIT \<Rightarrow> (let (s, m) = Download_GetStepAfterInit E m w in Some (s, m, w))
      | FirmwareStep.DOWNLOAD_STEP \<Rightarrow> map_option (\<lambda>(s, w). (s, m, w)) (Download_GetStepAfterDownload E m w)
      | _ \<Rightarrow> Some (FirmwareStep.COMPLETE, m, w))"

definition Download_SetDownloadProgress ::
  "'x Platform \<Rightarrow> Progress \<Rightarrow> FirmwareDownloadMode \<Rightarrow> 'x World \<Rightarrow> FirmwareDownloadMode \<times> 'x World" where
  "Download_SetDownloadProgress E progress m w =
     (let (d, w) = DownloadProcessor_SetDownloadProgress E progress (dm_processor m) w
      in (m\<lparr>dm_processor := d\<rparr>, w))"

section \<open>What a transfer reports\<close>

text \<open>A callback that only records, and the percentages above everything reported before.\<close>

definition record_progress :: "Progress \<Rightarrow> Progress list \<Rightarrow> 'x World \<Rightarrow> (Progress list \<times> 'x World) option" where
  "record_progress p ps w = Some (ps @ [p], w)"

fun rising :: "uint32_t \<Rightarrow> uint32_t list \<Rightarrow> uint32_t list" where
  "rising b [] = []"
| "rising b (p # ps) = (if b < p \<and> p \<noteq> DOWNLOAD_FINISH_PERCENT then p # rising p ps else rising b ps)"

definition downloading :: "uint32_t \<Rightarrow> Progress" where
  "downloading p = \<lparr>pr_percent = p, pr_status = UpgradeStatus.DOWNLOADING, pr_endReason = []\<rparr>"

lemma rising_sorted: "sorted_wrt (<) (b # rising b ps)"
  by (induction ps arbitrary: b) (fastforce intro: less_trans)+

lemma rising_below: "list_all (\<lambda>p. p \<le> 100) ps \<Longrightarrow> list_all (\<lambda>p. p < 100) (rising b ps)"
  by (induction ps arbitrary: b) (auto simp: DOWNLOAD_FINISH_PERCENT_def)

lemma step_le: "(b :: uint32_t) \<le> 100 \<Longrightarrow> p < b + 1 \<longleftrightarrow> p \<le> b"
proof -
  assume "b \<le> 100"
  then have "unat (b + 1) = unat b + 1"
    by (simp add: unat_word_ariths word_le_nat_alt)
  then show ?thesis by (simp add: word_less_nat_alt word_le_nat_alt less_Suc_eq_le)
qed

text \<open>A call that comes with the network up and without a cancellation.\<close>

definition quiet_call :: "TransferCall \<Rightarrow> bool" where
  "quiet_call c \<longleftrightarrow> \<not> tc_isNoNet c \<and> \<not> tc_cancelled c"

lemma set_flags_quiet: "quiet_call c \<Longrightarrow> \<not> w_isNoNet w \<Longrightarrow> set_flags c w = w"
  by (cases w) (simp add: quiet_call_def set_flags_def)

lemma report_recorded:
  assumes "\<not> w_isNoNet w" and "\<not> w_isCancel w" and "\<not> dt_exitDownload t"
    and "pr_percent (dt_downloadProgress t) \<le> 100" and "p \<le> 100"
    and "pr_status (dt_downloadProgress t) \<in> {UpgradeStatus.INIT, UpgradeStatus.DOWNLOADING}"
  shows "Thread_DownloadCallback E record_progress p UpgradeStatus.DOWNLOADING [] t ps w =
    (if pr_percent (dt_downloadProgress t) < p \<and> p \<noteq> DOWNLOAD_FINISH_PERCENT
     then Some (0, t\<lparr>dt_downloadProgress := downloading p\<rparr>, ps @ [downloading p], w) else Some (0, t, ps, w))"
  using assms step_le [OF assms(4), of p]
  by (cases "dt_downloadProgress t")
    (auto simp: Thread_DownloadCallback_def DealAbnormal_def record_progress_def downloading_def
      DOWNLOAD_PERIOD_PERCENT_def Let_def)

lemma perform_recorded:
  assumes "\<not> w_isNoNet w" and "\<not> w_isCancel w" and "\<not> dt_exitDownload t"
    and "pr_percent (dt_downloadProgress t) \<le> 100" and "list_all (\<lambda>c. quiet_call c \<and> tc_percent c \<le> 100) cs"
    and "pr_status (dt_downloadProgress t) \<in> {UpgradeStatus.INIT, UpgradeStatus.DOWNLOADING}"
  shows "\<exists>t'. curl_easy_perform E record_progress ok cs t ps w =
      Some (if ok then CURLE_OK else CURLE_OTHER, t',
            ps @ map downloading (rising (pr_percent (dt_downloadProgress t)) (map tc_percent cs)), w) \<and>
    \<not> dt_exitDownload t' \<and> pr_status (dt_downloadProgress t') \<in> {UpgradeStatus.INIT, UpgradeStatus.DOWNLOADING}"
  using assms
proof (induction cs arbitrary: t ps)
  case Nil
  then show ?case by simp
next
  case (Cons c cs)
  let ?b = "pr_percent (dt_downloadProgress t)" and ?q = "tc_percent c"
  have "set_flags c w = w" using Cons.prems by (intro set_flags_quiet) simp_all
  note step = report_recorded [OF Cons.prems(1-4) _ Cons.prems(6), of ?q E ps] this
  show ?case
  proof (cases "?b < ?q \<and> ?q \<noteq> DOWNLOAD_FINISH_PERCENT")
    case True
    then show ?thesis
      using step Cons.prems Cons.IH [of "t\<lparr>dt_downloadProgress := downloading ?q\<rparr>" "ps @ [downloading ?q]"]
      by (simp add: downloading_def)
  next
    case False
    then show ?thesis using step Cons.prems Cons.IH [of t ps] by auto
  qed
qed

text \<open>
  C31. What a transfer tells the executor. With the network up and no cancellation, a transfer
  whose library reports percentages up to 100 ends, after progress reports whose percentages
  rise strictly and stay below 100, in exactly one final report: complete at 100 percent, or
  failed with the reason of a transfer error. So there are at most 100 reports, however often
  the library calls back.
\<close>

theorem transfer_reports:
  assumes "tr_fopen T" and "tr_init T" and "list_all (\<lambda>c. quiet_call c \<and> tc_percent c \<le> 100) (tr_calls T)"
    and "\<not> find_dot file" and "\<not> w_isNoNet w" and "\<not> w_isCancel w"
  shows "\<exists>t' w' qs. ProcessThreadExecute E record_progress T (StartDownload file url DownloadThread_new) [] w =
      Some (t', map downloading qs @
        [if tr_ok T then \<lparr>pr_percent = 100, pr_status = UpgradeStatus.DOWNLOAD_SUCCESS, pr_endReason = []\<rparr>
         else \<lparr>pr_percent = 0, pr_status = UpgradeStatus.DOWNLOAD_FAIL, pr_endReason = ''13''\<rparr>], w') \<and>
    sorted_wrt (<) qs \<and> list_all (\<lambda>p. 0 < p \<and> p < 100) qs"
proof -
  let ?t = "StartDownload file url DownloadThread_new" and ?qs = "rising 0 (map tc_percent (tr_calls T))"
  have t: "\<not> dt_exitDownload ?t" "pr_percent (dt_downloadProgress ?t) = 0"
    "pr_status (dt_downloadProgress ?t) = UpgradeStatus.INIT" "dt_downloadFileName ?t = file"
    by (simp_all add: StartDownload_def DownloadThread_new_def Progress_default_def)
  obtain t' where p: "curl_easy_perform E record_progress (tr_ok T) (tr_calls T) ?t [] w =
      Some (if tr_ok T then CURLE_OK else CURLE_OTHER, t', map downloading ?qs, w)"
    and t': "\<not> dt_exitDownload t'"
    "pr_status (dt_downloadProgress t') \<in> {UpgradeStatus.INIT, UpgradeStatus.DOWNLOADING}"
    using perform_recorded [of w ?t "tr_calls T" E "tr_ok T" "[]"] assms t by auto
  have reason: "to_string 13 = ''13''" by code_simp
  have end_report: "\<exists>t2 w2. ProcessThreadExecute E record_progress T ?t [] w =
      Some (t2, map downloading ?qs @
        [if tr_ok T then \<lparr>pr_percent = 100, pr_status = UpgradeStatus.DOWNLOAD_SUCCESS, pr_endReason = []\<rparr>
         else \<lparr>pr_percent = 0, pr_status = UpgradeStatus.DOWNLOAD_FAIL, pr_endReason = ''13''\<rparr>], w2)"
    using assms t t' p
    by (cases "dt_downloadProgress t'")
      (auto simp: ProcessThreadExecute_def thread_report_def Thread_DownloadCallback_def DealAbnormal_def
        record_progress_def reason DOWNLOAD_FINISH_PERCENT_def Let_def)
  have "sorted_wrt (<) ?qs \<and> list_all (\<lambda>p. 0 < p \<and> p < 100) ?qs"
    using rising_sorted [of 0 "map tc_percent (tr_calls T)"] rising_below [of "map tc_percent (tr_calls T)" 0] assms(3)
    by (auto simp: list_all_iff)
  then show ?thesis using end_report by blast
qed

definition sample_transfer :: "uint32_t list \<Rightarrow> bool \<Rightarrow> Transfer" where
  "sample_transfer qs ok = \<lparr>tr_fopen = True, tr_init = True,
     tr_calls = map (\<lambda>p. \<lparr>tc_percent = p, tc_isNoNet = False, tc_cancelled = False\<rparr>) qs, tr_ok = ok\<rparr>"

theorem transfer_reports_witness:
  "\<exists>t' w' qs. ProcessThreadExecute memory_device record_progress (sample_transfer [0, 40, 40, 35, 100] True)
      (StartDownload ''/p/a.zip'' ''u'' DownloadThread_new) [] (World_new empty_device) =
    Some (t', map downloading qs @
      [\<lparr>pr_percent = 100, pr_status = UpgradeStatus.DOWNLOAD_SUCCESS, pr_endReason = []\<rparr>], w')"
proof -
  have "\<not> find_dot ''/p/a.zip''" by code_simp
  then show ?thesis
    using transfer_reports [of "sample_transfer [0, 40, 40, 35, 100] True" "''/p/a.zip''" "World_new empty_device"
        memory_device "''u''"]
    by (auto simp: sample_transfer_def quiet_call_def World_new_def)
qed

section \<open>When a download may start\<close>

definition sane_size :: "FirmwareComponent \<Rightarrow> bool" where
  "sane_size c \<longleftrightarrow> 0 \<le> sint (fc_progress c) \<and> sint (fc_progress c) \<le> 100 \<and>
     0 \<le> sint (fc_size c) \<and> sint (fc_size c) < 2 ^ 50"

definition missing_bytes :: "FirmwareComponent \<Rightarrow> int" where
  "missing_bytes c = (100 - sint (fc_progress c)) * sint (fc_size c) div 100"

lemma sint_id64: "- (2 ^ 63) \<le> i \<Longrightarrow> i < 2 ^ 63 \<Longrightarrow> sint (of_int i :: 64 word) = i"
  by (simp add: signed_of_int signed_take_bit_int_eq_self)

lemma sint_id32: "- (2 ^ 31) \<le> i \<Longrightarrow> i < 2 ^ 31 \<Longrightarrow> sint (of_int i :: 32 word) = i"
  by (simp add: signed_of_int signed_take_bit_int_eq_self)

lemma uint_of_nonneg: "0 \<le> sint (x :: 64 word) \<Longrightarrow> uint x = sint x"
proof -
  assume nn: "0 \<le> sint x"
  have *: "uint (of_int i :: 64 word) = i" if "0 \<le> i" "i < 2 ^ 63" for i
    using that by (simp add: unsigned_of_int take_bit_int_eq_self)
  show ?thesis using * [OF nn] sint_lt [of x] by simp
qed

lemma sdiv_nonneg: "0 \<le> (n :: int) \<Longrightarrow> 0 \<le> d \<Longrightarrow> n sdiv d = n div d"
  by (cases "n = 0"; cases "d = 0") (simp_all add: signed_divide_int_def)

lemma remaining_size_sane:
  assumes "sane_size c"
  shows "remaining_size c = of_int (missing_bytes c) \<and> 0 \<le> missing_bytes c \<and> missing_bytes c < 2 ^ 50"
proof -
  let ?p = "sint (fc_progress c)" and ?s = "sint (fc_size c)"
  have b: "0 \<le> ?p" "?p \<le> 100" "0 \<le> ?s" "?s < 2 ^ 50" using assms by (simp_all add: sane_size_def)
  have "sint (of_int (100 - ?p) :: 32 word) = 100 - ?p" using b by (intro sint_id32) simp_all
  then have "sint (100 - fc_progress c) = 100 - ?p" by simp
  then have "int64_of_int32 (ONE_HUNDRED - fc_progress c) = of_int (100 - ?p)"
    unfolding scast_eq ONE_HUNDRED_def by (rule arg_cong)
  moreover have "fc_size c = of_int ?s" by simp
  ultimately have "int64_of_int32 (ONE_HUNDRED - fc_progress c) * fc_size c = of_int ((100 - ?p) * ?s)"
    by (metis of_int_mult)
  moreover have m: "0 \<le> (100 - ?p) * ?s" "(100 - ?p) * ?s \<le> 100 * ?s"
    using b by (simp_all add: mult_right_mono)
  moreover have "sint (of_int ((100 - ?p) * ?s) :: 64 word) = (100 - ?p) * ?s"
    by (rule sint_id64 [OF order_trans [OF _ m(1)] le_less_trans [OF m(2)]]) (use b in simp_all)
  ultimately have "sint (int64_of_int32 (ONE_HUNDRED - fc_progress c) * fc_size c) = (100 - ?p) * ?s"
    by (simp only:)
  moreover have "sint (int64_of_int32 ONE_HUNDRED) = 100" by (simp add: ONE_HUNDRED_def)
  ultimately have "remaining_size c = of_int (missing_bytes c)"
    using sdiv_nonneg [OF m(1), of 100] by (simp only: remaining_size_def missing_bytes_def zero_le_numeral)
  moreover have "(100 - ?p) * ?s div 100 \<le> 100 * ?s div 100" using m(2) by (rule zdiv_mono1) simp
  ultimately show ?thesis using m(1) b by (simp add: missing_bytes_def pos_imp_zdiv_nonneg_iff)
qed

lemma required_sane:
  assumes "list_all sane_size cs" and "length cs < 2 ^ 10"
  shows "foldl (\<lambda>r c. r + remaining_size c) 0 cs = of_int (\<Sum>c\<leftarrow>cs. missing_bytes c) \<and>
    0 \<le> (\<Sum>c\<leftarrow>cs. missing_bytes c) \<and> (\<Sum>c\<leftarrow>cs. missing_bytes c) < 2 ^ 60"
proof -
  have sum: "foldl (\<lambda>r c. r + remaining_size c) r cs = r + of_int (\<Sum>c\<leftarrow>cs. missing_bytes c)" for r
    using assms(1) by (induction cs arbitrary: r) (simp_all add: remaining_size_sane)
  have nonneg: "0 \<le> (\<Sum>c\<leftarrow>cs. missing_bytes c)"
    using assms(1) by (induction cs) (simp_all add: remaining_size_sane)
  have "(\<Sum>c\<leftarrow>cs. missing_bytes c) \<le> int (length cs) * 2 ^ 50"
    using assms(1)
  proof (induction cs)
    case (Cons c cs)
    then have "missing_bytes c < 2 ^ 50" using remaining_size_sane by simp
    then show ?case using Cons by (simp add: distrib_right)
  qed simp
  moreover have "int (length cs) * 2 ^ 50 < 2 ^ 60" using assms(2) by simp
  ultimately show ?thesis using sum [of 0] nonneg by simp
qed

lemma space_condition:
  assumes "list_all sane_size (QueryAllComponents E w)" and "length (QueryAllComponents E w) < 2 ^ 10"
    and "pl_space E DUPDATE_ENGINE_PACKAGE_ROOT_PATH (w_ext w) = Some free"
  shows "fst (Download_IsSpaceEnough E 0 w) \<longleftrightarrow>
    (\<Sum>c\<leftarrow>QueryAllComponents E w. missing_bytes c) \<le> uint free"
proof -
  let ?n = "\<Sum>c\<leftarrow>QueryAllComponents E w. missing_bytes c"
  note r = required_sane [OF assms(1,2)]
  then have "uint (of_int ?n :: 64 word) = ?n"
    by (simp add: unsigned_of_int take_bit_int_eq_self)
  then show ?thesis using r assms(3)
    by (simp add: Download_IsSpaceEnough_def FirmwareFileUtils_IsSpaceEnough_def FileUtils_IsSpaceEnough_def
        word_le_def Let_def)
qed

context platform
begin

lemma query_all_components: "QueryAllComponents E w = w_components rows w"
  by (rule fw.component_query)

lemma download_gate:
  assumes "Download_GetStepAfterInit E (FirmwareDownloadMode_new options be) w = (step, m)"
  shows "(step = FirmwareStep.DOWNLOAD_STEP \<longleftrightarrow>
      w_tasks rows w \<noteq> [] \<and>
      ft_status (hd (w_tasks rows w)) \<in>
        {UpgradeStatus.CHECK_VERSION_SUCCESS, UpgradeStatus.DOWNLOAD_FAIL, UpgradeStatus.DOWNLOAD_PAUSE} \<and>
      IsNetAvailable NetType.CELLULAR_AND_WIFI (w_net w) \<and> fst (Download_IsSpaceEnough E 0 w)) \<and>
    (if step = FirmwareStep.DOWNLOAD_STEP then dm_businessError m = be
     else step = FirmwareStep.COMPLETE \<and> be_errorNum (dm_businessError m) = CallResult.FAIL)"
proof -
  have new: "FirmwareTask_default\<lparr>ft_isExistTask := b\<rparr> = FirmwareTask_default \<longleftrightarrow> \<not> b" for b
    by (simp add: FirmwareTask_default_def)
  obtain ok n where sp: "Download_IsSpaceEnough E 0 w = (ok, n)" by force
  show ?thesis
    using assms
    by (cases "w_tasks rows w")
      (auto simp: Download_GetStepAfterInit_def DownloadMode_GetTask_def FirmwareDownloadMode_new_def
        fw.task_query Build_def AddErrorMessage_def sp Let_def FirmwareTask_default_def split: if_splits)
qed

end

section \<open>Properties of the executor and the mode\<close>

text \<open>
  C7. A download starts exactly when there is a task that was found, failed or paused, the
  network is up and the packages still to be loaded fit: the free space is at least the sum of
  the missing parts of the components, rounded down one by one. Every other request is
  answered with an error and goes straight to completion.
\<close>

theorem download_start_gate:
  assumes "platform E rows" and "list_all sane_size (w_components rows w)"
    and "length (w_components rows w) < 2 ^ 10"
    and "pl_space E DUPDATE_ENGINE_PACKAGE_ROOT_PATH (w_ext w) = Some free"
    and "Download_GetStepAfterInit E (FirmwareDownloadMode_new options be) w = (step, m)"
  shows "(step = FirmwareStep.DOWNLOAD_STEP \<longleftrightarrow>
      w_tasks rows w \<noteq> [] \<and>
      ft_status (hd (w_tasks rows w)) \<in>
        {UpgradeStatus.CHECK_VERSION_SUCCESS, UpgradeStatus.DOWNLOAD_FAIL, UpgradeStatus.DOWNLOAD_PAUSE} \<and>
      IsNetAvailable NetType.CELLULAR_AND_WIFI (w_net w) \<and>
      (\<Sum>c\<leftarrow>w_components rows w. (100 - sint (fc_progress c)) * sint (fc_size c) div 100) \<le> uint free) \<and>
    (if step = FirmwareStep.DOWNLOAD_STEP then dm_businessError m = be
     else step = FirmwareStep.COMPLETE \<and> be_errorNum (dm_businessError m) = CallResult.FAIL)"
proof -
  have "fst (Download_IsSpaceEnough E 0 w) \<longleftrightarrow> (\<Sum>c\<leftarrow>w_components rows w. missing_bytes c) \<le> uint free"
    using space_condition [of E w free] assms(2-4)
      platform.query_all_components [OF assms(1)] by simp
  then show ?thesis
    using platform.download_gate [OF assms(1,5)] by (simp add: missing_bytes_def [abs_def])
qed

definition found_task :: FirmwareTask where
  "found_task = FirmwareTask_default
     \<lparr>ft_taskId := ''t1'', ft_status := UpgradeStatus.CHECK_VERSION_SUCCESS, ft_combinationType := CombinationType.HOTA\<rparr>"

lemma found_task_storable: "task_storable found_task"
  by (simp add: found_task_def task_storable_def FirmwareTask_default_def us.wf_named ct.wf_named dm.wf_named
      nt.wf_named od.wf_named um.wf_named enum_simps DownloadMode_named_def UpgradeMode_named_def
      CombinationType_named_def)

lemma status_storable: "task_storable t \<Longrightarrow> us.wf st \<Longrightarrow> task_storable (t\<lparr>ft_status := st\<rparr>)"
  by (simp add: task_storable_def)

definition stored_package :: FirmwareComponent where
  "stored_package = sample_component\<lparr>fc_spath := ''/data/a.zip''\<rparr>"

lemma stored_package_storable: "component_storable stored_package"
  using sample_component_storable by (simp add: stored_package_def component_storable_def)

lemma found_world_view:
  "w_typed md_rows (stored_world found_task [stored_package])"
  "w_tasks md_rows (stored_world found_task [stored_package]) = [found_task]"
  "w_components md_rows (stored_world found_task [stored_package]) = [stored_package]"
  using stored_world_db [OF found_task_storable, of "[stored_package]"] stored_package_storable
  by (simp_all add: found_task_def FirmwareTask_default_def)

theorem download_start_gate_witness:
  "fst (Download_GetStepAfterInit memory_device
     (FirmwareDownloadMode_new \<lparr>dl_allowNetwork = NetType.WIFI, dl_order = Order.DOWNLOAD\<rparr> BusinessError_default)
     (stored_world found_task [stored_package])) = FirmwareStep.DOWNLOAD_STEP"
proof -
  have net: "IsNetAvailable NetType.CELLULAR_AND_WIFI (w_net (stored_world found_task [stored_package]))"
    by (simp add: stored_world_def NetManager_new_def IsNetAvailable_def)
  have sizes: "sint (fc_progress stored_package) = 0" "sint (fc_size stored_package) = 3"
    by (simp_all add: stored_package_def sample_component_def FirmwareComponent_default_def)
  have space: "pl_space memory_device DUPDATE_ENGINE_PACKAGE_ROOT_PATH
      (w_ext (stored_world found_task [stored_package])) = Some 1000000000"
    by (simp add: memory_device_def stored_world_def stored_device_def World_new_def)
  have cs: "list_all sane_size (w_components md_rows (stored_world found_task [stored_package]))"
    "length (w_components md_rows (stored_world found_task [stored_package])) < 2 ^ 10"
    by (simp_all add: found_world_view sane_size_def sizes)
  have st: "ft_status found_task = UpgradeStatus.CHECK_VERSION_SUCCESS" by (simp add: found_task_def)
  note gate = download_start_gate [OF md.platform_axioms cs space surjective_pairing,
      of "\<lparr>dl_allowNetwork = NetType.WIFI, dl_order = Order.DOWNLOAD\<rparr>" BusinessError_default,
      unfolded found_world_view]
  show ?thesis by (rule iffD2 [OF conjunct1 [OF gate]]) (simp add: net st sizes)
qed

context platform
begin

lemma remove_file_db:
  "w_tasks rows (w\<lparr>w_ext := pl_remove E f (w_ext w)\<rparr>) = w_tasks rows w"
  "w_components rows (w\<lparr>w_ext := pl_remove E f (w_ext w)\<rparr>) = w_components rows w"
  "w_typed rows (w\<lparr>w_ext := pl_remove E f (w_ext w)\<rparr>) = w_typed rows w"
  using rows_ext_only [OF rows_remove [of f "w_ext w"]] by (simp_all add: w_db_defs)

lemma executor_callback_db:
  assumes "w_typed rows w" and "us.wf (pr_status p)"
  shows "\<exists>v. Executor_DownloadCallback E cb url pkg p e f w =
      (let verified = (pr_status p \<noteq> UpgradeStatus.DOWNLOAD_SUCCESS \<or> VerifyDownloadPkg E pkg e w);
           q = (if verified then p
                else p\<lparr>pr_status := UpgradeStatus.DOWNLOAD_FAIL,
                       pr_endReason := to_string DUPDATE_ERR_VERIFY_PACKAGE_FAIL\<rparr>)
       in case cb q f v of
            None \<Rightarrow> None
          | Some (f, w) \<Rightarrow>
              Some (e\<lparr>de_upgradeStatus :=
                (if pr_status p = UpgradeStatus.DOWNLOAD_FAIL \<or> pr_status p = UpgradeStatus.DOWNLOAD_SUCCESS
                 then pr_status p else UpgradeStatus.DOWNLOADING)\<rparr>, f, w)) \<and>
    w_typed rows v \<and> w_sent v = w_sent w \<and> w_net v = w_net w \<and>
    w_components rows v =
      map (\<lambda>c. if fc_url c = url then c\<lparr>fc_status := pr_status p, fc_progress := pr_percent p\<rparr> else c)
        (w_components rows w) \<and>
    w_tasks rows v =
      map (\<lambda>t. if ft_taskId t = ft_taskId (de_tasks e)
               then t\<lparr>ft_status :=
                        (if pr_status p \<noteq> UpgradeStatus.DOWNLOAD_SUCCESS \<or> VerifyDownloadPkg E pkg e w
                         then pr_status p else UpgradeStatus.DOWNLOAD_FAIL),
                      ft_progress := pr_percent p\<rparr> else t) (w_tasks rows w)"
proof -
  define ok where "ok \<longleftrightarrow> pr_status p \<noteq> UpgradeStatus.DOWNLOAD_SUCCESS \<or> VerifyDownloadPkg E pkg e w"
  define st where "st = (if ok then pr_status p else UpgradeStatus.DOWNLOAD_FAIL)"
  define u where "u = (if ok then w else w\<lparr>w_ext := pl_remove E pkg (w_ext w)\<rparr>)"
  have u: "w_typed rows u" "w_tasks rows u = w_tasks rows w" "w_components rows u = w_components rows w"
    using assms(1) by (simp_all add: u_def remove_file_db)
  have st: "us.wf st" using assms(2) by (simp add: st_def us.wf_named enum_simps)
  define v1 where "v1 = UpdateComponentProgress E url (pr_status p) (pr_percent p) u"
  define v where "v = UpdateTaskProgress E (ft_taskId (de_tasks e)) st (pr_percent p) v1"
  note c = fw.component_progress [OF u(1) assms(2), of url "pr_percent p", folded v1_def]
  then have "w_typed rows v1" by simp
  note t = fw.task_progress [OF this st, of "ft_taskId (de_tasks e)" "pr_percent p", folded v_def]
  have ver: "VerifyDownloadPkg E pkg (e\<lparr>de_upgradeStatus := s\<rparr>) w = VerifyDownloadPkg E pkg e w" for s
    by (simp add: VerifyDownloadPkg_def)
  have "Executor_DownloadCallback E cb url pkg p e f w =
      (case cb (if ok then p else p\<lparr>pr_status := UpgradeStatus.DOWNLOAD_FAIL,
                  pr_endReason := to_string DUPDATE_ERR_VERIFY_PACKAGE_FAIL\<rparr>) f v of
         None \<Rightarrow> None
       | Some (f, w) \<Rightarrow>
           Some (e\<lparr>de_upgradeStatus :=
             (if pr_status p = UpgradeStatus.DOWNLOAD_FAIL \<or> pr_status p = UpgradeStatus.DOWNLOAD_SUCCESS
              then pr_status p else UpgradeStatus.DOWNLOADING)\<rparr>, f, w))"
    by (auto simp: Executor_DownloadCallback_def v_def v1_def u_def st_def ok_def ver Let_def split: option.split)
  moreover have "w_sent v = w_sent w \<and> w_net v = w_net w"
    by (simp add: v_def v1_def u_def UpdateTaskProgress_def UpdateComponentProgress_def)
  ultimately show ?thesis
    unfolding Let_def ok_def [symmetric] st_def [symmetric] using c t u by (intro exI [of _ v]) simp
qed

end

text \<open>
  C32. A package that was loaded completely but whose digest is wrong is reported as a failed
  download with the verification error, the task is recorded as failed, and yet the component
  row is recorded as successfully downloaded at 100 percent.
\<close>

theorem failed_verification:
  assumes "platform E rows" and "w_typed rows w" and "\<not> VerifyDownloadPkg E pkg e w"
  shows "\<exists>e' w'. Executor_DownloadCallback E record_progress url pkg
      \<lparr>pr_percent = 100, pr_status = UpgradeStatus.DOWNLOAD_SUCCESS, pr_endReason = []\<rparr> e ps w =
      Some (e', ps @ [\<lparr>pr_percent = 100, pr_status = UpgradeStatus.DOWNLOAD_FAIL, pr_endReason = ''-305''\<rparr>], w') \<and>
    w_tasks rows w' = map (\<lambda>t. if ft_taskId t = ft_taskId (de_tasks e)
      then t\<lparr>ft_status := UpgradeStatus.DOWNLOAD_FAIL, ft_progress := 100\<rparr> else t) (w_tasks rows w) \<and>
    w_components rows w' = map (\<lambda>c. if fc_url c = url
      then c\<lparr>fc_status := UpgradeStatus.DOWNLOAD_SUCCESS, fc_progress := 100\<rparr> else c) (w_components rows w)"
proof -
  have code: "to_string DUPDATE_ERR_VERIFY_PACKAGE_FAIL = ''-305''" by code_simp
  have "us.wf UpgradeStatus.DOWNLOAD_SUCCESS" by (simp add: us.wf_named enum_simps)
  with platform.executor_callback_db [OF assms(1,2), where cb = record_progress and url = url and pkg = pkg
      and e = e and f = ps and p = "\<lparr>pr_percent = 100, pr_status = UpgradeStatus.DOWNLOAD_SUCCESS, pr_endReason = []\<rparr>"]
  show ?thesis using assms(3) by (auto simp: record_progress_def code)
qed

theorem failed_verification_witness:
  "\<exists>e' w'. Executor_DownloadCallback memory_device record_progress ''http://s/a.zip'' ''/data/a.zip''
      \<lparr>pr_percent = 100, pr_status = UpgradeStatus.DOWNLOAD_SUCCESS, pr_endReason = []\<rparr>
      \<lparr>de_components = [stored_package], de_tasks = found_task, de_upgradeStatus = UpgradeStatus.DOWNLOADING\<rparr> []
      (stored_world found_task [stored_package]) =
    Some (e', [\<lparr>pr_percent = 100, pr_status = UpgradeStatus.DOWNLOAD_FAIL, pr_endReason = ''-305''\<rparr>], w')"
proof -
  have "\<not> VerifyDownloadPkg memory_device ''/data/a.zip''
      \<lparr>de_components = [stored_package], de_tasks = found_task, de_upgradeStatus = UpgradeStatus.DOWNLOADING\<rparr>
      (stored_world found_task [stored_package])"
    by (simp add: VerifyDownloadPkg_def stored_package_def sample_component_def CheckFileSha256String_def
        IsFileExist_def memory_device_def stored_world_def stored_device_def World_new_def empty_device_def)
  from failed_verification [OF md.platform_axioms found_world_view(1) this, of "''http://s/a.zip''" "[]"]
  show ?thesis by auto
qed

end
