(* ===== verification/Firmware_Install.thy ===== *)
theory Firmware_Install
  imports Firmware_Download "HOL-Library.Log_Nat"
begin

text \<open>
  The installation: the installers (\<open>firmware_install.cpp\<close>, \<open>firmware_sys_installer_install.cpp\<close>,
  \<open>firmware_sys_installer_callback.cpp\<close>, \<open>firmware_updater_install.cpp\<close>), the executors that run
  them (\<open>firmware_install_executor.cpp\<close>, \<open>firmware_apply_executor.cpp\<close>), the data processor and
  the install mode. The system installer and the updater are not part of the sources: they are
  the fields of \<open>SysInstaller\<close>. As in the download, a result \<open>None\<close> means that the call does not
  return normally.
\<close>

section \<open>Data\<close>

record InstallCallbackInfo =
  ic_progress :: Progress
  ic_errorMessage :: ErrorMessage

record InstallProgress =
  ip_progress :: Progress
  ip_errMsg :: ErrMsg

text \<open>
  The system installer: the result codes of the common library, the three values of its status
  the code names, the results of its calls,
  and the reports it delivers, grouped by the poll of \<open>WaitInstallResult\<close> they come before. The
  last field is the call that hands the packages to the updater.
\<close>

record SysInstaller =
  si_OHOS_SUCCESS :: int32_t
  si_OHOS_FAILURE :: int32_t
  si_UPDATE_STATE_INIT :: int32_t
  si_UPDATE_STATE_ONGOING :: int32_t
  si_UPDATE_STATE_SUCCESSFUL :: int32_t
  si_SysInstallerInit :: int32_t
  si_GetUpdateStatus :: int32_t
  si_SetUpdateCallback :: int32_t
  si_StartUpdatePackageZip :: "string \<Rightarrow> int32_t"
  si_reports :: "(int32_t \<times> int32_t \<times> string) list list"
  si_abInstallTimeout :: uint32_t
  si_RebootAndInstallUpgradePackage :: "string \<Rightarrow> string list \<Rightarrow> bool"

section \<open>FirmwareInstall and its two implementations\<close>

text \<open>The callbacks of an installer run on the state \<open>'s\<close> behind it.\<close>

record 's FirmwareInstallCallback =
  onFirmwareProgress :: "FirmwareComponent \<Rightarrow> 's \<Rightarrow> 's option"
  onFirmwareEvent :: "bool \<Rightarrow> ErrMsg \<Rightarrow> 's \<Rightarrow> 's option"
  onFirmwareStatus :: "UpgradeStatus \<Rightarrow> 's \<Rightarrow> 's option"

record FirmwareInstall =
  fi_errMsg :: ErrMsg
  fi_isInstalling :: bool
  fi_sysInstallProgress :: Progress

definition FirmwareInstall_new :: FirmwareInstall where
  "FirmwareInstall_new =
     \<lparr>fi_errMsg = ErrMsg_default, fi_isInstalling = False, fi_sysInstallProgress = Progress_default\<rparr>"

definition OnUpgradeProgress :: "SysInstaller \<Rightarrow> int32_t \<Rightarrow> int32_t \<Rightarrow> string \<Rightarrow> InstallProgress" where
  "OnUpgradeProgress SI updateStatus percent resultMsg =
     (let p = \<lparr>ip_progress = Progress_default, ip_errMsg = ErrMsg_default\<rparr>;
          p = (if updateStatus = si_UPDATE_STATE_INIT SI \<or> updateStatus = si_UPDATE_STATE_ONGOING SI
               then p\<lparr>ip_progress := (ip_progress p)\<lparr>pr_status := UpgradeStatus.INSTALLING\<rparr>\<rparr>
               else if updateStatus = si_UPDATE_STATE_SUCCESSFUL SI
               then p\<lparr>ip_progress := (ip_progress p)\<lparr>pr_status := UpgradeStatus.INSTALL_SUCCESS\<rparr>\<rparr>
               else p\<lparr>ip_progress := (ip_progress p)\<lparr>pr_status := UpgradeStatus.INSTALL_FAIL\<rparr>,
                      ip_errMsg := (ip_errMsg p)\<lparr>er_errorMsg := resultMsg\<rparr>\<rparr>)
      in p\<lparr>ip_progress := (ip_progress p)\<lparr>pr_percent := percent\<rparr>,
           ip_errMsg := (ip_errMsg p)\<lparr>er_errorCode := updateStatus\<rparr>\<rparr>)"

definition InitInstallProgress :: "FirmwareInstall \<Rightarrow> FirmwareInstall" where
  "InitInstallProgress obj =
     obj\<lparr>fi_sysInstallProgress := \<lparr>pr_percent = 0, pr_status = UpgradeStatus.INSTALLING, pr_endReason = []\<rparr>,
       fi_errMsg := \<lparr>er_errorCode = 0, er_errorMsg = []\<rparr>\<rparr>"

text \<open>The callback \<open>DoSysInstall\<close> registers, run on one report and on a group of reports.\<close>

definition sys_callback ::
  "'s FirmwareInstallCallback \<Rightarrow> FirmwareComponent \<Rightarrow> InstallProgress \<Rightarrow> FirmwareInstall \<Rightarrow> 's \<Rightarrow>
   (FirmwareInstall \<times> 's) option" where
  "sys_callback cb sysComponent p obj s =
     map_option (Pair (obj\<lparr>fi_sysInstallProgress := ip_progress p, fi_errMsg := ip_errMsg p\<rparr>))
       (onFirmwareProgress cb
         (sysComponent\<lparr>fc_status := pr_status (ip_progress p), fc_progress := pr_percent (ip_progress p)\<rparr>) s)"

fun sys_reports ::
  "SysInstaller \<Rightarrow> 's FirmwareInstallCallback \<Rightarrow> FirmwareComponent \<Rightarrow> (int32_t \<times> int32_t \<times> string) list \<Rightarrow>
   FirmwareInstall \<Rightarrow> 's \<Rightarrow> (FirmwareInstall \<times> 's) option" where
  "sys_reports SI cb c [] obj s = Some (obj, s)"
| "sys_reports SI cb c ((updateStatus, percent, msg) # rs) obj s =
     (case sys_callback cb c (OnUpgradeProgress SI updateStatus percent msg) obj s of
        None \<Rightarrow> None
      | Some (obj, s) \<Rightarrow> sys_reports SI cb c rs obj s)"

text \<open>
  The polling loop. \<open>reports\<close> are the groups still to come; the counter is an unsigned 32 bit
  integer, so the loop does not end when the limit is the largest one and no result comes.
\<close>

partial_function (option) wait_loop ::
  "SysInstaller \<Rightarrow> 's FirmwareInstallCallback \<Rightarrow> FirmwareComponent \<Rightarrow> uint32_t \<Rightarrow>
   (int32_t \<times> int32_t \<times> string) list list \<Rightarrow> FirmwareInstall \<Rightarrow> 's \<Rightarrow> (int32_t \<times> FirmwareInstall \<times> 's) option" where
  "wait_loop SI cb c timeout reports obj s =
     (if timeout \<le> si_abInstallTimeout SI then
        (case sys_reports SI cb c (case reports of [] \<Rightarrow> [] | rs # _ \<Rightarrow> rs) obj s of
           None \<Rightarrow> None
         | Some (obj, s) \<Rightarrow>
             (if pr_status (fi_sysInstallProgress obj) = UpgradeStatus.INSTALL_FAIL then Some (si_OHOS_FAILURE SI, obj, s)
              else if pr_status (fi_sysInstallProgress obj) = UpgradeStatus.INSTALL_SUCCESS \<and>
                      pr_percent (fi_sysInstallProgress obj) = ONE_HUNDRED then Some (si_OHOS_SUCCESS SI, obj, s)
              else wait_loop SI cb c (timeout + 1) (tl reports) obj s))
      else Some (si_OHOS_FAILURE SI, obj, s))"

definition WaitInstallResult ::
  "SysInstaller \<Rightarrow> 's FirmwareInstallCallback \<Rightarrow> FirmwareComponent \<Rightarrow> FirmwareInstall \<Rightarrow> 's \<Rightarrow>
   (int32_t \<times> FirmwareInstall \<times> 's) option" where
  "WaitInstallResult SI cb c obj s = wait_loop SI cb c 0 (si_reports SI) obj s"

definition sys_error :: "string \<Rightarrow> int32_t \<Rightarrow> FirmwareInstall \<Rightarrow> FirmwareInstall" where
  "sys_error msg code obj = obj\<lparr>fi_errMsg := \<lparr>er_errorCode = code, er_errorMsg = msg\<rparr>\<rparr>"

definition DoSysInstall ::
  "SysInstaller \<Rightarrow> 's FirmwareInstallCallback \<Rightarrow> FirmwareComponent \<Rightarrow> FirmwareInstall \<Rightarrow> 's \<Rightarrow>
   (int32_t \<times> FirmwareInstall \<times> 's) option" where
  "DoSysInstall SI cb c obj s =
     (let obj = InitInstallProgress obj
      in if si_SysInstallerInit SI \<noteq> si_OHOS_SUCCESS SI then
           Some (si_OHOS_FAILURE SI, sys_error ''sys installer init failed'' DUPDATE_ERR_IPC_ERROR obj, s)
      else if si_GetUpdateStatus SI \<noteq> si_UPDATE_STATE_INIT SI then
           Some (si_OHOS_FAILURE SI, sys_error ''sys installer is busy'' (si_SysInstallerInit SI) obj, s)
      else if si_SetUpdateCallback SI \<noteq> si_OHOS_SUCCESS SI then
           Some (si_OHOS_FAILURE SI, sys_error ''set sys installer callback failed'' (si_SetUpdateCallback SI) obj, s)
      else if si_StartUpdatePackageZip SI (fc_spath c) \<noteq> si_OHOS_SUCCESS SI then
           Some (si_OHOS_FAILURE SI, sys_error ''sys installer StartUpdatePackageZip failed''
                                 (si_StartUpdatePackageZip SI (fc_spath c)) obj, s)
      else WaitInstallResult SI cb c obj s)"

text \<open>The loop over the components returns in its first round.\<close>

fun SysInstaller_PerformInstall ::
  "SysInstaller \<Rightarrow> 's FirmwareInstallCallback \<Rightarrow> FirmwareComponent list \<Rightarrow> FirmwareInstall \<Rightarrow> 's \<Rightarrow>
   (bool \<times> FirmwareInstall \<times> 's) option" where
  "SysInstaller_PerformInstall SI cb [] obj s = Some (False, obj, s)"
| "SysInstaller_PerformInstall SI cb (c # cs) obj s =
     (case onFirmwareStatus cb UpgradeStatus.INSTALLING s of
        None \<Rightarrow> None
      | Some s \<Rightarrow> map_option (\<lambda>(ret, obj, s). (ret = si_OHOS_SUCCESS SI, obj, s)) (DoSysInstall SI cb c obj s))"

text \<open>\<open>sort\<close> orders the pairs of type and path by \<open>std::pair\<close>'s order.\<close>

definition install_files :: "FirmwareComponent list \<Rightarrow> string list" where
  "install_files componentList =
     map snd (sort_key (\<lambda>(t, p). (sint t, p)) (map (\<lambda>c. (fc_blVersionType c, fc_spath c)) componentList))"

definition DoUpdaterInstall ::
  "SysInstaller \<Rightarrow> FirmwareComponent list \<Rightarrow> FirmwareInstall \<Rightarrow> int32_t \<times> FirmwareInstall" where
  "DoUpdaterInstall SI componentList obj =
     (if \<not> si_RebootAndInstallUpgradePackage SI ''/misc'' (install_files componentList)
      then (si_OHOS_FAILURE SI, sys_error ''updater install is failed'' DUPDATE_ERR_UPDATE_REBOOT_FAIL obj)
      else (si_OHOS_SUCCESS SI, obj))"

definition Updater_PerformInstall ::
  "SysInstaller \<Rightarrow> 's FirmwareInstallCallback \<Rightarrow> FirmwareComponent list \<Rightarrow> FirmwareInstall \<Rightarrow> 's \<Rightarrow>
   (bool \<times> FirmwareInstall \<times> 's) option" where
  "Updater_PerformInstall SI cb cs obj s =
     (case onFirmwareStatus cb UpgradeStatus.UPDATING s of
        None \<Rightarrow> None
      | Some s \<Rightarrow> (let (ret, obj) = DoUpdaterInstall SI cs obj in Some (ret = si_OHOS_SUCCESS SI, obj, s)))"

text \<open>
  \<open>StartInstall\<close>, with the two virtual functions chosen by the type the object was made for
  (\<open>InstallFactory::GetInstance\<close>). \<open>world\<close> finds the service state in \<open>'s\<close>.
\<close>

definition IsComponentLegal :: "'x Platform \<Rightarrow> FirmwareComponent list \<Rightarrow> 'x World \<Rightarrow> bool" where
  "IsComponentLegal E componentList w = IsUpgradePackagesReady E componentList w"

fun PerformInstall ::
  "InstallType \<Rightarrow> SysInstaller \<Rightarrow> 's FirmwareInstallCallback \<Rightarrow> FirmwareComponent list \<Rightarrow> FirmwareInstall \<Rightarrow> 's \<Rightarrow>
   (bool \<times> FirmwareInstall \<times> 's) option" where
  "PerformInstall InstallType.SYS_INSTALLER = SysInstaller_PerformInstall"
| "PerformInstall _ = Updater_PerformInstall"

definition CallbackFailedResult :: "'s FirmwareInstallCallback \<Rightarrow> string \<Rightarrow> int32_t \<Rightarrow> 's \<Rightarrow> 's option" where
  "CallbackFailedResult cb errorMsg errCode s =
     onFirmwareEvent cb False \<lparr>er_errorCode = errCode, er_errorMsg = errorMsg\<rparr> s"

definition CallbackResult :: "'s FirmwareInstallCallback \<Rightarrow> bool \<Rightarrow> FirmwareInstall \<Rightarrow> 's \<Rightarrow> 's option" where
  "CallbackResult cb result obj s = onFirmwareEvent cb result (fi_errMsg obj) s"

definition StartInstall ::
  "'x Platform \<Rightarrow> SysInstaller \<Rightarrow> ('s \<Rightarrow> 'x World) \<Rightarrow> InstallType \<Rightarrow> FirmwareComponent list \<Rightarrow>
   's FirmwareInstallCallback \<Rightarrow> FirmwareInstall \<Rightarrow> 's \<Rightarrow> (FirmwareInstall \<times> 's) option" where
  "StartInstall E SI world type componentList cb obj s =
     (if fi_isInstalling obj then
        map_option (Pair obj) (CallbackFailedResult cb ''install is busying'' DUPDATE_ERR_SYSTEM_BUSY_ON_INSTALL s)
      else if \<not> IsComponentLegal E componentList (world s) then
        map_option (Pair obj) (CallbackFailedResult cb ''check component failed!'' DUPDATE_ERR_UPDATE_PRECHECK_FAIL s)
      else
        (let obj = obj\<lparr>fi_isInstalling := True\<rparr>
         in case PerformInstall type SI cb componentList obj s of
              None \<Rightarrow> None
            | Some (result, obj, s) \<Rightarrow>
                (let obj = obj\<lparr>fi_isInstalling := False\<rparr>
                 in map_option (Pair obj) (CallbackResult cb result obj s))))"

section \<open>FirmwareInstallExecutor\<close>

record FirmwareInstallExecutor =
  ie_installType :: InstallType
  ie_installCallbackInfo :: InstallCallbackInfo
  ie_components :: "FirmwareComponent list"
  ie_tasks :: FirmwareTask
  ie_taskProgress :: Progress

definition FirmwareInstallExecutor_new :: "InstallType \<Rightarrow> FirmwareInstallExecutor" where
  "FirmwareInstallExecutor_new installType =
     \<lparr>ie_installType = installType,
      ie_installCallbackInfo = \<lparr>ic_progress = Progress_default, ic_errorMessage = ErrorMessage_default\<rparr>,
      ie_components = [], ie_tasks = FirmwareTask_default, ie_taskProgress = Progress_default\<rparr>"

type_synonym ('f, 'x) on_install = "InstallCallbackInfo \<Rightarrow> 'f \<Rightarrow> 'x World \<Rightarrow> ('f \<times> 'x World) option"
type_synonym ('f, 'x) install_state = "FirmwareInstallExecutor \<times> 'f \<times> 'x World"

definition InstallExecutor_GetTask :: "'x Platform \<Rightarrow> FirmwareInstallExecutor \<Rightarrow> 'x World \<Rightarrow> FirmwareInstallExecutor" where
  "InstallExecutor_GetTask E e w =
     (if \<not> ft_isExistTask (ie_tasks e) then e\<lparr>ie_tasks := QueryTask E (ie_tasks e) w\<rparr> else e)"

definition HandleInstallProgress ::
  "'x Platform \<Rightarrow> ('f, 'x) on_install \<Rightarrow> FirmwareComponent \<Rightarrow> Progress \<Rightarrow> ('f, 'x) install_state \<Rightarrow>
   ('f, 'x) install_state option" where
  "HandleInstallProgress E cb component progress = (\<lambda>(e, f, w).
     let w = UpdateComponentProgress E (fc_url component) (pr_status progress) (pr_percent progress) w;
         e = e\<lparr>ie_taskProgress := (ie_taskProgress e)\<lparr>pr_status := pr_status progress, pr_percent := pr_percent progress\<rparr>\<rparr>;
         w = UpdateTaskProgress E (ft_taskId (ie_tasks e)) (pr_status (ie_taskProgress e)) (pr_percent (ie_taskProgress e)) w;
         e = e\<lparr>ie_installCallbackInfo := (ie_installCallbackInfo e)\<lparr>ic_progress := ie_taskProgress e\<rparr>\<rparr>
     in map_option (Pair e) (cb (ie_installCallbackInfo e) f w))"

definition HandleInstallResult ::
  "'x Platform \<Rightarrow> ('f, 'x) on_install \<Rightarrow> bool \<Rightarrow> ErrMsg \<Rightarrow> ('f, 'x) install_state \<Rightarrow> ('f, 'x) install_state option" where
  "HandleInstallResult E cb result errMsg = (\<lambda>(e, f, w).
     let p = ie_taskProgress e;
         p = (if result then p\<lparr>pr_status := UpgradeStatus.INSTALL_SUCCESS, pr_percent := ONE_HUNDRED\<rparr>
              else case ie_installType e of
                     InstallType.SYS_INSTALLER \<Rightarrow> p\<lparr>pr_status := UpgradeStatus.INSTALL_FAIL\<rparr>
                   | InstallType.UPDATER \<Rightarrow> p\<lparr>pr_status := UpgradeStatus.UPDATE_FAIL\<rparr>
                   | _ \<Rightarrow> p);
         e = e\<lparr>ie_taskProgress := p\<rparr>;
         w = UpdateTaskProgress E (ft_taskId (ie_tasks e)) (pr_status p) (pr_percent p) w;
         e = e\<lparr>ie_installCallbackInfo :=
               \<lparr>ic_progress = p,
                ic_errorMessage = \<lparr>em_errorCode = er_errorCode errMsg, em_errorMessage = er_errorMsg errMsg\<rparr>\<rparr>\<rparr>
     in map_option (Pair e) (cb (ie_installCallbackInfo e) f w))"

definition executor_install_callback ::
  "'x Platform \<Rightarrow> ('f, 'x) on_install \<Rightarrow> ('f, 'x) install_state FirmwareInstallCallback" where
  "executor_install_callback E cb =
     \<lparr>onFirmwareProgress = \<lambda>component. HandleInstallProgress E cb component
        (Progress_default\<lparr>pr_status := fc_status component, pr_percent := fc_progress component\<rparr>),
      onFirmwareEvent = HandleInstallResult E cb,
      onFirmwareStatus = \<lambda>status (e, f, w). Some (e, f,
        NotifyEvent (ft_taskId (ie_tasks e)) EVENT_UPGRADE_START status ErrorMessage_default [] w)\<rparr>"

definition InstallExecutor_DoInstall ::
  "'x Platform \<Rightarrow> SysInstaller \<Rightarrow> ('f, 'x) on_install \<Rightarrow> ('f, 'x) install_state \<Rightarrow> ('f, 'x) install_state option" where
  "InstallExecutor_DoInstall E SI cb = (\<lambda>(e, f, w).
     let e = e\<lparr>ie_components := QueryAllComponents E w\<rparr>
     in if ie_components e = [] then
          (let e = e\<lparr>ie_installCallbackInfo := (ie_installCallbackInfo e)\<lparr>ic_progress :=
                 Progress_default\<lparr>pr_status := UpgradeStatus.UPDATE_FAIL, pr_endReason := ''no task''\<rparr>\<rparr>\<rparr>
           in map_option (Pair e) (cb (ie_installCallbackInfo e) f w))
        else
          (let e = InstallExecutor_GetTask E e w;
               progress = (case ie_installType e of
                             InstallType.SYS_INSTALLER \<Rightarrow> Progress_default\<lparr>pr_status := UpgradeStatus.INSTALLING\<rparr>
                           | InstallType.UPDATER \<Rightarrow> Progress_default\<lparr>pr_status := UpgradeStatus.UPDATING\<rparr>
                           | _ \<Rightarrow> Progress_default);
               w = UpdateTaskProgress E (ft_taskId (ie_tasks e)) (pr_status progress) (pr_percent progress) w;
               w = foldl (\<lambda>w c. UpdateComponentProgress E (fc_url c) (pr_status progress) (pr_percent progress) w) w
                     (ie_components e)
           in map_option snd
                (StartInstall E SI (\<lambda>s. snd (snd s)) (ie_installType e) (ie_components e)
                  (executor_install_callback E cb) FirmwareInstall_new (e, f, w))))"

section \<open>FirmwareApplyExecutor\<close>

text \<open>The flag of the result says that the device is rebooted.\<close>

definition ApplyExecutor_DoInstall ::
  "'x Platform \<Rightarrow> (bool \<Rightarrow> 'f \<Rightarrow> 'x World \<Rightarrow> ('f \<times> 'x World) option) \<Rightarrow> 'f \<Rightarrow> 'x World \<Rightarrow>
   (bool \<times> 'f \<times> 'x World) option" where
  "ApplyExecutor_DoInstall E applyCallback f w =
     (if QueryAllComponents E w = [] then map_option (Pair False) (applyCallback False f w)
      else let task = QueryTask E FirmwareTask_default w
           in Some (True, f, UpdateTaskProgress E (ft_taskId task) UpgradeStatus.UPDATING 0 w))"

section \<open>FirmwareInstallDataProcessor\<close>

text \<open>
  The space check multiplies a 64 bit size by the single precision constant 0.2 and adds the
  reserve, both in single precision, and cuts the result down to an integer. A finite value is
  held here as an integer multiple of a power of two: rounding to 24 significant bits, ties to
  even, commutes with scaling by it, and sizes are far from the limits of the exponent.
\<close>

definition round24 :: "nat \<Rightarrow> nat" where
  "round24 n =
     (let e = floorlog 2 n - 24; q = n div 2 ^ e; r = n mod 2 ^ e
      in if 2 * r > 2 ^ e \<or> 2 * r = 2 ^ e \<and> odd q then (q + 1) * 2 ^ e else q * 2 ^ e)"

definition float32 :: "int \<Rightarrow> int" where
  "float32 i = sgn i * int (round24 (nat \<bar>i\<bar>))"

definition SPACE_OFFSET :: int64_t where
  "SPACE_OFFSET = 100 * 1024 * 1024"

text \<open>0.2 in single precision is 13421773 times 2 to the power of -26.\<close>

definition COMPRESSION_RATIO :: int where
  "COMPRESSION_RATIO = 13421773"

definition install_space :: "int64_t \<Rightarrow> int64_t" where
  "install_space requireTotalSize =
     (let product = float32 (float32 (sint requireTotalSize) * COMPRESSION_RATIO);
          total = float32 (product + float32 (sint SPACE_OFFSET) * 2 ^ 26)
      in of_int (total sdiv 2 ^ 26))"

record FirmwareInstallDataProcessor =
  id_tasks :: FirmwareTask

definition Install_IsSpaceEnough :: "'x Platform \<Rightarrow> int64_t \<Rightarrow> 'x World \<Rightarrow> bool \<times> int64_t" where
  "Install_IsSpaceEnough E requireTotalSize w =
     (let requireTotalSize = foldl (\<lambda>r c. r + fc_size c) requireTotalSize (QueryAllComponents E w)
      in (FirmwareFileUtils_IsSpaceEnough E (install_space requireTotalSize) w, requireTotalSize))"

definition HasInstallSuccess ::
  "'x Platform \<Rightarrow> FirmwareInstallDataProcessor \<Rightarrow> 'x World \<Rightarrow> bool \<times> FirmwareInstallDataProcessor" where
  "HasInstallSuccess E d w =
     (let d = d\<lparr>id_tasks := QueryTask E (id_tasks d) w\<rparr>
      in (ft_status (id_tasks d) = UpgradeStatus.INSTALL_SUCCESS, d))"

definition HasUpdateSuccess ::
  "'x Platform \<Rightarrow> FirmwareInstallDataProcessor \<Rightarrow> 'x World \<Rightarrow> bool \<times> FirmwareInstallDataProcessor" where
  "HasUpdateSuccess E d w =
     (let d = d\<lparr>id_tasks := QueryTask E (id_tasks d) w\<rparr>
      in (ft_status (id_tasks d) = UpgradeStatus.UPDATE_SUCCESS, d))"

definition InstallProcessor_GetTask ::
  "'x Platform \<Rightarrow> FirmwareInstallDataProcessor \<Rightarrow> 'x World \<Rightarrow> FirmwareInstallDataProcessor" where
  "InstallProcessor_GetTask E d w =
     (if \<not> ft_isExistTask (id_tasks d) then d\<lparr>id_tasks := QueryTask E (id_tasks d) w\<rparr> else d)"

definition InstallProcessor_SetInstallResult ::
  "'x Platform \<Rightarrow> InstallCallbackInfo \<Rightarrow> FirmwareInstallDataProcessor \<Rightarrow> 'x World \<Rightarrow>
   FirmwareInstallDataProcessor \<times> 'x World" where
  "InstallProcessor_SetInstallResult E info d w =
     (let progress = ic_progress info;
          d = InstallProcessor_GetTask E d w
      in if pr_status progress = UpgradeStatus.UPDATE_FAIL \<or> pr_status progress = UpgradeStatus.INSTALL_FAIL
         then (d, NotifyEvent (ft_taskId (id_tasks d)) EVENT_UPGRADE_FAIL (pr_status progress) (ic_errorMessage info) [] w)
         else (d, ProgressCallback (ft_taskId (id_tasks d)) progress w))"

definition IsUpgradeFileCheckSuccess :: "'x Platform \<Rightarrow> 'x World \<Rightarrow> bool" where
  "IsUpgradeFileCheckSuccess E w = IsUpgradePackagesReady E (QueryAllComponents E w) w"

section \<open>FirmwareInstallApplyMode\<close>

record FirmwareInstallApplyMode =
  im_processor :: FirmwareInstallDataProcessor
  im_upgradeOptions :: UpgradeOptions
  im_businessError :: BusinessError
  im_installType :: InstallType
  im_tasks :: FirmwareTask

definition MANUAL_UPGRADE_BATTERY_LEVEL :: int32_t where
  "MANUAL_UPGRADE_BATTERY_LEVEL = 30"

definition FirmwareInstallApplyMode_new ::
  "UpgradeOptions \<Rightarrow> BusinessError \<Rightarrow> InstallType \<Rightarrow> FirmwareInstallApplyMode" where
  "FirmwareInstallApplyMode_new options businessError installType =
     \<lparr>im_processor = \<lparr>id_tasks = FirmwareTask_default\<rparr>, im_upgradeOptions = options,
      im_businessError = businessError, im_installType = installType, im_tasks = FirmwareTask_default\<rparr>"

definition install_refused :: "string \<Rightarrow> FirmwareInstallApplyMode \<Rightarrow> FirmwareInstallApplyMode" where
  "install_refused msg m = m\<lparr>im_businessError := Build CallResult.FAIL msg (im_businessError m)\<rparr>"

definition InstallMode_GetTask :: "'x Platform \<Rightarrow> FirmwareInstallApplyMode \<Rightarrow> 'x World \<Rightarrow> FirmwareInstallApplyMode" where
  "InstallMode_GetTask E m w =
     (if \<not> ft_isExistTask (im_tasks m) then m\<lparr>im_tasks := QueryTask E (im_tasks m) w\<rparr> else m)"

definition IsAllowInstall ::
  "'x Platform \<Rightarrow> FirmwareInstallApplyMode \<Rightarrow> 'x World \<Rightarrow> bool \<times> FirmwareInstallApplyMode" where
  "IsAllowInstall E m w =
     (let (isSpaceEnough, requireTotalSize) = Install_IsSpaceEnough E 0 w
      in if \<not> isSpaceEnough then
           (let m = install_refused ''install condition fail!'' m
            in (False, m\<lparr>im_businessError :=
                 AddErrorMessage DUPDATE_ERR_NO_ENOUGH_MEMORY (to_string64 requireTotalSize) (im_businessError m)\<rparr>))
         else if \<not> IsBatteryEnough MANUAL_UPGRADE_BATTERY_LEVEL then
           (let m = install_refused ''install condition fail!'' m
            in (False, m\<lparr>im_businessError :=
                 AddErrorMessage DUPDATE_ERR_LOW_BATTERY_LEVEL ''battery is low'' (im_businessError m)\<rparr>))
         else (True, m))"

definition IsUpgradeFilesReady ::
  "'x Platform \<Rightarrow> FirmwareInstallApplyMode \<Rightarrow> 'x World \<Rightarrow> bool \<times> FirmwareInstallApplyMode \<times> 'x World" where
  "IsUpgradeFilesReady E m w =
     (if IsUpgradeFileCheckSuccess E w then (True, m, w)
      else let m = install_refused ''check component failed'' m;
               m = m\<lparr>im_businessError :=
                 AddErrorMessage DUPDATE_ERR_UPDATE_PRECHECK_FAIL ''check component failed'' (im_businessError m)\<rparr>
           in (False, m, ClearFirmwareInfo E w))"

definition GetStepForInstallAndApplyOrder ::
  "'x Platform \<Rightarrow> FirmwareInstallApplyMode \<Rightarrow> 'x World \<Rightarrow> FirmwareStep \<times> FirmwareInstallApplyMode \<times> 'x World" where
  "GetStepForInstallAndApplyOrder E m w =
     (if ft_status (im_tasks m) \<noteq> UpgradeStatus.DOWNLOAD_SUCCESS
      then (FirmwareStep.COMPLETE, install_refused ''status error!'' m, w)
      else let (allowed, m) = IsAllowInstall E m w
      in if \<not> allowed then (FirmwareStep.COMPLETE, m, w)
      else let (ready, m, w) = IsUpgradeFilesReady E m w
      in if \<not> ready then (FirmwareStep.COMPLETE, m, w)
      else (FirmwareStep.INSTALL_STEP, m, w))"

definition Install_GetStepAfterInit ::
  "'x Platform \<Rightarrow> FirmwareInstallApplyMode \<Rightarrow> 'x World \<Rightarrow> FirmwareStep \<times> FirmwareInstallApplyMode \<times> 'x World" where
  "Install_GetStepAfterInit E m w =
     (let m = InstallMode_GetTask E m w; order = uo_order (im_upgradeOptions m)
      in if \<not> ft_isExistTask (im_tasks m) then (FirmwareStep.COMPLETE, install_refused ''no task!'' m, w)
      else if order = Order.INSTALL \<or> order = Order.INSTALL_AND_APPLY then GetStepForInstallAndApplyOrder E m w
      else if order = Order.APPLY then (FirmwareStep.APPLY_STEP, m, w)
      else (FirmwareStep.COMPLETE, install_refused ''upgradeOptions error'' m, w))"

definition GetStepAfterInstall ::
  "'x Platform \<Rightarrow> FirmwareInstallApplyMode \<Rightarrow> 'x World \<Rightarrow> FirmwareStep \<times> FirmwareInstallApplyMode \<times> 'x World" where
  "GetStepAfterInstall E m w =
     (let (success, d) = HasInstallSuccess E (im_processor m) w; m = m\<lparr>im_processor := d\<rparr>
      in (FirmwareStep.COMPLETE, m, if \<not> success then ClearFirmwareInfo E w else w))"

definition Install_GetNextStep ::
  "'x Platform \<Rightarrow> FirmwareStep \<Rightarrow> FirmwareInstallApplyMode \<Rightarrow> 'x World \<Rightarrow>
   FirmwareStep \<times> FirmwareInstallApplyMode \<times> 'x World" where
  "Install_GetNextStep E step m w =
     (case step of
        FirmwareStep.INIT \<Rightarrow> Install_GetStepAfterInit E m w
      | FirmwareStep.INSTALL_STEP \<Rightarrow> GetStepAfterInstall E m w
      | _ \<Rightarrow> (FirmwareStep.COMPLETE, m, w))"

definition Install_SetInstallResult ::
  "'x Platform \<Rightarrow> InstallCallbackInfo \<Rightarrow> FirmwareInstallApplyMode \<Rightarrow> 'x World \<Rightarrow>
   FirmwareInstallApplyMode \<times> 'x World" where
  "Install_SetInstallResult E info m w =
     (let (d, w) = InstallProcessor_SetInstallResult E info (im_processor m) w
      in (m\<lparr>im_processor := d\<rparr>, w))"

section \<open>How far the space check is off\<close>

lemma round24_error: "2 ^ 24 * \<bar>int (round24 n) - int n\<bar> \<le> int n"
proof (cases "floorlog 2 n \<le> 24")
  case True
  then show ?thesis by (simp add: round24_def)
next
  case False
  define e where "e = floorlog 2 n - 24"
  define m where "m = (2 :: nat) ^ e"
  define q where "q = n div m"
  define r where "r = n mod m"
  have "0 < n" using False by (cases n) (simp_all add: floorlog_def)
  then have "2 ^ (floorlog 2 n - 1) \<le> n" using floorlog_bounds [of n 2] by simp
  moreover have "floorlog 2 n - 1 = 23 + e" using False by (simp add: e_def)
  ultimately have big: "2 ^ 23 * m \<le> n" by (simp add: m_def power_add)
  have n: "n = q * m + r" "r < m" by (simp_all add: q_def r_def mult.commute) (simp add: m_def)
  have "round24 n = (if 2 * r > m \<or> 2 * r = m \<and> odd q then (q + 1) * m else q * m)"
    by (simp add: round24_def Let_def e_def m_def q_def r_def)
  then have "2 * \<bar>int (round24 n) - int n\<bar> \<le> int m"
    using n by (auto simp: distrib_right)
  then show ?thesis using big by simp
qed

lemma float32_error:
  assumes "0 \<le> i"
  shows "16777216 * float32 i \<le> 16777217 * i" "16777215 * i \<le> 16777216 * float32 i"
proof -
  have "2 ^ 24 * \<bar>float32 i - i\<bar> \<le> i"
    using round24_error [of "nat i"] assms by (cases "i = 0") (simp_all add: float32_def round24_def)
  then show "16777216 * float32 i \<le> 16777217 * i" "16777215 * i \<le> 16777216 * float32 i"
    by (simp_all add: abs_if split: if_splits)
qed

lemma float32_nonneg: "0 \<le> i \<Longrightarrow> 0 \<le> float32 i"
  by (cases "i = 0") (simp_all add: float32_def)

lemma round24_exact:
  assumes "k < 2 ^ 24"
  shows "round24 (k * 2 ^ j) = k * 2 ^ j"
proof -
  have "floorlog 2 (k * 2 ^ j) \<le> 24 + j" using assms by (intro floorlog_leI) (simp_all add: power_add)
  then have "2 ^ (floorlog 2 (k * 2 ^ j) - 24) dvd k * (2 ^ j :: nat)"
    by (intro dvd_mult le_imp_power_dvd) simp
  then show ?thesis by (simp add: round24_def Let_def dvd_eq_mod_eq_0)
qed

lemma float32_offset: "float32 (sint SPACE_OFFSET) = 104857600"
  using round24_exact [of 100 20] by (simp add: SPACE_OFFSET_def float32_def)

lemma install_space_int:
  assumes "0 \<le> sint t" and "sint t < 2 ^ 50"
  shows "0 \<le> sint (install_space t) \<and>
    2 ^ 22 * \<bar>5 * sint (install_space t) - (sint t + 5 * 104857600)\<bar> \<le> sint t + 5 * 104857600 + 5 * 2 ^ 22"
proof -
  define S where "S = float32 (sint t)"
  define P where "P = float32 (S * 13421773)"
  define U where "U = float32 (P + 104857600 * 2 ^ 26)"
  have S: "0 \<le> S" "16777216 * S \<le> 16777217 * sint t" "16777215 * sint t \<le> 16777216 * S"
    using float32_error [OF assms(1)] float32_nonneg [OF assms(1)] by (simp_all add: S_def)
  have P: "0 \<le> P" "16777216 * P \<le> 16777217 * (S * 13421773)" "16777215 * (S * 13421773) \<le> 16777216 * P"
    using float32_error [of "S * 13421773"] float32_nonneg [of "S * 13421773"] S by (simp_all add: P_def)
  have U: "0 \<le> U" "16777216 * U \<le> 16777217 * (P + 104857600 * 2 ^ 26)"
    "16777215 * (P + 104857600 * 2 ^ 26) \<le> 16777216 * U"
    using float32_error [of "P + 104857600 * 2 ^ 26"] float32_nonneg [of "P + 104857600 * 2 ^ 26"] P
    by (simp_all add: U_def)
  define R where "R = U div 2 ^ 26"
  have R: "0 \<le> R" "2 ^ 26 * R \<le> U" "U < 2 ^ 26 * R + 2 ^ 26"
    using U by (simp_all add: R_def pos_imp_zdiv_nonneg_iff)
  have space: "install_space t = of_int R"
    using sdiv_nonneg [OF U(1), of "2 ^ 26"]
    by (simp add: install_space_def COMPRESSION_RATIO_def float32_offset R_def U_def P_def S_def Let_def)
  have "4194304 * (5 * R - (sint t + 5 * 104857600)) \<le> sint t + 5 * 104857600 + 5 * 4194304"
    using S P U R assms by simp
  moreover have "4194304 * (sint t + 5 * 104857600 - 5 * R) \<le> sint t + 5 * 104857600 + 5 * 4194304"
    using S P U R assms by simp
  ultimately have lin: "2 ^ 22 * \<bar>5 * R - (sint t + 5 * 104857600)\<bar> \<le> sint t + 5 * 104857600 + 5 * 2 ^ 22"
    by (simp add: abs_if)
  then have "R < 2 ^ 63" using assms R(1) by (simp add: abs_if split: if_splits)
  then have "sint (install_space t) = R" using R(1) by (simp add: space sint_id64)
  then show ?thesis using lin R(1) by simp
qed

text \<open>
  C35. The installation asks for a fifth of the packages plus 100 MiB. The code computes this in
  single precision; for packages below one pebibyte in total the size it compares with the
  free space is off by less than one part in four million, plus one byte for the cut.
\<close>

theorem install_space_accuracy:
  assumes "0 \<le> sint n" and "sint n < 2 ^ 50"
  shows "2 ^ 22 * \<bar>5 * sint (install_space n) - (sint n + 5 * sint SPACE_OFFSET)\<bar>
    \<le> sint n + 5 * sint SPACE_OFFSET + 5 * 2 ^ 22"
  using install_space_int [OF assms] by (simp add: SPACE_OFFSET_def)

theorem install_space_accuracy_witness:
  "2 ^ 22 * \<bar>5 * sint (install_space 123456789) - (123456789 + 5 * 104857600)\<bar>
    \<le> (123456789 + 5 * 104857600 + 5 * 2 ^ 22 :: int)"
  using install_space_accuracy [of 123456789] by (simp add: SPACE_OFFSET_def)

section \<open>What an installer asks of its callbacks\<close>

text \<open>
  A progress callback that always returns and keeps an invariant, whatever the installer
  reports; and, on top of it, the callbacks for the start and for the result.
\<close>

locale install_progress =
  fixes cb :: "'s FirmwareInstallCallback"
    and Inv :: "'s \<Rightarrow> bool"
  assumes progress: "Inv s \<Longrightarrow> us.wf (fc_status c) \<Longrightarrow> \<exists>s'. onFirmwareProgress cb c s = Some s' \<and> Inv s'"
begin

lemma report_status: "us.wf (pr_status (ip_progress (OnUpgradeProgress SI st p m)))"
  by (simp add: OnUpgradeProgress_def Let_def us.wf_named enum_simps)

lemma sys_reports_returns:
  assumes "Inv s"
  shows "\<exists>obj' s'. sys_reports SI cb c rs obj s = Some (obj', s') \<and> Inv s' \<and>
    (rs = [] \<longrightarrow> obj' = obj) \<and> fi_isInstalling obj' = fi_isInstalling obj"
  using assms
proof (induction rs arbitrary: obj s)
  case Nil
  then show ?case by simp
next
  case (Cons r rs)
  obtain st p m where r: "r = (st, p, m)" by (cases r) auto
  let ?p = "OnUpgradeProgress SI st p m"
  let ?c = "c\<lparr>fc_status := pr_status (ip_progress ?p), fc_progress := pr_percent (ip_progress ?p)\<rparr>"
  let ?obj = "obj\<lparr>fi_sysInstallProgress := ip_progress ?p, fi_errMsg := ip_errMsg ?p\<rparr>"
  obtain s1 where s1: "onFirmwareProgress cb ?c s = Some s1" "Inv s1"
    using progress [OF Cons.prems, of ?c] report_status by auto
  show ?case using Cons.IH [OF s1(2), of ?obj] s1 by (auto simp: r sys_callback_def)
qed

lemma next_uint32: "(t :: uint32_t) \<noteq> - 1 \<Longrightarrow> unat (t + 1) = unat t + 1"
  by (metis Suc_eq_plus1 add.commute add_neg_numeral_special(7) diff_zero eq_diff_eq unatSuc)

lemma wait_loop_returns:
  assumes "Inv s" and "si_abInstallTimeout SI \<noteq> - 1" and "timeout \<le> si_abInstallTimeout SI + 1"
  shows "\<exists>ret obj' s'. wait_loop SI cb c timeout reports obj s = Some (ret, obj', s') \<and> Inv s' \<and>
    ret \<in> {si_OHOS_SUCCESS SI, si_OHOS_FAILURE SI} \<and>
    (si_OHOS_SUCCESS SI \<noteq> si_OHOS_FAILURE SI \<and> ret = si_OHOS_SUCCESS SI \<longrightarrow> pr_status (fi_sysInstallProgress obj') = UpgradeStatus.INSTALL_SUCCESS \<and>
       pr_percent (fi_sysInstallProgress obj') = ONE_HUNDRED)"
  using assms(1,3)
proof (induction "unat (si_abInstallTimeout SI + 1) - unat timeout" arbitrary: timeout reports obj s rule: less_induct)
  case less
  show ?case
  proof (cases "timeout \<le> si_abInstallTimeout SI")
    case False
    then show ?thesis using less.prems by (subst wait_loop.simps) auto
  next
    case True
    have "timeout \<noteq> - 1" using True assms(2) by (metis word_order.extremum_unique)
    note count = next_uint32 [OF assms(2)] next_uint32 [OF this]
    let ?rs = "case reports of [] \<Rightarrow> [] | rs # _ \<Rightarrow> rs"
    obtain obj1 s1 where r: "sys_reports SI cb c ?rs obj s = Some (obj1, s1)" and inv: "Inv s1"
      using sys_reports_returns [OF less.prems(1)] by blast
    have "unat (si_abInstallTimeout SI + 1) - unat (timeout + 1) < unat (si_abInstallTimeout SI + 1) - unat timeout"
      "timeout + 1 \<le> si_abInstallTimeout SI + 1"
      using True count by (simp_all add: word_le_nat_alt)
    note ih = less.hyps [OF this(1) inv this(2), of "tl reports" obj1]
    show ?thesis using True r inv ih by (subst wait_loop.simps) auto
  qed
qed

lemma DoSysInstall_returns:
  assumes "Inv s" and "si_abInstallTimeout SI \<noteq> - 1"
  shows "\<exists>ret obj' s'. DoSysInstall SI cb c obj s = Some (ret, obj', s') \<and> Inv s'"
  using assms wait_loop_returns [OF assms, of 0 c "si_reports SI" "InitInstallProgress obj"]
  by (auto simp: DoSysInstall_def WaitInstallResult_def Let_def)

end

locale install_client = install_progress cb Inv
  for cb :: "'s FirmwareInstallCallback" and Inv :: "'s \<Rightarrow> bool" +
  fixes Fin :: "bool \<Rightarrow> 's \<Rightarrow> bool"
  assumes status: "Inv s \<Longrightarrow> \<exists>s'. onFirmwareStatus cb st s = Some s' \<and> Inv s'"
    and event: "Inv s \<Longrightarrow> \<exists>s'. onFirmwareEvent cb result errMsg s = Some s' \<and> Fin result s'"
begin

lemma PerformInstall_returns:
  assumes "Inv s" and "si_abInstallTimeout SI \<noteq> - 1"
  shows "\<exists>result obj' s'. PerformInstall type SI cb cs obj s = Some (result, obj', s') \<and> Inv s'"
proof -
  obtain s1 where s1: "onFirmwareStatus cb UpgradeStatus.INSTALLING s = Some s1" "Inv s1"
    using status [OF assms(1)] by blast
  obtain s2 where s2: "onFirmwareStatus cb UpgradeStatus.UPDATING s = Some s2" "Inv s2"
    using status [OF assms(1)] by blast
  show ?thesis
  proof (cases "type = InstallType.SYS_INSTALLER")
    case True
    then show ?thesis
      using assms s1 DoSysInstall_returns [OF s1(2) assms(2), of "hd cs" obj] by (cases cs) auto
  next
    case False
    then have "PerformInstall type = (Updater_PerformInstall :: SysInstaller \<Rightarrow> 's FirmwareInstallCallback \<Rightarrow> _)"
      by (cases type) (simp_all add: fun_eq_iff)
    then show ?thesis using s2 by (auto simp: Updater_PerformInstall_def split_beta Let_def)
  qed
qed

lemma StartInstall_returns:
  assumes "Inv s" and "si_abInstallTimeout SI \<noteq> - 1"
  shows "\<exists>result obj' s'. StartInstall E SI wd type cs cb obj s = Some (obj', s') \<and> Fin result s'"
proof -
  obtain result obj1 s1 where p: "PerformInstall type SI cb cs (obj\<lparr>fi_isInstalling := True\<rparr>) s = Some (result, obj1, s1)"
    and "Inv s1" using PerformInstall_returns [OF assms] by blast
  then obtain s2 where "onFirmwareEvent cb result (fi_errMsg obj1) s1 = Some s2" "Fin result s2"
    using event by blast
  then show ?thesis
    using p event [OF assms(1), of False "\<lparr>er_errorCode = DUPDATE_ERR_SYSTEM_BUSY_ON_INSTALL, er_errorMsg = ''install is busying''\<rparr>"]
      event [OF assms(1), of False "\<lparr>er_errorCode = DUPDATE_ERR_UPDATE_PRECHECK_FAIL, er_errorMsg = ''check component failed!''\<rparr>"]
    by (fastforce simp: StartInstall_def CallbackFailedResult_def CallbackResult_def Let_def)
qed

end

lemma wait_loop_silent:
  assumes "wait_loop SI cb c timeout reports obj s = Some r"
  shows "\<not> (si_abInstallTimeout SI = - 1 \<and> reports = [] \<and>
    pr_status (fi_sysInstallProgress obj) = UpgradeStatus.INSTALLING)"
  by (rule wait_loop.raw_induct [OF _ assms]) (fastforce split: if_splits)

text \<open>
  C34. Waiting for the system installer ends for every limit but the largest: with a progress
  callback that returns, the wait gives a result, and success only when the last report was a
  success at 100 percent. With the largest 32 bit limit the counter never passes it, and an
  installer that reports nothing is waited for without end.
\<close>

theorem wait_install_result:
  assumes "\<forall>c s. onFirmwareProgress cb c s \<noteq> None" and "si_OHOS_SUCCESS SI \<noteq> si_OHOS_FAILURE SI"
  shows "(si_abInstallTimeout SI \<noteq> - 1 \<longrightarrow>
      (\<exists>ret obj' s'. WaitInstallResult SI cb c obj s = Some (ret, obj', s') \<and>
        ret \<in> {si_OHOS_SUCCESS SI, si_OHOS_FAILURE SI} \<and>
        (ret = si_OHOS_SUCCESS SI \<longrightarrow> pr_status (fi_sysInstallProgress obj') = UpgradeStatus.INSTALL_SUCCESS \<and>
           pr_percent (fi_sysInstallProgress obj') = 100))) \<and>
    (si_abInstallTimeout SI = - 1 \<and> si_reports SI = [] \<longrightarrow>
      WaitInstallResult SI cb c (InitInstallProgress obj) s = None)"
proof -
  have "install_progress cb (\<lambda>_. True)" using assms(1) by unfold_locales auto
  note ends = install_progress.wait_loop_returns [OF this TrueI, of SI 0]
  have silent: "si_abInstallTimeout SI = - 1 \<Longrightarrow> si_reports SI = [] \<Longrightarrow>
      WaitInstallResult SI cb c (InitInstallProgress obj) s = None"
    using wait_loop_silent [of SI cb c 0 "[]" "InitInstallProgress obj" s]
    by (auto simp: WaitInstallResult_def InitInstallProgress_def intro: option.exhaust)
  show ?thesis using ends silent assms(2) by (auto simp: WaitInstallResult_def ONE_HUNDRED_def)
qed

definition sample_installer :: "(int32_t \<times> int32_t \<times> string) list list \<Rightarrow> uint32_t \<Rightarrow> SysInstaller" where
  "sample_installer reports limit =
     \<lparr>si_OHOS_SUCCESS = 0, si_OHOS_FAILURE = - 1, si_UPDATE_STATE_INIT = 0, si_UPDATE_STATE_ONGOING = 1,
      si_UPDATE_STATE_SUCCESSFUL = 2, si_SysInstallerInit = 0,
      si_GetUpdateStatus = 0, si_SetUpdateCallback = 0, si_StartUpdatePackageZip = \<lambda>_. 0, si_reports = reports,
      si_abInstallTimeout = limit, si_RebootAndInstallUpgradePackage = \<lambda>_ _. True\<rparr>"

definition counting_callback :: "nat FirmwareInstallCallback" where
  "counting_callback = \<lparr>onFirmwareProgress = \<lambda>_ n. Some (n + 1), onFirmwareEvent = \<lambda>_ _ n. Some n,
     onFirmwareStatus = \<lambda>_ n. Some n\<rparr>"

theorem wait_install_result_witness:
  "(\<exists>r. WaitInstallResult (sample_installer [[(1, 50, [])], [], [(2, 100, [])]] 1200) counting_callback
      FirmwareComponent_default FirmwareInstall_new 0 = Some r) \<and>
   WaitInstallResult (sample_installer [] (- 1)) counting_callback
      FirmwareComponent_default (InitInstallProgress FirmwareInstall_new) 0 = None"
proof -
  have cb: "\<forall>c s. onFirmwareProgress counting_callback c s \<noteq> None" by (simp add: counting_callback_def)
  show ?thesis
    using wait_install_result [OF cb, of "sample_installer [[(1, 50, [])], [], [(2, 100, [])]] 1200"
        FirmwareComponent_default FirmwareInstall_new 0]
      wait_install_result [OF cb, of "sample_installer [] (- 1)" FirmwareComponent_default FirmwareInstall_new 0]
    by (auto simp: sample_installer_def)
qed

section \<open>The executor as client of the installer\<close>

definition record_install ::
  "InstallCallbackInfo \<Rightarrow> InstallCallbackInfo list \<Rightarrow> 'x World \<Rightarrow> (InstallCallbackInfo list \<times> 'x World) option" where
  "record_install info infos w = Some (infos @ [info], w)"

text \<open>
  While an installation runs there is one task, changed in status and progress only; at its end
  the row holds what the client was told last.
\<close>

definition executor_inv ::
  "('x \<Rightarrow> string \<Rightarrow> ValuesBucket list) \<Rightarrow> InstallType \<Rightarrow> FirmwareTask \<Rightarrow>
   (InstallCallbackInfo list, 'x) install_state \<Rightarrow> bool" where
  "executor_inv rows ty t = (\<lambda>(e, infos, w). w_typed rows w \<and> ty \<noteq> InstallType.QUICK_FIX \<and>
     ie_installType e = ty \<and> ft_taskId (ie_tasks e) = ft_taskId t \<and>
     (\<exists>st p. w_tasks rows w = [t\<lparr>ft_status := st, ft_progress := p\<rparr>]))"

definition install_outcome :: "InstallType \<Rightarrow> bool \<Rightarrow> UpgradeStatus" where
  "install_outcome ty result =
     (if result then UpgradeStatus.INSTALL_SUCCESS
      else if ty = InstallType.SYS_INSTALLER then UpgradeStatus.INSTALL_FAIL else UpgradeStatus.UPDATE_FAIL)"

definition executor_fin ::
  "('x \<Rightarrow> string \<Rightarrow> ValuesBucket list) \<Rightarrow> InstallType \<Rightarrow> FirmwareTask \<Rightarrow> bool \<Rightarrow>
   (InstallCallbackInfo list, 'x) install_state \<Rightarrow> bool" where
  "executor_fin rows ty t result = (\<lambda>(e, infos, w). infos \<noteq> [] \<and> w_typed rows w \<and>
     pr_status (ic_progress (last infos)) = install_outcome ty result \<and>
     (result \<longrightarrow> pr_percent (ic_progress (last infos)) = 100) \<and>
     w_tasks rows w = [t\<lparr>ft_status := pr_status (ic_progress (last infos)),
                         ft_progress := pr_percent (ic_progress (last infos))\<rparr>])"

context platform
begin

lemma one_task_progress:
  assumes "w_typed rows w" and "us.wf st" and "w_tasks rows w = [t\<lparr>ft_status := st0, ft_progress := p0\<rparr>]"
  shows "w_typed rows (UpdateTaskProgress E (ft_taskId t) st p w) \<and>
    w_components rows (UpdateTaskProgress E (ft_taskId t) st p w) = w_components rows w \<and>
    w_tasks rows (UpdateTaskProgress E (ft_taskId t) st p w) = [t\<lparr>ft_status := st, ft_progress := p\<rparr>]"
  using fw.task_progress [OF assms(1,2), of "ft_taskId t" p] assms(3) by simp

lemma executor_progress:
  assumes "executor_inv rows ty t (e, infos, w)" and "us.wf (pr_status p)"
  shows "\<exists>s'. HandleInstallProgress E record_install c p (e, infos, w) = Some s' \<and> executor_inv rows ty t s'"
proof -
  let ?v = "UpdateComponentProgress E (fc_url c) (pr_status p) (pr_percent p) w"
  obtain st0 p0 where inv: "w_typed rows w" "w_tasks rows w = [t\<lparr>ft_status := st0, ft_progress := p0\<rparr>]"
    using assms(1) by (auto simp: executor_inv_def)
  then have v: "w_typed rows ?v" "w_tasks rows ?v = [t\<lparr>ft_status := st0, ft_progress := p0\<rparr>]"
    using fw.component_progress [OF inv(1) assms(2), of "fc_url c" "pr_percent p"] by simp_all
  show ?thesis
    using one_task_progress [OF v(1) assms(2) v(2), of "pr_percent p"] assms(1)
    by (auto simp: HandleInstallProgress_def record_install_def executor_inv_def Let_def)
qed

lemma executor_result:
  assumes "executor_inv rows ty t (e, infos, w)"
  shows "\<exists>s'. HandleInstallResult E record_install result m (e, infos, w) = Some s' \<and> executor_fin rows ty t result s'"
proof -
  let ?p = "(if result then (ie_taskProgress e)\<lparr>pr_status := UpgradeStatus.INSTALL_SUCCESS, pr_percent := ONE_HUNDRED\<rparr>
    else (ie_taskProgress e)\<lparr>pr_status := install_outcome ty result\<rparr>)"
  have wf: "us.wf (pr_status ?p)" by (simp add: install_outcome_def us.wf_named enum_simps)
  obtain st0 p0 where inv: "w_typed rows w" "w_tasks rows w = [t\<lparr>ft_status := st0, ft_progress := p0\<rparr>]"
    and e: "ie_installType e = ty" "ty \<noteq> InstallType.QUICK_FIX" "ft_taskId (ie_tasks e) = ft_taskId t"
    using assms by (auto simp: executor_inv_def)
  show ?thesis
    using one_task_progress [OF inv(1) wf inv(2), of "pr_percent ?p"] e
    by (cases ty) (auto simp: HandleInstallResult_def record_install_def executor_fin_def install_outcome_def
        ONE_HUNDRED_def Let_def)
qed

end

sublocale platform \<subseteq> ic: install_client "executor_install_callback E record_install"
  "executor_inv rows ty t" "executor_fin rows ty t" for ty t
proof (unfold_locales, goal_cases)
  case (1 s c)
  then show ?case
    using executor_progress [of ty t "fst s" "fst (snd s)" "snd (snd s)"
        "Progress_default\<lparr>pr_status := fc_status c, pr_percent := fc_progress c\<rparr>" c]
    by (simp add: executor_install_callback_def)
next
  case (2 s st)
  then show ?case by (auto simp: executor_install_callback_def executor_inv_def split_beta)
next
  case (3 s result m)
  then show ?case
    using executor_result [of ty t "fst s" "fst (snd s)" "snd (snd s)" result m]
    by (simp add: executor_install_callback_def)
qed

context platform
begin

lemma install_run:
  assumes typed: "w_typed rows w" and task: "w_tasks rows w = [t]" and cs: "w_components rows w \<noteq> []"
    and ty: "ty \<noteq> InstallType.QUICK_FIX" and limit: "si_abInstallTimeout SI \<noteq> - 1"
  shows "\<exists>result s'. InstallExecutor_DoInstall E SI record_install (FirmwareInstallExecutor_new ty, [], w) = Some s' \<and>
    executor_fin rows ty t result s'"
proof -
  define st where "st = (if ty = InstallType.SYS_INSTALLER then UpgradeStatus.INSTALLING else UpgradeStatus.UPDATING)"
  define e where "e = (FirmwareInstallExecutor_new ty)
    \<lparr>ie_components := w_components rows w, ie_tasks := t\<lparr>ft_isExistTask := True\<rparr>\<rparr>"
  define v where "v = UpdateTaskProgress E (ft_taskId t) st 0 w"
  define u where "u = foldl (\<lambda>w c. UpdateComponentProgress E (fc_url c) st 0 w) v (w_components rows w)"
  have wf: "us.wf st" by (simp add: st_def us.wf_named enum_simps)
  have v: "w_typed rows v" "w_tasks rows v = [t\<lparr>ft_status := st, ft_progress := 0\<rparr>]"
    using one_task_progress [OF typed wf, where t = t and ?st0.0 = "ft_status t" and ?p0.0 = "ft_progress t" and p = 0] task
    by (simp_all add: v_def)
  have inv: "executor_inv rows ty t (e, [], u)"
    using fw.progress_loop [OF v(1) wf, of 0 "w_components rows w"] v ty
    by (auto simp: executor_inv_def u_def e_def FirmwareInstallExecutor_new_def)
  have "InstallExecutor_DoInstall E SI record_install (FirmwareInstallExecutor_new ty, [], w) =
      map_option snd (StartInstall E SI (\<lambda>s. snd (snd s)) ty (w_components rows w)
        (executor_install_callback E record_install) FirmwareInstall_new (e, [], u))"
    using cs task ty
    by (cases ty) (simp_all add: InstallExecutor_DoInstall_def InstallExecutor_GetTask_def query_all_components
        fw.task_query_Cons FirmwareInstallExecutor_new_def FirmwareTask_default_def Progress_default_def
        u_def v_def e_def st_def Let_def)
  then show ?thesis
    using ic.StartInstall_returns [OF inv limit, where type = ty and cs = "w_components rows w"
        and obj = FirmwareInstall_new and wd = "\<lambda>s. snd (snd s)" and E = E] by auto
qed

end


definition loaded_task :: FirmwareTask where
  "loaded_task = found_task\<lparr>ft_status := UpgradeStatus.DOWNLOAD_SUCCESS, ft_progress := 100\<rparr>"

lemma loaded_world_view:
  "w_typed md_rows (stored_world loaded_task [stored_package])"
  "w_tasks md_rows (stored_world loaded_task [stored_package]) = [loaded_task]"
  "w_components md_rows (stored_world loaded_task [stored_package]) = [stored_package]"
proof -
  have "task_storable loaded_task"
    using status_storable [OF found_task_storable, of UpgradeStatus.DOWNLOAD_SUCCESS]
    by (simp add: loaded_task_def task_storable_def us.wf_named enum_simps)
  from stored_world_db [OF this, of "[stored_package]"] stored_package_storable
  show "w_typed md_rows (stored_world loaded_task [stored_package])"
    "w_tasks md_rows (stored_world loaded_task [stored_package]) = [loaded_task]"
    "w_components md_rows (stored_world loaded_task [stored_package]) = [stored_package]"
    by (simp_all add: loaded_task_def found_task_def FirmwareTask_default_def)
qed


section \<open>When an installation may start\<close>

context platform
begin

lemma install_gate:
  assumes typed: "w_typed rows w"
    and step: "Install_GetStepAfterInit E (FirmwareInstallApplyMode_new options be ty) w = (step, m, w')"
  defines "order \<equiv> uo_order options"
  defines "asked \<equiv> w_tasks rows w \<noteq> [] \<and> (order = Order.INSTALL \<or> order = Order.INSTALL_AND_APPLY) \<and>
      ft_status (hd (w_tasks rows w)) = UpgradeStatus.DOWNLOAD_SUCCESS \<and> fst (Install_IsSpaceEnough E 0 w)"
  shows "(step = FirmwareStep.INSTALL_STEP \<longleftrightarrow> asked \<and> IsUpgradePackagesReady E (w_components rows w) w)"
    and "(step = FirmwareStep.APPLY_STEP \<longleftrightarrow> w_tasks rows w \<noteq> [] \<and> order = Order.APPLY)"
    and "step \<notin> {FirmwareStep.INSTALL_STEP, FirmwareStep.APPLY_STEP} \<longrightarrow>
      step = FirmwareStep.COMPLETE \<and> be_errorNum (im_businessError m) = CallResult.FAIL"
    and "w' = (if asked \<and> step = FirmwareStep.COMPLETE then ClearFirmwareInfo E w else w)"
proof -
  obtain ok n where sp: "Install_IsSpaceEnough E 0 w = (ok, n)" by force
  note defs = Install_GetStepAfterInit_def InstallMode_GetTask_def FirmwareInstallApplyMode_new_def
    fw.task_query FirmwareTask_default_def GetStepForInstallAndApplyOrder_def IsAllowInstall_def IsUpgradeFilesReady_def
    IsUpgradeFileCheckSuccess_def query_all_components install_refused_def Build_def AddErrorMessage_def
    IsBatteryEnough_def sp order_def asked_def Let_def
  show "(step = FirmwareStep.INSTALL_STEP \<longleftrightarrow> asked \<and> IsUpgradePackagesReady E (w_components rows w) w)"
    using step by (cases "w_tasks rows w") (auto simp: defs split: if_splits)
  show "(step = FirmwareStep.APPLY_STEP \<longleftrightarrow> w_tasks rows w \<noteq> [] \<and> order = Order.APPLY)"
    using step by (cases "w_tasks rows w") (auto simp: defs split: if_splits)
  show "step \<notin> {FirmwareStep.INSTALL_STEP, FirmwareStep.APPLY_STEP} \<longrightarrow>
      step = FirmwareStep.COMPLETE \<and> be_errorNum (im_businessError m) = CallResult.FAIL"
    using step by (cases "w_tasks rows w") (auto simp: defs split: if_splits)
  show "w' = (if asked \<and> step = FirmwareStep.COMPLETE then ClearFirmwareInfo E w else w)"
    using step by (cases "w_tasks rows w") (auto simp: defs split: if_splits)
qed

end

text \<open>
  C6. The guard of an installation. It starts exactly when a task is there, an installation is
  ordered, the download has succeeded, there is room, and every package file is present with
  its size. When only the files are wrong both tables are emptied; every other refusal leaves
  the tables alone, and every refusal is answered with an error. An order to apply is not
  guarded by the status of the task at all.
\<close>

theorem install_start_gate:
  assumes "platform E rows" and "w_typed rows w"
    and "Install_GetStepAfterInit E (FirmwareInstallApplyMode_new options be ty) w = (step, m, w')"
  shows "(step = FirmwareStep.INSTALL_STEP \<longleftrightarrow>
      w_tasks rows w \<noteq> [] \<and> uo_order options \<in> {Order.INSTALL, Order.INSTALL_AND_APPLY} \<and>
      ft_status (hd (w_tasks rows w)) = UpgradeStatus.DOWNLOAD_SUCCESS \<and> fst (Install_IsSpaceEnough E 0 w) \<and>
      w_components rows w \<noteq> [] \<and>
      list_all (\<lambda>c. IsFileExist E (fc_spath c) (w_ext w) \<and> GetFileSize E (fc_spath c) (w_ext w) = fc_size c)
        (w_components rows w)) \<and>
    (step = FirmwareStep.APPLY_STEP \<longleftrightarrow> w_tasks rows w \<noteq> [] \<and> uo_order options = Order.APPLY) \<and>
    (step \<in> {FirmwareStep.INSTALL_STEP, FirmwareStep.APPLY_STEP} \<or>
     step = FirmwareStep.COMPLETE \<and> be_errorNum (im_businessError m) = CallResult.FAIL) \<and>
    (if w_tasks rows w \<noteq> [] \<and> uo_order options \<in> {Order.INSTALL, Order.INSTALL_AND_APPLY} \<and>
        ft_status (hd (w_tasks rows w)) = UpgradeStatus.DOWNLOAD_SUCCESS \<and> fst (Install_IsSpaceEnough E 0 w) \<and>
        step = FirmwareStep.COMPLETE
     then w_tasks rows w' = [] \<and> w_components rows w' = [] else w' = w)"
proof -
  have ready: "IsUpgradePackagesReady E (w_components rows w) w \<longleftrightarrow> w_components rows w \<noteq> [] \<and>
      list_all (\<lambda>c. IsFileExist E (fc_spath c) (w_ext w) \<and> GetFileSize E (fc_spath c) (w_ext w) = fc_size c)
        (w_components rows w)"
    by (auto simp: IsUpgradePackagesReady_def list_all_iff)
  note gate = platform.install_gate [OF assms]
  show ?thesis
    using gate(1,2) gate(3) gate(4) platform.clear_db [OF assms(1,2)] by (auto simp: ready)
qed

theorem install_start_gate_witness:
  "fst (Install_GetStepAfterInit memory_device
     (FirmwareInstallApplyMode_new \<lparr>uo_order = Order.APPLY\<rparr> BusinessError_default InstallType.UPDATER)
     (stored_world loaded_task [stored_package])) = FirmwareStep.APPLY_STEP"
proof -
  let ?r = "Install_GetStepAfterInit memory_device
     (FirmwareInstallApplyMode_new \<lparr>uo_order = Order.APPLY\<rparr> BusinessError_default InstallType.UPDATER)
     (stored_world loaded_task [stored_package])"
  have r: "?r = (fst ?r, fst (snd ?r), snd (snd ?r))" by simp
  show ?thesis
    using install_start_gate [OF md.platform_axioms loaded_world_view(1) r] loaded_world_view(2) by simp
qed

end
