(* ===== verification/Firmware_Flow.thy ===== *)
theory Firmware_Flow
  imports Firmware_Install
begin

text \<open>
  The flow manager (\<open>firmware_flow_manager.cpp\<close>) that asks a mode for the next step, starts the
  executor of the step and takes its callbacks, over the three modes of the earlier theories.
  An executor is known by the step it was created for. A flow manager deletes itself when a
  check or a download completes; a callback that reaches it later is the use of a deleted
  object, and the result is \<open>None\<close>.
\<close>

section \<open>FirmwareIExecuteMode\<close>

datatype ExecuteMode =
    CheckMode FirmwareManualCheckMode
  | LoadMode FirmwareDownloadMode
  | InstallMode FirmwareInstallApplyMode

fun Mode_GetNextStep ::
  "'x Platform \<Rightarrow> FirmwareStep \<Rightarrow> ExecuteMode \<Rightarrow> 'x World \<Rightarrow> (FirmwareStep \<times> ExecuteMode \<times> 'x World) option" where
  "Mode_GetNextStep E step (CheckMode m) w =
     (let (step, m, w) = Check_GetNextStep E step m w in Some (step, CheckMode m, w))"
| "Mode_GetNextStep E step (LoadMode m) w =
     map_option (\<lambda>(step, m, w). (step, LoadMode m, w)) (Download_GetNextStep E step m w)"
| "Mode_GetNextStep E step (InstallMode m) w =
     (let (step, m, w) = Install_GetNextStep E step m w in Some (step, InstallMode m, w))"

fun Mode_SetCheckResult ::
  "'x Platform \<Rightarrow> CheckStatus \<Rightarrow> FirmwareComponent list \<Rightarrow> ExecuteMode \<Rightarrow> 'x World \<Rightarrow> ExecuteMode \<times> 'x World" where
  "Mode_SetCheckResult E status cs (CheckMode m) w =
     (let (m, w) = Check_SetCheckResult E status cs m w in (CheckMode m, w))"
| "Mode_SetCheckResult E status cs m w = (m, w)"

fun Mode_SetDownloadProgress :: "'x Platform \<Rightarrow> Progress \<Rightarrow> ExecuteMode \<Rightarrow> 'x World \<Rightarrow> ExecuteMode \<times> 'x World" where
  "Mode_SetDownloadProgress E p (LoadMode m) w =
     (let (m, w) = Download_SetDownloadProgress E p m w in (LoadMode m, w))"
| "Mode_SetDownloadProgress E p m w = (m, w)"

fun Mode_SetInstallResult :: "'x Platform \<Rightarrow> InstallCallbackInfo \<Rightarrow> ExecuteMode \<Rightarrow> 'x World \<Rightarrow> ExecuteMode \<times> 'x World" where
  "Mode_SetInstallResult E info (InstallMode m) w =
     (let (m, w) = Install_SetInstallResult E info m w in (InstallMode m, w))"
| "Mode_SetInstallResult E info m w = (m, w)"

text \<open>
  \<open>HandleComplete\<close> with the callbacks \<open>FirmwareManager\<close> passes to the modes: the flag says that
  the flow manager is deleted.
\<close>

fun Mode_HandleComplete :: "'x Platform \<Rightarrow> ExecuteMode \<Rightarrow> 'x World \<Rightarrow> bool \<times> 'x World" where
  "Mode_HandleComplete E (CheckMode m) w = (True, Check_HandleComplete E m w)"
| "Mode_HandleComplete E (LoadMode m) w = (True, w)"
| "Mode_HandleComplete E (InstallMode m) w = (False, w)"

section \<open>FirmwareFlowManager\<close>

record FirmwareFlowManager =
  fl_executeMode :: "ExecuteMode option"
  fl_executor :: "FirmwareStep option"
  fl_nextStep :: FirmwareStep
  fl_deleted :: bool

definition FirmwareFlowManager_new :: FirmwareFlowManager where
  "FirmwareFlowManager_new =
     \<lparr>fl_executeMode = None, fl_executor = None, fl_nextStep = FirmwareStep.INIT, fl_deleted = False\<rparr>"

definition SetExecuteMode :: "ExecuteMode \<Rightarrow> FirmwareFlowManager \<Rightarrow> FirmwareFlowManager" where
  "SetExecuteMode mode fm = fm\<lparr>fl_executeMode := Some mode\<rparr>"

definition CreateInstance :: "FirmwareStep \<Rightarrow> FirmwareStep option" where
  "CreateInstance step =
     (if step \<in> {FirmwareStep.CHECK_STEP, FirmwareStep.DOWNLOAD_STEP, FirmwareStep.INSTALL_STEP, FirmwareStep.APPLY_STEP}
      then Some step else None)"

text \<open>What an executor's \<open>Execute\<close> does before its thread runs.\<close>

definition Executor_Execute :: "'x Platform \<Rightarrow> FirmwareStep \<Rightarrow> 'x World \<Rightarrow> 'x World" where
  "Executor_Execute E step w = (if step = FirmwareStep.CHECK_STEP then CheckExecutor_Execute E w else w)"

definition Complete :: "'x Platform \<Rightarrow> FirmwareFlowManager \<Rightarrow> 'x World \<Rightarrow> FirmwareFlowManager \<times> 'x World" where
  "Complete E fm w =
     (case fl_executeMode fm of
        None \<Rightarrow> (fm, w)
      | Some mode \<Rightarrow> (let (deleted, w) = Mode_HandleComplete E mode w in (fm\<lparr>fl_deleted := deleted\<rparr>, w)))"

definition Execute :: "'x Platform \<Rightarrow> FirmwareFlowManager \<Rightarrow> 'x World \<Rightarrow> (FirmwareFlowManager \<times> 'x World) option" where
  "Execute E fm w =
     (case fl_executeMode fm of
        None \<Rightarrow> Some (fm, w)
      | Some mode \<Rightarrow>
          (case Mode_GetNextStep E (fl_nextStep fm) mode w of
             None \<Rightarrow> None
           | Some (step, mode, w) \<Rightarrow>
               (let fm = fm\<lparr>fl_executeMode := Some mode, fl_nextStep := step\<rparr>
                in if step = FirmwareStep.COMPLETE then Some (Complete E fm w)
                   else
                     (let fm = fm\<lparr>fl_executor := CreateInstance step\<rparr>
                      in Some (fm, case fl_executor fm of None \<Rightarrow> w | Some s \<Rightarrow> Executor_Execute E s w)))))"

definition Start :: "'x Platform \<Rightarrow> FirmwareFlowManager \<Rightarrow> 'x World \<Rightarrow> (FirmwareFlowManager \<times> 'x World) option" where
  "Start E fm w = (if fl_executeMode fm = None then Some (fm, w) else Execute E fm w)"

definition OnCheckCallback ::
  "'x Platform \<Rightarrow> CheckStatus \<Rightarrow> FirmwareComponent list \<Rightarrow> FirmwareFlowManager \<Rightarrow> 'x World \<Rightarrow>
   (FirmwareFlowManager \<times> 'x World) option" where
  "OnCheckCallback E status componentList fm w =
     (if fl_deleted fm then None
      else case fl_executeMode fm of
             None \<Rightarrow> Some (fm, w)
           | Some mode \<Rightarrow>
               (let (mode, w) = Mode_SetCheckResult E status componentList mode w
                in Execute E (fm\<lparr>fl_executeMode := Some mode\<rparr>) w))"

definition OnDownloadCallback ::
  "'x Platform \<Rightarrow> Progress \<Rightarrow> FirmwareFlowManager \<Rightarrow> 'x World \<Rightarrow> (FirmwareFlowManager \<times> 'x World) option" where
  "OnDownloadCallback E progress fm w =
     (if fl_deleted fm then None
      else case fl_executeMode fm of
             None \<Rightarrow> Some (fm, w)
           | Some mode \<Rightarrow>
               (let (mode, w) = Mode_SetDownloadProgress E progress mode w;
                    fm = fm\<lparr>fl_executeMode := Some mode\<rparr>
                in if pr_status progress \<noteq> UpgradeStatus.DOWNLOADING then Execute E fm w else Some (fm, w)))"

definition OnInstallCallback ::
  "'x Platform \<Rightarrow> InstallCallbackInfo \<Rightarrow> FirmwareFlowManager \<Rightarrow> 'x World \<Rightarrow> (FirmwareFlowManager \<times> 'x World) option" where
  "OnInstallCallback E info fm w =
     (if fl_deleted fm then None
      else case fl_executeMode fm of
             None \<Rightarrow> Some (fm, w)
           | Some mode \<Rightarrow>
               (let (mode, w) = Mode_SetInstallResult E info mode w;
                    fm = fm\<lparr>fl_executeMode := Some mode\<rparr>
                in if pr_status (ic_progress info) \<noteq> UpgradeStatus.INSTALLING then Execute E fm w else Some (fm, w)))"

text \<open>This one does not check the mode; the result of an application is only logged.\<close>

definition OnApplyCallback ::
  "'x Platform \<Rightarrow> bool \<Rightarrow> FirmwareFlowManager \<Rightarrow> 'x World \<Rightarrow> (FirmwareFlowManager \<times> 'x World) option" where
  "OnApplyCallback E isSuccess fm w =
     (if fl_deleted fm \<or> fl_executeMode fm = None then None else Execute E fm w)"

section \<open>The threads of the executors\<close>

text \<open>
  What the thread of an executor does once the flow manager has started it, with the callbacks
  of the flow manager. The threads of a download run one after the other here, each with the
  transfer given for it; a thread without a transfer does not report.
\<close>

definition thread_callback ::
  "'x Platform \<Rightarrow> DownloadThread \<Rightarrow> (FirmwareDownloadExecutor \<times> FirmwareFlowManager, 'x) on_progress" where
  "thread_callback E t p = (\<lambda>(e, fm) w.
     map_option (\<lambda>(e, fm, w). ((e, fm), w))
       (Executor_DownloadCallback E (OnDownloadCallback E) (dt_serverUrl t) (dt_downloadFileName t) p e fm w))"

fun run_transfers ::
  "'x Platform \<Rightarrow> (DownloadThread \<times> Transfer) list \<Rightarrow> FirmwareDownloadExecutor \<Rightarrow> FirmwareFlowManager \<Rightarrow> 'x World \<Rightarrow>
   (FirmwareFlowManager \<times> 'x World) option" where
  "run_transfers E [] e fm w = Some (fm, w)"
| "run_transfers E ((t, T) # ts) e fm w =
     (case ProcessThreadExecute E (thread_callback E t) T t (e, fm) w of
        None \<Rightarrow> None
      | Some (t, (e, fm), w) \<Rightarrow> run_transfers E ts e fm w)"

definition run_download ::
  "'x Platform \<Rightarrow> (string \<Rightarrow> bool) \<Rightarrow> Transfer list \<Rightarrow> FirmwareFlowManager \<Rightarrow> 'x World \<Rightarrow>
   (FirmwareFlowManager \<times> 'x World) option" where
  "run_download E create transfers fm w =
     (case DownloadExecutor_DoDownload E (OnDownloadCallback E) create fm w of
        None \<Rightarrow> None
      | Some (threads, e, fm, w) \<Rightarrow> run_transfers E (zip threads transfers) e fm w)"

definition run_check ::
  "'x Platform \<Rightarrow> CheckNet \<Rightarrow> FirmwareFlowManager \<Rightarrow> 'x World \<Rightarrow> (FirmwareFlowManager \<times> 'x World) option" where
  "run_check E N fm w =
     (case CheckExecutor_DoCheck E N w of
        None \<Rightarrow> None
      | Some (status, cs, w) \<Rightarrow> OnCheckCallback E status cs fm w)"

definition run_install ::
  "'x Platform \<Rightarrow> SysInstaller \<Rightarrow> InstallType \<Rightarrow> FirmwareFlowManager \<Rightarrow> 'x World \<Rightarrow>
   (FirmwareFlowManager \<times> 'x World) option" where
  "run_install E SI installType fm w =
     map_option snd (InstallExecutor_DoInstall E SI (OnInstallCallback E) (FirmwareInstallExecutor_new installType, fm, w))"

definition run_apply ::
  "'x Platform \<Rightarrow> FirmwareFlowManager \<Rightarrow> 'x World \<Rightarrow> (bool \<times> FirmwareFlowManager \<times> 'x World) option" where
  "run_apply E fm w = ApplyExecutor_DoInstall E (OnApplyCallback E) fm w"

section \<open>What a transfer asks of its callback\<close>

text \<open>The reports that end a transfer: complete, or failed or cancelled with an error number.\<close>

definition final_report :: "Progress \<Rightarrow> bool" where
  "final_report p \<longleftrightarrow>
     pr_status p = UpgradeStatus.DOWNLOAD_SUCCESS \<and> pr_percent p = 100 \<and> pr_endReason p = [] \<or>
     pr_status p \<in> {UpgradeStatus.DOWNLOAD_FAIL, UpgradeStatus.DOWNLOAD_CANCEL} \<and>
       (\<exists>code :: int32_t. pr_endReason p = to_string code)"

definition thread_ok :: "DownloadThread \<Rightarrow> bool" where
  "thread_ok t \<longleftrightarrow> \<not> dt_exitDownload t \<and>
     pr_status (dt_downloadProgress t) \<in> {UpgradeStatus.INIT, UpgradeStatus.DOWNLOADING}"

text \<open>
  A client of the transfer: while it runs, reports of progress keep it running, and a final
  report ends it. \<open>Run\<close> must not depend on the flags of the thread nor on the package file.
\<close>

locale transfer_client =
  fixes E :: "'x Platform"
    and cb :: "('f, 'x) on_progress"
    and Run :: "'f \<Rightarrow> 'x World \<Rightarrow> bool"
    and End :: "'f \<Rightarrow> 'x World \<Rightarrow> bool"
  assumes running: "Run f w \<Longrightarrow> pr_status p = UpgradeStatus.DOWNLOADING \<Longrightarrow>
      \<exists>f' w'. cb p f w = Some (f', w') \<and> Run f' w'"
    and ending: "Run f w \<Longrightarrow> final_report p \<Longrightarrow> \<exists>f' w'. cb p f w = Some (f', w') \<and> End f' w'"
    and flags: "Run f w \<Longrightarrow> Run f (w\<lparr>w_isNoNet := a, w_isCancel := b\<rparr>)"
    and removal: "Run f w \<Longrightarrow> Run f (w\<lparr>w_ext := pl_remove E g (w_ext w)\<rparr>)"
begin

lemma cancel_flag: "Run f w \<Longrightarrow> Run f (w\<lparr>w_isCancel := b\<rparr>)"
  using flags [of f w, where a = "w_isNoNet w" and b = b] by (cases w) simp

lemma set_flags_run: "Run f w \<Longrightarrow> Run f (set_flags c w)"
  by (simp add: set_flags_def flags)

lemma abnormal:
  assumes "Run f w" and "w_isNoNet w \<or> w_isCancel w"
  shows "\<exists>t' f' w'. DealAbnormal cb percent t f w = Some (True, t', f', w') \<and> End f' w'"
proof -
  define p where "p = (dt_downloadProgress t)
    \<lparr>pr_endReason := (if w_isNoNet w then to_string (DownloadEndReason_code DownloadEndReason.NET_NOT_AVAILIABLE)
                      else to_string (DownloadEndReason_code DownloadEndReason.CANCEL)),
     pr_percent := percent,
     pr_status := (if w_isNoNet w then UpgradeStatus.DOWNLOAD_FAIL else UpgradeStatus.DOWNLOAD_CANCEL)\<rparr>"
  define v where "v = (if w_isCancel w then w\<lparr>w_isCancel := False\<rparr> else w)"
  have "final_report p" by (auto simp: p_def final_report_def)
  moreover have "Run f v" using assms(1) by (simp add: v_def cancel_flag)
  ultimately obtain f' w' where c: "cb p f v = Some (f', w')" "End f' w'" using ending by blast
  have "DealAbnormal cb percent t f w =
      (case cb p f v of None \<Rightarrow> None | Some (f, w) \<Rightarrow> Some (True, t\<lparr>dt_downloadProgress := p\<rparr>, f, w))"
    unfolding DealAbnormal_def Let_def using assms(2) by (simp only: p_def v_def if_True)
  then show ?thesis using c by simp
qed

lemma report_running:
  assumes "Run f w" and "thread_ok t"
  shows "\<exists>ret t' f' w'. Thread_DownloadCallback E cb percent UpgradeStatus.DOWNLOADING [] t f w = Some (ret, t', f', w') \<and>
    (ret = 0 \<and> Run f' w' \<and> thread_ok t' \<or> ret \<noteq> 0 \<and> End f' w')"
proof (cases "w_isNoNet w \<or> w_isCancel w")
  case True
  then show ?thesis using abnormal [OF assms(1) True, of percent t] assms(2)
    by (auto simp: Thread_DownloadCallback_def thread_ok_def)
next
  case False
  then have d: "DealAbnormal cb percent t f w = Some (False, t, f, w)" by (simp add: DealAbnormal_def)
  let ?p = "(dt_downloadProgress t)\<lparr>pr_endReason := [], pr_percent := percent, pr_status := UpgradeStatus.DOWNLOADING\<rparr>"
  obtain f' w' where "cb ?p f w = Some (f', w')" "Run f' w'" using running [OF assms(1), of ?p] by auto
  then show ?thesis using assms d
    by (auto simp: Thread_DownloadCallback_def thread_ok_def Let_def)
qed

lemma report_final:
  assumes "Run f w" and "thread_ok t"
    and "status = UpgradeStatus.DOWNLOAD_SUCCESS \<and> percent = 100 \<and> reason = [] \<or>
      status = UpgradeStatus.DOWNLOAD_FAIL \<and> reason = to_string (code :: int32_t)"
  shows "\<exists>t' f' w'. thread_report E cb percent status reason t f w = Some (t', f', w') \<and> End f' w'"
proof (cases "w_isNoNet w \<or> w_isCancel w")
  case True
  then show ?thesis using abnormal [OF assms(1) True, of percent t] assms(2)
    by (auto simp: thread_report_def Thread_DownloadCallback_def thread_ok_def)
next
  case False
  then have d: "DealAbnormal cb percent t f w = Some (False, t, f, w)" by (simp add: DealAbnormal_def)
  define v where "v = (if status = UpgradeStatus.DOWNLOAD_FAIL \<and> IsFileExist E (dt_downloadFileName t) (w_ext w)
      then w\<lparr>w_ext := pl_remove E (dt_downloadFileName t) (w_ext w)\<rparr> else w)"
  let ?p = "(dt_downloadProgress t)\<lparr>pr_endReason := reason, pr_percent := percent, pr_status := status\<rparr>"
  have "Run f v" using assms(1) by (simp add: v_def removal)
  moreover have "final_report ?p" using assms(3) by (auto simp: final_report_def)
  ultimately obtain f' w' where c: "cb ?p f v = Some (f', w')" "End f' w'" using ending by blast
  have "Thread_DownloadCallback E cb percent status reason t f w =
      (case cb ?p f v of None \<Rightarrow> None | Some (f, w) \<Rightarrow> Some (0, t\<lparr>dt_downloadProgress := ?p\<rparr>, f, w))"
    using assms(2,3) d
    by (auto simp: Thread_DownloadCallback_def thread_ok_def v_def DOWNLOAD_FINISH_PERCENT_def Let_def)
  then show ?thesis using c by (simp add: thread_report_def)
qed

lemma perform_returns:
  assumes "Run f w" and "thread_ok t"
  shows "\<exists>res t' f' w'. curl_easy_perform E cb ok cs t f w = Some (res, t', f', w') \<and>
    (res = CURLE_ABORTED_BY_CALLBACK \<and> End f' w' \<or> res \<noteq> CURLE_ABORTED_BY_CALLBACK \<and> Run f' w' \<and> thread_ok t')"
  using assms
proof (induction cs arbitrary: t f w)
  case Nil
  then show ?case by auto
next
  case (Cons c cs)
  obtain ret t1 f1 w1 where
    "Thread_DownloadCallback E cb (tc_percent c) UpgradeStatus.DOWNLOADING [] t f (set_flags c w) = Some (ret, t1, f1, w1)"
    and "ret = 0 \<and> Run f1 w1 \<and> thread_ok t1 \<or> ret \<noteq> 0 \<and> End f1 w1"
    using report_running [OF set_flags_run [OF Cons.prems(1)] Cons.prems(2)] by blast
  then show ?case using Cons.IH [of f1 w1 t1] by auto
qed

lemma transfer_ends:
  assumes "Run f w" and "tr_fopen T" and "tr_init T" and "\<not> find_dot pkg"
  shows "\<exists>t' f' w'. ProcessThreadExecute E cb T (StartDownload pkg url DownloadThread_new) f w = Some (t', f', w') \<and> End f' w'"
proof -
  let ?t = "StartDownload pkg url DownloadThread_new"
  have t: "thread_ok ?t" "dt_downloadFileName ?t = pkg"
    by (simp_all add: thread_ok_def StartDownload_def DownloadThread_new_def Progress_default_def)
  obtain res t1 f1 w1 where p: "curl_easy_perform E cb (tr_ok T) (tr_calls T) ?t f w = Some (res, t1, f1, w1)"
    and res: "res = CURLE_ABORTED_BY_CALLBACK \<and> End f1 w1 \<or> res \<noteq> CURLE_ABORTED_BY_CALLBACK \<and> Run f1 w1 \<and> thread_ok t1"
    using perform_returns [OF assms(1) t(1)] by blast
  show ?thesis
  proof (cases "res = CURLE_ABORTED_BY_CALLBACK")
    case True
    then show ?thesis using p res assms t by (auto simp: ProcessThreadExecute_def)
  next
    case False
    then have "Run f1 w1" "thread_ok t1" using res by auto
    then show ?thesis using p False assms t
        report_final [of f1 w1 t1 UpgradeStatus.DOWNLOAD_SUCCESS DOWNLOAD_FINISH_PERCENT "[]"]
        report_final [of f1 w1 t1 UpgradeStatus.DOWNLOAD_FAIL 0
          "to_string (DownloadEndReason_code DownloadEndReason.CURL_ERROR)"]
      by (auto simp: ProcessThreadExecute_def DOWNLOAD_FINISH_PERCENT_def)
  qed
qed

end

section \<open>The flow manager as client of the transfer\<close>

text \<open>
  While one package of one task is loaded: the rows changed in status and progress only, and a
  live flow manager in its download step. Afterwards the flow manager is deleted and the
  tables are in one of three states.
\<close>

definition loading ::
  "('x \<Rightarrow> string \<Rightarrow> ValuesBucket list) \<Rightarrow> FirmwareTask \<Rightarrow> FirmwareComponent \<Rightarrow>
   FirmwareDownloadExecutor \<times> FirmwareFlowManager \<Rightarrow> 'x World \<Rightarrow> bool" where
  "loading rows t c = (\<lambda>(e, fm) w. w_typed rows w \<and>
     (\<exists>st p. w_tasks rows w = [t\<lparr>ft_status := st, ft_progress := p\<rparr>]) \<and>
     (\<exists>st p. w_components rows w = [c\<lparr>fc_status := st, fc_progress := p\<rparr>]) \<and>
     ft_taskId (de_tasks e) = ft_taskId t \<and> \<not> fl_deleted fm \<and>
     fl_nextStep fm = FirmwareStep.DOWNLOAD_STEP \<and> (\<exists>m. fl_executeMode fm = Some (LoadMode m)))"

definition load_result ::
  "('x \<Rightarrow> string \<Rightarrow> ValuesBucket list) \<Rightarrow> FirmwareTask \<Rightarrow> FirmwareComponent \<Rightarrow> 'x World \<Rightarrow> bool" where
  "load_result rows t c w \<longleftrightarrow>
     w_tasks rows w = [t\<lparr>ft_status := UpgradeStatus.DOWNLOAD_SUCCESS, ft_progress := 100\<rparr>] \<and>
       w_components rows w = [c\<lparr>fc_status := UpgradeStatus.DOWNLOAD_SUCCESS, fc_progress := 100\<rparr>] \<or>
     w_tasks rows w = [] \<and> w_components rows w = [] \<or>
     w_tasks rows w = [t\<lparr>ft_status := UpgradeStatus.CHECK_VERSION_SUCCESS, ft_progress := 0, ft_downloadTaskId := []\<rparr>] \<and>
       w_components rows w = [c\<lparr>fc_status := UpgradeStatus.CHECK_VERSION_SUCCESS, fc_progress := 0\<rparr>]"

definition loaded ::
  "('x \<Rightarrow> string \<Rightarrow> ValuesBucket list) \<Rightarrow> FirmwareTask \<Rightarrow> FirmwareComponent \<Rightarrow>
   FirmwareDownloadExecutor \<times> FirmwareFlowManager \<Rightarrow> 'x World \<Rightarrow> bool" where
  "loaded rows t c = (\<lambda>(e, fm) w. fl_deleted fm \<and> w_typed rows w \<and> load_result rows t c w)"

context platform
begin

lemma download_task_id_db:
  assumes "w_typed rows w"
  shows "w_typed rows (do_ext (Task_UpdateDownloadTaskIdByTaskId (pl_rdb E) i x) w) \<and>
    w_components rows (do_ext (Task_UpdateDownloadTaskIdByTaskId (pl_rdb E) i x) w) = w_components rows w \<and>
    w_tasks rows (do_ext (Task_UpdateDownloadTaskIdByTaskId (pl_rdb E) i x) w) =
      map (\<lambda>t. if ft_taskId t = i then t\<lparr>ft_downloadTaskId := x\<rparr> else t) (w_tasks rows w)"
  using fd.update_download_task [OF assms [unfolded w_typed_def], of i x
      "fst (Task_UpdateDownloadTaskIdByTaskId (pl_rdb E) i x (w_ext w))"
      "snd (Task_UpdateDownloadTaskIdByTaskId (pl_rdb E) i x (w_ext w))"]
  by (simp add: w_db_defs)

lemma cancel_db:
  assumes "w_typed rows w" and "w_tasks rows w = [t\<lparr>ft_status := st, ft_progress := p\<rparr>]"
    and "w_components rows w = [c\<lparr>fc_status := st', fc_progress := p'\<rparr>]" and "ft_taskId t' = ft_taskId t"
  shows "w_typed rows (DownloadCancelProcess E t' m w) \<and> load_result rows t c (DownloadCancelProcess E t' m w)"
proof -
  have wf: "us.wf UpgradeStatus.CHECK_VERSION_SUCCESS" by (simp add: us.wf_named enum_simps)
  define w1 where "w1 = NotifyEvent (ft_taskId t') EVENT_DOWNLOAD_CANCEL UpgradeStatus.DOWNLOAD_CANCEL m [] w"
  have w1: "w_typed rows w1" "w_tasks rows w1 = w_tasks rows w" "w_components rows w1 = w_components rows w"
    using assms(1) by (simp_all add: w1_def)
  define w2 where "w2 = UpdateTaskProgress E (ft_taskId t') UpgradeStatus.CHECK_VERSION_SUCCESS 0 w1"
  note s2 = fw.task_progress [OF w1(1) wf, of "ft_taskId t'" 0, folded w2_def]
  then have "w_typed rows w2" by simp
  define w3 where "w3 = foldl (\<lambda>w c. UpdateComponentProgress E (fc_url c) UpgradeStatus.CHECK_VERSION_SUCCESS 0 w) w2
    (QueryAllComponents E w2)"
  note s3 = fw.progress_loop [OF \<open>w_typed rows w2\<close> wf, of 0 "QueryAllComponents E w2", folded w3_def]
  then have "w_typed rows w3" by simp
  note s4 = download_task_id_db [OF this, of "ft_taskId t'" "[]"]
  have "DownloadCancelProcess E t' m w =
      DeleteDownloadFiles E (do_ext (Task_UpdateDownloadTaskIdByTaskId (pl_rdb E) (ft_taskId t') []) w3)"
    by (simp add: DownloadCancelProcess_def w1_def w2_def w3_def Let_def)
  then show ?thesis
    using s2 s3 s4 assms w1 by (simp add: delete_files_db load_result_def query_all_components)
qed

lemma after_download:
  assumes "w_typed rows w" and "w_tasks rows w = [t\<lparr>ft_status := st, ft_progress := p\<rparr>]"
    and "w_components rows w = [c\<lparr>fc_status := st', fc_progress := p'\<rparr>]"
    and "st = UpgradeStatus.DOWNLOAD_SUCCESS \<and> st' = UpgradeStatus.DOWNLOAD_SUCCESS \<and> p = 100 \<and> p' = 100 \<or>
      st \<in> {UpgradeStatus.DOWNLOAD_FAIL, UpgradeStatus.DOWNLOAD_CANCEL}"
    and "pr_endReason (dd_downloadProgress (dm_processor m)) = [] \<or>
      (\<exists>code :: int32_t. pr_endReason (dd_downloadProgress (dm_processor m)) = to_string code)"
  shows "\<exists>w'. Download_GetStepAfterDownload E m w = Some (FirmwareStep.COMPLETE, w') \<and>
    w_typed rows w' \<and> load_result rows t c w'"
proof -
  let ?t = "t\<lparr>ft_status := st, ft_progress := p, ft_isExistTask := True\<rparr>"
  define r where "r = pr_endReason (dd_downloadProgress (dm_processor m))"
  have "(if r \<noteq> [] then map_option (\<lambda>i. ErrorMessage_default\<lparr>em_errorCode := i\<rparr>) (stoi r)
      else Some ErrorMessage_default) \<noteq> None"
    using assms(5) [folded r_def] by (auto simp: stoi_to_string)
  then obtain em where em: "(if r \<noteq> [] then map_option (\<lambda>i. ErrorMessage_default\<lparr>em_errorCode := i\<rparr>) (stoi r)
      else Some ErrorMessage_default) = Some em" by (elim not_None_eq [THEN iffD1, THEN exE])
  have q: "QueryTask E FirmwareTask_default w = ?t" using fw.task_query_Cons [OF assms(2)] by simp
  have notify: "w_typed rows (NotifyEvent d ev s er [] w)" for d ev s er using assms(1) by simp
  have *: "Download_GetStepAfterDownload E m w = Some (FirmwareStep.COMPLETE,
      (case st of
         UpgradeStatus.DOWNLOAD_PAUSE \<Rightarrow> DownloadPauseProcess ?t em w
       | UpgradeStatus.DOWNLOAD_FAIL \<Rightarrow> DownloadFailProcess E ?t em w
       | UpgradeStatus.DOWNLOAD_CANCEL \<Rightarrow> DownloadCancelProcess E ?t em w
       | UpgradeStatus.DOWNLOAD_SUCCESS \<Rightarrow> DownloadSucessProcess ?t w
       | _ \<Rightarrow> w))"
    unfolding Download_GetStepAfterDownload_def Let_def q r_def [symmetric] em by simp
  from assms(4) consider "st = UpgradeStatus.DOWNLOAD_SUCCESS" "st' = UpgradeStatus.DOWNLOAD_SUCCESS" "p = 100" "p' = 100"
    | "st = UpgradeStatus.DOWNLOAD_FAIL" | "st = UpgradeStatus.DOWNLOAD_CANCEL" by auto
  then show ?thesis
  proof cases
    case 1
    then show ?thesis using * assms(1-3) by (simp add: DownloadSucessProcess_def load_result_def)
  next
    case 2
    then show ?thesis using * clear_db [OF notify] by (simp add: DownloadFailProcess_def load_result_def)
  next
    case 3
    then show ?thesis using * cancel_db [OF assms(1-3), of ?t em] by simp
  qed
qed

end

context platform
begin

lemma on_download:
  assumes "\<not> fl_deleted fm" and "fl_executeMode fm = Some (LoadMode m)"
  shows "\<exists>m' v. OnDownloadCallback E q fm w =
      (if pr_status q \<noteq> UpgradeStatus.DOWNLOADING then Execute E (fm\<lparr>fl_executeMode := Some (LoadMode m')\<rparr>) v
       else Some (fm\<lparr>fl_executeMode := Some (LoadMode m')\<rparr>, v)) \<and>
    dd_downloadProgress (dm_processor m') = q \<and> w_ext v = w_ext w"
proof -
  let ?d = "DownloadProcessor_GetTask E ((dm_processor m)\<lparr>dd_downloadProgress := q\<rparr>) w"
  have "dd_downloadProgress ?d = q" by (simp add: DownloadProcessor_GetTask_def)
  then show ?thesis
    using assms
    by (intro exI [of _ "m\<lparr>dm_processor := ?d\<rparr>"] exI [of _ "ProgressCallback (ft_taskId (dd_tasks ?d)) q w"])
      (simp add: OnDownloadCallback_def Download_SetDownloadProgress_def DownloadProcessor_SetDownloadProgress_def Let_def)
qed

text \<open>What the executor does with a report, in terms of the rows.\<close>

lemma report_db:
  assumes "loading rows t c (e, fm) w" and "us.wf (pr_status p)"
  shows "\<exists>v q e'. thread_callback E (StartDownload (fc_spath c) (fc_url c) DownloadThread_new) p (e, fm) w =
      map_option (\<lambda>(fm, w). ((e', fm), w)) (OnDownloadCallback E q fm v) \<and>
    w_typed rows v \<and> ft_taskId (de_tasks e') = ft_taskId t \<and>
    w_components rows v = [c\<lparr>fc_status := pr_status p, fc_progress := pr_percent p\<rparr>] \<and>
    w_tasks rows v = [t\<lparr>ft_status := pr_status q, ft_progress := pr_percent p\<rparr>] \<and>
    (q = p \<or> pr_status p = UpgradeStatus.DOWNLOAD_SUCCESS \<and>
       pr_status q = UpgradeStatus.DOWNLOAD_FAIL \<and> (\<exists>code :: int32_t. pr_endReason q = to_string code))"
proof -
  define q where "q = (if pr_status p \<noteq> UpgradeStatus.DOWNLOAD_SUCCESS \<or> VerifyDownloadPkg E (fc_spath c) e w then p
    else p\<lparr>pr_status := UpgradeStatus.DOWNLOAD_FAIL, pr_endReason := to_string DUPDATE_ERR_VERIFY_PACKAGE_FAIL\<rparr>)"
  obtain st1 p1 st2 p2 where l: "w_typed rows w" "w_tasks rows w = [t\<lparr>ft_status := st1, ft_progress := p1\<rparr>]"
    "w_components rows w = [c\<lparr>fc_status := st2, fc_progress := p2\<rparr>]" "ft_taskId (de_tasks e) = ft_taskId t"
    using assms(1) by (auto simp: loading_def)
  define e' where "e' = e\<lparr>de_upgradeStatus :=
    (if pr_status p = UpgradeStatus.DOWNLOAD_FAIL \<or> pr_status p = UpgradeStatus.DOWNLOAD_SUCCESS
     then pr_status p else UpgradeStatus.DOWNLOADING)\<rparr>"
  obtain v where v: "Executor_DownloadCallback E (OnDownloadCallback E) (fc_url c) (fc_spath c) p e fm w =
      (case OnDownloadCallback E q fm v of None \<Rightarrow> None | Some (f, w) \<Rightarrow> Some (e', f, w))"
    and db: "w_typed rows v" "w_components rows v = [c\<lparr>fc_status := pr_status p, fc_progress := pr_percent p\<rparr>]"
      "w_tasks rows v = [t\<lparr>ft_status := pr_status q, ft_progress := pr_percent p\<rparr>]"
    using executor_callback_db [OF l(1) assms(2), where cb = "OnDownloadCallback E" and url = "fc_url c"
        and pkg = "fc_spath c" and e = e and f = fm] l
    unfolding Let_def q_def [symmetric] e'_def [symmetric] by (auto simp: q_def)
  have "thread_callback E (StartDownload (fc_spath c) (fc_url c) DownloadThread_new) p (e, fm) w =
      map_option (\<lambda>(fm, w). ((e', fm), w)) (OnDownloadCallback E q fm v)"
    using v by (auto simp: thread_callback_def StartDownload_def split: option.split)
  moreover have "q = p \<or> pr_status p = UpgradeStatus.DOWNLOAD_SUCCESS \<and>
      pr_status q = UpgradeStatus.DOWNLOAD_FAIL \<and> (\<exists>code :: int32_t. pr_endReason q = to_string code)"
    by (auto simp: q_def)
  ultimately show ?thesis using db l(4) by (intro exI [of _ v] exI [of _ q] exI [of _ e']) (simp add: e'_def)
qed

lemma report_running:
  assumes "loading rows t c (e, fm) w" and "pr_status p = UpgradeStatus.DOWNLOADING"
  shows "\<exists>f' w'. thread_callback E (StartDownload (fc_spath c) (fc_url c) DownloadThread_new) p (e, fm) w = Some (f', w') \<and>
    loading rows t c f' w'"
proof -
  have "us.wf (pr_status p)" using assms(2) by (simp add: us.wf_named enum_simps)
  from report_db [OF assms(1) this] assms(2) obtain v e' where
    r: "thread_callback E (StartDownload (fc_spath c) (fc_url c) DownloadThread_new) p (e, fm) w =
        map_option (\<lambda>(fm, w). ((e', fm), w)) (OnDownloadCallback E p fm v)"
    and v: "w_typed rows v" "ft_taskId (de_tasks e') = ft_taskId t"
      "w_components rows v = [c\<lparr>fc_status := pr_status p, fc_progress := pr_percent p\<rparr>]"
      "w_tasks rows v = [t\<lparr>ft_status := pr_status p, ft_progress := pr_percent p\<rparr>]" by auto
  obtain m where fm: "\<not> fl_deleted fm" "fl_executeMode fm = Some (LoadMode m)"
    "fl_nextStep fm = FirmwareStep.DOWNLOAD_STEP" using assms(1) by (auto simp: loading_def)
  from on_download [OF fm(1,2), of p v] assms(2) obtain m' u where
    "OnDownloadCallback E p fm v = Some (fm\<lparr>fl_executeMode := Some (LoadMode m')\<rparr>, u)" "w_ext u = w_ext v" by auto
  then show ?thesis using r v fm same_ext [of u v rows] by (auto simp: loading_def)
qed

lemma report_ending:
  assumes "loading rows t c (e, fm) w" and "final_report p"
  shows "\<exists>f' w'. thread_callback E (StartDownload (fc_spath c) (fc_url c) DownloadThread_new) p (e, fm) w = Some (f', w') \<and>
    loaded rows t c f' w'"
proof -
  have "us.wf (pr_status p)" using assms(2) by (auto simp: final_report_def us.wf_named enum_simps)
  from report_db [OF assms(1) this] obtain v q e' where
    r: "thread_callback E (StartDownload (fc_spath c) (fc_url c) DownloadThread_new) p (e, fm) w =
        map_option (\<lambda>(fm, w). ((e', fm), w)) (OnDownloadCallback E q fm v)"
    and v: "w_typed rows v"
      "w_tasks rows v = [t\<lparr>ft_status := pr_status q, ft_progress := pr_percent p\<rparr>]"
      "w_components rows v = [c\<lparr>fc_status := pr_status p, fc_progress := pr_percent p\<rparr>]"
    and q: "q = p \<or> pr_status p = UpgradeStatus.DOWNLOAD_SUCCESS \<and> pr_status q = UpgradeStatus.DOWNLOAD_FAIL \<and>
        (\<exists>code :: int32_t. pr_endReason q = to_string code)" by auto
  have status: "pr_status q = UpgradeStatus.DOWNLOAD_SUCCESS \<and> pr_status p = UpgradeStatus.DOWNLOAD_SUCCESS \<and>
      pr_percent p = 100 \<and> pr_percent p = 100 \<or> pr_status q \<in> {UpgradeStatus.DOWNLOAD_FAIL, UpgradeStatus.DOWNLOAD_CANCEL}"
    and reason: "pr_endReason q = [] \<or> (\<exists>code :: int32_t. pr_endReason q = to_string code)"
    using q assms(2) by (auto simp: final_report_def)
  obtain m where fm: "\<not> fl_deleted fm" "fl_executeMode fm = Some (LoadMode m)"
    "fl_nextStep fm = FirmwareStep.DOWNLOAD_STEP" using assms(1) by (auto simp: loading_def)
  have "pr_status q \<noteq> UpgradeStatus.DOWNLOADING" using status by auto
  with on_download [OF fm(1,2), of q v] obtain m' u where
    ex: "OnDownloadCallback E q fm v = Execute E (fm\<lparr>fl_executeMode := Some (LoadMode m')\<rparr>) u"
    and m': "dd_downloadProgress (dm_processor m') = q" and u: "w_ext u = w_ext v" by auto
  have u': "w_typed rows u" "w_tasks rows u = [t\<lparr>ft_status := pr_status q, ft_progress := pr_percent p\<rparr>]"
    "w_components rows u = [c\<lparr>fc_status := pr_status p, fc_progress := pr_percent p\<rparr>]"
    using v same_ext [OF u, of rows] by simp_all
  from after_download [OF u' status, of m'] reason m' obtain w' where
    "Download_GetStepAfterDownload E m' u = Some (FirmwareStep.COMPLETE, w')" "w_typed rows w'" "load_result rows t c w'" by auto
  then show ?thesis using r ex fm
    by (simp add: Execute_def Download_GetNextStep_def Complete_def loaded_def Let_def)
qed

end

sublocale platform \<subseteq> tc: transfer_client E
  "thread_callback E (StartDownload (fc_spath c) (fc_url c) DownloadThread_new)" "loading rows t c" "loaded rows t c" for t c
proof (unfold_locales, goal_cases)
  case (1 f w p)
  then show ?case using report_running [of t c "fst f" "snd f" w p] by simp
next
  case (2 f w p)
  then show ?case using report_ending [of t c "fst f" "snd f" w p] by simp
next
  case (3 f w a b)
  then show ?case by (simp add: loading_def w_db_defs split_beta)
next
  case (4 f w g)
  then show ?case by (simp add: loading_def remove_file_db split_beta)
qed

section \<open>A download from start to end\<close>

definition download_flow :: "DownloadOptions \<Rightarrow> BusinessError \<Rightarrow> FirmwareFlowManager" where
  "download_flow options be = SetExecuteMode (LoadMode (FirmwareDownloadMode_new options be)) FirmwareFlowManager_new"

lemma download_started:
  assumes "Start E (download_flow options be) w = Some (fm, w1)" and "fl_executor fm = Some FirmwareStep.DOWNLOAD_STEP"
  shows "w1 = w \<and> \<not> fl_deleted fm \<and> fl_nextStep fm = FirmwareStep.DOWNLOAD_STEP \<and>
    (\<exists>m. fl_executeMode fm = Some (LoadMode m))"
proof -
  obtain step m where s: "Download_GetStepAfterInit E (FirmwareDownloadMode_new options be) w = (step, m)" by force
  then show ?thesis
    using assms
    by (auto simp: Start_def Execute_def download_flow_def SetExecuteMode_def FirmwareFlowManager_new_def
        Download_GetNextStep_def Complete_def CreateInstance_def Executor_Execute_def Let_def split: if_splits)
qed

lemma loading_start:
  assumes "w_typed rows w" and "w_tasks rows w = [t]" and "w_components rows w = [c]"
    and "ft_taskId (de_tasks e) = ft_taskId t" and "\<not> fl_deleted fm" and "fl_nextStep fm = FirmwareStep.DOWNLOAD_STEP"
    and "\<exists>m. fl_executeMode fm = Some (LoadMode m)"
  shows "loading rows t c (e, fm) w"
proof -
  have "\<exists>st p. t = t\<lparr>ft_status := st, ft_progress := p\<rparr>"
    by (intro exI [of _ "ft_status t"] exI [of _ "ft_progress t"]) simp
  moreover have "\<exists>st p. c = c\<lparr>fc_status := st, fc_progress := p\<rparr>"
    by (intro exI [of _ "fc_status c"] exI [of _ "fc_progress c"]) simp
  ultimately show ?thesis using assms by (simp add: loading_def)
qed

context platform
begin

lemma do_download_fresh:
  assumes "w_tasks rows w = [t]" and "w_components rows w = [c]" and "ft_downloadTaskId t = []"
    and "IsFileExist E DUPDATE_ENGINE_PACKAGE_ROOT_PATH (w_ext w)" and "create (fc_spath c)"
    and "GetLocalFileLength E (fc_spath c) w \<noteq> fc_size c \<or> fc_size c = 0"
  shows "\<exists>v. DownloadExecutor_DoDownload E cb create fm w =
      Some ([StartDownload (fc_spath c) (fc_url c) DownloadThread_new],
        \<lparr>de_components = [c], de_tasks = t\<lparr>ft_isExistTask := True\<rparr>, de_upgradeStatus = UpgradeStatus.DOWNLOADING\<rparr>, fm, v) \<and>
    w_ext v = w_ext w"
  using assms
  by (auto simp: DownloadExecutor_DoDownload_def query_all_components fw.task_query_Cons [OF assms(1)] PerformDownload_def Let_def)

lemma download_run:
  assumes "w_typed rows w" and "w_tasks rows w = [t]" and "w_components rows w = [c]" and "ft_downloadTaskId t = []"
    and "IsFileExist E DUPDATE_ENGINE_PACKAGE_ROOT_PATH (w_ext w)" and "create (fc_spath c)"
    and "GetLocalFileLength E (fc_spath c) w \<noteq> fc_size c \<or> fc_size c = 0"
    and "Start E (download_flow options be) w = Some (fm, w1)" and "fl_executor fm = Some FirmwareStep.DOWNLOAD_STEP"
    and "tr_fopen T" and "tr_init T" and "\<not> find_dot (fc_spath c)"
  shows "\<exists>fm' w'. run_download E create [T] fm w1 = Some (fm', w') \<and> fl_deleted fm' \<and> load_result rows t c w'"
proof -
  note fm = download_started [OF assms(8,9)]
  obtain v where d: "DownloadExecutor_DoDownload E (OnDownloadCallback E) create fm w =
      Some ([StartDownload (fc_spath c) (fc_url c) DownloadThread_new],
        \<lparr>de_components = [c], de_tasks = t\<lparr>ft_isExistTask := True\<rparr>, de_upgradeStatus = UpgradeStatus.DOWNLOADING\<rparr>, fm, v)"
    and v: "w_ext v = w_ext w" using do_download_fresh [where create = create and cb = "OnDownloadCallback E" and fm = fm, OF assms(2-7)] by (elim exE conjE)
  define e where "e = \<lparr>de_components = [c], de_tasks = t\<lparr>ft_isExistTask := True\<rparr>, de_upgradeStatus = UpgradeStatus.DOWNLOADING\<rparr>"
  have "loading rows t c (e, fm) v"
    using fm same_ext [OF v, of rows] assms(1-3) by (intro loading_start) (simp_all add: e_def)
  from tc.transfer_ends [OF this assms(10,11,12)] obtain t' f' w' where
    "ProcessThreadExecute E (thread_callback E (StartDownload (fc_spath c) (fc_url c) DownloadThread_new)) T
      (StartDownload (fc_spath c) (fc_url c) DownloadThread_new) (e, fm) v = Some (t', f', w')" "loaded rows t c f' w'" by blast
  then show ?thesis using d fm by (cases f') (auto simp: run_download_def e_def loaded_def)
qed

end


definition found_device :: "(string \<times> string) list \<Rightarrow> MemDevice World" where
  "found_device files = (let w = stored_world found_task [stored_package] in
     w\<lparr>w_ext := (w_ext w)\<lparr>md_files := (DUPDATE_ENGINE_PACKAGE_ROOT_PATH, []) # files\<rparr>\<rparr>)"

lemma found_device_view:
  "w_typed md_rows (found_device files)" "w_tasks md_rows (found_device files) = [found_task]"
  "w_components md_rows (found_device files) = [stored_package]"
  "IsFileExist memory_device DUPDATE_ENGINE_PACKAGE_ROOT_PATH (w_ext (found_device files))"
  "GetLocalFileLength memory_device (fc_spath stored_package) (found_device []) = 0"
proof -
  have "md_rows (w_ext (found_device files)) = md_rows (w_ext (stored_world found_task [stored_package]))"
    by (simp add: found_device_def md_rows_def Let_def)
  from md.rows_ext_only [OF this] found_world_view
  show "w_typed md_rows (found_device files)" "w_tasks md_rows (found_device files) = [found_task]"
    "w_components md_rows (found_device files) = [stored_package]" by (simp_all add: w_db_defs)
  show "IsFileExist memory_device DUPDATE_ENGINE_PACKAGE_ROOT_PATH (w_ext (found_device files))"
    by (simp add: found_device_def IsFileExist_def memory_device_def Let_def)
  show "GetLocalFileLength memory_device (fc_spath stored_package) (found_device []) = 0"
    by (simp add: found_device_def GetLocalFileLength_def memory_device_def stored_package_def
        DUPDATE_ENGINE_PACKAGE_ROOT_PATH_def Let_def)
qed

lemma found_device_starts:
  "\<exists>fm. Start memory_device (download_flow \<lparr>dl_allowNetwork = NetType.WIFI, dl_order = Order.DOWNLOAD\<rparr> BusinessError_default)
      (found_device files) = Some (fm, (found_device files)) \<and> fl_executor fm = Some FirmwareStep.DOWNLOAD_STEP"
proof -
  let ?m = "FirmwareDownloadMode_new \<lparr>dl_allowNetwork = NetType.WIFI, dl_order = Order.DOWNLOAD\<rparr> BusinessError_default"
  have net: "IsNetAvailable NetType.CELLULAR_AND_WIFI (w_net (found_device files))"
    by (simp add: found_device_def stored_world_def NetManager_new_def IsNetAvailable_def Let_def)
  have sizes: "sint (fc_progress stored_package) = 0" "sint (fc_size stored_package) = 3"
    by (simp_all add: stored_package_def sample_component_def FirmwareComponent_default_def)
  have "pl_space memory_device DUPDATE_ENGINE_PACKAGE_ROOT_PATH (w_ext (found_device files)) = Some 1000000000"
    by (simp add: found_device_def memory_device_def stored_world_def stored_device_def World_new_def Let_def)
  from space_condition [OF _ _ this] have space: "fst (Download_IsSpaceEnough memory_device 0 (found_device files))"
    by (simp add: md.query_all_components found_device_view sane_size_def missing_bytes_def sizes)
  obtain step m where s: "Download_GetStepAfterInit memory_device ?m (found_device files) = (step, m)" by force
  have "step = FirmwareStep.DOWNLOAD_STEP"
    using md.download_gate [OF s] net space found_device_view(2) by (simp add: found_task_def)
  then show ?thesis using s
    by (simp add: Start_def Execute_def download_flow_def SetExecuteMode_def FirmwareFlowManager_new_def
        Download_GetNextStep_def CreateInstance_def Executor_Execute_def Let_def)
qed

lemma stored_package_path: "\<not> find_dot (fc_spath stored_package)"
proof -
  have "\<not> find_dot ''/data/a.zip''" by code_simp
  then show ?thesis by (simp add: stored_package_def)
qed


section \<open>A package that is already there\<close>

text \<open>A thread whose callback is gone: it returns only when it never reports.\<close>

lemma callback_gone:
  assumes "\<And>p w. cb p f w = None" and "thread_ok t"
  shows "Thread_DownloadCallback E cb percent UpgradeStatus.DOWNLOADING [] t f w = None \<or>
    (\<exists>w'. Thread_DownloadCallback E cb percent UpgradeStatus.DOWNLOADING [] t f w = Some (0, t, f, w'))"
  using assms by (auto simp: Thread_DownloadCallback_def DealAbnormal_def thread_ok_def Let_def)

lemma final_callback_gone:
  assumes "\<And>p w. cb p f w = None" and "thread_ok t"
    and "status = UpgradeStatus.DOWNLOAD_SUCCESS \<and> percent = 100 \<or> status = UpgradeStatus.DOWNLOAD_FAIL"
  shows "thread_report E cb percent status reason t f w = None"
  using assms
  by (auto simp: thread_report_def Thread_DownloadCallback_def DealAbnormal_def thread_ok_def
      DOWNLOAD_FINISH_PERCENT_def Let_def)

lemma perform_gone:
  assumes "\<And>p w. cb p f w = None" and "thread_ok t"
  shows "curl_easy_perform E cb ok cs t f w = None \<or>
    (\<exists>res w'. curl_easy_perform E cb ok cs t f w = Some (res, t, f, w') \<and> res \<noteq> CURLE_ABORTED_BY_CALLBACK)"
proof (induction cs arbitrary: w)
  case Nil
  then show ?case by simp
next
  case (Cons c cs)
  from callback_gone [of cb f t, OF assms, of E "tc_percent c" "set_flags c w"]
  show ?case
  proof
    assume "\<exists>w'. Thread_DownloadCallback E cb (tc_percent c) UpgradeStatus.DOWNLOADING [] t f (set_flags c w) = Some (0, t, f, w')"
    then obtain w' where
      "Thread_DownloadCallback E cb (tc_percent c) UpgradeStatus.DOWNLOADING [] t f (set_flags c w) = Some (0, t, f, w')" ..
    then show ?thesis using Cons.IH [of w'] by simp
  qed simp
qed

lemma transfer_gone:
  assumes "\<And>p w. cb p f w = None"
  shows "ProcessThreadExecute E cb T (StartDownload pkg url DownloadThread_new) f w = None"
proof -
  let ?t = "StartDownload pkg url DownloadThread_new"
  have t: "thread_ok ?t" by (simp add: thread_ok_def StartDownload_def DownloadThread_new_def Progress_default_def)
  note final = final_callback_gone [of cb f, OF assms t]
  show ?thesis
    using perform_gone [of cb f, OF assms t, of E "tr_ok T" "tr_calls T" w]
    by (auto simp: ProcessThreadExecute_def final DOWNLOAD_FINISH_PERCENT_def)
qed

lemma deleted_callback: "fl_deleted fm \<Longrightarrow> thread_callback E th p (e, fm) w = None"
  by (simp add: thread_callback_def Executor_DownloadCallback_def OnDownloadCallback_def Let_def split_beta)

context platform
begin

lemma complete_package_run:
  assumes "w_typed rows w" and "w_tasks rows w = [t]" and "w_components rows w = [c]" and "ft_downloadTaskId t = []"
    and "IsFileExist E DUPDATE_ENGINE_PACKAGE_ROOT_PATH (w_ext w)" and "create (fc_spath c)"
    and "GetLocalFileLength E (fc_spath c) w = fc_size c" and "fc_size c \<noteq> 0"
    and "Start E (download_flow options be) w = Some (fm, w1)" and "fl_executor fm = Some FirmwareStep.DOWNLOAD_STEP"
  shows "run_download E create [T] fm w1 = None"
proof -
  note fm = download_started [OF assms(9,10)]
  define e where "e = \<lparr>de_components = [c], de_tasks = t\<lparr>ft_isExistTask := True\<rparr>, de_upgradeStatus = UpgradeStatus.INIT\<rparr>"
  define p where "p = \<lparr>pr_percent = DOWNLOAD_FINISH_PERCENT, pr_status = UpgradeStatus.DOWNLOAD_SUCCESS, pr_endReason = []\<rparr>"
  have "loading rows t c (e, fm) w" using fm assms(1-3) by (intro loading_start) (simp_all add: e_def)
  moreover have "final_report p" by (simp add: p_def final_report_def DOWNLOAD_FINISH_PERCENT_def)
  ultimately obtain e1 fm1 w2 where
    "thread_callback E (StartDownload (fc_spath c) (fc_url c) DownloadThread_new) p (e, fm) w = Some ((e1, fm1), w2)"
    and del: "fl_deleted fm1" using report_ending [of t c e fm w p] by (auto simp: loaded_def)
  then have x: "Executor_DownloadCallback E (OnDownloadCallback E) (fc_url c) (fc_spath c) p e fm w = Some (e1, fm1, w2)"
    by (auto simp: thread_callback_def StartDownload_def)
  obtain e2 v where d: "DownloadExecutor_DoDownload E (OnDownloadCallback E) create fm w =
      Some ([StartDownload (fc_spath c) (fc_url c) DownloadThread_new], e2, fm1, v)"
    using assms(2-8) x
    by (auto simp: DownloadExecutor_DoDownload_def query_all_components fw.task_query_Cons [OF assms(2)]
        PerformDownload_def e_def p_def Let_def)
  have "ProcessThreadExecute E (thread_callback E (StartDownload (fc_spath c) (fc_url c) DownloadThread_new)) T
      (StartDownload (fc_spath c) (fc_url c) DownloadThread_new) (e2, fm1) v = None"
    by (rule transfer_gone) (rule deleted_callback [OF del])
  then show ?thesis using fm d by (simp add: run_download_def)
qed

end



end
