(* ===== verification/Firmware_Result.thy ===== *)
theory Firmware_Result
  imports Firmware_Download
begin

text \<open>
  The result of an update after the reboot (\<open>firmware_result_process.cpp\<close>): the file the updater
  leaves behind is read line by line into a map from package paths to results, and every
  component is judged by its entry, or, when it has none, by the version the device runs.
\<close>

section \<open>Data\<close>

record UpdateResult =
  ur_spath :: string
  ur_result :: string
  ur_reason :: string

datatype UpdateResultCode = SUCCESS | FAILURE | PART_SUCCESS

datatype UpdateComponentResultCode = SUCCESS | FAILURE | UNEXECUTED

fun UpdateComponentResultCode_code :: "UpdateComponentResultCode \<Rightarrow> int32_t" where
  "UpdateComponentResultCode_code UpdateComponentResultCode.SUCCESS = 0"
| "UpdateComponentResultCode_code UpdateComponentResultCode.FAILURE = 1"
| "UpdateComponentResultCode_code UpdateComponentResultCode.UNEXECUTED = 2"

definition UPDATER_RESULT_SUCCESS :: string where
  "UPDATER_RESULT_SUCCESS = ''pass''"

definition UPDATER_RESULT_FAILURE :: string where
  "UPDATER_RESULT_FAILURE = ''fail''"

definition UPDATER_RESULT_FAILURE_REASON :: string where
  "UPDATER_RESULT_FAILURE_REASON = ''compare version fail''"

definition UPDATER_RESULT_SUCCESS_REASON :: string where
  "UPDATER_RESULT_SUCCESS_REASON = ''compare version success''"

definition UPDATER_RESULT_FILE :: string where
  "UPDATER_RESULT_FILE = ''/data/updater/updater_result''"

definition UPDATE_SUCCESSED :: uint32_t where
  "UPDATE_SUCCESSED = 1"

definition UPDATE_FAILED :: uint32_t where
  "UPDATE_FAILED = 2"

definition GetUpdateResultCode :: "UpdateResult \<Rightarrow> UpdateComponentResultCode" where
  "GetUpdateResultCode r =
     (if ur_result r = UPDATER_RESULT_SUCCESS then UpdateComponentResultCode.SUCCESS
      else if ur_result r = UPDATER_RESULT_FAILURE then UpdateComponentResultCode.FAILURE
      else UpdateComponentResultCode.UNEXECUTED)"

type_synonym ResultMap = "(string \<times> UpdateResult) list"

abbreviation result_find :: "string \<Rightarrow> ResultMap \<Rightarrow> UpdateResult option" where
  "result_find \<equiv> om_find (<)"

abbreviation result_emplace :: "string \<Rightarrow> UpdateResult \<Rightarrow> ResultMap \<Rightarrow> ResultMap" where
  "result_emplace \<equiv> om_insert (<)"

section \<open>FirmwareResultProcess\<close>

definition CompareVersion :: "'x Platform \<Rightarrow> FirmwareComponent \<Rightarrow> 'x World \<Rightarrow> UpdateResult" where
  "CompareVersion E component w =
     (if fc_versionNumber component = GetDisplayVersion E (w_ext w)
      then \<lparr>ur_spath = fc_spath component, ur_result = UPDATER_RESULT_SUCCESS, ur_reason = UPDATER_RESULT_SUCCESS_REASON\<rparr>
      else \<lparr>ur_spath = fc_spath component, ur_result = UPDATER_RESULT_FAILURE, ur_reason = UPDATER_RESULT_FAILURE_REASON\<rparr>)"

text \<open>The record of a line: path, bar, result, colon, reason; what is missing is empty.\<close>

definition parse_line :: "string \<Rightarrow> UpdateResult" where
  "parse_line resultLine =
     (let verticalPlace = find_char resultLine (CHR ''|'') 0;
          (spath, resultAndReason) =
            (case verticalPlace of
               None \<Rightarrow> (resultLine, [])
             | Some i \<Rightarrow> (substr resultLine 0 i, drop (i + 1) resultLine));
          (result, reason) =
            (case find_char resultAndReason (CHR '':'') 0 of
               None \<Rightarrow> (resultAndReason, [])
             | Some i \<Rightarrow> (substr resultAndReason 0 i, drop (i + 1) resultAndReason))
      in \<lparr>ur_spath = Trim spath, ur_result = Trim result, ur_reason = Trim reason\<rparr>)"

definition ParseUpdaterResultRecord :: "string \<Rightarrow> ResultMap \<Rightarrow> ResultMap" where
  "ParseUpdaterResultRecord resultLine resultMap =
     (if resultLine = [] then resultMap
      else let r = parse_line resultLine in result_emplace (ur_spath r) r resultMap)"

definition HandleFileError :: "'x Platform \<Rightarrow> FirmwareComponent list \<Rightarrow> 'x World \<Rightarrow> ResultMap" where
  "HandleFileError E components w =
     foldl (\<lambda>m c. let r = CompareVersion E c w in result_emplace (ur_spath r) r m) [] components"

text \<open>One round of the loop over the components: the map and the collected result bits.\<close>

definition component_result ::
  "'x Platform \<Rightarrow> 'x World \<Rightarrow> ResultMap \<times> uint32_t \<Rightarrow> FirmwareComponent \<Rightarrow> ResultMap \<times> uint32_t" where
  "component_result E w = (\<lambda>(resultMap, hota) component.
     let (updateResultStatus, resultMap) =
           (case result_find (fc_spath component) resultMap of
              None \<Rightarrow> (let r = CompareVersion E component w
                       in (ur_result r, result_emplace (ur_spath r) r resultMap))
            | Some r \<Rightarrow> (ur_result r, resultMap))
     in (resultMap, hota OR (if updateResultStatus = UPDATER_RESULT_SUCCESS then UPDATE_SUCCESSED else UPDATE_FAILED)))"

definition HandleFileResults ::
  "'x Platform \<Rightarrow> ResultMap \<Rightarrow> FirmwareComponent list \<Rightarrow> 'x World \<Rightarrow> UpdateResultCode \<times> ResultMap" where
  "HandleFileResults E resultMap components w =
     (let task = QueryTask E FirmwareTask_default w
      in if \<not> ft_isExistTask task then (UpdateResultCode.FAILURE, resultMap)
      else let (resultMap, hotaUpdateResult) = foldl (component_result E w) (resultMap, 0) components
      in if ft_combinationType task = CombinationType.HOTA
         then (if hotaUpdateResult = UPDATE_SUCCESSED then UpdateResultCode.SUCCESS else UpdateResultCode.FAILURE, resultMap)
         else if hotaUpdateResult \<noteq> UPDATE_SUCCESSED then (UpdateResultCode.FAILURE, resultMap)
         else (UpdateResultCode.SUCCESS, resultMap))"

text \<open>The lines \<open>getline\<close> yields until the end of the file: one more than there are newlines.\<close>

fun lines_of :: "string \<Rightarrow> string list" where
  "lines_of [] = [[]]"
| "lines_of (c # s) =
     (if c = CHR ''\<newline>'' then [] # lines_of s
      else case lines_of s of [] \<Rightarrow> [[c]] | l # ls \<Rightarrow> (c # l) # ls)"

definition GetUpdaterResult ::
  "'x Platform \<Rightarrow> FirmwareComponent list \<Rightarrow> ResultMap \<Rightarrow> 'x World \<Rightarrow> UpdateResultCode \<times> ResultMap" where
  "GetUpdaterResult E components resultMap w =
     (if components = [] then (UpdateResultCode.FAILURE, resultMap)
      else HandleFileResults E
             (case pl_read_file E UPDATER_RESULT_FILE (w_ext w) of
                None \<Rightarrow> HandleFileError E components w
              | Some content \<Rightarrow> foldl (\<lambda>m l. ParseUpdaterResultRecord l m) [] (lines_of content))
             components w)"

section \<open>The verdict on an update\<close>

text \<open>
  What the file says of a path: the first line for it counts. A component passes when the file
  says so, and without a word from the file when the device runs its version.
\<close>

definition recorded :: "string list \<Rightarrow> string \<Rightarrow> string option" where
  "recorded lines path =
     map_option ur_result (find (\<lambda>r. ur_spath r = path) (map parse_line (filter (\<lambda>l. l \<noteq> []) lines)))"

definition passed :: "'x Platform \<Rightarrow> 'x World \<Rightarrow> string list \<Rightarrow> FirmwareComponent \<Rightarrow> bool" where
  "passed E w lines c =
     (case recorded lines (fc_spath c) of
        Some result \<Rightarrow> result = ''pass''
      | None \<Rightarrow> fc_versionNumber c = GetDisplayVersion E (w_ext w))"

lemma emplace_find:
  assumes "om_ordered (<) (m :: ResultMap)"
  shows "om_ordered (<) (result_emplace k r m)"
    and "result_find j (result_emplace k r m) = (case result_find j m of Some x \<Rightarrow> Some x | None \<Rightarrow> if j = k then Some r else None)"
  using sm.find_insert [OF assms, of j k r] sm.ordered_insert [OF assms, of k r]
  by (auto simp: same_key_def split: option.splits if_splits)

lemma lines_map:
  assumes "om_ordered (<) m"
  shows "om_ordered (<) (foldl (\<lambda>m l. ParseUpdaterResultRecord l m) m ls) \<and>
    map_option ur_result (result_find p (foldl (\<lambda>m l. ParseUpdaterResultRecord l m) m ls)) =
      (case result_find p m of Some r \<Rightarrow> Some (ur_result r) | None \<Rightarrow> recorded ls p)"
  using assms
proof (induction ls arbitrary: m)
  case Nil
  then show ?case by (simp add: recorded_def split: option.split)
next
  case (Cons l ls)
  let ?m = "ParseUpdaterResultRecord l m"
  have "om_ordered (<) ?m"
    using emplace_find(1) [OF Cons.prems] Cons.prems by (simp add: ParseUpdaterResultRecord_def Let_def)
  moreover have "result_find p ?m = (case result_find p m of Some x \<Rightarrow> Some x
      | None \<Rightarrow> if l \<noteq> [] \<and> p = ur_spath (parse_line l) then Some (parse_line l) else None)"
    using emplace_find(2) [OF Cons.prems, of p] by (auto simp: ParseUpdaterResultRecord_def Let_def split: option.split)
  ultimately show ?case using Cons.IH [of ?m] by (auto simp: recorded_def split: option.splits)
qed

definition verdict :: "'x Platform \<Rightarrow> 'x World \<Rightarrow> ResultMap \<Rightarrow> FirmwareComponent \<Rightarrow> bool" where
  "verdict E w m c =
     (case result_find (fc_spath c) m of
        Some r \<Rightarrow> ur_result r = UPDATER_RESULT_SUCCESS
      | None \<Rightarrow> fc_versionNumber c = GetDisplayVersion E (w_ext w))"

lemma component_result_step:
  assumes "om_ordered (<) m"
  shows "\<exists>m'. component_result E w (m, h) c =
      (m', h OR (if verdict E w m c then UPDATE_SUCCESSED else UPDATE_FAILED)) \<and> om_ordered (<) m' \<and>
    (\<forall>p. p \<noteq> fc_spath c \<longrightarrow> result_find p m' = result_find p m)"
proof -
  have "ur_spath (CompareVersion E c w) = fc_spath c"
    "ur_result (CompareVersion E c w) = UPDATER_RESULT_SUCCESS \<longleftrightarrow> fc_versionNumber c = GetDisplayVersion E (w_ext w)"
    by (simp_all add: CompareVersion_def UPDATER_RESULT_SUCCESS_def UPDATER_RESULT_FAILURE_def)
  then show ?thesis
    using emplace_find [OF assms]
    by (auto simp: component_result_def verdict_def assms Let_def split: option.split)
qed

lemma or_bits:
  "(h :: uint32_t) \<in> {0, 1, 2, 3} \<Longrightarrow> h OR 1 \<in> {0, 1, 2, 3} \<and> h OR 2 \<in> {0, 1, 2, 3} \<and>
    (h OR 1 = 1 \<longleftrightarrow> h = 0 \<or> h = 1) \<and> h OR 2 \<noteq> 1 \<and> h OR 2 \<noteq> 0 \<and> h OR 1 \<noteq> 0"
  by auto

lemma component_loop:
  assumes "om_ordered (<) m" and "distinct (map fc_spath cs)" and "h \<in> {0, 1, 2, 3}"
  shows "snd (foldl (component_result E w) (m, h) cs) = 1 \<longleftrightarrow>
    (h = 1 \<or> h = 0 \<and> cs \<noteq> []) \<and> list_all (verdict E w m) cs"
  using assms
proof (induction cs arbitrary: m h)
  case Nil
  then show ?case by simp
next
  case (Cons c cs)
  let ?b = "if verdict E w m c then UPDATE_SUCCESSED else UPDATE_FAILED"
  obtain m' where s: "component_result E w (m, h) c = (m', h OR ?b)" "om_ordered (<) m'"
    "\<forall>p. p \<noteq> fc_spath c \<longrightarrow> result_find p m' = result_find p m"
    using component_result_step [OF Cons.prems(1)] by blast
  have "list_all (verdict E w m') cs = list_all (verdict E w m) cs"
  proof (intro list.pred_cong refl)
    fix d assume "d \<in> set cs"
    then have "fc_spath d \<noteq> fc_spath c" using Cons.prems(2) by (auto simp: image_iff)
    then show "verdict E w m' d = verdict E w m d" using s(3) by (simp add: verdict_def)
  qed
  moreover have "h OR ?b \<in> {0, 1, 2, 3}"
    using or_bits [OF Cons.prems(3)] by (auto simp: UPDATE_SUCCESSED_def UPDATE_FAILED_def)
  ultimately show ?case
    using Cons.IH [OF s(2), of "h OR ?b"] Cons.prems(2) s(1) or_bits [OF Cons.prems(3)]
    by (auto simp: UPDATE_SUCCESSED_def UPDATE_FAILED_def)
qed

lemma file_error_map:
  assumes "om_ordered (<) m" and "distinct (map fc_spath cs)" and "\<forall>c \<in> set cs. result_find (fc_spath c) m = None"
  shows "om_ordered (<) (foldl (\<lambda>m c. let r = CompareVersion E c w in result_emplace (ur_spath r) r m) m cs) \<and>
    (\<forall>c \<in> set cs. result_find (fc_spath c)
      (foldl (\<lambda>m c. let r = CompareVersion E c w in result_emplace (ur_spath r) r m) m cs) = Some (CompareVersion E c w)) \<and>
    (\<forall>p. p \<notin> fc_spath ` set cs \<longrightarrow> result_find p
      (foldl (\<lambda>m c. let r = CompareVersion E c w in result_emplace (ur_spath r) r m) m cs) = result_find p m)"
  using assms
proof (induction cs arbitrary: m)
  case Nil
  then show ?case by simp
next
  case (Cons c cs)
  have sp: "ur_spath (CompareVersion E c w) = fc_spath c" by (simp add: CompareVersion_def)
  let ?m = "result_emplace (fc_spath c) (CompareVersion E c w) m"
  note e = emplace_find [OF Cons.prems(1), where k = "fc_spath c" and r = "CompareVersion E c w"]
  have "\<forall>d \<in> set cs. result_find (fc_spath d) ?m = None" using Cons.prems(2,3) e(2) by (auto simp: image_iff)
  then show ?case using Cons.IH [OF e(1)] Cons.prems(2,3) e(2) sp by (auto simp: Let_def image_iff split: option.split)
qed

context platform
begin

lemma task_there: "ft_isExistTask (QueryTask E t w) \<longleftrightarrow> w_tasks rows w \<noteq> []"
  by (rule fw.task_exists)

end

text \<open>
  C24. The verdict on an update after the reboot. With a task in the tables and packages with
  different paths, the update has succeeded exactly when every component has passed: by the
  first line the updater wrote for its path, or, when there is none or no file, because the
  device runs the version of the component.
\<close>

theorem update_verdict:
  assumes "platform E rows" and "w_tasks rows w \<noteq> []" and "cs \<noteq> []" and "distinct (map fc_spath cs)"
  shows "fst (GetUpdaterResult E cs m w) = UpdateResultCode.SUCCESS \<longleftrightarrow>
      list_all (passed E w (case pl_read_file E ''/data/updater/updater_result'' (w_ext w) of
         None \<Rightarrow> [] | Some content \<Rightarrow> lines_of content)) cs"
    (is "_ \<longleftrightarrow> list_all (passed E w ?ls) cs")
proof -
  let ?m = "case pl_read_file E UPDATER_RESULT_FILE (w_ext w) of
      None \<Rightarrow> HandleFileError E cs w
    | Some content \<Rightarrow> foldl (\<lambda>m l. ParseUpdaterResultRecord l m) [] (lines_of content)"
  have path: "UPDATER_RESULT_FILE = ''/data/updater/updater_result''" by (simp add: UPDATER_RESULT_FILE_def)
  have nil: "om_ordered (<) ([] :: ResultMap)" by (rule sm.ordered_Nil)
  have m: "om_ordered (<) ?m \<and> list_all (verdict E w ?m) cs = list_all (passed E w ?ls) cs"
  proof (cases "pl_read_file E UPDATER_RESULT_FILE (w_ext w)")
    case None
    note f = file_error_map [OF nil assms(4), of E w, folded HandleFileError_def]
    have "list_all (verdict E w (HandleFileError E cs w)) cs = list_all (passed E w []) cs"
      using f by (intro list.pred_cong)
        (auto simp: verdict_def passed_def recorded_def CompareVersion_def UPDATER_RESULT_SUCCESS_def UPDATER_RESULT_FAILURE_def)
    then show ?thesis using None f by (simp add: path)
  next
    case (Some content)
    note l = lines_map [OF nil, of "lines_of content"]
    have "verdict E w (foldl (\<lambda>m l. ParseUpdaterResultRecord l m) [] (lines_of content)) c = passed E w (lines_of content) c" for c
      using l [of "fc_spath c"]
      by (auto simp: verdict_def passed_def UPDATER_RESULT_SUCCESS_def split: option.splits)
    then have "verdict E w (foldl (\<lambda>m l. ParseUpdaterResultRecord l m) [] (lines_of content)) = passed E w (lines_of content)"
      by (rule ext)
    then show ?thesis using Some l by (simp add: path)
  qed
  have task: "ft_isExistTask (QueryTask E FirmwareTask_default w)"
    using platform.task_there [OF assms(1)] assms(2) by blast
  have "fst (GetUpdaterResult E cs m w) = UpdateResultCode.SUCCESS \<longleftrightarrow>
      snd (foldl (component_result E w) (?m, 0) cs) = 1"
    using assms(3) task
    by (simp add: GetUpdaterResult_def HandleFileResults_def UPDATE_SUCCESSED_def Let_def split_beta)
  then show ?thesis using component_loop [OF conjunct1 [OF m] assms(4), of 0 E w] m assms(3) by simp
qed

definition result_world :: "string \<Rightarrow> MemDevice World" where
  "result_world content = (let w = stored_world found_task [stored_package] in
     w\<lparr>w_ext := (w_ext w)\<lparr>md_files := [(UPDATER_RESULT_FILE, content)]\<rparr>\<rparr>)"

lemma result_world_view:
  "w_typed md_rows (result_world s)" "w_tasks md_rows (result_world s) = [found_task]"
  "w_components md_rows (result_world s) = [stored_package]"
  "pl_read_file memory_device ''/data/updater/updater_result'' (w_ext (result_world s)) = Some s"
proof -
  have "md_rows (w_ext (result_world s)) = md_rows (w_ext (stored_world found_task [stored_package]))"
    by (simp add: result_world_def md_rows_def Let_def)
  from md.rows_ext_only [OF this] found_world_view
  show "w_typed md_rows (result_world s)" "w_tasks md_rows (result_world s) = [found_task]"
    "w_components md_rows (result_world s) = [stored_package]" by (simp_all add: w_db_defs)
  show "pl_read_file memory_device ''/data/updater/updater_result'' (w_ext (result_world s)) = Some s"
    by (simp add: result_world_def memory_device_def UPDATER_RESULT_FILE_def Let_def)
qed

theorem update_verdict_witness:
  "fst (GetUpdaterResult memory_device [stored_package] [] (result_world '' /data/a.zip | pass:fine'')) =
     UpdateResultCode.SUCCESS \<and>
   fst (GetUpdaterResult memory_device [stored_package] [] (result_world ''/data/a.zip|fail:3'')) \<noteq>
     UpdateResultCode.SUCCESS"
proof -
  have "recorded (lines_of '' /data/a.zip | pass:fine'') ''/data/a.zip'' = Some ''pass''"
    "recorded (lines_of ''/data/a.zip|fail:3'') ''/data/a.zip'' = Some ''fail''" by code_simp+
  moreover have "fc_spath stored_package = ''/data/a.zip''" by (simp add: stored_package_def)
  ultimately show ?thesis
    using update_verdict [OF md.platform_axioms, of "result_world '' /data/a.zip | pass:fine''" "[stored_package]" "[]"]
      update_verdict [OF md.platform_axioms, of "result_world ''/data/a.zip|fail:3''" "[stored_package]" "[]"]
    by (simp add: result_world_view passed_def)
qed

end
