(* ===== verification/Startup_Schedule.thy ===== *)
theory Startup_Schedule
  imports Firmware_Check
begin

text \<open>
  What decides when the service process runs: the schedule task and its startup reason
  (\<open>schedule_task.h\<close>, \<open>startup_constant.h\<close>), the intervals read from the configuration
  (\<open>schedule_config.cpp\<close>), the next start of the service (\<open>startup_schedule.cpp\<close>) and the time limit of
  the installer (\<open>config_parse.cpp\<close>). The JSON parser and the timer of the init process are
  parameters.
\<close>

section \<open>ScheduleTask\<close>

datatype StartupReason = UNKNOWN | DEVICE_REBOOT | SCHEDULE_TASK | PROCESS_ENV_RESET | StartupReason_unnamed int32_t

fun StartupReason_code :: "StartupReason \<Rightarrow> int32_t" where
  "StartupReason_code UNKNOWN = - 1"
| "StartupReason_code DEVICE_REBOOT = 0"
| "StartupReason_code SCHEDULE_TASK = 1"
| "StartupReason_code PROCESS_ENV_RESET = 2"
| "StartupReason_code (StartupReason_unnamed i) = i"

definition StartupReason_of :: "int32_t \<Rightarrow> StartupReason" where
  "StartupReason_of i =
     (if i = - 1 then UNKNOWN else if i = 0 then DEVICE_REBOOT else if i = 1 then SCHEDULE_TASK
      else if i = 2 then PROCESS_ENV_RESET else StartupReason_unnamed i)"

datatype TaskPriority = LOW | NORMAL | HIGH

record ScheduleTask =
  st_priority :: TaskPriority
  st_minDelayTime :: uint64_t
  st_maxDelayTime :: uint64_t
  st_netType :: int32_t
  st_batteryLevel :: int32_t
  st_deviceIdle :: bool
  st_taskExtra :: string
  st_startupReason :: StartupReason

definition ScheduleTask_new :: ScheduleTask where
  "ScheduleTask_new =
     \<lparr>st_priority = TaskPriority.LOW, st_minDelayTime = 0, st_maxDelayTime = 0, st_netType = 0, st_batteryLevel = 0,
      st_deviceIdle = False, st_taskExtra = [], st_startupReason = UNKNOWN\<rparr>"

definition ScheduleTask_less :: "ScheduleTask \<Rightarrow> ScheduleTask \<Rightarrow> bool" where
  "ScheduleTask_less a b =
     (if st_minDelayTime a \<noteq> st_minDelayTime b then st_minDelayTime a < st_minDelayTime b
      else st_maxDelayTime a < st_maxDelayTime b)"

section \<open>Configuration\<close>

definition DUPDATE_ENGINE_CONFIG_PATH :: string where
  "DUPDATE_ENGINE_CONFIG_PATH = ''/system/etc/update/dupdate_config.json''"

definition PULLUP_INTERVAL :: uint64_t where
  "PULLUP_INTERVAL = 4 * 60 * 60"

definition IDLE_CHECK_INTERVAL :: uint64_t where
  "IDLE_CHECK_INTERVAL = 5 * 60"

definition GetValueAndSetTo_uint64 :: "Json \<Rightarrow> string \<Rightarrow> uint64_t \<Rightarrow> int32_t \<times> uint64_t" where
  "GetValueAndSetTo_uint64 jsonObject key v =
     (case jv_find jsonObject key of
        None \<Rightarrow> (JsonParseError_code MISSING_PROP, v)
      | Some (JvInt i) \<Rightarrow> (JsonParseError_code ERR_OK, of_int i)
      | Some (JvFloat i) \<Rightarrow> (JsonParseError_code ERR_OK, of_int i)
      | Some _ \<Rightarrow> (JsonParseError_code TYPE_ERROR, v))"

definition ParseConfig :: "Json \<Rightarrow> string \<Rightarrow> uint64_t \<Rightarrow> uint64_t" where
  "ParseConfig root key defaultValue =
     (let (ret, v) = GetValueAndSetTo_uint64 root key 0
      in if ret = JsonParseError_code ERR_OK \<and> v > 0 then v else defaultValue)"

record ScheduleConfig =
  sg_pullupInterval :: uint64_t
  sg_idleCheckInterval :: uint64_t

definition ScheduleConfig_new :: ScheduleConfig where
  "ScheduleConfig_new = \<lparr>sg_pullupInterval = PULLUP_INTERVAL, sg_idleCheckInterval = IDLE_CHECK_INTERVAL\<rparr>"

definition InitConfig :: "'x Platform \<Rightarrow> (string \<Rightarrow> Json option) \<Rightarrow> 'x World \<Rightarrow> ScheduleConfig \<Rightarrow> ScheduleConfig" where
  "InitConfig E parse w c =
     (case parse (ReadDataFromFile E DUPDATE_ENGINE_CONFIG_PATH (w_ext w)) of
        None \<Rightarrow> c
      | Some root \<Rightarrow>
          c\<lparr>sg_pullupInterval := ParseConfig root ''pullupInterval'' PULLUP_INTERVAL,
            sg_idleCheckInterval := ParseConfig root ''idleCheckInterval'' IDLE_CHECK_INTERVAL\<rparr>)"

text \<open>\<open>ConfigInfo::abInstallTimeout\<close>, in seconds.\<close>

definition abInstallTimeout_default :: uint32_t where
  "abInstallTimeout_default = 1800"

definition GetValueAndSetTo_uint32 :: "Json \<Rightarrow> string \<Rightarrow> uint32_t \<Rightarrow> uint32_t" where
  "GetValueAndSetTo_uint32 jsonObject key v =
     (case jv_find jsonObject key of
        Some (JvInt i) \<Rightarrow> of_int i
      | Some (JvFloat i) \<Rightarrow> of_int i
      | _ \<Rightarrow> v)"

definition LoadConfigInfo :: "'x Platform \<Rightarrow> (string \<Rightarrow> Json option) \<Rightarrow> 'x World \<Rightarrow> uint32_t \<Rightarrow> uint32_t" where
  "LoadConfigInfo E parse w abInstallTimeout =
     (case pl_read_file E DUPDATE_ENGINE_CONFIG_PATH (w_ext w) of
        None \<Rightarrow> abInstallTimeout
      | Some rawJson \<Rightarrow>
          (case parse rawJson of
             None \<Rightarrow> abInstallTimeout
           | Some root \<Rightarrow> GetValueAndSetTo_uint32 root ''abInstallTimeout'' abInstallTimeout))"

section \<open>StartupSchedule\<close>

definition PROCESS_RESTART_REASON :: string where
  "PROCESS_RESTART_REASON = ''process_restart_reason''"

definition ONE_SECOND_MILLISECONDS :: uint64_t where
  "ONE_SECOND_MILLISECONDS = 1000"

text \<open>\<open>timer\<close> is \<open>StartServiceByTimer\<close> for the service, given the delay in milliseconds.\<close>

definition Schedule :: "'x Platform \<Rightarrow> (uint64_t \<Rightarrow> int32_t) \<Rightarrow> ScheduleTask \<Rightarrow> 'x World \<Rightarrow> bool \<times> 'x World" where
  "Schedule E timer task w =
     (let scheduleTime = st_minDelayTime task * ONE_SECOND_MILLISECONDS;
          w = do_ext (SaveInt E PROCESS_RESTART_REASON (StartupReason_code (st_startupReason task))) w
      in (timer scheduleTime = 0, w))"

section \<open>Properties\<close>

lemma StartupReason_round: "StartupReason_code (StartupReason_of i) = i"
  by (simp add: StartupReason_of_def)

lemma ScheduleTask_order: "\<not> ScheduleTask_less a a"
  "ScheduleTask_less a b \<Longrightarrow> ScheduleTask_less b c \<Longrightarrow> ScheduleTask_less a c"
  by (auto simp: ScheduleTask_less_def split: if_splits)

lemma ParseConfig_positive: "0 < d \<Longrightarrow> 0 < ParseConfig root key d"
  by (simp add: ParseConfig_def split_beta Let_def)

text \<open>
  Whatever the configuration file holds, after reading it the two intervals are positive: the
  service neither restarts without a pause nor looks for idleness on every tick of the clock.
\<close>

lemma intervals_positive:
  "0 < sg_pullupInterval (InitConfig E parse w ScheduleConfig_new) \<and>
   0 < sg_idleCheckInterval (InitConfig E parse w ScheduleConfig_new)"
  using ParseConfig_positive [of PULLUP_INTERVAL] ParseConfig_positive [of IDLE_CHECK_INTERVAL]
  by (auto simp: InitConfig_def ScheduleConfig_new_def PULLUP_INTERVAL_def IDLE_CHECK_INTERVAL_def split: option.split)

end
