(* ===== verification/Firmware_Manager.thy ===== *)
theory Firmware_Manager
  imports Firmware_Flow Firmware_Result Startup_Schedule
begin

text \<open>
  The firmware manager (\<open>firmware_manager.cpp\<close>) and the listener that tells it of network changes
  (\<open>firmware_event_listener.cpp\<close>): the operations of the service, what is restored when the process starts,
  and what happens after the reboot of an update. An operation that starts a flow returns the
  flow manager, whose executor thread runs after it.
\<close>

section \<open>Queries and guards\<close>

definition Manager_IsIdle :: "'x Platform \<Rightarrow> 'x World \<Rightarrow> bool" where
  "Manager_IsIdle E w =
     (if FirmwareStatusCache_IsChecking E w then False
      else \<not> ft_isExistTask (QueryTask E FirmwareTask_default w))"

definition Manager_GetScheduleTasks :: "ScheduleTask list" where
  "Manager_GetScheduleTasks = [ScheduleTask_new]"

definition Manager_Exit :: bool where
  "Manager_Exit = True"

definition CanInstall :: "'x Platform \<Rightarrow> 'x World \<Rightarrow> bool" where
  "CanInstall E w =
     (let task = QueryTask E FirmwareTask_default w
      in if FirmwareUpdateHelper_GetInstallType E w = InstallType.SYS_INSTALLER
         then ft_status task = UpgradeStatus.DOWNLOAD_SUCCESS \<or> ft_status task = UpgradeStatus.INSTALL_SUCCESS
         else ft_status task = UpgradeStatus.DOWNLOAD_SUCCESS)"

section \<open>Operations\<close>

definition DoCancelDownload :: "'x Platform \<Rightarrow> BusinessError \<Rightarrow> 'x World \<Rightarrow> BusinessError \<times> 'x World" where
  "DoCancelDownload E businessError w =
     (let task = QueryTask E FirmwareTask_default w
      in if \<not> ft_isExistTask task
         then (AddErrorMessage DUPDATE_ERR_DOWNLOAD_COMMON_ERROR ''no download task to cancel!''
                 (Build CallResult.FAIL ''no download task to cancel!'' businessError), w)
         else (businessError, w\<lparr>w_isCancel := True\<rparr>))"

definition PULLUP_AFTER_TERMINATE_INTERVAL :: uint64_t where
  "PULLUP_AFTER_TERMINATE_INTERVAL = 5"

text \<open>The flag of the result says that the process will exit.\<close>

definition DoTerminateUpgrade ::
  "'x Platform \<Rightarrow> (uint64_t \<Rightarrow> int32_t) \<Rightarrow> BusinessError \<Rightarrow> 'x World \<Rightarrow> bool \<times> BusinessError \<times> 'x World" where
  "DoTerminateUpgrade E timer businessError w =
     (let scheduleTask = ScheduleTask_new
            \<lparr>st_startupReason := PROCESS_ENV_RESET, st_minDelayTime := PULLUP_AFTER_TERMINATE_INTERVAL\<rparr>;
          (scheduled, w) = Schedule E timer scheduleTask w
      in if \<not> scheduled
         then (False, AddErrorMessage DUPDATE_ERR_INTERNAL_ERROR ''terminate upgrade error!'' businessError, w)
         else (True, businessError, w))"

definition DoCheck :: "'x Platform \<Rightarrow> 'x World \<Rightarrow> (FirmwareFlowManager \<times> 'x World) option" where
  "DoCheck E w = Start E (SetExecuteMode (CheckMode FirmwareManualCheckMode_new) FirmwareFlowManager_new) w"

text \<open>The error behind the reference the mode keeps is the one of the caller.\<close>

definition flow_error :: "BusinessError \<Rightarrow> FirmwareFlowManager \<Rightarrow> BusinessError" where
  "flow_error be fm =
     (case fl_executeMode fm of
        Some (LoadMode m) \<Rightarrow> dm_businessError m
      | Some (InstallMode m) \<Rightarrow> im_businessError m
      | _ \<Rightarrow> be)"

definition DoDownload ::
  "'x Platform \<Rightarrow> DownloadOptions \<Rightarrow> BusinessError \<Rightarrow> 'x World \<Rightarrow> (FirmwareFlowManager \<times> BusinessError \<times> 'x World) option" where
  "DoDownload E downloadOptions businessError w =
     map_option (\<lambda>(fm, w). (fm, flow_error businessError fm, w)) (Start E (download_flow downloadOptions businessError) w)"

definition DoInstall ::
  "'x Platform \<Rightarrow> UpgradeOptions \<Rightarrow> BusinessError \<Rightarrow> InstallType \<Rightarrow> 'x World \<Rightarrow>
   (FirmwareFlowManager option \<times> BusinessError \<times> 'x World) option" where
  "DoInstall E upgradeOptions businessError installType w =
     (if \<not> CanInstall E w then Some (None, businessError, w)
      else map_option (\<lambda>(fm, w). (Some fm, flow_error businessError fm, w))
             (Start E (SetExecuteMode (InstallMode (FirmwareInstallApplyMode_new upgradeOptions businessError installType))
                         FirmwareFlowManager_new) w))"

definition DoAutoDownloadSwitchChanged :: "'x Platform \<Rightarrow> bool \<Rightarrow> 'x World \<Rightarrow> 'x World" where
  "DoAutoDownloadSwitchChanged E isDownloadSwitchOn w =
     (let w = do_ext (SaveBool E AUTO_DOWNLOAD_SWITCH isDownloadSwitchOn) w;
          task = QueryTask E FirmwareTask_default w
      in if \<not> ft_isExistTask task then w
         else if ft_status task \<noteq> UpgradeStatus.CHECK_VERSION_SUCCESS then w
         else if \<not> isDownloadSwitchOn
         then NotifyEvent (ft_taskId task) EVENT_DOWNLOAD_WAIT UpgradeStatus.CHECK_VERSION_SUCCESS ErrorMessage_default [] w
         else w)"

definition DoClearError :: "'x Platform \<Rightarrow> BusinessError \<Rightarrow> 'x World \<Rightarrow> BusinessError \<times> 'x World" where
  "DoClearError E businessError w =
     (let task = QueryTask E FirmwareTask_default w
      in if \<not> ft_isExistTask task then (businessError, w)
         else if \<not> IsUpgradeFailed (ft_status task)
         then (AddErrorMessage DUPDATE_ERR_UPDATE_COMMON_ERROR ''please check status before clear error''
                 (Build CallResult.FAIL ''please check status before clear error'' businessError), w)
         else (businessError, ClearFirmwareInfo E w))"

section \<open>After the reboot of an update\<close>

definition boot_components :: "FirmwareComponent list \<Rightarrow> VersionComponent list" where
  "boot_components components =
     map (\<lambda>c. VersionComponent_default
            \<lparr>vc_componentType := ComponentType_code ComponentType.OTA,
             vc_componentId := fc_componentId c,
             vc_upgradeAction := ''upgrade'',
             vc_displayVersion := fc_targetBlDisplayVersionNumber c,
             vc_innerVersion := fc_targetBlVersionNumber c\<rparr>) components"

definition HandleBootUpdateSuccess :: "'x Platform \<Rightarrow> FirmwareTask \<Rightarrow> 'x World \<Rightarrow> 'x World" where
  "HandleBootUpdateSuccess E task w =
     (let w = do_ext (SaveString E UPDATE_ACTION ''upgrade'') w;
          versionComponents = boot_components (QueryAllComponents E w);
          w = SaveHotaCurrentVersionComponentId E w
      in if ft_combinationType task = CombinationType.HOTA
         then ClearFirmwareInfo E
                (NotifyEvent (ft_taskId task) EVENT_UPGRADE_SUCCESS UpgradeStatus.UPDATE_SUCCESS ErrorMessage_default
                   versionComponents w)
         else w)"

definition first_failure :: "ResultMap \<Rightarrow> ErrorMessage" where
  "first_failure resultMap =
     (case find (\<lambda>r. ur_result (snd r) = UPDATER_RESULT_FAILURE) resultMap of
        None \<Rightarrow> ErrorMessage_default
      | Some r \<Rightarrow> \<lparr>em_errorCode = UpdateComponentResultCode_code (GetUpdateResultCode (snd r)),
                   em_errorMessage = ur_reason (snd r)\<rparr>)"

definition HandleBootUpdateFail :: "'x Platform \<Rightarrow> FirmwareTask \<Rightarrow> ResultMap \<Rightarrow> 'x World \<Rightarrow> 'x World" where
  "HandleBootUpdateFail E task resultMap w =
     (let w = do_ext (SaveString E UPDATE_ACTION ''recovery'') w;
          versionComponents = boot_components (QueryAllComponents E w);
          w = NotifyEvent (ft_taskId task) EVENT_UPGRADE_FAIL UpgradeStatus.UPDATE_FAIL (first_failure resultMap)
                versionComponents w
      in ClearFirmwareInfo E w)"

definition HandleBootUpdateOnStatusProcess :: "'x Platform \<Rightarrow> FirmwareTask \<Rightarrow> 'x World \<Rightarrow> 'x World" where
  "HandleBootUpdateOnStatusProcess E task w =
     (case GetUpdaterResult E (QueryAllComponents E w) [] w of
        (UpdateResultCode.SUCCESS, resultMap) \<Rightarrow> HandleBootUpdateSuccess E task w
      | (UpdateResultCode.FAILURE, resultMap) \<Rightarrow> HandleBootUpdateFail E task resultMap w
      | _ \<Rightarrow> w)"

definition HandleBootComplete :: "'x Platform \<Rightarrow> 'x World \<Rightarrow> 'x World" where
  "HandleBootComplete E w =
     (let task = QueryTask E FirmwareTask_default w
      in if \<not> ft_isExistTask task then w
         else if ft_status task = UpgradeStatus.UPDATING then HandleBootUpdateOnStatusProcess E task w
         else w)"

section \<open>Network changes\<close>

text \<open>\<open>HandleResumeDownload\<close> and \<open>DoAutoDownload\<close> only write to the log.\<close>

definition HandleNetChanged :: "'x World \<Rightarrow> 'x World" where
  "HandleNetChanged w =
     (if \<not> IsNetAvailable NetType.CELLULAR_AND_WIFI (w_net w) then w\<lparr>w_isNoNet := True\<rparr>
      else w\<lparr>w_isNoNet := False\<rparr>)"

datatype CommonEventType =
    AUTO_UPGRADE | NET_CHANGED | TIME_CHANGED | TIME_ZONE_CHANGED | BOOT_COMPLETE | PROCESS_INIT | NIGHT_UPGRADE
  | SCREEN_OFF | UPGRADE_REMIND

definition HandleEvent :: "'x Platform \<Rightarrow> CommonEventType \<Rightarrow> 'x World \<Rightarrow> 'x World" where
  "HandleEvent E event w =
     (case event of
        NET_CHANGED \<Rightarrow> HandleNetChanged w
      | BOOT_COMPLETE \<Rightarrow> HandleBootComplete E w
      | _ \<Rightarrow> w)"

definition HOTA_DOWNLOAD_callback :: int32_t where
  "HOTA_DOWNLOAD_callback = 1"

definition RegisterNetChangedListener :: "'x World \<Rightarrow> 'x World" where
  "RegisterNetChangedListener w =
     w\<lparr>w_net := snd (NetManager_RegisterCallback HOTA_DOWNLOAD_callback
        [NetType.CELLULAR, NetType.METERED_WIFI, NetType.NOT_METERED_WIFI, NetType.NO_NET] (w_net w))\<rparr>"

definition UnregisterNetChangedListener :: "'x World \<Rightarrow> 'x World" where
  "UnregisterNetChangedListener w = w\<lparr>w_net := NetManager_UnregisterCallback HOTA_DOWNLOAD_callback (w_net w)\<rparr>"

text \<open>A change the network observer reports: the manager's callback is the only one registered.\<close>

definition NetChanged :: "'x Platform \<Rightarrow> NetType \<Rightarrow> 'x World \<Rightarrow> 'x World" where
  "NetChanged E netType w =
     (let (_, called, nm) = OnNetChange netType (w_net w); w = w\<lparr>w_net := nm\<rparr>
      in if HOTA_DOWNLOAD_callback \<in> set called then HandleEvent E NET_CHANGED w else w)"

section \<open>Start of the process\<close>

definition HandleBootInstallOnStatusProcess ::
  "'x Platform \<Rightarrow> FirmwareTask \<Rightarrow> 'x World \<Rightarrow> (FirmwareFlowManager option \<times> 'x World) option" where
  "HandleBootInstallOnStatusProcess E task w =
     (let w = UpdateTaskProgress E (ft_taskId task) UpgradeStatus.DOWNLOAD_SUCCESS ONE_HUNDRED w;
          w = foldl (\<lambda>w c. if fc_status c = UpgradeStatus.INSTALLING
                           then UpdateComponentProgress E (fc_url c) UpgradeStatus.DOWNLOAD_SUCCESS ONE_HUNDRED w else w) w
                (QueryAllComponents E w)
      in map_option (\<lambda>(fm, _, w). (fm, w))
           (DoInstall E \<lparr>uo_order = Order.INSTALL_AND_APPLY\<rparr> BusinessError_default InstallType.SYS_INSTALLER w))"

definition RestoreUpdate :: "'x Platform \<Rightarrow> 'x World \<Rightarrow> (FirmwareFlowManager option \<times> 'x World) option" where
  "RestoreUpdate E w =
     (let task = QueryTask E FirmwareTask_default w
      in if ft_status task = UpgradeStatus.DOWNLOAD_PAUSE then Some (None, ClearFirmwareInfo E w)
      else if ft_status task = UpgradeStatus.DOWNLOADING then Some (None, ClearFirmwareInfo E w)
      else if ft_status task = UpgradeStatus.DOWNLOAD_SUCCESS then Some (None, w)
      else if ft_status task = UpgradeStatus.INSTALLING \<or> ft_status task = UpgradeStatus.INSTALL_SUCCESS
      then HandleBootInstallOnStatusProcess E task w
      else Some (None, w))"

definition DUE_INIT_FLAG :: string where
  "DUE_INIT_FLAG = ''due_init_flag''"

definition NotifyInitEvent :: "'x Platform \<Rightarrow> 'x World \<Rightarrow> 'x World" where
  "NotifyInitEvent E w =
     (if \<not> ObtainBool E DUE_INIT_FLAG False (w_ext w)
      then NotifyEvent [] EVENT_INITIALIZE UpgradeStatus.INIT ErrorMessage_default []
             (do_ext (SaveBool E DUE_INIT_FLAG True) w)
      else w)"

definition DelayInit :: "'x Platform \<Rightarrow> StartupReason \<Rightarrow> 'x World \<Rightarrow> (FirmwareFlowManager option \<times> 'x World) option" where
  "DelayInit E startupReason w =
     (case RestoreUpdate E w of
        None \<Rightarrow> None
      | Some (fm, w) \<Rightarrow>
          (let w = RegisterNetChangedListener w;
               eventType = (if startupReason = DEVICE_REBOOT then BOOT_COMPLETE else PROCESS_INIT);
               w = NotifyInitEvent E w
           in Some (fm, HandleEvent E eventType w)))"

definition FIRMWARE_DIR_INFOS :: "DirInfo list" where
  "FIRMWARE_DIR_INFOS =
     [\<lparr>dir_dirName = ENCRYPTED_ROOT_PATH, dir_dirPermissions = 448, dir_isAllowDestroyContents = True\<rparr>,
      \<lparr>dir_dirName = CHANGELOG_PATH, dir_dirPermissions = 448, dir_isAllowDestroyContents = True\<rparr>,
      \<lparr>dir_dirName = PACKAGE_ROOT_PATH, dir_dirPermissions = 504, dir_isAllowDestroyContents = True\<rparr>,
      \<lparr>dir_dirName = PACKAGE_PATH, dir_dirPermissions = 504, dir_isAllowDestroyContents = True\<rparr>]"

text \<open>
  \<open>Init\<close> up to the thread it starts, which runs \<open>DelayInit\<close>. \<open>drop_db\<close> is the deletion of the
  database file by the relational store.
\<close>

definition Manager_Init :: "'x Platform \<Rightarrow> ('x \<Rightarrow> 'x) \<Rightarrow> StartupReason \<Rightarrow> 'x World \<Rightarrow> 'x World" where
  "Manager_Init E drop_db startupReason w =
     (let w = (if startupReason = PROCESS_ENV_RESET
               then let w = w\<lparr>w_ext := DestroyBaseDirectory E FIRMWARE_DIR_INFOS (w_ext w)\<rparr>;
                        w = do_ext (Prefs_RemoveAll E) w
                    in w\<lparr>w_ext := drop_db (w_ext w)\<rparr>
               else w)
      in w\<lparr>w_ext := InitAndCreateBaseDirs E FIRMWARE_DIR_INFOS (w_ext w)\<rparr>)"

section \<open>The tables after a restart\<close>

context platform
begin

lemma prefs_db:
  "w_tasks rows (do_ext (SaveString E k s) w) = w_tasks rows w"
  "w_components rows (do_ext (SaveString E k s) w) = w_components rows w"
  "w_typed rows (do_ext (SaveString E k s) w) = w_typed rows w"
  "w_tasks rows (do_ext (SaveBool E k b) w) = w_tasks rows w"
  "w_components rows (do_ext (SaveBool E k b) w) = w_components rows w"
  "w_typed rows (do_ext (SaveBool E k b) w) = w_typed rows w"
  "w_tasks rows (do_ext (SaveInt E k i) w) = w_tasks rows w"
  "w_components rows (do_ext (SaveInt E k i) w) = w_components rows w"
  "w_typed rows (do_ext (SaveInt E k i) w) = w_typed rows w"
  using rows_ext_only [OF rows_Prefs_Save [of k "PrefString s" "w_ext w"]]
    rows_ext_only [OF rows_Prefs_Save [of k "PrefBool b" "w_ext w"]]
    rows_ext_only [OF rows_Prefs_Save [of k "PrefInt i" "w_ext w"]]
  by (simp_all add: w_db_defs SaveString_def SaveBool_def SaveInt_def)

lemma some_progress_db:
  assumes "w_typed rows w" and "us.wf st"
  shows "w_typed rows (foldl (\<lambda>w c. if P c then UpdateComponentProgress E (fc_url c) st pr w else w) w cs) \<and>
    w_tasks rows (foldl (\<lambda>w c. if P c then UpdateComponentProgress E (fc_url c) st pr w else w) w cs) = w_tasks rows w"
  using assms
proof (induction cs arbitrary: w)
  case Nil
  then show ?case by simp
next
  case (Cons c cs)
  then show ?case
    using fw.component_progress [OF Cons.prems, of "fc_url c" pr]
      Cons.IH [of "if P c then UpdateComponentProgress E (fc_url c) st pr w else w"] by auto
qed

lemma install_restarted:
  assumes "w_typed rows w" and "w_tasks rows w = [t]" and "ft_status t = UpgradeStatus.DOWNLOAD_SUCCESS"
  shows "\<exists>fm be' w'. DoInstall E \<lparr>uo_order = Order.INSTALL_AND_APPLY\<rparr> be ty w = Some (Some fm, be', w') \<and>
    (if fl_executor fm = Some FirmwareStep.INSTALL_STEP then w' = w
     else w' = w \<or> w_tasks rows w' = [] \<and> w_components rows w' = [])"
proof -
  let ?m = "FirmwareInstallApplyMode_new \<lparr>uo_order = Order.INSTALL_AND_APPLY\<rparr> be ty"
  obtain step m w' where s: "Install_GetStepAfterInit E ?m w = (step, m, w')" by (metis prod_cases3)
  note gate = install_gate [OF assms(1) s]
  have "CanInstall E w" using assms(2,3) by (simp add: CanInstall_def fw.task_query_Cons [OF assms(2)] Let_def)
  then show ?thesis
    using s gate clear_db [OF assms(1)]
    by (auto simp: DoInstall_def Start_def Execute_def SetExecuteMode_def FirmwareFlowManager_new_def Install_GetNextStep_def
        Complete_def CreateInstance_def Executor_Execute_def Let_def split: if_splits)
qed

lemma restore_db:
  assumes "w_typed rows w" and "w_tasks rows w = [t]"
  shows "\<exists>fm w'. RestoreUpdate E w = Some (fm, w') \<and>
    (w_tasks rows w' = [] \<and> w_components rows w' = [] \<or>
     (if ft_status t \<in> {UpgradeStatus.INSTALLING, UpgradeStatus.INSTALL_SUCCESS}
      then w_tasks rows w' = [t\<lparr>ft_status := UpgradeStatus.DOWNLOAD_SUCCESS, ft_progress := 100\<rparr>]
      else ft_status t \<notin> {UpgradeStatus.DOWNLOADING, UpgradeStatus.DOWNLOAD_PAUSE} \<and> w' = w \<and> fm = None))"
proof (cases "ft_status t \<in> {UpgradeStatus.INSTALLING, UpgradeStatus.INSTALL_SUCCESS}")
  case False
  then show ?thesis using clear_db [OF assms(1)] by (auto simp: RestoreUpdate_def fw.task_query_Cons [OF assms(2)] Let_def)
next
  case True
  have wf: "us.wf UpgradeStatus.DOWNLOAD_SUCCESS" by (simp add: us.wf_named enum_simps)
  let ?t = "t\<lparr>ft_status := UpgradeStatus.DOWNLOAD_SUCCESS, ft_progress := 100\<rparr>"
  define v where "v = UpdateTaskProgress E (ft_taskId t) UpgradeStatus.DOWNLOAD_SUCCESS ONE_HUNDRED w"
  have v: "w_typed rows v" "w_tasks rows v = [?t]"
    using fw.task_progress [OF assms(1) wf, of "ft_taskId t" ONE_HUNDRED] assms(2) by (simp_all add: v_def ONE_HUNDRED_def)
  define u where "u = foldl (\<lambda>w c. if fc_status c = UpgradeStatus.INSTALLING
    then UpdateComponentProgress E (fc_url c) UpgradeStatus.DOWNLOAD_SUCCESS ONE_HUNDRED w else w) v (QueryAllComponents E v)"
  have u: "w_typed rows u" "w_tasks rows u = [?t]"
    using some_progress_db [OF v(1) wf, of "\<lambda>c. fc_status c = UpgradeStatus.INSTALLING" ONE_HUNDRED "QueryAllComponents E v"] v(2)
    by (simp_all add: u_def)
  obtain fm be' w' where "DoInstall E \<lparr>uo_order = Order.INSTALL_AND_APPLY\<rparr> BusinessError_default InstallType.SYS_INSTALLER u =
      Some (Some fm, be', w')" "w' = u \<or> w_tasks rows w' = [] \<and> w_components rows w' = []"
    using install_restarted [OF u, of BusinessError_default InstallType.SYS_INSTALLER] by (auto split: if_splits)
  moreover have "RestoreUpdate E w = map_option (\<lambda>(fm, _, w). (fm, w))
      (DoInstall E \<lparr>uo_order = Order.INSTALL_AND_APPLY\<rparr> BusinessError_default InstallType.SYS_INSTALLER u)"
    using True by (auto simp: RestoreUpdate_def fw.task_query_Cons [OF assms(2)] HandleBootInstallOnStatusProcess_def
        u_def v_def Let_def)
  ultimately show ?thesis using True u(2) by auto
qed

end


definition busy_task :: "UpgradeStatus \<Rightarrow> FirmwareTask" where
  "busy_task st = found_task\<lparr>ft_status := st\<rparr>"

lemma busy_world_view:
  assumes "us.wf st"
  shows "w_typed md_rows (stored_world (busy_task st) [stored_package])"
    and "w_tasks md_rows (stored_world (busy_task st) [stored_package]) = [busy_task st]"
    and "w_components md_rows (stored_world (busy_task st) [stored_package]) = [stored_package]"
  using stored_world_db [OF status_storable [OF found_task_storable assms], of "[stored_package]"] stored_package_storable
  by (simp_all add: busy_task_def found_task_def FirmwareTask_default_def)


section \<open>After the reboot of an update\<close>

definition boot_event :: "EventId \<Rightarrow> UpgradeStatus \<Rightarrow> string \<Rightarrow> ErrorMessage \<Rightarrow> VersionComponent list \<Rightarrow> EventInfo" where
  "boot_event ev st taskId em vcs =
     \<lparr>ei_eventId = ev,
      ei_taskBody = TaskBody_default
        \<lparr>tb_status := st, tb_versionDigestInfo := \<lparr>vd_versionDigest = taskId\<rparr>,
         tb_errorMessages := tb_errorMessages TaskBody_default @ [em], tb_versionComponents := vcs\<rparr>\<rparr>"

lemma NotifyEvent_sent:
  "w_sent (NotifyEvent d ev st em vcs w) = w_sent w @
     [AppService (EventInfo_ToJson (boot_event ev st d em vcs)) (SubscribeInfo_ToJson BusinessSubType.FIRMWARE)]"
  by (simp add: NotifyEvent_def NotifyToHap_sent boot_event_def Let_def)

lemma ClearFirmwareInfo_sent: "w_sent (ClearFirmwareInfo E w) = w_sent w"
  by (simp add: ClearFirmwareInfo_def DeleteDownloadFiles_def Let_def)

lemma SaveHota_sent: "w_sent (SaveHotaCurrentVersionComponentId E w) = w_sent w"
  by (simp add: SaveHotaCurrentVersionComponentId_def split: option.split)

lemma GetUpdaterResult_code: "fst (GetUpdaterResult E cs m w) \<noteq> UpdateResultCode.PART_SUCCESS"
  by (simp add: GetUpdaterResult_def HandleFileResults_def split_beta Let_def)

context platform
begin

lemma save_hota_db:
  "w_tasks rows (SaveHotaCurrentVersionComponentId E w) = w_tasks rows w"
  "w_components rows (SaveHotaCurrentVersionComponentId E w) = w_components rows w"
  "w_typed rows (SaveHotaCurrentVersionComponentId E w) = w_typed rows w"
  by (simp_all add: SaveHotaCurrentVersionComponentId_def prefs_db split: option.split)

lemma boot_finishes:
  assumes "w_typed rows w" and "w_tasks rows w = [t]" and "ft_status t = UpgradeStatus.UPDATING"
    and "ft_combinationType t = CombinationType.HOTA"
  shows "w_tasks rows (HandleBootComplete E w) = [] \<and> w_components rows (HandleBootComplete E w) = [] \<and>
    (\<exists>em. w_sent (HandleBootComplete E w) = w_sent w @
      [AppService (EventInfo_ToJson
         (if fst (GetUpdaterResult E (w_components rows w) [] w) = UpdateResultCode.SUCCESS
          then boot_event EVENT_UPGRADE_SUCCESS UpgradeStatus.UPDATE_SUCCESS (ft_taskId t) ErrorMessage_default
                 (boot_components (w_components rows w))
          else boot_event EVENT_UPGRADE_FAIL UpgradeStatus.UPDATE_FAIL (ft_taskId t) em
                 (boot_components (w_components rows w))))
       (SubscribeInfo_ToJson BusinessSubType.FIRMWARE)])"
proof -
  let ?t = "t\<lparr>ft_isExistTask := True\<rparr>"
  obtain code m where r: "GetUpdaterResult E (w_components rows w) [] w = (code, m)" by force
  have h: "HandleBootComplete E w = HandleBootUpdateOnStatusProcess E ?t w"
    using assms(2,3) by (simp add: HandleBootComplete_def fw.task_query_Cons [OF assms(2)] Let_def)
  have clear: "w_tasks rows (ClearFirmwareInfo E v) = [] \<and> w_components rows (ClearFirmwareInfo E v) = []"
    if "w_typed rows v" for v using clear_db [OF that] by simp
  show ?thesis
  proof (cases "code = UpdateResultCode.SUCCESS")
    case True
    then have "HandleBootComplete E w = HandleBootUpdateSuccess E ?t w"
      using r by (simp add: h HandleBootUpdateOnStatusProcess_def query_all_components)
    then show ?thesis using assms clear True r
      by (simp add: HandleBootUpdateSuccess_def query_all_components prefs_db save_hota_db NotifyEvent_sent
          ClearFirmwareInfo_sent SaveHota_sent Let_def)
  next
    case False
    then have "code = UpdateResultCode.FAILURE"
      using GetUpdaterResult_code [of E "w_components rows w" "[]" w] r by (cases code) simp_all
    then have "HandleBootComplete E w = HandleBootUpdateFail E ?t m w"
      using r by (simp add: h HandleBootUpdateOnStatusProcess_def query_all_components)
    then show ?thesis using assms clear False r
      by (auto simp: HandleBootUpdateFail_def query_all_components prefs_db NotifyEvent_sent ClearFirmwareInfo_sent Let_def)
  qed
qed

end

text \<open>
  C3. An update that was handed to the updater is settled by the first boot after it: exactly
  one event is sent, that the update succeeded or that it failed as the verdict says, with the
  components of the version, and both tables are empty afterwards.
\<close>

theorem boot_settles_update:
  assumes "platform E rows" and "w_typed rows w" and "w_tasks rows w = [t]" and "ft_status t = UpgradeStatus.UPDATING"
    and "ft_combinationType t = CombinationType.HOTA"
  shows "w_tasks rows (HandleBootComplete E w) = [] \<and> w_components rows (HandleBootComplete E w) = [] \<and>
    (\<exists>em. w_sent (HandleBootComplete E w) = w_sent w @
      [AppService (EventInfo_ToJson
         (if fst (GetUpdaterResult E (w_components rows w) [] w) = UpdateResultCode.SUCCESS
          then boot_event EVENT_UPGRADE_SUCCESS UpgradeStatus.UPDATE_SUCCESS (ft_taskId t) ErrorMessage_default
                 (boot_components (w_components rows w))
          else boot_event EVENT_UPGRADE_FAIL UpgradeStatus.UPDATE_FAIL (ft_taskId t) em
                 (boot_components (w_components rows w))))
       (SubscribeInfo_ToJson BusinessSubType.FIRMWARE)])"
  by (rule platform.boot_finishes [OF assms])

theorem boot_settles_update_witness:
  "w_tasks md_rows (HandleBootComplete memory_device (stored_world (busy_task UpgradeStatus.UPDATING) [stored_package])) = []"
proof -
  have "us.wf UpgradeStatus.UPDATING" by (simp add: us.wf_named enum_simps)
  note v = busy_world_view [OF this]
  from boot_settles_update [OF md.platform_axioms v(1,2)] show ?thesis by (simp add: busy_task_def found_task_def)
qed

end
