(* ===== verification/World_Keeper.thy ===== *)
theory World_Keeper
  imports Firmware_Manager
begin

text \<open>
  Invariants of the service state. The locale \<open>world_keeper\<close> names the primitive changes the
  pipeline makes to the state; a predicate that survives each of them survives every operation
  of the check, the download, the installation, the flow manager and the firmware manager,
  whatever the network, the transfer library and the installers report. It is interpreted for
  the consistency of the two tables and for the map of clients.
\<close>

named_theorems keeps \<open>operations that keep an invariant of the service state\<close>

section \<open>Callbacks\<close>

definition keeps_cb :: "('x World \<Rightarrow> bool) \<Rightarrow> ('p \<Rightarrow> 'f \<Rightarrow> 'x World \<Rightarrow> ('f \<times> 'x World) option) \<Rightarrow> bool" where
  "keeps_cb P cb \<longleftrightarrow> (\<forall>p f w f' w'. P w \<longrightarrow> cb p f w = Some (f', w') \<longrightarrow> P w')"

lemma keeps_cbD: "keeps_cb P cb \<Longrightarrow> cb p f w = Some (f', w') \<Longrightarrow> P w \<Longrightarrow> P w'"
  unfolding keeps_cb_def by blast

lemma do_ext_eq: "do_ext f w = w\<lparr>w_ext := snd (f (w_ext w))\<rparr>"
  by (simp add: do_ext_def on_ext_def split_beta)

section \<open>Predicates that survive the primitive changes\<close>

locale world_keeper = platform E rows
  for E :: "'x Platform" and rows :: "'x \<Rightarrow> string \<Rightarrow> ValuesBucket list" +
  fixes P :: "'x World \<Rightarrow> bool"
  assumes notice [keeps]: "P w \<Longrightarrow> P (w\<lparr>w_sent := ns\<rparr>)"
    and status [keeps]: "P w \<Longrightarrow> P (w\<lparr>w_status := s\<rparr>)"
    and net [keeps]: "P w \<Longrightarrow> P (w\<lparr>w_net := n\<rparr>)"
    and no_net [keeps]: "P w \<Longrightarrow> P (w\<lparr>w_isNoNet := b\<rparr>)"
    and cancelled [keeps]: "P w \<Longrightarrow> P (w\<lparr>w_isCancel := b\<rparr>)"
    and device: "P w \<Longrightarrow> rows x = rows (w_ext w) \<Longrightarrow> P (w\<lparr>w_ext := x\<rparr>)"
    and task_update: "P w \<Longrightarrow> vs ''taskId'' = None \<Longrightarrow> P (do_ext (Task_UpdateByTaskId (pl_rdb E) i vs) w)"
    and component_progress [keeps]: "P w \<Longrightarrow> P (UpdateComponentProgress E u st pr w)"
    and url_update [keeps]: "P w \<Longrightarrow> P (do_ext (Component_UpdateUrlByVersionId (pl_rdb E) v u) w)"
    and clear [keeps]: "P w \<Longrightarrow> P (ClearFirmwareInfo E w)"
    and new_version [keeps]: "P w \<Longrightarrow> cs \<noteq> [] \<Longrightarrow>
      P (do_ext (Table_Insert1 (pl_rdb E) FirmwareTaskTable t)
          (do_ext (Table_Insert (pl_rdb E) FirmwareComponentTable cs) (ClearFirmwareInfo E w)))"
begin

lemma device_op: "(\<And>x. rows (snd (f x)) = rows x) \<Longrightarrow> P w \<Longrightarrow> P (do_ext f w)"
  by (simp add: do_ext_eq device)

lemma device_ops [keeps]:
  "P w \<Longrightarrow> P (do_ext (SaveDataToFile E p d) w)"
  "P w \<Longrightarrow> P (do_ext (pl_create_dir E p m) w)"
  "P w \<Longrightarrow> P (do_ext (SaveString E k s) w)"
  "P w \<Longrightarrow> P (do_ext (SaveBool E k b) w)"
  "P w \<Longrightarrow> P (do_ext (SaveInt E k i) w)"
  by (rule device_op, simp_all add: rows_SaveDataToFile rows_create_dir SaveString_def SaveBool_def SaveInt_def rows_Prefs_Save)+

lemma remove_file [keeps]: "P w \<Longrightarrow> P (w\<lparr>w_ext := pl_remove E g (w_ext w)\<rparr>)"
  by (simp add: device rows_remove)

lemma delete_files [keeps]: "P w \<Longrightarrow> P (DeleteDownloadFiles E w)"
  by (simp add: DeleteDownloadFiles_def device rows_DeleteFile)

lemma task_updates [keeps]:
  "P w \<Longrightarrow> P (UpdateTaskProgress E i st pr w)"
  "P w \<Longrightarrow> P (do_ext (Task_UpdateDownloadTaskIdByTaskId (pl_rdb E) i d) w)"
  "P w \<Longrightarrow> P (do_ext (Task_UpdateDownloadOptionByTaskId (pl_rdb E) i dm nt od) w)"
  "P w \<Longrightarrow> P (do_ext (Task_UpdateUpgradeModeByTaskId (pl_rdb E) i um) w)"
  using task_update [of w "[''status'' \<mapsto> DbInt (UpgradeStatus_code st), ''progress'' \<mapsto> DbInt pr]" i]
    task_update [of w "[''downloadTaskId'' \<mapsto> DbText d]" i]
    task_update [of w "[''downloadMode'' \<mapsto> DbInt (DownloadMode_code dm), ''downloadAllowNetwork'' \<mapsto> DbInt (NetType_code nt),
      ''downloadOrder'' \<mapsto> DbInt (Order_code od)]" i]
    task_update [of w "[''upgradeMode'' \<mapsto> DbInt (UpgradeMode_code um)]" i]
  by (simp_all add: UpdateTaskProgress_def do_ext_eq Task_UpdateProgressByTaskId_def Task_UpdateDownloadTaskIdByTaskId_def
      Task_UpdateDownloadOptionByTaskId_def Task_UpdateUpgradeModeByTaskId_def)

lemma notices [keeps]:
  "P w \<Longrightarrow> P (NotifyEvent d e st m vs w)"
  "P w \<Longrightarrow> P (ProgressCallback d p w)"
  "P w \<Longrightarrow> P (SearchCallback i be cr w)"
  "P w \<Longrightarrow> P (FirmwareStatusCache_SetIsChecking E c w)"
proof -
  assume "P w"
  then show "P (NotifyEvent d e st m vs w)" "P (ProgressCallback d p w)"
    using NotifyEvent_only_sent [of d e st m vs w] ProgressCallback_only_sent [of d p w] notice by metis+
  show "P (SearchCallback i be cr w)" "P (FirmwareStatusCache_SetIsChecking E c w)"
    using \<open>P w\<close> by (simp_all add: SearchCallback_def FirmwareStatusCache_SetIsChecking_def notice status split: option.split)
qed

lemma keep_loop: "(\<And>w x. P w \<Longrightarrow> P (f w x)) \<Longrightarrow> P w \<Longrightarrow> P (foldl f w xs)"
  using foldl_inv [of P w xs f] by blast

subsection \<open>The check\<close>

lemma write_changelogs_keeps:
  "write_changelogs E junk c ret ds w = Some (ret', w') \<Longrightarrow> P w \<Longrightarrow> P w'"
  by (induction ds arbitrary: ret w) (auto simp: split_beta Let_def split: option.splits intro: keeps)

lemma DoAnalyze_keeps: "DoAnalyze E parse junk s cs w = Some (cs', r, w') \<Longrightarrow> P w \<Longrightarrow> P w'"
  by (auto simp: DoAnalyze_def AnalyzeComponents_def split_beta Let_def dest: write_changelogs_keeps
      split: option.splits if_splits)

lemma ICheck_keeps: "ICheck_DoAction E N w = Some (st, cs, w') \<Longrightarrow> P w \<Longrightarrow> P w'"
  by (auto simp: ICheck_DoAction_def split_beta Let_def dest: DoAnalyze_keeps split: option.splits if_splits)

lemma check_thread_keeps: "CheckExecutor_DoCheck E N w = Some (st, cs, w') \<Longrightarrow> P w \<Longrightarrow> P w'"
  by (auto simp: CheckExecutor_DoCheck_def Let_def intro: keeps dest: ICheck_keeps split: option.splits)

lemma HandleCheckResult_keeps: "P w \<Longrightarrow> P (snd (HandleCheckResult E p w))"
  unfolding HandleCheckResult_def HandleNewVersion_def HandleNoNewVersion_def UpdateFirmwareComponent_def HasNewVersion_def Let_def
  by (auto intro: keeps keep_loop simp: BuildComponentSPath_def)

lemma check_mode_keeps [keeps]:
  "P w \<Longrightarrow> P (snd (Check_SetCheckResult E st cs m w))"
  "P w \<Longrightarrow> P (snd (snd (Check_GetNextStep E step m w)))"
  "P w \<Longrightarrow> P (Check_HandleComplete E m w)"
  using HandleCheckResult_keeps [of w]
  by (auto simp: Check_SetCheckResult_def CheckProcessor_SetCheckResult_def Check_GetNextStep_def Check_GetStepAfterCheck_def
      Check_HandleComplete_def split_beta Let_def split: FirmwareStep.split intro: keeps)

subsection \<open>The download\<close>

lemma set_flags_keeps [keeps]: "P w \<Longrightarrow> P (set_flags c w)"
  using no_net cancelled by (auto simp: set_flags_def)

lemma DealAbnormal_keeps:
  assumes "keeps_cb P cb" and "DealAbnormal cb percent t f w = Some (r, t', f', w')" and "P w"
  shows "P w'"
  using assms(2,3)
  by (auto simp: DealAbnormal_def Let_def split: if_splits option.splits intro: keeps dest: keeps_cbD [OF assms(1)])

lemma Thread_DownloadCallback_keeps:
  assumes "keeps_cb P cb" and "Thread_DownloadCallback E cb percent st er t f w = Some (r, t', f', w')" and "P w"
  shows "P w'"
  using assms(2,3)
  by (auto simp: Thread_DownloadCallback_def Let_def split: if_splits option.splits)
    (blast intro: remove_file dest: DealAbnormal_keeps [OF assms(1)] keeps_cbD [OF assms(1)])+

lemma curl_keeps:
  assumes "keeps_cb P cb"
  shows "curl_easy_perform E cb ok cs t f w = Some (r, t', f', w') \<Longrightarrow> P w \<Longrightarrow> P w'"
proof (induction cs arbitrary: t f w)
  case (Cons c cs)
  then show ?case
    by (auto split: option.splits if_splits intro: keeps dest: Thread_DownloadCallback_keeps [OF assms])
qed simp

lemma ProcessThreadExecute_keeps:
  assumes "keeps_cb P cb" and "ProcessThreadExecute E cb T t f w = Some (t', f', w')" and "P w"
  shows "P w'"
  using assms(2,3)
  by (auto simp: ProcessThreadExecute_def thread_report_def split: if_splits option.splits)
    (blast dest: Thread_DownloadCallback_keeps [OF assms(1)] curl_keeps [OF assms(1)])+

lemma Executor_DownloadCallback_keeps:
  assumes "keeps_cb P cb" and "Executor_DownloadCallback E cb u pkg p e f w = Some (e', f', w')" and "P w"
  shows "P w'"
  using assms(2,3)
  by (auto simp: Executor_DownloadCallback_def Let_def split: if_splits option.splits
      intro: keeps dest: keeps_cbD [OF assms(1)])

lemma perform_packages_keeps:
  assumes "keeps_cb P cb"
  shows "perform_packages E cb create cs ts e f w = Some (ts', e', f', w') \<Longrightarrow> P w \<Longrightarrow> P w'"
proof (induction cs arbitrary: ts e f w)
  case (Cons c cs)
  define v where "v = (if \<not> IsFileExist E DUPDATE_ENGINE_PACKAGE_ROOT_PATH (w_ext w)
    then do_ext (pl_create_dir E DUPDATE_ENGINE_PACKAGE_ROOT_PATH 511) w else w)"
  have "P v" using Cons.prems(2) by (auto simp: v_def intro: keeps)
  then show ?case
    using Cons.prems(1)
    by (auto simp: v_def [symmetric] Let_def split: option.splits if_splits)
      (blast dest: Cons.IH keeps_cbD [OF assms] Executor_DownloadCallback_keeps [OF assms])+
qed simp

lemma DownloadExecutor_keeps:
  assumes "keeps_cb P cb" and "DownloadExecutor_DoDownload E cb create f w = Some (ts, e, f', w')" and "P w"
  shows "P w'"
  using assms(2,3)
  by (auto simp: DownloadExecutor_DoDownload_def PerformDownload_def Let_def split: if_splits option.splits
      intro: keeps dest: perform_packages_keeps [OF assms(1)] keeps_cbD [OF assms(1)])

text \<open>What follows a download.\<close>

lemma download_mode_keeps [keeps]: "P w \<Longrightarrow> P (snd (Download_SetDownloadProgress E p m w))"
  by (auto simp: Download_SetDownloadProgress_def DownloadProcessor_SetDownloadProgress_def Let_def intro: keeps)

lemma progress_loop_keeps [keeps]: "P w \<Longrightarrow> P (foldl (\<lambda>w c. UpdateComponentProgress E (fc_url c) st pr w) w cs)"
  by (rule keep_loop) (auto intro: keeps)

lemma DownloadCancelProcess_keeps [keeps]: "P w \<Longrightarrow> P (DownloadCancelProcess E t m w)"
  unfolding DownloadCancelProcess_def Let_def by (intro keeps)

lemma Download_GetNextStep_keeps: "Download_GetNextStep E step m w = Some (s, m', w') \<Longrightarrow> P w \<Longrightarrow> P w'"
  by (auto simp: Download_GetNextStep_def Download_GetStepAfterDownload_def DownloadPauseProcess_def DownloadFailProcess_def
      DownloadSucessProcess_def Let_def split_beta
      split: FirmwareStep.splits if_splits option.splits UpgradeStatus.splits intro: keeps)

subsection \<open>The installation\<close>

text \<open>The installers run on an executor, a flow manager and the state; what they call keeps the state.\<close>

definition keeps_install :: "('e \<times> 'f \<times> 'x World) FirmwareInstallCallback \<Rightarrow> bool" where
  "keeps_install cb \<longleftrightarrow>
     (\<forall>c s s'. P (snd (snd s)) \<longrightarrow> onFirmwareProgress cb c s = Some s' \<longrightarrow> P (snd (snd s'))) \<and>
     (\<forall>r m s s'. P (snd (snd s)) \<longrightarrow> onFirmwareEvent cb r m s = Some s' \<longrightarrow> P (snd (snd s'))) \<and>
     (\<forall>st s s'. P (snd (snd s)) \<longrightarrow> onFirmwareStatus cb st s = Some s' \<longrightarrow> P (snd (snd s')))"

lemma keeps_installD:
  assumes "keeps_install cb" and "P (snd (snd s))"
  shows "onFirmwareProgress cb c s = Some s' \<Longrightarrow> P (snd (snd s'))"
    and "onFirmwareEvent cb r m s = Some s' \<Longrightarrow> P (snd (snd s'))"
    and "onFirmwareStatus cb st s = Some s' \<Longrightarrow> P (snd (snd s'))"
  using assms unfolding keeps_install_def by blast+

lemma sys_reports_keeps:
  assumes "keeps_install cb"
  shows "sys_reports SI cb c rs obj s = Some (obj', s') \<Longrightarrow> P (snd (snd s)) \<Longrightarrow> P (snd (snd s'))"
proof (induction rs arbitrary: obj s)
  case (Cons r rs)
  obtain st p m where "r = (st, p, m)" by (cases r) auto
  then show ?case using Cons.prems
    by (auto simp: sys_callback_def split: option.splits) (blast dest: Cons.IH keeps_installD [OF assms])
qed simp

lemma wait_loop_keeps:
  assumes "wait_loop SI cb c timeout reports obj s = Some r" and "keeps_install cb" and "P (snd (snd s))"
  shows "P (snd (snd (snd (snd r))))"
proof -
  let ?Q = "\<lambda>SI cb c timeout reports obj s r. keeps_install cb \<longrightarrow> P (snd (snd s)) \<longrightarrow> P (snd (snd (snd (snd r))))"
  have "?Q SI cb c timeout reports obj s r"
  proof (rule wait_loop.raw_induct [where P = ?Q, OF _ assms(1)])
    fix loop SI cb c timeout reports obj s r
    assume ih: "\<And>SI cb c timeout reports obj s r. loop SI cb c timeout reports obj s = Some r \<Longrightarrow>
        ?Q SI cb c timeout reports obj s r"
      and body: "(if timeout \<le> si_abInstallTimeout SI then
        case sys_reports SI cb c (case reports of [] \<Rightarrow> [] | rs # _ \<Rightarrow> rs) obj s of None \<Rightarrow> None
        | Some (obj, s) \<Rightarrow>
            if pr_status (fi_sysInstallProgress obj) = UpgradeStatus.INSTALL_FAIL then Some (si_OHOS_FAILURE SI, obj, s)
            else if pr_status (fi_sysInstallProgress obj) = UpgradeStatus.INSTALL_SUCCESS \<and>
                    pr_percent (fi_sysInstallProgress obj) = ONE_HUNDRED then Some (si_OHOS_SUCCESS SI, obj, s)
            else loop SI cb c (timeout + 1) (tl reports) obj s
        else Some (si_OHOS_FAILURE SI, obj, s)) = Some r"
    show "?Q SI cb c timeout reports obj s r"
    proof (intro impI)
      assume k: "keeps_install cb" "P (snd (snd s))"
      show "P (snd (snd (snd (snd r))))"
      proof (cases "sys_reports SI cb c (case reports of [] \<Rightarrow> [] | rs # _ \<Rightarrow> rs) obj s")
        case None
        then show ?thesis using body k(2) by (auto split: if_splits)
      next
        case (Some os)
        obtain obj1 s1 where os: "os = (obj1, s1)" by (cases os)
        have "P (snd (snd s1))" using sys_reports_keeps [OF k(1)] Some k(2) by (simp add: os)
        then show ?thesis using body k ih by (auto simp: Some os split: if_splits)
      qed
    qed
  qed
  then show ?thesis using assms(2,3) by blast
qed

lemma DoSysInstall_keeps:
  assumes "keeps_install cb" and "DoSysInstall SI cb c obj s = Some r" and "P (snd (snd s))"
  shows "P (snd (snd (snd (snd r))))"
  using assms wait_loop_keeps [OF _ assms(1,3)]
  by (auto simp: DoSysInstall_def WaitInstallResult_def Let_def split: if_splits)

lemma PerformInstall_keeps:
  assumes "keeps_install cb" and "PerformInstall ty SI cb cs obj s = Some (r, obj', s')" and "P (snd (snd s))"
  shows "P (snd (snd s'))"
proof (cases "ty = InstallType.SYS_INSTALLER")
  case True
  show ?thesis
  proof (cases cs)
    case Nil
    then show ?thesis using True assms(2,3) by simp
  next
    case cs: (Cons c cs')
    obtain s1 where s1: "onFirmwareStatus cb UpgradeStatus.INSTALLING s = Some s1"
      and "map_option (\<lambda>(ret, obj, s). (ret = si_OHOS_SUCCESS SI, obj, s)) (DoSysInstall SI cb c obj s1) = Some (r, obj', s')"
      using assms(2) True cs by (auto split: option.splits)
    then obtain ret where "DoSysInstall SI cb c obj s1 = Some (ret, obj', s')" by auto
    from DoSysInstall_keeps [OF assms(1) this keeps_installD(3) [OF assms(1,3) s1]] show ?thesis by simp
  qed
next
  case False
  then have "PerformInstall ty SI cb cs obj s = Updater_PerformInstall SI cb cs obj s" by (cases ty) simp_all
  then show ?thesis
    using assms(2) keeps_installD(3) [OF assms(1,3)]
    by (auto simp: Updater_PerformInstall_def Let_def split_beta split: option.splits)
qed

lemma StartInstall_keeps:
  assumes "keeps_install cb" and "StartInstall E SI world ty cs cb obj s = Some (obj', s')" and "P (snd (snd s))"
  shows "P (snd (snd s'))"
  using assms(2,3)
  by (auto simp: StartInstall_def CallbackFailedResult_def CallbackResult_def Let_def split: if_splits option.splits
      dest: keeps_installD(2) [OF assms(1)] PerformInstall_keeps [OF assms(1)])

lemma executor_callback_keeps:
  assumes "keeps_cb P cb"
  shows "keeps_install (executor_install_callback E cb)"
  unfolding keeps_install_def executor_install_callback_def HandleInstallProgress_def HandleInstallResult_def
  by (auto simp: Let_def intro: keeps dest: keeps_cbD [OF assms])

lemma InstallExecutor_keeps:
  assumes "keeps_cb P cb" and "InstallExecutor_DoInstall E SI cb (e, f, w) = Some (e', f', w')" and "P w"
  shows "P w'"
proof -
  have start: "StartInstall E SI world ty cs (executor_install_callback E cb) obj (e, f, v) = Some (obj', e', f', w') \<Longrightarrow> P v \<Longrightarrow> P w'"
    for world ty cs obj e f v obj'
    using StartInstall_keeps [OF executor_callback_keeps [OF assms(1)], of SI world ty cs obj "(e, f, v)"] by simp
  show ?thesis using assms(2,3)
    by (auto simp: InstallExecutor_DoInstall_def Let_def split: if_splits intro: keeps dest: keeps_cbD [OF assms(1)] dest!: start)
qed

lemma ApplyExecutor_keeps:
  "keeps_cb P cb \<Longrightarrow> ApplyExecutor_DoInstall E cb f w = Some (r, f', w') \<Longrightarrow> P w \<Longrightarrow> P w'"
  by (auto simp: ApplyExecutor_DoInstall_def Let_def split: if_splits intro: keeps dest: keeps_cbD)

lemma install_mode_keeps [keeps]:
  "P w \<Longrightarrow> P (snd (Install_SetInstallResult E info m w))"
  "P w \<Longrightarrow> P (snd (snd (Install_GetNextStep E step m w)))"
  by (auto simp: Install_SetInstallResult_def InstallProcessor_SetInstallResult_def Install_GetNextStep_def
      Install_GetStepAfterInit_def GetStepForInstallAndApplyOrder_def IsUpgradeFilesReady_def GetStepAfterInstall_def
      Let_def split_beta split: FirmwareStep.split intro: keeps)

subsection \<open>The flow manager and its threads\<close>

lemma Mode_GetNextStep_keeps: "Mode_GetNextStep E step m w = Some (s, m', w') \<Longrightarrow> P w \<Longrightarrow> P w'"
  using check_mode_keeps(2) [of w step] install_mode_keeps(2) [of w step]
  by (cases m) (auto simp: split_beta dest: Download_GetNextStep_keeps)

lemma mode_results_keep [keeps]:
  "P w \<Longrightarrow> P (snd (Mode_SetCheckResult E st cs m w))"
  "P w \<Longrightarrow> P (snd (Mode_SetDownloadProgress E p m w))"
  "P w \<Longrightarrow> P (snd (Mode_SetInstallResult E info m w))"
  "P w \<Longrightarrow> P (snd (Mode_HandleComplete E m w))"
  by (cases m; auto simp: split_beta intro: keeps)+

lemma Execute_keeps: "Execute E fm w = Some (fm', w') \<Longrightarrow> P w \<Longrightarrow> P w'"
  using mode_results_keep(4)
  by (auto simp: Execute_def Complete_def Executor_Execute_def CheckExecutor_Execute_def Let_def split_beta
      split: option.splits if_splits intro: keeps dest!: Mode_GetNextStep_keeps)

lemma Start_keeps: "Start E fm w = Some (fm', w') \<Longrightarrow> P w \<Longrightarrow> P w'"
  by (auto simp: Start_def split: if_splits dest: Execute_keeps)

lemma OnCheckCallback_keeps: "OnCheckCallback E st cs fm w = Some (fm', w') \<Longrightarrow> P w \<Longrightarrow> P w'"
  using mode_results_keep(1) [of w st cs]
  by (auto simp: OnCheckCallback_def split_beta Let_def split: if_splits option.splits dest!: Execute_keeps)

lemma callbacks_keep:
  "keeps_cb P (OnDownloadCallback E)" "keeps_cb P (OnInstallCallback E)" "keeps_cb P (OnApplyCallback E)"
  unfolding keeps_cb_def OnDownloadCallback_def OnInstallCallback_def OnApplyCallback_def
  using mode_results_keep(2,3)
  by (auto simp: split_beta Let_def split: if_splits option.splits dest!: Execute_keeps)

lemma thread_callback_keeps: "keeps_cb P (thread_callback E t)"
  unfolding keeps_cb_def thread_callback_def
  by (auto dest: Executor_DownloadCallback_keeps [OF callbacks_keep(1)])

lemma run_transfers_keeps: "run_transfers E ts e fm w = Some (fm', w') \<Longrightarrow> P w \<Longrightarrow> P w'"
proof (induction ts arbitrary: e fm w)
  case (Cons tT ts)
  then show ?case
    by (cases tT) (auto split: option.splits dest: ProcessThreadExecute_keeps [OF thread_callback_keeps])
qed simp

lemma threads_keep:
  "run_check E N fm w = Some (fm', w') \<Longrightarrow> P w \<Longrightarrow> P w'"
  "run_download E create trs fm w = Some (fm', w') \<Longrightarrow> P w \<Longrightarrow> P w'"
  "run_install E SI ty fm w = Some (fm', w') \<Longrightarrow> P w \<Longrightarrow> P w'"
  "run_apply E fm w = Some (r, fm', w') \<Longrightarrow> P w \<Longrightarrow> P w'"
  by (auto simp: run_check_def run_download_def run_install_def run_apply_def split: option.splits
      dest: check_thread_keeps OnCheckCallback_keeps DownloadExecutor_keeps [OF callbacks_keep(1)] run_transfers_keeps
        InstallExecutor_keeps [OF callbacks_keep(2)] ApplyExecutor_keeps [OF callbacks_keep(3)])

subsection \<open>The firmware manager\<close>

lemma flows_start:
  "DoCheck E w = Some (fm, w') \<Longrightarrow> P w \<Longrightarrow> P w'"
  "DoDownload E opts be w = Some (fm, be', w') \<Longrightarrow> P w \<Longrightarrow> P w'"
  "DoInstall E uo be ty w = Some (fmo, be', w') \<Longrightarrow> P w \<Longrightarrow> P w'"
  by (auto simp: DoCheck_def DoDownload_def DoInstall_def split: if_splits dest: Start_keeps)

lemma manager_ops_keep [keeps]:
  "P w \<Longrightarrow> P (snd (DoCancelDownload E be w))"
  "P w \<Longrightarrow> P (snd (snd (DoTerminateUpgrade E timer be w)))"
  "P w \<Longrightarrow> P (DoAutoDownloadSwitchChanged E on w)"
  "P w \<Longrightarrow> P (snd (DoClearError E be w))"
  by (auto simp: DoCancelDownload_def DoTerminateUpgrade_def Schedule_def DoAutoDownloadSwitchChanged_def DoClearError_def
      Let_def intro: keeps)

lemma events_keep [keeps]:
  "P w \<Longrightarrow> P (HandleEvent E ev w)"
  "P w \<Longrightarrow> P (NetChanged E ty w)"
proof -
  have boot: "P (HandleBootUpdateOnStatusProcess E t w)" if "P w" for t and w :: "'x World"
    using that
    by (auto simp: HandleBootUpdateOnStatusProcess_def HandleBootUpdateSuccess_def HandleBootUpdateFail_def
        SaveHotaCurrentVersionComponentId_def Let_def split: prod.split UpdateResultCode.split option.split intro: keeps)
  have event: "P (HandleEvent E ev w)" if "P w" for ev and w :: "'x World"
    using that boot
    by (auto simp: HandleEvent_def HandleNetChanged_def HandleBootComplete_def Let_def split: CommonEventType.split intro: keeps)
  show "P w \<Longrightarrow> P (HandleEvent E ev w)" by (rule event)
  show "P w \<Longrightarrow> P (NetChanged E ty w)"
    by (auto simp: NetChanged_def split_beta Let_def intro: keeps event)
qed

lemma restart_loop_keeps [keeps]:
  "P w \<Longrightarrow> P (foldl (\<lambda>w c. if Q c then UpdateComponentProgress E (fc_url c) st pr w else w) w cs)"
  by (rule keep_loop) (auto intro: keeps)

lemma RestoreUpdate_keeps: "RestoreUpdate E w = Some (fm, w') \<Longrightarrow> P w \<Longrightarrow> P w'"
  by (auto simp: RestoreUpdate_def HandleBootInstallOnStatusProcess_def Let_def split: if_splits
      intro!: keeps dest!: flows_start(3))

lemma DelayInit_keeps: "DelayInit E reason w = Some (fm, w') \<Longrightarrow> P w \<Longrightarrow> P w'"
  by (auto simp: DelayInit_def RegisterNetChangedListener_def NotifyInitEvent_def Let_def split: option.splits
      intro!: keeps dest!: RestoreUpdate_keeps)

end

section \<open>The two tables\<close>

text \<open>
  What every later start of the service relies on: the rows can be read back, there is at most
  one task, and the component table is empty exactly when the task table is.
\<close>

definition tables_ok :: "('x \<Rightarrow> string \<Rightarrow> ValuesBucket list) \<Rightarrow> 'x World \<Rightarrow> bool" where
  "tables_ok rows w \<longleftrightarrow> w_typed rows w \<and> length (w_tasks rows w) \<le> 1 \<and>
     (w_tasks rows w = [] \<longleftrightarrow> w_components rows w = [])"

definition tables_state :: "('x \<Rightarrow> string \<Rightarrow> ValuesBucket list) \<Rightarrow> 'x \<Rightarrow> bool \<times> nat \<times> nat" where
  "tables_state rows x = (db_typed rows x, length (rows x FIRMWARE_TABLE_TASK), length (rows x FIRMWARE_TABLE_COMPONENT))"

lemma tables_ok_state: "tables_ok rows w \<longleftrightarrow> (\<exists>n. tables_state rows (w_ext w) = (True, n) \<and> fst n \<le> 1 \<and> (fst n = 0 \<longleftrightarrow> snd n = 0))"
  by (auto simp: tables_ok_def tables_state_def w_db_defs tasks_of_def components_of_def)

context platform
begin

lemma update_state:
  assumes "db_typed rows x" and "rp_table p = FIRMWARE_TABLE_TASK \<and> b ''taskId'' = None \<or>
    rp_table p = FIRMWARE_TABLE_COMPONENT \<and> b ''versionId'' = None \<and> (b ''url'' = None \<or> (\<exists>s. b ''url'' = Some (DbText s)))"
  shows "tables_state rows (snd (Table_Update (pl_rdb E) b p x)) = tables_state rows x"
proof -
  have "task_row_ok r \<Longrightarrow> b ''taskId'' = None \<Longrightarrow> task_row_ok (r ++ b)" for r
    by (auto simp: task_row_ok_def map_add_def)
  moreover have "component_row_ok r \<Longrightarrow> b ''versionId'' = None \<Longrightarrow> b ''url'' = None \<or> (\<exists>s. b ''url'' = Some (DbText s)) \<Longrightarrow>
      component_row_ok (r ++ b)" for r
    by (auto simp: component_row_ok_def map_add_def)
  ultimately show ?thesis
    using assms Update_rows(2) [of b p x] table_names_differ
    by (auto simp: Table_Update_def split_beta tables_state_def db_typed_def list_all_iff)
qed

lemma insert_state:
  assumes "tables_state rows x = (a, n, m)"
  shows "tables_state rows (snd (Table_Insert (pl_rdb E) FirmwareComponentTable cs x)) = (a, n, m + length cs)"
    and "tables_state rows (snd (Table_Insert1 (pl_rdb E) FirmwareTaskTable t x)) = (a, n + 1, m)"
proof -
  have "list_all component_row_ok (map2 (\<lambda>i b. b(COLUMN_ID \<mapsto> DbInt i)) ids (map Component_BuildDbValue cs))" for ids
    by (auto simp: list_all_iff component_row_ok_build set_zip simp del: fun_upd_apply)
  then show "tables_state rows (snd (Table_Insert (pl_rdb E) FirmwareComponentTable cs x)) = (a, n, m + length cs)"
    using Insert_rows [of "map Component_BuildDbValue cs" FIRMWARE_TABLE_COMPONENT x] table_names_differ assms
    by (auto simp: Table_Insert_def BuildDbValues_map tables_state_def db_typed_def)
  obtain i where r: "rows (snd (SqliteDb_Insert (pl_rdb E) FIRMWARE_TABLE_TASK [Task_BuildDbValue t] x)) =
      (rows x)(FIRMWARE_TABLE_TASK := rows x FIRMWARE_TABLE_TASK @ [(Task_BuildDbValue t)(COLUMN_ID \<mapsto> DbInt i)])"
    using Insert_rows [of "[Task_BuildDbValue t]" FIRMWARE_TABLE_TASK x] by (auto simp: length_Suc_conv)
  define b where "b = (Task_BuildDbValue t)(COLUMN_ID \<mapsto> DbInt i)"
  have "task_row_ok b" unfolding b_def by (rule task_row_ok_build)
  with r [folded b_def] show "tables_state rows (snd (Table_Insert1 (pl_rdb E) FirmwareTaskTable t x)) = (a, n + 1, m)"
    using table_names_differ assms
    by (auto simp: Table_Insert1_def Table_Insert_def BuildDbValues_map tables_state_def db_typed_def)
qed

end

lemma tables_ok_cong: "tables_ok rows w \<Longrightarrow> tables_state rows (w_ext w') = tables_state rows (w_ext w) \<Longrightarrow> tables_ok rows w'"
  by (simp add: tables_ok_state)

lemma tables_ok_typed: "tables_ok rows w \<Longrightarrow> db_typed rows (w_ext w)"
  by (simp add: tables_ok_def w_typed_def)

sublocale platform \<subseteq> tk: world_keeper E rows "tables_ok rows"
proof (unfold_locales, goal_cases)
  case (6 w x)
  then show ?case by (simp add: tables_ok_state tables_state_def db_typed_def)
next
  case (7 w vs i)
  then show ?case
    using update_state [OF tables_ok_typed, of w] by (auto simp: Task_UpdateByTaskId_def intro!: tables_ok_cong [OF 7(1)])
next
  case (8 w u st pr)
  then show ?case
    using update_state [OF tables_ok_typed, of w]
    by (auto simp: UpdateComponentProgress_def Component_UpdateProgressByUrl_def Let_def intro!: tables_ok_cong [OF 8])
next
  case (9 w v u)
  then show ?case
    using update_state [OF tables_ok_typed, of w]
    by (auto simp: Component_UpdateUrlByVersionId_def Let_def intro!: tables_ok_cong [OF 9])
next
  case (10 w)
  then show ?case using clear_db [of w] by (simp add: tables_ok_def)
next
  case (11 w cs t)
  then have "tables_state rows (w_ext (ClearFirmwareInfo E w)) = (True, 0, 0)"
    using clear_db [of w] by (simp add: tables_ok_def w_db_defs tasks_of_def components_of_def tables_state_def)
  note i = insert_state(2) [OF insert_state(1) [OF this]]
  show ?case using 11 by (simp add: tables_ok_state i)
qed (simp_all add: tables_ok_state)

section \<open>The clients\<close>

definition clients_sound :: "'x World \<Rightarrow> bool" where
  "clients_sound w \<longleftrightarrow> om_ordered UpgradeInfo_less (w_clients w) \<and> w_remoteIdle w = (w_clients w = [])"

sublocale platform \<subseteq> ck: world_keeper E rows clients_sound
  by unfold_locales (simp_all add: clients_sound_def do_ext_eq UpdateComponentProgress_def ClearFirmwareInfo_def DeleteDownloadFiles_def Let_def)

end
