(* ===== verification/Parcel_Codec.thy ===== *)
theory Parcel_Codec
  imports Update_Types
begin

text \<open>
  The wire format of the service: \<open>services/engine/src/message_parcel_helper.cpp\<close>.
  \<open>MessageParcel\<close> and the string conversions belong to the IPC framework; they are the
  parameter \<open>ops\<close> of every definition, and the locale \<open>message_parcel\<close> states what the code
  relies on: a parcel is a queue of typed items. The theory shows that each reader inverts
  its writer, and what the vector readers do with the sizes that come over the wire.
\<close>

section \<open>The parcel, a parameter\<close>

type_synonym u16string = "16 word list"

record 'p MessageParcel =
  pc_WriteInt32 :: "int32_t \<Rightarrow> 'p \<Rightarrow> 'p"
  pc_ReadInt32 :: "'p \<Rightarrow> int32_t \<times> 'p"
  pc_WriteUint32 :: "uint32_t \<Rightarrow> 'p \<Rightarrow> 'p"
  pc_ReadUint32 :: "'p \<Rightarrow> uint32_t \<times> 'p"
  pc_WriteBool :: "bool \<Rightarrow> 'p \<Rightarrow> 'p"
  pc_ReadBool :: "'p \<Rightarrow> bool \<times> 'p"
  pc_WriteString16 :: "u16string \<Rightarrow> 'p \<Rightarrow> 'p"
  pc_ReadString16 :: "'p \<Rightarrow> u16string \<times> 'p"
  pc_Str8ToStr16 :: "string \<Rightarrow> u16string"
  pc_Str16ToStr8 :: "u16string \<Rightarrow> string"

definition WriteStr :: "'p MessageParcel \<Rightarrow> string \<Rightarrow> 'p \<Rightarrow> 'p" where
  "WriteStr ops s p = pc_WriteString16 ops (pc_Str8ToStr16 ops s) p"

definition ReadStr :: "'p MessageParcel \<Rightarrow> 'p \<Rightarrow> string \<times> 'p" where
  "ReadStr ops p = (let (s, p) = pc_ReadString16 ops p in (pc_Str16ToStr8 ops s, p))"

section \<open>Vectors\<close>

definition MAX_VECTOR_SIZE :: int where
  "MAX_VECTOR_SIZE = 128"

text \<open>
  The loop \<open>for (size_t i = 0; i < n; i++) { T t; ...; v.push_back(t); }\<close> around one element
  reader.
\<close>

fun read_elements :: "('p \<Rightarrow> 'a \<times> 'p) \<Rightarrow> nat \<Rightarrow> 'p \<Rightarrow> 'a list \<Rightarrow> 'a list \<times> 'p" where
  "read_elements rd 0 p acc = (acc, p)"
| "read_elements rd (Suc n) p acc = (let (x, p) = rd p in read_elements rd n p (acc @ [x]))"

text \<open>
  The three vector readers share their frame: the size is a signed \<open>int32_t\<close>, compared with
  the limit as a signed number and then converted to \<open>size_t\<close> for the loop.
\<close>

definition read_vector :: "'p MessageParcel \<Rightarrow> ('p \<Rightarrow> 'a \<times> 'p) \<Rightarrow> 'p \<Rightarrow> 'a list \<Rightarrow> 'a list \<times> 'p" where
  "read_vector ops rd p acc =
     (let (sz, p) = pc_ReadInt32 ops p in
      if MAX_VECTOR_SIZE < sint sz then (acc, p)
      else read_elements rd (unat (size_of_int32 sz)) p acc)"

definition write_vector :: "'p MessageParcel \<Rightarrow> ('a \<Rightarrow> 'p \<Rightarrow> 'p) \<Rightarrow> 'a list \<Rightarrow> 'p \<Rightarrow> 'p" where
  "write_vector ops wr xs p = fold wr xs (pc_WriteInt32 ops (of_nat (length xs)) p)"

definition ReadErrorMessage :: "'p MessageParcel \<Rightarrow> 'p \<Rightarrow> ErrorMessage \<times> 'p" where
  "ReadErrorMessage ops p =
     (let (c, p) = pc_ReadInt32 ops p; (m, p) = ReadStr ops p
      in (\<lparr>em_errorCode = c, em_errorMessage = m\<rparr>, p))"

definition WriteErrorMessage :: "'p MessageParcel \<Rightarrow> ErrorMessage \<Rightarrow> 'p \<Rightarrow> 'p" where
  "WriteErrorMessage ops e p =
     (let p = pc_WriteInt32 ops (em_errorCode e) p in WriteStr ops (em_errorMessage e) p)"

definition ReadErrorMessages :: "'p MessageParcel \<Rightarrow> 'p \<Rightarrow> ErrorMessage list \<Rightarrow> ErrorMessage list \<times> 'p" where
  "ReadErrorMessages ops p errorMessages = read_vector ops (ReadErrorMessage ops) p errorMessages"

definition WriteErrorMessages :: "'p MessageParcel \<Rightarrow> ErrorMessage list \<Rightarrow> 'p \<Rightarrow> 'p" where
  "WriteErrorMessages ops errorMessages p = write_vector ops (WriteErrorMessage ops) errorMessages p"

definition ReadComponentDescription :: "'p MessageParcel \<Rightarrow> 'p \<Rightarrow> ComponentDescription \<times> 'p" where
  "ReadComponentDescription ops p =
     (let (i, p) = ReadStr ops p; (t, p) = pc_ReadUint32 ops p; (c, p) = ReadStr ops p
      in (\<lparr>cd_componentId = i,
          cd_descriptionInfo = \<lparr>di_descriptionType = DescriptionType_of t, di_content = c\<rparr>\<rparr>, p))"

definition WriteComponentDescription :: "'p MessageParcel \<Rightarrow> ComponentDescription \<Rightarrow> 'p \<Rightarrow> 'p" where
  "WriteComponentDescription ops d p =
     (let p = WriteStr ops (cd_componentId d) p;
          p = pc_WriteUint32 ops (DescriptionType_code (di_descriptionType (cd_descriptionInfo d))) p
      in WriteStr ops (di_content (cd_descriptionInfo d)) p)"

definition ReadComponentDescriptions ::
  "'p MessageParcel \<Rightarrow> 'p \<Rightarrow> ComponentDescription list \<Rightarrow> ComponentDescription list \<times> 'p" where
  "ReadComponentDescriptions ops p acc = read_vector ops (ReadComponentDescription ops) p acc"

definition WriteComponentDescriptions ::
  "'p MessageParcel \<Rightarrow> ComponentDescription list \<Rightarrow> 'p \<Rightarrow> 'p" where
  "WriteComponentDescriptions ops ds p = write_vector ops (WriteComponentDescription ops) ds p"

definition ReadVersionComponent :: "'p MessageParcel \<Rightarrow> 'p \<Rightarrow> VersionComponent \<times> 'p" where
  "ReadVersionComponent ops p =
     (let (i, p) = ReadStr ops p; (t, p) = pc_ReadInt32 ops p; (a, p) = ReadStr ops p;
          (d, p) = ReadStr ops p; (v, p) = ReadStr ops p; (s, p) = pc_ReadUint32 ops p;
          (m, p) = pc_ReadUint32 ops p; (dt, p) = pc_ReadUint32 ops p; (c, p) = ReadStr ops p;
          (x, p) = ReadStr ops p
      in (\<lparr>vc_componentId = i, vc_componentType = t, vc_upgradeAction = a, vc_displayVersion = d,
           vc_innerVersion = v, vc_size = size_of_uint32 s, vc_effectiveMode = size_of_uint32 m,
           vc_descriptionInfo = \<lparr>di_descriptionType = DescriptionType_of dt, di_content = c\<rparr>,
           vc_componentExtra = x\<rparr>, p))"

definition WriteVersionComponent :: "'p MessageParcel \<Rightarrow> VersionComponent \<Rightarrow> 'p \<Rightarrow> 'p" where
  "WriteVersionComponent ops vc p =
     (let p = WriteStr ops (vc_componentId vc) p;
          p = pc_WriteInt32 ops (vc_componentType vc) p;
          p = WriteStr ops (vc_upgradeAction vc) p;
          p = WriteStr ops (vc_displayVersion vc) p;
          p = WriteStr ops (vc_innerVersion vc) p;
          p = pc_WriteUint32 ops (uint32_of_size (vc_size vc)) p;
          p = pc_WriteUint32 ops (uint32_of_size (vc_effectiveMode vc)) p;
          p = pc_WriteUint32 ops (DescriptionType_code (di_descriptionType (vc_descriptionInfo vc))) p;
          p = WriteStr ops (di_content (vc_descriptionInfo vc)) p
      in WriteStr ops (vc_componentExtra vc) p)"

definition ReadVersionComponents ::
  "'p MessageParcel \<Rightarrow> 'p \<Rightarrow> VersionComponent list \<Rightarrow> VersionComponent list \<times> 'p" where
  "ReadVersionComponents ops p acc = read_vector ops (ReadVersionComponent ops) p acc"

definition WriteVersionComponents :: "'p MessageParcel \<Rightarrow> VersionComponent list \<Rightarrow> 'p \<Rightarrow> 'p" where
  "WriteVersionComponents ops vcs p = write_vector ops (WriteVersionComponent ops) vcs p"

section \<open>Structs\<close>

text \<open>
  Every public reader fills a struct its caller passes in and returns a status; the model
  returns the status, the filled struct and the parcel. The writers return status 0, which
  is left out.
\<close>

definition ReadUpgradeInfo :: "'p MessageParcel \<Rightarrow> 'p \<Rightarrow> UpgradeInfo \<Rightarrow> int32_t \<times> UpgradeInfo \<times> 'p" where
  "ReadUpgradeInfo ops p info =
     (let (a, p) = ReadStr ops p; (v, p) = ReadStr ops p; (s, p) = pc_ReadInt32 ops p;
          (d, p) = ReadStr ops p; (c, p) = ReadStr ops p
      in (0, UpgradeInfo a (BusinessType v (BusinessSubType_of s)) d c, p))"

definition WriteUpgradeInfo :: "'p MessageParcel \<Rightarrow> UpgradeInfo \<Rightarrow> 'p \<Rightarrow> 'p" where
  "WriteUpgradeInfo ops info p =
     (let p = WriteStr ops (upgradeApp info) p;
          p = WriteStr ops (vendor (businessType info)) p;
          p = pc_WriteInt32 ops (BusinessSubType_code (subType (businessType info))) p;
          p = WriteStr ops (upgradeDevId info) p
      in WriteStr ops (controlDevId info) p)"

definition ReadVersionDescriptionInfo ::
  "'p MessageParcel \<Rightarrow> 'p \<Rightarrow> VersionDescriptionInfo \<Rightarrow> int32_t \<times> VersionDescriptionInfo \<times> 'p" where
  "ReadVersionDescriptionInfo ops p info =
     (let (ds, p) = ReadComponentDescriptions ops p (vi_componentDescriptions info)
      in (0, info\<lparr>vi_componentDescriptions := ds\<rparr>, p))"

definition WriteVersionDescriptionInfo :: "'p MessageParcel \<Rightarrow> VersionDescriptionInfo \<Rightarrow> 'p \<Rightarrow> 'p" where
  "WriteVersionDescriptionInfo ops info p =
     WriteComponentDescriptions ops (vi_componentDescriptions info) p"

definition ReadBusinessError ::
  "'p MessageParcel \<Rightarrow> 'p \<Rightarrow> BusinessError \<Rightarrow> int32_t \<times> BusinessError \<times> 'p" where
  "ReadBusinessError ops p be =
     (let (m, p) = ReadStr ops p; (n, p) = pc_ReadInt32 ops p;
          (d, p) = ReadErrorMessages ops p (be_data be)
      in (0, \<lparr>be_message = m, be_errorNum = CallResult_of n, be_data = d\<rparr>, p))"

definition WriteBusinessError :: "'p MessageParcel \<Rightarrow> BusinessError \<Rightarrow> 'p \<Rightarrow> 'p" where
  "WriteBusinessError ops be p =
     (let p = WriteStr ops (be_message be) p;
          p = pc_WriteInt32 ops (CallResult_code (be_errorNum be)) p
      in WriteErrorMessages ops (be_data be) p)"

definition ReadNewVersionInfoEx ::
  "'p MessageParcel \<Rightarrow> 'p \<Rightarrow> NewVersionInfo \<Rightarrow> NewVersionInfo \<times> 'p" where
  "ReadNewVersionInfoEx ops p info =
     (let (d, p) = ReadStr ops p; (vcs, p) = ReadVersionComponents ops p (nv_versionComponents info)
      in (\<lparr>nv_versionDigestInfo = \<lparr>vd_versionDigest = d\<rparr>, nv_versionComponents = vcs\<rparr>, p))"

definition WriteNewVersionInfoEx :: "'p MessageParcel \<Rightarrow> NewVersionInfo \<Rightarrow> 'p \<Rightarrow> 'p" where
  "WriteNewVersionInfoEx ops info p =
     (let p = WriteStr ops (vd_versionDigest (nv_versionDigestInfo info)) p
      in WriteVersionComponents ops (nv_versionComponents info) p)"

definition ReadCheckResult ::
  "'p MessageParcel \<Rightarrow> 'p \<Rightarrow> CheckResult \<Rightarrow> int32_t \<times> CheckResult \<times> 'p" where
  "ReadCheckResult ops p cr =
     (let (b, p) = pc_ReadBool ops p; (nv, p) = ReadNewVersionInfoEx ops p (cr_newVersionInfo cr)
      in (0, \<lparr>cr_isExistNewVersion = b, cr_newVersionInfo = nv\<rparr>, p))"

definition WriteCheckResult :: "'p MessageParcel \<Rightarrow> CheckResult \<Rightarrow> 'p \<Rightarrow> 'p" where
  "WriteCheckResult ops cr p =
     (let p = pc_WriteBool ops (cr_isExistNewVersion cr) p
      in WriteNewVersionInfoEx ops (cr_newVersionInfo cr) p)"

definition ReadNewVersionInfo ::
  "'p MessageParcel \<Rightarrow> 'p \<Rightarrow> NewVersionInfo \<Rightarrow> int32_t \<times> NewVersionInfo \<times> 'p" where
  "ReadNewVersionInfo ops p info = (let (nv, p) = ReadNewVersionInfoEx ops p info in (0, nv, p))"

definition WriteNewVersionInfo :: "'p MessageParcel \<Rightarrow> NewVersionInfo \<Rightarrow> 'p \<Rightarrow> 'p" where
  "WriteNewVersionInfo ops info p = WriteNewVersionInfoEx ops info p"

definition ReadCurrentVersionInfo ::
  "'p MessageParcel \<Rightarrow> 'p \<Rightarrow> CurrentVersionInfo \<Rightarrow> int32_t \<times> CurrentVersionInfo \<times> 'p" where
  "ReadCurrentVersionInfo ops p info =
     (let (os, p) = ReadStr ops p; (dn, p) = ReadStr ops p;
          (vcs, p) = ReadVersionComponents ops p (cv_versionComponents info)
      in (0, \<lparr>cv_osVersion = os, cv_deviceName = dn, cv_versionComponents = vcs\<rparr>, p))"

definition WriteCurrentVersionInfo :: "'p MessageParcel \<Rightarrow> CurrentVersionInfo \<Rightarrow> 'p \<Rightarrow> 'p" where
  "WriteCurrentVersionInfo ops info p =
     (let p = WriteStr ops (cv_osVersion info) p; p = WriteStr ops (cv_deviceName info) p
      in WriteVersionComponents ops (cv_versionComponents info) p)"

definition ReadTaskBody :: "'p MessageParcel \<Rightarrow> 'p \<Rightarrow> TaskBody \<Rightarrow> TaskBody \<times> 'p" where
  "ReadTaskBody ops p tb =
     (let (d, p) = ReadStr ops p; (st, p) = pc_ReadInt32 ops p; (ss, p) = pc_ReadInt32 ops p;
          (pr, p) = pc_ReadInt32 ops p; (im, p) = pc_ReadInt32 ops p;
          (es, p) = ReadErrorMessages ops p (tb_errorMessages tb);
          (vcs, p) = ReadVersionComponents ops p (tb_versionComponents tb)
      in (\<lparr>tb_versionDigestInfo = \<lparr>vd_versionDigest = d\<rparr>, tb_status = UpgradeStatus_of st,
           tb_subStatus = ss, tb_progress = pr, tb_installMode = im, tb_errorMessages = es,
           tb_versionComponents = vcs\<rparr>, p))"

definition WriteTaskBody :: "'p MessageParcel \<Rightarrow> TaskBody \<Rightarrow> 'p \<Rightarrow> 'p" where
  "WriteTaskBody ops tb p =
     (let p = WriteStr ops (vd_versionDigest (tb_versionDigestInfo tb)) p;
          p = pc_WriteInt32 ops (UpgradeStatus_code (tb_status tb)) p;
          p = pc_WriteInt32 ops (tb_subStatus tb) p;
          p = pc_WriteInt32 ops (tb_progress tb) p;
          p = pc_WriteInt32 ops (tb_installMode tb) p;
          p = WriteErrorMessages ops (tb_errorMessages tb) p
      in WriteVersionComponents ops (tb_versionComponents tb) p)"

definition ReadTaskInfo :: "'p MessageParcel \<Rightarrow> 'p \<Rightarrow> TaskInfo \<Rightarrow> int32_t \<times> TaskInfo \<times> 'p" where
  "ReadTaskInfo ops p info =
     (let (b, p) = pc_ReadBool ops p; (tb, p) = ReadTaskBody ops p (ti_taskBody info)
      in (0, \<lparr>ti_existTask = b, ti_taskBody = tb\<rparr>, p))"

definition WriteTaskInfo :: "'p MessageParcel \<Rightarrow> TaskInfo \<Rightarrow> 'p \<Rightarrow> 'p" where
  "WriteTaskInfo ops info p =
     (let p = pc_WriteBool ops (ti_existTask info) p in WriteTaskBody ops (ti_taskBody info) p)"

text \<open>
  The policy reader converts the size to \<open>size_t\<close> before it compares it with the limit, and
  reads at most as many periods as the array holds.
\<close>

definition ReadUpgradePolicy ::
  "'p MessageParcel \<Rightarrow> 'p \<Rightarrow> UpgradePolicy \<Rightarrow> int32_t \<times> UpgradePolicy \<times> 'p" where
  "ReadUpgradePolicy ops p policy =
     (let (ds, p) = pc_ReadBool ops p; (au, p) = pc_ReadBool ops p; (sz, p) = pc_ReadInt32 ops p;
          policy = policy\<lparr>upo_downloadStrategy := ds, upo_autoUpgradeStrategy := au\<rparr>;
          size = unat (size_of_int32 sz)
      in if MAX_VECTOR_SIZE < int size then (- 1, policy, p)
         else if size = 0 then (0, policy, p)
         else
           (let (s0, p) = pc_ReadUint32 ops p; (e0, p) = pc_ReadUint32 ops p;
                policy = policy\<lparr>upo_autoUpgradePeriods :=
                  (\<lparr>up_start = s0, up_end = e0\<rparr>, snd (upo_autoUpgradePeriods policy))\<rparr>
            in if size = 1 then (0, policy, p)
               else
                 (let (s1, p) = pc_ReadUint32 ops p; (e1, p) = pc_ReadUint32 ops p
                  in (0, policy\<lparr>upo_autoUpgradePeriods :=
                        (fst (upo_autoUpgradePeriods policy), \<lparr>up_start = s1, up_end = e1\<rparr>)\<rparr>, p))))"

definition WriteUpgradePolicy :: "'p MessageParcel \<Rightarrow> UpgradePolicy \<Rightarrow> 'p \<Rightarrow> 'p" where
  "WriteUpgradePolicy ops policy p =
     (let p = pc_WriteBool ops (upo_downloadStrategy policy) p;
          p = pc_WriteBool ops (upo_autoUpgradeStrategy policy) p;
          p = pc_WriteInt32 ops 2 p;
          p = pc_WriteUint32 ops (up_start (fst (upo_autoUpgradePeriods policy))) p;
          p = pc_WriteUint32 ops (up_end (fst (upo_autoUpgradePeriods policy))) p;
          p = pc_WriteUint32 ops (up_start (snd (upo_autoUpgradePeriods policy))) p
      in pc_WriteUint32 ops (up_end (snd (upo_autoUpgradePeriods policy))) p)"

definition ReadEventInfo :: "'p MessageParcel \<Rightarrow> 'p \<Rightarrow> EventInfo \<Rightarrow> int32_t \<times> EventInfo \<times> 'p" where
  "ReadEventInfo ops p info =
     (let (e, p) = pc_ReadUint32 ops p; (tb, p) = ReadTaskBody ops p (ei_taskBody info)
      in (0, \<lparr>ei_eventId = EventId_of e, ei_taskBody = tb\<rparr>, p))"

definition WriteEventInfo :: "'p MessageParcel \<Rightarrow> EventInfo \<Rightarrow> 'p \<Rightarrow> 'p" where
  "WriteEventInfo ops info p =
     (let p = pc_WriteUint32 ops (EventId_code (ei_eventId info)) p
      in WriteTaskBody ops (ei_taskBody info) p)"

definition ReadVersionDigestInfo ::
  "'p MessageParcel \<Rightarrow> 'p \<Rightarrow> VersionDigestInfo \<Rightarrow> int32_t \<times> VersionDigestInfo \<times> 'p" where
  "ReadVersionDigestInfo ops p info =
     (let (d, p) = ReadStr ops p in (0, info\<lparr>vd_versionDigest := d\<rparr>, p))"

definition WriteVersionDigestInfo :: "'p MessageParcel \<Rightarrow> VersionDigestInfo \<Rightarrow> 'p \<Rightarrow> 'p" where
  "WriteVersionDigestInfo ops info p = WriteStr ops (vd_versionDigest info) p"

definition ReadDescriptionOptions ::
  "'p MessageParcel \<Rightarrow> 'p \<Rightarrow> DescriptionOptions \<Rightarrow> int32_t \<times> DescriptionOptions \<times> 'p" where
  "ReadDescriptionOptions ops p opts =
     (let (f, p) = pc_ReadUint32 ops p; (l, p) = ReadStr ops p
      in (0, \<lparr>do_format = DescriptionFormat_of f, do_language = l\<rparr>, p))"

definition WriteDescriptionOptions :: "'p MessageParcel \<Rightarrow> DescriptionOptions \<Rightarrow> 'p \<Rightarrow> 'p" where
  "WriteDescriptionOptions ops opts p =
     (let p = pc_WriteUint32 ops (DescriptionFormat_code (do_format opts)) p
      in WriteStr ops (do_language opts) p)"

definition ReadDownloadOptions ::
  "'p MessageParcel \<Rightarrow> 'p \<Rightarrow> DownloadOptions \<Rightarrow> int32_t \<times> DownloadOptions \<times> 'p" where
  "ReadDownloadOptions ops p opts =
     (let (n, p) = pc_ReadUint32 ops p; (r, p) = pc_ReadUint32 ops p
      in (0, \<lparr>dl_allowNetwork = NetType_of n, dl_order = Order_of r\<rparr>, p))"

definition WriteDownloadOptions :: "'p MessageParcel \<Rightarrow> DownloadOptions \<Rightarrow> 'p \<Rightarrow> 'p" where
  "WriteDownloadOptions ops opts p =
     (let p = pc_WriteUint32 ops (NetType_code (dl_allowNetwork opts)) p
      in pc_WriteUint32 ops (Order_code (dl_order opts)) p)"

definition ReadPauseDownloadOptions ::
  "'p MessageParcel \<Rightarrow> 'p \<Rightarrow> PauseDownloadOptions \<Rightarrow> int32_t \<times> PauseDownloadOptions \<times> 'p" where
  "ReadPauseDownloadOptions ops p opts =
     (let (b, p) = pc_ReadBool ops p in (0, opts\<lparr>pd_isAllowAutoResume := b\<rparr>, p))"

definition WritePauseDownloadOptions :: "'p MessageParcel \<Rightarrow> PauseDownloadOptions \<Rightarrow> 'p \<Rightarrow> 'p" where
  "WritePauseDownloadOptions ops opts p = pc_WriteBool ops (pd_isAllowAutoResume opts) p"

definition ReadResumeDownloadOptions ::
  "'p MessageParcel \<Rightarrow> 'p \<Rightarrow> ResumeDownloadOptions \<Rightarrow> int32_t \<times> ResumeDownloadOptions \<times> 'p" where
  "ReadResumeDownloadOptions ops p opts =
     (let (n, p) = pc_ReadUint32 ops p in (0, opts\<lparr>rd_allowNetwork := NetType_of n\<rparr>, p))"

definition WriteResumeDownloadOptions :: "'p MessageParcel \<Rightarrow> ResumeDownloadOptions \<Rightarrow> 'p \<Rightarrow> 'p" where
  "WriteResumeDownloadOptions ops opts p =
     pc_WriteUint32 ops (NetType_code (rd_allowNetwork opts)) p"

definition ReadUpgradeOptions ::
  "'p MessageParcel \<Rightarrow> 'p \<Rightarrow> UpgradeOptions \<Rightarrow> int32_t \<times> UpgradeOptions \<times> 'p" where
  "ReadUpgradeOptions ops p opts =
     (let (r, p) = pc_ReadUint32 ops p in (0, opts\<lparr>uo_order := Order_of r\<rparr>, p))"

definition WriteUpgradeOptions :: "'p MessageParcel \<Rightarrow> UpgradeOptions \<Rightarrow> 'p \<Rightarrow> 'p" where
  "WriteUpgradeOptions ops opts p = pc_WriteUint32 ops (Order_code (uo_order opts)) p"

definition ReadClearOptions ::
  "'p MessageParcel \<Rightarrow> 'p \<Rightarrow> ClearOptions \<Rightarrow> int32_t \<times> ClearOptions \<times> 'p" where
  "ReadClearOptions ops p opts =
     (let (s, p) = pc_ReadUint32 ops p in (0, opts\<lparr>co_status := UpgradeStatus_of s\<rparr>, p))"

definition WriteClearOptions :: "'p MessageParcel \<Rightarrow> ClearOptions \<Rightarrow> 'p \<Rightarrow> 'p" where
  "WriteClearOptions ops opts p = pc_WriteUint32 ops (UpgradeStatus_code (co_status opts)) p"

section \<open>What the code relies on: a parcel is a queue of items\<close>

text \<open>The last two items are the interface token and a remote object, which the proxies write.\<close>

datatype parcel_item =
    is_PInt32: PInt32 (the_int32: int32_t)
  | is_PUint32: PUint32 (the_uint32: uint32_t)
  | is_PBool: PBool (the_bool: bool)
  | is_PStr16: PStr16 (the_str16: u16string)
  | is_PToken: PToken (the_token: string)
  | is_PRemote: PRemote (the_remote: nat)

text \<open>
  Writing appends an item, reading an item of the type at the front removes and returns it,
  and converting a valid UTF-8 string to UTF-16 and back is the identity. Nothing is assumed
  of a read whose type is not the one at the front.
\<close>

locale message_parcel =
  fixes ops :: "'p MessageParcel"
    and items :: "'p \<Rightarrow> parcel_item list"
    and utf8 :: "string \<Rightarrow> bool"
  assumes write_int32: "items (pc_WriteInt32 ops v p) = items p @ [PInt32 v]"
    and write_uint32: "items (pc_WriteUint32 ops v p) = items p @ [PUint32 v]"
    and write_bool: "items (pc_WriteBool ops b p) = items p @ [PBool b]"
    and write_str16: "items (pc_WriteString16 ops s p) = items p @ [PStr16 s]"
    and read_int32: "items p = PInt32 v # r \<Longrightarrow>
          fst (pc_ReadInt32 ops p) = v \<and> items (snd (pc_ReadInt32 ops p)) = r"
    and read_uint32: "items p = PUint32 v # r \<Longrightarrow>
          fst (pc_ReadUint32 ops p) = v \<and> items (snd (pc_ReadUint32 ops p)) = r"
    and read_bool: "items p = PBool b # r \<Longrightarrow>
          fst (pc_ReadBool ops p) = b \<and> items (snd (pc_ReadBool ops p)) = r"
    and read_str16: "items p = PStr16 s # r \<Longrightarrow>
          fst (pc_ReadString16 ops p) = s \<and> items (snd (pc_ReadString16 ops p)) = r"
    and utf8_roundtrip: "utf8 s8 \<Longrightarrow> pc_Str16ToStr8 ops (pc_Str8ToStr16 ops s8) = s8"
begin

text \<open>One rule per read, for the sequenced reads of a reader.\<close>

lemma post_read_int32:
  "items p = PInt32 v # r \<Longrightarrow> (\<And>p. items p = r \<Longrightarrow> post Q (f v p)) \<Longrightarrow>
   post Q (let (x, p) = pc_ReadInt32 ops p in f x p)"
  using read_int32 [of p v r] by (simp add: split_beta)

lemma post_read_uint32:
  "items p = PUint32 v # r \<Longrightarrow> (\<And>p. items p = r \<Longrightarrow> post Q (f v p)) \<Longrightarrow>
   post Q (let (x, p) = pc_ReadUint32 ops p in f x p)"
  using read_uint32 [of p v r] by (simp add: split_beta)

lemma post_read_bool:
  "items p = PBool v # r \<Longrightarrow> (\<And>p. items p = r \<Longrightarrow> post Q (f v p)) \<Longrightarrow>
   post Q (let (x, p) = pc_ReadBool ops p in f x p)"
  using read_bool [of p v r] by (simp add: split_beta)

lemma post_read_str:
  "items p = PStr16 v # r \<Longrightarrow> (\<And>p. items p = r \<Longrightarrow> post Q (f (pc_Str16ToStr8 ops v) p)) \<Longrightarrow>
   post Q (let (x, p) = ReadStr ops p in f x p)"
  using read_str16 [of p v r] by (simp add: ReadStr_def split_beta)

lemma write_str: "items (WriteStr ops s p) = items p @ [PStr16 (pc_Str8ToStr16 ops s)]"
  by (simp add: WriteStr_def write_str16)

lemmas write_laws = write_int32 write_uint32 write_bool write_str
lemmas read_laws = post_read_int32 post_read_uint32 post_read_bool post_read_str

end

text \<open>
  A codec is a writer and a reader that agree on a list of items. The vector functions are
  proved once for every codec.
\<close>

locale parcel_codec = message_parcel ops items utf8
  for ops :: "'p MessageParcel" and items :: "'p \<Rightarrow> parcel_item list" and utf8 :: "string \<Rightarrow> bool" +
  fixes enc :: "'a \<Rightarrow> parcel_item list"
    and wr :: "'a \<Rightarrow> 'p \<Rightarrow> 'p"
    and rd :: "'p \<Rightarrow> 'a \<times> 'p"
    and ok :: "'a \<Rightarrow> bool"
  assumes enc_write: "items (wr x p) = items p @ enc x"
    and enc_read: "ok x \<Longrightarrow> items p = enc x @ r \<Longrightarrow> post (\<lambda>(y, p'). y = x \<and> items p' = r) (rd p)"
begin

lemma read_elements_enc:
  assumes "list_all ok xs" and "items p = concat (map enc xs) @ r"
  shows "post (\<lambda>(ys, p'). ys = acc @ xs \<and> items p' = r) (read_elements rd (length xs) p acc)"
  using assms
proof (induction xs arbitrary: p acc)
  case Nil
  then show ?case by (simp add: post_def)
next
  case (Cons x xs)
  have "post (\<lambda>(ys, p'). ys = acc @ x # xs \<and> items p' = r)
      (let (y, p) = rd p in read_elements rd (length xs) p (acc @ [y]))"
  proof (rule post_let_pair)
    from Cons.prems
    show "post (\<lambda>(y, p'). y = x \<and> items p' = concat (map enc xs) @ r) (rd p)"
      by (intro enc_read) simp_all
  next
    fix y p' assume "y = x \<and> items p' = concat (map enc xs) @ r"
    with Cons.IH [of p' "acc @ [x]"] Cons.prems(1)
    show "post (\<lambda>(ys, p'). ys = acc @ x # xs \<and> items p' = r)
        (read_elements rd (length xs) p' (acc @ [y]))"
      by simp
  qed
  then show ?case by simp
qed

lemma fold_write_enc: "items (fold wr xs p) = items p @ concat (map enc xs)"
  by (induction xs arbitrary: p) (simp_all add: enc_write)

definition enc_vector :: "'a list \<Rightarrow> parcel_item list" where
  "enc_vector xs = PInt32 (of_nat (length xs)) # concat (map enc xs)"

definition ok_vector :: "'a list \<Rightarrow> bool" where
  "ok_vector xs \<longleftrightarrow> length xs \<le> 128 \<and> list_all ok xs"

lemma write_vector_enc: "items (write_vector ops wr xs p) = items p @ enc_vector xs"
  by (simp add: write_vector_def fold_write_enc write_int32 enc_vector_def)

lemma vector_size_of_length:
  assumes "length xs \<le> 128"
  shows "sint (of_nat (length xs) :: int32_t) = int (length xs)"
    and "unat (size_of_int32 (of_nat (length xs))) = length xs"
proof -
  show *: "sint (of_nat (length xs) :: int32_t) = int (length xs)"
    using assms by (simp add: signed_of_nat signed_take_bit_int_eq_self)
  have "uint (size_of_int32 (of_nat (length xs))) = int (length xs)"
    unfolding scast_eq * using assms by (simp add: unsigned_of_nat take_bit_nat_eq_self)
  then show "unat (size_of_int32 (of_nat (length xs))) = length xs"
    by (simp flip: nat_uint_eq)
qed

lemma read_vector_enc:
  assumes "ok_vector xs" and "items p = enc_vector xs @ r"
  shows "post (\<lambda>(ys, p'). ys = acc @ xs \<and> items p' = r) (read_vector ops rd p acc)"
proof -
  from assms(2) have "items p = PInt32 (of_nat (length xs)) # concat (map enc xs) @ r"
    by (simp add: enc_vector_def)
  then show ?thesis
    unfolding read_vector_def
  proof (rule post_read_int32)
    fix p' assume "items p' = concat (map enc xs) @ r"
    with assms(1) read_elements_enc [of xs p' r acc]
    show "post (\<lambda>(ys, p'). ys = acc @ xs \<and> items p' = r)
        (if MAX_VECTOR_SIZE < sint (of_nat (length xs) :: int32_t) then (acc, p')
         else read_elements rd (unat (size_of_int32 (of_nat (length xs)))) p' acc)"
      by (simp add: vector_size_of_length ok_vector_def MAX_VECTOR_SIZE_def)
  qed
qed

lemma post_read_vector:
  assumes "items p = enc_vector xs @ r" and "ok_vector xs"
    and "\<And>p. items p = r \<Longrightarrow> post Q (f (acc @ xs) p)"
  shows "post Q (let (x, p) = read_vector ops rd p acc in f x p)"
  by (rule post_let_pair [OF read_vector_enc [OF assms(2,1)]]) (auto intro: assms(3))

end

section \<open>Items of each struct\<close>

text \<open>
  \<open>X_items ops x\<close> is what the writer of \<open>x\<close> appends, \<open>X_ok utf8 x\<close> what \<open>x\<close> must satisfy
  for the reader to restore it: valid strings, enumeration values that survive the cast, at
  most 128 vector elements, and sizes that fit in 32 bits.
\<close>

definition ErrorMessage_items :: "'p MessageParcel \<Rightarrow> ErrorMessage \<Rightarrow> parcel_item list" where
  "ErrorMessage_items ops e = [PInt32 (em_errorCode e), PStr16 (pc_Str8ToStr16 ops (em_errorMessage e))]"

definition ErrorMessage_ok :: "(string \<Rightarrow> bool) \<Rightarrow> ErrorMessage \<Rightarrow> bool" where
  "ErrorMessage_ok utf8 e \<longleftrightarrow> utf8 (em_errorMessage e)"

definition ComponentDescription_items :: "'p MessageParcel \<Rightarrow> ComponentDescription \<Rightarrow> parcel_item list" where
  "ComponentDescription_items ops d =
     [PStr16 (pc_Str8ToStr16 ops (cd_componentId d)),
      PUint32 (DescriptionType_code (di_descriptionType (cd_descriptionInfo d))),
      PStr16 (pc_Str8ToStr16 ops (di_content (cd_descriptionInfo d)))]"

definition ComponentDescription_ok :: "(string \<Rightarrow> bool) \<Rightarrow> ComponentDescription \<Rightarrow> bool" where
  "ComponentDescription_ok utf8 d \<longleftrightarrow>
     utf8 (cd_componentId d) \<and> utf8 (di_content (cd_descriptionInfo d)) \<and>
     dt.wf (di_descriptionType (cd_descriptionInfo d))"

definition VersionComponent_items :: "'p MessageParcel \<Rightarrow> VersionComponent \<Rightarrow> parcel_item list" where
  "VersionComponent_items ops vc =
     [PStr16 (pc_Str8ToStr16 ops (vc_componentId vc)), PInt32 (vc_componentType vc),
      PStr16 (pc_Str8ToStr16 ops (vc_upgradeAction vc)),
      PStr16 (pc_Str8ToStr16 ops (vc_displayVersion vc)),
      PStr16 (pc_Str8ToStr16 ops (vc_innerVersion vc)),
      PUint32 (uint32_of_size (vc_size vc)), PUint32 (uint32_of_size (vc_effectiveMode vc)),
      PUint32 (DescriptionType_code (di_descriptionType (vc_descriptionInfo vc))),
      PStr16 (pc_Str8ToStr16 ops (di_content (vc_descriptionInfo vc))),
      PStr16 (pc_Str8ToStr16 ops (vc_componentExtra vc))]"

definition VersionComponent_ok :: "(string \<Rightarrow> bool) \<Rightarrow> VersionComponent \<Rightarrow> bool" where
  "VersionComponent_ok utf8 vc \<longleftrightarrow>
     list_all utf8 [vc_componentId vc, vc_upgradeAction vc, vc_displayVersion vc,
       vc_innerVersion vc, di_content (vc_descriptionInfo vc), vc_componentExtra vc] \<and>
     unat (vc_size vc) < 2 ^ 32 \<and> unat (vc_effectiveMode vc) < 2 ^ 32 \<and>
     dt.wf (di_descriptionType (vc_descriptionInfo vc))"

definition TaskBody_ok :: "(string \<Rightarrow> bool) \<Rightarrow> TaskBody \<Rightarrow> bool" where
  "TaskBody_ok utf8 tb \<longleftrightarrow>
     utf8 (vd_versionDigest (tb_versionDigestInfo tb)) \<and> us.wf (tb_status tb) \<and>
     length (tb_errorMessages tb) \<le> 128 \<and> list_all (ErrorMessage_ok utf8) (tb_errorMessages tb) \<and>
     length (tb_versionComponents tb) \<le> 128 \<and>
     list_all (VersionComponent_ok utf8) (tb_versionComponents tb)"

definition NewVersionInfo_ok :: "(string \<Rightarrow> bool) \<Rightarrow> NewVersionInfo \<Rightarrow> bool" where
  "NewVersionInfo_ok utf8 nv \<longleftrightarrow>
     utf8 (vd_versionDigest (nv_versionDigestInfo nv)) \<and> length (nv_versionComponents nv) \<le> 128 \<and>
     list_all (VersionComponent_ok utf8) (nv_versionComponents nv)"

definition BusinessError_ok :: "(string \<Rightarrow> bool) \<Rightarrow> BusinessError \<Rightarrow> bool" where
  "BusinessError_ok utf8 be \<longleftrightarrow>
     utf8 (be_message be) \<and> cr.wf (be_errorNum be) \<and> length (be_data be) \<le> 128 \<and>
     list_all (ErrorMessage_ok utf8) (be_data be)"

definition UpgradeInfo_ok :: "(string \<Rightarrow> bool) \<Rightarrow> UpgradeInfo \<Rightarrow> bool" where
  "UpgradeInfo_ok utf8 info \<longleftrightarrow>
     list_all utf8 [upgradeApp info, vendor (businessType info), upgradeDevId info, controlDevId info] \<and>
     UpgradeInfo_wf info"

lemma size_uint32_roundtrip: "unat (x :: size_t) < 2 ^ 32 \<Longrightarrow> size_of_uint32 (uint32_of_size x) = x"
  by (simp add: word_unat_eq_iff unsigned_ucast_eq unsigned_take_bit_eq take_bit_nat_eq_self)


sublocale message_parcel \<subseteq> em: parcel_codec ops items utf8
  "ErrorMessage_items ops" "WriteErrorMessage ops" "ReadErrorMessage ops" "ErrorMessage_ok utf8"
proof
  fix x p show "items (WriteErrorMessage ops x p) = items p @ ErrorMessage_items ops x"
    by (simp add: WriteErrorMessage_def ErrorMessage_items_def write_laws)
next
  fix x p r show "ErrorMessage_ok utf8 x \<Longrightarrow> items p = ErrorMessage_items ops x @ r \<Longrightarrow>
    post (\<lambda>(y, p'). y = x \<and> items p' = r) (ReadErrorMessage ops p)"
    unfolding ReadErrorMessage_def ErrorMessage_items_def append.simps
    by ((erule read_laws)+, simp add: post_def ErrorMessage_ok_def utf8_roundtrip)
qed

sublocale message_parcel \<subseteq> cd: parcel_codec ops items utf8
  "ComponentDescription_items ops" "WriteComponentDescription ops" "ReadComponentDescription ops"
  "ComponentDescription_ok utf8"
proof
  fix x p
  show "items (WriteComponentDescription ops x p) = items p @ ComponentDescription_items ops x"
    by (simp add: WriteComponentDescription_def ComponentDescription_items_def write_laws)
next
  fix x p r
  show "ComponentDescription_ok utf8 x \<Longrightarrow> items p = ComponentDescription_items ops x @ r \<Longrightarrow>
    post (\<lambda>(y, p'). y = x \<and> items p' = r) (ReadComponentDescription ops p)"
    unfolding ReadComponentDescription_def ComponentDescription_items_def append.simps
    by ((erule read_laws)+, simp add: post_def ComponentDescription_ok_def utf8_roundtrip dt.wf_def)
qed

sublocale message_parcel \<subseteq> vc: parcel_codec ops items utf8
  "VersionComponent_items ops" "WriteVersionComponent ops" "ReadVersionComponent ops"
  "VersionComponent_ok utf8"
proof
  fix x p show "items (WriteVersionComponent ops x p) = items p @ VersionComponent_items ops x"
    by (simp add: WriteVersionComponent_def VersionComponent_items_def write_laws)
next
  fix x p r
  show "VersionComponent_ok utf8 x \<Longrightarrow> items p = VersionComponent_items ops x @ r \<Longrightarrow>
    post (\<lambda>(y, p'). y = x \<and> items p' = r) (ReadVersionComponent ops p)"
    unfolding ReadVersionComponent_def VersionComponent_items_def append.simps
    by ((erule read_laws)+, simp add: post_def VersionComponent_ok_def utf8_roundtrip dt.wf_def
        size_uint32_roundtrip)
qed

section \<open>Round trips of the structs\<close>

context message_parcel
begin

lemma items_WriteErrorMessages:
  "items (WriteErrorMessages ops xs p) = items p @ em.enc_vector xs"
  by (simp add: WriteErrorMessages_def em.write_vector_enc)

lemma items_WriteVersionComponents:
  "items (WriteVersionComponents ops xs p) = items p @ vc.enc_vector xs"
  by (simp add: WriteVersionComponents_def vc.write_vector_enc)

lemma items_WriteComponentDescriptions:
  "items (WriteComponentDescriptions ops xs p) = items p @ cd.enc_vector xs"
  by (simp add: WriteComponentDescriptions_def cd.write_vector_enc)

lemmas vector_write_laws = items_WriteErrorMessages items_WriteVersionComponents
  items_WriteComponentDescriptions
lemmas vector_read_defs = ReadErrorMessages_def ReadVersionComponents_def ReadComponentDescriptions_def

lemma items_WriteTaskBody:
  "items (WriteTaskBody ops tb p) = items p @
     PStr16 (pc_Str8ToStr16 ops (vd_versionDigest (tb_versionDigestInfo tb))) #
     PInt32 (UpgradeStatus_code (tb_status tb)) # PInt32 (tb_subStatus tb) #
     PInt32 (tb_progress tb) # PInt32 (tb_installMode tb) #
     em.enc_vector (tb_errorMessages tb) @ vc.enc_vector (tb_versionComponents tb)"
  by (simp add: WriteTaskBody_def write_laws vector_write_laws)

lemma post_ReadTaskBody:
  assumes "items p = PStr16 (pc_Str8ToStr16 ops (vd_versionDigest (tb_versionDigestInfo tb))) #
     PInt32 (UpgradeStatus_code (tb_status tb)) # PInt32 (tb_subStatus tb) #
     PInt32 (tb_progress tb) # PInt32 (tb_installMode tb) #
     em.enc_vector (tb_errorMessages tb) @ vc.enc_vector (tb_versionComponents tb)"
    and ok: "TaskBody_ok utf8 tb"
    and init: "tb_errorMessages t0 = []" "tb_versionComponents t0 = []"
    and rest: "\<And>p. items p = [] \<Longrightarrow> post Q (f tb p)"
  shows "post Q (let (x, p) = ReadTaskBody ops p t0 in f x p)"
proof (rule post_let_pair)
  have vecs: "em.ok_vector (tb_errorMessages tb)" "vc.ok_vector (tb_versionComponents tb)"
    using ok by (auto simp: TaskBody_ok_def em.ok_vector_def vc.ok_vector_def)
  show "post (\<lambda>(x, p). x = tb \<and> items p = []) (ReadTaskBody ops p t0)"
    unfolding ReadTaskBody_def vector_read_defs using assms(1) vecs ok init
    apply -
    apply (erule read_laws)+
    apply (erule em.post_read_vector, assumption)
    apply (rule vc.post_read_vector [where r = "[]"], simp, assumption)
    by (simp add: post_def TaskBody_ok_def utf8_roundtrip us.wf_def)
qed (use rest in auto)

lemma items_WriteNewVersionInfoEx:
  "items (WriteNewVersionInfoEx ops nv p) = items p @
     PStr16 (pc_Str8ToStr16 ops (vd_versionDigest (nv_versionDigestInfo nv))) #
     vc.enc_vector (nv_versionComponents nv)"
  by (simp add: WriteNewVersionInfoEx_def write_laws vector_write_laws)

lemma post_ReadNewVersionInfoEx:
  assumes "items p = PStr16 (pc_Str8ToStr16 ops (vd_versionDigest (nv_versionDigestInfo nv))) #
     vc.enc_vector (nv_versionComponents nv)"
    and ok: "NewVersionInfo_ok utf8 nv"
    and init: "nv_versionComponents n0 = []"
    and rest: "\<And>p. items p = [] \<Longrightarrow> post Q (f nv p)"
  shows "post Q (let (x, p) = ReadNewVersionInfoEx ops p n0 in f x p)"
proof (rule post_let_pair)
  have vecs: "vc.ok_vector (nv_versionComponents nv)"
    using ok by (auto simp: NewVersionInfo_ok_def vc.ok_vector_def)
  show "post (\<lambda>(x, p). x = nv \<and> items p = []) (ReadNewVersionInfoEx ops p n0)"
    unfolding ReadNewVersionInfoEx_def vector_read_defs using assms(1) vecs ok init
    apply -
    apply (erule read_laws)
    apply (rule vc.post_read_vector [where r = "[]"], simp, assumption)
    by (simp add: post_def NewVersionInfo_ok_def utf8_roundtrip)
qed (use rest in auto)

lemma TaskInfo_roundtrip:
  assumes "items p = []" and "TaskBody_ok utf8 (ti_taskBody x)"
    and "tb_errorMessages (ti_taskBody y0) = []" and "tb_versionComponents (ti_taskBody y0) = []"
  shows "post (\<lambda>(st, y, p'). st = 0 \<and> y = x \<and> items p' = [])
    (ReadTaskInfo ops (WriteTaskInfo ops x p) y0)"
  unfolding ReadTaskInfo_def
  apply (rule post_read_bool)
   apply (simp add: WriteTaskInfo_def write_laws items_WriteTaskBody assms(1))
  apply (erule post_ReadTaskBody)
  using assms by (simp_all add: post_def )

lemma EventInfo_roundtrip:
  assumes "items p = []" and "TaskBody_ok utf8 (ei_taskBody x)"
    and "tb_errorMessages (ei_taskBody y0) = []" and "tb_versionComponents (ei_taskBody y0) = []" and "ev.wf (ei_eventId x)"
  shows "post (\<lambda>(st, y, p'). st = 0 \<and> y = x \<and> items p' = [])
    (ReadEventInfo ops (WriteEventInfo ops x p) y0)"
  unfolding ReadEventInfo_def
  apply (rule post_read_uint32)
   apply (simp add: WriteEventInfo_def write_laws items_WriteTaskBody assms(1))
  apply (erule post_ReadTaskBody)
  using assms by (simp_all add: post_def  ev.wf_def)

lemma CheckResult_roundtrip:
  assumes "items p = []" and "NewVersionInfo_ok utf8 (cr_newVersionInfo x)"
  shows "post (\<lambda>(st, y, p'). st = 0 \<and> y = x \<and> items p' = [])
    (ReadCheckResult ops (WriteCheckResult ops x p) CheckResult_default)"
  unfolding ReadCheckResult_def
  apply (rule post_read_bool)
   apply (simp add: WriteCheckResult_def write_laws items_WriteNewVersionInfoEx assms(1))
  apply (erule post_ReadNewVersionInfoEx)
  using assms by (simp_all add: post_def CheckResult_default_def NewVersionInfo_default_def)

lemma BusinessError_roundtrip:
  assumes "items p = []" and ok: "BusinessError_ok utf8 x"
  shows "post (\<lambda>(st, y, p'). st = 0 \<and> y = x \<and> items p' = [])
    (ReadBusinessError ops (WriteBusinessError ops x p) BusinessError_default)"
proof -
  have "em.ok_vector (be_data x)"
    using ok by (auto simp: BusinessError_ok_def em.ok_vector_def)
  moreover have "items (WriteBusinessError ops x p) =
      PStr16 (pc_Str8ToStr16 ops (be_message x)) # PInt32 (CallResult_code (be_errorNum x)) #
      em.enc_vector (be_data x)"
    by (simp add: WriteBusinessError_def write_laws vector_write_laws assms(1))
  ultimately show ?thesis
    unfolding ReadBusinessError_def vector_read_defs using ok
    apply -
    apply (erule read_laws)+
    apply (rule em.post_read_vector [where r = "[]"], simp, assumption)
    by (simp add: post_def BusinessError_ok_def utf8_roundtrip cr.wf_def BusinessError_default_def)
qed

end

section \<open>A parcel as a list\<close>

text \<open>
  The laws are satisfiable: a parcel that is the list of its items, with strings converted
  code unit by code unit. A read of the wrong type returns a default and consumes nothing.
\<close>

definition list_parcel :: "parcel_item list MessageParcel" where
  "list_parcel =
     \<lparr>pc_WriteInt32 = \<lambda>v p. p @ [PInt32 v],
      pc_ReadInt32 = \<lambda>p. case p of PInt32 v # r \<Rightarrow> (v, r) | _ \<Rightarrow> (0, p),
      pc_WriteUint32 = \<lambda>v p. p @ [PUint32 v],
      pc_ReadUint32 = \<lambda>p. case p of PUint32 v # r \<Rightarrow> (v, r) | _ \<Rightarrow> (0, p),
      pc_WriteBool = \<lambda>b p. p @ [PBool b],
      pc_ReadBool = \<lambda>p. case p of PBool b # r \<Rightarrow> (b, r) | _ \<Rightarrow> (False, p),
      pc_WriteString16 = \<lambda>s p. p @ [PStr16 s],
      pc_ReadString16 = \<lambda>p. case p of PStr16 s # r \<Rightarrow> (s, r) | _ \<Rightarrow> ([], p),
      pc_Str8ToStr16 = map (\<lambda>c. of_nat (of_char c)),
      pc_Str16ToStr8 = map (\<lambda>w. char_of (unat w))\<rparr>"

lemma char_word_roundtrip: "char_of (unat (of_nat (of_char c) :: 16 word)) = c"
proof -
  have "(of_char c :: nat) < 256" by (metis mod_less_divisor of_char_mod_256 zero_less_numeral)
  then have "(of_char c :: nat) < 2 ^ 16" by (rule less_trans) simp
  then have "unat (of_nat (of_char c) :: 16 word) = of_char c"
    by (simp only: unsigned_of_nat take_bit_nat_eq_self len_num1 len_bit0)
       (simp add: take_bit_nat_eq_self)
  then show ?thesis by simp
qed

interpretation lp: message_parcel list_parcel "\<lambda>p. p" "\<lambda>_. True"
  by unfold_locales
    (simp_all add: list_parcel_def comp_def char_word_roundtrip del: of_nat_of_char unsigned_of_nat)

section \<open>Properties\<close>

text \<open>
  Whatever event the service sends, the application receives: for every event with at most
  128 error messages and 128 version components, valid strings and component sizes below
  \<open>2 ^ 32\<close>, \<open>ReadEventInfo\<close> applied to what \<open>WriteEventInfo\<close> wrote restores the event, returns 0
  and leaves the parcel empty.
\<close>

theorem EventInfo_read_write:
  assumes "message_parcel ops items utf8" and "items p = []"
    and "TaskBody_ok utf8 (ei_taskBody x)" and "ev.wf (ei_eventId x)"
    and "tb_errorMessages (ei_taskBody y0) = []" and "tb_versionComponents (ei_taskBody y0) = []"
  shows "post (\<lambda>(st, y, p'). st = 0 \<and> y = x \<and> items p' = [])
    (ReadEventInfo ops (WriteEventInfo ops x p) y0)"
  using message_parcel.EventInfo_roundtrip [OF assms(1,2,3,5,6,4)] .

definition sample_component :: VersionComponent where
  "sample_component = VersionComponent_default
     \<lparr>vc_componentId := ''sys'', vc_size := 4096, vc_componentExtra := ''x''\<rparr>"

definition sample_body :: TaskBody where
  "sample_body = TaskBody_default
     \<lparr>tb_status := UpgradeStatus.DOWNLOADING, tb_progress := 40,
      tb_errorMessages := [\<lparr>em_errorCode = 3, em_errorMessage = ''disk''\<rparr>],
      tb_versionComponents := [sample_component, VersionComponent_default]\<rparr>"

theorem EventInfo_read_write_witness:
  "post (\<lambda>(st, y, p'). st = 0 \<and> ei_taskBody y = sample_body \<and> p' = [])
    (ReadEventInfo list_parcel (WriteEventInfo list_parcel
       \<lparr>ei_eventId = EventId.EVENT_DOWNLOAD_UPDATE, ei_taskBody = sample_body\<rparr> [])
       \<lparr>ei_eventId = EventId.EVENT_TASK_BASE, ei_taskBody = TaskBody_default\<rparr>)"
  using EventInfo_read_write [OF lp.message_parcel_axioms refl,
      of "\<lparr>ei_eventId = EventId.EVENT_DOWNLOAD_UPDATE, ei_taskBody = sample_body\<rparr>"
         "\<lparr>ei_eventId = EventId.EVENT_TASK_BASE, ei_taskBody = TaskBody_default\<rparr>"]
  by (simp add: post_def split_beta sample_body_def sample_component_def TaskBody_ok_def
      TaskBody_default_def VersionComponent_default_def VersionComponent_ok_def
      DescriptionInfo_default_def ErrorMessage_ok_def us.wf_named dt.wf_named ev.wf_named enum_simps)

text \<open>
  A check result and a business error survive the wire: with vectors of at most 128
  elements the readers return 0, restore the value and leave the parcel empty.
\<close>

theorem CheckResult_BusinessError_read_write:
  assumes "message_parcel ops items utf8" and "items p = []"
  shows "(NewVersionInfo_ok utf8 (cr_newVersionInfo x) \<longrightarrow>
      post (\<lambda>(st, y, p'). st = 0 \<and> y = x \<and> items p' = [])
        (ReadCheckResult ops (WriteCheckResult ops x p) CheckResult_default)) \<and>
    (BusinessError_ok utf8 e \<longrightarrow>
      post (\<lambda>(st, y, p'). st = 0 \<and> y = e \<and> items p' = [])
        (ReadBusinessError ops (WriteBusinessError ops e p) BusinessError_default))"
  using message_parcel.CheckResult_roundtrip [OF assms]
    message_parcel.BusinessError_roundtrip [OF assms] by blast

definition sample_error :: BusinessError where
  "sample_error = \<lparr>be_message = ''fail'', be_errorNum = CallResult.FAIL,
     be_data = [\<lparr>em_errorCode = 7, em_errorMessage = ''net''\<rparr>]\<rparr>"

definition sample_check :: CheckResult where
  "sample_check = \<lparr>cr_isExistNewVersion = True,
     cr_newVersionInfo = \<lparr>nv_versionDigestInfo = \<lparr>vd_versionDigest = ''d1''\<rparr>,
       nv_versionComponents = [sample_component]\<rparr>\<rparr>"

theorem CheckResult_BusinessError_read_write_witness:
  "post (\<lambda>(st, y, p'). st = 0 \<and> y = sample_check \<and> p' = [])
     (ReadCheckResult list_parcel (WriteCheckResult list_parcel sample_check []) CheckResult_default) \<and>
   post (\<lambda>(st, y, p'). st = 0 \<and> y = sample_error \<and> p' = [])
     (ReadBusinessError list_parcel (WriteBusinessError list_parcel sample_error []) BusinessError_default)"
proof -
  have "NewVersionInfo_ok (\<lambda>_. True) (cr_newVersionInfo sample_check)"
    "BusinessError_ok (\<lambda>_. True) sample_error"
    by (simp_all add: sample_check_def sample_error_def NewVersionInfo_ok_def BusinessError_ok_def
        sample_component_def VersionComponent_default_def DescriptionInfo_default_def
        VersionComponent_ok_def ErrorMessage_ok_def dt.wf_named cr.wf_named enum_simps)
  then show ?thesis
    using CheckResult_BusinessError_read_write [OF lp.message_parcel_axioms refl] by blast
qed

lemma length_read_elements: "length (fst (read_elements rd n p acc)) = length acc + n"
  by (induction rd n p acc rule: read_elements.induct) (simp_all add: split_beta)

lemma uint_size_of_int32: "uint (size_of_int32 sz) = sint sz mod 2 ^ 64"
  unfolding scast_eq uint_word_of_int by simp

lemma unat_size_of_negative_int32:
  assumes "sint (sz :: int32_t) < 0"
  shows "2 ^ 63 \<le> unat (size_of_int32 sz)"
proof -
  have "- (2 ^ 31) \<le> sint sz" using sint_greater_eq [of sz] by simp
  then have "(sint sz + 2 ^ 64) mod 2 ^ 64 = sint sz + 2 ^ 64"
    using assms by (intro mod_pos_pos_trivial) simp_all
  then have "uint (size_of_int32 sz) = sint sz + 2 ^ 64"
    unfolding uint_size_of_int32 by simp
  then have "2 ^ 63 \<le> uint (size_of_int32 sz)"
    using \<open>- (2 ^ 31) \<le> sint sz\<close> by simp
  from nat_mono [OF this] show ?thesis by simp
qed



context message_parcel
begin

lemma UpgradeInfo_roundtrip:
  assumes "items p = []" and "UpgradeInfo_ok utf8 x"
  shows "post (\<lambda>(st, y, p'). st = 0 \<and> y = x \<and> items p' = [])
    (ReadUpgradeInfo ops (WriteUpgradeInfo ops x p) y0)"
proof -
  obtain a v s d c where x: "x = UpgradeInfo a (BusinessType v s) d c"
    by (metis BusinessType.exhaust UpgradeInfo.exhaust)
  have "items (WriteUpgradeInfo ops x p) = PStr16 (pc_Str8ToStr16 ops a) #
      PStr16 (pc_Str8ToStr16 ops v) # PInt32 (BusinessSubType_code s) #
      PStr16 (pc_Str8ToStr16 ops d) # [PStr16 (pc_Str8ToStr16 ops c)]"
    by (simp add: WriteUpgradeInfo_def write_laws assms(1) x)
  then show ?thesis
    unfolding ReadUpgradeInfo_def using assms(2)
    apply -
    apply (erule read_laws)+
    by (simp add: post_def x UpgradeInfo_ok_def UpgradeInfo_wf_def bs.wf_def utf8_roundtrip)
qed

lemma UpgradePolicy_roundtrip:
  assumes "items p = []"
  shows "post (\<lambda>(st, y, p'). st = 0 \<and> y = x \<and> items p' = [])
    (ReadUpgradePolicy ops (WriteUpgradePolicy ops x p) y0)"
proof -
  have "items (WriteUpgradePolicy ops x p) = PBool (upo_downloadStrategy x) #
      PBool (upo_autoUpgradeStrategy x) # PInt32 2 #
      PUint32 (up_start (fst (upo_autoUpgradePeriods x))) #
      PUint32 (up_end (fst (upo_autoUpgradePeriods x))) #
      PUint32 (up_start (snd (upo_autoUpgradePeriods x))) #
      [PUint32 (up_end (snd (upo_autoUpgradePeriods x)))]"
    by (simp add: WriteUpgradePolicy_def write_laws assms)
  then show ?thesis
    unfolding ReadUpgradePolicy_def
    apply -
    apply (erule read_laws)+
    apply (simp add: MAX_VECTOR_SIZE_def)
    apply (erule read_laws [unfolded Let_def])+
    by (cases x) (simp add: post_def prod_eq_iff)
qed

lemma options_roundtrip:
  assumes "items p = []"
  shows "utf8 (do_language dopt) \<and> df.wf (do_format dopt) \<longrightarrow>
      post (\<lambda>(st, y, p'). st = 0 \<and> y = dopt \<and> items p' = [])
        (ReadDescriptionOptions ops (WriteDescriptionOptions ops dopt p) dopt0)"
    and "nt.wf (dl_allowNetwork lopt) \<and> od.wf (dl_order lopt) \<longrightarrow>
      post (\<lambda>(st, y, p'). st = 0 \<and> y = lopt \<and> items p' = [])
        (ReadDownloadOptions ops (WriteDownloadOptions ops lopt p) lopt0)"
    and "post (\<lambda>(st, y, p'). st = 0 \<and> y = popt \<and> items p' = [])
      (ReadPauseDownloadOptions ops (WritePauseDownloadOptions ops popt p) popt0)"
    and "nt.wf (rd_allowNetwork ropt) \<longrightarrow>
      post (\<lambda>(st, y, p'). st = 0 \<and> y = ropt \<and> items p' = [])
        (ReadResumeDownloadOptions ops (WriteResumeDownloadOptions ops ropt p) ropt0)"
    and "od.wf (uo_order uopt) \<longrightarrow>
      post (\<lambda>(st, y, p'). st = 0 \<and> y = uopt \<and> items p' = [])
        (ReadUpgradeOptions ops (WriteUpgradeOptions ops uopt p) uopt0)"
    and "us.wf (co_status copt) \<longrightarrow>
      post (\<lambda>(st, y, p'). st = 0 \<and> y = copt \<and> items p' = [])
        (ReadClearOptions ops (WriteClearOptions ops copt p) copt0)"
proof -
  have items_of: "items (pc_WriteUint32 ops v q) = PUint32 v # []"
      "items (pc_WriteBool ops b q) = PBool b # []" if "items q = []" for q v b
    using that by (simp_all add: write_laws)
  have two: "items (WriteStr ops s (pc_WriteUint32 ops v p)) =
        PUint32 v # [PStr16 (pc_Str8ToStr16 ops s)]"
      "items (pc_WriteUint32 ops w (pc_WriteUint32 ops v p)) = PUint32 v # [PUint32 w]" for s v w
    by (simp_all add: write_laws assms)
  note reads = post_read_uint32 [OF items_of(1) [OF assms]] post_read_bool [OF items_of(2) [OF assms]]
  show "utf8 (do_language dopt) \<and> df.wf (do_format dopt) \<longrightarrow>
      post (\<lambda>(st, y, p'). st = 0 \<and> y = dopt \<and> items p' = [])
        (ReadDescriptionOptions ops (WriteDescriptionOptions ops dopt p) dopt0)"
    unfolding ReadDescriptionOptions_def WriteDescriptionOptions_def Let_def [of "pc_WriteUint32 _ _ _"]
    by (rule impI, rule post_read_uint32 [OF two(1)], erule post_read_str)
       (simp add: post_def utf8_roundtrip df.wf_def)
  show "nt.wf (dl_allowNetwork lopt) \<and> od.wf (dl_order lopt) \<longrightarrow>
      post (\<lambda>(st, y, p'). st = 0 \<and> y = lopt \<and> items p' = [])
        (ReadDownloadOptions ops (WriteDownloadOptions ops lopt p) lopt0)"
    unfolding ReadDownloadOptions_def WriteDownloadOptions_def Let_def [of "pc_WriteUint32 _ _ _"]
    by (rule impI, rule post_read_uint32 [OF two(2)], erule post_read_uint32)
       (simp add: post_def nt.wf_def od.wf_def)
  show "post (\<lambda>(st, y, p'). st = 0 \<and> y = popt \<and> items p' = [])
      (ReadPauseDownloadOptions ops (WritePauseDownloadOptions ops popt p) popt0)"
    unfolding ReadPauseDownloadOptions_def WritePauseDownloadOptions_def
    by (rule reads) (simp add: post_def)
  show "nt.wf (rd_allowNetwork ropt) \<longrightarrow>
      post (\<lambda>(st, y, p'). st = 0 \<and> y = ropt \<and> items p' = [])
        (ReadResumeDownloadOptions ops (WriteResumeDownloadOptions ops ropt p) ropt0)"
    unfolding ReadResumeDownloadOptions_def WriteResumeDownloadOptions_def
    by (rule impI, rule reads) (simp add: post_def nt.wf_def)
  show "od.wf (uo_order uopt) \<longrightarrow>
      post (\<lambda>(st, y, p'). st = 0 \<and> y = uopt \<and> items p' = [])
        (ReadUpgradeOptions ops (WriteUpgradeOptions ops uopt p) uopt0)"
    unfolding ReadUpgradeOptions_def WriteUpgradeOptions_def
    by (rule impI, rule reads) (simp add: post_def od.wf_def)
  show "us.wf (co_status copt) \<longrightarrow>
      post (\<lambda>(st, y, p'). st = 0 \<and> y = copt \<and> items p' = [])
        (ReadClearOptions ops (WriteClearOptions ops copt p) copt0)"
    unfolding ReadClearOptions_def WriteClearOptions_def
    by (rule impI, rule reads) (simp add: post_def us.wf_def)
qed

end

text \<open>
  The request structs survive the wire, whatever the reader's struct held before: the
  upgrade info, the upgrade policy with its two periods, and the options of description,
  download, pause, resume, upgrade and clear.
\<close>

theorem requests_read_write:
  assumes "message_parcel ops items utf8" and "items p = []"
  shows "(UpgradeInfo_ok utf8 info \<longrightarrow>
      post (\<lambda>(st, y, p'). st = 0 \<and> y = info \<and> items p' = [])
        (ReadUpgradeInfo ops (WriteUpgradeInfo ops info p) info0)) \<and>
    post (\<lambda>(st, y, p'). st = 0 \<and> y = policy \<and> items p' = [])
      (ReadUpgradePolicy ops (WriteUpgradePolicy ops policy p) policy0) \<and>
    (utf8 (do_language dopt) \<and> df.wf (do_format dopt) \<longrightarrow>
      post (\<lambda>(st, y, p'). st = 0 \<and> y = dopt \<and> items p' = [])
        (ReadDescriptionOptions ops (WriteDescriptionOptions ops dopt p) dopt0)) \<and>
    (nt.wf (dl_allowNetwork lopt) \<and> od.wf (dl_order lopt) \<longrightarrow>
      post (\<lambda>(st, y, p'). st = 0 \<and> y = lopt \<and> items p' = [])
        (ReadDownloadOptions ops (WriteDownloadOptions ops lopt p) lopt0)) \<and>
    post (\<lambda>(st, y, p'). st = 0 \<and> y = popt \<and> items p' = [])
      (ReadPauseDownloadOptions ops (WritePauseDownloadOptions ops popt p) popt0) \<and>
    (nt.wf (rd_allowNetwork ropt) \<longrightarrow>
      post (\<lambda>(st, y, p'). st = 0 \<and> y = ropt \<and> items p' = [])
        (ReadResumeDownloadOptions ops (WriteResumeDownloadOptions ops ropt p) ropt0)) \<and>
    (od.wf (uo_order uopt) \<longrightarrow>
      post (\<lambda>(st, y, p'). st = 0 \<and> y = uopt \<and> items p' = [])
        (ReadUpgradeOptions ops (WriteUpgradeOptions ops uopt p) uopt0)) \<and>
    (us.wf (co_status copt) \<longrightarrow>
      post (\<lambda>(st, y, p'). st = 0 \<and> y = copt \<and> items p' = [])
        (ReadClearOptions ops (WriteClearOptions ops copt p) copt0))"
  by (intro conjI message_parcel.options_roundtrip [OF assms]
      message_parcel.UpgradeInfo_roundtrip [OF assms, THEN impI [rotated]]
      message_parcel.UpgradePolicy_roundtrip [OF assms])

definition sample_info :: UpgradeInfo where
  "sample_info = UpgradeInfo ''app'' (BusinessType ''public'' BusinessSubType.FIRMWARE) ''dev'' ''ctl''"

theorem requests_read_write_witness:
  "post (\<lambda>(st, y, p'). st = 0 \<and> y = sample_info \<and> p' = [])
     (ReadUpgradeInfo list_parcel (WriteUpgradeInfo list_parcel sample_info []) UpgradeInfo_default) \<and>
   post (\<lambda>(st, y, p'). st = 0 \<and> dl_allowNetwork y = NetType.WIFI \<and> p' = [])
     (ReadDownloadOptions list_parcel (WriteDownloadOptions list_parcel
        \<lparr>dl_allowNetwork = NetType.WIFI, dl_order = Order.DOWNLOAD\<rparr> [])
        \<lparr>dl_allowNetwork = NetType.CELLULAR, dl_order = Order.INSTALL\<rparr>)"
proof -
  have "UpgradeInfo_ok (\<lambda>_. True) sample_info"
    by (simp add: UpgradeInfo_ok_def UpgradeInfo_wf_def sample_info_def bs.wf_named enum_simps)
  moreover have "nt.wf NetType.WIFI" "od.wf Order.DOWNLOAD"
    by (simp_all add: nt.wf_named od.wf_named enum_simps)
  ultimately show ?thesis
    using requests_read_write [OF lp.message_parcel_axioms refl, of sample_info UpgradeInfo_default
        _ _ _ _ "\<lparr>dl_allowNetwork = NetType.WIFI, dl_order = Order.DOWNLOAD\<rparr>"
        "\<lparr>dl_allowNetwork = NetType.CELLULAR, dl_order = Order.INSTALL\<rparr>"]
    by (simp add: post_def split_beta)
qed

end
