(* ===== verification/Update_Service.thy ===== *)
theory Update_Service
  imports Firmware_Manager Parcel_Codec
begin

text \<open>
  The operations of the service (\<open>update_service.cpp\<close>): which online updater answers a request
  (\<open>update_service_impl_manager.cpp\<close>), what the firmware updater does with it
  (\<open>update_service_impl_firmware.cpp\<close>), and the local updater and the restorer. An operation
  returns the code of the call, the structs it fills and the new state. It returns \<open>None\<close> where
  starting a flow throws or uses a deleted flow manager; a flow it starts is added to
  \<open>sv_flows\<close>, because its executor thread runs after the call.
\<close>

section \<open>State\<close>

datatype IServiceOnlineUpdater = UpdateServiceImplFirmware

text \<open>\<open>sv_exiting\<close> says that \<open>DoTerminateUpgrade\<close> started the thread that exits the process.\<close>

record 'x Service =
  sv_world :: "'x World"
  sv_updateImpMap :: "(UpgradeInfo \<times> IServiceOnlineUpdater) list"
  sv_flows :: "FirmwareFlowManager list"
  sv_exiting :: bool

definition Service_new :: "'x \<Rightarrow> 'x Service" where
  "Service_new x = \<lparr>sv_world = World_new x, sv_updateImpMap = [], sv_flows = [], sv_exiting = False\<rparr>"

text \<open>
  The updater kits and the package verification library, which are not part of the repository,
  and the system timer, which says whether a start of the process could be scheduled.
\<close>

record 'x UpdaterKits =
  uk_GetBlockDeviceByMountPoint :: "string \<Rightarrow> 'x \<Rightarrow> string"
  uk_RebootAndCleanUserData :: "string \<Rightarrow> string \<Rightarrow> 'x \<Rightarrow> bool \<times> 'x"
  uk_RebootAndInstallSdcardPackage :: "string \<Rightarrow> string list \<Rightarrow> 'x \<Rightarrow> bool \<times> 'x"
  uk_VerifyPackageWithCallback :: "string \<Rightarrow> string \<Rightarrow> 'x \<Rightarrow> int32_t"
  uk_timer :: "uint64_t \<Rightarrow> int32_t"

definition INT_CALL_SUCCESS :: int32_t where
  "INT_CALL_SUCCESS = CallResult_code CallResult.SUCCESS"

definition INT_CALL_FAIL :: int32_t where
  "INT_CALL_FAIL = CallResult_code CallResult.FAIL"

section \<open>The firmware updater\<close>

definition Impl_CheckNewVersion :: "'x Platform \<Rightarrow> 'x Service \<Rightarrow> (int32_t \<times> unit \<times> 'x Service) option" where
  "Impl_CheckNewVersion E sv =
     map_option (\<lambda>(fm, w). (INT_CALL_SUCCESS, (), sv\<lparr>sv_world := w, sv_flows := sv_flows sv @ [fm]\<rparr>))
       (DoCheck E (sv_world sv))"

definition Impl_Download ::
  "'x Platform \<Rightarrow> DownloadOptions \<Rightarrow> BusinessError \<Rightarrow> 'x Service \<Rightarrow> (int32_t \<times> BusinessError \<times> 'x Service) option" where
  "Impl_Download E downloadOptions businessError sv =
     (let w = sv_world sv; task = QueryTask E FirmwareTask_default w
      in if ft_status task \<noteq> UpgradeStatus.CHECK_VERSION_SUCCESS
         then Some (INT_CALL_SUCCESS, Build CallResult.FAIL ''download error'' businessError, sv)
         else let w = do_ext (Task_UpdateDownloadOptionByTaskId (pl_rdb E) (ft_taskId task) DownloadMode.MANUAL
                        (dl_allowNetwork downloadOptions) (dl_order downloadOptions)) w
              in map_option (\<lambda>(fm, be, w). (INT_CALL_SUCCESS, be, sv\<lparr>sv_world := w, sv_flows := sv_flows sv @ [fm]\<rparr>))
                   (DoDownload E downloadOptions businessError w))"

definition Impl_PauseDownload :: "BusinessError \<Rightarrow> int32_t \<times> BusinessError" where
  "Impl_PauseDownload businessError =
     (INT_CALL_SUCCESS, Build CallResult.UN_SUPPORT ''pause download not support'' businessError)"

definition Impl_ResumeDownload :: "BusinessError \<Rightarrow> int32_t \<times> BusinessError" where
  "Impl_ResumeDownload businessError =
     (INT_CALL_SUCCESS, Build CallResult.UN_SUPPORT ''resume download not support'' businessError)"

definition Impl_Upgrade ::
  "'x Platform \<Rightarrow> UpgradeOptions \<Rightarrow> BusinessError \<Rightarrow> 'x Service \<Rightarrow> (int32_t \<times> BusinessError \<times> 'x Service) option" where
  "Impl_Upgrade E upgradeOptions businessError sv =
     (let w = sv_world sv; task = QueryTask E FirmwareTask_default w;
          w = do_ext (Task_UpdateUpgradeModeByTaskId (pl_rdb E) (ft_taskId task) UpgradeMode.MANUAL) w
      in map_option (\<lambda>(fm, be, w). (INT_CALL_SUCCESS, be,
             sv\<lparr>sv_world := w, sv_flows := sv_flows sv @ (case fm of None \<Rightarrow> [] | Some fm \<Rightarrow> [fm])\<rparr>))
           (DoInstall E upgradeOptions businessError (FirmwareUpdateHelper_GetInstallType E w) w))"

definition Impl_ClearError ::
  "'x Platform \<Rightarrow> BusinessError \<Rightarrow> 'x Service \<Rightarrow> int32_t \<times> BusinessError \<times> 'x Service" where
  "Impl_ClearError E businessError sv =
     (let (be, w) = DoClearError E businessError (sv_world sv) in (INT_CALL_SUCCESS, be, sv\<lparr>sv_world := w\<rparr>))"

definition Impl_TerminateUpgrade ::
  "'x Platform \<Rightarrow> (uint64_t \<Rightarrow> int32_t) \<Rightarrow> BusinessError \<Rightarrow> 'x Service \<Rightarrow> int32_t \<times> BusinessError \<times> 'x Service" where
  "Impl_TerminateUpgrade E timer businessError sv =
     (let (exits, be, w) = DoTerminateUpgrade E timer businessError (sv_world sv)
      in (INT_CALL_SUCCESS, be, sv\<lparr>sv_world := w, sv_exiting := sv_exiting sv \<or> exits\<rparr>))"

definition Impl_GetNewVersionInfo ::
  "'x Platform \<Rightarrow> NewVersionInfo \<Rightarrow> BusinessError \<Rightarrow> 'x World \<Rightarrow> int32_t \<times> NewVersionInfo \<times> BusinessError" where
  "Impl_GetNewVersionInfo E newVersionInfo businessError w =
     (let task = QueryTask E FirmwareTask_default w;
          components = QueryAllComponents E w
      in (INT_CALL_SUCCESS,
          newVersionInfo\<lparr>nv_versionComponents := BuildNewVersionInfo E components (nv_versionComponents newVersionInfo) w,
            nv_versionDigestInfo := \<lparr>vd_versionDigest = ft_taskId task\<rparr>\<rparr>,
          businessError))"

definition LANGUAGE_CHINESE :: string where
  "LANGUAGE_CHINESE = ''<language name=\"zh-cn\" code=\"2052\">''"

definition LANGUAGE_ENGLISH :: string where
  "LANGUAGE_ENGLISH = ''<language name=\"en-us\" code=\"1033\">''"

definition LANGUAGE_END :: string where
  "LANGUAGE_END = ''</language>''"

definition GetChangelogContent :: "string \<Rightarrow> string \<Rightarrow> string" where
  "GetChangelogContent dataXml language =
     (let languageStart = (if language \<noteq> ''zh-cn'' then LANGUAGE_CHINESE else LANGUAGE_ENGLISH)
      in StringRemove dataXml languageStart LANGUAGE_END)"

text \<open>
  The description in a changelog file, read the same way by both description queries:
  \<open>find_first_of\<close> gives \<open>npos\<close> when there is no bar, and \<open>npos + 1\<close> wraps to 0.
\<close>

definition changelog_description :: "string \<Rightarrow> string \<Rightarrow> DescriptionInfo" where
  "changelog_description dataXml language =
     (let (kind, dataXmlFinal) =
            (case find_char dataXml (CHR ''|'') 0 of
               None \<Rightarrow> (dataXml, dataXml)
             | Some i \<Rightarrow> (take i dataXml, drop (i + 1) dataXml))
      in \<lparr>di_descriptionType = DescriptionType_of (atoi kind), di_content = GetChangelogContent dataXmlFinal language\<rparr>)"

fun describe_components ::
  "'x Platform \<Rightarrow> string \<Rightarrow> FirmwareComponent list \<Rightarrow> VersionDescriptionInfo \<Rightarrow> BusinessError \<Rightarrow> 'x World \<Rightarrow>
   VersionDescriptionInfo \<times> BusinessError" where
  "describe_components E language [] info businessError w = (info, businessError)"
| "describe_components E language (component # components) info businessError w =
     (let changelogFilePath = CHANGELOG_PATH @ ''/'' @ fc_componentId component @ ''.xml''
      in if \<not> IsFileExist E changelogFilePath (w_ext w)
         then (info, Build CallResult.FAIL ''GetNewVersionDescription failed'' businessError)
         else let dataXml = ReadDataFromFile E changelogFilePath (w_ext w);
                  componentDescription = \<lparr>cd_componentId = fc_componentId component,
                    cd_descriptionInfo = changelog_description dataXml language\<rparr>
              in describe_components E language components
                   (info\<lparr>vi_componentDescriptions := vi_componentDescriptions info @ [componentDescription]\<rparr>)
                   businessError w)"

definition Impl_GetNewVersionDescription ::
  "'x Platform \<Rightarrow> DescriptionOptions \<Rightarrow> VersionDescriptionInfo \<Rightarrow> BusinessError \<Rightarrow> 'x World \<Rightarrow>
   int32_t \<times> VersionDescriptionInfo \<times> BusinessError" where
  "Impl_GetNewVersionDescription E descriptionOptions newVersionDescriptionInfo businessError w =
     (let businessError = Build CallResult.SUCCESS ''start GetNewVersionDescription'' businessError;
          components = QueryAllComponents E w
      in if components = []
         then (INT_CALL_SUCCESS, newVersionDescriptionInfo,
               Build CallResult.FAIL ''GetNewVersionDescription failed'' businessError)
         else (INT_CALL_SUCCESS,
               describe_components E (do_language descriptionOptions) components newVersionDescriptionInfo businessError w))"

definition Impl_GetCurrentVersionInfo ::
  "'x Platform \<Rightarrow> CurrentVersionInfo \<Rightarrow> BusinessError \<Rightarrow> 'x World \<Rightarrow> int32_t \<times> CurrentVersionInfo \<times> BusinessError" where
  "Impl_GetCurrentVersionInfo E currentVersionInfo businessError w =
     (INT_CALL_SUCCESS, BuildCurrentVersionInfo E currentVersionInfo w,
      businessError\<lparr>be_errorNum := CallResult.SUCCESS\<rparr>)"

definition Impl_GetCurrentVersionDescription ::
  "'x Platform \<Rightarrow> DescriptionOptions \<Rightarrow> VersionDescriptionInfo \<Rightarrow> BusinessError \<Rightarrow> 'x World \<Rightarrow>
   int32_t \<times> VersionDescriptionInfo \<times> BusinessError" where
  "Impl_GetCurrentVersionDescription E descriptionOptions info businessError w =
     (let componentId = ObtainString E HOTA_CURRENT_COMPONENT_ID [] (w_ext w);
          failed = (INT_CALL_SUCCESS, info, Build CallResult.FAIL ''GetCurrentVersionDescription failed'' businessError);
          changelogFilePath = CHANGELOG_PATH @ ''/'' @ componentId @ ''.xml''
      in if componentId = [] then failed
         else if \<not> IsFileExist E changelogFilePath (w_ext w) then failed
         else let dataXml = ReadDataFromFile E changelogFilePath (w_ext w);
                  descriptionContent = \<lparr>cd_componentId = componentId,
                    cd_descriptionInfo = changelog_description dataXml (do_language descriptionOptions)\<rparr>
              in (INT_CALL_SUCCESS,
                  info\<lparr>vi_componentDescriptions := vi_componentDescriptions info @ [descriptionContent]\<rparr>,
                  Build CallResult.SUCCESS ''GetCurrentVersionDescription ok'' businessError))"

definition Impl_GetTaskInfo ::
  "'x Platform \<Rightarrow> TaskInfo \<Rightarrow> BusinessError \<Rightarrow> 'x World \<Rightarrow> int32_t \<times> TaskInfo \<times> BusinessError" where
  "Impl_GetTaskInfo E taskInfo businessError w =
     (let businessError = businessError\<lparr>be_errorNum := CallResult.SUCCESS\<rparr>;
          task = QueryTask E FirmwareTask_default w;
          taskInfo = (if ft_isExistTask task
                      then taskInfo\<lparr>ti_existTask := True,
                             ti_taskBody := (ti_taskBody taskInfo)
                               \<lparr>tb_status := ft_status task, tb_progress := ft_progress task,
                                tb_versionDigestInfo := \<lparr>vd_versionDigest = ft_taskId task\<rparr>\<rparr>\<rparr>
                      else taskInfo)
      in (INT_CALL_SUCCESS, taskInfo, businessError))"

definition Impl_SetUpgradePolicy ::
  "'x Platform \<Rightarrow> UpgradePolicy \<Rightarrow> BusinessError \<Rightarrow> 'x Service \<Rightarrow> int32_t \<times> BusinessError \<times> 'x Service" where
  "Impl_SetUpgradePolicy E policy businessError sv =
     (let w = sv_world sv;
          isAutoDownloadSwitchOn = ObtainBool E AUTO_DOWNLOAD_SWITCH False (w_ext w);
          w = (if isAutoDownloadSwitchOn \<noteq> upo_downloadStrategy policy
               then DoAutoDownloadSwitchChanged E (upo_downloadStrategy policy) w else w)
      in (INT_CALL_SUCCESS, businessError\<lparr>be_errorNum := CallResult.SUCCESS\<rparr>, sv\<lparr>sv_world := w\<rparr>))"

definition NIGHT_UPGRADE_START_HOUR :: int32_t where
  "NIGHT_UPGRADE_START_HOUR = 2"

definition NIGHT_UPGRADE_END_HOUR :: int32_t where
  "NIGHT_UPGRADE_END_HOUR = 4"

definition ONE_HOUR_MINUTES :: int32_t where
  "ONE_HOUR_MINUTES = 60"

definition Impl_GetUpgradePolicy ::
  "'x Platform \<Rightarrow> UpgradePolicy \<Rightarrow> BusinessError \<Rightarrow> 'x World \<Rightarrow> int32_t \<times> UpgradePolicy \<times> BusinessError" where
  "Impl_GetUpgradePolicy E policy businessError w =
     (INT_CALL_SUCCESS,
      policy\<lparr>upo_downloadStrategy := ObtainBool E AUTO_DOWNLOAD_SWITCH False (w_ext w),
        upo_autoUpgradePeriods :=
          (\<lparr>up_start = ONE_HOUR_MINUTES * NIGHT_UPGRADE_START_HOUR, up_end = ONE_HOUR_MINUTES * NIGHT_UPGRADE_END_HOUR\<rparr>,
           snd (upo_autoUpgradePeriods policy))\<rparr>,
      businessError)"

definition Impl_Cancel ::
  "'x Platform \<Rightarrow> int32_t \<Rightarrow> BusinessError \<Rightarrow> 'x Service \<Rightarrow> int32_t \<times> BusinessError \<times> 'x Service" where
  "Impl_Cancel E service businessError sv =
     (let businessError = businessError\<lparr>be_errorNum := CallResult.SUCCESS\<rparr>;
          task = QueryTask E FirmwareTask_default (sv_world sv)
      in if ft_status task \<noteq> UpgradeStatus.DOWNLOADING \<and> ft_status task \<noteq> UpgradeStatus.DOWNLOAD_PAUSE
         then (INT_CALL_SUCCESS, Build CallResult.FAIL ''Cancel download error'' businessError, sv)
         else let (be, w) = DoCancelDownload E businessError (sv_world sv)
              in (INT_CALL_SUCCESS, be, sv\<lparr>sv_world := w\<rparr>))"

section \<open>Local updater and restorer\<close>

definition LocalUpdater_ApplyNewVersion ::
  "'x UpdaterKits \<Rightarrow> string \<Rightarrow> string \<Rightarrow> BusinessError \<Rightarrow> 'x \<Rightarrow> int32_t \<times> BusinessError \<times> 'x" where
  "LocalUpdater_ApplyNewVersion K miscFile packageName businessError x =
     (let (rebooting, x) = uk_RebootAndInstallSdcardPackage K miscFile [packageName] x
      in (if rebooting then INT_CALL_SUCCESS else INT_CALL_FAIL, businessError\<lparr>be_errorNum := CallResult.SUCCESS\<rparr>, x))"

definition LocalUpdater_VerifyUpgradePackage ::
  "'x UpdaterKits \<Rightarrow> string \<Rightarrow> string \<Rightarrow> BusinessError \<Rightarrow> 'x \<Rightarrow> int32_t \<times> BusinessError" where
  "LocalUpdater_VerifyUpgradePackage K packagePath keyPath businessError x =
     (if uk_VerifyPackageWithCallback K packagePath keyPath x = 0 then INT_CALL_SUCCESS else INT_CALL_FAIL,
      businessError\<lparr>be_errorNum := CallResult.SUCCESS\<rparr>)"

definition MISC_PATH :: string where
  "MISC_PATH = ''/misc''"

definition MISC_FILE :: string where
  "MISC_FILE = ''/dev/block/by-name/misc''"

definition CMD_WIPE_DATA :: string where
  "CMD_WIPE_DATA = ''--user_wipe_data''"

definition Restorer_FactoryReset ::
  "'x UpdaterKits \<Rightarrow> BusinessError \<Rightarrow> 'x \<Rightarrow> int32_t \<times> BusinessError \<times> 'x" where
  "Restorer_FactoryReset K businessError x =
     (let miscBlockDev = uk_GetBlockDeviceByMountPoint K MISC_PATH x;
          miscBlockDev = (if miscBlockDev = [] then MISC_FILE else miscBlockDev);
          (rebooting, x) = uk_RebootAndCleanUserData K miscBlockDev CMD_WIPE_DATA x
      in (if rebooting then INT_CALL_SUCCESS else INT_CALL_FAIL, businessError\<lparr>be_errorNum := CallResult.SUCCESS\<rparr>, x))"

section \<open>The service\<close>

definition GetOnlineUpdater :: "UpgradeInfo \<Rightarrow> 'x Service \<Rightarrow> IServiceOnlineUpdater option \<times> 'x Service" where
  "GetOnlineUpdater info sv =
     (case om_find UpgradeInfo_less info (sv_updateImpMap sv) of
        Some updater \<Rightarrow> (Some updater, sv)
      | None \<Rightarrow>
          (if subType (businessType info) = BusinessSubType.FIRMWARE
           then (Some UpdateServiceImplFirmware,
                 sv\<lparr>sv_updateImpMap := om_insert UpgradeInfo_less info UpdateServiceImplFirmware (sv_updateImpMap sv)\<rparr>)
           else (None, sv)))"

text \<open>
  The frame of every online operation: without an updater the call fails and what it would
  fill keeps its value. The second form is for the operations that only read the state.
\<close>

definition online ::
  "UpgradeInfo \<Rightarrow> 'r \<Rightarrow> ('x Service \<Rightarrow> (int32_t \<times> 'r \<times> 'x Service) option) \<Rightarrow> 'x Service \<Rightarrow> (int32_t \<times> 'r \<times> 'x Service) option" where
  "online info out call sv =
     (case GetOnlineUpdater info sv of
        (None, sv) \<Rightarrow> Some (INT_CALL_FAIL, out, sv)
      | (Some UpdateServiceImplFirmware, sv) \<Rightarrow> call sv)"

definition reading ::
  "('x World \<Rightarrow> int32_t \<times> 'r \<times> BusinessError) \<Rightarrow> 'x Service \<Rightarrow> (int32_t \<times> ('r \<times> BusinessError) \<times> 'x Service) option" where
  "reading call sv = (let (ret, out, be) = call (sv_world sv) in Some (ret, (out, be), sv))"

definition UpdateService_GetNewVersionInfo ::
  "'x Platform \<Rightarrow> UpgradeInfo \<Rightarrow> NewVersionInfo \<Rightarrow> BusinessError \<Rightarrow> 'x Service \<Rightarrow>
   (int32_t \<times> (NewVersionInfo \<times> BusinessError) \<times> 'x Service) option" where
  "UpdateService_GetNewVersionInfo E info newVersionInfo businessError =
     online info (newVersionInfo, businessError) (reading (Impl_GetNewVersionInfo E newVersionInfo businessError))"

definition UpdateService_GetNewVersionDescription ::
  "'x Platform \<Rightarrow> UpgradeInfo \<Rightarrow> VersionDigestInfo \<Rightarrow> DescriptionOptions \<Rightarrow> VersionDescriptionInfo \<Rightarrow> BusinessError \<Rightarrow>
   'x Service \<Rightarrow> (int32_t \<times> (VersionDescriptionInfo \<times> BusinessError) \<times> 'x Service) option" where
  "UpdateService_GetNewVersionDescription E info versionDigestInfo descriptionOptions newVersionDescriptionInfo businessError =
     online info (newVersionDescriptionInfo, businessError)
       (reading (Impl_GetNewVersionDescription E descriptionOptions newVersionDescriptionInfo businessError))"

definition UpdateService_GetCurrentVersionInfo ::
  "'x Platform \<Rightarrow> UpgradeInfo \<Rightarrow> CurrentVersionInfo \<Rightarrow> BusinessError \<Rightarrow> 'x Service \<Rightarrow>
   (int32_t \<times> (CurrentVersionInfo \<times> BusinessError) \<times> 'x Service) option" where
  "UpdateService_GetCurrentVersionInfo E info currentVersionInfo businessError =
     online info (currentVersionInfo, businessError) (reading (Impl_GetCurrentVersionInfo E currentVersionInfo businessError))"

definition UpdateService_GetCurrentVersionDescription ::
  "'x Platform \<Rightarrow> UpgradeInfo \<Rightarrow> DescriptionOptions \<Rightarrow> VersionDescriptionInfo \<Rightarrow> BusinessError \<Rightarrow> 'x Service \<Rightarrow>
   (int32_t \<times> (VersionDescriptionInfo \<times> BusinessError) \<times> 'x Service) option" where
  "UpdateService_GetCurrentVersionDescription E info descriptionOptions currentVersionDescriptionInfo businessError =
     online info (currentVersionDescriptionInfo, businessError)
       (reading (Impl_GetCurrentVersionDescription E descriptionOptions currentVersionDescriptionInfo businessError))"

definition UpdateService_GetTaskInfo ::
  "'x Platform \<Rightarrow> UpgradeInfo \<Rightarrow> TaskInfo \<Rightarrow> BusinessError \<Rightarrow> 'x Service \<Rightarrow>
   (int32_t \<times> (TaskInfo \<times> BusinessError) \<times> 'x Service) option" where
  "UpdateService_GetTaskInfo E info taskInfo businessError =
     online info (taskInfo, businessError) (reading (Impl_GetTaskInfo E taskInfo businessError))"

definition UpdateService_SetUpgradePolicy ::
  "'x Platform \<Rightarrow> UpgradeInfo \<Rightarrow> UpgradePolicy \<Rightarrow> BusinessError \<Rightarrow> 'x Service \<Rightarrow> (int32_t \<times> BusinessError \<times> 'x Service) option" where
  "UpdateService_SetUpgradePolicy E info policy businessError =
     online info businessError (\<lambda>sv. Some (Impl_SetUpgradePolicy E policy businessError sv))"

definition UpdateService_GetUpgradePolicy ::
  "'x Platform \<Rightarrow> UpgradeInfo \<Rightarrow> UpgradePolicy \<Rightarrow> BusinessError \<Rightarrow> 'x Service \<Rightarrow>
   (int32_t \<times> (UpgradePolicy \<times> BusinessError) \<times> 'x Service) option" where
  "UpdateService_GetUpgradePolicy E info policy businessError =
     online info (policy, businessError) (reading (Impl_GetUpgradePolicy E policy businessError))"

definition UpdateService_CheckNewVersion ::
  "'x Platform \<Rightarrow> UpgradeInfo \<Rightarrow> 'x Service \<Rightarrow> (int32_t \<times> unit \<times> 'x Service) option" where
  "UpdateService_CheckNewVersion E info = online info () (Impl_CheckNewVersion E)"

definition UpdateService_Download ::
  "'x Platform \<Rightarrow> UpgradeInfo \<Rightarrow> VersionDigestInfo \<Rightarrow> DownloadOptions \<Rightarrow> BusinessError \<Rightarrow> 'x Service \<Rightarrow>
   (int32_t \<times> BusinessError \<times> 'x Service) option" where
  "UpdateService_Download E info versionDigestInfo downloadOptions businessError =
     online info businessError (Impl_Download E downloadOptions businessError)"

definition UpdateService_PauseDownload ::
  "UpgradeInfo \<Rightarrow> VersionDigestInfo \<Rightarrow> PauseDownloadOptions \<Rightarrow> BusinessError \<Rightarrow> 'x Service \<Rightarrow>
   (int32_t \<times> BusinessError \<times> 'x Service) option" where
  "UpdateService_PauseDownload info versionDigestInfo pauseDownloadOptions businessError sv =
     Some (INT_CALL_SUCCESS,
       Build CallResult.UN_SUPPORT ''PauseDownload unsupport'' (businessError\<lparr>be_errorNum := CallResult.SUCCESS\<rparr>), sv)"

definition UpdateService_ResumeDownload ::
  "UpgradeInfo \<Rightarrow> VersionDigestInfo \<Rightarrow> ResumeDownloadOptions \<Rightarrow> BusinessError \<Rightarrow> 'x Service \<Rightarrow>
   (int32_t \<times> BusinessError \<times> 'x Service) option" where
  "UpdateService_ResumeDownload info versionDigestInfo resumeDownloadOptions businessError sv =
     Some (INT_CALL_SUCCESS, Build CallResult.UN_SUPPORT ''ResumeDownload unsupport'' businessError, sv)"

definition UpdateService_Upgrade ::
  "'x Platform \<Rightarrow> UpgradeInfo \<Rightarrow> VersionDigestInfo \<Rightarrow> UpgradeOptions \<Rightarrow> BusinessError \<Rightarrow> 'x Service \<Rightarrow>
   (int32_t \<times> BusinessError \<times> 'x Service) option" where
  "UpdateService_Upgrade E info versionDigestInfo upgradeOptions businessError =
     online info businessError (Impl_Upgrade E upgradeOptions businessError)"

definition UpdateService_ClearError ::
  "'x Platform \<Rightarrow> UpgradeInfo \<Rightarrow> VersionDigestInfo \<Rightarrow> ClearOptions \<Rightarrow> BusinessError \<Rightarrow> 'x Service \<Rightarrow>
   (int32_t \<times> BusinessError \<times> 'x Service) option" where
  "UpdateService_ClearError E info versionDigestInfo clearOptions businessError =
     online info businessError (\<lambda>sv. Some (Impl_ClearError E businessError sv))"

definition UpdateService_TerminateUpgrade ::
  "'x Platform \<Rightarrow> 'x UpdaterKits \<Rightarrow> UpgradeInfo \<Rightarrow> BusinessError \<Rightarrow> 'x Service \<Rightarrow> (int32_t \<times> BusinessError \<times> 'x Service) option" where
  "UpdateService_TerminateUpgrade E K info businessError =
     online info businessError (\<lambda>sv. Some (Impl_TerminateUpgrade E (uk_timer K) businessError sv))"

definition UpdateService_Cancel ::
  "'x Platform \<Rightarrow> UpgradeInfo \<Rightarrow> int32_t \<Rightarrow> BusinessError \<Rightarrow> 'x Service \<Rightarrow> (int32_t \<times> BusinessError \<times> 'x Service) option" where
  "UpdateService_Cancel E info service businessError =
     online info businessError (\<lambda>sv. Some (Impl_Cancel E service businessError sv))"

definition UpdateService_FactoryReset ::
  "'x UpdaterKits \<Rightarrow> BusinessError \<Rightarrow> 'x Service \<Rightarrow> (int32_t \<times> BusinessError \<times> 'x Service) option" where
  "UpdateService_FactoryReset K businessError sv =
     (let w = sv_world sv; (ret, be, x) = Restorer_FactoryReset K businessError (w_ext w)
      in Some (ret, be, sv\<lparr>sv_world := w\<lparr>w_ext := x\<rparr>\<rparr>))"

definition UpdateService_ApplyNewVersion ::
  "'x UpdaterKits \<Rightarrow> UpgradeInfo \<Rightarrow> string \<Rightarrow> string \<Rightarrow> BusinessError \<Rightarrow> 'x Service \<Rightarrow>
   (int32_t \<times> BusinessError \<times> 'x Service) option" where
  "UpdateService_ApplyNewVersion K info miscFile packageName businessError sv =
     (let w = sv_world sv; (ret, be, x) = LocalUpdater_ApplyNewVersion K miscFile packageName businessError (w_ext w)
      in Some (ret, be, sv\<lparr>sv_world := w\<lparr>w_ext := x\<rparr>\<rparr>))"

definition UpdateService_VerifyUpgradePackage ::
  "'x UpdaterKits \<Rightarrow> string \<Rightarrow> string \<Rightarrow> BusinessError \<Rightarrow> 'x Service \<Rightarrow> (int32_t \<times> BusinessError \<times> 'x Service) option" where
  "UpdateService_VerifyUpgradePackage K packagePath keyPath businessError sv =
     (let (ret, be) = LocalUpdater_VerifyUpgradePackage K packagePath keyPath businessError (w_ext (sv_world sv))
      in Some (ret, be, sv))"

definition UpdateService_RegisterUpdateCallback ::
  "UpgradeInfo \<Rightarrow> Callback option \<Rightarrow> 'x Service \<Rightarrow> (int32_t \<times> unit \<times> 'x Service) option" where
  "UpdateService_RegisterUpdateCallback info updateCallback sv =
     Some (INT_CALL_SUCCESS, (), sv\<lparr>sv_world := RegisterUpdateCallback info updateCallback (sv_world sv)\<rparr>)"

definition UpdateService_UnregisterUpdateCallback ::
  "UpgradeInfo \<Rightarrow> 'x Service \<Rightarrow> (int32_t \<times> unit \<times> 'x Service) option" where
  "UpdateService_UnregisterUpdateCallback info sv =
     Some (INT_CALL_SUCCESS, (), sv\<lparr>sv_world := UnregisterUpdateCallback info (sv_world sv)\<rparr>)"

section \<open>Requests the service refuses\<close>

text \<open>The status of the task row the queries read, \<open>INIT\<close> without a row.\<close>

definition stored_status :: "('x \<Rightarrow> string \<Rightarrow> ValuesBucket list) \<Rightarrow> 'x World \<Rightarrow> UpgradeStatus" where
  "stored_status rows w = (case w_tasks rows w of [] \<Rightarrow> UpgradeStatus.INIT | t # _ \<Rightarrow> ft_status t)"

text \<open>The service state with another map of updaters, which is all a refused request may touch.\<close>

definition with_updaters :: "'x Service \<Rightarrow> 'x Service \<Rightarrow> bool" where
  "with_updaters sv sv' \<longleftrightarrow> sv'\<lparr>sv_updateImpMap := sv_updateImpMap sv\<rparr> = sv"

lemma GetOnlineUpdater_cases:
  "GetOnlineUpdater info sv = (None, sv) \<and> subType (businessType info) \<noteq> BusinessSubType.FIRMWARE \<or>
   (\<exists>sv'. GetOnlineUpdater info sv = (Some UpdateServiceImplFirmware, sv') \<and> with_updaters sv sv')"
proof (cases "om_find UpgradeInfo_less info (sv_updateImpMap sv)")
  case None
  then show ?thesis by (simp add: GetOnlineUpdater_def with_updaters_def)
next
  case (Some u)
  then show ?thesis by (cases u) (simp add: GetOnlineUpdater_def with_updaters_def)
qed

lemma online_firmware:
  assumes "subType (businessType info) = BusinessSubType.FIRMWARE"
  shows "\<exists>sv'. with_updaters sv sv' \<and> online info out call sv = call sv'"
  using GetOnlineUpdater_cases [of info sv] assms by (auto simp: online_def)

lemma with_updaters_world:
  "with_updaters sv sv' \<Longrightarrow> sv_world sv' = sv_world sv \<and> sv_flows sv' = sv_flows sv \<and> sv_exiting sv' = sv_exiting sv"
  by (cases sv, cases sv') (simp add: with_updaters_def)

context platform
begin

lemma query_status: "ft_status (QueryTask E FirmwareTask_default w) = stored_status rows w"
  by (simp add: fw.task_query stored_status_def FirmwareTask_default_def split: list.split)

lemma query_exists: "ft_isExistTask (QueryTask E FirmwareTask_default w) \<longleftrightarrow> w_tasks rows w \<noteq> []"
  by (rule fw.task_exists)

end


definition stored_service :: "FirmwareTask \<Rightarrow> FirmwareComponent list \<Rightarrow> MemDevice Service" where
  "stored_service t cs = (Service_new (stored_device t cs))\<lparr>sv_world := stored_world t cs\<rparr>"


end
