(* ===== verification/Service_Stub.thy ===== *)
theory Service_Stub
  imports Update_Service
begin

text \<open>
  The interface \<open>IUpdateService\<close> and the server side of it (\<open>update_service_stub.cpp\<close>): who may
  call, and how a request parcel becomes a call and its result a reply parcel. The parcel, the
  token of the caller and the base class are parameters.
\<close>

section \<open>The interface\<close>

text \<open>
  An object that implements \<open>IUpdateService\<close>, as the table of its functions. A function gets the
  structs the caller passes by reference and returns the code of the call, their new values and
  the new state.
\<close>

record 's IUpdateService =
  ius_CheckNewVersion :: "UpgradeInfo \<Rightarrow> 's \<Rightarrow> (int32_t \<times> unit \<times> 's) option"
  ius_Download :: "UpgradeInfo \<Rightarrow> VersionDigestInfo \<Rightarrow> DownloadOptions \<Rightarrow> BusinessError \<Rightarrow> 's \<Rightarrow> (int32_t \<times> BusinessError \<times> 's) option"
  ius_PauseDownload :: "UpgradeInfo \<Rightarrow> VersionDigestInfo \<Rightarrow> PauseDownloadOptions \<Rightarrow> BusinessError \<Rightarrow> 's \<Rightarrow> (int32_t \<times> BusinessError \<times> 's) option"
  ius_ResumeDownload :: "UpgradeInfo \<Rightarrow> VersionDigestInfo \<Rightarrow> ResumeDownloadOptions \<Rightarrow> BusinessError \<Rightarrow> 's \<Rightarrow> (int32_t \<times> BusinessError \<times> 's) option"
  ius_Upgrade :: "UpgradeInfo \<Rightarrow> VersionDigestInfo \<Rightarrow> UpgradeOptions \<Rightarrow> BusinessError \<Rightarrow> 's \<Rightarrow> (int32_t \<times> BusinessError \<times> 's) option"
  ius_ClearError :: "UpgradeInfo \<Rightarrow> VersionDigestInfo \<Rightarrow> ClearOptions \<Rightarrow> BusinessError \<Rightarrow> 's \<Rightarrow> (int32_t \<times> BusinessError \<times> 's) option"
  ius_TerminateUpgrade :: "UpgradeInfo \<Rightarrow> BusinessError \<Rightarrow> 's \<Rightarrow> (int32_t \<times> BusinessError \<times> 's) option"
  ius_GetNewVersionInfo :: "UpgradeInfo \<Rightarrow> NewVersionInfo \<Rightarrow> BusinessError \<Rightarrow> 's \<Rightarrow> (int32_t \<times> (NewVersionInfo \<times> BusinessError) \<times> 's) option"
  ius_GetNewVersionDescription :: "UpgradeInfo \<Rightarrow> VersionDigestInfo \<Rightarrow> DescriptionOptions \<Rightarrow> VersionDescriptionInfo \<Rightarrow> BusinessError \<Rightarrow> 's \<Rightarrow> (int32_t \<times> (VersionDescriptionInfo \<times> BusinessError) \<times> 's) option"
  ius_GetCurrentVersionInfo :: "UpgradeInfo \<Rightarrow> CurrentVersionInfo \<Rightarrow> BusinessError \<Rightarrow> 's \<Rightarrow> (int32_t \<times> (CurrentVersionInfo \<times> BusinessError) \<times> 's) option"
  ius_GetCurrentVersionDescription :: "UpgradeInfo \<Rightarrow> DescriptionOptions \<Rightarrow> VersionDescriptionInfo \<Rightarrow> BusinessError \<Rightarrow> 's \<Rightarrow> (int32_t \<times> (VersionDescriptionInfo \<times> BusinessError) \<times> 's) option"
  ius_GetTaskInfo :: "UpgradeInfo \<Rightarrow> TaskInfo \<Rightarrow> BusinessError \<Rightarrow> 's \<Rightarrow> (int32_t \<times> (TaskInfo \<times> BusinessError) \<times> 's) option"
  ius_SetUpgradePolicy :: "UpgradeInfo \<Rightarrow> UpgradePolicy \<Rightarrow> BusinessError \<Rightarrow> 's \<Rightarrow> (int32_t \<times> BusinessError \<times> 's) option"
  ius_GetUpgradePolicy :: "UpgradeInfo \<Rightarrow> UpgradePolicy \<Rightarrow> BusinessError \<Rightarrow> 's \<Rightarrow> (int32_t \<times> (UpgradePolicy \<times> BusinessError) \<times> 's) option"
  ius_Cancel :: "UpgradeInfo \<Rightarrow> int32_t \<Rightarrow> BusinessError \<Rightarrow> 's \<Rightarrow> (int32_t \<times> BusinessError \<times> 's) option"
  ius_FactoryReset :: "BusinessError \<Rightarrow> 's \<Rightarrow> (int32_t \<times> BusinessError \<times> 's) option"
  ius_ApplyNewVersion :: "UpgradeInfo \<Rightarrow> string \<Rightarrow> string \<Rightarrow> BusinessError \<Rightarrow> 's \<Rightarrow> (int32_t \<times> BusinessError \<times> 's) option"
  ius_VerifyUpgradePackage :: "string \<Rightarrow> string \<Rightarrow> BusinessError \<Rightarrow> 's \<Rightarrow> (int32_t \<times> BusinessError \<times> 's) option"
  ius_RegisterUpdateCallback :: "UpgradeInfo \<Rightarrow> Callback option \<Rightarrow> 's \<Rightarrow> (int32_t \<times> unit \<times> 's) option"
  ius_UnregisterUpdateCallback :: "UpgradeInfo \<Rightarrow> 's \<Rightarrow> (int32_t \<times> unit \<times> 's) option"

definition UpdateService :: "'x Platform \<Rightarrow> 'x UpdaterKits \<Rightarrow> 'x Service IUpdateService" where
  "UpdateService E K =
     \<lparr>ius_CheckNewVersion = UpdateService_CheckNewVersion E,
      ius_Download = UpdateService_Download E,
      ius_PauseDownload = UpdateService_PauseDownload,
      ius_ResumeDownload = UpdateService_ResumeDownload,
      ius_Upgrade = UpdateService_Upgrade E,
      ius_ClearError = UpdateService_ClearError E,
      ius_TerminateUpgrade = UpdateService_TerminateUpgrade E K,
      ius_GetNewVersionInfo = UpdateService_GetNewVersionInfo E,
      ius_GetNewVersionDescription = UpdateService_GetNewVersionDescription E,
      ius_GetCurrentVersionInfo = UpdateService_GetCurrentVersionInfo E,
      ius_GetCurrentVersionDescription = UpdateService_GetCurrentVersionDescription E,
      ius_GetTaskInfo = UpdateService_GetTaskInfo E,
      ius_SetUpgradePolicy = UpdateService_SetUpgradePolicy E,
      ius_GetUpgradePolicy = UpdateService_GetUpgradePolicy E,
      ius_Cancel = UpdateService_Cancel E,
      ius_FactoryReset = UpdateService_FactoryReset K,
      ius_ApplyNewVersion = UpdateService_ApplyNewVersion K,
      ius_VerifyUpgradePackage = UpdateService_VerifyUpgradePackage K,
      ius_RegisterUpdateCallback = UpdateService_RegisterUpdateCallback,
      ius_UnregisterUpdateCallback = UpdateService_UnregisterUpdateCallback\<rparr>"

section \<open>Parcels, tokens and callers\<close>

text \<open>
  \<open>ip_empty\<close> is a new parcel; \<open>ip_base_OnRemoteRequest\<close> is \<open>IPCObjectStub::OnRemoteRequest\<close>, which
  answers the codes the stub does not know.
\<close>

record 'p Ipc =
  ip_parcel :: "'p MessageParcel"
  ip_empty :: 'p
  ip_WriteInterfaceToken :: "string \<Rightarrow> 'p \<Rightarrow> bool \<times> 'p"
  ip_ReadInterfaceToken :: "'p \<Rightarrow> string \<times> 'p"
  ip_WriteRemoteObject :: "Callback \<Rightarrow> 'p \<Rightarrow> bool \<times> 'p"
  ip_ReadRemoteObject :: "'p \<Rightarrow> Callback option \<times> 'p"
  ip_base_OnRemoteRequest :: "uint32_t \<Rightarrow> 'p \<Rightarrow> 'p \<Rightarrow> int32_t \<times> 'p"

datatype ATokenTypeEnum = TOKEN_HAP | TOKEN_NATIVE | TOKEN_OTHER

record Caller =
  ca_tokenType :: ATokenTypeEnum
  ca_isSystemApp :: bool
  ca_uid :: int32_t
  ca_granted :: "string \<Rightarrow> bool"

datatype UpdaterSaInterfaceCode =
    CHECK_VERSION | DOWNLOAD | PAUSE_DOWNLOAD | RESUME_DOWNLOAD | UPGRADE | CLEAR_ERROR | TERMINATE_UPGRADE | SET_POLICY
  | GET_POLICY | GET_NEW_VERSION | GET_NEW_VERSION_DESCRIPTION | GET_CURRENT_VERSION | GET_CURRENT_VERSION_DESCRIPTION
  | GET_TASK_INFO | REGISTER_CALLBACK | UNREGISTER_CALLBACK | CANCEL | FACTORY_RESET | APPLY_NEW_VERSION
  | VERIFY_UPGRADE_PACKAGE

fun UpdaterSaInterfaceCode_code :: "UpdaterSaInterfaceCode \<Rightarrow> uint32_t" where
  "UpdaterSaInterfaceCode_code CHECK_VERSION = 1"
| "UpdaterSaInterfaceCode_code UpdaterSaInterfaceCode.DOWNLOAD = 2"
| "UpdaterSaInterfaceCode_code PAUSE_DOWNLOAD = 3"
| "UpdaterSaInterfaceCode_code RESUME_DOWNLOAD = 4"
| "UpdaterSaInterfaceCode_code UPGRADE = 5"
| "UpdaterSaInterfaceCode_code CLEAR_ERROR = 6"
| "UpdaterSaInterfaceCode_code TERMINATE_UPGRADE = 7"
| "UpdaterSaInterfaceCode_code SET_POLICY = 8"
| "UpdaterSaInterfaceCode_code GET_POLICY = 9"
| "UpdaterSaInterfaceCode_code GET_NEW_VERSION = 10"
| "UpdaterSaInterfaceCode_code GET_NEW_VERSION_DESCRIPTION = 11"
| "UpdaterSaInterfaceCode_code GET_CURRENT_VERSION = 12"
| "UpdaterSaInterfaceCode_code GET_CURRENT_VERSION_DESCRIPTION = 13"
| "UpdaterSaInterfaceCode_code GET_TASK_INFO = 14"
| "UpdaterSaInterfaceCode_code REGISTER_CALLBACK = 15"
| "UpdaterSaInterfaceCode_code UNREGISTER_CALLBACK = 16"
| "UpdaterSaInterfaceCode_code CANCEL = 17"
| "UpdaterSaInterfaceCode_code FACTORY_RESET = 18"
| "UpdaterSaInterfaceCode_code APPLY_NEW_VERSION = 19"
| "UpdaterSaInterfaceCode_code VERIFY_UPGRADE_PACKAGE = 20"

definition INT_CALL_IPC_ERR :: int32_t where
  "INT_CALL_IPC_ERR = CallResult_code CallResult.IPC_ERR"

definition INT_APP_NOT_GRANTED :: int32_t where
  "INT_APP_NOT_GRANTED = CallResult_code CallResult.APP_NOT_GRANTED"

definition INT_NOT_SYSTEM_APP :: int32_t where
  "INT_NOT_SYSTEM_APP = CallResult_code CallResult.NOT_SYSTEM_APP"

definition INT_PARAM_ERR :: int32_t where
  "INT_PARAM_ERR = CallResult_code CallResult.PARAM_ERR"

definition CALL_RESULT_OFFSET :: int32_t where
  "CALL_RESULT_OFFSET = 2000"

definition CALL_RESULT_TO_IPC_RESULT :: "int32_t \<Rightarrow> int32_t" where
  "CALL_RESULT_TO_IPC_RESULT callResult = callResult + CALL_RESULT_OFFSET"

definition IUpdateService_descriptor :: string where
  "IUpdateService_descriptor = ''OHOS.Updater.IUpdateService''"

definition ROOT_UID :: int32_t where
  "ROOT_UID = 0"

definition EDM_UID :: int32_t where
  "EDM_UID = 3057"

text \<open>The structs the handlers declare before they read the request.\<close>

definition VersionDigestInfo_default :: VersionDigestInfo where
  "VersionDigestInfo_default = \<lparr>vd_versionDigest = []\<rparr>"

definition DescriptionOptions_default :: DescriptionOptions where
  "DescriptionOptions_default = \<lparr>do_format = DescriptionFormat.STANDARD, do_language = []\<rparr>"

definition DownloadOptions_default :: DownloadOptions where
  "DownloadOptions_default = \<lparr>dl_allowNetwork = NetType.WIFI, dl_order = Order.DOWNLOAD\<rparr>"

definition ResumeDownloadOptions_default :: ResumeDownloadOptions where
  "ResumeDownloadOptions_default = \<lparr>rd_allowNetwork = NetType.WIFI\<rparr>"

definition PauseDownloadOptions_default :: PauseDownloadOptions where
  "PauseDownloadOptions_default = \<lparr>pd_isAllowAutoResume = False\<rparr>"

definition UpgradeOptions_default :: UpgradeOptions where
  "UpgradeOptions_default = \<lparr>uo_order = Order.INSTALL\<rparr>"

definition ClearOptions_default :: ClearOptions where
  "ClearOptions_default = \<lparr>co_status = UpgradeStatus.INIT\<rparr>"

definition CurrentVersionInfo_default :: CurrentVersionInfo where
  "CurrentVersionInfo_default = \<lparr>cv_osVersion = [], cv_deviceName = [], cv_versionComponents = []\<rparr>"

definition VersionDescriptionInfo_default :: VersionDescriptionInfo where
  "VersionDescriptionInfo_default = \<lparr>vi_componentDescriptions = []\<rparr>"

definition TaskInfo_default :: TaskInfo where
  "TaskInfo_default = \<lparr>ti_existTask = False, ti_taskBody = TaskBody_default\<rparr>"

definition UpgradePolicy_default :: UpgradePolicy where
  "UpgradePolicy_default =
     \<lparr>upo_downloadStrategy = False, upo_autoUpgradeStrategy = False,
      upo_autoUpgradePeriods = (\<lparr>up_start = 0, up_end = 0\<rparr>, \<lparr>up_start = 0, up_end = 0\<rparr>)\<rparr>"

section \<open>The handlers\<close>

type_synonym ('p, 's) StubFunc =
  "'s IUpdateService option \<Rightarrow> 'p \<Rightarrow> 'p \<Rightarrow> 's \<Rightarrow> (int32_t \<times> 'p \<times> 's) option"

text \<open>
  The end of a handler: a call that fails leaves the reply empty. The handlers that write no
  reply return the code of the call.
\<close>

definition stub_answer ::
  "('out \<Rightarrow> 'p \<Rightarrow> 'p) \<Rightarrow> 'p \<Rightarrow> (int32_t \<times> 'out \<times> 's) option \<Rightarrow> (int32_t \<times> 'p \<times> 's) option" where
  "stub_answer wr reply =
     map_option (\<lambda>(ret, out, s). if ret \<noteq> INT_CALL_SUCCESS then (ret, reply, s)
                                 else (INT_CALL_SUCCESS, wr out reply, s))"

definition stub_result :: "'p \<Rightarrow> (int32_t \<times> unit \<times> 's) option \<Rightarrow> (int32_t \<times> 'p \<times> 's) option" where
  "stub_result reply = map_option (\<lambda>(ret, _, s). (ret, reply, s))"

definition write_both ::
  "'p MessageParcel \<Rightarrow> ('p MessageParcel \<Rightarrow> 'out \<Rightarrow> 'p \<Rightarrow> 'p) \<Rightarrow> 'out \<times> BusinessError \<Rightarrow> 'p \<Rightarrow> 'p" where
  "write_both ops wr r reply = wr ops (fst r) (WriteBusinessError ops (snd r) reply)"

definition GetNewVersionStub :: "'p Ipc \<Rightarrow> ('p, 's) StubFunc" where
  "GetNewVersionStub I service data reply s =
     (case service of None \<Rightarrow> Some (INT_CALL_IPC_ERR, reply, s) | Some service \<Rightarrow>
         (let (_, upgradeInfo, data) = ReadUpgradeInfo (ip_parcel I) data UpgradeInfo_default
          in stub_answer (write_both (ip_parcel I) WriteNewVersionInfo) reply
               (ius_GetNewVersionInfo service upgradeInfo NewVersionInfo_default BusinessError_default s)))"

definition GetNewVersionDescriptionStub :: "'p Ipc \<Rightarrow> ('p, 's) StubFunc" where
  "GetNewVersionDescriptionStub I service data reply s =
     (case service of None \<Rightarrow> Some (INT_CALL_IPC_ERR, reply, s) | Some service \<Rightarrow>
         (let (_, upgradeInfo, data) = ReadUpgradeInfo (ip_parcel I) data UpgradeInfo_default;
              (_, versionDigestInfo, data) = ReadVersionDigestInfo (ip_parcel I) data VersionDigestInfo_default;
              (_, descriptionOptions, data) = ReadDescriptionOptions (ip_parcel I) data DescriptionOptions_default
          in stub_answer (write_both (ip_parcel I) WriteVersionDescriptionInfo) reply
               (ius_GetNewVersionDescription service upgradeInfo versionDigestInfo descriptionOptions
                  VersionDescriptionInfo_default BusinessError_default s)))"

definition GetCurrentVersionStub :: "'p Ipc \<Rightarrow> ('p, 's) StubFunc" where
  "GetCurrentVersionStub I service data reply s =
     (case service of None \<Rightarrow> Some (INT_CALL_IPC_ERR, reply, s) | Some service \<Rightarrow>
         (let (_, upgradeInfo, data) = ReadUpgradeInfo (ip_parcel I) data UpgradeInfo_default
          in stub_answer (write_both (ip_parcel I) WriteCurrentVersionInfo) reply
               (ius_GetCurrentVersionInfo service upgradeInfo CurrentVersionInfo_default BusinessError_default s)))"

definition GetCurrentVersionDescriptionStub :: "'p Ipc \<Rightarrow> ('p, 's) StubFunc" where
  "GetCurrentVersionDescriptionStub I service data reply s =
     (case service of None \<Rightarrow> Some (INT_CALL_IPC_ERR, reply, s) | Some service \<Rightarrow>
         (let (_, upgradeInfo, data) = ReadUpgradeInfo (ip_parcel I) data UpgradeInfo_default;
              (_, descriptionOptions, data) = ReadDescriptionOptions (ip_parcel I) data DescriptionOptions_default
          in stub_answer (write_both (ip_parcel I) WriteVersionDescriptionInfo) reply
               (ius_GetCurrentVersionDescription service upgradeInfo descriptionOptions
                  VersionDescriptionInfo_default BusinessError_default s)))"

definition GetTaskInfoStub :: "'p Ipc \<Rightarrow> ('p, 's) StubFunc" where
  "GetTaskInfoStub I service data reply s =
     (case service of None \<Rightarrow> Some (INT_CALL_IPC_ERR, reply, s) | Some service \<Rightarrow>
         (let (_, upgradeInfo, data) = ReadUpgradeInfo (ip_parcel I) data UpgradeInfo_default
          in stub_answer (write_both (ip_parcel I) WriteTaskInfo) reply
               (ius_GetTaskInfo service upgradeInfo TaskInfo_default BusinessError_default s)))"

definition CheckNewVersionStub :: "'p Ipc \<Rightarrow> ('p, 's) StubFunc" where
  "CheckNewVersionStub I service data reply s =
     (case service of None \<Rightarrow> Some (INT_CALL_IPC_ERR, reply, s) | Some service \<Rightarrow>
         (let (_, upgradeInfo, data) = ReadUpgradeInfo (ip_parcel I) data UpgradeInfo_default
          in stub_result reply (ius_CheckNewVersion service upgradeInfo s)))"

definition DownloadVersionStub :: "'p Ipc \<Rightarrow> ('p, 's) StubFunc" where
  "DownloadVersionStub I service data reply s =
     (case service of None \<Rightarrow> Some (INT_CALL_IPC_ERR, reply, s) | Some service \<Rightarrow>
         (let (_, upgradeInfo, data) = ReadUpgradeInfo (ip_parcel I) data UpgradeInfo_default;
              (_, versionDigestInfo, data) = ReadVersionDigestInfo (ip_parcel I) data VersionDigestInfo_default;
              (_, downloadOptions, data) = ReadDownloadOptions (ip_parcel I) data DownloadOptions_default
          in stub_answer (WriteBusinessError (ip_parcel I)) reply
               (ius_Download service upgradeInfo versionDigestInfo downloadOptions BusinessError_default s)))"

definition PauseDownloadStub :: "'p Ipc \<Rightarrow> ('p, 's) StubFunc" where
  "PauseDownloadStub I service data reply s =
     (case service of None \<Rightarrow> Some (INT_CALL_IPC_ERR, reply, s) | Some service \<Rightarrow>
         (let (_, upgradeInfo, data) = ReadUpgradeInfo (ip_parcel I) data UpgradeInfo_default;
              (_, versionDigestInfo, data) = ReadVersionDigestInfo (ip_parcel I) data VersionDigestInfo_default;
              (_, pauseDownloadOptions, data) = ReadPauseDownloadOptions (ip_parcel I) data PauseDownloadOptions_default
          in stub_answer (WriteBusinessError (ip_parcel I)) reply
               (ius_PauseDownload service upgradeInfo versionDigestInfo pauseDownloadOptions BusinessError_default s)))"

definition ResumeDownloadStub :: "'p Ipc \<Rightarrow> ('p, 's) StubFunc" where
  "ResumeDownloadStub I service data reply s =
     (case service of None \<Rightarrow> Some (INT_CALL_IPC_ERR, reply, s) | Some service \<Rightarrow>
         (let (_, upgradeInfo, data) = ReadUpgradeInfo (ip_parcel I) data UpgradeInfo_default;
              (_, versionDigestInfo, data) = ReadVersionDigestInfo (ip_parcel I) data VersionDigestInfo_default;
              (_, resumeDownloadOptions, data) = ReadResumeDownloadOptions (ip_parcel I) data ResumeDownloadOptions_default
          in stub_answer (WriteBusinessError (ip_parcel I)) reply
               (ius_ResumeDownload service upgradeInfo versionDigestInfo resumeDownloadOptions BusinessError_default s)))"

definition DoUpdateStub :: "'p Ipc \<Rightarrow> ('p, 's) StubFunc" where
  "DoUpdateStub I service data reply s =
     (case service of None \<Rightarrow> Some (INT_CALL_IPC_ERR, reply, s) | Some service \<Rightarrow>
         (let (_, upgradeInfo, data) = ReadUpgradeInfo (ip_parcel I) data UpgradeInfo_default;
              (_, versionDigestInfo, data) = ReadVersionDigestInfo (ip_parcel I) data VersionDigestInfo_default;
              (_, upgradeOptions, data) = ReadUpgradeOptions (ip_parcel I) data UpgradeOptions_default
          in stub_answer (WriteBusinessError (ip_parcel I)) reply
               (ius_Upgrade service upgradeInfo versionDigestInfo upgradeOptions BusinessError_default s)))"

definition ClearErrorStub :: "'p Ipc \<Rightarrow> ('p, 's) StubFunc" where
  "ClearErrorStub I service data reply s =
     (case service of None \<Rightarrow> Some (INT_CALL_IPC_ERR, reply, s) | Some service \<Rightarrow>
         (let (_, upgradeInfo, data) = ReadUpgradeInfo (ip_parcel I) data UpgradeInfo_default;
              (_, versionDigestInfo, data) = ReadVersionDigestInfo (ip_parcel I) data VersionDigestInfo_default;
              (_, clearOptions, data) = ReadClearOptions (ip_parcel I) data ClearOptions_default
          in stub_answer (WriteBusinessError (ip_parcel I)) reply
               (ius_ClearError service upgradeInfo versionDigestInfo clearOptions BusinessError_default s)))"

definition TerminateUpgradeStub :: "'p Ipc \<Rightarrow> ('p, 's) StubFunc" where
  "TerminateUpgradeStub I service data reply s =
     (case service of None \<Rightarrow> Some (INT_CALL_IPC_ERR, reply, s) | Some service \<Rightarrow>
         (let (_, upgradeInfo, data) = ReadUpgradeInfo (ip_parcel I) data UpgradeInfo_default
          in stub_answer (WriteBusinessError (ip_parcel I)) reply
               (ius_TerminateUpgrade service upgradeInfo BusinessError_default s)))"

definition SetUpgradePolicyStub :: "'p Ipc \<Rightarrow> ('p, 's) StubFunc" where
  "SetUpgradePolicyStub I service data reply s =
     (case service of None \<Rightarrow> Some (INT_CALL_IPC_ERR, reply, s) | Some service \<Rightarrow>
         (let (_, upgradeInfo, data) = ReadUpgradeInfo (ip_parcel I) data UpgradeInfo_default;
              (_, policy, data) = ReadUpgradePolicy (ip_parcel I) data UpgradePolicy_default
          in stub_answer (WriteBusinessError (ip_parcel I)) reply
               (ius_SetUpgradePolicy service upgradeInfo policy BusinessError_default s)))"

definition GetUpgradePolicyStub :: "'p Ipc \<Rightarrow> ('p, 's) StubFunc" where
  "GetUpgradePolicyStub I service data reply s =
     (case service of None \<Rightarrow> Some (INT_CALL_IPC_ERR, reply, s) | Some service \<Rightarrow>
         (let (_, upgradeInfo, data) = ReadUpgradeInfo (ip_parcel I) data UpgradeInfo_default
          in stub_answer (write_both (ip_parcel I) WriteUpgradePolicy) reply
               (ius_GetUpgradePolicy service upgradeInfo UpgradePolicy_default BusinessError_default s)))"

definition RegisterUpdateCallbackStub :: "'p Ipc \<Rightarrow> ('p, 's) StubFunc" where
  "RegisterUpdateCallbackStub I service data reply s =
     (case service of None \<Rightarrow> Some (INT_CALL_IPC_ERR, reply, s) | Some service \<Rightarrow>
         (let (_, upgradeInfo, data) = ReadUpgradeInfo (ip_parcel I) data UpgradeInfo_default;
              (remote, data) = ip_ReadRemoteObject I data
          in if remote = None then Some (INT_CALL_IPC_ERR, reply, s)
             else stub_result reply (ius_RegisterUpdateCallback service upgradeInfo remote s)))"

definition UnregisterUpdateCallbackStub :: "'p Ipc \<Rightarrow> ('p, 's) StubFunc" where
  "UnregisterUpdateCallbackStub I service data reply s =
     (case service of None \<Rightarrow> Some (INT_CALL_IPC_ERR, reply, s) | Some service \<Rightarrow>
         (let (_, upgradeInfo, data) = ReadUpgradeInfo (ip_parcel I) data UpgradeInfo_default
          in stub_result reply (ius_UnregisterUpdateCallback service upgradeInfo s)))"

definition CancelStub :: "'p Ipc \<Rightarrow> ('p, 's) StubFunc" where
  "CancelStub I service data reply s =
     (case service of None \<Rightarrow> Some (INT_CALL_IPC_ERR, reply, s) | Some service \<Rightarrow>
         (let (_, upgradeInfo, data) = ReadUpgradeInfo (ip_parcel I) data UpgradeInfo_default;
              (n, data) = pc_ReadInt32 (ip_parcel I) data
          in stub_answer (WriteBusinessError (ip_parcel I)) reply
               (ius_Cancel service upgradeInfo n BusinessError_default s)))"

definition FactoryResetStub :: "'p Ipc \<Rightarrow> ('p, 's) StubFunc" where
  "FactoryResetStub I service data reply s =
     (case service of None \<Rightarrow> Some (INT_CALL_IPC_ERR, reply, s) | Some service \<Rightarrow>
         (stub_answer (WriteBusinessError (ip_parcel I)) reply (ius_FactoryReset service BusinessError_default s)))"

definition ApplyNewVersionStub :: "'p Ipc \<Rightarrow> ('p, 's) StubFunc" where
  "ApplyNewVersionStub I service data reply s =
     (case service of None \<Rightarrow> Some (INT_CALL_IPC_ERR, reply, s) | Some service \<Rightarrow>
         (let (_, upgradeInfo, data) = ReadUpgradeInfo (ip_parcel I) data UpgradeInfo_default;
              (miscFile, data) = ReadStr (ip_parcel I) data;
              (packageName, data) = ReadStr (ip_parcel I) data
          in stub_answer (WriteBusinessError (ip_parcel I)) reply
               (ius_ApplyNewVersion service upgradeInfo miscFile packageName BusinessError_default s)))"

definition VerifyUpgradePackageStub :: "'p Ipc \<Rightarrow> ('p, 's) StubFunc" where
  "VerifyUpgradePackageStub I service data reply s =
     (case service of None \<Rightarrow> Some (INT_CALL_IPC_ERR, reply, s) | Some service \<Rightarrow>
         (let (packagePath, data) = ReadStr (ip_parcel I) data;
              (keyPath, data) = ReadStr (ip_parcel I) data
          in stub_answer (WriteBusinessError (ip_parcel I)) reply
               (ius_VerifyUpgradePackage service packagePath keyPath BusinessError_default s)))"

section \<open>Requests\<close>

definition requestFuncMap :: "'p Ipc \<Rightarrow> (uint32_t \<times> ('p, 's) StubFunc) list" where
  "requestFuncMap I =
     [(UpdaterSaInterfaceCode_code CHECK_VERSION, CheckNewVersionStub I),
      (UpdaterSaInterfaceCode_code UpdaterSaInterfaceCode.DOWNLOAD, DownloadVersionStub I),
      (UpdaterSaInterfaceCode_code PAUSE_DOWNLOAD, PauseDownloadStub I),
      (UpdaterSaInterfaceCode_code RESUME_DOWNLOAD, ResumeDownloadStub I),
      (UpdaterSaInterfaceCode_code UPGRADE, DoUpdateStub I),
      (UpdaterSaInterfaceCode_code CLEAR_ERROR, ClearErrorStub I),
      (UpdaterSaInterfaceCode_code TERMINATE_UPGRADE, TerminateUpgradeStub I),
      (UpdaterSaInterfaceCode_code SET_POLICY, SetUpgradePolicyStub I),
      (UpdaterSaInterfaceCode_code GET_POLICY, GetUpgradePolicyStub I),
      (UpdaterSaInterfaceCode_code GET_NEW_VERSION, GetNewVersionStub I),
      (UpdaterSaInterfaceCode_code GET_NEW_VERSION_DESCRIPTION, GetNewVersionDescriptionStub I),
      (UpdaterSaInterfaceCode_code GET_CURRENT_VERSION, GetCurrentVersionStub I),
      (UpdaterSaInterfaceCode_code GET_CURRENT_VERSION_DESCRIPTION, GetCurrentVersionDescriptionStub I),
      (UpdaterSaInterfaceCode_code GET_TASK_INFO, GetTaskInfoStub I),
      (UpdaterSaInterfaceCode_code REGISTER_CALLBACK, RegisterUpdateCallbackStub I),
      (UpdaterSaInterfaceCode_code UNREGISTER_CALLBACK, UnregisterUpdateCallbackStub I),
      (UpdaterSaInterfaceCode_code CANCEL, CancelStub I),
      (UpdaterSaInterfaceCode_code FACTORY_RESET, FactoryResetStub I),
      (UpdaterSaInterfaceCode_code APPLY_NEW_VERSION, ApplyNewVersionStub I),
      (UpdaterSaInterfaceCode_code VERIFY_UPGRADE_PACKAGE, VerifyUpgradePackageStub I)]"

definition IsCallerValid :: "Caller \<Rightarrow> bool" where
  "IsCallerValid caller =
     (case ca_tokenType caller of
        TOKEN_HAP \<Rightarrow> ca_isSystemApp caller
      | TOKEN_NATIVE \<Rightarrow> ca_uid caller = ROOT_UID \<or> ca_uid caller = EDM_UID
      | _ \<Rightarrow> False)"

definition IsPermissionGranted :: "Caller \<Rightarrow> uint32_t \<Rightarrow> bool" where
  "IsPermissionGranted caller code =
     (let permission = (if code = UpdaterSaInterfaceCode_code FACTORY_RESET
                        then ''ohos.permission.FACTORY_RESET'' else ''ohos.permission.UPDATE_SYSTEM'')
      in ca_granted caller permission)"

definition OnRemoteRequest ::
  "'p Ipc \<Rightarrow> Caller \<Rightarrow> 's IUpdateService \<Rightarrow> uint32_t \<Rightarrow> 'p \<Rightarrow> 'p \<Rightarrow> 's \<Rightarrow> (int32_t \<times> 'p \<times> 's) option" where
  "OnRemoteRequest I caller service code data reply s =
     (let (token, data) = ip_ReadInterfaceToken I data
      in if token \<noteq> IUpdateService_descriptor
         then Some (CALL_RESULT_TO_IPC_RESULT INT_CALL_IPC_ERR, reply, s)
         else (case map_of (requestFuncMap I) code of
                 None \<Rightarrow> (let (ret, reply) = ip_base_OnRemoteRequest I code data reply in Some (ret, reply, s))
               | Some f \<Rightarrow>
                   if \<not> IsCallerValid caller then Some (CALL_RESULT_TO_IPC_RESULT INT_NOT_SYSTEM_APP, reply, s)
                   else if \<not> IsPermissionGranted caller code
                   then Some (CALL_RESULT_TO_IPC_RESULT INT_APP_NOT_GRANTED, reply, s)
                   else map_option (\<lambda>(ret, reply, s). (CALL_RESULT_TO_IPC_RESULT ret, reply, s))
                          (f (Some service) data reply s)))"

section \<open>Properties\<close>

text \<open>Who may use a code, written out.\<close>

definition privileged :: "Caller \<Rightarrow> uint32_t \<Rightarrow> bool" where
  "privileged caller code \<longleftrightarrow>
     (ca_tokenType caller = TOKEN_HAP \<and> ca_isSystemApp caller \<or>
      ca_tokenType caller = TOKEN_NATIVE \<and> (ca_uid caller = 0 \<or> ca_uid caller = 3057)) \<and>
     (if code = 18 then ca_granted caller ''ohos.permission.FACTORY_RESET''
      else ca_granted caller ''ohos.permission.UPDATE_SYSTEM'')"

lemma privileged_iff: "privileged caller code \<longleftrightarrow> IsCallerValid caller \<and> IsPermissionGranted caller code"
  by (simp add: privileged_def IsCallerValid_def IsPermissionGranted_def ROOT_UID_def EDM_UID_def
      split: ATokenTypeEnum.split)

lemma known_code: "map_of (requestFuncMap I) (UpdaterSaInterfaceCode_code c) \<noteq> None"
  by (cases c) (simp_all add: requestFuncMap_def)

text \<open>
  C10. Nobody but a system application, root or the device management service, each with the
  permission of the operation, can change the state of the service or read it: any other request
  leaves the state and the reply as they are, for any service behind the stub and whatever the
  parcel holds. The factory reset needs a permission of its own. The answer tells an application
  that is not a system application from a caller without the permission.
\<close>

theorem only_privileged_callers:
  fixes I :: "'p Ipc" and service :: "'s IUpdateService"
  assumes "\<not> privileged caller (UpdaterSaInterfaceCode_code c)"
  shows "OnRemoteRequest I caller service (UpdaterSaInterfaceCode_code c) data reply s =
    Some (if fst (ip_ReadInterfaceToken I data) \<noteq> IUpdateService_descriptor then 2104
          else if IsCallerValid caller then 2201 else 2202, reply, s)"
proof -
  obtain f where "map_of (requestFuncMap I :: (uint32_t \<times> ('p, 's) StubFunc) list) (UpdaterSaInterfaceCode_code c) = Some f"
    using known_code by fast
  then show ?thesis
    using assms unfolding privileged_iff
    by (auto simp: OnRemoteRequest_def split_beta CALL_RESULT_TO_IPC_RESULT_def CALL_RESULT_OFFSET_def
        INT_CALL_IPC_ERR_def INT_APP_NOT_GRANTED_def INT_NOT_SYSTEM_APP_def)
qed

definition list_ipc :: "parcel_item list Ipc" where
  "list_ipc =
     \<lparr>ip_parcel = list_parcel,
      ip_empty = [],
      ip_WriteInterfaceToken = \<lambda>t p. (True, p @ [PToken t]),
      ip_ReadInterfaceToken = \<lambda>p. case p of PToken t # r \<Rightarrow> (t, r) | _ \<Rightarrow> ([], p),
      ip_WriteRemoteObject = \<lambda>c p. (True, p @ [PRemote c]),
      ip_ReadRemoteObject = \<lambda>p. case p of PRemote c # r \<Rightarrow> (Some c, r) | _ \<Rightarrow> (None, p),
      ip_base_OnRemoteRequest = \<lambda>_ _ reply. (- 1, reply)\<rparr>"

definition update_app :: Caller where
  "update_app = \<lparr>ca_tokenType = TOKEN_HAP, ca_isSystemApp = True, ca_uid = 20010029,
     ca_granted = \<lambda>p. p = ''ohos.permission.UPDATE_SYSTEM''\<rparr>"

theorem only_privileged_callers_witness:
  "\<forall>service :: nat IUpdateService. OnRemoteRequest list_ipc update_app service 18 [PToken IUpdateService_descriptor] [] 7 = Some (2201, [], 7)"
  using only_privileged_callers [of update_app FACTORY_RESET list_ipc _ "[PToken IUpdateService_descriptor]" "[]" "7 :: nat"]
  by (simp add: privileged_def update_app_def list_ipc_def IsCallerValid_def)

end
