(* ===== verification/Service_Proxy.thy ===== *)
theory Service_Proxy
  imports Service_Stub
begin

text \<open>
  The client side of \<open>IUpdateService\<close> (\<open>update_service_proxy.cpp\<close>) and the composition of the two
  sides: a call of the proxy, carried by a parcel to the stub and back, is the call of the service.
\<close>

section \<open>The proxy\<close>

text \<open>
  \<open>remote\<close> is \<open>Remote()\<close>, null or an object whose \<open>SendRequest\<close> carries a parcel to the server and
  returns its result and reply.
\<close>

type_synonym ('p, 's) Remote = "(uint32_t \<Rightarrow> 'p \<Rightarrow> 'p \<Rightarrow> 's \<Rightarrow> (int32_t \<times> 'p \<times> 's) option) option"

definition IPC_RESULT_TO_CALL_RESULT :: "int32_t \<Rightarrow> int32_t" where
  "IPC_RESULT_TO_CALL_RESULT result =
     (if result = 0 then INT_CALL_SUCCESS
      else if sint CALL_RESULT_OFFSET \<le> sint result then result - CALL_RESULT_OFFSET
      else INT_CALL_IPC_ERR)"

text \<open>
  The frame of every call: the checks of the macros \<open>RETURN_WHEN_REMOTE_NULL\<close>,
  \<open>RETURN_WHEN_TOKEN_WRITE_FAIL\<close> and \<open>RETURN_FAIL_WHEN_REMOTE_ERR\<close> around the request the call
  writes and the reply it reads. A failed call leaves the caller's structs alone.
\<close>

definition proxy_call ::
  "'p Ipc \<Rightarrow> ('p, 's) Remote \<Rightarrow> UpdaterSaInterfaceCode \<Rightarrow> ('p \<Rightarrow> 'p) \<Rightarrow> ('p \<Rightarrow> 'out) \<Rightarrow> 'out \<Rightarrow> 's \<Rightarrow> (int32_t \<times> 'out \<times> 's) option" where
  "proxy_call I remote code write read out s =
     (case remote of
        None \<Rightarrow> Some (INT_CALL_IPC_ERR, out, s)
      | Some SendRequest \<Rightarrow>
          (let (written, data) = ip_WriteInterfaceToken I IUpdateService_descriptor (ip_empty I)
           in if \<not> written then Some (INT_CALL_IPC_ERR, out, s)
              else map_option (\<lambda>(ret, reply, s).
                       let ret = IPC_RESULT_TO_CALL_RESULT ret
                       in if ret \<noteq> INT_CALL_SUCCESS then (ret, out, s) else (INT_CALL_SUCCESS, read reply, s))
                     (SendRequest (UpdaterSaInterfaceCode_code code) (write data) (ip_empty I) s)))"

definition read_error :: "'p Ipc \<Rightarrow> 'p \<Rightarrow> BusinessError" where
  "read_error I reply = fst (snd (ReadBusinessError (ip_parcel I) reply BusinessError_default))"

definition read_both ::
  "'p Ipc \<Rightarrow> ('p MessageParcel \<Rightarrow> 'p \<Rightarrow> 'out \<Rightarrow> int32_t \<times> 'out \<times> 'p) \<Rightarrow> 'out \<Rightarrow> 'p \<Rightarrow> 'out \<times> BusinessError" where
  "read_both I rd out0 reply =
     (let (_, remoteBusinessError, reply) = ReadBusinessError (ip_parcel I) reply BusinessError_default;
          (_, out, reply) = rd (ip_parcel I) reply out0
      in (out, remoteBusinessError))"

text \<open>\<open>RegisterUpdateCallback\<close> has two checks of its own: a null callback, and a remote object that cannot be written.\<close>

definition Proxy_RegisterUpdateCallback ::
  "'p Ipc \<Rightarrow> ('p, 's) Remote \<Rightarrow> UpgradeInfo \<Rightarrow> Callback option \<Rightarrow> 's \<Rightarrow> (int32_t \<times> unit \<times> 's) option" where
  "Proxy_RegisterUpdateCallback I remote info updateCallback s =
     (case updateCallback of
        None \<Rightarrow> Some (INT_PARAM_ERR, (), s)
      | Some callback \<Rightarrow>
          (case remote of
             None \<Rightarrow> Some (INT_CALL_IPC_ERR, (), s)
           | Some SendRequest \<Rightarrow>
               (let (written, data) = ip_WriteInterfaceToken I IUpdateService_descriptor (ip_empty I)
                in if \<not> written then Some (INT_CALL_IPC_ERR, (), s)
                   else let (res, data) = ip_WriteRemoteObject I callback (WriteUpgradeInfo (ip_parcel I) info data)
                        in if \<not> res then Some (INT_CALL_IPC_ERR, (), s)
                           else map_option (\<lambda>(ret, reply, s). (IPC_RESULT_TO_CALL_RESULT ret, (), s))
                                  (SendRequest (UpdaterSaInterfaceCode_code REGISTER_CALLBACK) data (ip_empty I) s))))"

definition Proxy_UnregisterUpdateCallback ::
  "'p Ipc \<Rightarrow> ('p, 's) Remote \<Rightarrow> UpgradeInfo \<Rightarrow> 's \<Rightarrow> (int32_t \<times> unit \<times> 's) option" where
  "Proxy_UnregisterUpdateCallback I remote info =
     proxy_call I remote UNREGISTER_CALLBACK (\<lambda>data. WriteUpgradeInfo (ip_parcel I) info data)
       (\<lambda>_. ()) ()"

definition Proxy_CheckNewVersion ::
  "'p Ipc \<Rightarrow> ('p, 's) Remote \<Rightarrow> UpgradeInfo \<Rightarrow> 's \<Rightarrow> (int32_t \<times> unit \<times> 's) option" where
  "Proxy_CheckNewVersion I remote info =
     proxy_call I remote CHECK_VERSION (\<lambda>data. WriteUpgradeInfo (ip_parcel I) info data)
       (\<lambda>_. ()) ()"

definition Proxy_Download ::
  "'p Ipc \<Rightarrow> ('p, 's) Remote \<Rightarrow> UpgradeInfo \<Rightarrow> VersionDigestInfo \<Rightarrow> DownloadOptions \<Rightarrow> BusinessError \<Rightarrow> 's \<Rightarrow> (int32_t \<times> BusinessError \<times> 's) option" where
  "Proxy_Download I remote info versionDigestInfo downloadOptions businessError =
     proxy_call I remote UpdaterSaInterfaceCode.DOWNLOAD (\<lambda>data. WriteDownloadOptions (ip_parcel I) downloadOptions
         (WriteVersionDigestInfo (ip_parcel I) versionDigestInfo (WriteUpgradeInfo (ip_parcel I) info data)))
       (read_error I) businessError"

definition Proxy_PauseDownload ::
  "'p Ipc \<Rightarrow> ('p, 's) Remote \<Rightarrow> UpgradeInfo \<Rightarrow> VersionDigestInfo \<Rightarrow> PauseDownloadOptions \<Rightarrow> BusinessError \<Rightarrow> 's \<Rightarrow> (int32_t \<times> BusinessError \<times> 's) option" where
  "Proxy_PauseDownload I remote info versionDigestInfo pauseDownloadOptions businessError =
     proxy_call I remote PAUSE_DOWNLOAD (\<lambda>data. WritePauseDownloadOptions (ip_parcel I) pauseDownloadOptions
         (WriteVersionDigestInfo (ip_parcel I) versionDigestInfo (WriteUpgradeInfo (ip_parcel I) info data)))
       (read_error I) businessError"

definition Proxy_ResumeDownload ::
  "'p Ipc \<Rightarrow> ('p, 's) Remote \<Rightarrow> UpgradeInfo \<Rightarrow> VersionDigestInfo \<Rightarrow> ResumeDownloadOptions \<Rightarrow> BusinessError \<Rightarrow> 's \<Rightarrow> (int32_t \<times> BusinessError \<times> 's) option" where
  "Proxy_ResumeDownload I remote info versionDigestInfo resumeDownloadOptions businessError =
     proxy_call I remote RESUME_DOWNLOAD (\<lambda>data. WriteResumeDownloadOptions (ip_parcel I) resumeDownloadOptions
         (WriteVersionDigestInfo (ip_parcel I) versionDigestInfo (WriteUpgradeInfo (ip_parcel I) info data)))
       (read_error I) businessError"

definition Proxy_Upgrade ::
  "'p Ipc \<Rightarrow> ('p, 's) Remote \<Rightarrow> UpgradeInfo \<Rightarrow> VersionDigestInfo \<Rightarrow> UpgradeOptions \<Rightarrow> BusinessError \<Rightarrow> 's \<Rightarrow> (int32_t \<times> BusinessError \<times> 's) option" where
  "Proxy_Upgrade I remote info versionDigest upgradeOptions businessError =
     proxy_call I remote UPGRADE (\<lambda>data. WriteUpgradeOptions (ip_parcel I) upgradeOptions
         (WriteVersionDigestInfo (ip_parcel I) versionDigest (WriteUpgradeInfo (ip_parcel I) info data)))
       (read_error I) businessError"

definition Proxy_ClearError ::
  "'p Ipc \<Rightarrow> ('p, 's) Remote \<Rightarrow> UpgradeInfo \<Rightarrow> VersionDigestInfo \<Rightarrow> ClearOptions \<Rightarrow> BusinessError \<Rightarrow> 's \<Rightarrow> (int32_t \<times> BusinessError \<times> 's) option" where
  "Proxy_ClearError I remote info versionDigest clearOptions businessError =
     proxy_call I remote CLEAR_ERROR (\<lambda>data. WriteClearOptions (ip_parcel I) clearOptions
         (WriteVersionDigestInfo (ip_parcel I) versionDigest (WriteUpgradeInfo (ip_parcel I) info data)))
       (read_error I) businessError"

definition Proxy_TerminateUpgrade ::
  "'p Ipc \<Rightarrow> ('p, 's) Remote \<Rightarrow> UpgradeInfo \<Rightarrow> BusinessError \<Rightarrow> 's \<Rightarrow> (int32_t \<times> BusinessError \<times> 's) option" where
  "Proxy_TerminateUpgrade I remote info businessError =
     proxy_call I remote TERMINATE_UPGRADE (\<lambda>data. WriteUpgradeInfo (ip_parcel I) info data)
       (read_error I) businessError"

definition Proxy_GetNewVersionInfo ::
  "'p Ipc \<Rightarrow> ('p, 's) Remote \<Rightarrow> UpgradeInfo \<Rightarrow> NewVersionInfo \<Rightarrow> BusinessError \<Rightarrow> 's \<Rightarrow> (int32_t \<times> (NewVersionInfo \<times> BusinessError) \<times> 's) option" where
  "Proxy_GetNewVersionInfo I remote info newVersionInfo businessError =
     proxy_call I remote GET_NEW_VERSION (\<lambda>data. WriteUpgradeInfo (ip_parcel I) info data)
       (read_both I ReadNewVersionInfo NewVersionInfo_default) (newVersionInfo, businessError)"

definition Proxy_GetNewVersionDescription ::
  "'p Ipc \<Rightarrow> ('p, 's) Remote \<Rightarrow> UpgradeInfo \<Rightarrow> VersionDigestInfo \<Rightarrow> DescriptionOptions \<Rightarrow> VersionDescriptionInfo \<Rightarrow> BusinessError \<Rightarrow> 's \<Rightarrow> (int32_t \<times> (VersionDescriptionInfo \<times> BusinessError) \<times> 's) option" where
  "Proxy_GetNewVersionDescription I remote info versionDigestInfo descriptionOptions newVersionDescriptionInfo businessError =
     proxy_call I remote GET_NEW_VERSION_DESCRIPTION (\<lambda>data. WriteDescriptionOptions (ip_parcel I) descriptionOptions
         (WriteVersionDigestInfo (ip_parcel I) versionDigestInfo (WriteUpgradeInfo (ip_parcel I) info data)))
       (read_both I ReadVersionDescriptionInfo VersionDescriptionInfo_default) (newVersionDescriptionInfo, businessError)"

definition Proxy_GetCurrentVersionInfo ::
  "'p Ipc \<Rightarrow> ('p, 's) Remote \<Rightarrow> UpgradeInfo \<Rightarrow> CurrentVersionInfo \<Rightarrow> BusinessError \<Rightarrow> 's \<Rightarrow> (int32_t \<times> (CurrentVersionInfo \<times> BusinessError) \<times> 's) option" where
  "Proxy_GetCurrentVersionInfo I remote info currentVersionInfo businessError =
     proxy_call I remote GET_CURRENT_VERSION (\<lambda>data. WriteUpgradeInfo (ip_parcel I) info data)
       (read_both I ReadCurrentVersionInfo CurrentVersionInfo_default) (currentVersionInfo, businessError)"

definition Proxy_GetCurrentVersionDescription ::
  "'p Ipc \<Rightarrow> ('p, 's) Remote \<Rightarrow> UpgradeInfo \<Rightarrow> DescriptionOptions \<Rightarrow> VersionDescriptionInfo \<Rightarrow> BusinessError \<Rightarrow> 's \<Rightarrow> (int32_t \<times> (VersionDescriptionInfo \<times> BusinessError) \<times> 's) option" where
  "Proxy_GetCurrentVersionDescription I remote info descriptionOptions currentVersionDescriptionInfo businessError =
     proxy_call I remote GET_CURRENT_VERSION_DESCRIPTION (\<lambda>data. WriteDescriptionOptions (ip_parcel I) descriptionOptions (WriteUpgradeInfo (ip_parcel I) info data))
       (read_both I ReadVersionDescriptionInfo VersionDescriptionInfo_default) (currentVersionDescriptionInfo, businessError)"

definition Proxy_GetTaskInfo ::
  "'p Ipc \<Rightarrow> ('p, 's) Remote \<Rightarrow> UpgradeInfo \<Rightarrow> TaskInfo \<Rightarrow> BusinessError \<Rightarrow> 's \<Rightarrow> (int32_t \<times> (TaskInfo \<times> BusinessError) \<times> 's) option" where
  "Proxy_GetTaskInfo I remote info taskInfo businessError =
     proxy_call I remote GET_TASK_INFO (\<lambda>data. WriteUpgradeInfo (ip_parcel I) info data)
       (read_both I ReadTaskInfo TaskInfo_default) (taskInfo, businessError)"

definition Proxy_SetUpgradePolicy ::
  "'p Ipc \<Rightarrow> ('p, 's) Remote \<Rightarrow> UpgradeInfo \<Rightarrow> UpgradePolicy \<Rightarrow> BusinessError \<Rightarrow> 's \<Rightarrow> (int32_t \<times> BusinessError \<times> 's) option" where
  "Proxy_SetUpgradePolicy I remote info policy businessError =
     proxy_call I remote SET_POLICY (\<lambda>data. WriteUpgradePolicy (ip_parcel I) policy (WriteUpgradeInfo (ip_parcel I) info data))
       (read_error I) businessError"

definition Proxy_GetUpgradePolicy ::
  "'p Ipc \<Rightarrow> ('p, 's) Remote \<Rightarrow> UpgradeInfo \<Rightarrow> UpgradePolicy \<Rightarrow> BusinessError \<Rightarrow> 's \<Rightarrow> (int32_t \<times> (UpgradePolicy \<times> BusinessError) \<times> 's) option" where
  "Proxy_GetUpgradePolicy I remote info policy businessError =
     proxy_call I remote GET_POLICY (\<lambda>data. WriteUpgradeInfo (ip_parcel I) info data)
       (read_both I ReadUpgradePolicy UpgradePolicy_default) (policy, businessError)"

definition Proxy_Cancel ::
  "'p Ipc \<Rightarrow> ('p, 's) Remote \<Rightarrow> UpgradeInfo \<Rightarrow> int32_t \<Rightarrow> BusinessError \<Rightarrow> 's \<Rightarrow> (int32_t \<times> BusinessError \<times> 's) option" where
  "Proxy_Cancel I remote info service businessError =
     proxy_call I remote CANCEL (\<lambda>data. pc_WriteInt32 (ip_parcel I) service (WriteUpgradeInfo (ip_parcel I) info data))
       (read_error I) businessError"

definition Proxy_FactoryReset ::
  "'p Ipc \<Rightarrow> ('p, 's) Remote \<Rightarrow> BusinessError \<Rightarrow> 's \<Rightarrow> (int32_t \<times> BusinessError \<times> 's) option" where
  "Proxy_FactoryReset I remote businessError =
     proxy_call I remote FACTORY_RESET (\<lambda>data. data)
       (read_error I) businessError"

definition Proxy_ApplyNewVersion ::
  "'p Ipc \<Rightarrow> ('p, 's) Remote \<Rightarrow> UpgradeInfo \<Rightarrow> string \<Rightarrow> string \<Rightarrow> BusinessError \<Rightarrow> 's \<Rightarrow> (int32_t \<times> BusinessError \<times> 's) option" where
  "Proxy_ApplyNewVersion I remote info miscFile packageName businessError =
     proxy_call I remote APPLY_NEW_VERSION (\<lambda>data. WriteStr (ip_parcel I) packageName (WriteStr (ip_parcel I) miscFile
         (WriteUpgradeInfo (ip_parcel I) info data)))
       (read_error I) businessError"

definition Proxy_VerifyUpgradePackage ::
  "'p Ipc \<Rightarrow> ('p, 's) Remote \<Rightarrow> string \<Rightarrow> string \<Rightarrow> BusinessError \<Rightarrow> 's \<Rightarrow> (int32_t \<times> BusinessError \<times> 's) option" where
  "Proxy_VerifyUpgradePackage I remote packagePath keyPath businessError =
     proxy_call I remote VERIFY_UPGRADE_PACKAGE (\<lambda>data. WriteStr (ip_parcel I) keyPath (WriteStr (ip_parcel I) packagePath data))
       (read_error I) businessError"

text \<open>The proxy implements the interface of the service.\<close>

definition UpdateServiceProxy :: "'p Ipc \<Rightarrow> ('p, 's) Remote \<Rightarrow> 's IUpdateService" where
  "UpdateServiceProxy I remote =
     \<lparr>ius_CheckNewVersion = Proxy_CheckNewVersion I remote,
      ius_Download = Proxy_Download I remote,
      ius_PauseDownload = Proxy_PauseDownload I remote,
      ius_ResumeDownload = Proxy_ResumeDownload I remote,
      ius_Upgrade = Proxy_Upgrade I remote,
      ius_ClearError = Proxy_ClearError I remote,
      ius_TerminateUpgrade = Proxy_TerminateUpgrade I remote,
      ius_GetNewVersionInfo = Proxy_GetNewVersionInfo I remote,
      ius_GetNewVersionDescription = Proxy_GetNewVersionDescription I remote,
      ius_GetCurrentVersionInfo = Proxy_GetCurrentVersionInfo I remote,
      ius_GetCurrentVersionDescription = Proxy_GetCurrentVersionDescription I remote,
      ius_GetTaskInfo = Proxy_GetTaskInfo I remote,
      ius_SetUpgradePolicy = Proxy_SetUpgradePolicy I remote,
      ius_GetUpgradePolicy = Proxy_GetUpgradePolicy I remote,
      ius_Cancel = Proxy_Cancel I remote,
      ius_FactoryReset = Proxy_FactoryReset I remote,
      ius_ApplyNewVersion = Proxy_ApplyNewVersion I remote,
      ius_VerifyUpgradePackage = Proxy_VerifyUpgradePackage I remote,
      ius_RegisterUpdateCallback = Proxy_RegisterUpdateCallback I remote,
      ius_UnregisterUpdateCallback = Proxy_UnregisterUpdateCallback I remote\<rparr>"

end
