(* ===== verification/Service_Wire.thy ===== *)
theory Service_Wire
  imports Service_Proxy
begin

text \<open>
  What the two sides of \<open>IUpdateService\<close> rely on of the channel between them, and that every
  request and reply struct survives it also in the middle of a parcel.
\<close>

section \<open>The channel\<close>

locale ipc_channel = message_parcel "ip_parcel I" items utf8
  for I :: "'p Ipc" and items :: "'p \<Rightarrow> parcel_item list" and utf8 :: "string \<Rightarrow> bool" +
  assumes empty_items: "items (ip_empty I) = []"
    and token_write: "fst (ip_WriteInterfaceToken I t p) \<and> items (snd (ip_WriteInterfaceToken I t p)) = items p @ [PToken t]"
    and token_read: "items p = PToken t # r \<Longrightarrow>
      fst (ip_ReadInterfaceToken I p) = t \<and> items (snd (ip_ReadInterfaceToken I p)) = r"
    and remote_write: "fst (ip_WriteRemoteObject I c p) \<and> items (snd (ip_WriteRemoteObject I c p)) = items p @ [PRemote c]"
    and remote_read: "items p = PRemote c # r \<Longrightarrow>
      fst (ip_ReadRemoteObject I p) = Some c \<and> items (snd (ip_ReadRemoteObject I p)) = r"
begin

text \<open>
  A writer and a reader of one struct agree: the writer appends the same items to every parcel
  and the reader restores the struct from them.
\<close>

definition wire :: "('a \<Rightarrow> 'p \<Rightarrow> 'p) \<Rightarrow> ('p \<Rightarrow> int32_t \<times> 'a \<times> 'p) \<Rightarrow> ('a \<Rightarrow> bool) \<Rightarrow> bool" where
  "wire wr rd ok \<longleftrightarrow>
     (\<forall>x p. items (wr x p) = items p @ items (wr x (ip_empty I))) \<and>
     (\<forall>x p r. ok x \<and> items p = items (wr x (ip_empty I)) @ r \<longrightarrow> (\<exists>st p'. rd p = (st, x, p') \<and> items p' = r))"

lemma wireI:
  assumes "\<And>x p. items (wr x p) = items p @ items (wr x (ip_empty I))"
    and "\<And>x p r. ok x \<Longrightarrow> items p = items (wr x (ip_empty I)) @ r \<Longrightarrow>
      post (\<lambda>(st, y, p'). y = x \<and> items p' = r) (rd p)"
  shows "wire wr rd ok"
  unfolding wire_def
proof (intro conjI allI impI)
  fix x p r
  assume "ok x \<and> items p = items (wr x (ip_empty I)) @ r"
  then have "post (\<lambda>(st, y, p'). y = x \<and> items p' = r) (rd p)" using assms(2) by blast
  then show "\<exists>st p'. rd p = (st, x, p') \<and> items p' = r" by (cases "rd p") (auto simp: post_def)
qed (rule assms(1))

section \<open>Requests\<close>

lemma UpgradeInfo_parts:
  "UpgradeInfo (upgradeApp x) (BusinessType (vendor (businessType x)) (subType (businessType x))) (upgradeDevId x)
     (controlDevId x) = x"
  by (cases x) simp

lemma wire_UpgradeInfo:
  "wire (WriteUpgradeInfo (ip_parcel I)) (\<lambda>p. ReadUpgradeInfo (ip_parcel I) p x0)
     (UpgradeInfo_ok utf8)"
  apply (rule wireI)
   apply (simp add: WriteUpgradeInfo_def write_laws empty_items)
  apply (simp add: WriteUpgradeInfo_def write_laws empty_items)
  unfolding ReadUpgradeInfo_def
  apply (erule read_laws)+
  by (auto simp: post_def utf8_roundtrip UpgradeInfo_ok_def UpgradeInfo_wf_def bs.wf_def UpgradeInfo_parts split: prod.splits)

lemma wire_VersionDigestInfo:
  "wire (WriteVersionDigestInfo (ip_parcel I)) (\<lambda>p. ReadVersionDigestInfo (ip_parcel I) p x0)
     (\<lambda>x. utf8 (vd_versionDigest x))"
  apply (rule wireI)
   apply (simp add: WriteVersionDigestInfo_def write_laws empty_items)
  apply (simp add: WriteVersionDigestInfo_def write_laws empty_items)
  unfolding ReadVersionDigestInfo_def
  apply (erule read_laws)+
  by (auto simp: post_def utf8_roundtrip  split: prod.splits)

lemma wire_DescriptionOptions:
  "wire (WriteDescriptionOptions (ip_parcel I)) (\<lambda>p. ReadDescriptionOptions (ip_parcel I) p x0)
     (\<lambda>x. utf8 (do_language x) \<and> df.wf (do_format x))"
  apply (rule wireI)
   apply (simp add: WriteDescriptionOptions_def write_laws empty_items)
  apply (simp add: WriteDescriptionOptions_def write_laws empty_items)
  unfolding ReadDescriptionOptions_def
  apply (erule read_laws)+
  by (auto simp: post_def utf8_roundtrip df.wf_def split: prod.splits)

lemma wire_DownloadOptions:
  "wire (WriteDownloadOptions (ip_parcel I)) (\<lambda>p. ReadDownloadOptions (ip_parcel I) p x0)
     (\<lambda>x. nt.wf (dl_allowNetwork x) \<and> od.wf (dl_order x))"
  apply (rule wireI)
   apply (simp add: WriteDownloadOptions_def write_laws empty_items)
  apply (simp add: WriteDownloadOptions_def write_laws empty_items)
  unfolding ReadDownloadOptions_def
  apply (erule read_laws)+
  by (auto simp: post_def utf8_roundtrip nt.wf_def od.wf_def split: prod.splits)

lemma wire_PauseDownloadOptions:
  "wire (WritePauseDownloadOptions (ip_parcel I)) (\<lambda>p. ReadPauseDownloadOptions (ip_parcel I) p x0)
     (\<lambda>_. True)"
  apply (rule wireI)
   apply (simp add: WritePauseDownloadOptions_def write_laws empty_items)
  apply (simp add: WritePauseDownloadOptions_def write_laws empty_items)
  unfolding ReadPauseDownloadOptions_def
  apply (erule read_laws)+
  by (auto simp: post_def utf8_roundtrip  split: prod.splits)

lemma wire_ResumeDownloadOptions:
  "wire (WriteResumeDownloadOptions (ip_parcel I)) (\<lambda>p. ReadResumeDownloadOptions (ip_parcel I) p x0)
     (\<lambda>x. nt.wf (rd_allowNetwork x))"
  apply (rule wireI)
   apply (simp add: WriteResumeDownloadOptions_def write_laws empty_items)
  apply (simp add: WriteResumeDownloadOptions_def write_laws empty_items)
  unfolding ReadResumeDownloadOptions_def
  apply (erule read_laws)+
  by (auto simp: post_def utf8_roundtrip nt.wf_def split: prod.splits)

lemma wire_UpgradeOptions:
  "wire (WriteUpgradeOptions (ip_parcel I)) (\<lambda>p. ReadUpgradeOptions (ip_parcel I) p x0)
     (\<lambda>x. od.wf (uo_order x))"
  apply (rule wireI)
   apply (simp add: WriteUpgradeOptions_def write_laws empty_items)
  apply (simp add: WriteUpgradeOptions_def write_laws empty_items)
  unfolding ReadUpgradeOptions_def
  apply (erule read_laws)+
  by (auto simp: post_def utf8_roundtrip od.wf_def split: prod.splits)

lemma wire_ClearOptions:
  "wire (WriteClearOptions (ip_parcel I)) (\<lambda>p. ReadClearOptions (ip_parcel I) p x0)
     (\<lambda>x. us.wf (co_status x))"
  apply (rule wireI)
   apply (simp add: WriteClearOptions_def write_laws empty_items)
  apply (simp add: WriteClearOptions_def write_laws empty_items)
  unfolding ReadClearOptions_def
  apply (erule read_laws)+
  by (auto simp: post_def utf8_roundtrip us.wf_def split: prod.splits)

lemma wire_UpgradePolicy:
  "wire (WriteUpgradePolicy (ip_parcel I)) (\<lambda>p. ReadUpgradePolicy (ip_parcel I) p x0) (\<lambda>_. True)"
  apply (rule wireI)
   apply (simp add: WriteUpgradePolicy_def write_laws empty_items)
  apply (simp add: WriteUpgradePolicy_def write_laws empty_items)
  unfolding ReadUpgradePolicy_def
  apply (erule read_laws)+
  apply (simp add: MAX_VECTOR_SIZE_def)
  apply (erule read_laws [unfolded Let_def])+
  by (auto simp: post_def prod_eq_iff)

lemma wire_int32:
  "wire (pc_WriteInt32 (ip_parcel I)) (\<lambda>p. (0, pc_ReadInt32 (ip_parcel I) p)) (\<lambda>_. True)"
  unfolding wire_def using read_int32 by (auto simp: write_int32 empty_items prod_eq_iff)

lemma wire_string:
  "wire (WriteStr (ip_parcel I)) (\<lambda>p. (0, ReadStr (ip_parcel I) p)) utf8"
  unfolding wire_def using read_str16 utf8_roundtrip
  by (fastforce simp: write_str empty_items ReadStr_def split_beta)

section \<open>Replies\<close>

lemma wire_BusinessError:
  "wire (WriteBusinessError (ip_parcel I)) (\<lambda>p. ReadBusinessError (ip_parcel I) p BusinessError_default) (BusinessError_ok utf8)"
  apply (rule wireI)
   apply (simp add: WriteBusinessError_def write_laws vector_write_laws empty_items)
  apply (simp add: WriteBusinessError_def write_laws vector_write_laws empty_items)
  unfolding ReadBusinessError_def vector_read_defs
  apply (erule read_laws)+
  apply (erule em.post_read_vector)
   apply (auto simp: BusinessError_ok_def em.ok_vector_def) [1]
  by (auto simp: post_def BusinessError_ok_def utf8_roundtrip cr.wf_def BusinessError_default_def)

lemma wire_NewVersionInfo:
  "wire (WriteNewVersionInfo (ip_parcel I)) (\<lambda>p. ReadNewVersionInfo (ip_parcel I) p NewVersionInfo_default) (NewVersionInfo_ok utf8)"
  apply (rule wireI)
   apply (simp add: WriteNewVersionInfo_def items_WriteNewVersionInfoEx empty_items)
  apply (simp add: WriteNewVersionInfo_def items_WriteNewVersionInfoEx empty_items)
  unfolding ReadNewVersionInfo_def
  apply (rule post_let_pair [where R = "\<lambda>y p'. y = _ \<and> items p' = _"])
   apply (unfold ReadNewVersionInfoEx_def vector_read_defs)
   apply (erule read_laws)
   apply (erule vc.post_read_vector)
    apply (auto simp: NewVersionInfo_ok_def vc.ok_vector_def) [1]
   apply (simp add: post_def NewVersionInfo_ok_def utf8_roundtrip NewVersionInfo_default_def)
  by (simp add: post_def)

lemma wire_VersionDescriptionInfo:
  "wire (WriteVersionDescriptionInfo (ip_parcel I)) (\<lambda>p. ReadVersionDescriptionInfo (ip_parcel I) p VersionDescriptionInfo_default)
     (\<lambda>x. length (vi_componentDescriptions x) \<le> 128 \<and> list_all (ComponentDescription_ok utf8) (vi_componentDescriptions x))"
  apply (rule wireI)
   apply (simp add: WriteVersionDescriptionInfo_def write_laws vector_write_laws empty_items)
  apply (simp add: WriteVersionDescriptionInfo_def write_laws vector_write_laws empty_items)
  unfolding ReadVersionDescriptionInfo_def vector_read_defs
  apply (erule cd.post_read_vector)
   apply (auto simp: cd.ok_vector_def) [1]
  by (auto simp: post_def VersionDescriptionInfo_default_def)

lemma wire_CurrentVersionInfo:
  "wire (WriteCurrentVersionInfo (ip_parcel I)) (\<lambda>p. ReadCurrentVersionInfo (ip_parcel I) p CurrentVersionInfo_default)
     (\<lambda>x. utf8 (cv_osVersion x) \<and> utf8 (cv_deviceName x) \<and> length (cv_versionComponents x) \<le> 128 \<and>
        list_all (VersionComponent_ok utf8) (cv_versionComponents x))"
  apply (rule wireI)
   apply (simp add: WriteCurrentVersionInfo_def write_laws vector_write_laws empty_items)
  apply (simp add: WriteCurrentVersionInfo_def write_laws vector_write_laws empty_items)
  unfolding ReadCurrentVersionInfo_def vector_read_defs
  apply (erule read_laws)+
  apply (erule vc.post_read_vector)
   apply (auto simp: vc.ok_vector_def) [1]
  by (auto simp: post_def utf8_roundtrip CurrentVersionInfo_default_def)

lemma wire_TaskInfo:
  "wire (WriteTaskInfo (ip_parcel I)) (\<lambda>p. ReadTaskInfo (ip_parcel I) p TaskInfo_default) (\<lambda>x. TaskBody_ok utf8 (ti_taskBody x))"
  apply (rule wireI)
   apply (simp add: WriteTaskInfo_def write_laws items_WriteTaskBody empty_items)
  apply (simp add: WriteTaskInfo_def write_laws items_WriteTaskBody empty_items)
  unfolding ReadTaskInfo_def
  apply (erule read_laws)
  apply (rule post_let_pair [where R = "\<lambda>y p'. y = _ \<and> items p' = _"])
   apply (unfold ReadTaskBody_def vector_read_defs)
   apply (erule read_laws)+
   apply (erule em.post_read_vector)
    apply (auto simp: TaskBody_ok_def em.ok_vector_def) [1]
   apply (erule vc.post_read_vector)
    apply (auto simp: TaskBody_ok_def vc.ok_vector_def) [1]
   apply (simp add: post_def TaskBody_ok_def utf8_roundtrip us.wf_def TaskInfo_default_def TaskBody_default_def)
  by (simp add: post_def)

end

text \<open>The laws hold for parcels that are lists of items.\<close>

interpretation li: ipc_channel list_ipc "\<lambda>p. p" "\<lambda>_. True"
proof (rule ipc_channel.intro)
  show "message_parcel (ip_parcel list_ipc) (\<lambda>p. p) (\<lambda>_. True)"
    by (simp add: list_ipc_def lp.message_parcel_axioms)
  show "ipc_channel_axioms list_ipc (\<lambda>p. p)" by unfold_locales (simp_all add: list_ipc_def)
qed

end
