(* ===== verification/Service_Remote.thy ===== *)
theory Service_Remote
  imports Service_Wire
begin

text \<open>
  The two sides of \<open>IUpdateService\<close> together: for every operation, the call of the proxy is the
  call of the service behind the stub.
\<close>

section \<open>One call\<close>

text \<open>
  What the client gets of a call: the code, and the structs the service filled when the call
  succeeded.
\<close>

definition delivered :: "'out \<Rightarrow> (int32_t \<times> 'out \<times> 's) option \<Rightarrow> (int32_t \<times> 'out \<times> 's) option" where
  "delivered out0 = map_option (\<lambda>(ret, out, s). (ret, if ret = INT_CALL_SUCCESS then out else out0, s))"

text \<open>An answer the channel can carry: not an error code the offset does not fit, and structs the parcel can hold.\<close>

definition answer_ok :: "('out \<Rightarrow> bool) \<Rightarrow> (int32_t \<times> 'out \<times> 's) option \<Rightarrow> bool" where
  "answer_ok ok r \<longleftrightarrow>
     (case r of None \<Rightarrow> True
      | Some (ret, out, s) \<Rightarrow> 0 \<le> sint ret \<and> sint ret < 2 ^ 31 - 2000 \<and> (ret = INT_CALL_SUCCESS \<longrightarrow> ok out))"

definition both_ok :: "(string \<Rightarrow> bool) \<Rightarrow> ('a \<Rightarrow> bool) \<Rightarrow> 'a \<times> BusinessError \<Rightarrow> bool" where
  "both_ok utf8 ok r \<longleftrightarrow> ok (fst r) \<and> BusinessError_ok utf8 (snd r)"

lemma result_code:
  assumes "0 \<le> sint ret" and "sint ret < 2 ^ 31 - 2000"
  shows "IPC_RESULT_TO_CALL_RESULT (CALL_RESULT_TO_IPC_RESULT ret) = ret"
proof -
  have "sint (ret + 2000) = sint ret + 2000"
    using assms by (simp add: sint_word_ariths signed_take_bit_int_eq_self)
  moreover from this have "ret + 2000 \<noteq> 0" using assms(1) by (metis add_nonneg_eq_0_iff signed_0 zero_le_numeral zero_neq_numeral)
  ultimately show ?thesis
    using assms by (simp add: IPC_RESULT_TO_CALL_RESULT_def CALL_RESULT_TO_IPC_RESULT_def CALL_RESULT_OFFSET_def)
qed

lemma stub_result_answer: "stub_result reply r = stub_answer (\<lambda>_ reply. reply) reply r"
  by (cases r) (auto simp: stub_result_def stub_answer_def)

context ipc_channel
begin

lemma read_struct:
  assumes "wire wr rd ok" and "items p = items (wr x (ip_empty I)) @ r" and "ok x"
    and "\<And>p. items p = r \<Longrightarrow> f x p = z"
  shows "(let (st, y, p) = rd p in f y p) = z"
proof -
  obtain st p' where "rd p = (st, x, p')" "items p' = r" using assms(1-3) unfolding wire_def by blast
  then show ?thesis using assms(4) by simp
qed

lemma read_pair:
  assumes "wire wr (\<lambda>p. (0, rd p)) ok" and "items p = items (wr x (ip_empty I)) @ r" and "ok x"
    and "\<And>p. items p = r \<Longrightarrow> f x p = z"
  shows "(let (y, p) = rd p in f y p) = z"
proof -
  obtain st p' where "(0, rd p) = (st, x, p')" "items p' = r" using assms(1-3) unfolding wire_def by blast
  then show ?thesis using assms(4) by simp
qed

lemma write_one: "wire wr rd ok \<Longrightarrow> items (wr x p) = items p @ items (wr x (ip_empty I))"
  unfolding wire_def by blast

lemma write_two:
  assumes "wire w1 r1 ok1" and "wire w2 r2 ok2"
  shows "items (w2 y (w1 x p)) = items p @ items (w1 x (ip_empty I)) @ items (w2 y (ip_empty I))"
  using write_one [OF assms(1), of x p] write_one [OF assms(2), of y "w1 x p"] by simp

lemma write_three:
  assumes "wire w1 r1 ok1" and "wire w2 r2 ok2" and "wire w3 r3 ok3"
  shows "items (w3 z (w2 y (w1 x p))) =
    items p @ items (w1 x (ip_empty I)) @ items (w2 y (ip_empty I)) @ items (w3 z (ip_empty I))"
  using write_two [OF assms(1,2), of y x p] write_one [OF assms(3), of z "w2 y (w1 x p)"] by simp

lemma error_back:
  "BusinessError_ok utf8 be \<Longrightarrow> read_error I (WriteBusinessError (ip_parcel I) be (ip_empty I)) = be"
  using wire_BusinessError unfolding wire_def read_error_def by (metis append_Nil2 fst_conv snd_conv)

lemma both_back:
  assumes "wire (wr (ip_parcel I)) (\<lambda>p. rd (ip_parcel I) p out0) ok" and "both_ok utf8 ok x"
  shows "read_both I rd out0 (write_both (ip_parcel I) wr x (ip_empty I)) = x"
proof -
  let ?p = "write_both (ip_parcel I) wr x (ip_empty I)"
  have p: "items ?p = items (WriteBusinessError (ip_parcel I) (snd x) (ip_empty I)) @ items (wr (ip_parcel I) (fst x) (ip_empty I)) @ []"
    using write_two [OF wire_BusinessError assms(1), of "fst x" "snd x" "ip_empty I"]
    by (simp add: write_both_def empty_items)
  show ?thesis unfolding read_both_def
    apply (rule read_struct [OF wire_BusinessError p])
    using assms(2) apply (simp add: both_ok_def)
    apply (rule read_struct [OF assms(1)], assumption)
    using assms(2) by (simp_all add: both_ok_def)
qed

lemma token_passes:
  assumes "\<And>p. items (write p) = items p @ args"
  obtains data p where "ip_WriteInterfaceToken I t (ip_empty I) = (True, data)"
    and "ip_ReadInterfaceToken I (write data) = (t, p)" and "items p = args"
proof -
  obtain data where w: "ip_WriteInterfaceToken I t (ip_empty I) = (True, data)" and d: "items data = [PToken t]"
    using token_write [of t "ip_empty I"] empty_items by (metis append_Nil prod.collapse)
  have "items (write data) = PToken t # args" by (simp add: assms d)
  from token_read [OF this] show ?thesis using w that by (metis prod.collapse)
qed

lemma through_stub:
  assumes "privileged caller (UpdaterSaInterfaceCode_code c)"
    and "map_of (requestFuncMap I) (UpdaterSaInterfaceCode_code c) = Some f"
    and "\<And>p. items (write p) = items p @ args"
    and "\<And>p. items p = args \<Longrightarrow> f (Some service) p (ip_empty I) s = stub_answer wr (ip_empty I) r"
    and "\<And>out. ok out \<Longrightarrow> read (wr out (ip_empty I)) = out"
    and "answer_ok ok r"
  shows "proxy_call I (Some (OnRemoteRequest I caller service)) c write read out0 s = delivered out0 r"
proof -
  obtain data p where w: "ip_WriteInterfaceToken I IUpdateService_descriptor (ip_empty I) = (True, data)"
    and "ip_ReadInterfaceToken I (write data) = (IUpdateService_descriptor, p)" "items p = args"
    by (rule token_passes [OF assms(3)])
  then have "OnRemoteRequest I caller service (UpdaterSaInterfaceCode_code c) (write data) (ip_empty I) s =
      map_option (\<lambda>(ret, reply, s). (CALL_RESULT_TO_IPC_RESULT ret, reply, s)) (stub_answer wr (ip_empty I) r)"
    using assms(1,2,4) by (simp add: OnRemoteRequest_def privileged_iff)
  then show ?thesis using assms(5,6)
    by (cases r) (auto simp: proxy_call_def w stub_answer_def delivered_def answer_ok_def result_code Let_def
        INT_CALL_SUCCESS_def)
qed

text \<open>The two kinds of operation: those that return only the error struct, and the queries.\<close>

lemmas command = through_stub [where read = "read_error I" and wr = "WriteBusinessError (ip_parcel I)"
  and ok = "BusinessError_ok utf8", OF _ _ _ _ error_back]

lemma query:
  assumes "wire (wr (ip_parcel I)) (\<lambda>p. rd (ip_parcel I) p out0) ok"
    and "privileged caller (UpdaterSaInterfaceCode_code c)"
    and "map_of (requestFuncMap I) (UpdaterSaInterfaceCode_code c) = Some f"
    and "\<And>p. items (write p) = items p @ args"
    and "\<And>p. items p = args \<Longrightarrow> f (Some service) p (ip_empty I) s = stub_answer (write_both (ip_parcel I) wr) (ip_empty I) r"
    and "answer_ok (both_ok utf8 ok) r"
  shows "proxy_call I (Some (OnRemoteRequest I caller service)) c write (read_both I rd out0) out s = delivered out r"
  by (rule through_stub [OF assms(2-5) both_back [where wr = wr and rd = rd, OF assms(1)] assms(6)])

lemma no_reply:
  assumes "privileged caller (UpdaterSaInterfaceCode_code c)"
    and "map_of (requestFuncMap I) (UpdaterSaInterfaceCode_code c) = Some f"
    and "\<And>p. items (write p) = items p @ args"
    and "\<And>p. items p = args \<Longrightarrow> f (Some service) p (ip_empty I) s = stub_result (ip_empty I) r"
    and "answer_ok (\<lambda>_. True) r"
  shows "proxy_call I (Some (OnRemoteRequest I caller service)) c write (\<lambda>_. ()) () s = delivered () r"
  by (rule through_stub [OF assms(1-4) [unfolded stub_result_answer] _ assms(5)]) (assumption, rule unit_eq [symmetric])

section \<open>Every operation\<close>

lemma remote_CheckNewVersion:
  assumes "privileged caller (UpdaterSaInterfaceCode_code CHECK_VERSION)"
    and "UpgradeInfo_ok utf8 info"
    and "answer_ok (\<lambda>_. True) (ius_CheckNewVersion service info s)"
  shows "Proxy_CheckNewVersion I (Some (OnRemoteRequest I caller service)) info s = delivered () (ius_CheckNewVersion service info s)"
  unfolding Proxy_CheckNewVersion_def
proof (rule no_reply [OF assms(1) _ write_one [OF wire_UpgradeInfo] _ assms(3)])
  fix p
  assume p: "items p = items (WriteUpgradeInfo (ip_parcel I) info (ip_empty I))"
  show "CheckNewVersionStub I (Some service) p (ip_empty I) s = stub_result (ip_empty I) (ius_CheckNewVersion service info s)"
    unfolding CheckNewVersionStub_def option.case
    apply (rule read_struct [OF wire_UpgradeInfo _ assms(2), where r = "[]"])
    by (simp_all add: p)
qed (simp_all add: requestFuncMap_def)

lemma remote_UnregisterUpdateCallback:
  assumes "privileged caller (UpdaterSaInterfaceCode_code UNREGISTER_CALLBACK)"
    and "UpgradeInfo_ok utf8 info"
    and "answer_ok (\<lambda>_. True) (ius_UnregisterUpdateCallback service info s)"
  shows "Proxy_UnregisterUpdateCallback I (Some (OnRemoteRequest I caller service)) info s = delivered () (ius_UnregisterUpdateCallback service info s)"
  unfolding Proxy_UnregisterUpdateCallback_def
proof (rule no_reply [OF assms(1) _ write_one [OF wire_UpgradeInfo] _ assms(3)])
  fix p
  assume p: "items p = items (WriteUpgradeInfo (ip_parcel I) info (ip_empty I))"
  show "UnregisterUpdateCallbackStub I (Some service) p (ip_empty I) s = stub_result (ip_empty I) (ius_UnregisterUpdateCallback service info s)"
    unfolding UnregisterUpdateCallbackStub_def option.case
    apply (rule read_struct [OF wire_UpgradeInfo _ assms(2), where r = "[]"])
    by (simp_all add: p)
qed (simp_all add: requestFuncMap_def)

lemma remote_Download:
  assumes "privileged caller (UpdaterSaInterfaceCode_code UpdaterSaInterfaceCode.DOWNLOAD)"
    and "UpgradeInfo_ok utf8 info"
    and "utf8 (vd_versionDigest digest)"
    and "nt.wf (dl_allowNetwork lopt) \<and> od.wf (dl_order lopt)"
    and "answer_ok (BusinessError_ok utf8) (ius_Download service info digest lopt BusinessError_default s)"
  shows "Proxy_Download I (Some (OnRemoteRequest I caller service)) info digest lopt be s = delivered be (ius_Download service info digest lopt BusinessError_default s)"
  unfolding Proxy_Download_def
proof (rule command [OF assms(1) _ write_three [OF wire_UpgradeInfo wire_VersionDigestInfo wire_DownloadOptions] _ _ assms(5)])
  fix p
  assume p: "items p = items (WriteUpgradeInfo (ip_parcel I) info (ip_empty I)) @
      items (WriteVersionDigestInfo (ip_parcel I) digest (ip_empty I)) @
      items (WriteDownloadOptions (ip_parcel I) lopt (ip_empty I))"
  show "DownloadVersionStub I (Some service) p (ip_empty I) s = stub_answer (WriteBusinessError (ip_parcel I)) (ip_empty I) (ius_Download service info digest lopt BusinessError_default s)"
    unfolding DownloadVersionStub_def option.case
    apply (rule read_struct [OF wire_UpgradeInfo p assms(2)])
    apply (rule read_struct [OF wire_VersionDigestInfo _ assms(3)], assumption)
    apply (rule read_struct [OF wire_DownloadOptions _ assms(4), where r = "[]"])
    by (simp_all add: p)
qed (simp_all add: requestFuncMap_def)

lemma remote_PauseDownload:
  assumes "privileged caller (UpdaterSaInterfaceCode_code PAUSE_DOWNLOAD)"
    and "UpgradeInfo_ok utf8 info"
    and "utf8 (vd_versionDigest digest)"
    and "answer_ok (BusinessError_ok utf8) (ius_PauseDownload service info digest popt BusinessError_default s)"
  shows "Proxy_PauseDownload I (Some (OnRemoteRequest I caller service)) info digest popt be s = delivered be (ius_PauseDownload service info digest popt BusinessError_default s)"
  unfolding Proxy_PauseDownload_def
proof (rule command [OF assms(1) _ write_three [OF wire_UpgradeInfo wire_VersionDigestInfo wire_PauseDownloadOptions] _ _ assms(4)])
  fix p
  assume p: "items p = items (WriteUpgradeInfo (ip_parcel I) info (ip_empty I)) @
      items (WriteVersionDigestInfo (ip_parcel I) digest (ip_empty I)) @
      items (WritePauseDownloadOptions (ip_parcel I) popt (ip_empty I))"
  show "PauseDownloadStub I (Some service) p (ip_empty I) s = stub_answer (WriteBusinessError (ip_parcel I)) (ip_empty I) (ius_PauseDownload service info digest popt BusinessError_default s)"
    unfolding PauseDownloadStub_def option.case
    apply (rule read_struct [OF wire_UpgradeInfo p assms(2)])
    apply (rule read_struct [OF wire_VersionDigestInfo _ assms(3)], assumption)
    apply (rule read_struct [OF wire_PauseDownloadOptions _ TrueI, where r = "[]"])
    by (simp_all add: p)
qed (simp_all add: requestFuncMap_def)

lemma remote_ResumeDownload:
  assumes "privileged caller (UpdaterSaInterfaceCode_code RESUME_DOWNLOAD)"
    and "UpgradeInfo_ok utf8 info"
    and "utf8 (vd_versionDigest digest)"
    and "nt.wf (rd_allowNetwork ropt)"
    and "answer_ok (BusinessError_ok utf8) (ius_ResumeDownload service info digest ropt BusinessError_default s)"
  shows "Proxy_ResumeDownload I (Some (OnRemoteRequest I caller service)) info digest ropt be s = delivered be (ius_ResumeDownload service info digest ropt BusinessError_default s)"
  unfolding Proxy_ResumeDownload_def
proof (rule command [OF assms(1) _ write_three [OF wire_UpgradeInfo wire_VersionDigestInfo wire_ResumeDownloadOptions] _ _ assms(5)])
  fix p
  assume p: "items p = items (WriteUpgradeInfo (ip_parcel I) info (ip_empty I)) @
      items (WriteVersionDigestInfo (ip_parcel I) digest (ip_empty I)) @
      items (WriteResumeDownloadOptions (ip_parcel I) ropt (ip_empty I))"
  show "ResumeDownloadStub I (Some service) p (ip_empty I) s = stub_answer (WriteBusinessError (ip_parcel I)) (ip_empty I) (ius_ResumeDownload service info digest ropt BusinessError_default s)"
    unfolding ResumeDownloadStub_def option.case
    apply (rule read_struct [OF wire_UpgradeInfo p assms(2)])
    apply (rule read_struct [OF wire_VersionDigestInfo _ assms(3)], assumption)
    apply (rule read_struct [OF wire_ResumeDownloadOptions _ assms(4), where r = "[]"])
    by (simp_all add: p)
qed (simp_all add: requestFuncMap_def)

lemma remote_Upgrade:
  assumes "privileged caller (UpdaterSaInterfaceCode_code UPGRADE)"
    and "UpgradeInfo_ok utf8 info"
    and "utf8 (vd_versionDigest digest)"
    and "od.wf (uo_order uopt)"
    and "answer_ok (BusinessError_ok utf8) (ius_Upgrade service info digest uopt BusinessError_default s)"
  shows "Proxy_Upgrade I (Some (OnRemoteRequest I caller service)) info digest uopt be s = delivered be (ius_Upgrade service info digest uopt BusinessError_default s)"
  unfolding Proxy_Upgrade_def
proof (rule command [OF assms(1) _ write_three [OF wire_UpgradeInfo wire_VersionDigestInfo wire_UpgradeOptions] _ _ assms(5)])
  fix p
  assume p: "items p = items (WriteUpgradeInfo (ip_parcel I) info (ip_empty I)) @
      items (WriteVersionDigestInfo (ip_parcel I) digest (ip_empty I)) @
      items (WriteUpgradeOptions (ip_parcel I) uopt (ip_empty I))"
  show "DoUpdateStub I (Some service) p (ip_empty I) s = stub_answer (WriteBusinessError (ip_parcel I)) (ip_empty I) (ius_Upgrade service info digest uopt BusinessError_default s)"
    unfolding DoUpdateStub_def option.case
    apply (rule read_struct [OF wire_UpgradeInfo p assms(2)])
    apply (rule read_struct [OF wire_VersionDigestInfo _ assms(3)], assumption)
    apply (rule read_struct [OF wire_UpgradeOptions _ assms(4), where r = "[]"])
    by (simp_all add: p)
qed (simp_all add: requestFuncMap_def)

lemma remote_ClearError:
  assumes "privileged caller (UpdaterSaInterfaceCode_code CLEAR_ERROR)"
    and "UpgradeInfo_ok utf8 info"
    and "utf8 (vd_versionDigest digest)"
    and "us.wf (co_status copt)"
    and "answer_ok (BusinessError_ok utf8) (ius_ClearError service info digest copt BusinessError_default s)"
  shows "Proxy_ClearError I (Some (OnRemoteRequest I caller service)) info digest copt be s = delivered be (ius_ClearError service info digest copt BusinessError_default s)"
  unfolding Proxy_ClearError_def
proof (rule command [OF assms(1) _ write_three [OF wire_UpgradeInfo wire_VersionDigestInfo wire_ClearOptions] _ _ assms(5)])
  fix p
  assume p: "items p = items (WriteUpgradeInfo (ip_parcel I) info (ip_empty I)) @
      items (WriteVersionDigestInfo (ip_parcel I) digest (ip_empty I)) @
      items (WriteClearOptions (ip_parcel I) copt (ip_empty I))"
  show "ClearErrorStub I (Some service) p (ip_empty I) s = stub_answer (WriteBusinessError (ip_parcel I)) (ip_empty I) (ius_ClearError service info digest copt BusinessError_default s)"
    unfolding ClearErrorStub_def option.case
    apply (rule read_struct [OF wire_UpgradeInfo p assms(2)])
    apply (rule read_struct [OF wire_VersionDigestInfo _ assms(3)], assumption)
    apply (rule read_struct [OF wire_ClearOptions _ assms(4), where r = "[]"])
    by (simp_all add: p)
qed (simp_all add: requestFuncMap_def)

lemma remote_TerminateUpgrade:
  assumes "privileged caller (UpdaterSaInterfaceCode_code TERMINATE_UPGRADE)"
    and "UpgradeInfo_ok utf8 info"
    and "answer_ok (BusinessError_ok utf8) (ius_TerminateUpgrade service info BusinessError_default s)"
  shows "Proxy_TerminateUpgrade I (Some (OnRemoteRequest I caller service)) info be s = delivered be (ius_TerminateUpgrade service info BusinessError_default s)"
  unfolding Proxy_TerminateUpgrade_def
proof (rule command [OF assms(1) _ write_one [OF wire_UpgradeInfo] _ _ assms(3)])
  fix p
  assume p: "items p = items (WriteUpgradeInfo (ip_parcel I) info (ip_empty I))"
  show "TerminateUpgradeStub I (Some service) p (ip_empty I) s = stub_answer (WriteBusinessError (ip_parcel I)) (ip_empty I) (ius_TerminateUpgrade service info BusinessError_default s)"
    unfolding TerminateUpgradeStub_def option.case
    apply (rule read_struct [OF wire_UpgradeInfo _ assms(2), where r = "[]"])
    by (simp_all add: p)
qed (simp_all add: requestFuncMap_def)

lemma remote_SetUpgradePolicy:
  assumes "privileged caller (UpdaterSaInterfaceCode_code SET_POLICY)"
    and "UpgradeInfo_ok utf8 info"
    and "answer_ok (BusinessError_ok utf8) (ius_SetUpgradePolicy service info policy BusinessError_default s)"
  shows "Proxy_SetUpgradePolicy I (Some (OnRemoteRequest I caller service)) info policy be s = delivered be (ius_SetUpgradePolicy service info policy BusinessError_default s)"
  unfolding Proxy_SetUpgradePolicy_def
proof (rule command [OF assms(1) _ write_two [OF wire_UpgradeInfo wire_UpgradePolicy] _ _ assms(3)])
  fix p
  assume p: "items p = items (WriteUpgradeInfo (ip_parcel I) info (ip_empty I)) @
      items (WriteUpgradePolicy (ip_parcel I) policy (ip_empty I))"
  show "SetUpgradePolicyStub I (Some service) p (ip_empty I) s = stub_answer (WriteBusinessError (ip_parcel I)) (ip_empty I) (ius_SetUpgradePolicy service info policy BusinessError_default s)"
    unfolding SetUpgradePolicyStub_def option.case
    apply (rule read_struct [OF wire_UpgradeInfo p assms(2)])
    apply (rule read_struct [OF wire_UpgradePolicy _ TrueI, where r = "[]"])
    by (simp_all add: p)
qed (simp_all add: requestFuncMap_def)

lemma remote_Cancel:
  assumes "privileged caller (UpdaterSaInterfaceCode_code CANCEL)"
    and "UpgradeInfo_ok utf8 info"
    and "answer_ok (BusinessError_ok utf8) (ius_Cancel service info n BusinessError_default s)"
  shows "Proxy_Cancel I (Some (OnRemoteRequest I caller service)) info n be s = delivered be (ius_Cancel service info n BusinessError_default s)"
  unfolding Proxy_Cancel_def
proof (rule command [OF assms(1) _ write_two [OF wire_UpgradeInfo wire_int32] _ _ assms(3)])
  fix p
  assume p: "items p = items (WriteUpgradeInfo (ip_parcel I) info (ip_empty I)) @
      items (pc_WriteInt32 (ip_parcel I) n (ip_empty I))"
  show "CancelStub I (Some service) p (ip_empty I) s = stub_answer (WriteBusinessError (ip_parcel I)) (ip_empty I) (ius_Cancel service info n BusinessError_default s)"
    unfolding CancelStub_def option.case
    apply (rule read_struct [OF wire_UpgradeInfo p assms(2)])
    apply (rule read_pair [OF wire_int32 _ TrueI, where r = "[]"])
    by (simp_all add: p)
qed (simp_all add: requestFuncMap_def)

lemma remote_FactoryReset:
  assumes "privileged caller (UpdaterSaInterfaceCode_code FACTORY_RESET)"
    and "answer_ok (BusinessError_ok utf8) (ius_FactoryReset service BusinessError_default s)"
  shows "Proxy_FactoryReset I (Some (OnRemoteRequest I caller service)) be s = delivered be (ius_FactoryReset service BusinessError_default s)"
  unfolding Proxy_FactoryReset_def
  by (rule command [where args = "[]" and f = "FactoryResetStub I", OF assms(1) _ _ _ _ assms(2)]) (simp_all add: requestFuncMap_def FactoryResetStub_def)

lemma remote_ApplyNewVersion:
  assumes "privileged caller (UpdaterSaInterfaceCode_code APPLY_NEW_VERSION)"
    and "UpgradeInfo_ok utf8 info"
    and "utf8 a"
    and "utf8 b"
    and "answer_ok (BusinessError_ok utf8) (ius_ApplyNewVersion service info a b BusinessError_default s)"
  shows "Proxy_ApplyNewVersion I (Some (OnRemoteRequest I caller service)) info a b be s = delivered be (ius_ApplyNewVersion service info a b BusinessError_default s)"
  unfolding Proxy_ApplyNewVersion_def
proof (rule command [OF assms(1) _ write_three [OF wire_UpgradeInfo wire_string wire_string] _ _ assms(5)])
  fix p
  assume p: "items p = items (WriteUpgradeInfo (ip_parcel I) info (ip_empty I)) @
      items (WriteStr (ip_parcel I) a (ip_empty I)) @
      items (WriteStr (ip_parcel I) b (ip_empty I))"
  show "ApplyNewVersionStub I (Some service) p (ip_empty I) s = stub_answer (WriteBusinessError (ip_parcel I)) (ip_empty I) (ius_ApplyNewVersion service info a b BusinessError_default s)"
    unfolding ApplyNewVersionStub_def option.case
    apply (rule read_struct [OF wire_UpgradeInfo p assms(2)])
    apply (rule read_pair [OF wire_string _ assms(3)], assumption)
    apply (rule read_pair [OF wire_string _ assms(4), where r = "[]"])
    by (simp_all add: p)
qed (simp_all add: requestFuncMap_def)

lemma remote_VerifyUpgradePackage:
  assumes "privileged caller (UpdaterSaInterfaceCode_code VERIFY_UPGRADE_PACKAGE)"
    and "utf8 a"
    and "utf8 b"
    and "answer_ok (BusinessError_ok utf8) (ius_VerifyUpgradePackage service a b BusinessError_default s)"
  shows "Proxy_VerifyUpgradePackage I (Some (OnRemoteRequest I caller service)) a b be s = delivered be (ius_VerifyUpgradePackage service a b BusinessError_default s)"
  unfolding Proxy_VerifyUpgradePackage_def
proof (rule command [OF assms(1) _ write_two [OF wire_string wire_string] _ _ assms(4)])
  fix p
  assume p: "items p = items (WriteStr (ip_parcel I) a (ip_empty I)) @
      items (WriteStr (ip_parcel I) b (ip_empty I))"
  show "VerifyUpgradePackageStub I (Some service) p (ip_empty I) s = stub_answer (WriteBusinessError (ip_parcel I)) (ip_empty I) (ius_VerifyUpgradePackage service a b BusinessError_default s)"
    unfolding VerifyUpgradePackageStub_def option.case
    apply (rule read_pair [OF wire_string p assms(2)])
    apply (rule read_pair [OF wire_string _ assms(3), where r = "[]"])
    by (simp_all add: p)
qed (simp_all add: requestFuncMap_def)

lemma remote_GetNewVersionInfo:
  assumes "privileged caller (UpdaterSaInterfaceCode_code GET_NEW_VERSION)"
    and "UpgradeInfo_ok utf8 info"
    and "answer_ok (both_ok utf8 (NewVersionInfo_ok utf8)) (ius_GetNewVersionInfo service info NewVersionInfo_default BusinessError_default s)"
  shows "Proxy_GetNewVersionInfo I (Some (OnRemoteRequest I caller service)) info out be s = delivered (out, be) (ius_GetNewVersionInfo service info NewVersionInfo_default BusinessError_default s)"
  unfolding Proxy_GetNewVersionInfo_def
proof (rule query [where wr = WriteNewVersionInfo and rd = ReadNewVersionInfo, OF wire_NewVersionInfo assms(1) _ write_one [OF wire_UpgradeInfo] _ assms(3)])
  fix p
  assume p: "items p = items (WriteUpgradeInfo (ip_parcel I) info (ip_empty I))"
  show "GetNewVersionStub I (Some service) p (ip_empty I) s = stub_answer (write_both (ip_parcel I) WriteNewVersionInfo) (ip_empty I) (ius_GetNewVersionInfo service info NewVersionInfo_default BusinessError_default s)"
    unfolding GetNewVersionStub_def option.case
    apply (rule read_struct [OF wire_UpgradeInfo _ assms(2), where r = "[]"])
    by (simp_all add: p)
qed (simp_all add: requestFuncMap_def)

lemma remote_GetNewVersionDescription:
  assumes "privileged caller (UpdaterSaInterfaceCode_code GET_NEW_VERSION_DESCRIPTION)"
    and "UpgradeInfo_ok utf8 info"
    and "utf8 (vd_versionDigest digest)"
    and "utf8 (do_language dopt) \<and> df.wf (do_format dopt)"
    and "answer_ok (both_ok utf8 (\<lambda>x. length (vi_componentDescriptions x) \<le> 128 \<and> list_all (ComponentDescription_ok utf8) (vi_componentDescriptions x))) (ius_GetNewVersionDescription service info digest dopt VersionDescriptionInfo_default BusinessError_default s)"
  shows "Proxy_GetNewVersionDescription I (Some (OnRemoteRequest I caller service)) info digest dopt out be s = delivered (out, be) (ius_GetNewVersionDescription service info digest dopt VersionDescriptionInfo_default BusinessError_default s)"
  unfolding Proxy_GetNewVersionDescription_def
proof (rule query [where wr = WriteVersionDescriptionInfo and rd = ReadVersionDescriptionInfo, OF wire_VersionDescriptionInfo assms(1) _ write_three [OF wire_UpgradeInfo wire_VersionDigestInfo wire_DescriptionOptions] _ assms(5)])
  fix p
  assume p: "items p = items (WriteUpgradeInfo (ip_parcel I) info (ip_empty I)) @
      items (WriteVersionDigestInfo (ip_parcel I) digest (ip_empty I)) @
      items (WriteDescriptionOptions (ip_parcel I) dopt (ip_empty I))"
  show "GetNewVersionDescriptionStub I (Some service) p (ip_empty I) s = stub_answer (write_both (ip_parcel I) WriteVersionDescriptionInfo) (ip_empty I) (ius_GetNewVersionDescription service info digest dopt VersionDescriptionInfo_default BusinessError_default s)"
    unfolding GetNewVersionDescriptionStub_def option.case
    apply (rule read_struct [OF wire_UpgradeInfo p assms(2)])
    apply (rule read_struct [OF wire_VersionDigestInfo _ assms(3)], assumption)
    apply (rule read_struct [OF wire_DescriptionOptions _ assms(4), where r = "[]"])
    by (simp_all add: p)
qed (simp_all add: requestFuncMap_def)

lemma remote_GetCurrentVersionInfo:
  assumes "privileged caller (UpdaterSaInterfaceCode_code GET_CURRENT_VERSION)"
    and "UpgradeInfo_ok utf8 info"
    and "answer_ok (both_ok utf8 (\<lambda>x. utf8 (cv_osVersion x) \<and> utf8 (cv_deviceName x) \<and> length (cv_versionComponents x) \<le> 128 \<and>
      list_all (VersionComponent_ok utf8) (cv_versionComponents x))) (ius_GetCurrentVersionInfo service info CurrentVersionInfo_default BusinessError_default s)"
  shows "Proxy_GetCurrentVersionInfo I (Some (OnRemoteRequest I caller service)) info out be s = delivered (out, be) (ius_GetCurrentVersionInfo service info CurrentVersionInfo_default BusinessError_default s)"
  unfolding Proxy_GetCurrentVersionInfo_def
proof (rule query [where wr = WriteCurrentVersionInfo and rd = ReadCurrentVersionInfo, OF wire_CurrentVersionInfo assms(1) _ write_one [OF wire_UpgradeInfo] _ assms(3)])
  fix p
  assume p: "items p = items (WriteUpgradeInfo (ip_parcel I) info (ip_empty I))"
  show "GetCurrentVersionStub I (Some service) p (ip_empty I) s = stub_answer (write_both (ip_parcel I) WriteCurrentVersionInfo) (ip_empty I) (ius_GetCurrentVersionInfo service info CurrentVersionInfo_default BusinessError_default s)"
    unfolding GetCurrentVersionStub_def option.case
    apply (rule read_struct [OF wire_UpgradeInfo _ assms(2), where r = "[]"])
    by (simp_all add: p)
qed (simp_all add: requestFuncMap_def)

lemma remote_GetCurrentVersionDescription:
  assumes "privileged caller (UpdaterSaInterfaceCode_code GET_CURRENT_VERSION_DESCRIPTION)"
    and "UpgradeInfo_ok utf8 info"
    and "utf8 (do_language dopt) \<and> df.wf (do_format dopt)"
    and "answer_ok (both_ok utf8 (\<lambda>x. length (vi_componentDescriptions x) \<le> 128 \<and> list_all (ComponentDescription_ok utf8) (vi_componentDescriptions x))) (ius_GetCurrentVersionDescription service info dopt VersionDescriptionInfo_default BusinessError_default s)"
  shows "Proxy_GetCurrentVersionDescription I (Some (OnRemoteRequest I caller service)) info dopt out be s = delivered (out, be) (ius_GetCurrentVersionDescription service info dopt VersionDescriptionInfo_default BusinessError_default s)"
  unfolding Proxy_GetCurrentVersionDescription_def
proof (rule query [where wr = WriteVersionDescriptionInfo and rd = ReadVersionDescriptionInfo, OF wire_VersionDescriptionInfo assms(1) _ write_two [OF wire_UpgradeInfo wire_DescriptionOptions] _ assms(4)])
  fix p
  assume p: "items p = items (WriteUpgradeInfo (ip_parcel I) info (ip_empty I)) @
      items (WriteDescriptionOptions (ip_parcel I) dopt (ip_empty I))"
  show "GetCurrentVersionDescriptionStub I (Some service) p (ip_empty I) s = stub_answer (write_both (ip_parcel I) WriteVersionDescriptionInfo) (ip_empty I) (ius_GetCurrentVersionDescription service info dopt VersionDescriptionInfo_default BusinessError_default s)"
    unfolding GetCurrentVersionDescriptionStub_def option.case
    apply (rule read_struct [OF wire_UpgradeInfo p assms(2)])
    apply (rule read_struct [OF wire_DescriptionOptions _ assms(3), where r = "[]"])
    by (simp_all add: p)
qed (simp_all add: requestFuncMap_def)

lemma remote_GetTaskInfo:
  assumes "privileged caller (UpdaterSaInterfaceCode_code GET_TASK_INFO)"
    and "UpgradeInfo_ok utf8 info"
    and "answer_ok (both_ok utf8 (\<lambda>x. TaskBody_ok utf8 (ti_taskBody x))) (ius_GetTaskInfo service info TaskInfo_default BusinessError_default s)"
  shows "Proxy_GetTaskInfo I (Some (OnRemoteRequest I caller service)) info out be s = delivered (out, be) (ius_GetTaskInfo service info TaskInfo_default BusinessError_default s)"
  unfolding Proxy_GetTaskInfo_def
proof (rule query [where wr = WriteTaskInfo and rd = ReadTaskInfo, OF wire_TaskInfo assms(1) _ write_one [OF wire_UpgradeInfo] _ assms(3)])
  fix p
  assume p: "items p = items (WriteUpgradeInfo (ip_parcel I) info (ip_empty I))"
  show "GetTaskInfoStub I (Some service) p (ip_empty I) s = stub_answer (write_both (ip_parcel I) WriteTaskInfo) (ip_empty I) (ius_GetTaskInfo service info TaskInfo_default BusinessError_default s)"
    unfolding GetTaskInfoStub_def option.case
    apply (rule read_struct [OF wire_UpgradeInfo _ assms(2), where r = "[]"])
    by (simp_all add: p)
qed (simp_all add: requestFuncMap_def)

lemma remote_GetUpgradePolicy:
  assumes "privileged caller (UpdaterSaInterfaceCode_code GET_POLICY)"
    and "UpgradeInfo_ok utf8 info"
    and "answer_ok (both_ok utf8 (\<lambda>_. True)) (ius_GetUpgradePolicy service info UpgradePolicy_default BusinessError_default s)"
  shows "Proxy_GetUpgradePolicy I (Some (OnRemoteRequest I caller service)) info out be s = delivered (out, be) (ius_GetUpgradePolicy service info UpgradePolicy_default BusinessError_default s)"
  unfolding Proxy_GetUpgradePolicy_def
proof (rule query [where wr = WriteUpgradePolicy and rd = ReadUpgradePolicy, OF wire_UpgradePolicy assms(1) _ write_one [OF wire_UpgradeInfo] _ assms(3)])
  fix p
  assume p: "items p = items (WriteUpgradeInfo (ip_parcel I) info (ip_empty I))"
  show "GetUpgradePolicyStub I (Some service) p (ip_empty I) s = stub_answer (write_both (ip_parcel I) WriteUpgradePolicy) (ip_empty I) (ius_GetUpgradePolicy service info UpgradePolicy_default BusinessError_default s)"
    unfolding GetUpgradePolicyStub_def option.case
    apply (rule read_struct [OF wire_UpgradeInfo _ assms(2), where r = "[]"])
    by (simp_all add: p)
qed (simp_all add: requestFuncMap_def)

lemma remote_RegisterUpdateCallback:
  assumes "privileged caller (UpdaterSaInterfaceCode_code REGISTER_CALLBACK)"
    and "UpgradeInfo_ok utf8 info"
    and "answer_ok (\<lambda>_. True) (ius_RegisterUpdateCallback service info (Some cb) s)"
  shows "Proxy_RegisterUpdateCallback I (Some (OnRemoteRequest I caller service)) info (Some cb) s =
    delivered () (ius_RegisterUpdateCallback service info (Some cb) s)"
proof -
  let ?send = "\<lambda>data. snd (ip_WriteRemoteObject I cb (WriteUpgradeInfo (ip_parcel I) info data))"
  have frame: "Proxy_RegisterUpdateCallback I (Some (OnRemoteRequest I caller service)) info (Some cb) s =
      proxy_call I (Some (OnRemoteRequest I caller service)) REGISTER_CALLBACK ?send (\<lambda>_. ()) () s"
    using remote_write by (auto simp: Proxy_RegisterUpdateCallback_def proxy_call_def Let_def split_beta
        intro!: option.map_cong0)
  have "items (?send p) = items p @ items (WriteUpgradeInfo (ip_parcel I) info (ip_empty I)) @ [PRemote cb]" for p
    using remote_write [of cb "WriteUpgradeInfo (ip_parcel I) info p"] write_one [OF wire_UpgradeInfo, of info p] by simp
  moreover have "RegisterUpdateCallbackStub I (Some service) p (ip_empty I) s =
      stub_result (ip_empty I) (ius_RegisterUpdateCallback service info (Some cb) s)"
    if "items p = items (WriteUpgradeInfo (ip_parcel I) info (ip_empty I)) @ [PRemote cb]" for p
    unfolding RegisterUpdateCallbackStub_def option.case
    apply (rule read_struct [OF wire_UpgradeInfo that assms(2)])
    subgoal for q using remote_read [of q cb "[]"] by (simp add: split_beta)
    done
  ultimately show ?thesis
    unfolding frame by (intro no_reply [where f = "RegisterUpdateCallbackStub I", OF assms(1) _ _ _ assms(3)]) (simp_all add: requestFuncMap_def)
qed

end

section \<open>Properties\<close>

text \<open>
  C12. A client with the permissions can use the proxy as if it held the service: every operation
  that changes something, called through proxy, parcel and stub, performs exactly the call of the
  service with the client's arguments, leaves the service in the same state, returns the same
  code, and hands back the error struct the service filled when the call succeeded. A failed
  call leaves the client's struct alone.
\<close>

theorem remote_commands:
  assumes "ipc_channel I items utf8" and "\<forall>c. privileged caller (UpdaterSaInterfaceCode_code c)"
    and "UpgradeInfo_ok utf8 info" and "utf8 (vd_versionDigest digest)"
  shows "(answer_ok (\<lambda>_. True) (ius_CheckNewVersion service info s) \<longrightarrow>
      Proxy_CheckNewVersion I (Some (OnRemoteRequest I caller service)) info s =
        delivered () (ius_CheckNewVersion service info s)) \<and>
    (nt.wf (dl_allowNetwork lopt) \<and> od.wf (dl_order lopt) \<and> answer_ok (BusinessError_ok utf8) (ius_Download service info digest lopt BusinessError_default s) \<longrightarrow>
      Proxy_Download I (Some (OnRemoteRequest I caller service)) info digest lopt be s =
        delivered be (ius_Download service info digest lopt BusinessError_default s)) \<and>
    (answer_ok (BusinessError_ok utf8) (ius_PauseDownload service info digest popt BusinessError_default s) \<longrightarrow>
      Proxy_PauseDownload I (Some (OnRemoteRequest I caller service)) info digest popt be s =
        delivered be (ius_PauseDownload service info digest popt BusinessError_default s)) \<and>
    (nt.wf (rd_allowNetwork ropt) \<and> answer_ok (BusinessError_ok utf8) (ius_ResumeDownload service info digest ropt BusinessError_default s) \<longrightarrow>
      Proxy_ResumeDownload I (Some (OnRemoteRequest I caller service)) info digest ropt be s =
        delivered be (ius_ResumeDownload service info digest ropt BusinessError_default s)) \<and>
    (od.wf (uo_order uopt) \<and> answer_ok (BusinessError_ok utf8) (ius_Upgrade service info digest uopt BusinessError_default s) \<longrightarrow>
      Proxy_Upgrade I (Some (OnRemoteRequest I caller service)) info digest uopt be s =
        delivered be (ius_Upgrade service info digest uopt BusinessError_default s)) \<and>
    (us.wf (co_status copt) \<and> answer_ok (BusinessError_ok utf8) (ius_ClearError service info digest copt BusinessError_default s) \<longrightarrow>
      Proxy_ClearError I (Some (OnRemoteRequest I caller service)) info digest copt be s =
        delivered be (ius_ClearError service info digest copt BusinessError_default s)) \<and>
    (answer_ok (BusinessError_ok utf8) (ius_TerminateUpgrade service info BusinessError_default s) \<longrightarrow>
      Proxy_TerminateUpgrade I (Some (OnRemoteRequest I caller service)) info be s =
        delivered be (ius_TerminateUpgrade service info BusinessError_default s)) \<and>
    (answer_ok (BusinessError_ok utf8) (ius_SetUpgradePolicy service info policy BusinessError_default s) \<longrightarrow>
      Proxy_SetUpgradePolicy I (Some (OnRemoteRequest I caller service)) info policy be s =
        delivered be (ius_SetUpgradePolicy service info policy BusinessError_default s)) \<and>
    (answer_ok (BusinessError_ok utf8) (ius_Cancel service info n BusinessError_default s) \<longrightarrow>
      Proxy_Cancel I (Some (OnRemoteRequest I caller service)) info n be s =
        delivered be (ius_Cancel service info n BusinessError_default s)) \<and>
    (answer_ok (BusinessError_ok utf8) (ius_FactoryReset service BusinessError_default s) \<longrightarrow>
      Proxy_FactoryReset I (Some (OnRemoteRequest I caller service)) be s =
        delivered be (ius_FactoryReset service BusinessError_default s)) \<and>
    (utf8 a \<and> utf8 b \<and> answer_ok (BusinessError_ok utf8) (ius_ApplyNewVersion service info a b BusinessError_default s) \<longrightarrow>
      Proxy_ApplyNewVersion I (Some (OnRemoteRequest I caller service)) info a b be s =
        delivered be (ius_ApplyNewVersion service info a b BusinessError_default s)) \<and>
    (utf8 a \<and> utf8 b \<and> answer_ok (BusinessError_ok utf8) (ius_VerifyUpgradePackage service a b BusinessError_default s) \<longrightarrow>
      Proxy_VerifyUpgradePackage I (Some (OnRemoteRequest I caller service)) a b be s =
        delivered be (ius_VerifyUpgradePackage service a b BusinessError_default s)) \<and>
    (answer_ok (\<lambda>_. True) (ius_UnregisterUpdateCallback service info s) \<longrightarrow>
      Proxy_UnregisterUpdateCallback I (Some (OnRemoteRequest I caller service)) info s =
        delivered () (ius_UnregisterUpdateCallback service info s)) \<and>
    (answer_ok (\<lambda>_. True) (ius_RegisterUpdateCallback service info (Some cb) s) \<longrightarrow>
      Proxy_RegisterUpdateCallback I (Some (OnRemoteRequest I caller service)) info (Some cb) s =
        delivered () (ius_RegisterUpdateCallback service info (Some cb) s))"
proof -
  have priv: "privileged caller (UpdaterSaInterfaceCode_code c)" for c using assms(2) by blast
  show ?thesis
    by (intro conjI impI; (elim conjE)?; rule ipc_channel.remote_CheckNewVersion [OF assms(1) priv assms(3)]
        ipc_channel.remote_Download [OF assms(1) priv assms(3) assms(4)]
        ipc_channel.remote_PauseDownload [OF assms(1) priv assms(3) assms(4)]
        ipc_channel.remote_ResumeDownload [OF assms(1) priv assms(3) assms(4)]
        ipc_channel.remote_Upgrade [OF assms(1) priv assms(3) assms(4)]
        ipc_channel.remote_ClearError [OF assms(1) priv assms(3) assms(4)]
        ipc_channel.remote_TerminateUpgrade [OF assms(1) priv assms(3)]
        ipc_channel.remote_SetUpgradePolicy [OF assms(1) priv assms(3)]
        ipc_channel.remote_Cancel [OF assms(1) priv assms(3)]
        ipc_channel.remote_FactoryReset [OF assms(1) priv]
        ipc_channel.remote_ApplyNewVersion [OF assms(1) priv assms(3)]
        ipc_channel.remote_VerifyUpgradePackage [OF assms(1) priv]
        ipc_channel.remote_UnregisterUpdateCallback [OF assms(1) priv assms(3)]
        ipc_channel.remote_RegisterUpdateCallback [OF assms(1) priv assms(3)]; simp)
qed

definition admin :: Caller where
  "admin = \<lparr>ca_tokenType = TOKEN_NATIVE, ca_isSystemApp = False, ca_uid = 0, ca_granted = \<lambda>_. True\<rparr>"

lemma admin_privileged: "\<forall>c. privileged admin (UpdaterSaInterfaceCode_code c)"
  by (simp add: privileged_def admin_def)

definition sample_kits :: "MemDevice UpdaterKits" where
  "sample_kits =
     \<lparr>uk_GetBlockDeviceByMountPoint = \<lambda>_ _. [],
      uk_RebootAndCleanUserData = \<lambda>_ _ x. (True, x),
      uk_RebootAndInstallSdcardPackage = \<lambda>_ _ x. (True, x),
      uk_VerifyPackageWithCallback = \<lambda>_ _ _. 0,
      uk_timer = \<lambda>_. 0\<rparr>"

lemma sample_info_ok: "UpgradeInfo_ok (\<lambda>_. True) sample_info"
  by (simp add: UpgradeInfo_ok_def UpgradeInfo_wf_def sample_info_def bs.wf_named enum_simps)

lemma no_error_ok: "BusinessError_ok (\<lambda>_. True) BusinessError_default"
  by (simp add: BusinessError_ok_def BusinessError_default_def cr.wf_named enum_simps)

theorem remote_commands_witness:
  "\<forall>s. Proxy_PauseDownload list_ipc (Some (OnRemoteRequest list_ipc admin (UpdateService memory_device sample_kits)))
      sample_info \<lparr>vd_versionDigest = ''d''\<rparr> \<lparr>pd_isAllowAutoResume = True\<rparr> sample_error s =
    Some (0, \<lparr>be_message = ''PauseDownload unsupport'', be_errorNum = CallResult.UN_SUPPORT, be_data = []\<rparr>, s)"
proof
  fix s
  have "ius_PauseDownload (UpdateService memory_device sample_kits) sample_info \<lparr>vd_versionDigest = ''d''\<rparr>
      \<lparr>pd_isAllowAutoResume = True\<rparr> BusinessError_default s =
    Some (0, \<lparr>be_message = ''PauseDownload unsupport'', be_errorNum = CallResult.UN_SUPPORT, be_data = []\<rparr>, s)"
    by (simp add: UpdateService_def UpdateService_PauseDownload_def Build_def BusinessError_default_def INT_CALL_SUCCESS_def)
  moreover have "BusinessError_ok (\<lambda>_. True) \<lparr>be_message = ''PauseDownload unsupport'', be_errorNum = CallResult.UN_SUPPORT, be_data = []\<rparr>"
    by (simp add: BusinessError_ok_def cr.wf_named enum_simps)
  ultimately show "Proxy_PauseDownload list_ipc (Some (OnRemoteRequest list_ipc admin (UpdateService memory_device sample_kits)))
      sample_info \<lparr>vd_versionDigest = ''d''\<rparr> \<lparr>pd_isAllowAutoResume = True\<rparr> sample_error s =
    Some (0, \<lparr>be_message = ''PauseDownload unsupport'', be_errorNum = CallResult.UN_SUPPORT, be_data = []\<rparr>, s)"
    using remote_commands [where digest = "\<lparr>vd_versionDigest = ''d''\<rparr>" and s = s and popt = "\<lparr>pd_isAllowAutoResume = True\<rparr>"
        and service = "UpdateService memory_device sample_kits" and be = sample_error,
        OF li.ipc_channel_axioms admin_privileged sample_info_ok TrueI]
    by (simp add: answer_ok_def delivered_def INT_CALL_SUCCESS_def)
qed

text \<open>
  C13. The queries of the service through proxy and stub: the client gets the struct and the error
  the service filled, for every reply with at most 128 elements in each vector, valid strings and
  component sizes below \<open>2 ^ 32\<close>.
\<close>

theorem remote_queries:
  assumes "ipc_channel I items utf8" and "\<forall>c. privileged caller (UpdaterSaInterfaceCode_code c)"
    and "UpgradeInfo_ok utf8 info" and "utf8 (vd_versionDigest digest)"
  shows "(answer_ok (both_ok utf8 (NewVersionInfo_ok utf8)) (ius_GetNewVersionInfo service info NewVersionInfo_default BusinessError_default s) \<longrightarrow>
      Proxy_GetNewVersionInfo I (Some (OnRemoteRequest I caller service)) info nv be s =
        delivered (nv, be) (ius_GetNewVersionInfo service info NewVersionInfo_default BusinessError_default s)) \<and>
    (utf8 (do_language dopt) \<and> df.wf (do_format dopt) \<and> answer_ok (both_ok utf8 (\<lambda>x. length (vi_componentDescriptions x) \<le> 128 \<and> list_all (ComponentDescription_ok utf8) (vi_componentDescriptions x))) (ius_GetNewVersionDescription service info digest dopt VersionDescriptionInfo_default BusinessError_default s) \<longrightarrow>
      Proxy_GetNewVersionDescription I (Some (OnRemoteRequest I caller service)) info digest dopt vd be s =
        delivered (vd, be) (ius_GetNewVersionDescription service info digest dopt VersionDescriptionInfo_default BusinessError_default s)) \<and>
    (answer_ok (both_ok utf8 (\<lambda>x. utf8 (cv_osVersion x) \<and> utf8 (cv_deviceName x) \<and> length (cv_versionComponents x) \<le> 128 \<and>
      list_all (VersionComponent_ok utf8) (cv_versionComponents x))) (ius_GetCurrentVersionInfo service info CurrentVersionInfo_default BusinessError_default s) \<longrightarrow>
      Proxy_GetCurrentVersionInfo I (Some (OnRemoteRequest I caller service)) info cv be s =
        delivered (cv, be) (ius_GetCurrentVersionInfo service info CurrentVersionInfo_default BusinessError_default s)) \<and>
    (utf8 (do_language dopt) \<and> df.wf (do_format dopt) \<and> answer_ok (both_ok utf8 (\<lambda>x. length (vi_componentDescriptions x) \<le> 128 \<and> list_all (ComponentDescription_ok utf8) (vi_componentDescriptions x))) (ius_GetCurrentVersionDescription service info dopt VersionDescriptionInfo_default BusinessError_default s) \<longrightarrow>
      Proxy_GetCurrentVersionDescription I (Some (OnRemoteRequest I caller service)) info dopt vd be s =
        delivered (vd, be) (ius_GetCurrentVersionDescription service info dopt VersionDescriptionInfo_default BusinessError_default s)) \<and>
    (answer_ok (both_ok utf8 (\<lambda>x. TaskBody_ok utf8 (ti_taskBody x))) (ius_GetTaskInfo service info TaskInfo_default BusinessError_default s) \<longrightarrow>
      Proxy_GetTaskInfo I (Some (OnRemoteRequest I caller service)) info ti be s =
        delivered (ti, be) (ius_GetTaskInfo service info TaskInfo_default BusinessError_default s)) \<and>
    (answer_ok (both_ok utf8 (\<lambda>_. True)) (ius_GetUpgradePolicy service info UpgradePolicy_default BusinessError_default s) \<longrightarrow>
      Proxy_GetUpgradePolicy I (Some (OnRemoteRequest I caller service)) info po be s =
        delivered (po, be) (ius_GetUpgradePolicy service info UpgradePolicy_default BusinessError_default s))"
proof -
  have priv: "privileged caller (UpdaterSaInterfaceCode_code c)" for c using assms(2) by blast
  show ?thesis
    by (intro conjI impI; (elim conjE)?; rule ipc_channel.remote_GetNewVersionInfo [OF assms(1) priv assms(3)]
        ipc_channel.remote_GetNewVersionDescription [OF assms(1) priv assms(3) assms(4)]
        ipc_channel.remote_GetCurrentVersionInfo [OF assms(1) priv assms(3)]
        ipc_channel.remote_GetCurrentVersionDescription [OF assms(1) priv assms(3)]
        ipc_channel.remote_GetTaskInfo [OF assms(1) priv assms(3)]
        ipc_channel.remote_GetUpgradePolicy [OF assms(1) priv assms(3)]; simp)
qed

definition empty_service :: "MemDevice Service" where
  "empty_service = Service_new empty_device"

theorem remote_queries_witness:
  "\<exists>s'. Proxy_GetUpgradePolicy list_ipc (Some (OnRemoteRequest list_ipc admin (UpdateService memory_device sample_kits)))
      sample_info UpgradePolicy_default BusinessError_default empty_service =
    Some (0, (\<lparr>upo_downloadStrategy = False, upo_autoUpgradeStrategy = False,
      upo_autoUpgradePeriods = (\<lparr>up_start = 120, up_end = 240\<rparr>, \<lparr>up_start = 0, up_end = 0\<rparr>)\<rparr>, BusinessError_default), s')"
proof -
  obtain s' where "ius_GetUpgradePolicy (UpdateService memory_device sample_kits) sample_info UpgradePolicy_default BusinessError_default
      empty_service =
    Some (0, (\<lparr>upo_downloadStrategy = False, upo_autoUpgradeStrategy = False,
      upo_autoUpgradePeriods = (\<lparr>up_start = 120, up_end = 240\<rparr>, \<lparr>up_start = 0, up_end = 0\<rparr>)\<rparr>, BusinessError_default), s')"
    by (simp add: UpdateService_def UpdateService_GetUpgradePolicy_def online_def reading_def GetOnlineUpdater_def empty_service_def
        Service_new_def World_new_def sample_info_def Impl_GetUpgradePolicy_def ObtainBool_def memory_device_def empty_device_def
        UpgradePolicy_default_def ONE_HOUR_MINUTES_def NIGHT_UPGRADE_START_HOUR_def NIGHT_UPGRADE_END_HOUR_def INT_CALL_SUCCESS_def)
  then show ?thesis
    using remote_queries [where service = "UpdateService memory_device sample_kits" and s = empty_service and po = UpgradePolicy_default
        and be = BusinessError_default, OF li.ipc_channel_axioms admin_privileged sample_info_ok TrueI]
    by (simp add: answer_ok_def [of "both_ok _ (\<lambda>_. True)"] both_ok_def delivered_def no_error_ok INT_CALL_SUCCESS_def)
qed

end
