(* ===== verification/Startup_Manager.thy ===== *)
theory Startup_Manager
  imports Update_Service
begin

text \<open>
  The life of the service process (\<open>services/startup\<close>): what it does when it starts, why it was
  started, when it is idle, and how it arranges its next start before it exits. The clock since
  boot, the system ability manager and the timers are parameters.
\<close>

section \<open>Access to the business modules\<close>

datatype AccessType = DEFAULT | FIRMWARE | PARAM | DOWNLOAD | REPORT

fun AccessType_code :: "AccessType \<Rightarrow> int" where
  "AccessType_code DEFAULT = 0"
| "AccessType_code AccessType.FIRMWARE = 1"
| "AccessType_code AccessType.PARAM = 2"
| "AccessType_code AccessType.DOWNLOAD = 3"
| "AccessType_code REPORT = 4"

definition AccessType_less :: "AccessType \<Rightarrow> AccessType \<Rightarrow> bool" where
  "AccessType_less a b = (AccessType_code a < AccessType_code b)"

datatype IAccess = DefaultAccess | FirmwareAccess

fun AccessFactory_GetInstance :: "AccessType \<Rightarrow> IAccess" where
  "AccessFactory_GetInstance AccessType.FIRMWARE = FirmwareAccess"
| "AccessFactory_GetInstance _ = DefaultAccess"

definition ACCESS_TYPES :: "AccessType list" where
  "ACCESS_TYPES = [AccessType.FIRMWARE]"

fun Access_IsIdle :: "'x Platform \<Rightarrow> IAccess \<Rightarrow> 'x World \<Rightarrow> bool" where
  "Access_IsIdle E DefaultAccess w = True"
| "Access_IsIdle E FirmwareAccess w = Manager_IsIdle E w"

fun Access_GetScheduleTasks :: "IAccess \<Rightarrow> ScheduleTask list" where
  "Access_GetScheduleTasks DefaultAccess = []"
| "Access_GetScheduleTasks FirmwareAccess = Manager_GetScheduleTasks"

fun Access_Exit :: "IAccess \<Rightarrow> bool" where
  "Access_Exit DefaultAccess = True"
| "Access_Exit FirmwareAccess = Manager_Exit"

text \<open>The map of the access manager; its flag \<open>isRemoteIdle_\<close> is part of the service state.\<close>

type_synonym AccessMap = "(AccessType \<times> IAccess option) list"

definition AccessManager_IsIdle :: "'x Platform \<Rightarrow> AccessMap \<Rightarrow> 'x World \<Rightarrow> bool" where
  "AccessManager_IsIdle E accessMap w =
     (if \<not> w_remoteIdle w then False
      else list_all (\<lambda>(type, access). case access of None \<Rightarrow> True | Some a \<Rightarrow> Access_IsIdle E a w) accessMap)"

definition AccessManager_GetScheduleTasks :: "AccessMap \<Rightarrow> ScheduleTask list" where
  "AccessManager_GetScheduleTasks accessMap =
     concat (map (\<lambda>(type, access). case access of None \<Rightarrow> [] | Some a \<Rightarrow> Access_GetScheduleTasks a) accessMap)"

definition AccessManager_Exit :: "AccessMap \<Rightarrow> bool" where
  "AccessManager_Exit accessMap =
     list_all (\<lambda>(type, access). case access of None \<Rightarrow> True | Some a \<Rightarrow> Access_Exit a) accessMap"

definition AccessManager_Register :: "AccessType \<Rightarrow> IAccess option \<Rightarrow> AccessMap \<Rightarrow> bool \<times> AccessMap" where
  "AccessManager_Register type access accessMap =
     (case access of None \<Rightarrow> (False, accessMap)
      | Some a \<Rightarrow> (True, om_assign AccessType_less type (Some a) accessMap))"

definition AccessManager_Unregister :: "AccessType \<Rightarrow> AccessMap \<Rightarrow> bool \<times> AccessMap" where
  "AccessManager_Unregister type accessMap =
     (if om_find AccessType_less type accessMap = None then (False, accessMap)
      else (True, om_erase AccessType_less type accessMap))"

text \<open>\<open>Init\<close> of an access object; \<open>drop_db\<close> is the deletion of the database file.\<close>

fun Access_Init ::
  "'x Platform \<Rightarrow> ('x \<Rightarrow> 'x) \<Rightarrow> StartupReason \<Rightarrow> IAccess \<Rightarrow> AccessMap \<times> 'x World \<Rightarrow> AccessMap \<times> 'x World" where
  "Access_Init E drop_db startupReason DefaultAccess aw = aw"
| "Access_Init E drop_db startupReason FirmwareAccess aw =
     (let w = Manager_Init E drop_db startupReason (snd aw)
      in (snd (AccessManager_Register AccessType.FIRMWARE (Some FirmwareAccess) (fst aw)), w))"

section \<open>Schedule manager\<close>

definition TaskManage :: "ScheduleConfig \<Rightarrow> ScheduleTask \<Rightarrow> ScheduleTask" where
  "TaskManage config scheduleTask = scheduleTask\<lparr>st_minDelayTime := sg_pullupInterval config\<rparr>"

definition ScheduleManager_IdleCheck ::
  "'x Platform \<Rightarrow> ScheduleConfig \<Rightarrow> AccessMap \<Rightarrow> ScheduleTask \<Rightarrow> 'x World \<Rightarrow> bool \<times> ScheduleTask" where
  "ScheduleManager_IdleCheck E config accessMap scheduleTask w =
     (if \<not> AccessManager_IsIdle E accessMap w then (False, scheduleTask)
      else (True, TaskManage config scheduleTask))"

definition ScheduleManager_Exit ::
  "'x Platform \<Rightarrow> (uint64_t \<Rightarrow> int32_t) \<Rightarrow> AccessMap \<Rightarrow> ScheduleTask \<Rightarrow> 'x World \<Rightarrow> bool \<times> 'x World" where
  "ScheduleManager_Exit E timer accessMap scheduleTask w =
     (if \<not> AccessManager_Exit accessMap then (False, w) else Schedule E timer scheduleTask w)"

section \<open>Alarms\<close>

datatype AlarmType = STARTUP_TIME_LOOPER | FIRMWARE_TIME_LOOPER | PARAM_TIME_LOOPER

fun AlarmType_code :: "AlarmType \<Rightarrow> int" where
  "AlarmType_code STARTUP_TIME_LOOPER = 1"
| "AlarmType_code FIRMWARE_TIME_LOOPER = 2"
| "AlarmType_code PARAM_TIME_LOOPER = 3"

definition AlarmType_less :: "AlarmType \<Rightarrow> AlarmType \<Rightarrow> bool" where
  "AlarmType_less a b = (AlarmType_code a < AlarmType_code b)"

interpretation alarms: std_map AlarmType_less
  by unfold_locales (auto simp: AlarmType_less_def)

definition GetLooperInterval :: "AlarmType \<Rightarrow> int32_t" where
  "GetLooperInterval alarmType = (if alarmType = STARTUP_TIME_LOOPER then 60 else 10)"

definition SECOND_MILLIS :: int64_t where
  "SECOND_MILLIS = 1000"

text \<open>The timer library, given as a parameter, on its own state.\<close>

record 't UtilsTimer =
  ut_Setup :: "'t \<Rightarrow> 't"
  ut_Register :: "int64_t \<Rightarrow> 't \<Rightarrow> uint32_t \<times> 't"
  ut_Unregister :: "uint32_t \<Rightarrow> 't \<Rightarrow> 't"

record TimerManager =
  tm_timer :: bool
  tm_lastRegisterTimeIdMap :: "(AlarmType \<times> uint32_t) list"

definition BuildTimer :: "'t UtilsTimer \<Rightarrow> TimerManager \<times> 't \<Rightarrow> TimerManager \<times> 't" where
  "BuildTimer T m = (if \<not> tm_timer (fst m) then ((fst m)\<lparr>tm_timer := True\<rparr>, ut_Setup T (snd m)) else m)"

definition TimerManager_UnregisterRepeatingAlarm :: "'t UtilsTimer \<Rightarrow> AlarmType \<Rightarrow> TimerManager \<times> 't \<Rightarrow> TimerManager \<times> 't" where
  "TimerManager_UnregisterRepeatingAlarm T alarmType m =
     (case om_find AlarmType_less alarmType (tm_lastRegisterTimeIdMap (fst m)) of
        None \<Rightarrow> m
      | Some lastRegisterTimerId \<Rightarrow>
          ((fst m)\<lparr>tm_lastRegisterTimeIdMap := om_erase AlarmType_less alarmType (tm_lastRegisterTimeIdMap (fst m))\<rparr>,
           if tm_timer (fst m) then ut_Unregister T lastRegisterTimerId (snd m) else snd m))"

definition TimerManager_RegisterRepeatingAlarm ::
  "'t UtilsTimer \<Rightarrow> AlarmType \<Rightarrow> int64_t \<Rightarrow> TimerManager \<times> 't \<Rightarrow> TimerManager \<times> 't" where
  "TimerManager_RegisterRepeatingAlarm T alarmType repeatingTime m =
     (let m = BuildTimer T m;
          m = TimerManager_UnregisterRepeatingAlarm T alarmType m;
          (registerTimerId, t) = ut_Register T (repeatingTime * SECOND_MILLIS) (snd m)
      in ((fst m)\<lparr>tm_lastRegisterTimeIdMap :=
             om_insert AlarmType_less alarmType registerTimerId (tm_lastRegisterTimeIdMap (fst m))\<rparr>, t))"

text \<open>The alarms of one looper and the functions they run.\<close>

datatype BusinessAlarmType = STARTUP | AUTO_UPGRADE | TIME_CHANGED | NIGHT_UPGRADE | REMIND

fun BusinessAlarmType_code :: "BusinessAlarmType \<Rightarrow> int" where
  "BusinessAlarmType_code STARTUP = 1"
| "BusinessAlarmType_code BusinessAlarmType.AUTO_UPGRADE = 2"
| "BusinessAlarmType_code BusinessAlarmType.TIME_CHANGED = 3"
| "BusinessAlarmType_code BusinessAlarmType.NIGHT_UPGRADE = 4"
| "BusinessAlarmType_code REMIND = 5"

definition BusinessAlarmType_less :: "BusinessAlarmType \<Rightarrow> BusinessAlarmType \<Rightarrow> bool" where
  "BusinessAlarmType_less a b = (BusinessAlarmType_code a < BusinessAlarmType_code b)"

type_synonym 'w AlarmCallbacks = "(BusinessAlarmType \<times> ('w \<Rightarrow> 'w)) list"

definition Alarm_RegisterRepeatingAlarm :: "BusinessAlarmType \<Rightarrow> ('w \<Rightarrow> 'w) \<Rightarrow> 'w AlarmCallbacks \<Rightarrow> 'w AlarmCallbacks" where
  "Alarm_RegisterRepeatingAlarm alarmType callback callbackMap = om_assign BusinessAlarmType_less alarmType callback callbackMap"

definition Alarm_UnregisterRepeatingAlarm :: "BusinessAlarmType \<Rightarrow> 'w AlarmCallbacks \<Rightarrow> 'w AlarmCallbacks" where
  "Alarm_UnregisterRepeatingAlarm alarmType callbackMap = om_erase BusinessAlarmType_less alarmType callbackMap"

definition TimeLooper :: "'w AlarmCallbacks \<Rightarrow> 'w \<Rightarrow> 'w" where
  "TimeLooper callbackMap w = foldl (\<lambda>w p. snd p w) w callbackMap"

text \<open>Registering an alarm again replaces its timer: the old one is unregistered, the new one is kept.\<close>

lemma register_replaces_timer:
  assumes "om_ordered AlarmType_less (tm_lastRegisterTimeIdMap m)" and "tm_timer m"
    and "om_find AlarmType_less a (tm_lastRegisterTimeIdMap m) = Some i"
    and "ut_Register T (d * SECOND_MILLIS) (ut_Unregister T i t) = (n, t')"
  shows "\<exists>m'. TimerManager_RegisterRepeatingAlarm T a d (m, t) = (m', t') \<and>
    om_ordered AlarmType_less (tm_lastRegisterTimeIdMap m') \<and> om_find AlarmType_less a (tm_lastRegisterTimeIdMap m') = Some n"
  using assms alarms.find_erase [OF assms(1), of a a] alarms.same_refl [of a]
    alarms.find_insert [OF alarms.ordered_erase [OF assms(1), of a], of a a n]
    alarms.ordered_insert [OF alarms.ordered_erase [OF assms(1), of a], of a n]
  by (simp add: TimerManager_RegisterRepeatingAlarm_def BuildTimer_def TimerManager_UnregisterRepeatingAlarm_def)

section \<open>Startup manager\<close>

text \<open>
  \<open>su_looper\<close> says that the idle loop is registered with the repeating alarm, \<open>su_unloads\<close> counts
  the requests to unload the service.
\<close>

record StartupManager =
  su_lastIdleCheckTime :: int64_t
  su_scheduleTask :: ScheduleTask
  su_accessMap :: AccessMap
  su_config :: ScheduleConfig
  su_looper :: bool
  su_unloads :: nat

definition StartupManager_new :: "'x Platform \<Rightarrow> 'x World \<Rightarrow> StartupManager" where
  "StartupManager_new E w =
     \<lparr>su_lastIdleCheckTime = pl_timestamp E (w_ext w), su_scheduleTask = ScheduleTask_new, su_accessMap = [],
      su_config = ScheduleConfig_new, su_looper = False, su_unloads = 0\<rparr>"

definition BOOT_COMPLETE_SIMULATE_DURATION :: int64_t where
  "BOOT_COMPLETE_SIMULATE_DURATION = 60"

definition IsInRebootDuration :: "int64_t \<Rightarrow> bool" where
  "IsInRebootDuration bootSeconds = (sint bootSeconds \<le> sint BOOT_COMPLETE_SIMULATE_DURATION)"

definition GetStartupReason :: "'x Platform \<Rightarrow> int64_t \<Rightarrow> 'x World \<Rightarrow> StartupReason \<times> 'x World" where
  "GetStartupReason E bootSeconds w =
     (if IsInRebootDuration bootSeconds then (DEVICE_REBOOT, w)
      else let reasonFromSp = StartupReason_of (ObtainInt E PROCESS_RESTART_REASON (StartupReason_code UNKNOWN) (w_ext w))
           in if reasonFromSp = UNKNOWN then (SCHEDULE_TASK, w)
              else (reasonFromSp, do_ext (Prefs_Remove E PROCESS_RESTART_REASON) w))"

definition BASE_DIR_INFOS :: "DirInfo list" where
  "BASE_DIR_INFOS =
     [\<lparr>dir_dirName = ''/data/service/el1/public/update'', dir_dirPermissions = 489, dir_isAllowDestroyContents = False\<rparr>,
      \<lparr>dir_dirName = ''/data/service/el1/public/update/dupdate_engine'', dir_dirPermissions = 448, dir_isAllowDestroyContents = False\<rparr>,
      \<lparr>dir_dirName = ''/data/service/el1/public/update/dupdate_engine/databases'', dir_dirPermissions = 448, dir_isAllowDestroyContents = False\<rparr>,
      \<lparr>dir_dirName = ''/data/service/el1/public/update/dupdate_engine/preferences'', dir_dirPermissions = 448, dir_isAllowDestroyContents = False\<rparr>,
      \<lparr>dir_dirName = FILES_ROOT_PATH, dir_dirPermissions = 448, dir_isAllowDestroyContents = True\<rparr>,
      \<lparr>dir_dirName = ''/data/update'', dir_dirPermissions = 504, dir_isAllowDestroyContents = False\<rparr>,
      \<lparr>dir_dirName = DUPDATE_ENGINE_PACKAGE_ROOT_PATH, dir_dirPermissions = 504, dir_isAllowDestroyContents = True\<rparr>]"

definition StartupManager_Init ::
  "'x Platform \<Rightarrow> (string \<Rightarrow> Json option) \<Rightarrow> ('x \<Rightarrow> 'x) \<Rightarrow> int64_t \<Rightarrow> StartupManager \<Rightarrow> 'x World \<Rightarrow> StartupManager \<times> 'x World" where
  "StartupManager_Init E parse drop_db bootSeconds su w =
     (let config = InitConfig E parse w (su_config su);
          (startupReason, w) = GetStartupReason E bootSeconds w;
          w = (if startupReason = PROCESS_ENV_RESET
               then w\<lparr>w_ext := DestroyBaseDirectory E BASE_DIR_INFOS (w_ext w)\<rparr> else w);
          w = w\<lparr>w_ext := InitAndCreateBaseDirs E BASE_DIR_INFOS (w_ext w)\<rparr>;
          (accessMap, w) = foldl (\<lambda>aw type. Access_Init E drop_db startupReason (AccessFactory_GetInstance type) aw)
                             (su_accessMap su, w) ACCESS_TYPES
      in (su\<lparr>su_config := config, su_accessMap := accessMap\<rparr>, w))"

definition StartupManager_Start ::
  "'x Platform \<Rightarrow> (string \<Rightarrow> Json option) \<Rightarrow> ('x \<Rightarrow> 'x) \<Rightarrow> int64_t \<Rightarrow> StartupManager \<Rightarrow> 'x World \<Rightarrow> StartupManager \<times> 'x World" where
  "StartupManager_Start E parse drop_db bootSeconds su w =
     (let (su, w) = StartupManager_Init E parse drop_db bootSeconds su w in (su\<lparr>su_looper := True\<rparr>, w))"

definition StartupManager_IdleCheck :: "'x Platform \<Rightarrow> StartupManager \<Rightarrow> 'x World \<Rightarrow> bool \<times> StartupManager" where
  "StartupManager_IdleCheck E su w =
     (let now = pl_timestamp E (w_ext w)
      in if \<bar>sint (now - su_lastIdleCheckTime su)\<bar> < sint (sg_idleCheckInterval (su_config su)) then (False, su)
         else let su = su\<lparr>su_lastIdleCheckTime := now\<rparr>;
                  (isIdle, task) = ScheduleManager_IdleCheck E (su_config su) (su_accessMap su) (su_scheduleTask su) w
              in (isIdle, su\<lparr>su_scheduleTask := task\<rparr>))"

definition PreExit :: "'x Platform \<Rightarrow> (uint64_t \<Rightarrow> int32_t) \<Rightarrow> StartupManager \<Rightarrow> 'x World \<Rightarrow> bool \<times> 'x World" where
  "PreExit E timer su w = ScheduleManager_Exit E timer (su_accessMap su) (su_scheduleTask su) w"

text \<open>\<open>samgr\<close> says that the system ability manager is there.\<close>

definition SAExit :: "bool \<Rightarrow> StartupManager \<Rightarrow> StartupManager" where
  "SAExit samgr su = (if samgr then su\<lparr>su_unloads := su_unloads su + 1\<rparr> else su)"

text \<open>One tick of the idle loop.\<close>

definition IdleLoop_tick ::
  "'x Platform \<Rightarrow> (uint64_t \<Rightarrow> int32_t) \<Rightarrow> bool \<Rightarrow> StartupManager \<Rightarrow> 'x World \<Rightarrow> StartupManager \<times> 'x World" where
  "IdleLoop_tick E timer samgr su w =
     (let (idle, su) = StartupManager_IdleCheck E su w
      in if \<not> idle then (su, w)
         else let (ready, w) = PreExit E timer su w
              in if \<not> ready then (su, w) else (SAExit samgr su, w))"

definition OnStart ::
  "'x Platform \<Rightarrow> (string \<Rightarrow> Json option) \<Rightarrow> ('x \<Rightarrow> 'x) \<Rightarrow> int64_t \<Rightarrow> 'x World \<Rightarrow> StartupManager \<times> 'x World" where
  "OnStart E parse drop_db bootSeconds w =
     (let w = w\<lparr>w_started := True\<rparr> in StartupManager_Start E parse drop_db bootSeconds (StartupManager_new E w) w)"

section \<open>Properties\<close>

lemma started_access: "su_accessMap (fst (OnStart E parse drop_db bootSeconds w)) = [(AccessType.FIRMWARE, Some FirmwareAccess)]"
  by (simp add: OnStart_def StartupManager_Start_def StartupManager_Init_def ACCESS_TYPES_def AccessManager_Register_def
      StartupManager_new_def split_beta Let_def)

context platform
begin

lemma save_int_db:
  "w_tasks rows (do_ext (SaveInt E k i) w) = w_tasks rows w"
  "w_components rows (do_ext (SaveInt E k i) w) = w_components rows w"
  using rows_ext_only [OF rows_Prefs_Save [of k "PrefInt i" "w_ext w"]] by (simp_all add: SaveInt_def w_db_defs)

lemma idle_iff: "Manager_IsIdle E w \<longleftrightarrow> \<not> FirmwareStatusCache_IsChecking E w \<and> w_tasks rows w = []"
  by (simp add: Manager_IsIdle_def query_exists)

lemma tick_exits:
  assumes "su_accessMap su = [(AccessType.FIRMWARE, Some FirmwareAccess)]"
  shows "su_unloads (fst (IdleLoop_tick E timer samgr su w)) \<noteq> su_unloads su \<longleftrightarrow>
      samgr \<and> sint (sg_idleCheckInterval (su_config su)) \<le> \<bar>sint (pl_timestamp E (w_ext w) - su_lastIdleCheckTime su)\<bar> \<and>
      w_remoteIdle w \<and> \<not> FirmwareStatusCache_IsChecking E w \<and> w_tasks rows w = [] \<and>
      timer (sg_pullupInterval (su_config su) * 1000) = 0"
    and "w_tasks rows (snd (IdleLoop_tick E timer samgr su w)) = w_tasks rows w"
    and "w_components rows (snd (IdleLoop_tick E timer samgr su w)) = w_components rows w"
  using assms
  by (auto simp: IdleLoop_tick_def StartupManager_IdleCheck_def ScheduleManager_IdleCheck_def AccessManager_IsIdle_def idle_iff
      save_int_db PreExit_def ScheduleManager_Exit_def AccessManager_Exit_def Manager_Exit_def TaskManage_def SAExit_def Let_def split_beta
      Schedule_def ONE_SECOND_MILLISECONDS_def)

end

text \<open>
  C14. The service process unloads itself exactly when it has nothing to do: at a tick of the idle
  loop at least the idle interval after the last look, with no client registered, no version
  check running and no task stored, and only when its next start could be scheduled after the
  pull-up interval. No tick touches the stored task.
\<close>

theorem unloads_exactly_when_idle:
  assumes "platform E rows" and "clients_ok w"
    and "su_accessMap su = su_accessMap (fst (OnStart E parse drop_db bootSeconds w0))"
  shows "(su_unloads (fst (IdleLoop_tick E timer True su w)) \<noteq> su_unloads su \<longleftrightarrow>
      sint (sg_idleCheckInterval (su_config su)) \<le> \<bar>sint (pl_timestamp E (w_ext w) - su_lastIdleCheckTime su)\<bar> \<and>
      w_clients w = [] \<and> \<not> FirmwareStatusCache_IsChecking E w \<and> w_tasks rows w = [] \<and>
      timer (sg_pullupInterval (su_config su) * 1000) = 0) \<and>
    w_tasks rows (snd (IdleLoop_tick E timer True su w)) = w_tasks rows w"
  using platform.tick_exits [OF assms(1), of su timer True w] assms(2,3)
  by (simp add: started_access clients_ok_def)

definition started_world :: "MemDevice World" where
  "started_world = (World_new empty_device)\<lparr>w_started := True\<rparr>"

definition waiting_manager :: StartupManager where
  "waiting_manager =
     (fst (OnStart memory_device (\<lambda>_. None) (\<lambda>x. x) 1000 started_world))
       \<lparr>su_lastIdleCheckTime := pl_timestamp memory_device empty_device - 300\<rparr>"

theorem unloads_exactly_when_idle_witness:
  "su_unloads (fst (IdleLoop_tick memory_device (\<lambda>_. 0) True waiting_manager started_world)) \<noteq> su_unloads waiting_manager"
proof -
  have "clients_ok started_world" by (simp add: clients_ok_def started_world_def World_new_def um.ordered_Nil)
  moreover have "su_accessMap waiting_manager = su_accessMap (fst (OnStart memory_device (\<lambda>_. None) (\<lambda>x. x) 1000 started_world))"
    by (simp add: waiting_manager_def)
  moreover have "sg_idleCheckInterval (su_config waiting_manager) = 300"
    by (simp add: waiting_manager_def OnStart_def StartupManager_Start_def StartupManager_Init_def StartupManager_new_def
        InitConfig_def ScheduleConfig_new_def IDLE_CHECK_INTERVAL_def split_beta Let_def)
  moreover have "w_tasks md_rows started_world = []" "\<not> FirmwareStatusCache_IsChecking memory_device started_world"
    "w_clients started_world = []"
    using empty_device_tasks
    by (simp_all add: started_world_def World_new_def w_tasks_def FirmwareStatusCache_IsChecking_def
        StatusCache_IsChecking_def StatusCache_new_def)
  ultimately show ?thesis
    using unloads_exactly_when_idle [OF md.platform_axioms, of started_world waiting_manager "\<lambda>_. None" "\<lambda>x. x" 1000 started_world "\<lambda>_. 0"]
    by (simp add: waiting_manager_def [of] started_world_def World_new_def)
qed

end
