(* ===== verification/System_Steps.thy ===== *)
theory System_Steps
  imports World_Keeper Service_Remote Startup_Manager
begin

text \<open>
  The service as a state machine: requests of any caller through the stub, deaths of clients, the
  threads of the flows, the initialisation thread, network changes, ticks of the idle loop and
  restarts of the process, in any order. What the tables and the client map satisfy is shown to
  be an invariant of it.
\<close>

section \<open>Steps\<close>

text \<open>
  A thread of a flow runs to its end in one step, on the flow manager its executor was made by; what
  it meets (\<open>N\<close>, \<open>transfers\<close>, \<open>SI\<close>) is arbitrary. A restart can happen in every state: nothing but the
  device survives it.
\<close>

inductive system_step ::
  "'x Platform \<Rightarrow> 'x UpdaterKits \<Rightarrow> 'p Ipc \<Rightarrow> (string \<Rightarrow> Json option) \<Rightarrow> ('x \<Rightarrow> 'x) \<Rightarrow>
   'x Service \<times> StartupManager \<Rightarrow> 'x Service \<times> StartupManager \<Rightarrow> bool"
  for E :: "'x Platform" and K :: "'x UpdaterKits" and I :: "'p Ipc" and parse :: "string \<Rightarrow> Json option" and drop_db :: "'x \<Rightarrow> 'x"
where
  request: "OnRemoteRequest I caller (UpdateService E K) code data reply sv = Some (ret, reply', sv') \<Longrightarrow>
    system_step E K I parse drop_db (sv, su) (sv', su)"
| client_died: "system_step E K I parse drop_db (sv, su) (sv\<lparr>sv_world := OnRemoteDied info (sv_world sv)\<rparr>, su)"
| check_thread: "sv_flows sv = before @ fm # after \<Longrightarrow> fl_executor fm = Some FirmwareStep.CHECK_STEP \<Longrightarrow>
    run_check E N fm (sv_world sv) = Some (fm', w) \<Longrightarrow>
    system_step E K I parse drop_db (sv, su) (sv\<lparr>sv_world := w, sv_flows := before @ fm' # after\<rparr>, su)"
| download_thread: "sv_flows sv = before @ fm # after \<Longrightarrow> fl_executor fm = Some FirmwareStep.DOWNLOAD_STEP \<Longrightarrow>
    run_download E create transfers fm (sv_world sv) = Some (fm', w) \<Longrightarrow>
    system_step E K I parse drop_db (sv, su) (sv\<lparr>sv_world := w, sv_flows := before @ fm' # after\<rparr>, su)"
| install_thread: "sv_flows sv = before @ fm # after \<Longrightarrow> fl_executor fm = Some FirmwareStep.INSTALL_STEP \<Longrightarrow>
    fl_executeMode fm = Some (InstallMode m) \<Longrightarrow>
    run_install E SI (im_installType m) fm (sv_world sv) = Some (fm', w) \<Longrightarrow>
    system_step E K I parse drop_db (sv, su) (sv\<lparr>sv_world := w, sv_flows := before @ fm' # after\<rparr>, su)"
| apply_thread: "sv_flows sv = before @ fm # after \<Longrightarrow> fl_executor fm = Some FirmwareStep.APPLY_STEP \<Longrightarrow>
    run_apply E fm (sv_world sv) = Some (rebooting, fm', w) \<Longrightarrow>
    system_step E K I parse drop_db (sv, su) (sv\<lparr>sv_world := w, sv_flows := before @ fm' # after\<rparr>, su)"
| init_thread: "DelayInit E startupReason (sv_world sv) = Some (fm, w) \<Longrightarrow>
    system_step E K I parse drop_db (sv, su)
      (sv\<lparr>sv_world := w, sv_flows := sv_flows sv @ (case fm of None \<Rightarrow> [] | Some fm \<Rightarrow> [fm])\<rparr>, su)"
| net_change: "system_step E K I parse drop_db (sv, su) (sv\<lparr>sv_world := NetChanged E netType (sv_world sv)\<rparr>, su)"
| idle_tick: "IdleLoop_tick E (uk_timer K) samgr su (sv_world sv) = (su', w) \<Longrightarrow>
    system_step E K I parse drop_db (sv, su) (sv\<lparr>sv_world := w\<rparr>, su')"
| restart: "OnStart E parse drop_db bootSeconds (World_new (w_ext (sv_world sv))) = (su', w) \<Longrightarrow>
    system_step E K I parse drop_db (sv, su) ((Service_new (w_ext w))\<lparr>sv_world := w\<rparr>, su')"

inductive_cases system_stepE: "system_step E K I parse drop_db (sv, su) (sv', su')"

text \<open>The state before the process has started for the first time.\<close>

definition system_init :: "'x Platform \<Rightarrow> 'x \<Rightarrow> 'x Service \<times> StartupManager" where
  "system_init E x = (Service_new x, StartupManager_new E (World_new x))"

section \<open>Predicates that survive every step\<close>

text \<open>What a call of the service returns in its state.\<close>

definition keeps_call :: "('s \<Rightarrow> bool) \<Rightarrow> ('r \<times> 'o \<times> 's) option \<Rightarrow> bool" where
  "keeps_call Q c \<longleftrightarrow> (\<forall>ret out s. c = Some (ret, out, s) \<longrightarrow> Q s)"

lemma stub_answer_keeps [keeps]: "keeps_call Q c \<Longrightarrow> keeps_call Q (stub_answer wr reply c)"
  by (auto simp: keeps_call_def stub_answer_def split: if_splits)

lemma stub_result_keeps [keeps]: "keeps_call Q c \<Longrightarrow> keeps_call Q (stub_result reply c)"
  by (auto simp: keeps_call_def stub_result_def)

lemma online_keeps:
  assumes "\<And>sv. P (sv_world sv) \<Longrightarrow> keeps_call (\<lambda>sv. P (sv_world sv)) (call sv)" and "P (sv_world sv)"
  shows "keeps_call (\<lambda>sv. P (sv_world sv)) (online info out call sv)"
proof (cases "GetOnlineUpdater info sv = (None, sv)")
  case True
  then show ?thesis using assms(2) by (simp add: online_def keeps_call_def)
next
  case False
  then obtain sv' where "GetOnlineUpdater info sv = (Some UpdateServiceImplFirmware, sv')" "with_updaters sv sv'"
    using GetOnlineUpdater_cases [of info sv] by auto
  then show ?thesis using assms(1) [of sv'] assms(2) with_updaters_world [of sv sv'] by (simp add: online_def)
qed

text \<open>
  A predicate of the service state as in \<open>world_keeper\<close> that also survives what the service
  itself and the start of the process change.
\<close>

locale service_keeper = world_keeper E rows P
  for E :: "'x Platform" and rows :: "'x \<Rightarrow> string \<Rightarrow> ValuesBucket list" and P :: "'x World \<Rightarrow> bool" +
  fixes K :: "'x UpdaterKits" and drop_db :: "'x \<Rightarrow> 'x"
  assumes register: "P w \<Longrightarrow> P (RegisterUpdateCallback info cb w)"
    and unregister: "P w \<Longrightarrow> P (UnregisterUpdateCallback info w)"
    and started: "P w \<Longrightarrow> P (w\<lparr>w_started := True\<rparr>)"
    and fresh: "P w \<Longrightarrow> P (World_new (w_ext w))"
    and clean: "P w \<Longrightarrow> P (w\<lparr>w_ext := snd (uk_RebootAndCleanUserData K m c (w_ext w))\<rparr>)"
    and sdcard: "P w \<Longrightarrow> P (w\<lparr>w_ext := snd (uk_RebootAndInstallSdcardPackage K m ps (w_ext w))\<rparr>)"
    and dropped: "P w \<Longrightarrow> P (w\<lparr>w_ext := drop_db (w_ext w)\<rparr>)"
begin

abbreviation Q :: "'x Service \<Rightarrow> bool" where
  "Q sv \<equiv> P (sv_world sv)"

lemma reading_keeps: "Q sv \<Longrightarrow> keeps_call Q (reading c sv)"
  by (simp add: reading_def keeps_call_def split_beta)

lemma impl_keeps:
  "Q sv \<Longrightarrow> keeps_call Q (Impl_CheckNewVersion E sv)"
  "Q sv \<Longrightarrow> keeps_call Q (Impl_Download E opts be sv)"
  "Q sv \<Longrightarrow> keeps_call Q (Impl_Upgrade E uo be sv)"
  "Q sv \<Longrightarrow> keeps_call Q (Some (Impl_ClearError E be sv))"
  "Q sv \<Longrightarrow> keeps_call Q (Some (Impl_TerminateUpgrade E timer be sv))"
  "Q sv \<Longrightarrow> keeps_call Q (Some (Impl_SetUpgradePolicy E policy be sv))"
  "Q sv \<Longrightarrow> keeps_call Q (Some (Impl_Cancel E n be sv))"
  by (auto simp: keeps_call_def Impl_CheckNewVersion_def Impl_Download_def Impl_Upgrade_def Impl_ClearError_def
      Impl_TerminateUpgrade_def Impl_SetUpgradePolicy_def Impl_Cancel_def Let_def split_beta
      intro!: keeps split: if_splits dest!: flows_start)

lemma service_ops_keep:
  assumes "Q sv"
  shows "keeps_call Q (ius_CheckNewVersion (UpdateService E K) info sv)"
    "keeps_call Q (ius_Download (UpdateService E K) info digest opts be sv)"
    "keeps_call Q (ius_PauseDownload (UpdateService E K) info digest popts be sv)"
    "keeps_call Q (ius_ResumeDownload (UpdateService E K) info digest ropts be sv)"
    "keeps_call Q (ius_Upgrade (UpdateService E K) info digest uopts be sv)"
    "keeps_call Q (ius_ClearError (UpdateService E K) info digest copts be sv)"
    "keeps_call Q (ius_TerminateUpgrade (UpdateService E K) info be sv)"
    "keeps_call Q (ius_GetNewVersionInfo (UpdateService E K) info nvi be sv)"
    "keeps_call Q (ius_GetNewVersionDescription (UpdateService E K) info digest dopts vdi be sv)"
    "keeps_call Q (ius_GetCurrentVersionInfo (UpdateService E K) info cvi be sv)"
    "keeps_call Q (ius_GetCurrentVersionDescription (UpdateService E K) info dopts vdi be sv)"
    "keeps_call Q (ius_GetTaskInfo (UpdateService E K) info ti be sv)"
    "keeps_call Q (ius_SetUpgradePolicy (UpdateService E K) info policy be sv)"
    "keeps_call Q (ius_GetUpgradePolicy (UpdateService E K) info policy be sv)"
    "keeps_call Q (ius_Cancel (UpdateService E K) info n be sv)"
    "keeps_call Q (ius_FactoryReset (UpdateService E K) be sv)"
    "keeps_call Q (ius_ApplyNewVersion (UpdateService E K) info misc pkg be sv)"
    "keeps_call Q (ius_VerifyUpgradePackage (UpdateService E K) pkg key be sv)"
    "keeps_call Q (ius_RegisterUpdateCallback (UpdateService E K) info cb sv)"
    "keeps_call Q (ius_UnregisterUpdateCallback (UpdateService E K) info sv)"
  using assms
  by (simp_all add: UpdateService_def UpdateService_CheckNewVersion_def UpdateService_Download_def UpdateService_PauseDownload_def
      UpdateService_ResumeDownload_def UpdateService_Upgrade_def UpdateService_ClearError_def UpdateService_TerminateUpgrade_def
      UpdateService_GetNewVersionInfo_def UpdateService_GetNewVersionDescription_def UpdateService_GetCurrentVersionInfo_def
      UpdateService_GetCurrentVersionDescription_def UpdateService_GetTaskInfo_def UpdateService_SetUpgradePolicy_def
      UpdateService_GetUpgradePolicy_def UpdateService_Cancel_def online_keeps impl_keeps reading_keeps)
    (simp_all add: keeps_call_def UpdateService_FactoryReset_def Restorer_FactoryReset_def UpdateService_ApplyNewVersion_def
      LocalUpdater_ApplyNewVersion_def UpdateService_VerifyUpgradePackage_def UpdateService_RegisterUpdateCallback_def
      UpdateService_UnregisterUpdateCallback_def split_beta Let_def register unregister clean sdcard)

lemmas stub_defs = CheckNewVersionStub_def DownloadVersionStub_def PauseDownloadStub_def ResumeDownloadStub_def DoUpdateStub_def
  ClearErrorStub_def TerminateUpgradeStub_def SetUpgradePolicyStub_def GetUpgradePolicyStub_def GetNewVersionStub_def
  GetNewVersionDescriptionStub_def GetCurrentVersionStub_def GetCurrentVersionDescriptionStub_def GetTaskInfoStub_def
  RegisterUpdateCallbackStub_def UnregisterUpdateCallbackStub_def CancelStub_def FactoryResetStub_def ApplyNewVersionStub_def
  VerifyUpgradePackageStub_def

lemma handlers_keep:
  assumes "map_of (requestFuncMap I) code = Some f" and "Q sv"
  shows "keeps_call Q (f (Some (UpdateService E K)) data reply sv)"
proof -
  have "f \<in> snd ` set (requestFuncMap I)" using assms(1) by (force dest: map_of_SomeD)
  then show ?thesis
    by (auto simp: requestFuncMap_def stub_defs split_beta Let_def intro!: keeps service_ops_keep assms(2))
      (simp add: keeps_call_def assms(2))
qed

lemma request_keeps:
  assumes "OnRemoteRequest I caller (UpdateService E K) code data reply sv = Some (ret, reply', sv')" and "Q sv"
  shows "Q sv'"
  using assms handlers_keep [of I code _ sv]
  by (auto simp: OnRemoteRequest_def keeps_call_def split_beta Let_def split: if_splits option.splits)

lemma dirs_keep [keeps]:
  "P w \<Longrightarrow> P (w\<lparr>w_ext := InitAndCreateBaseDirs E ds (w_ext w)\<rparr>)"
  "P w \<Longrightarrow> P (w\<lparr>w_ext := DestroyBaseDirectory E ds (w_ext w)\<rparr>)"
  using foldl_inv [of "\<lambda>x. rows x = rows (w_ext w)" "w_ext w" ds]
  by (auto simp: InitAndCreateBaseDirs_def DestroyBaseDirectory_def CreatDirWithPermission_def rows_create_dir rows_DeleteFile
      intro!: device)

lemma prefs_keep [keeps]:
  "P w \<Longrightarrow> P (do_ext (Prefs_Remove E k) w)"
  "P w \<Longrightarrow> P (do_ext (Prefs_RemoveAll E) w)"
  using rows_prefs_delete rows_prefs_clear rows_Prefs_RefreshSync
  by (auto simp: Prefs_Remove_def Prefs_RemoveAll_def split_beta Let_def intro!: device_op)

lemma Manager_Init_keeps: "P w \<Longrightarrow> P (Manager_Init E drop_db r w)"
  unfolding Manager_Init_def Let_def
  by (rule dirs_keep(1), split if_split) (intro conjI impI dropped prefs_keep dirs_keep(2))

lemma GetStartupReason_keeps: "P w \<Longrightarrow> P (snd (GetStartupReason E bootSeconds w))"
  by (auto simp: GetStartupReason_def Let_def intro!: keeps)

lemma start_keeps:
  assumes "OnStart E parse drop_db bootSeconds w = (su', w')" and "P w"
  shows "P w'"
proof -
  define v where "v = snd (GetStartupReason E bootSeconds (w\<lparr>w_started := True\<rparr>))"
  define r where "r = fst (GetStartupReason E bootSeconds (w\<lparr>w_started := True\<rparr>))"
  define u where "u = (if r = PROCESS_ENV_RESET then v\<lparr>w_ext := DestroyBaseDirectory E BASE_DIR_INFOS (w_ext v)\<rparr> else v)"
  have "P v" unfolding v_def by (intro GetStartupReason_keeps started assms(2))
  then have "P u" by (simp add: u_def dirs_keep)
  moreover have "w' = Manager_Init E drop_db r (u\<lparr>w_ext := InitAndCreateBaseDirs E BASE_DIR_INFOS (w_ext u)\<rparr>)"
    using assms(1)
    by (auto simp: OnStart_def StartupManager_Start_def StartupManager_Init_def ACCESS_TYPES_def split_beta Let_def
        u_def v_def r_def)
  ultimately show ?thesis by (simp add: Manager_Init_keeps dirs_keep)
qed

lemma step_keeps: "system_step E K I parse drop_db s s' \<Longrightarrow> Q (fst s) \<Longrightarrow> Q (fst s')"
proof (induction rule: system_step.induct)
  case (idle_tick samgr su sv su' w)
  then show ?case
    by (auto simp: IdleLoop_tick_def PreExit_def ScheduleManager_Exit_def Schedule_def split_beta Let_def
        intro!: keeps split: if_splits)
qed (auto simp: OnRemoteDied_def intro!: keeps unregister dest: request_keeps threads_keep DelayInit_keeps
    start_keeps [OF _ fresh])

lemma reachable_keeps:
  assumes "(system_step E K I parse drop_db)\<^sup>*\<^sup>* s s'" and "Q (fst s)"
  shows "Q (fst s')"
  using assms by (induction rule: rtranclp_induct) (blast intro: step_keeps)+

end

section \<open>The invariant\<close>

text \<open>
  What is relied on besides the laws of the device: the updater kits write the command for the
  updater and leave the database alone, and deleting the database leaves empty tables.
\<close>

locale update_system = platform E rows
  for E :: "'x Platform" and rows :: "'x \<Rightarrow> string \<Rightarrow> ValuesBucket list" +
  fixes K :: "'x UpdaterKits" and drop_db :: "'x \<Rightarrow> 'x"
  assumes rows_clean: "rows (snd (uk_RebootAndCleanUserData K m c x)) = rows x"
    and rows_sdcard: "rows (snd (uk_RebootAndInstallSdcardPackage K m ps x)) = rows x"
    and rows_dropped: "rows (drop_db x) t = []"

sublocale update_system \<subseteq> ts: service_keeper E rows "tables_ok rows" K drop_db
proof (unfold_locales, goal_cases)
  case (1 w info cb)
  then show ?case
    by (simp add: tables_ok_state RegisterUpdateCallback_def UnregisterUpdateCallback_def SetRemoteIdle_def Let_def split: option.split)
next
  case (2 w info)
  then show ?case
    by (simp add: tables_ok_state UnregisterUpdateCallback_def SetRemoteIdle_def Let_def split: option.split)
next
  case (7 w)
  then show ?case by (simp add: tables_ok_state tables_state_def db_typed_def rows_dropped)
qed (simp_all add: tables_ok_state tables_state_def db_typed_def World_new_def rows_clean rows_sdcard)

lemma clients_sound_ok: "clients_ok (w\<lparr>w_started := True\<rparr>) \<longleftrightarrow> clients_sound w"
  by (auto simp: clients_ok_def clients_sound_def)

lemma clients_started: "clients_sound (w\<lparr>w_started := b\<rparr>) = clients_sound w"
  by (simp add: clients_sound_def)

sublocale update_system \<subseteq> cs: service_keeper E rows clients_sound K drop_db
proof (unfold_locales, goal_cases)
  case (1 w info cb)
  have "RegisterUpdateCallback info cb (w\<lparr>w_started := True\<rparr>) = (RegisterUpdateCallback info cb w)\<lparr>w_started := True\<rparr>"
    by (simp add: RegisterUpdateCallback_def UnregisterUpdateCallback_def SetRemoteIdle_def Let_def split: option.split)
  then show ?case using register_refines [of "w\<lparr>w_started := True\<rparr>" info cb] 1 by (simp add: clients_sound_ok)
next
  case (2 w info)
  have "UnregisterUpdateCallback info (w\<lparr>w_started := True\<rparr>) = (UnregisterUpdateCallback info w)\<lparr>w_started := True\<rparr>"
    by (simp add: UnregisterUpdateCallback_def SetRemoteIdle_def Let_def split: option.split)
  then show ?case using unregister_refines [of "w\<lparr>w_started := True\<rparr>" info] 2 by (simp add: clients_sound_ok)
next
  case (4 w)
  then show ?case by (simp add: clients_sound_def World_new_def um.ordered_Nil)
qed (simp_all add: clients_sound_def)

lemma tick_access: "su_accessMap (fst (IdleLoop_tick E timer samgr su w)) = su_accessMap su"
  by (simp add: IdleLoop_tick_def StartupManager_IdleCheck_def ScheduleManager_IdleCheck_def SAExit_def split_beta Let_def)

lemma reachable_access:
  assumes "(system_step E K I parse drop_db)\<^sup>*\<^sup>* s s'" and "su_accessMap (snd s) \<in> {[], [(AccessType.FIRMWARE, Some FirmwareAccess)]}"
  shows "su_accessMap (snd s') \<in> {[], [(AccessType.FIRMWARE, Some FirmwareAccess)]}"
  using assms
proof (induction rule: rtranclp_induct)
  case (step s1 s2)
  from step.hyps(2) show ?case
  proof (cases rule: system_step.cases)
    case (idle_tick samgr su sv su' w)
    then show ?thesis using step.IH step.prems tick_access [of E "uk_timer K" samgr su "sv_world sv"] by simp
  next
    case (restart bootSeconds sv su' w su)
    then show ?thesis using started_access [of E parse drop_db bootSeconds "World_new (w_ext (sv_world sv))"] by simp
  qed (use step.IH step.prems in auto)
qed simp

context update_system
begin

lemma reachable_state:
  assumes "(system_step E K I parse drop_db)\<^sup>*\<^sup>* (system_init E x) (sv, su)" and "tables_ok rows (World_new x)"
  shows "tables_ok rows (sv_world sv)" and "clients_sound (sv_world sv)"
  using ts.reachable_keeps [OF assms(1)] cs.reachable_keeps [OF assms(1)] assms(2)
  by (simp_all add: system_init_def Service_new_def clients_sound_def World_new_def um.ordered_Nil)

end

text \<open>
  C1. The invariant of the running service. From a device with consistent tables, after any
  sequence of requests (of any caller, with any code and any parcel), client deaths, checks,
  downloads and installations with any outcome, network changes, idle ticks and restarts of the
  process: every stored row can be read back, at most one task is stored, the component table is
  empty exactly when the task table is, the clients are kept in the order of their keys, the
  service counts as used exactly while a client is registered, and nothing but the firmware module
  is asked whether the process may exit.
\<close>

theorem system_invariant:
  assumes "update_system E rows K drop_db"
    and "db_typed rows x" and "length (tasks_of rows x) \<le> 1" and "tasks_of rows x = [] \<longleftrightarrow> components_of rows x = []"
    and "(system_step E K I parse drop_db)\<^sup>*\<^sup>* (system_init E x) (sv, su)"
  shows "w_typed rows (sv_world sv) \<and> length (w_tasks rows (sv_world sv)) \<le> 1 \<and>
    (w_tasks rows (sv_world sv) = [] \<longleftrightarrow> w_components rows (sv_world sv) = []) \<and>
    om_ordered UpgradeInfo_less (w_clients (sv_world sv)) \<and>
    (w_remoteIdle (sv_world sv) \<longleftrightarrow> w_clients (sv_world sv) = []) \<and>
    su_accessMap su \<in> {[], [(AccessType.FIRMWARE, Some FirmwareAccess)]}"
proof -
  have "tables_ok rows (World_new x)" using assms(2-4) by (simp add: tables_ok_def w_db_defs World_new_def)
  note r = update_system.reachable_state [OF assms(1,5) this]
  have "su_accessMap su \<in> {[], [(AccessType.FIRMWARE, Some FirmwareAccess)]}"
    using reachable_access [OF assms(5)] by (simp add: system_init_def StartupManager_new_def)
  then show ?thesis using r by (simp add: tables_ok_def clients_sound_def)
qed

definition wipe_db :: "MemDevice \<Rightarrow> MemDevice" where
  "wipe_db m = m\<lparr>md_db := empty_list_db\<rparr>"

interpretation ms: update_system memory_device md_rows sample_kits wipe_db
  by unfold_locales (simp_all add: sample_kits_def wipe_db_def md_rows_def empty_list_db_def)

definition register_parcel :: "parcel_item list" where
  "register_parcel =
     [PToken IUpdateService_descriptor, PStr16 [], PStr16 [], PInt32 1, PStr16 [], PStr16 [], PRemote 7]"

lemma register_request:
  "\<exists>info. OnRemoteRequest list_ipc admin (UpdateService E K) 15 register_parcel [] sv =
     Some (2000, [], sv\<lparr>sv_world := RegisterUpdateCallback info (Some 7) (sv_world sv)\<rparr>)"
  by (simp add: OnRemoteRequest_def requestFuncMap_def list_ipc_def list_parcel_def register_parcel_def admin_def IsCallerValid_def
      IsPermissionGranted_def ROOT_UID_def RegisterUpdateCallbackStub_def ReadUpgradeInfo_def ReadStr_def stub_result_def
      UpdateService_def UpdateService_RegisterUpdateCallback_def INT_CALL_SUCCESS_def CALL_RESULT_TO_IPC_RESULT_def
      CALL_RESULT_OFFSET_def) blast

lemma registered_client: "clients_sound w \<Longrightarrow> w_clients (RegisterUpdateCallback info cb w) \<noteq> []"
  using register_refines [of "w\<lparr>w_started := True\<rparr>" info cb info] um.same_refl [of info]
  by (auto simp: clients_sound_ok RegisterUpdateCallback_def UnregisterUpdateCallback_def SetRemoteIdle_def Let_def split: option.splits)

theorem system_invariant_witness:
  "\<exists>sv su. (system_step memory_device sample_kits list_ipc (\<lambda>_. None) wipe_db)\<^sup>*\<^sup>* (system_init memory_device empty_device) (sv, su) \<and>
    w_clients (sv_world sv) \<noteq> [] \<and> \<not> w_remoteIdle (sv_world sv) \<and> length (w_tasks md_rows (sv_world sv)) \<le> 1"
proof -
  let ?step = "system_step memory_device sample_kits list_ipc (\<lambda>_. None) wipe_db"
  let ?init = "system_init memory_device empty_device"
  have db: "db_typed md_rows empty_device" "length (tasks_of md_rows empty_device) \<le> 1"
    "tasks_of md_rows empty_device = [] \<longleftrightarrow> components_of md_rows empty_device = []"
    by (simp_all add: db_typed_def tasks_of_def components_of_def md_rows_def empty_device_def empty_list_db_def)
  obtain su1 w1 where start: "OnStart memory_device (\<lambda>_. None) wipe_db 1000 (World_new (w_ext (sv_world (fst ?init)))) = (su1, w1)"
    by (rule prod.exhaust)
  define sv1 where "sv1 = (Service_new (w_ext w1))\<lparr>sv_world := w1\<rparr>"
  have s1: "?step\<^sup>*\<^sup>* ?init (sv1, su1)"
    using system_step.restart [OF start, of sample_kits list_ipc "snd ?init"] by (simp add: sv1_def)
  obtain info where "OnRemoteRequest list_ipc admin (UpdateService memory_device sample_kits) 15 register_parcel [] sv1 =
      Some (2000, [], sv1\<lparr>sv_world := RegisterUpdateCallback info (Some 7) (sv_world sv1)\<rparr>)"
    using register_request by blast
  from system_step.request [OF this] s1
  have s2: "?step\<^sup>*\<^sup>* ?init (sv1\<lparr>sv_world := RegisterUpdateCallback info (Some 7) (sv_world sv1)\<rparr>, su1)"
    by (meson rtranclp.rtrancl_into_rtrancl)
  have "clients_sound (sv_world sv1)"
    using system_invariant [OF ms.update_system_axioms db s1] by (simp add: clients_sound_def)
  then show ?thesis
    using s2 system_invariant [OF ms.update_system_axioms db s2] registered_client [of "sv_world sv1" info "Some 7"] by auto
qed

end
