(* ===== verification/Js_Engine.thy ===== *)
theory Js_Engine
  imports Update_Prelude "HOL-Library.State_Monad"
begin

text \<open>
  The JavaScript engine behind the binding (\<open>frameworks/js/napi\<close>). N-API is not part of the
  repository: its functions are the fields of the record \<open>napi\<close>, an argument of every definition
  of the binding, and what the binding relies on is stated as the laws of the locale
  \<open>napi_engine\<close>, in terms of what can be observed of the engine (\<open>js_obs\<close>). A value is identified
  with what a handle denotes. An out parameter is passed in and handed back, since the engine may
  leave it as it was.
\<close>

section \<open>Functions of the engine\<close>

type_synonym napi_status = int32_t

definition napi_ok :: napi_status where
  "napi_ok = 0"

datatype napi_valuetype =
    napi_undefined | napi_null | napi_boolean | napi_number | napi_string | napi_symbol
  | napi_object | napi_function | napi_external | napi_bigint

text \<open>
  \<open>'v\<close> are values, \<open>'r\<close> references, \<open>'d\<close> the deferreds of promises, \<open>'w\<close> asynchronous works and \<open>'h\<close>
  states of the engine. \<open>np_wild\<close> is the content of an uninitialised local variable. The data
  pointer of an asynchronous work is the number of the session it belongs to.
\<close>

record ('v, 'r, 'd, 'w, 'h) napi =
  np_nullptr :: 'v
  np_wild :: 'v
  np_null_ref :: 'r
  np_null_deferred :: 'd
  np_null_work :: 'w
  np_create_object :: "'v \<Rightarrow> ('h, napi_status \<times> 'v) state"
  np_create_array_with_length :: "size_t \<Rightarrow> 'v \<Rightarrow> ('h, napi_status \<times> 'v) state"
  np_create_string_utf8 :: "string \<Rightarrow> 'v \<Rightarrow> ('h, napi_status \<times> 'v) state"
  np_create_int32 :: "int32_t \<Rightarrow> 'v \<Rightarrow> ('h, napi_status \<times> 'v) state"
  np_create_int64 :: "int64_t \<Rightarrow> 'v \<Rightarrow> ('h, napi_status \<times> 'v) state"
  np_create_uint32 :: "uint32_t \<Rightarrow> 'v \<Rightarrow> ('h, napi_status \<times> 'v) state"
  np_create_error :: "'v \<Rightarrow> 'v \<Rightarrow> 'v \<Rightarrow> ('h, napi_status \<times> 'v) state"
  np_get_undefined :: "'v \<Rightarrow> ('h, napi_status \<times> 'v) state"
  np_set_named_property :: "'v \<Rightarrow> string \<Rightarrow> 'v \<Rightarrow> ('h, napi_status) state"
  np_set_element :: "'v \<Rightarrow> uint32_t \<Rightarrow> 'v \<Rightarrow> ('h, napi_status) state"
  np_has_named_property :: "'v \<Rightarrow> string \<Rightarrow> bool \<Rightarrow> ('h, napi_status \<times> bool) state"
  np_get_named_property :: "'v \<Rightarrow> string \<Rightarrow> 'v \<Rightarrow> ('h, napi_status \<times> 'v) state"
  np_is_array :: "'v \<Rightarrow> bool \<Rightarrow> ('h, napi_status \<times> bool) state"
  np_get_array_length :: "'v \<Rightarrow> uint32_t \<Rightarrow> ('h, napi_status \<times> uint32_t) state"
  np_get_element :: "'v \<Rightarrow> uint32_t \<Rightarrow> 'v \<Rightarrow> ('h, napi_status \<times> 'v) state"
  np_typeof :: "'v \<Rightarrow> napi_valuetype \<Rightarrow> ('h, napi_status \<times> napi_valuetype) state"
  np_get_value_int32 :: "'v \<Rightarrow> int32_t \<Rightarrow> ('h, napi_status \<times> int32_t) state"
  np_get_value_uint32 :: "'v \<Rightarrow> uint32_t \<Rightarrow> ('h, napi_status \<times> uint32_t) state"
  np_get_value_bool :: "'v \<Rightarrow> bool \<Rightarrow> ('h, napi_status \<times> bool) state"
  np_get_value_string_utf8 :: "'v \<Rightarrow> size_t \<Rightarrow> ('h, napi_status \<times> string) state"
  np_strict_equals :: "'v \<Rightarrow> 'v \<Rightarrow> bool \<Rightarrow> ('h, napi_status \<times> bool) state"
  np_throw :: "'v \<Rightarrow> ('h, napi_status) state"
  np_define_properties :: "'v \<Rightarrow> (string \<times> 'v) list \<Rightarrow> ('h, napi_status) state"
  np_create_reference :: "'v \<Rightarrow> uint32_t \<Rightarrow> 'r \<Rightarrow> ('h, napi_status \<times> 'r) state"
  np_get_reference_value :: "'r \<Rightarrow> 'v \<Rightarrow> ('h, napi_status \<times> 'v) state"
  np_delete_reference :: "'r \<Rightarrow> ('h, napi_status) state"
  np_create_promise :: "'d \<Rightarrow> 'v \<Rightarrow> ('h, napi_status \<times> 'd \<times> 'v) state"
  np_resolve_deferred :: "'d \<Rightarrow> 'v \<Rightarrow> ('h, napi_status) state"
  np_reject_deferred :: "'d \<Rightarrow> 'v \<Rightarrow> ('h, napi_status) state"
  np_create_async_work :: "'v \<Rightarrow> uint32_t \<Rightarrow> 'w \<Rightarrow> ('h, napi_status \<times> 'w) state"
  np_queue_async_work :: "'w \<Rightarrow> ('h, napi_status) state"
  np_delete_async_work :: "'w \<Rightarrow> ('h, napi_status) state"
  np_open_handle_scope :: "('h, napi_status) state"
  np_close_handle_scope :: "('h, napi_status) state"

section \<open>What can be observed\<close>

text \<open>
  \<open>JsObject m\<close> is an ordinary object with the own properties \<open>m\<close>, \<open>JsNumber i\<close> a number that is an
  integer; everything the binding has no use for is \<open>JsOther\<close> with its type.
\<close>

datatype 'v js_view =
    JsUndefined | JsNull | JsBoolean bool | JsNumber int | JsString string
  | JsObject "string \<Rightarrow> 'v option" | JsArray "'v list" | JsFunction | JsOther napi_valuetype

fun typeof_view :: "'v js_view \<Rightarrow> napi_valuetype" where
  "typeof_view JsUndefined = napi_undefined"
| "typeof_view JsNull = napi_null"
| "typeof_view (JsBoolean b) = napi_boolean"
| "typeof_view (JsNumber i) = napi_number"
| "typeof_view (JsString s) = napi_string"
| "typeof_view (JsObject m) = napi_object"
| "typeof_view (JsArray xs) = napi_object"
| "typeof_view JsFunction = napi_function"
| "typeof_view (JsOther t) = t"

datatype 'v settlement = Pending | Resolved 'v | Rejected 'v

text \<open>
  \<open>jo_ready\<close>: the engine can run, no exception is pending. \<open>jo_live\<close>: the values that exist.
  \<open>jo_ref\<close>: the value of a reference that was not deleted. \<open>jo_text\<close>: the string made of the bytes
  given to \<open>napi_create_string_utf8\<close>.
\<close>

record ('v, 'r, 'd, 'w, 'h) js_obs =
  jo_ready :: "'h \<Rightarrow> bool"
  jo_live :: "'h \<Rightarrow> 'v set"
  jo_view :: "'h \<Rightarrow> 'v \<Rightarrow> 'v js_view"
  jo_thrown :: "'h \<Rightarrow> 'v option"
  jo_ref :: "'h \<Rightarrow> 'r \<Rightarrow> 'v option"
  jo_deferred :: "'h \<Rightarrow> 'd \<Rightarrow> 'v settlement option"
  jo_work :: "'h \<Rightarrow> 'w \<Rightarrow> bool"
  jo_text :: "string \<Rightarrow> string"

text \<open>The names every object inherits.\<close>

definition inherited_names :: "string list" where
  "inherited_names = [''__proto__'', ''__defineGetter__'', ''__defineSetter__'', ''__lookupGetter__'',
     ''__lookupSetter__'', ''constructor'', ''hasOwnProperty'', ''isPrototypeOf'',
     ''propertyIsEnumerable'', ''toLocaleString'', ''toString'', ''valueOf'']"

definition own_name :: "string \<Rightarrow> bool" where
  "own_name k \<longleftrightarrow> k \<notin> set inherited_names"

text \<open>References, deferreds and works are as before.\<close>

definition same_handles :: "('v, 'r, 'd, 'w, 'h) js_obs \<Rightarrow> 'h \<Rightarrow> 'h \<Rightarrow> bool" where
  "same_handles Ob h h' \<longleftrightarrow> jo_ref Ob h' = jo_ref Ob h \<and> jo_deferred Ob h' = jo_deferred Ob h \<and>
     jo_work Ob h' = jo_work Ob h"

text \<open>From \<open>h\<close> to \<open>h'\<close> only the values in \<open>S\<close> and new ones changed.\<close>

definition keeps_values :: "('v, 'r, 'd, 'w, 'h) js_obs \<Rightarrow> 'v set \<Rightarrow> 'h \<Rightarrow> 'h \<Rightarrow> bool" where
  "keeps_values Ob S h h' \<longleftrightarrow> jo_live Ob h \<subseteq> jo_live Ob h' \<and>
     (\<forall>w \<in> jo_live Ob h - S. jo_view Ob h' w = jo_view Ob h w)"

definition only_changes :: "('v, 'r, 'd, 'w, 'h) js_obs \<Rightarrow> 'v set \<Rightarrow> 'h \<Rightarrow> 'h \<Rightarrow> bool" where
  "only_changes Ob S h h' \<longleftrightarrow> jo_ready Ob h' \<and> keeps_values Ob S h h' \<and> same_handles Ob h h'"

section \<open>Laws\<close>

locale napi_engine =
  fixes N :: "('v, 'r, 'd, 'w, 'h) napi" and Ob :: "('v, 'r, 'd, 'w, 'h) js_obs"
  assumes not_thrown: "jo_ready Ob h \<Longrightarrow> jo_thrown Ob h = None"
    and null_not_live: "np_nullptr N \<notin> jo_live Ob h"
    and member_live: "jo_ready Ob h \<Longrightarrow> v \<in> jo_live Ob h \<Longrightarrow> jo_view Ob h v = JsObject m \<Longrightarrow> m k = Some w \<Longrightarrow> w \<in> jo_live Ob h"
    and element_live: "jo_ready Ob h \<Longrightarrow> v \<in> jo_live Ob h \<Longrightarrow> jo_view Ob h v = JsArray xs \<Longrightarrow> w \<in> set xs \<Longrightarrow> w \<in> jo_live Ob h"
    and array_size: "jo_ready Ob h \<Longrightarrow> v \<in> jo_live Ob h \<Longrightarrow> jo_view Ob h v = JsArray xs \<Longrightarrow> length xs < 2 ^ 32"
    and create_object: "jo_ready Ob h \<Longrightarrow>
      \<exists>v h'. run_state (np_create_object N v0) h = ((napi_ok, v), h') \<and> only_changes Ob {} h h' \<and>
        v \<in> jo_live Ob h' \<and> v \<notin> jo_live Ob h \<and> jo_view Ob h' v = JsObject Map.empty"
    and create_array: "jo_ready Ob h \<Longrightarrow> unat n < 2 ^ 32 \<Longrightarrow>
      \<exists>v xs h'. run_state (np_create_array_with_length N n v0) h = ((napi_ok, v), h') \<and> only_changes Ob {} h h' \<and>
        v \<in> jo_live Ob h' \<and> v \<notin> jo_live Ob h \<and> jo_view Ob h' v = JsArray xs \<and> length xs = unat n"
    and create_string: "jo_ready Ob h \<Longrightarrow>
      \<exists>v h'. run_state (np_create_string_utf8 N s v0) h = ((napi_ok, v), h') \<and> only_changes Ob {} h h' \<and>
        v \<in> jo_live Ob h' \<and> jo_view Ob h' v = JsString (jo_text Ob s)"
    and create_int32: "jo_ready Ob h \<Longrightarrow>
      \<exists>v h'. run_state (np_create_int32 N i v0) h = ((napi_ok, v), h') \<and> only_changes Ob {} h h' \<and>
        v \<in> jo_live Ob h' \<and> jo_view Ob h' v = JsNumber (sint i)"
    and create_uint32: "jo_ready Ob h \<Longrightarrow>
      \<exists>v h'. run_state (np_create_uint32 N u v0) h = ((napi_ok, v), h') \<and> only_changes Ob {} h h' \<and>
        v \<in> jo_live Ob h' \<and> jo_view Ob h' v = JsNumber (uint u)"
    and create_error: "jo_ready Ob h \<Longrightarrow> msg \<in> jo_live Ob h \<Longrightarrow> jo_view Ob h msg = JsString s \<Longrightarrow>
      \<exists>v m h'. run_state (np_create_error N (np_nullptr N) msg v0) h = ((napi_ok, v), h') \<and> only_changes Ob {} h h' \<and>
        v \<in> jo_live Ob h' \<and> v \<notin> jo_live Ob h \<and> jo_view Ob h' v = JsObject m"
    and get_undefined: "jo_ready Ob h \<Longrightarrow>
      \<exists>v h'. run_state (np_get_undefined N v0) h = ((napi_ok, v), h') \<and> only_changes Ob {} h h' \<and>
        v \<in> jo_live Ob h' \<and> jo_view Ob h' v = JsUndefined"
    and set_named: "jo_ready Ob h \<Longrightarrow> v \<in> jo_live Ob h \<Longrightarrow> jo_view Ob h v = JsObject m \<Longrightarrow> w \<in> jo_live Ob h \<Longrightarrow> own_name k \<Longrightarrow>
      \<exists>h'. run_state (np_set_named_property N v k w) h = (napi_ok, h') \<and> only_changes Ob {v} h h' \<and>
        jo_view Ob h' v = JsObject (m(k \<mapsto> w))"
    and set_element: "jo_ready Ob h \<Longrightarrow> v \<in> jo_live Ob h \<Longrightarrow> jo_view Ob h v = JsArray xs \<Longrightarrow> w \<in> jo_live Ob h \<Longrightarrow> unat i < length xs \<Longrightarrow>
      \<exists>h'. run_state (np_set_element N v i w) h = (napi_ok, h') \<and> only_changes Ob {v} h h' \<and>
        jo_view Ob h' v = JsArray (xs[unat i := w])"
    and has_named: "jo_ready Ob h \<Longrightarrow> v \<in> jo_live Ob h \<Longrightarrow> jo_view Ob h v = JsObject m \<Longrightarrow> own_name k \<Longrightarrow>
      run_state (np_has_named_property N v k b) h = ((napi_ok, m k \<noteq> None), h)"
    and has_named_missing: "jo_ready Ob h \<Longrightarrow> v \<in> jo_live Ob h \<Longrightarrow> jo_view Ob h v = JsUndefined \<Longrightarrow>
      \<exists>st. run_state (np_has_named_property N v k b) h = ((st, b), h) \<and> st \<noteq> napi_ok"
    and get_named: "jo_ready Ob h \<Longrightarrow> v \<in> jo_live Ob h \<Longrightarrow> jo_view Ob h v = JsObject m \<Longrightarrow> m k = Some w \<Longrightarrow> own_name k \<Longrightarrow>
      run_state (np_get_named_property N v k w0) h = ((napi_ok, w), h)"
    and is_array: "jo_ready Ob h \<Longrightarrow> v \<in> jo_live Ob h \<Longrightarrow> (\<And>t. jo_view Ob h v \<noteq> JsOther t) \<Longrightarrow>
      run_state (np_is_array N v b) h = ((napi_ok, \<exists>xs. jo_view Ob h v = JsArray xs), h)"
    and array_length: "jo_ready Ob h \<Longrightarrow> v \<in> jo_live Ob h \<Longrightarrow> jo_view Ob h v = JsArray xs \<Longrightarrow>
      run_state (np_get_array_length N v u) h = ((napi_ok, of_nat (length xs)), h)"
    and get_element: "jo_ready Ob h \<Longrightarrow> v \<in> jo_live Ob h \<Longrightarrow> jo_view Ob h v = JsArray xs \<Longrightarrow> unat i < length xs \<Longrightarrow>
      run_state (np_get_element N v i w0) h = ((napi_ok, xs ! unat i), h)"
    and type_of: "jo_ready Ob h \<Longrightarrow> v \<in> jo_live Ob h \<Longrightarrow>
      run_state (np_typeof N v t0) h = ((napi_ok, typeof_view (jo_view Ob h v)), h)"
    and value_int32: "jo_ready Ob h \<Longrightarrow> v \<in> jo_live Ob h \<Longrightarrow> jo_view Ob h v = JsNumber z \<Longrightarrow>
      run_state (np_get_value_int32 N v i) h = ((napi_ok, word_of_int z), h)"
    and value_int32_type: "jo_ready Ob h \<Longrightarrow> v \<in> jo_live Ob h \<Longrightarrow> typeof_view (jo_view Ob h v) \<noteq> napi_number \<Longrightarrow>
      \<exists>st. run_state (np_get_value_int32 N v i) h = ((st, i), h) \<and> st \<noteq> napi_ok"
    and value_uint32: "jo_ready Ob h \<Longrightarrow> v \<in> jo_live Ob h \<Longrightarrow> jo_view Ob h v = JsNumber z \<Longrightarrow> 0 \<le> z \<Longrightarrow> z < 2 ^ 32 \<Longrightarrow>
      run_state (np_get_value_uint32 N v u) h = ((napi_ok, word_of_int z), h)"
    and value_uint32_type: "jo_ready Ob h \<Longrightarrow> v \<in> jo_live Ob h \<Longrightarrow> typeof_view (jo_view Ob h v) \<noteq> napi_number \<Longrightarrow>
      \<exists>st. run_state (np_get_value_uint32 N v u) h = ((st, u), h) \<and> st \<noteq> napi_ok"
    and value_bool: "jo_ready Ob h \<Longrightarrow> v \<in> jo_live Ob h \<Longrightarrow> jo_view Ob h v = JsBoolean x \<Longrightarrow>
      run_state (np_get_value_bool N v b) h = ((napi_ok, x), h)"
    and value_bool_type: "jo_ready Ob h \<Longrightarrow> v \<in> jo_live Ob h \<Longrightarrow> typeof_view (jo_view Ob h v) \<noteq> napi_boolean \<Longrightarrow>
      \<exists>st. run_state (np_get_value_bool N v b) h = ((st, b), h) \<and> st \<noteq> napi_ok"
    and value_string: "jo_ready Ob h \<Longrightarrow> v \<in> jo_live Ob h \<Longrightarrow> jo_view Ob h v = JsString s \<Longrightarrow> 0 < n \<Longrightarrow>
      \<exists>c. run_state (np_get_value_string_utf8 N v n) h = ((napi_ok, take c s), h) \<and>
        (if length s < unat n then c = length s else c < unat n)"
    and strict_equals: "jo_ready Ob h \<Longrightarrow> v \<in> jo_live Ob h \<Longrightarrow> w \<in> jo_live Ob h \<Longrightarrow> jo_view Ob h v = JsFunction \<Longrightarrow>
      run_state (np_strict_equals N v w b) h = ((napi_ok, v = w), h)"
    and throw: "jo_ready Ob h \<Longrightarrow> v \<in> jo_live Ob h \<Longrightarrow>
      \<exists>h'. run_state (np_throw N v) h = (napi_ok, h') \<and> \<not> jo_ready Ob h' \<and> jo_thrown Ob h' = Some v \<and>
        keeps_values Ob {} h h' \<and> same_handles Ob h h'"
    and define_properties: "jo_ready Ob h \<Longrightarrow> v \<in> jo_live Ob h \<Longrightarrow> jo_view Ob h v = JsObject m \<Longrightarrow>
      (\<And>k w. (k, w) \<in> set ps \<Longrightarrow> w \<in> jo_live Ob h \<and> own_name k) \<Longrightarrow>
      \<exists>h'. run_state (np_define_properties N v ps) h = (napi_ok, h') \<and> only_changes Ob {v} h h' \<and>
        jo_view Ob h' v = JsObject (m ++ map_of (rev ps))"
    and create_reference: "jo_ready Ob h \<Longrightarrow> v \<in> jo_live Ob h \<Longrightarrow> 0 < u \<Longrightarrow>
      \<exists>r h'. run_state (np_create_reference N v u r0) h = ((napi_ok, r), h') \<and> jo_ready Ob h' \<and> keeps_values Ob {} h h' \<and>
        jo_ref Ob h r = None \<and> r \<noteq> np_null_ref N \<and> jo_ref Ob h' = (jo_ref Ob h)(r \<mapsto> v) \<and>
        jo_deferred Ob h' = jo_deferred Ob h \<and> jo_work Ob h' = jo_work Ob h"
    and reference_value: "jo_ready Ob h \<Longrightarrow> jo_ref Ob h r = Some v \<Longrightarrow>
      run_state (np_get_reference_value N r v0) h = ((napi_ok, v), h)"
    and reference_live: "jo_ref Ob h r = Some v \<Longrightarrow> v \<in> jo_live Ob h"
    and null_reference: "jo_ref Ob h (np_null_ref N) = None"
    and delete_reference: "jo_ready Ob h \<Longrightarrow> jo_ref Ob h r = Some v \<Longrightarrow>
      \<exists>h'. run_state (np_delete_reference N r) h = (napi_ok, h') \<and> jo_ready Ob h' \<and> keeps_values Ob {} h h' \<and>
        jo_ref Ob h' = (jo_ref Ob h)(r := None) \<and> jo_deferred Ob h' = jo_deferred Ob h \<and> jo_work Ob h' = jo_work Ob h"
    and create_promise: "jo_ready Ob h \<Longrightarrow>
      \<exists>d v h'. run_state (np_create_promise N d0 v0) h = ((napi_ok, d, v), h') \<and> jo_ready Ob h' \<and> keeps_values Ob {} h h' \<and>
        v \<in> jo_live Ob h' \<and> jo_deferred Ob h d = None \<and> jo_deferred Ob h' = (jo_deferred Ob h)(d \<mapsto> Pending) \<and>
        jo_ref Ob h' = jo_ref Ob h \<and> jo_work Ob h' = jo_work Ob h"
    and resolve_deferred: "jo_ready Ob h \<Longrightarrow> jo_deferred Ob h d = Some Pending \<Longrightarrow> v \<in> jo_live Ob h \<Longrightarrow>
      \<exists>h'. run_state (np_resolve_deferred N d v) h = (napi_ok, h') \<and> jo_ready Ob h' \<and> keeps_values Ob {} h h' \<and>
        jo_deferred Ob h' = (jo_deferred Ob h)(d \<mapsto> Resolved v) \<and> jo_ref Ob h' = jo_ref Ob h \<and> jo_work Ob h' = jo_work Ob h"
    and reject_deferred: "jo_ready Ob h \<Longrightarrow> jo_deferred Ob h d = Some Pending \<Longrightarrow> v \<in> jo_live Ob h \<Longrightarrow>
      \<exists>h'. run_state (np_reject_deferred N d v) h = (napi_ok, h') \<and> jo_ready Ob h' \<and> keeps_values Ob {} h h' \<and>
        jo_deferred Ob h' = (jo_deferred Ob h)(d \<mapsto> Rejected v) \<and> jo_ref Ob h' = jo_ref Ob h \<and> jo_work Ob h' = jo_work Ob h"
    and create_work: "jo_ready Ob h \<Longrightarrow> v \<in> jo_live Ob h \<Longrightarrow>
      \<exists>j h'. run_state (np_create_async_work N v sid j0) h = ((napi_ok, j), h') \<and> jo_ready Ob h' \<and> keeps_values Ob {} h h' \<and>
        \<not> jo_work Ob h j \<and> jo_work Ob h' = (jo_work Ob h)(j := True) \<and>
        jo_ref Ob h' = jo_ref Ob h \<and> jo_deferred Ob h' = jo_deferred Ob h"
    and queue_work: "jo_ready Ob h \<Longrightarrow> jo_work Ob h j \<Longrightarrow>
      \<exists>h'. run_state (np_queue_async_work N j) h = (napi_ok, h') \<and> only_changes Ob {} h h'"
    and delete_work: "jo_ready Ob h \<Longrightarrow> jo_work Ob h j \<Longrightarrow>
      \<exists>h'. run_state (np_delete_async_work N j) h = (napi_ok, h') \<and> jo_ready Ob h' \<and> keeps_values Ob {} h h' \<and>
        jo_work Ob h' = (jo_work Ob h)(j := False) \<and> jo_ref Ob h' = jo_ref Ob h \<and> jo_deferred Ob h' = jo_deferred Ob h"
    and open_scope: "jo_ready Ob h \<Longrightarrow> \<exists>h'. run_state (np_open_handle_scope N) h = (napi_ok, h') \<and> only_changes Ob {} h h'"
    and close_scope: "jo_ready Ob h \<Longrightarrow> \<exists>h'. run_state (np_close_handle_scope N) h = (napi_ok, h') \<and> only_changes Ob {} h h'"
    and strict_equals_any: "jo_ready Ob h \<Longrightarrow> v \<in> jo_live Ob h \<Longrightarrow> w \<in> jo_live Ob h \<Longrightarrow>
      \<exists>st x. run_state (np_strict_equals N v w b) h = ((st, x), h)"
    and resolve_null: "jo_ready Ob h \<Longrightarrow> \<exists>st. run_state (np_resolve_deferred N d (np_nullptr N)) h = (st, h) \<and> st \<noteq> napi_ok"
begin
end

end
