(* ===== verification/Js_Tree.thy ===== *)
theory Js_Tree
  imports Js_Engine
begin

text \<open>
  How the values the binding builds are described: \<open>js_tree\<close> is plain data, \<open>renders\<close> says that a
  value of the engine is that data, and that it shares no object with a given set of values. The
  rules are those of a small separation logic: \<open>building\<close> is an object that is being filled,
  \<open>extends\<close> the effect of code that adds properties to it, \<open>completes\<close> that of code that fills a
  new object and hangs it into another.
\<close>

datatype js_tree =
    TUndefined | TNumber int | TString string
  | TObject "(string \<times> js_tree) list" | TArray "js_tree list"
  | TError "(string \<times> js_tree) list"

text \<open>An error object has properties besides those listed.\<close>

inductive renders :: "('v, 'r, 'd, 'w, 'h) js_obs \<Rightarrow> 'v set \<Rightarrow> 'h \<Rightarrow> 'v \<Rightarrow> js_tree \<Rightarrow> bool"
  for Ob L h where
  renders_undefined: "v \<in> jo_live Ob h \<Longrightarrow> jo_view Ob h v = JsUndefined \<Longrightarrow> renders Ob L h v TUndefined"
| renders_number: "v \<in> jo_live Ob h \<Longrightarrow> jo_view Ob h v = JsNumber i \<Longrightarrow> renders Ob L h v (TNumber i)"
| renders_string: "v \<in> jo_live Ob h \<Longrightarrow> jo_view Ob h v = JsString s \<Longrightarrow> renders Ob L h v (TString s)"
| renders_object: "v \<in> jo_live Ob h \<Longrightarrow> v \<notin> L \<Longrightarrow> jo_view Ob h v = JsObject m \<Longrightarrow> distinct (map fst ps) \<Longrightarrow>
    dom m = fst ` set ps \<Longrightarrow> (\<forall>k t. (k, t) \<in> set ps \<longrightarrow> (\<exists>w. m k = Some w \<and> renders Ob L h w t)) \<Longrightarrow>
    renders Ob L h v (TObject ps)"
| renders_error: "v \<in> jo_live Ob h \<Longrightarrow> v \<notin> L \<Longrightarrow> jo_view Ob h v = JsObject m \<Longrightarrow> distinct (map fst ps) \<Longrightarrow>
    (\<forall>k t. (k, t) \<in> set ps \<longrightarrow> (\<exists>w. m k = Some w \<and> renders Ob L h w t)) \<Longrightarrow>
    renders Ob L h v (TError ps)"
| renders_array: "v \<in> jo_live Ob h \<Longrightarrow> v \<notin> L \<Longrightarrow> jo_view Ob h v = JsArray xs \<Longrightarrow> length xs = length ts \<Longrightarrow>
    (\<forall>i < length ts. renders Ob L h (xs ! i) (ts ! i)) \<Longrightarrow>
    renders Ob L h v (TArray ts)"

inductive_cases renders_numberE: "renders Ob L h v (TNumber i)"
inductive_cases renders_stringE: "renders Ob L h v (TString s)"
inductive_cases renders_objectE: "renders Ob L h v (TObject ps)"
inductive_cases renders_errorE: "renders Ob L h v (TError ps)"
inductive_cases renders_arrayE: "renders Ob L h v (TArray ts)"
inductive_cases renders_undefinedE: "renders Ob L h v TUndefined"

lemma renders_live: "renders Ob L h v t \<Longrightarrow> v \<in> jo_live Ob h"
  by (induction rule: renders.induct) auto

lemma renders_apart: "renders Ob L h v t \<Longrightarrow> L' \<subseteq> L \<Longrightarrow> renders Ob L' h v t"
proof (induction rule: renders.induct)
  case (renders_object v m ps)
  then show ?case by (intro renders.renders_object) (auto, blast)
next
  case (renders_error v m ps)
  then show ?case by (intro renders.renders_error) (auto, blast)
qed (auto intro: renders.intros)

lemma keeps_viewD: "keeps_values Ob S h h' \<Longrightarrow> w \<in> jo_live Ob h \<Longrightarrow> w \<notin> S \<Longrightarrow> jo_view Ob h' w = jo_view Ob h w"
  by (auto simp: keeps_values_def)

lemma keeps_liveD: "keeps_values Ob S h h' \<Longrightarrow> w \<in> jo_live Ob h \<Longrightarrow> w \<in> jo_live Ob h'"
  by (auto simp: keeps_values_def)

lemma renders_frame:
  assumes "renders Ob L h v t" and "keeps_values Ob S h h'" and "S \<subseteq> L"
    and "\<And>s. s \<in> S \<Longrightarrow> typeof_view (jo_view Ob h s) = napi_object"
  shows "renders Ob L h' v t"
  using assms(1)
proof (induction rule: renders.induct)
  case (renders_undefined v)
  then show ?case using assms(2) assms(4) [of v] by (cases "v \<in> S") (auto intro!: renders.renders_undefined simp: keeps_values_def)
next
  case (renders_number v i)
  then show ?case using assms(2) assms(4) [of v] by (cases "v \<in> S") (auto intro!: renders.renders_number simp: keeps_values_def)
next
  case (renders_string v s)
  then show ?case using assms(2) assms(4) [of v] by (cases "v \<in> S") (auto intro!: renders.renders_string simp: keeps_values_def)
next
  case (renders_object v m ps)
  then have "v \<notin> S" using assms(3) by blast
  with renders_object have "jo_view Ob h' v = jo_view Ob h v" "v \<in> jo_live Ob h'"
    using keeps_viewD [OF assms(2)] keeps_liveD [OF assms(2)] by blast+
  then show ?case using renders_object by (intro renders.renders_object [of v _ _ _ m]) (simp; blast)+
next
  case (renders_error v m ps)
  then have "v \<notin> S" using assms(3) by blast
  with renders_error have "jo_view Ob h' v = jo_view Ob h v" "v \<in> jo_live Ob h'"
    using keeps_viewD [OF assms(2)] keeps_liveD [OF assms(2)] by blast+
  then show ?case using renders_error by (intro renders.renders_error [of v _ _ _ m]) (simp; blast)+
next
  case (renders_array v xs ts)
  then have "v \<notin> S" using assms(3) by blast
  with renders_array have "jo_view Ob h' v = jo_view Ob h v" "v \<in> jo_live Ob h'"
    using keeps_viewD [OF assms(2)] keeps_liveD [OF assms(2)] by blast+
  then show ?case using renders_array by (intro renders.renders_array [of v _ _ _ xs]) (simp; blast)+
qed

section \<open>Frames\<close>

lemma keeps_values_refl: "keeps_values Ob S h h"
  by (simp add: keeps_values_def)

lemma keeps_values_trans: "keeps_values Ob S h h1 \<Longrightarrow> keeps_values Ob S h1 h2 \<Longrightarrow> keeps_values Ob S h h2"
  by (auto simp: keeps_values_def)

lemma only_changes_refl: "jo_ready Ob h \<Longrightarrow> only_changes Ob S h h"
  by (simp add: only_changes_def same_handles_def keeps_values_refl)

lemma only_changes_trans: "only_changes Ob S h h1 \<Longrightarrow> only_changes Ob S h1 h2 \<Longrightarrow> only_changes Ob S h h2"
  by (auto simp: only_changes_def same_handles_def intro: keeps_values_trans)

lemma only_changes_mono: "only_changes Ob S h h1 \<Longrightarrow> S \<subseteq> T \<Longrightarrow> only_changes Ob T h h1"
  by (auto simp: only_changes_def keeps_values_def)

lemma only_changes_new: "only_changes Ob S h h1 \<Longrightarrow> only_changes Ob T h1 h2 \<Longrightarrow> T \<inter> jo_live Ob h \<subseteq> S \<Longrightarrow> only_changes Ob S h h2"
proof -
  assume a: "only_changes Ob S h h1" "only_changes Ob T h1 h2" "T \<inter> jo_live Ob h \<subseteq> S"
  have "keeps_values Ob S h h2"
    unfolding keeps_values_def
  proof (intro conjI ballI)
    fix w assume w: "w \<in> jo_live Ob h - S"
    then have "w \<in> jo_live Ob h1 - T" using a by (auto simp: only_changes_def keeps_values_def)
    then show "jo_view Ob h2 w = jo_view Ob h w" using a(1,2) w by (simp add: only_changes_def keeps_values_def)
  qed (use a(1,2) in \<open>auto simp: only_changes_def keeps_values_def\<close>)
  then show ?thesis using a(1,2) by (auto simp: only_changes_def same_handles_def)
qed

lemma only_changes_ready: "only_changes Ob S h h' \<Longrightarrow> jo_ready Ob h'"
  by (simp add: only_changes_def)

lemma only_changes_live: "only_changes Ob S h h' \<Longrightarrow> v \<in> jo_live Ob h \<Longrightarrow> v \<in> jo_live Ob h'"
  by (auto simp: only_changes_def keeps_values_def)

lemma only_changes_view: "only_changes Ob S h h' \<Longrightarrow> v \<in> jo_live Ob h \<Longrightarrow> v \<notin> S \<Longrightarrow> jo_view Ob h' v = jo_view Ob h v"
  by (auto simp: only_changes_def keeps_values_def)

section \<open>Objects and arrays being filled\<close>

definition building :: "('v, 'r, 'd, 'w, 'h) js_obs \<Rightarrow> 'v set \<Rightarrow> string set \<Rightarrow> 'h \<Rightarrow> 'v \<Rightarrow> (string \<times> js_tree) list \<Rightarrow> bool" where
  "building Ob L B h v ps \<longleftrightarrow> jo_ready Ob h \<and> L \<subseteq> jo_live Ob h \<and> v \<in> jo_live Ob h \<and> v \<notin> L \<and>
     distinct (map fst ps) \<and>
     (\<exists>m. jo_view Ob h v = JsObject m \<and> dom m = fst ` set ps \<union> B \<and>
       (\<forall>k t. (k, t) \<in> set ps \<longrightarrow> (\<exists>w. m k = Some w \<and> renders Ob (insert v L) h w t)))"

definition building_array :: "('v, 'r, 'd, 'w, 'h) js_obs \<Rightarrow> 'v set \<Rightarrow> 'h \<Rightarrow> 'v \<Rightarrow> nat \<Rightarrow> js_tree list \<Rightarrow> bool" where
  "building_array Ob L h v n ts \<longleftrightarrow> jo_ready Ob h \<and> L \<subseteq> jo_live Ob h \<and> v \<in> jo_live Ob h \<and> v \<notin> L \<and> length ts \<le> n \<and>
     (\<exists>xs. jo_view Ob h v = JsArray xs \<and> length xs = n \<and>
       (\<forall>i < length ts. renders Ob (insert v L) h (xs ! i) (ts ! i)))"

lemma building_renders: "building Ob L {} h v ps \<Longrightarrow> renders Ob L h v (TObject ps)"
  unfolding building_def by (auto intro!: renders_object intro: renders_apart) (blast intro: renders_apart)

lemma building_renders_error: "building Ob L B h v ps \<Longrightarrow> renders Ob L h v (TError ps)"
  unfolding building_def by (auto intro!: renders_error intro: renders_apart) (blast intro: renders_apart)

lemma building_array_renders: "building_array Ob L h v (length ts) ts \<Longrightarrow> renders Ob L h v (TArray ts)"
  unfolding building_array_def by (auto intro!: renders_array intro: renders_apart)

lemma building_frame:
  assumes "building Ob L B h v ps" and "only_changes Ob {} h h'"
  shows "building Ob L B h' v ps"
proof -
  have "renders Ob (insert v L) h w t \<Longrightarrow> renders Ob (insert v L) h' w t" for w t
    using assms(2) renders_frame [of Ob "insert v L" h w t "{}" h'] by (simp add: only_changes_def)
  note frame = this
  obtain m where m: "jo_view Ob h v = JsObject m" "dom m = fst ` set ps \<union> B" "v \<in> jo_live Ob h" "v \<notin> L"
      "\<forall>k t. (k, t) \<in> set ps \<longrightarrow> (\<exists>w. m k = Some w \<and> renders Ob (insert v L) h w t)" "distinct (map fst ps)"
      "L \<subseteq> jo_live Ob h"
    using assms(1) unfolding building_def by blast
  have "jo_view Ob h' v = JsObject m" "jo_ready Ob h'" "jo_live Ob h \<subseteq> jo_live Ob h'"
    using assms(2) m(1,3) by (auto simp: only_changes_def keeps_values_def)
  then show ?thesis
    unfolding building_def using m(2-7) frame by (intro conjI exI [of _ m]) blast+
qed

lemma building_array_frame:
  assumes "building_array Ob L h v n ts" and "only_changes Ob {} h h'"
  shows "building_array Ob L h' v n ts"
proof -
  have "renders Ob (insert v L) h w t \<Longrightarrow> renders Ob (insert v L) h' w t" for w t
    using assms(2) renders_frame [of Ob "insert v L" h w t "{}" h'] by (simp add: only_changes_def)
  then show ?thesis
    using assms unfolding building_array_def only_changes_def keeps_values_def by (elim conjE exE) (intro conjI exI; auto)
qed

text \<open>Hanging a finished value into an object or an array.\<close>

lemma building_set:
  assumes "building Ob L B h0 v ps" and "only_changes Ob {} h0 h" and "renders Ob (jo_live Ob h0) h w t"
    and "only_changes Ob {v} h h'" and "\<And>m. jo_view Ob h v = JsObject m \<Longrightarrow> jo_view Ob h' v = JsObject (m(k \<mapsto> w))"
    and "k \<notin> fst ` set ps"
  shows "building Ob L B h' v (ps @ [(k, t)])" and "only_changes Ob {v} h0 h'"
proof -
  have b: "building Ob L B h v ps" using assms(1,2) by (rule building_frame)
  then obtain m where m: "jo_view Ob h v = JsObject m" "dom m = fst ` set ps \<union> B" "v \<in> jo_live Ob h" "v \<notin> L"
      "\<forall>k t. (k, t) \<in> set ps \<longrightarrow> (\<exists>w. m k = Some w \<and> renders Ob (insert v L) h w t)" "distinct (map fst ps)"
      "L \<subseteq> jo_live Ob h"
    unfolding building_def by blast
  have keep: "keeps_values Ob {v} h h'" using assms(4) by (simp add: only_changes_def)
  have frame: "renders Ob (insert v L) h w t \<Longrightarrow> renders Ob (insert v L) h' w t" for w t
    by (rule renders_frame [OF _ keep]) (use m(1) in auto)
  have "insert v L \<subseteq> jo_live Ob h0" using assms(1) by (auto simp: building_def)
  then have "renders Ob (insert v L) h w t" by (rule renders_apart [OF assms(3)])
  note new = frame [OF this]
  show "building Ob L B h' v (ps @ [(k, t)])"
    unfolding building_def
  proof (intro conjI exI)
    show "jo_view Ob h' v = JsObject (m(k \<mapsto> w))" using assms(5) m(1) by blast
    show "dom (m(k \<mapsto> w)) = fst ` set (ps @ [(k, t)]) \<union> B" using m(2) by auto
    show "\<forall>k' t'. (k', t') \<in> set (ps @ [(k, t)]) \<longrightarrow> (\<exists>w'. (m(k \<mapsto> w)) k' = Some w' \<and> renders Ob (insert v L) h' w' t')"
      using new m(5) frame assms(6) by (fastforce simp: image_iff)
  qed (use keep m assms(4,6) in \<open>auto simp: only_changes_def keeps_values_def\<close>)
  show "only_changes Ob {v} h0 h'"
    by (rule only_changes_trans [OF only_changes_mono [OF assms(2)] assms(4)]) simp
qed

lemma building_array_set:
  assumes "building_array Ob L h0 v n ts" and "only_changes Ob {} h0 h" and "renders Ob (jo_live Ob h0) h w t"
    and "only_changes Ob {v} h h'"
    and "\<And>xs. jo_view Ob h v = JsArray xs \<Longrightarrow> jo_view Ob h' v = JsArray (xs[length ts := w])"
    and "length ts < n"
  shows "building_array Ob L h' v n (ts @ [t])" and "only_changes Ob {v} h0 h'"
proof -
  have b: "building_array Ob L h v n ts" using assms(1,2) by (rule building_array_frame)
  then obtain xs where m: "jo_view Ob h v = JsArray xs" "length xs = n" "v \<in> jo_live Ob h" "v \<notin> L"
      "\<forall>i < length ts. renders Ob (insert v L) h (xs ! i) (ts ! i)" "L \<subseteq> jo_live Ob h"
    unfolding building_array_def by blast
  have keep: "keeps_values Ob {v} h h'" using assms(4) by (simp add: only_changes_def)
  have frame: "renders Ob (insert v L) h w t \<Longrightarrow> renders Ob (insert v L) h' w t" for w t
    by (rule renders_frame [OF _ keep]) (use m(1) in auto)
  have "insert v L \<subseteq> jo_live Ob h0" using assms(1) by (auto simp: building_array_def)
  then have "renders Ob (insert v L) h w t" by (rule renders_apart [OF assms(3)])
  note new = frame [OF this]
  show "building_array Ob L h' v n (ts @ [t])"
    unfolding building_array_def
  proof (intro conjI exI)
    show "jo_view Ob h' v = JsArray (xs[length ts := w])" using assms(5) m(1) by blast
    show "\<forall>i < length (ts @ [t]). renders Ob (insert v L) h' (xs[length ts := w] ! i) ((ts @ [t]) ! i)"
      using new m(2,5) frame assms(6) by (auto simp: nth_append nth_list_update less_Suc_eq)
  qed (use keep m assms(4,6) in \<open>auto simp: only_changes_def keeps_values_def\<close>)
  show "only_changes Ob {v} h0 h'"
    by (rule only_changes_trans [OF only_changes_mono [OF assms(2)] assms(4)]) simp
qed

section \<open>Effects of code\<close>

text \<open>\<open>extends Ob v qs c\<close>: running \<open>c\<close> adds the properties \<open>qs\<close> to the object \<open>v\<close> and changes nothing else.\<close>

definition extends :: "('v, 'r, 'd, 'w, 'h) js_obs \<Rightarrow> 'v \<Rightarrow> (string \<times> js_tree) list \<Rightarrow> ('h, 'a) state \<Rightarrow> bool" where
  "extends Ob v qs c \<longleftrightarrow> (\<forall>L B h ps. building Ob L B h v ps \<longrightarrow> distinct (map fst (ps @ qs)) \<longrightarrow>
     (\<exists>x h'. run_state c h = (x, h') \<and> building Ob L B h' v (ps @ qs) \<and> only_changes Ob {v} h h'))"

text \<open>\<open>completes Ob v ob ps c qs\<close>: \<open>c\<close> finishes the new object \<open>ob\<close> that has \<open>ps\<close> and gives \<open>v\<close> the properties \<open>qs\<close>.\<close>

definition completes ::
  "('v, 'r, 'd, 'w, 'h) js_obs \<Rightarrow> 'v \<Rightarrow> 'v \<Rightarrow> (string \<times> js_tree) list \<Rightarrow> ('h, 'a) state \<Rightarrow> (string \<times> js_tree) list \<Rightarrow> bool" where
  "completes Ob v ob ps c qs \<longleftrightarrow> (\<forall>L B h0 h pv. building Ob L B h0 v pv \<longrightarrow> distinct (map fst (pv @ qs)) \<longrightarrow>
     only_changes Ob {} h0 h \<longrightarrow> building Ob (jo_live Ob h0) {} h ob ps \<longrightarrow>
     (\<exists>x h'. run_state c h = (x, h') \<and> building Ob L B h' v (pv @ qs) \<and> only_changes Ob {v} h0 h'))"

text \<open>\<open>builds Ob g t c\<close>: \<open>c\<close> makes a new value that is \<open>t\<close>, and returns it as \<open>g\<close> of it.\<close>

definition builds :: "('v, 'r, 'd, 'w, 'h) js_obs \<Rightarrow> ('v \<Rightarrow> 'a) \<Rightarrow> js_tree \<Rightarrow> ('h, 'a) state \<Rightarrow> bool" where
  "builds Ob g t c \<longleftrightarrow> (\<forall>h. jo_ready Ob h \<longrightarrow>
     (\<exists>v h'. run_state c h = (g v, h') \<and> only_changes Ob {} h h' \<and> renders Ob (jo_live Ob h) h' v t))"

definition fills ::
  "('v, 'r, 'd, 'w, 'h) js_obs \<Rightarrow> string set \<Rightarrow> 'v \<Rightarrow> (string \<times> js_tree) list \<Rightarrow> ('h, 'a) state \<Rightarrow> ('v \<Rightarrow> 'a) \<Rightarrow> js_tree \<Rightarrow> bool" where
  "fills Ob B ob ps c g t \<longleftrightarrow> (\<forall>h0 h. only_changes Ob {} h0 h \<longrightarrow> building Ob (jo_live Ob h0) B h ob ps \<longrightarrow>
     (\<exists>h'. run_state c h = (g ob, h') \<and> only_changes Ob {} h0 h' \<and> renders Ob (jo_live Ob h0) h' ob t))"

lemma extends_nothing: "extends Ob v [] (State_Monad.return x)"
  by (auto simp: extends_def building_def intro: only_changes_refl)

lemma extends_bind:
  assumes "extends Ob v qs c" and "\<And>x. extends Ob v rs (f x)"
  shows "extends Ob v (qs @ rs) (c \<bind> f)"
  unfolding extends_def
proof (intro allI impI)
  fix L B h ps assume b: "building Ob L B h v ps" and d: "distinct (map fst (ps @ qs @ rs))"
  from d have "distinct (map fst (ps @ qs))" "distinct (map fst ((ps @ qs) @ rs))" by auto
  with b assms obtain x h1 y h2 where "run_state c h = (x, h1)" "only_changes Ob {v} h h1"
      "run_state (f x) h1 = (y, h2)" "building Ob L B h2 v ((ps @ qs) @ rs)" "only_changes Ob {v} h1 h2"
    unfolding extends_def by metis
  then show "\<exists>x h'. run_state (c \<bind> f) h = (x, h') \<and> building Ob L B h' v (ps @ qs @ rs) \<and> only_changes Ob {v} h h'"
    by (auto intro: only_changes_trans)
qed

lemma extends_return: "extends Ob v qs c \<Longrightarrow> extends Ob v qs (c \<bind> (\<lambda>x. State_Monad.return (g x)))"
  using extends_bind [of Ob v qs c "[]", OF _ extends_nothing] by simp

lemma extends_if:
  "(b \<Longrightarrow> extends Ob v qs c) \<Longrightarrow> (\<not> b \<Longrightarrow> extends Ob v rs d) \<Longrightarrow> extends Ob v (if b then qs else rs) (if b then c else d)"
  by simp

lemma completes_step:
  assumes "extends Ob ob qs c" and "\<And>x. completes Ob v ob (ps @ qs) (f x) rs" and "distinct (map fst (ps @ qs))"
  shows "completes Ob v ob ps (c \<bind> f) rs"
  unfolding completes_def
proof (intro allI impI)
  fix L B h0 h pv
  assume a: "building Ob L B h0 v pv" "distinct (map fst (pv @ rs))" "only_changes Ob {} h0 h"
    and b: "building Ob (jo_live Ob h0) {} h ob ps"
  from b assms(1,3) obtain x h1 where r: "run_state c h = (x, h1)" "only_changes Ob {ob} h h1"
      "building Ob (jo_live Ob h0) {} h1 ob (ps @ qs)"
    unfolding extends_def by metis
  have "only_changes Ob {} h0 h1"
    by (rule only_changes_new [OF a(3) r(2)]) (use b in \<open>auto simp: building_def\<close>)
  with assms(2) [of x] a r(3) show "\<exists>x h'. run_state (c \<bind> f) h = (x, h') \<and> building Ob L B h' v (pv @ rs) \<and> only_changes Ob {v} h0 h'"
    unfolding completes_def by (simp add: r(1))
qed

lemma fills_step:
  assumes "extends Ob ob qs c" and "\<And>x. fills Ob B ob (ps @ qs) (f x) g t" and "distinct (map fst (ps @ qs))"
  shows "fills Ob B ob ps (c \<bind> f) g t"
  unfolding fills_def
proof (intro allI impI)
  fix h0 h
  assume a: "only_changes Ob {} h0 h" and b: "building Ob (jo_live Ob h0) B h ob ps"
  from b assms(1,3) obtain x h1 where r: "run_state c h = (x, h1)" "only_changes Ob {ob} h h1"
      "building Ob (jo_live Ob h0) B h1 ob (ps @ qs)"
    unfolding extends_def by metis
  have "only_changes Ob {} h0 h1"
    by (rule only_changes_new [OF a r(2)]) (use b in \<open>auto simp: building_def\<close>)
  with assms(2) [of x] r(3) show "\<exists>h'. run_state (c \<bind> f) h = (g ob, h') \<and> only_changes Ob {} h0 h' \<and> renders Ob (jo_live Ob h0) h' ob t"
    unfolding fills_def by (simp add: r(1))
qed

text \<open>With what is known of the result of \<open>c\<close>.\<close>

lemma fills_step_result:
  assumes "extends Ob ob qs c" and "\<And>h. R (fst (run_state c h))" and "distinct (map fst (ps @ qs))"
    and "\<And>x. R x \<Longrightarrow> fills Ob B ob (ps @ qs) (f x) g t"
  shows "fills Ob B ob ps (c \<bind> f) g t"
proof -
  have "c \<bind> f = c \<bind> (\<lambda>x. if R x then f x else f (SOME x. R x))"
    by (rule state_ext) (use assms(2) in \<open>simp split: prod.split, metis fst_conv\<close>)
  moreover have "fills Ob B ob ps (c \<bind> (\<lambda>x. if R x then f x else f (SOME x. R x))) g t"
    by (rule fills_step [OF assms(1) _ assms(3)]) (use assms(2,4) someI [of R] in auto)
  ultimately show ?thesis by simp
qed

lemma fills_finish: "g ob = x \<Longrightarrow> fills Ob {} ob ps (State_Monad.return x) g (TObject ps)"
  by (auto simp: fills_def intro: building_renders)

lemma fills_finish_error: "g ob = x \<Longrightarrow> fills Ob B ob ps (State_Monad.return x) g (TError ps)"
  by (auto simp: fills_def intro: building_renders_error)

context napi_engine
begin

text \<open>A value that is created and stored at once.\<close>

lemma extends_value:
  assumes "\<And>h. jo_ready Ob h \<Longrightarrow> \<exists>w h'. run_state c h = ((napi_ok, w), h') \<and> only_changes Ob {} h h' \<and> renders Ob (jo_live Ob h) h' w t"
    and "own_name k"
  shows "extends Ob v [(k, t)] (c \<bind> (\<lambda>(st, w). np_set_named_property N v k w \<bind> (\<lambda>st. State_Monad.return x)))"
  unfolding extends_def
proof (intro allI impI)
  fix L B h ps
  assume b: "building Ob L B h v ps" and d: "distinct (map fst (ps @ [(k, t)]))"
  then have "jo_ready Ob h" by (simp add: building_def)
  then obtain w h1 where c: "run_state c h = ((napi_ok, w), h1)" "only_changes Ob {} h h1" "renders Ob (jo_live Ob h) h1 w t"
    using assms(1) by blast
  have b1: "building Ob L B h1 v ps" by (rule building_frame [OF b c(2)])
  then obtain m where m: "jo_ready Ob h1" "v \<in> jo_live Ob h1" "jo_view Ob h1 v = JsObject m"
    by (auto simp: building_def)
  obtain h2 where s: "run_state (np_set_named_property N v k w) h1 = (napi_ok, h2)" "only_changes Ob {v} h1 h2"
      "jo_view Ob h2 v = JsObject (m(k \<mapsto> w))"
    using set_named [OF m renders_live [OF c(3)] assms(2)] by blast
  have "building Ob L B h2 v (ps @ [(k, t)])" "only_changes Ob {v} h h2"
    by (rule building_set [OF b c(2,3) s(2)]; use s(3) m(3) d in auto)+
  then show "\<exists>y h'. run_state (c \<bind> (\<lambda>(st, w). np_set_named_property N v k w \<bind> (\<lambda>st. State_Monad.return x))) h = (y, h') \<and>
      building Ob L B h' v (ps @ [(k, t)]) \<and> only_changes Ob {v} h h'"
    by (simp add: c(1) s(1))
qed

lemma building_new:
  assumes "jo_ready Ob h" and "only_changes Ob {} h h'" and "v \<in> jo_live Ob h'" and "v \<notin> jo_live Ob h"
    and "jo_view Ob h' v = JsObject m" and "dom m = B"
  shows "building Ob (jo_live Ob h) B h' v []"
  using assms by (auto simp: building_def only_changes_def keeps_values_def)

lemma extends_child:
  assumes "\<And>ob. completes Ob v ob [] (f (napi_ok, ob)) qs"
  shows "extends Ob v qs (np_create_object N w0 \<bind> f)"
  unfolding extends_def
proof (intro allI impI)
  fix L B h ps
  assume b: "building Ob L B h v ps" and d: "distinct (map fst (ps @ qs))"
  then have r: "jo_ready Ob h" by (simp add: building_def)
  obtain ob h1 where c: "run_state (np_create_object N w0) h = ((napi_ok, ob), h1)" "only_changes Ob {} h h1"
      "ob \<in> jo_live Ob h1" "ob \<notin> jo_live Ob h" "jo_view Ob h1 ob = JsObject Map.empty"
    using create_object [OF r] by blast
  have "building Ob (jo_live Ob h) {} h1 ob []" by (rule building_new [OF r c(2-5)]) simp
  with assms [of ob] b d c(2) show "\<exists>x h'. run_state (np_create_object N w0 \<bind> f) h = (x, h') \<and>
      building Ob L B h' v (ps @ qs) \<and> only_changes Ob {v} h h'"
    unfolding completes_def by (simp add: c(1))
qed

lemma completes_finish:
  assumes "own_name k"
  shows "completes Ob v ob ps (np_set_named_property N v k ob \<bind> (\<lambda>st. State_Monad.return x)) [(k, TObject ps)]"
  unfolding completes_def
proof (intro allI impI)
  fix L B h0 h pv
  assume b: "building Ob L B h0 v pv" and d: "distinct (map fst (pv @ [(k, TObject ps)]))"
    and h: "only_changes Ob {} h0 h" and ob: "building Ob (jo_live Ob h0) {} h ob ps"
  have b1: "building Ob L B h v pv" by (rule building_frame [OF b h])
  then obtain m where m: "jo_ready Ob h" "v \<in> jo_live Ob h" "jo_view Ob h v = JsObject m"
    by (auto simp: building_def)
  note t = building_renders [OF ob]
  obtain h2 where s: "run_state (np_set_named_property N v k ob) h = (napi_ok, h2)" "only_changes Ob {v} h h2"
      "jo_view Ob h2 v = JsObject (m(k \<mapsto> ob))"
    using set_named [OF m renders_live [OF t] assms] by blast
  have "building Ob L B h2 v (pv @ [(k, TObject ps)])" "only_changes Ob {v} h0 h2"
    by (rule building_set [OF b h t s(2)]; use s(3) m(3) d in auto)+
  then show "\<exists>y h'. run_state (np_set_named_property N v k ob \<bind> (\<lambda>st. State_Monad.return x)) h = (y, h') \<and>
      building Ob L B h' v (pv @ [(k, TObject ps)]) \<and> only_changes Ob {v} h0 h'"
    by (simp add: s(1))
qed

lemma builds_object:
  assumes "\<And>ob. fills Ob {} ob [] (f (napi_ok, ob)) g t"
  shows "builds Ob g t (np_create_object N w0 \<bind> f)"
  unfolding builds_def
proof (intro allI impI)
  fix h assume r: "jo_ready Ob h"
  obtain ob h1 where c: "run_state (np_create_object N w0) h = ((napi_ok, ob), h1)" "only_changes Ob {} h h1"
      "ob \<in> jo_live Ob h1" "ob \<notin> jo_live Ob h" "jo_view Ob h1 ob = JsObject Map.empty"
    using create_object [OF r] by blast
  have "building Ob (jo_live Ob h) {} h1 ob []" by (rule building_new [OF r c(2-5)]) simp
  with assms [of ob] c(2) show "\<exists>v h'. run_state (np_create_object N w0 \<bind> f) h = (g v, h') \<and> only_changes Ob {} h h' \<and>
      renders Ob (jo_live Ob h) h' v t"
    unfolding fills_def by (simp add: c(1)) blast
qed

end

end
