(* ===== verification/Napi_Util.thy ===== *)
theory Napi_Util
  imports Js_Tree
begin

text \<open>
  The helpers of the binding over N-API (\<open>base/src/napi_util.cpp\<close>): reading and writing one named
  property of an object, types, references, and objects of constants. What they do to a value is
  stated in the terms of \<open>Js_Tree\<close>.
\<close>

datatype ClientStatus =
    CLIENT_SUCCESS | CLIENT_INVALID_PARAM | CLIENT_INVALID_TYPE | CLIENT_REPEAT_REQ | CLIENT_FAIL
  | CLIENT_CHECK_NEW_FIRST

fun ClientStatus_code :: "ClientStatus \<Rightarrow> int32_t" where
  "ClientStatus_code CLIENT_SUCCESS = 0"
| "ClientStatus_code CLIENT_INVALID_PARAM = 1000"
| "ClientStatus_code CLIENT_INVALID_TYPE = 1001"
| "ClientStatus_code CLIENT_REPEAT_REQ = 1002"
| "ClientStatus_code CLIENT_FAIL = 1003"
| "ClientStatus_code CLIENT_CHECK_NEW_FIRST = 1004"

text \<open>The string a \<open>const char *\<close> denotes: the bytes up to the first null byte.\<close>

definition c_str :: "string \<Rightarrow> string" where
  "c_str s = takeWhile (\<lambda>c. c \<noteq> CHR 0x00) s"

definition STRING_MAX_LENGTH :: size_t where
  "STRING_MAX_LENGTH = 200"

section \<open>Reading a property\<close>

definition NapiUtil_GetInt32 :: "('v, 'r, 'd, 'w, 'h) napi \<Rightarrow> 'v \<Rightarrow> string \<Rightarrow> int32_t \<Rightarrow> ('h, int32_t) state" where
  "NapiUtil_GetInt32 N arg attrName intValue = do {
     (status, result) \<leftarrow> np_has_named_property N arg attrName False;
     if result \<and> status = napi_ok then do {
       (_, value) \<leftarrow> np_get_named_property N arg attrName (np_nullptr N);
       (_, intValue) \<leftarrow> np_get_value_int32 N value intValue;
       State_Monad.return intValue
     } else State_Monad.return intValue
   }"

definition NapiUtil_GetBool :: "('v, 'r, 'd, 'w, 'h) napi \<Rightarrow> 'v \<Rightarrow> string \<Rightarrow> bool \<Rightarrow> ('h, bool) state" where
  "NapiUtil_GetBool N arg attrName value = do {
     (status, result) \<leftarrow> np_has_named_property N arg attrName False;
     if result \<and> status = napi_ok then do {
       (_, ob) \<leftarrow> np_get_named_property N arg attrName (np_nullptr N);
       (_, value) \<leftarrow> np_get_value_bool N ob value;
       State_Monad.return value
     } else State_Monad.return value
   }"

text \<open>The string in a value, and in a property; the second component is the out parameter.\<close>

definition NapiUtil_GetString_value :: "('v, 'r, 'd, 'w, 'h) napi \<Rightarrow> 'v \<Rightarrow> string \<Rightarrow> ('h, int32_t \<times> string) state" where
  "NapiUtil_GetString_value N arg strValue = do {
     (status, valuetype) \<leftarrow> np_typeof N arg napi_undefined;
     if status \<noteq> napi_ok then State_Monad.return (ClientStatus_code CLIENT_FAIL, strValue)
     else if valuetype \<noteq> napi_string then State_Monad.return (ClientStatus_code CLIENT_INVALID_TYPE, strValue)
     else do {
       (status, copied) \<leftarrow> np_get_value_string_utf8 N arg STRING_MAX_LENGTH;
       if status \<noteq> napi_ok then State_Monad.return (ClientStatus_code CLIENT_INVALID_TYPE, strValue)
       else State_Monad.return (ClientStatus_code CLIENT_SUCCESS, copied)
     }
   }"

definition NapiUtil_GetString :: "('v, 'r, 'd, 'w, 'h) napi \<Rightarrow> 'v \<Rightarrow> string \<Rightarrow> string \<Rightarrow> ('h, int32_t \<times> string) state" where
  "NapiUtil_GetString N arg attrName strValue = do {
     (status, result) \<leftarrow> np_has_named_property N arg attrName False;
     if result \<and> status = napi_ok then do {
       (_, value) \<leftarrow> np_get_named_property N arg attrName (np_nullptr N);
       NapiUtil_GetString_value N value strValue
     } else State_Monad.return (ClientStatus_code CLIENT_SUCCESS, strValue)
   }"

section \<open>Writing a property\<close>

definition NapiUtil_SetString :: "('v, 'r, 'd, 'w, 'h) napi \<Rightarrow> 'v \<Rightarrow> string \<Rightarrow> string \<Rightarrow> ('h, int32_t) state" where
  "NapiUtil_SetString N arg attrName s = do {
     (_, value) \<leftarrow> np_create_string_utf8 N s (np_nullptr N);
     _ \<leftarrow> np_set_named_property N arg attrName value;
     State_Monad.return (ClientStatus_code CLIENT_SUCCESS)
   }"

definition NapiUtil_SetInt32 :: "('v, 'r, 'd, 'w, 'h) napi \<Rightarrow> 'v \<Rightarrow> string \<Rightarrow> int32_t \<Rightarrow> ('h, int32_t) state" where
  "NapiUtil_SetInt32 N arg attrName intValue = do {
     (_, infoStatus) \<leftarrow> np_create_int32 N intValue (np_nullptr N);
     _ \<leftarrow> np_set_named_property N arg attrName infoStatus;
     State_Monad.return (ClientStatus_code CLIENT_SUCCESS)
   }"

definition NapiUtil_SetInt64 :: "('v, 'r, 'd, 'w, 'h) napi \<Rightarrow> 'v \<Rightarrow> string \<Rightarrow> int64_t \<Rightarrow> ('h, int32_t) state" where
  "NapiUtil_SetInt64 N arg attrName intValue = do {
     (_, infoStatus) \<leftarrow> np_create_int64 N intValue (np_nullptr N);
     _ \<leftarrow> np_set_named_property N arg attrName infoStatus;
     State_Monad.return (ClientStatus_code CLIENT_SUCCESS)
   }"

text \<open>The value is passed to \<open>napi_create_int32\<close>, so the property is the number 0 or 1.\<close>

definition NapiUtil_SetBool :: "('v, 'r, 'd, 'w, 'h) napi \<Rightarrow> 'v \<Rightarrow> string \<Rightarrow> bool \<Rightarrow> ('h, int32_t) state" where
  "NapiUtil_SetBool N arg attrName value = do {
     (_, infoStatus) \<leftarrow> np_create_int32 N (if value then 1 else 0) (np_nullptr N);
     _ \<leftarrow> np_set_named_property N arg attrName infoStatus;
     State_Monad.return (ClientStatus_code CLIENT_SUCCESS)
   }"

section \<open>Types, references, constants\<close>

definition NapiUtil_IsTypeOf :: "('v, 'r, 'd, 'w, 'h) napi \<Rightarrow> 'v \<Rightarrow> napi_valuetype \<Rightarrow> ('h, ClientStatus) state" where
  "NapiUtil_IsTypeOf N arg t = do {
     (status, valueType) \<leftarrow> np_typeof N arg napi_undefined;
     State_Monad.return
       (if status \<noteq> napi_ok then CLIENT_FAIL
        else if valueType \<noteq> t then CLIENT_INVALID_TYPE
        else CLIENT_SUCCESS)
   }"

definition NapiUtil_CreateReference ::
  "('v, 'r, 'd, 'w, 'h) napi \<Rightarrow> 'v \<Rightarrow> uint32_t \<Rightarrow> 'r \<Rightarrow> ('h, ClientStatus \<times> 'r) state" where
  "NapiUtil_CreateReference N arg refcount reference = do {
     (status, reference) \<leftarrow> np_create_reference N arg refcount reference;
     State_Monad.return (if status \<noteq> napi_ok then CLIENT_FAIL else CLIENT_SUCCESS, reference)
   }"

definition NapiUtil_CreateUint32 :: "('v, 'r, 'd, 'w, 'h) napi \<Rightarrow> uint32_t \<Rightarrow> ('h, 'v) state" where
  "NapiUtil_CreateUint32 N code = do {
     (status, value) \<leftarrow> np_create_uint32 N code (np_nullptr N);
     State_Monad.return (if status \<noteq> napi_ok then np_nullptr N else value)
   }"

definition NapiUtil_CreateStringUtf8 :: "('v, 'r, 'd, 'w, 'h) napi \<Rightarrow> string \<Rightarrow> ('h, 'v) state" where
  "NapiUtil_CreateStringUtf8 N str = do {
     (status, value) \<leftarrow> np_create_string_utf8 N (c_str str) (np_nullptr N);
     State_Monad.return (if status \<noteq> napi_ok then np_nullptr N else value)
   }"

definition NapiUtil_CreateObject :: "('v, 'r, 'd, 'w, 'h) napi \<Rightarrow> ('h, 'v) state" where
  "NapiUtil_CreateObject N = do {
     (status, ob) \<leftarrow> np_create_object N (np_nullptr N);
     State_Monad.return ob
   }"

text \<open>The descriptor of a property without a name is left uninitialised.\<close>

definition NapiUtil_DefineProperties :: "('v, 'r, 'd, 'w, 'h) napi \<Rightarrow> 'v \<Rightarrow> (string \<times> 'v) list \<Rightarrow> ('h, unit) state" where
  "NapiUtil_DefineProperties N ob properties = do {
     _ \<leftarrow> np_define_properties N ob (map (\<lambda>(name, v). if name = [] then ([], np_wild N) else (c_str name, v)) properties);
     State_Monad.return ()
   }"

definition NapiUtil_CreateProperty ::
  "('v, 'r, 'd, 'w, 'h) napi \<Rightarrow> 'v \<Rightarrow> string \<Rightarrow> (string \<times> 'v) list \<Rightarrow> ('h, unit) state" where
  "NapiUtil_CreateProperty N exports name properties = do {
     objectValue \<leftarrow> NapiUtil_CreateObject N;
     if objectValue = np_nullptr N then State_Monad.return ()
     else do {
       _ \<leftarrow> NapiUtil_DefineProperties N objectValue properties;
       _ \<leftarrow> np_set_named_property N exports name objectValue;
       State_Monad.return ()
     }
   }"

section \<open>What they do\<close>

context napi_engine
begin

lemma extends_SetString:
  "own_name k \<Longrightarrow> extends Ob v [(k, TString (jo_text Ob s))] (NapiUtil_SetString N v k s)"
  unfolding NapiUtil_SetString_def
  by (rule extends_value) (use create_string in \<open>blast intro: renders_string\<close>)+

lemma extends_SetInt32:
  "own_name k \<Longrightarrow> extends Ob v [(k, TNumber (sint i))] (NapiUtil_SetInt32 N v k i)"
  unfolding NapiUtil_SetInt32_def
  by (rule extends_value) (use create_int32 in \<open>blast intro: renders_number\<close>)+

lemma extends_SetBool:
  "own_name k \<Longrightarrow> extends Ob v [(k, TNumber (if b then 1 else 0))] (NapiUtil_SetBool N v k b)"
  using extends_SetInt32 [of k v "if b then 1 else 0"]
  by (cases b) (simp_all add: NapiUtil_SetInt32_def NapiUtil_SetBool_def)

lemma GetInt32_reads:
  assumes "jo_ready Ob h" "v \<in> jo_live Ob h" "jo_view Ob h v = JsObject m" "own_name k"
  shows "m k = None \<Longrightarrow> run_state (NapiUtil_GetInt32 N v k i) h = (i, h)"
    and "m k = Some w \<Longrightarrow> jo_view Ob h w = JsNumber z \<Longrightarrow> run_state (NapiUtil_GetInt32 N v k i) h = (word_of_int z, h)"
    and "m k = Some w \<Longrightarrow> typeof_view (jo_view Ob h w) \<noteq> napi_number \<Longrightarrow> run_state (NapiUtil_GetInt32 N v k i) h = (i, h)"
  using has_named [OF assms, of False] get_named [OF assms(1-3) _ assms(4)] member_live [OF assms(1-3)]
    value_int32 [OF assms(1)] value_int32_type [OF assms(1), of w i]
  by (auto simp: NapiUtil_GetInt32_def)

lemma GetBool_reads:
  assumes "jo_ready Ob h" "v \<in> jo_live Ob h" "jo_view Ob h v = JsObject m" "own_name k"
  shows "m k = None \<Longrightarrow> run_state (NapiUtil_GetBool N v k b) h = (b, h)"
    and "m k = Some w \<Longrightarrow> jo_view Ob h w = JsBoolean x \<Longrightarrow> run_state (NapiUtil_GetBool N v k b) h = (x, h)"
    and "m k = Some w \<Longrightarrow> typeof_view (jo_view Ob h w) \<noteq> napi_boolean \<Longrightarrow> run_state (NapiUtil_GetBool N v k b) h = (b, h)"
  using has_named [OF assms, of False] get_named [OF assms(1-3) _ assms(4)] member_live [OF assms(1-3)]
    value_bool [OF assms(1)] value_bool_type [OF assms(1), of w b]
  by (auto simp: NapiUtil_GetBool_def)

lemma GetString_value_reads:
  assumes "jo_ready Ob h" "v \<in> jo_live Ob h"
  shows "jo_view Ob h v = JsString s \<Longrightarrow> length s < 200 \<Longrightarrow> run_state (NapiUtil_GetString_value N v s0) h = ((0, s), h)"
    and "typeof_view (jo_view Ob h v) \<noteq> napi_string \<Longrightarrow> run_state (NapiUtil_GetString_value N v s0) h = ((1001, s0), h)"
  using type_of [OF assms, of napi_undefined] value_string [OF assms, where s = s and n = STRING_MAX_LENGTH]
  by (auto simp: NapiUtil_GetString_value_def STRING_MAX_LENGTH_def)

lemma GetString_reads:
  assumes "jo_ready Ob h" "v \<in> jo_live Ob h" "jo_view Ob h v = JsObject m" "own_name k"
  shows "m k = None \<Longrightarrow> run_state (NapiUtil_GetString N v k s0) h = ((0, s0), h)"
    and "m k = Some w \<Longrightarrow> jo_view Ob h w = JsString s \<Longrightarrow> length s < 200 \<Longrightarrow>
      run_state (NapiUtil_GetString N v k s0) h = ((0, s), h)"
    and "m k = Some w \<Longrightarrow> typeof_view (jo_view Ob h w) \<noteq> napi_string \<Longrightarrow>
      run_state (NapiUtil_GetString N v k s0) h = ((1001, s0), h)"
  using has_named [OF assms, of False] get_named [OF assms(1-3) _ assms(4)] member_live [OF assms(1-3)]
    GetString_value_reads [OF assms(1)]
  by (auto simp: NapiUtil_GetString_def)

lemma Get_missing:
  assumes "jo_ready Ob h" "v \<in> jo_live Ob h" "jo_view Ob h v = JsUndefined"
  shows "run_state (NapiUtil_GetInt32 N v k i) h = (i, h)"
    and "run_state (NapiUtil_GetBool N v k b) h = (b, h)"
    and "run_state (NapiUtil_GetString N v k s) h = ((0, s), h)"
  using has_named_missing [OF assms, of k False]
  by (auto simp: NapiUtil_GetInt32_def NapiUtil_GetBool_def NapiUtil_GetString_def)

lemma IsTypeOf_value:
  "jo_ready Ob h \<Longrightarrow> v \<in> jo_live Ob h \<Longrightarrow>
   run_state (NapiUtil_IsTypeOf N v t) h = (if typeof_view (jo_view Ob h v) = t then CLIENT_SUCCESS else CLIENT_INVALID_TYPE, h)"
  using type_of [of h v napi_undefined] by (simp add: NapiUtil_IsTypeOf_def)

text \<open>A property that was written is read back, except that a \<open>bool\<close> is not.\<close>

lemma read_back:
  assumes "renders Ob L h v (TObject ps)" and "jo_ready Ob h" and "own_name k"
  shows "(k, TNumber (sint i)) \<in> set ps \<Longrightarrow> run_state (NapiUtil_GetInt32 N v k i0) h = (i, h)"
    and "(k, TString s) \<in> set ps \<Longrightarrow> length s < 200 \<Longrightarrow> run_state (NapiUtil_GetString N v k s0) h = ((0, s), h)"
    and "(k, TNumber z) \<in> set ps \<Longrightarrow> run_state (NapiUtil_GetBool N v k b) h = (b, h)"
proof -
  obtain m where m: "v \<in> jo_live Ob h" "jo_view Ob h v = JsObject m"
      "\<forall>k t. (k, t) \<in> set ps \<longrightarrow> (\<exists>w. m k = Some w \<and> renders Ob L h w t)"
    using assms(1) by (rule renders_objectE) blast
  show "(k, TNumber (sint i)) \<in> set ps \<Longrightarrow> run_state (NapiUtil_GetInt32 N v k i0) h = (i, h)"
    using m(3) GetInt32_reads(2) [OF assms(2) m(1,2) assms(3)] by (fastforce elim: renders_numberE)
  show "(k, TString s) \<in> set ps \<Longrightarrow> length s < 200 \<Longrightarrow> run_state (NapiUtil_GetString N v k s0) h = ((0, s), h)"
    using m(3) GetString_reads(2) [OF assms(2) m(1,2) assms(3)] by (fastforce elim: renders_stringE)
  show "(k, TNumber z) \<in> set ps \<Longrightarrow> run_state (NapiUtil_GetBool N v k b) h = (b, h)"
    using m(3) GetBool_reads(3) [OF assms(2) m(1,2) assms(3)] by (fastforce elim: renders_numberE)
qed

end

end
