(* ===== verification/Client_Helper.thy ===== *)
theory Client_Helper
  imports Napi_Util Update_Json
begin

text \<open>
  From the structs of the service to JavaScript values (the \<open>Build\<close> functions of
  \<open>base/src/client_helper.cpp\<close>). The reference is a rendering of each struct as a tree; the
  refinement lemmas say that the value a function builds is that tree.
\<close>

datatype SessionType =
    SESSION_CHECK_VERSION | SESSION_DOWNLOAD | SESSION_PAUSE_DOWNLOAD | SESSION_RESUME_DOWNLOAD
  | SESSION_UPGRADE | SESSION_SET_POLICY | SESSION_GET_POLICY | SESSION_CLEAR_ERROR
  | SESSION_TERMINATE_UPGRADE | SESSION_GET_NEW_VERSION | SESSION_GET_NEW_VERSION_DESCRIPTION
  | SESSION_SUBSCRIBE | SESSION_UNSUBSCRIBE | SESSION_GET_UPDATER | SESSION_APPLY_NEW_VERSION
  | SESSION_FACTORY_RESET | SESSION_VERIFY_PACKAGE | SESSION_CANCEL_UPGRADE | SESSION_GET_CUR_VERSION
  | SESSION_GET_CUR_VERSION_DESCRIPTION | SESSION_GET_TASK_INFO | SESSION_REPLY_PARAM_ERROR
  | SESSION_MAX

section \<open>Descriptions and valid elements\<close>

definition BuildDescInfo :: "('v, 'r, 'd, 'w, 'h) napi \<Rightarrow> 'v \<Rightarrow> DescriptionInfo \<Rightarrow> ('h, unit) state" where
  "BuildDescInfo N ob descriptInfo = do {
     (_, napiDescriptInfo) \<leftarrow> np_create_object N (np_wild N);
     _ \<leftarrow> NapiUtil_SetInt32 N napiDescriptInfo ''descriptionType'' (DescriptionType_code (di_descriptionType descriptInfo));
     _ \<leftarrow> NapiUtil_SetString N napiDescriptInfo ''content'' (c_str (di_content descriptInfo));
     _ \<leftarrow> np_set_named_property N ob ''descriptionInfo'' napiDescriptInfo;
     State_Monad.return ()
   }"

definition IsValidData_ErrorMessage :: "ErrorMessage \<Rightarrow> bool" where
  "IsValidData_ErrorMessage errorMessage = (em_errorCode errorMessage \<noteq> 0)"

definition IsValidData_ComponentDescription :: "ComponentDescription \<Rightarrow> bool" where
  "IsValidData_ComponentDescription componentDescription = (cd_componentId componentDescription \<noteq> '''')"

definition IsValidData_VersionComponent :: "VersionComponent \<Rightarrow> bool" where
  "IsValidData_VersionComponent versionComponent =
     (vc_componentType versionComponent \<noteq> ComponentType_code ComponentType.INVALID)"

fun valid_count :: "('a \<Rightarrow> bool) \<Rightarrow> 'a list \<Rightarrow> nat \<Rightarrow> nat" where
  "valid_count valid [] validDataCount = validDataCount"
| "valid_count valid (x # xs) validDataCount =
     valid_count valid xs (if valid x then validDataCount + 1 else validDataCount)"

definition GetValidDataCount :: "('a \<Rightarrow> bool) \<Rightarrow> 'a list \<Rightarrow> nat" where
  "GetValidDataCount valid xs = valid_count valid xs 0"

text \<open>
  The loop the three array functions share: it stops at the end of the list or when \<open>index\<close> has
  reached the number of valid elements. \<open>element\<close> makes the value of one element; \<open>None\<close> is the
  \<open>continue\<close> after a failure of the engine.
\<close>

fun array_loop ::
  "('v, 'r, 'd, 'w, 'h) napi \<Rightarrow> ('a \<Rightarrow> bool) \<Rightarrow> ('a \<Rightarrow> ('h, 'v option) state) \<Rightarrow> 'v \<Rightarrow> 'a list \<Rightarrow> nat \<Rightarrow> nat \<Rightarrow>
   ('h, unit) state" where
  "array_loop N valid element arr [] index count = State_Monad.return ()"
| "array_loop N valid element arr (x # xs) index count =
     (if \<not> index < count then State_Monad.return ()
      else if valid x then do {
        made \<leftarrow> element x;
        case made of
          None \<Rightarrow> array_loop N valid element arr xs index count
        | Some v \<Rightarrow> do {
            _ \<leftarrow> np_set_element N arr (of_nat index) v;
            array_loop N valid element arr xs (index + 1) count
          }
      } else array_loop N valid element arr xs index count)"

definition component_description_element ::
  "('v, 'r, 'd, 'w, 'h) napi \<Rightarrow> ComponentDescription \<Rightarrow> ('h, 'v option) state" where
  "component_description_element N componentDescription = do {
     (status, napiComponentDescription) \<leftarrow> np_create_object N (np_wild N);
     if status \<noteq> napi_ok then State_Monad.return None
     else do {
       _ \<leftarrow> NapiUtil_SetString N napiComponentDescription ''componentId'' (c_str (cd_componentId componentDescription));
       _ \<leftarrow> BuildDescInfo N napiComponentDescription (cd_descriptionInfo componentDescription);
       State_Monad.return (Some napiComponentDescription)
     }
   }"

definition BuildComponentDescriptions ::
  "('v, 'r, 'd, 'w, 'h) napi \<Rightarrow> 'v \<Rightarrow> ComponentDescription list \<Rightarrow> ('h, 'v) state" where
  "BuildComponentDescriptions N ob componentDescriptions =
     (let validComponentCount = GetValidDataCount IsValidData_ComponentDescription componentDescriptions
      in if validComponentCount = 0 then State_Monad.return ob
         else do {
           (_, ob) \<leftarrow> np_create_array_with_length N (of_nat validComponentCount) ob;
           _ \<leftarrow> array_loop N IsValidData_ComponentDescription (component_description_element N) ob componentDescriptions
                 0 validComponentCount;
           State_Monad.return ob
         })"

definition version_component_element ::
  "('v, 'r, 'd, 'w, 'h) napi \<Rightarrow> VersionComponent \<Rightarrow> ('h, 'v option) state" where
  "version_component_element N versionComponent = do {
     (status, napiVersionComponent) \<leftarrow> np_create_object N (np_wild N);
     if status \<noteq> napi_ok then State_Monad.return None
     else do {
       _ \<leftarrow> NapiUtil_SetString N napiVersionComponent ''componentId'' (c_str (vc_componentId versionComponent));
       _ \<leftarrow> NapiUtil_SetInt32 N napiVersionComponent ''componentType'' (vc_componentType versionComponent);
       _ \<leftarrow> NapiUtil_SetString N napiVersionComponent ''upgradeAction'' (c_str (vc_upgradeAction versionComponent));
       _ \<leftarrow> NapiUtil_SetString N napiVersionComponent ''displayVersion'' (c_str (vc_displayVersion versionComponent));
       _ \<leftarrow> NapiUtil_SetString N napiVersionComponent ''innerVersion'' (c_str (vc_innerVersion versionComponent));
       _ \<leftarrow> NapiUtil_SetInt32 N napiVersionComponent ''size'' (uint32_of_size (vc_size versionComponent));
       _ \<leftarrow> NapiUtil_SetInt32 N napiVersionComponent ''effectiveMode'' (uint32_of_size (vc_effectiveMode versionComponent));
       _ \<leftarrow> BuildDescInfo N napiVersionComponent (vc_descriptionInfo versionComponent);
       _ \<leftarrow> NapiUtil_SetString N napiVersionComponent ''componentExtra'' (c_str (vc_componentExtra versionComponent));
       State_Monad.return (Some napiVersionComponent)
     }
   }"

definition BuildVersionComponents ::
  "('v, 'r, 'd, 'w, 'h) napi \<Rightarrow> 'v \<Rightarrow> VersionComponent list \<Rightarrow> ('h, unit) state" where
  "BuildVersionComponents N ob versionComponents =
     (let validComponentCount = GetValidDataCount IsValidData_VersionComponent versionComponents
      in if validComponentCount = 0 then State_Monad.return ()
         else do {
           (_, napiVersionComponents) \<leftarrow> np_create_array_with_length N (of_nat validComponentCount) (np_wild N);
           _ \<leftarrow> array_loop N IsValidData_VersionComponent (version_component_element N) napiVersionComponents versionComponents
                 0 validComponentCount;
           _ \<leftarrow> np_set_named_property N ob ''versionComponents'' napiVersionComponents;
           State_Monad.return ()
         })"

definition error_message_element :: "('v, 'r, 'd, 'w, 'h) napi \<Rightarrow> ErrorMessage \<Rightarrow> ('h, 'v option) state" where
  "error_message_element N errorMessage = do {
     (_, napiErrorMessage) \<leftarrow> np_create_object N (np_wild N);
     _ \<leftarrow> NapiUtil_SetInt32 N napiErrorMessage ''errorCode'' (em_errorCode errorMessage);
     _ \<leftarrow> NapiUtil_SetString N napiErrorMessage ''errorMessage'' (em_errorMessage errorMessage);
     State_Monad.return (Some napiErrorMessage)
   }"

definition BuildErrorMessages ::
  "('v, 'r, 'd, 'w, 'h) napi \<Rightarrow> 'v \<Rightarrow> string \<Rightarrow> ErrorMessage list \<Rightarrow> ('h, unit) state" where
  "BuildErrorMessages N ob name errorMessages =
     (let validErrorMsgCount = GetValidDataCount IsValidData_ErrorMessage errorMessages
      in if validErrorMsgCount = 0 then State_Monad.return ()
         else do {
           (_, napiErrorMessages) \<leftarrow> np_create_array_with_length N (of_nat validErrorMsgCount) (np_wild N);
           _ \<leftarrow> array_loop N IsValidData_ErrorMessage (error_message_element N) napiErrorMessages errorMessages
                 0 validErrorMsgCount;
           _ \<leftarrow> np_set_named_property N ob name napiErrorMessages;
           State_Monad.return ()
         })"

section \<open>The structs\<close>

definition BuildVersionDigestInfo :: "('v, 'r, 'd, 'w, 'h) napi \<Rightarrow> 'v \<Rightarrow> VersionDigestInfo \<Rightarrow> ('h, unit) state" where
  "BuildVersionDigestInfo N ob versionDigestInfo = do {
     (_, napiVersionDigestInfo) \<leftarrow> np_create_object N (np_wild N);
     _ \<leftarrow> NapiUtil_SetString N napiVersionDigestInfo ''versionDigest'' (vd_versionDigest versionDigestInfo);
     _ \<leftarrow> np_set_named_property N ob ''versionDigestInfo'' napiVersionDigestInfo;
     State_Monad.return ()
   }"

text \<open>
  The functions that build a result take the out parameter, the type of the result and the pointer
  in it, and return the code and the out parameter.
\<close>

definition ClientHelper_BuildCurrentVersionInfo ::
  "('v, 'r, 'd, 'w, 'h) napi \<Rightarrow> 'v \<Rightarrow> SessionType \<Rightarrow> CurrentVersionInfo option \<Rightarrow> ('h, int32_t \<times> 'v) state" where
  "ClientHelper_BuildCurrentVersionInfo N ob type ptr =
     (case ptr of
        None \<Rightarrow> State_Monad.return (ClientStatus_code CLIENT_SUCCESS, ob)
      | Some info \<Rightarrow>
          if type \<noteq> SESSION_GET_CUR_VERSION then State_Monad.return (ClientStatus_code CLIENT_INVALID_TYPE, ob)
          else do {
            (status, ob) \<leftarrow> np_create_object N ob;
            if status \<noteq> napi_ok then State_Monad.return (ClientStatus_code CLIENT_INVALID_TYPE, ob)
            else do {
              _ \<leftarrow> NapiUtil_SetString N ob ''osVersion'' (cv_osVersion info);
              _ \<leftarrow> NapiUtil_SetString N ob ''deviceName'' (cv_deviceName info);
              _ \<leftarrow> BuildVersionComponents N ob (cv_versionComponents info);
              State_Monad.return (ClientStatus_code CLIENT_SUCCESS, ob)
            }
          })"

definition ClientHelper_BuildTaskBody :: "('v, 'r, 'd, 'w, 'h) napi \<Rightarrow> 'v \<Rightarrow> TaskBody \<Rightarrow> ('h, unit) state" where
  "ClientHelper_BuildTaskBody N ob taskBody = do {
     (_, napiTaskBody) \<leftarrow> np_create_object N (np_wild N);
     _ \<leftarrow> BuildVersionDigestInfo N napiTaskBody (tb_versionDigestInfo taskBody);
     _ \<leftarrow> NapiUtil_SetInt32 N napiTaskBody ''status'' (UpgradeStatus_code (tb_status taskBody));
     _ \<leftarrow> NapiUtil_SetInt32 N napiTaskBody ''subStatus'' (tb_subStatus taskBody);
     _ \<leftarrow> NapiUtil_SetInt32 N napiTaskBody ''progress'' (tb_progress taskBody);
     _ \<leftarrow> NapiUtil_SetInt32 N napiTaskBody ''installMode'' (tb_installMode taskBody);
     _ \<leftarrow> BuildErrorMessages N napiTaskBody ''errorMessages'' (tb_errorMessages taskBody);
     _ \<leftarrow> BuildVersionComponents N napiTaskBody (tb_versionComponents taskBody);
     _ \<leftarrow> np_set_named_property N ob ''taskBody'' napiTaskBody;
     State_Monad.return ()
   }"

definition BuildTaskInfo ::
  "('v, 'r, 'd, 'w, 'h) napi \<Rightarrow> 'v \<Rightarrow> TaskInfo option \<Rightarrow> ('h, int32_t \<times> 'v) state" where
  "BuildTaskInfo N ob ptr =
     (case ptr of
        None \<Rightarrow> State_Monad.return (ClientStatus_code CLIENT_SUCCESS, ob)
      | Some taskInfo \<Rightarrow> do {
          (status, ob) \<leftarrow> np_create_object N ob;
          if status \<noteq> napi_ok then State_Monad.return (ClientStatus_code CLIENT_INVALID_TYPE, ob)
          else do {
            _ \<leftarrow> NapiUtil_SetBool N ob ''existTask'' (ti_existTask taskInfo);
            _ \<leftarrow> (if ti_existTask taskInfo then ClientHelper_BuildTaskBody N ob (ti_taskBody taskInfo) else State_Monad.return ());
            State_Monad.return (ClientStatus_code CLIENT_SUCCESS, ob)
          }
        })"

definition ClientHelper_BuildNewVersionInfo ::
  "('v, 'r, 'd, 'w, 'h) napi \<Rightarrow> 'v \<Rightarrow> SessionType \<Rightarrow> NewVersionInfo option \<Rightarrow> ('h, int32_t \<times> 'v) state" where
  "ClientHelper_BuildNewVersionInfo N ob type ptr =
     (case ptr of
        None \<Rightarrow> State_Monad.return (ClientStatus_code CLIENT_SUCCESS, ob)
      | Some info \<Rightarrow>
          if type \<noteq> SESSION_GET_NEW_VERSION then State_Monad.return (ClientStatus_code CLIENT_INVALID_TYPE, ob)
          else do {
            (status, ob) \<leftarrow> np_create_object N ob;
            if status \<noteq> napi_ok then State_Monad.return (ClientStatus_code CLIENT_INVALID_TYPE, ob)
            else do {
              _ \<leftarrow> BuildVersionDigestInfo N ob (nv_versionDigestInfo info);
              _ \<leftarrow> BuildVersionComponents N ob (nv_versionComponents info);
              State_Monad.return (ClientStatus_code CLIENT_SUCCESS, ob)
            }
          })"

text \<open>Without a valid description the value stays what it was; both ways return success.\<close>

definition BuildVersionDescriptionInfo ::
  "('v, 'r, 'd, 'w, 'h) napi \<Rightarrow> 'v \<Rightarrow> SessionType \<Rightarrow> VersionDescriptionInfo option \<Rightarrow> ('h, int32_t \<times> 'v) state" where
  "BuildVersionDescriptionInfo N ob type ptr =
     (case ptr of
        None \<Rightarrow> State_Monad.return (ClientStatus_code CLIENT_SUCCESS, ob)
      | Some info \<Rightarrow>
          if \<not> (type = SESSION_GET_NEW_VERSION_DESCRIPTION \<or> type = SESSION_GET_CUR_VERSION_DESCRIPTION)
          then State_Monad.return (ClientStatus_code CLIENT_INVALID_TYPE, ob)
          else do {
            ob \<leftarrow> BuildComponentDescriptions N ob (vi_componentDescriptions info);
            if ob = np_nullptr N then State_Monad.return (ClientStatus_code CLIENT_SUCCESS, ob)
            else State_Monad.return (ClientStatus_code CLIENT_SUCCESS, ob)
          })"

definition ClientHelper_BuildCheckResult ::
  "('v, 'r, 'd, 'w, 'h) napi \<Rightarrow> 'v \<Rightarrow> SessionType \<Rightarrow> CheckResult option \<Rightarrow> ('h, int32_t \<times> 'v) state" where
  "ClientHelper_BuildCheckResult N ob type ptr =
     (case ptr of
        None \<Rightarrow> State_Monad.return (ClientStatus_code CLIENT_SUCCESS, ob)
      | Some checkResult \<Rightarrow>
          if type \<noteq> SESSION_CHECK_VERSION then State_Monad.return (ClientStatus_code CLIENT_INVALID_TYPE, ob)
          else do {
            (status, ob) \<leftarrow> np_create_object N ob;
            if status \<noteq> napi_ok then State_Monad.return (ClientStatus_code CLIENT_INVALID_TYPE, ob)
            else do {
              _ \<leftarrow> NapiUtil_SetBool N ob ''isExistNewVersion'' (cr_isExistNewVersion checkResult);
              _ \<leftarrow> (if cr_isExistNewVersion checkResult then do {
                     (_, newVersionInfo) \<leftarrow> np_create_object N (np_wild N);
                     _ \<leftarrow> BuildVersionDigestInfo N newVersionInfo (nv_versionDigestInfo (cr_newVersionInfo checkResult));
                     _ \<leftarrow> BuildVersionComponents N newVersionInfo (nv_versionComponents (cr_newVersionInfo checkResult));
                     _ \<leftarrow> np_set_named_property N ob ''newVersionInfo'' newVersionInfo;
                     State_Monad.return ()
                   } else State_Monad.return ());
              State_Monad.return (ClientStatus_code CLIENT_SUCCESS, ob)
            }
          })"

definition upgrade_period_element :: "('v, 'r, 'd, 'w, 'h) napi \<Rightarrow> UpgradePeriod \<Rightarrow> ('h, 'v option) state" where
  "upgrade_period_element N p = do {
     (status, result) \<leftarrow> np_create_object N (np_wild N);
     if status \<noteq> napi_ok then State_Monad.return None
     else do {
       _ \<leftarrow> NapiUtil_SetInt32 N result ''start'' (up_start p);
       _ \<leftarrow> NapiUtil_SetInt32 N result ''end'' (up_end p);
       State_Monad.return (Some result)
     }
   }"

fun policy_period_loop :: "('v, 'r, 'd, 'w, 'h) napi \<Rightarrow> 'v \<Rightarrow> UpgradePeriod list \<Rightarrow> nat \<Rightarrow> ('h, unit) state" where
  "policy_period_loop N autoUpgradePeriods [] i = State_Monad.return ()"
| "policy_period_loop N autoUpgradePeriods (p # ps) i = do {
     made \<leftarrow> upgrade_period_element N p;
     case made of
       None \<Rightarrow> policy_period_loop N autoUpgradePeriods ps (i + 1)
     | Some result \<Rightarrow> do {
         _ \<leftarrow> np_set_element N autoUpgradePeriods (of_nat i) result;
         policy_period_loop N autoUpgradePeriods ps (i + 1)
       }
   }"

definition BuildUpgradePolicy ::
  "('v, 'r, 'd, 'w, 'h) napi \<Rightarrow> 'v \<Rightarrow> SessionType \<Rightarrow> UpgradePolicy option \<Rightarrow> ('h, int32_t \<times> 'v) state" where
  "BuildUpgradePolicy N ob type ptr =
     (case ptr of
        None \<Rightarrow> State_Monad.return (ClientStatus_code CLIENT_SUCCESS, ob)
      | Some upgradePolicy \<Rightarrow>
          if type \<noteq> SESSION_GET_POLICY then State_Monad.return (ClientStatus_code CLIENT_INVALID_TYPE, ob)
          else do {
            (status, ob) \<leftarrow> np_create_object N ob;
            if status \<noteq> napi_ok then State_Monad.return (status, ob)
            else do {
              _ \<leftarrow> NapiUtil_SetBool N ob ''downloadStrategy'' (upo_downloadStrategy upgradePolicy);
              _ \<leftarrow> NapiUtil_SetBool N ob ''autoUpgradeStrategy'' (upo_autoUpgradeStrategy upgradePolicy);
              (status, autoUpgradePeriods) \<leftarrow> np_create_array_with_length N 2 (np_wild N);
              if status \<noteq> napi_ok then State_Monad.return (status, ob)
              else do {
                _ \<leftarrow> policy_period_loop N autoUpgradePeriods
                      [fst (upo_autoUpgradePeriods upgradePolicy), snd (upo_autoUpgradePeriods upgradePolicy)] 0;
                status \<leftarrow> np_set_named_property N ob ''autoUpgradePeriods'' autoUpgradePeriods;
                if status \<noteq> napi_ok then State_Monad.return (ClientStatus_code CLIENT_INVALID_TYPE, ob)
                else State_Monad.return (napi_ok, ob)
              }
            }
          })"

definition BuildUndefinedStatus :: "('v, 'r, 'd, 'w, 'h) napi \<Rightarrow> 'v \<Rightarrow> ('h, int32_t \<times> 'v) state" where
  "BuildUndefinedStatus N ob = np_get_undefined N ob"

section \<open>Errors\<close>

definition COMPONENT_ERR :: int32_t where
  "COMPONENT_ERR = 11500000"

definition IsCommonError :: "CallResult \<Rightarrow> bool" where
  "IsCommonError callResult \<longleftrightarrow> callResult = CallResult.UN_SUPPORT \<or> callResult = CallResult.NOT_SYSTEM_APP \<or>
     callResult = CallResult.APP_NOT_GRANTED \<or> callResult = CallResult.PARAM_ERR"

definition ConvertToErrorCode :: "CallResult \<Rightarrow> int32_t" where
  "ConvertToErrorCode callResult =
     (if IsCommonError callResult \<or> callResult = CallResult.SUCCESS then CallResult_code callResult
      else COMPONENT_ERR + CallResult_code callResult)"

definition IsErrorExist :: "BusinessError \<Rightarrow> bool" where
  "IsErrorExist businessError \<longleftrightarrow> be_errorNum businessError \<noteq> CallResult.SUCCESS"

definition BuildBusinessError ::
  "('v, 'r, 'd, 'w, 'h) napi \<Rightarrow> 'v \<Rightarrow> BusinessError \<Rightarrow> ('h, int32_t \<times> 'v) state" where
  "BuildBusinessError N ob businessError =
     (if \<not> IsErrorExist businessError then State_Monad.return (ClientStatus_code CLIENT_SUCCESS, ob)
      else do {
        (status, ob) \<leftarrow> np_create_object N ob;
        if status \<noteq> napi_ok then State_Monad.return (ClientStatus_code CLIENT_INVALID_TYPE, ob)
        else do {
          _ \<leftarrow> NapiUtil_SetString N ob ''message'' (be_message businessError);
          _ \<leftarrow> NapiUtil_SetInt32 N ob ''code'' (ConvertToErrorCode (be_errorNum businessError));
          _ \<leftarrow> BuildErrorMessages N ob ''data'' (be_data businessError);
          State_Monad.return (ClientStatus_code CLIENT_SUCCESS, ob)
        }
      })"

definition BuildThrowError :: "('v, 'r, 'd, 'w, 'h) napi \<Rightarrow> BusinessError \<Rightarrow> ('h, 'v) state" where
  "BuildThrowError N businessError = do {
     (_, message) \<leftarrow> np_create_string_utf8 N (c_str (be_message businessError)) (np_nullptr N);
     (status, error) \<leftarrow> np_create_error N (np_nullptr N) message (np_nullptr N);
     if status \<noteq> napi_ok then State_Monad.return (np_nullptr N)
     else do {
       _ \<leftarrow> NapiUtil_SetInt32 N error ''code'' (ConvertToErrorCode (be_errorNum businessError));
       _ \<leftarrow> NapiUtil_SetString N error ''message'' (be_message businessError);
       _ \<leftarrow> BuildErrorMessages N error ''data'' (be_data businessError);
       State_Monad.return error
     }
   }"

fun convert_loop :: "(string \<times> string) list \<Rightarrow> bool \<Rightarrow> string \<Rightarrow> string" where
  "convert_loop [] isFirst strValue = strValue"
| "convert_loop (str # strVector) isFirst strValue =
     (let strValue = (if strValue \<noteq> [] then strValue @ '', '' else strValue)
      in convert_loop strVector isFirst (strValue @ (if isFirst then fst str else snd str)))"

definition ConvertVectorToStr :: "(string \<times> string) list \<Rightarrow> bool \<Rightarrow> string" where
  "ConvertVectorToStr strVector isFirst = convert_loop strVector isFirst ''''"

definition GetParamNames :: "(string \<times> string) list \<Rightarrow> string" where
  "GetParamNames strVector = ConvertVectorToStr strVector True"

definition GetParamTypes :: "(string \<times> string) list \<Rightarrow> string" where
  "GetParamTypes strVector = ConvertVectorToStr strVector False"

definition param_error_message :: "(string \<times> string) list \<Rightarrow> string" where
  "param_error_message paramInfos =
     ''BusinessError '' @ to_string (CallResult_code CallResult.PARAM_ERR) @
     '': Parameter error. The type of { '' @ GetParamNames paramInfos @ '' }'' @
     ''must be { '' @ GetParamTypes paramInfos @ '' }.''"

definition NapiThrowParamError :: "('v, 'r, 'd, 'w, 'h) napi \<Rightarrow> (string \<times> string) list \<Rightarrow> ('h, unit) state" where
  "NapiThrowParamError N paramInfos = do {
     msg \<leftarrow> BuildThrowError N (Build CallResult.PARAM_ERR (param_error_message paramInfos) BusinessError_default);
     _ \<leftarrow> np_throw N msg;
     State_Monad.return ()
   }"

section \<open>Events\<close>

definition BuildTaskBody_event ::
  "('v, 'r, 'd, 'w, 'h) napi \<Rightarrow> 'v \<Rightarrow> EventId \<Rightarrow> TaskBody \<Rightarrow> ('h, ClientStatus) state" where
  "BuildTaskBody_event N ob eventId taskBody =
     (case g_taskBodyTemplateMap eventId of
        None \<Rightarrow> State_Monad.return CLIENT_INVALID_PARAM
      | Some taskBodyTemplate \<Rightarrow> do {
          (_, napiTaskBody) \<leftarrow> np_create_object N (np_nullptr N);
          _ \<leftarrow> (if taskBodyTemplate AND VERSION_DIGEST_INFO \<noteq> 0
               then BuildVersionDigestInfo N napiTaskBody (tb_versionDigestInfo taskBody) else State_Monad.return ());
          _ \<leftarrow> (if taskBodyTemplate AND UPGRADE_STATUS \<noteq> 0
               then NapiUtil_SetInt32 N napiTaskBody ''status'' (UpgradeStatus_code (tb_status taskBody))
               else State_Monad.return 0);
          _ \<leftarrow> (if taskBodyTemplate AND SUB_STATUS \<noteq> 0
               then NapiUtil_SetInt32 N napiTaskBody ''subStatus'' (tb_subStatus taskBody) else State_Monad.return 0);
          _ \<leftarrow> (if taskBodyTemplate AND PROGRESS \<noteq> 0
               then NapiUtil_SetInt32 N napiTaskBody ''progress'' (tb_progress taskBody) else State_Monad.return 0);
          _ \<leftarrow> (if taskBodyTemplate AND INSTALL_MODE \<noteq> 0
               then NapiUtil_SetInt32 N napiTaskBody ''installMode'' (tb_installMode taskBody) else State_Monad.return 0);
          _ \<leftarrow> (if taskBodyTemplate AND ERROR_MESSAGE \<noteq> 0
               then BuildErrorMessages N napiTaskBody ''errorMessages'' (tb_errorMessages taskBody)
               else State_Monad.return ());
          _ \<leftarrow> (if taskBodyTemplate AND VERSION_COMPONENT \<noteq> 0
               then BuildVersionComponents N napiTaskBody (tb_versionComponents taskBody) else State_Monad.return ());
          _ \<leftarrow> np_set_named_property N ob ''taskBody'' napiTaskBody;
          State_Monad.return CLIENT_SUCCESS
        })"

definition BuildEventInfo :: "('v, 'r, 'd, 'w, 'h) napi \<Rightarrow> 'v \<Rightarrow> EventInfo \<Rightarrow> ('h, ClientStatus \<times> 'v) state" where
  "BuildEventInfo N ob eventInfo = do {
     (status, ob) \<leftarrow> np_create_object N ob;
     if status \<noteq> napi_ok then State_Monad.return (CLIENT_FAIL, ob)
     else do {
       _ \<leftarrow> NapiUtil_SetInt32 N ob ''eventId'' (EventId_code (ei_eventId eventInfo));
       ret \<leftarrow> BuildTaskBody_event N ob (ei_eventId eventInfo) (ei_taskBody eventInfo);
       State_Monad.return (if ret \<noteq> CLIENT_SUCCESS then CLIENT_FAIL else CLIENT_SUCCESS, ob)
     }
   }"

end
