(* ===== verification/Js_Values.thy ===== *)
theory Js_Values
  imports Client_Helper
begin

text \<open>
  What JavaScript sees of the structs: the reference trees, and the refinement of each \<open>Build\<close>
  function of \<open>Client_Helper\<close> to its tree. \<open>T\<close> is what the engine makes of the bytes of a string.
\<close>

section \<open>Reference trees\<close>

definition opt :: "bool \<Rightarrow> 'a list \<Rightarrow> 'a list" where
  "opt b xs = (if b then xs else [])"

definition opt_array :: "string \<Rightarrow> js_tree list \<Rightarrow> (string \<times> js_tree) list" where
  "opt_array k ts = opt (ts \<noteq> []) [(k, TArray ts)]"

definition bool_tree :: "bool \<Rightarrow> js_tree" where
  "bool_tree b = TNumber (if b then 1 else 0)"

definition DescriptionInfo_tree :: "(string \<Rightarrow> string) \<Rightarrow> DescriptionInfo \<Rightarrow> js_tree" where
  "DescriptionInfo_tree T d = TObject
     [(''descriptionType'', TNumber (sint (DescriptionType_code (di_descriptionType d)))),
      (''content'', TString (T (c_str (di_content d))))]"

definition ComponentDescription_tree :: "(string \<Rightarrow> string) \<Rightarrow> ComponentDescription \<Rightarrow> js_tree" where
  "ComponentDescription_tree T c = TObject
     [(''componentId'', TString (T (c_str (cd_componentId c)))),
      (''descriptionInfo'', DescriptionInfo_tree T (cd_descriptionInfo c))]"

definition VersionComponent_tree :: "(string \<Rightarrow> string) \<Rightarrow> VersionComponent \<Rightarrow> js_tree" where
  "VersionComponent_tree T c = TObject
     [(''componentId'', TString (T (c_str (vc_componentId c)))),
      (''componentType'', TNumber (sint (vc_componentType c))),
      (''upgradeAction'', TString (T (c_str (vc_upgradeAction c)))),
      (''displayVersion'', TString (T (c_str (vc_displayVersion c)))),
      (''innerVersion'', TString (T (c_str (vc_innerVersion c)))),
      (''size'', TNumber (sint (uint32_of_size (vc_size c)))),
      (''effectiveMode'', TNumber (sint (uint32_of_size (vc_effectiveMode c)))),
      (''descriptionInfo'', DescriptionInfo_tree T (vc_descriptionInfo c)),
      (''componentExtra'', TString (T (c_str (vc_componentExtra c))))]"

definition VersionComponents_field :: "(string \<Rightarrow> string) \<Rightarrow> VersionComponent list \<Rightarrow> (string \<times> js_tree) list" where
  "VersionComponents_field T cs =
     opt_array ''versionComponents'' (map (VersionComponent_tree T) (filter IsValidData_VersionComponent cs))"

definition ErrorMessage_tree :: "(string \<Rightarrow> string) \<Rightarrow> ErrorMessage \<Rightarrow> js_tree" where
  "ErrorMessage_tree T e = TObject
     [(''errorCode'', TNumber (sint (em_errorCode e))), (''errorMessage'', TString (T (em_errorMessage e)))]"

definition ErrorMessages_field :: "(string \<Rightarrow> string) \<Rightarrow> string \<Rightarrow> ErrorMessage list \<Rightarrow> (string \<times> js_tree) list" where
  "ErrorMessages_field T k es = opt_array k (map (ErrorMessage_tree T) (filter IsValidData_ErrorMessage es))"

definition VersionDigestInfo_field :: "(string \<Rightarrow> string) \<Rightarrow> VersionDigestInfo \<Rightarrow> (string \<times> js_tree) list" where
  "VersionDigestInfo_field T d = [(''versionDigestInfo'', TObject [(''versionDigest'', TString (T (vd_versionDigest d)))])]"

definition CurrentVersionInfo_tree :: "(string \<Rightarrow> string) \<Rightarrow> CurrentVersionInfo \<Rightarrow> js_tree" where
  "CurrentVersionInfo_tree T i = TObject
     ([(''osVersion'', TString (T (cv_osVersion i))), (''deviceName'', TString (T (cv_deviceName i)))] @
      VersionComponents_field T (cv_versionComponents i))"

definition TaskBody_tree :: "(string \<Rightarrow> string) \<Rightarrow> TaskBody \<Rightarrow> js_tree" where
  "TaskBody_tree T b = TObject
     (VersionDigestInfo_field T (tb_versionDigestInfo b) @
      [(''status'', TNumber (sint (UpgradeStatus_code (tb_status b)))),
       (''subStatus'', TNumber (sint (tb_subStatus b))),
       (''progress'', TNumber (sint (tb_progress b))),
       (''installMode'', TNumber (sint (tb_installMode b)))] @
      ErrorMessages_field T ''errorMessages'' (tb_errorMessages b) @
      VersionComponents_field T (tb_versionComponents b))"

definition TaskInfo_tree :: "(string \<Rightarrow> string) \<Rightarrow> TaskInfo \<Rightarrow> js_tree" where
  "TaskInfo_tree T i = TObject
     ([(''existTask'', bool_tree (ti_existTask i))] @
      opt (ti_existTask i) [(''taskBody'', TaskBody_tree T (ti_taskBody i))])"

definition NewVersionInfo_fields :: "(string \<Rightarrow> string) \<Rightarrow> NewVersionInfo \<Rightarrow> (string \<times> js_tree) list" where
  "NewVersionInfo_fields T i =
     VersionDigestInfo_field T (nv_versionDigestInfo i) @ VersionComponents_field T (nv_versionComponents i)"

definition CheckResult_tree :: "(string \<Rightarrow> string) \<Rightarrow> CheckResult \<Rightarrow> js_tree" where
  "CheckResult_tree T r = TObject
     ([(''isExistNewVersion'', bool_tree (cr_isExistNewVersion r))] @
      opt (cr_isExistNewVersion r) [(''newVersionInfo'', TObject (NewVersionInfo_fields T (cr_newVersionInfo r)))])"

definition UpgradePeriod_tree :: "UpgradePeriod \<Rightarrow> js_tree" where
  "UpgradePeriod_tree p = TObject [(''start'', TNumber (sint (up_start p))), (''end'', TNumber (sint (up_end p)))]"

definition UpgradePolicy_tree :: "UpgradePolicy \<Rightarrow> js_tree" where
  "UpgradePolicy_tree p = TObject
     [(''downloadStrategy'', bool_tree (upo_downloadStrategy p)),
      (''autoUpgradeStrategy'', bool_tree (upo_autoUpgradeStrategy p)),
      (''autoUpgradePeriods'', TArray
         [UpgradePeriod_tree (fst (upo_autoUpgradePeriods p)), UpgradePeriod_tree (snd (upo_autoUpgradePeriods p))])]"

definition BusinessError_fields :: "(string \<Rightarrow> string) \<Rightarrow> BusinessError \<Rightarrow> (string \<times> js_tree) list" where
  "BusinessError_fields T e =
     [(''message'', TString (T (be_message e))), (''code'', TNumber (sint (ConvertToErrorCode (be_errorNum e))))] @
     ErrorMessages_field T ''data'' (be_data e)"

text \<open>The members of the task body an event shows.\<close>

definition TaskBody_event_fields :: "(string \<Rightarrow> string) \<Rightarrow> uint32_t \<Rightarrow> TaskBody \<Rightarrow> (string \<times> js_tree) list" where
  "TaskBody_event_fields T shown b =
     opt (shown AND VERSION_DIGEST_INFO \<noteq> 0) (VersionDigestInfo_field T (tb_versionDigestInfo b)) @
     opt (shown AND UPGRADE_STATUS \<noteq> 0) [(''status'', TNumber (sint (UpgradeStatus_code (tb_status b))))] @
     opt (shown AND SUB_STATUS \<noteq> 0) [(''subStatus'', TNumber (sint (tb_subStatus b)))] @
     opt (shown AND PROGRESS \<noteq> 0) [(''progress'', TNumber (sint (tb_progress b)))] @
     opt (shown AND INSTALL_MODE \<noteq> 0) [(''installMode'', TNumber (sint (tb_installMode b)))] @
     opt (shown AND ERROR_MESSAGE \<noteq> 0) (ErrorMessages_field T ''errorMessages'' (tb_errorMessages b)) @
     opt (shown AND VERSION_COMPONENT \<noteq> 0) (VersionComponents_field T (tb_versionComponents b))"

definition EventInfo_tree :: "(string \<Rightarrow> string) \<Rightarrow> uint32_t \<Rightarrow> EventInfo \<Rightarrow> js_tree" where
  "EventInfo_tree T shown e = TObject
     [(''eventId'', TNumber (sint (EventId_code (ei_eventId e)))),
      (''taskBody'', TObject (TaskBody_event_fields T shown (ei_taskBody e)))]"

text \<open>The names of fields that may be absent.\<close>

lemma absent:
  "k \<notin> fst ` set ps \<Longrightarrow> k \<notin> fst ` set qs \<Longrightarrow> k \<notin> fst ` set (ps @ qs)"
  "k \<notin> fst ` set []"
  "k \<noteq> k' \<Longrightarrow> k \<notin> fst ` set [(k', t)]"
  "k \<notin> fst ` set ps \<Longrightarrow> k \<notin> fst ` set (opt b ps)"
  "k \<noteq> k' \<Longrightarrow> k \<notin> fst ` set (ErrorMessages_field T k' es)"
  "k \<noteq> ''versionComponents'' \<Longrightarrow> k \<notin> fst ` set (VersionComponents_field T cs)"
  "k \<noteq> ''versionDigestInfo'' \<Longrightarrow> k \<notin> fst ` set (VersionDigestInfo_field T d)"
  by (auto simp: opt_def opt_array_def ErrorMessages_field_def VersionComponents_field_def VersionDigestInfo_field_def)

lemma distinct_one_more:
  assumes "distinct (map fst ps)" and "k \<notin> fst ` set ps"
  shows "distinct (map fst (ps @ opt b [(k, t)]))"
    and "k = k' \<Longrightarrow> distinct (map fst (ps @ opt b (ErrorMessages_field T k' es)))"
    and "k = ''versionComponents'' \<Longrightarrow> distinct (map fst (ps @ opt b (VersionComponents_field T cs)))"
    and "k = ''versionDigestInfo'' \<Longrightarrow> distinct (map fst (ps @ opt b (VersionDigestInfo_field T d)))"
  using assms by (auto simp: opt_def opt_array_def ErrorMessages_field_def VersionComponents_field_def VersionDigestInfo_field_def)

lemma distinct_no_field: "distinct (map fst [])"
  by simp

lemma extends_opt: "extends Ob v qs c \<Longrightarrow> extends Ob v (opt b qs) (if b then c else State_Monad.return x)"
  by (simp add: opt_def extends_nothing)

lemma completes_finish_eq:
  assumes "napi_engine N Ob" and "own_name k" and "ps = ps'"
  shows "completes Ob v ob ps (np_set_named_property N v k ob \<bind> (\<lambda>st. State_Monad.return x)) [(k, TObject ps')]"
  using napi_engine.completes_finish [OF assms(1,2)] assms(3) by simp

lemma fills_finish_eq: "g ob = x \<Longrightarrow> TObject ps = t \<Longrightarrow> fills Ob {} ob ps (State_Monad.return x) g t"
  using fills_finish [of g ob x Ob ps] by simp

lemma fills_conv: "fills Ob B ob ps c g t \<Longrightarrow> t = t' \<Longrightarrow> fills Ob B ob ps c g t'"
  by simp

lemma fills_finish_error_eq: "g ob = x \<Longrightarrow> TError ps = t \<Longrightarrow> fills Ob B ob ps (State_Monad.return x) g t"
  using fills_finish_error [of g ob x Ob B ps] by simp

text \<open>The order in which the properties of an error are listed does not matter.\<close>

lemma renders_error_set:
  assumes "set ps = set qs" and "distinct (map fst qs)" and "renders Ob L h v (TError ps)"
  shows "renders Ob L h v (TError qs)"
  using assms(3) by (rule renders_errorE) (use assms(1,2) in \<open>auto intro: renders_error\<close>)

lemma if_not_True: "b \<Longrightarrow> (if \<not> b then x else y) = y"
  by simp

section \<open>Arrays\<close>

lemma GetValidDataCount_filter: "GetValidDataCount valid xs = length (filter valid xs)"
proof -
  have "valid_count valid xs n = n + length (filter valid xs)" for n
    by (induction xs arbitrary: n) auto
  then show ?thesis by (simp add: GetValidDataCount_def)
qed

context napi_engine
begin

lemma array_loop_fills:
  assumes "\<And>x. valid x \<Longrightarrow> builds Ob Some (tree x) (element x)" and "n < 2 ^ 32"
  shows "building_array Ob L h arr n ts \<Longrightarrow> length ts + length (filter valid xs) = n \<Longrightarrow>
    \<exists>h'. run_state (array_loop N valid element arr xs (length ts) n) h = ((), h') \<and>
      building_array Ob L h' arr n (ts @ map tree (filter valid xs)) \<and> only_changes Ob {arr} h h'"
proof (induction xs arbitrary: ts h)
  case Nil
  then show ?case by (auto simp: building_array_def intro: only_changes_refl)
next
  case (Cons x xs)
  show ?case
  proof (cases "valid x")
    case True
    have less: "length ts < n" using Cons.prems(2) True by simp
    have "jo_ready Ob h" using Cons.prems(1) by (simp add: building_array_def)
    then obtain v h1 where e: "run_state (element x) h = (Some v, h1)" "only_changes Ob {} h h1"
        "renders Ob (jo_live Ob h) h1 v (tree x)"
      using assms(1) [OF True] unfolding builds_def by blast
    have b1: "building_array Ob L h1 arr n ts" by (rule building_array_frame [OF Cons.prems(1) e(2)])
    then obtain as where as: "jo_ready Ob h1" "arr \<in> jo_live Ob h1" "jo_view Ob h1 arr = JsArray as" "length as = n"
      by (auto simp: building_array_def)
    have idx: "unat (of_nat (length ts) :: 32 word) = length ts"
      using less assms(2) by (simp add: unat_of_nat)
    obtain h2 where s: "run_state (np_set_element N arr (of_nat (length ts)) v) h1 = (napi_ok, h2)"
        "only_changes Ob {arr} h1 h2" "jo_view Ob h2 arr = JsArray (as[length ts := v])"
      using set_element [OF as(1-3) renders_live [OF e(3)], of "of_nat (length ts)"] less as(4) idx by auto
    have b2: "building_array Ob L h2 arr n (ts @ [tree x])" "only_changes Ob {arr} h h2"
      by (rule building_array_set [OF Cons.prems(1) e(2,3) s(2)]; use s(3) as(3) less in auto)+
    obtain h3 where "run_state (array_loop N valid element arr xs (length (ts @ [tree x])) n) h2 = ((), h3)"
        "building_array Ob L h3 arr n ((ts @ [tree x]) @ map tree (filter valid xs))" "only_changes Ob {arr} h2 h3"
      using Cons.IH [OF b2(1)] Cons.prems(2) True by auto
    then show ?thesis using True less e(1) s(1) only_changes_trans [OF b2(2)] by auto
  next
    case False
    show ?thesis
    proof (cases "length ts < n")
      case True
      then show ?thesis using Cons.IH [OF Cons.prems(1)] Cons.prems(2) False by simp
    next
      case none: False
      moreover have "length ts + length (filter valid xs) = n" using Cons.prems(2) False by simp
      ultimately have "length (filter valid xs) = 0" by linarith
      then have "filter valid xs = []" by (simp only: length_0_conv)
      then show ?thesis using none False Cons.prems(1) by (auto simp: building_array_def intro: only_changes_refl)
    qed
  qed
qed

lemma building_array_new:
  assumes "jo_ready Ob h" and "only_changes Ob {} h h'" and "v \<in> jo_live Ob h'" and "v \<notin> jo_live Ob h"
    and "jo_view Ob h' v = JsArray xs" and "length xs = n"
  shows "building_array Ob (jo_live Ob h) h' v n []"
  using assms by (auto simp: building_array_def only_changes_def keeps_values_def)

lemma array_built:
  assumes "\<And>x. valid x \<Longrightarrow> builds Ob Some (tree x) (element x)" and "length (filter valid xs) < 2 ^ 32" and "jo_ready Ob h"
  shows "\<exists>arr h1 h'. run_state (np_create_array_with_length N (of_nat (length (filter valid xs))) old) h = ((napi_ok, arr), h1) \<and>
    run_state (array_loop N valid element arr xs 0 (length (filter valid xs))) h1 = ((), h') \<and>
    only_changes Ob {} h h' \<and> renders Ob (jo_live Ob h) h' arr (TArray (map tree (filter valid xs)))"
proof -
  let ?n = "length (filter valid xs)"
  have n: "unat (of_nat ?n :: size_t) = ?n" using assms(2) by (simp add: unat_of_nat)
  obtain arr as h1 where a: "run_state (np_create_array_with_length N (of_nat ?n) old) h = ((napi_ok, arr), h1)"
      "only_changes Ob {} h h1" "arr \<in> jo_live Ob h1" "arr \<notin> jo_live Ob h" "jo_view Ob h1 arr = JsArray as" "length as = ?n"
    using create_array [OF assms(3), of "of_nat ?n" old] n assms(2) by auto
  have b: "building_array Ob (jo_live Ob h) h1 arr ?n []" by (rule building_array_new [OF assms(3) a(2-6)])
  obtain h2 where l: "run_state (array_loop N valid element arr xs 0 ?n) h1 = ((), h2)"
      "building_array Ob (jo_live Ob h) h2 arr ?n (map tree (filter valid xs))" "only_changes Ob {arr} h1 h2"
    using array_loop_fills [where valid = valid and tree = tree and element = element and xs = xs, OF assms(1,2) b] by auto
  have "renders Ob (jo_live Ob h) h2 arr (TArray (map tree (filter valid xs)))"
    by (rule building_array_renders) (use l(2) in simp)
  moreover have "only_changes Ob {} h h2" by (rule only_changes_new [OF a(2) l(3)]) (use a(4) in simp)
  ultimately show ?thesis using a(1) l(1) by blast
qed

text \<open>An array that is made and hung into an object.\<close>

lemma extends_array:
  assumes "\<And>x. valid x \<Longrightarrow> builds Ob Some (tree x) (element x)" and "length xs < 2 ^ 32" and "own_name k"
  shows "extends Ob v (opt_array k (map tree (filter valid xs)))
    (let n = GetValidDataCount valid xs
     in if n = 0 then State_Monad.return ()
        else np_create_array_with_length N (of_nat n) old \<bind> (\<lambda>(st, arr).
          array_loop N valid element arr xs 0 n \<bind> (\<lambda>_.
          np_set_named_property N v k arr \<bind> (\<lambda>_. State_Monad.return ()))))"
proof (cases "filter valid xs = []")
  case True
  then show ?thesis by (simp add: GetValidDataCount_filter opt_array_def opt_def extends_nothing)
next
  case False
  let ?n = "length (filter valid xs)"
  have n: "?n < 2 ^ 32" using assms(2) length_filter_le [of valid xs] by (rule le_less_trans [rotated])
  define c where "c = np_create_array_with_length N (of_nat ?n) old \<bind> (\<lambda>(st, arr).
      array_loop N valid element arr xs 0 ?n \<bind> (\<lambda>_. State_Monad.return (napi_ok, arr)))"
  have "extends Ob v [(k, TArray (map tree (filter valid xs)))]
      (c \<bind> (\<lambda>(st, arr). np_set_named_property N v k arr \<bind> (\<lambda>_. State_Monad.return ())))"
  proof (rule extends_value [OF _ assms(3)])
    fix h assume "jo_ready Ob h"
    from array_built [where valid = valid and tree = tree and element = element and xs = xs and old = old, OF assms(1) n this]
    show "\<exists>w h'. run_state c h = ((napi_ok, w), h') \<and> only_changes Ob {} h h' \<and>
        renders Ob (jo_live Ob h) h' w (TArray (map tree (filter valid xs)))"
      unfolding c_def by fastforce
  qed
  moreover have "(c \<bind> (\<lambda>(st, arr). np_set_named_property N v k arr \<bind> (\<lambda>_. State_Monad.return ()))) =
      np_create_array_with_length N (of_nat ?n) old \<bind> (\<lambda>(st, arr).
        array_loop N valid element arr xs 0 ?n \<bind> (\<lambda>_.
        np_set_named_property N v k arr \<bind> (\<lambda>_. State_Monad.return ())))"
    unfolding c_def by (simp add: case_prod_beta' )
  ultimately show ?thesis
    using False by (simp add: GetValidDataCount_filter opt_array_def opt_def Let_def)
qed

section \<open>Refinement of the builders\<close>

lemmas own_names = own_name_def inherited_names_def
lemmas here = napi_engine_axioms
lemmas filling = completes_finish_eq [OF here] completes_step fills_finish_eq fills_step extends_opt
lemmas setters = extends_SetInt32 extends_SetString extends_SetBool [folded bool_tree_def]

lemma extends_BuildDescInfo: "extends Ob v [(''descriptionInfo'', DescriptionInfo_tree (jo_text Ob) d)] (BuildDescInfo N v d)"
  unfolding BuildDescInfo_def DescriptionInfo_tree_def
  by (rule extends_child, unfold prod.case) (rule filling setters | (simp add: own_names; fail))+

lemma extends_BuildVersionDigestInfo: "extends Ob v (VersionDigestInfo_field (jo_text Ob) d) (BuildVersionDigestInfo N v d)"
  unfolding BuildVersionDigestInfo_def VersionDigestInfo_field_def
  by (rule extends_child, unfold prod.case) (rule filling setters | (simp add: own_names; fail))+

lemma builds_component_description:
  "builds Ob Some (ComponentDescription_tree (jo_text Ob) c) (component_description_element N c)"
  unfolding component_description_element_def ComponentDescription_tree_def
  by (rule builds_object, unfold prod.case simp_thms if_False not_True_eq_False)
    (rule filling setters extends_BuildDescInfo | (simp add: own_names; fail))+

lemma builds_version_component:
  "builds Ob Some (VersionComponent_tree (jo_text Ob) c) (version_component_element N c)"
  unfolding version_component_element_def VersionComponent_tree_def
  by (rule builds_object, unfold prod.case simp_thms if_False not_True_eq_False)
    (rule filling setters extends_BuildDescInfo | (simp add: own_names; fail))+

lemma builds_error_message: "builds Ob Some (ErrorMessage_tree (jo_text Ob) e) (error_message_element N e)"
  unfolding error_message_element_def ErrorMessage_tree_def
  by (rule builds_object, unfold prod.case) (rule filling setters | (simp add: own_names; fail))+

lemma extends_BuildVersionComponents:
  "length cs < 2 ^ 32 \<Longrightarrow> extends Ob v (VersionComponents_field (jo_text Ob) cs) (BuildVersionComponents N v cs)"
  unfolding BuildVersionComponents_def VersionComponents_field_def
  by (rule extends_array) (simp_all add: builds_version_component own_names)

lemma extends_BuildErrorMessages:
  "length es < 2 ^ 32 \<Longrightarrow> own_name k \<Longrightarrow> extends Ob v (ErrorMessages_field (jo_text Ob) k es) (BuildErrorMessages N v k es)"
  unfolding BuildErrorMessages_def ErrorMessages_field_def
  by (rule extends_array) (simp_all add: builds_error_message)

lemmas struct_setters = setters extends_BuildVersionDigestInfo extends_BuildVersionComponents extends_BuildErrorMessages

lemmas field_names = VersionDigestInfo_field_def VersionComponents_field_def ErrorMessages_field_def
  NewVersionInfo_fields_def opt_array_def opt_def

lemma extends_BuildTaskBody:
  assumes "length (tb_errorMessages b) < 2 ^ 32" and "length (tb_versionComponents b) < 2 ^ 32"
  shows "extends Ob v [(''taskBody'', TaskBody_tree (jo_text Ob) b)] (ClientHelper_BuildTaskBody N v b)"
  unfolding ClientHelper_BuildTaskBody_def TaskBody_tree_def
  by (rule extends_child, unfold prod.case)
    (rule filling struct_setters assms | (simp add: own_names; fail) | (simp add: field_names; fail))+

lemma builds_CurrentVersionInfo:
  assumes "length (cv_versionComponents i) < 2 ^ 32"
  shows "builds Ob (Pair 0) (CurrentVersionInfo_tree (jo_text Ob) i) (ClientHelper_BuildCurrentVersionInfo N old SESSION_GET_CUR_VERSION (Some i))"
  unfolding ClientHelper_BuildCurrentVersionInfo_def CurrentVersionInfo_tree_def option.case simp_thms if_False not_True_eq_False
  by (rule builds_object, unfold prod.case simp_thms if_False not_True_eq_False)
    (rule filling struct_setters assms | (simp add: own_names; fail) | (simp add: field_names; fail))+


lemma builds_TaskInfo:
  assumes "length (tb_errorMessages (ti_taskBody i)) < 2 ^ 32" and "length (tb_versionComponents (ti_taskBody i)) < 2 ^ 32"
  shows "builds Ob (Pair 0) (TaskInfo_tree (jo_text Ob) i) (BuildTaskInfo N old (Some i))"
  unfolding BuildTaskInfo_def TaskInfo_tree_def option.case
  by (rule builds_object, unfold prod.case simp_thms if_False not_True_eq_False)
    (rule filling struct_setters extends_BuildTaskBody assms | (simp add: own_names; fail) | (simp add: field_names; fail))+

lemma builds_NewVersionInfo:
  assumes "length (nv_versionComponents i) < 2 ^ 32"
  shows "builds Ob (Pair 0) (TObject (NewVersionInfo_fields (jo_text Ob) i)) (ClientHelper_BuildNewVersionInfo N old SESSION_GET_NEW_VERSION (Some i))"
  unfolding ClientHelper_BuildNewVersionInfo_def NewVersionInfo_fields_def option.case simp_thms if_False not_True_eq_False
  by (rule builds_object, unfold prod.case simp_thms if_False not_True_eq_False)
    (rule filling struct_setters assms | (simp add: own_names; fail) | (simp add: field_names; fail))+

lemma builds_BusinessError:
  assumes "length (be_data e) < 2 ^ 32" and "IsErrorExist e"
  shows "builds Ob (Pair 0) (TObject (BusinessError_fields (jo_text Ob) e)) (BuildBusinessError N old e)"
  unfolding BuildBusinessError_def BusinessError_fields_def if_not_True [OF assms(2)]
  by (rule builds_object, unfold prod.case simp_thms if_False not_True_eq_False)
    (rule filling struct_setters assms | (simp add: own_names; fail) | (simp add: field_names; fail))+


lemma extends_newVersionInfo:
  assumes "length (nv_versionComponents i) < 2 ^ 32"
  shows "extends Ob v [(''newVersionInfo'', TObject (NewVersionInfo_fields (jo_text Ob) i))]
    (np_create_object N old \<bind> (\<lambda>(st, ob). BuildVersionDigestInfo N ob (nv_versionDigestInfo i) \<bind> (\<lambda>_.
       BuildVersionComponents N ob (nv_versionComponents i) \<bind> (\<lambda>_.
       np_set_named_property N v ''newVersionInfo'' ob \<bind> (\<lambda>_. State_Monad.return ())))))"
  unfolding NewVersionInfo_fields_def
  by (rule extends_child, unfold prod.case)
    (rule filling struct_setters assms | (simp add: own_names; fail) | (simp add: field_names; fail))+

lemma builds_CheckResult:
  assumes "length (nv_versionComponents (cr_newVersionInfo c)) < 2 ^ 32"
  shows "builds Ob (Pair 0) (CheckResult_tree (jo_text Ob) c) (ClientHelper_BuildCheckResult N old SESSION_CHECK_VERSION (Some c))"
  unfolding ClientHelper_BuildCheckResult_def CheckResult_tree_def option.case simp_thms if_False not_True_eq_False
  by (rule builds_object, unfold prod.case simp_thms if_False not_True_eq_False)
    (rule filling struct_setters extends_newVersionInfo assms | (simp add: own_names; fail) | (simp add: field_names; fail))+

lemma builds_upgrade_period: "builds Ob Some (UpgradePeriod_tree p) (upgrade_period_element N p)"
  unfolding upgrade_period_element_def UpgradePeriod_tree_def
  by (rule builds_object, unfold prod.case simp_thms if_False not_True_eq_False)
    (rule filling setters | (simp add: own_names; fail))+

lemma builds_ThrowError:
  assumes "length (be_data e) < 2 ^ 32"
  shows "builds Ob id (TError (BusinessError_fields (jo_text Ob) e)) (BuildThrowError N e)"
  unfolding builds_def
proof (intro allI impI)
  fix h assume r: "jo_ready Ob h"
  obtain msg h1 where s: "run_state (np_create_string_utf8 N (c_str (be_message e)) (np_nullptr N)) h = ((napi_ok, msg), h1)"
      "only_changes Ob {} h h1" "msg \<in> jo_live Ob h1" "jo_view Ob h1 msg = JsString (jo_text Ob (c_str (be_message e)))"
    using create_string [OF r] by blast
  have r1: "jo_ready Ob h1" using s(2) by (rule only_changes_ready)
  obtain v m h2 where c: "run_state (np_create_error N (np_nullptr N) msg (np_nullptr N)) h1 = ((napi_ok, v), h2)"
      "only_changes Ob {} h1 h2" "v \<in> jo_live Ob h2" "v \<notin> jo_live Ob h1" "jo_view Ob h2 v = JsObject m"
    using create_error [OF r1 s(3,4)] by blast
  have b: "building Ob (jo_live Ob h1) (dom m) h2 v []" by (rule building_new [OF r1 c(2-5)]) simp
  have "fills Ob (dom m) v [] (NapiUtil_SetInt32 N v ''code'' (ConvertToErrorCode (be_errorNum e)) \<bind> (\<lambda>_.
      NapiUtil_SetString N v ''message'' (be_message e) \<bind> (\<lambda>_.
      BuildErrorMessages N v ''data'' (be_data e) \<bind> (\<lambda>_. State_Monad.return v)))) id
      (TError ([(''code'', TNumber (sint (ConvertToErrorCode (be_errorNum e)))), (''message'', TString (jo_text Ob (be_message e)))] @
        ErrorMessages_field (jo_text Ob) ''data'' (be_data e)))"
    by (rule fills_finish_error_eq fills_step struct_setters assms | (simp add: own_names; fail) | (simp add: field_names; fail))+
  with b c(2) obtain h3 where f: "run_state (NapiUtil_SetInt32 N v ''code'' (ConvertToErrorCode (be_errorNum e)) \<bind> (\<lambda>_.
      NapiUtil_SetString N v ''message'' (be_message e) \<bind> (\<lambda>_.
      BuildErrorMessages N v ''data'' (be_data e) \<bind> (\<lambda>_. State_Monad.return v)))) h2 = (v, h3)"
      "only_changes Ob {} h1 h3" "renders Ob (jo_live Ob h1) h3 v
        (TError ([(''code'', TNumber (sint (ConvertToErrorCode (be_errorNum e)))), (''message'', TString (jo_text Ob (be_message e)))] @
        ErrorMessages_field (jo_text Ob) ''data'' (be_data e)))"
    unfolding fills_def by (metis id_apply)
  have "renders Ob (jo_live Ob h) h3 v (TError (BusinessError_fields (jo_text Ob) e))"
  proof (rule renders_error_set [OF _ _ renders_apart [OF f(3)]])
    show "jo_live Ob h \<subseteq> jo_live Ob h1" using s(2) by (simp add: only_changes_def keeps_values_def)
  qed (auto simp: BusinessError_fields_def field_names)
  then show "\<exists>v h'. run_state (BuildThrowError N e) h = (id v, h') \<and> only_changes Ob {} h h' \<and>
      renders Ob (jo_live Ob h) h' v (TError (BusinessError_fields (jo_text Ob) e))"
    using only_changes_trans [OF s(2) f(2)] f(1) by (auto simp: BuildThrowError_def s(1) c(1))
qed


lemma throws_param_error:
  assumes "jo_ready Ob h"
  shows "\<exists>v h'. run_state (NapiThrowParamError N ps) h = ((), h') \<and> \<not> jo_ready Ob h' \<and> jo_thrown Ob h' = Some v \<and>
    keeps_values Ob {} h h' \<and> same_handles Ob h h' \<and>
    renders Ob (jo_live Ob h) h' v
      (TError [(''message'', TString (jo_text Ob (param_error_message ps))), (''code'', TNumber 401)])"
proof -
  let ?e = "Build CallResult.PARAM_ERR (param_error_message ps) BusinessError_default"
  have fields: "BusinessError_fields (jo_text Ob) ?e =
      [(''message'', TString (jo_text Ob (param_error_message ps))), (''code'', TNumber 401)]"
    by (simp add: BusinessError_fields_def Build_def BusinessError_default_def ErrorMessages_field_def opt_array_def opt_def
        ConvertToErrorCode_def IsCommonError_def)
  have "length (be_data ?e) < 2 ^ 32" by (simp add: Build_def BusinessError_default_def)
  from builds_ThrowError [OF this] assms obtain v h1 where b: "run_state (BuildThrowError N ?e) h = (v, h1)"
      "only_changes Ob {} h h1" "renders Ob (jo_live Ob h) h1 v (TError (BusinessError_fields (jo_text Ob) ?e))"
    unfolding builds_def by (metis id_apply)
  have r1: "jo_ready Ob h1" using b(2) by (rule only_changes_ready)
  obtain h2 where t: "run_state (np_throw N v) h1 = (napi_ok, h2)" "\<not> jo_ready Ob h2" "jo_thrown Ob h2 = Some v"
      "keeps_values Ob {} h1 h2" "same_handles Ob h1 h2"
    using throw [OF r1 renders_live [OF b(3)]] by blast
  have "renders Ob (jo_live Ob h) h2 v (TError (BusinessError_fields (jo_text Ob) ?e))"
    by (rule renders_frame [OF b(3) t(4)]) simp_all
  moreover have "keeps_values Ob {} h h2" "same_handles Ob h h2"
    using b(2) t(4,5) by (auto simp: only_changes_def same_handles_def intro: keeps_values_trans)
  ultimately show ?thesis using t(2,3) unfolding fields by (auto simp: NapiThrowParamError_def b(1) t(1))
qed

text \<open>The policy.\<close>

lemma policy_periods_fill:
  "building_array Ob L h arr n ts \<Longrightarrow> length ts + length ps = n \<Longrightarrow> n < 2 ^ 32 \<Longrightarrow>
    \<exists>h'. run_state (policy_period_loop N arr ps (length ts)) h = ((), h') \<and>
      building_array Ob L h' arr n (ts @ map UpgradePeriod_tree ps) \<and> only_changes Ob {arr} h h'"
proof (induction ps arbitrary: ts h)
  case Nil
  then show ?case by (auto simp: building_array_def intro: only_changes_refl)
next
  case (Cons p ps)
  have less: "length ts < n" using Cons.prems(2) by simp
  have "jo_ready Ob h" using Cons.prems(1) by (simp add: building_array_def)
  then obtain v h1 where e: "run_state (upgrade_period_element N p) h = (Some v, h1)" "only_changes Ob {} h h1"
      "renders Ob (jo_live Ob h) h1 v (UpgradePeriod_tree p)"
    using builds_upgrade_period unfolding builds_def by blast
  have b1: "building_array Ob L h1 arr n ts" by (rule building_array_frame [OF Cons.prems(1) e(2)])
  then obtain as where as: "jo_ready Ob h1" "arr \<in> jo_live Ob h1" "jo_view Ob h1 arr = JsArray as" "length as = n"
    by (auto simp: building_array_def)
  have idx: "unat (of_nat (length ts) :: 32 word) = length ts"
    using less Cons.prems(3) by (simp add: unat_of_nat)
  obtain h2 where s: "run_state (np_set_element N arr (of_nat (length ts)) v) h1 = (napi_ok, h2)"
      "only_changes Ob {arr} h1 h2" "jo_view Ob h2 arr = JsArray (as[length ts := v])"
    using set_element [OF as(1-3) renders_live [OF e(3)], of "of_nat (length ts)"] less as(4) idx by auto
  have b2: "building_array Ob L h2 arr n (ts @ [UpgradePeriod_tree p])" "only_changes Ob {arr} h h2"
    by (rule building_array_set [OF Cons.prems(1) e(2,3) s(2)]; use s(3) as(3) less in auto)+
  obtain h3 where "run_state (policy_period_loop N arr ps (length (ts @ [UpgradePeriod_tree p]))) h2 = ((), h3)"
      "building_array Ob L h3 arr n ((ts @ [UpgradePeriod_tree p]) @ map UpgradePeriod_tree ps)" "only_changes Ob {arr} h2 h3"
    using Cons.IH [OF b2(1)] Cons.prems(2,3) by auto
  then show ?case using e(1) s(1) only_changes_trans [OF b2(2)] by auto
qed

lemma builds_UpgradePolicy:
  "builds Ob (Pair 0) (UpgradePolicy_tree p) (BuildUpgradePolicy N old SESSION_GET_POLICY (Some p))"
  unfolding BuildUpgradePolicy_def option.case simp_thms if_False not_True_eq_False
proof (rule builds_object, unfold prod.case simp_thms if_False not_True_eq_False)
  fix ob
  let ?k = "''autoUpgradePeriods''"
  let ?ps = "[fst (upo_autoUpgradePeriods p), snd (upo_autoUpgradePeriods p)]"
  let ?c = "np_create_array_with_length N 2 (np_wild N) \<bind> (\<lambda>(status, arr).
      if status \<noteq> napi_ok then State_Monad.return (status, ob)
      else policy_period_loop N arr ?ps 0 \<bind> (\<lambda>_. np_set_named_property N ob ?k arr \<bind> (\<lambda>status.
        if status \<noteq> napi_ok then State_Monad.return (ClientStatus_code CLIENT_INVALID_TYPE, ob)
        else State_Monad.return (napi_ok, ob))))"
  have last: "fills Ob {} ob ps ?c (Pair 0) (TObject (ps @ [(?k, TArray (map UpgradePeriod_tree ?ps))]))"
    if new: "?k \<notin> fst ` set ps" for ps
    unfolding fills_def
  proof (intro allI impI)
    fix h0 h assume h: "only_changes Ob {} h0 h" and b: "building Ob (jo_live Ob h0) {} h ob ps"
    then have r: "jo_ready Ob h" by (simp add: building_def)
    obtain arr as h1 where a: "run_state (np_create_array_with_length N 2 (np_wild N)) h = ((napi_ok, arr), h1)"
        "only_changes Ob {} h h1" "arr \<in> jo_live Ob h1" "arr \<notin> jo_live Ob h" "jo_view Ob h1 arr = JsArray as" "length as = 2"
      using create_array [OF r, of 2 "np_wild N"] by auto
    have "building_array Ob (jo_live Ob h) h1 arr 2 []" by (rule building_array_new [OF r a(2-6)])
    then obtain h2 where l: "run_state (policy_period_loop N arr ?ps 0) h1 = ((), h2)"
        "building_array Ob (jo_live Ob h) h2 arr 2 (map UpgradePeriod_tree ?ps)" "only_changes Ob {arr} h1 h2"
      using policy_periods_fill [of "jo_live Ob h" h1 arr 2 "[]" ?ps] by auto
    have t: "renders Ob (jo_live Ob h) h2 arr (TArray (map UpgradePeriod_tree ?ps))"
      by (rule building_array_renders) (use l(2) in \<open>simp add: numeral_2_eq_2\<close>)
    have h2: "only_changes Ob {} h h2" by (rule only_changes_new [OF a(2) l(3)]) (use a(4) in simp)
    have b2: "building Ob (jo_live Ob h0) {} h2 ob ps" by (rule building_frame [OF b h2])
    then obtain m where m: "jo_ready Ob h2" "ob \<in> jo_live Ob h2" "jo_view Ob h2 ob = JsObject m"
      by (auto simp: building_def)
    obtain h3 where s: "run_state (np_set_named_property N ob ?k arr) h2 = (napi_ok, h3)" "only_changes Ob {ob} h2 h3"
        "jo_view Ob h3 ob = JsObject (m(?k \<mapsto> arr))"
      using set_named [OF m renders_live [OF t], of ?k] by (auto simp: own_names)
    have b3: "building Ob (jo_live Ob h0) {} h3 ob (ps @ [(?k, TArray (map UpgradePeriod_tree ?ps))])" "only_changes Ob {ob} h h3"
      by (rule building_set [OF b h2 t s(2)]; use s(3) m(3) new in auto)+
    have "only_changes Ob {} h0 h3" by (rule only_changes_new [OF h b3(2)]) (use b in \<open>simp add: building_def\<close>)
    then show "\<exists>h'. run_state ?c h = ((0, ob), h') \<and> only_changes Ob {} h0 h' \<and> renders Ob (jo_live Ob h0) h' ob (TObject (ps @ [(?k, TArray (map UpgradePeriod_tree ?ps))]))"
      using building_renders [OF b3(1)]
      by (simp add: a(1) l(1) s(1) del: policy_period_loop.simps) (simp add: napi_ok_def)
  qed
  show "fills Ob {} ob [] (NapiUtil_SetBool N ob ''downloadStrategy'' (upo_downloadStrategy p) \<bind> (\<lambda>_.
      NapiUtil_SetBool N ob ''autoUpgradeStrategy'' (upo_autoUpgradeStrategy p) \<bind> (\<lambda>_. ?c))) (Pair 0) (UpgradePolicy_tree p)"
    unfolding UpgradePolicy_tree_def
    by (rule fills_conv [OF last] fills_step setters | (simp add: own_names; fail))+
qed


text \<open>The descriptions: without a valid one nothing is built.\<close>

lemma builds_VersionDescriptionInfo:
  assumes "length (vi_componentDescriptions i) < 2 ^ 32"
    and "type = SESSION_GET_NEW_VERSION_DESCRIPTION \<or> type = SESSION_GET_CUR_VERSION_DESCRIPTION"
    and "filter IsValidData_ComponentDescription (vi_componentDescriptions i) \<noteq> []"
  shows "builds Ob (Pair 0) (TArray (map (ComponentDescription_tree (jo_text Ob))
      (filter IsValidData_ComponentDescription (vi_componentDescriptions i))))
    (BuildVersionDescriptionInfo N old type (Some i))"
  unfolding builds_def
proof (intro allI impI)
  fix h assume r: "jo_ready Ob h"
  let ?cs = "vi_componentDescriptions i" and ?valid = IsValidData_ComponentDescription
  have n: "length (filter ?valid ?cs) < 2 ^ 32"
    using length_filter_le assms(1) by (rule le_less_trans)
  obtain arr h1 h' where a:
    "run_state (np_create_array_with_length N (of_nat (length (filter ?valid ?cs))) old) h = ((napi_ok, arr), h1)"
    "run_state (array_loop N ?valid (component_description_element N) arr ?cs 0 (length (filter ?valid ?cs))) h1 = ((), h')"
    "only_changes Ob {} h h'"
    "renders Ob (jo_live Ob h) h' arr (TArray (map (ComponentDescription_tree (jo_text Ob)) (filter ?valid ?cs)))"
    using array_built [where valid = ?valid and tree = "ComponentDescription_tree (jo_text Ob)" and
        element = "component_description_element N" and xs = ?cs, OF builds_component_description n r] by blast
  have "run_state (BuildVersionDescriptionInfo N old type (Some i)) h = ((0, arr), h')"
    using assms(2,3) a(1,2)
    by (auto simp: BuildVersionDescriptionInfo_def BuildComponentDescriptions_def GetValidDataCount_filter Let_def)
  then show "\<exists>v h'. run_state (BuildVersionDescriptionInfo N old type (Some i)) h = ((0, v), h') \<and>
      only_changes Ob {} h h' \<and>
      renders Ob (jo_live Ob h) h' v (TArray (map (ComponentDescription_tree (jo_text Ob)) (filter ?valid ?cs)))"
    using a(3,4) by blast
qed

lemma no_description_built:
  "filter IsValidData_ComponentDescription (vi_componentDescriptions i) = [] \<Longrightarrow>
   type = SESSION_GET_NEW_VERSION_DESCRIPTION \<or> type = SESSION_GET_CUR_VERSION_DESCRIPTION \<Longrightarrow>
   run_state (BuildVersionDescriptionInfo N old type (Some i)) h = ((0, old), h)"
  by (auto simp: BuildVersionDescriptionInfo_def BuildComponentDescriptions_def GetValidDataCount_filter Let_def)

text \<open>Events.\<close>

lemma result_bind: "(\<And>x h. fst (run_state (f x) h) = r) \<Longrightarrow> fst (run_state (c \<bind> f) h) = r"
  by (simp split: prod.split)

lemma event_body_result:
  "g_taskBodyTemplateMap ev = Some shown \<Longrightarrow> fst (run_state (BuildTaskBody_event N ob ev b) h) = CLIENT_SUCCESS"
  unfolding BuildTaskBody_event_def case_prod_beta by (simp only: option.case, (rule result_bind)+) simp

lemma extends_event_body:
  assumes "length (tb_errorMessages b) < 2 ^ 32" and "length (tb_versionComponents b) < 2 ^ 32"
    and "g_taskBodyTemplateMap ev = Some shown"
  shows "extends Ob v [(''taskBody'', TObject (TaskBody_event_fields (jo_text Ob) shown b))] (BuildTaskBody_event N v ev b)"
  unfolding BuildTaskBody_event_def TaskBody_event_fields_def assms(3) option.case
  by (rule extends_child, unfold prod.case)
    (rule filling struct_setters assms | (simp only: append.simps append_assoc; fail) |
      rule distinct_one_more(2-4) [OF _ _ refl] distinct_one_more(1) distinct_no_field absent | (simp add: own_names; fail))+

lemma builds_EventInfo:
  assumes "length (tb_errorMessages (ei_taskBody e)) < 2 ^ 32" and "length (tb_versionComponents (ei_taskBody e)) < 2 ^ 32"
    and "g_taskBodyTemplateMap (ei_eventId e) = Some shown"
  shows "builds Ob (Pair CLIENT_SUCCESS) (EventInfo_tree (jo_text Ob) shown e) (BuildEventInfo N old e)"
  unfolding BuildEventInfo_def EventInfo_tree_def
proof (rule builds_object, unfold prod.case simp_thms if_False not_True_eq_False)
  fix ob
  show "fills Ob {} ob [] (NapiUtil_SetInt32 N ob ''eventId'' (EventId_code (ei_eventId e)) \<bind> (\<lambda>_.
      BuildTaskBody_event N ob (ei_eventId e) (ei_taskBody e) \<bind> (\<lambda>ret.
      State_Monad.return (if ret \<noteq> CLIENT_SUCCESS then CLIENT_FAIL else CLIENT_SUCCESS, ob)))) (Pair CLIENT_SUCCESS)
    (TObject [(''eventId'', TNumber (sint (EventId_code (ei_eventId e)))),
      (''taskBody'', TObject (TaskBody_event_fields (jo_text Ob) shown (ei_taskBody e)))])"
    apply (rule fills_step, rule extends_SetInt32)
      apply (simp add: own_names)
     apply (rule fills_step_result [where R = "\<lambda>r. r = CLIENT_SUCCESS"], rule extends_event_body [OF assms])
       apply (rule event_body_result [OF assms(3)])
      apply (simp, rule fills_finish_eq, simp_all)
    done
qed

end

end
