(* ===== verification/Client_Args.thy ===== *)
theory Client_Args
  imports Js_Values Platform
begin

text \<open>
  From the arguments of a JavaScript call to the structs of the service (the \<open>Get...FromArg\<close>
  functions of \<open>base/src/client_helper.cpp\<close>). A struct that is filled is passed in and handed
  back, since a property that is missing or of another type leaves its member as it was.
\<close>

section \<open>Files\<close>

definition find_last_not_of :: "string \<Rightarrow> char \<Rightarrow> nat option" where
  "find_last_not_of s c = map_option (\<lambda>i. length s - 1 - i) (find_first_not_of (rev s) c 0)"

text \<open>\<open>erase(0, npos)\<close> empties the string, and \<open>npos + 1\<close> is 0.\<close>

definition TrimString :: "string \<Rightarrow> string" where
  "TrimString str =
     (let str = (case find_first_not_of str CHR '' '' 0 of None \<Rightarrow> [] | Some n \<Rightarrow> drop n str)
      in case find_last_not_of str CHR '' '' of None \<Rightarrow> [] | Some n \<Rightarrow> take (n + 1) str)"

definition IsValidUpgradeFile :: "string \<Rightarrow> bool" where
  "IsValidUpgradeFile upgradeFile =
     (if upgradeFile = [] then False
      else if find_char upgradeFile CHR ''/'' 0 \<noteq> Some 0 then False
      else case find_last_of upgradeFile ''.'' of
        None \<Rightarrow> False
      | Some pos \<Rightarrow>
          (let postfix = map to_lower (drop (pos + 1) upgradeFile)
           in if postfix = ''bin'' then True
              else if postfix = ''zip'' then True
              else if postfix = ''lz4'' then True
              else if postfix = ''gz'' then True
              else False))"

record UpgradeFile =
  uf_fileType :: int32_t
  uf_filePath :: string

definition UpgradeFile_default :: UpgradeFile where
  "UpgradeFile_default = \<lparr>uf_fileType = ComponentType_code ComponentType.INVALID, uf_filePath = []\<rparr>"

datatype EventClassify = TASK | EventClassify_unnamed int32_t

fun EventClassify_code :: "EventClassify \<Rightarrow> int32_t" where
  "EventClassify_code EventClassify.TASK = 0x01000000"
| "EventClassify_code (EventClassify_unnamed w) = w"

definition EventClassify_of :: "int32_t \<Rightarrow> EventClassify" where
  "EventClassify_of w = (if w = 0x01000000 then EventClassify.TASK else EventClassify_unnamed w)"

record EventClassifyInfo =
  ec_eventClassify :: EventClassify
  ec_extraInfo :: string

definition EventClassifyInfo_default :: EventClassifyInfo where
  "EventClassifyInfo_default = \<lparr>ec_eventClassify = EventClassify.TASK, ec_extraInfo = []\<rparr>"

section \<open>The key of an updater\<close>

definition CheckNapiObjectType :: "('v, 'r, 'd, 'w, 'h) napi \<Rightarrow> 'v \<Rightarrow> ('h, ClientStatus) state" where
  "CheckNapiObjectType N arg = do {
     (status, type) \<leftarrow> np_typeof N arg napi_undefined;
     State_Monad.return
       (if status \<noteq> napi_ok then CLIENT_INVALID_TYPE
        else if type \<noteq> napi_object then CLIENT_INVALID_TYPE
        else CLIENT_SUCCESS)
   }"

text \<open>\<open>wild\<close> is the content of the local variable \<open>subType\<close>, which is not initialised.\<close>

definition ParseBusinessType ::
  "('v, 'r, 'd, 'w, 'h) napi \<Rightarrow> int32_t \<Rightarrow> 'v \<Rightarrow> BusinessType \<Rightarrow> ('h, BusinessType) state" where
  "ParseBusinessType N wild arg b =
     (let finish = (\<lambda>b. if subType b \<noteq> BusinessSubType.PARAM then BusinessType (vendor b) BusinessSubType.FIRMWARE else b)
      in do {
        (status, result) \<leftarrow> np_has_named_property N arg ''businessType'' False;
        if result \<and> status = napi_ok then do {
          (status, businessTypeValue) \<leftarrow> np_get_named_property N arg ''businessType'' (np_wild N);
          if status \<noteq> napi_ok then State_Monad.return b
          else do {
            (_, v) \<leftarrow> NapiUtil_GetString N businessTypeValue ''vendor'' (vendor b);
            subType \<leftarrow> NapiUtil_GetInt32 N businessTypeValue ''subType'' wild;
            State_Monad.return (finish (BusinessType v (BusinessSubType_of subType)))
          }
        } else State_Monad.return (finish b)
      })"

definition GetUpgradeInfoFromArg ::
  "('v, 'r, 'd, 'w, 'h) napi \<Rightarrow> int32_t \<Rightarrow> 'v \<Rightarrow> UpgradeInfo \<Rightarrow> ('h, ClientStatus \<times> UpgradeInfo) state" where
  "GetUpgradeInfoFromArg N wild arg upgradeInfo = do {
     ret \<leftarrow> CheckNapiObjectType N arg;
     if ret \<noteq> CLIENT_SUCCESS then State_Monad.return (CLIENT_INVALID_TYPE, upgradeInfo)
     else do {
       (_, app) \<leftarrow> NapiUtil_GetString N arg ''upgradeApp'' (upgradeApp upgradeInfo);
       b \<leftarrow> ParseBusinessType N wild arg (businessType upgradeInfo);
       (_, dev) \<leftarrow> NapiUtil_GetString N arg ''upgradeDevId'' (upgradeDevId upgradeInfo);
       (_, ctl) \<leftarrow> NapiUtil_GetString N arg ''controlDevId'' (controlDevId upgradeInfo);
       State_Monad.return (CLIENT_SUCCESS, UpgradeInfo app b dev ctl)
     }
   }"

section \<open>The policy\<close>

text \<open>
  The \<open>do\<close> loop over the periods: the list holds the elements of the array \<open>autoUpgradePeriods\<close> from
  index \<open>i\<close> on, so that its end is the \<open>break\<close>. The element itself is read as a number, twice.
\<close>

fun period_read_loop ::
  "('v, 'r, 'd, 'w, 'h) napi \<Rightarrow> 'v \<Rightarrow> uint32_t \<Rightarrow> UpgradePeriod list \<Rightarrow> uint32_t \<Rightarrow> ('h, UpgradePeriod list) state" where
  "period_read_loop N value count [] i = State_Monad.return []"
| "period_read_loop N value count (p # ps) i = do {
     (_, element) \<leftarrow> np_get_element N value i (np_wild N);
     (_, s) \<leftarrow> np_get_value_uint32 N element (up_start p);
     (_, e) \<leftarrow> np_get_value_uint32 N element (up_end p);
     rest \<leftarrow> (if i + 1 < count then period_read_loop N value count ps (i + 1) else State_Monad.return ps);
     State_Monad.return (\<lparr>up_start = s, up_end = e\<rparr> # rest)
   }"

definition GetUpgradePolicyFromArg ::
  "('v, 'r, 'd, 'w, 'h) napi \<Rightarrow> 'v \<Rightarrow> UpgradePolicy \<Rightarrow> ('h, ClientStatus \<times> UpgradePolicy) state" where
  "GetUpgradePolicyFromArg N arg upgradePolicy = do {
     ret \<leftarrow> CheckNapiObjectType N arg;
     if ret \<noteq> CLIENT_SUCCESS then State_Monad.return (CLIENT_INVALID_TYPE, upgradePolicy)
     else do {
       b \<leftarrow> NapiUtil_GetBool N arg ''downloadStrategy'' (upo_downloadStrategy upgradePolicy);
       let upgradePolicy = upgradePolicy\<lparr>upo_downloadStrategy := b\<rparr>;
       b \<leftarrow> NapiUtil_GetBool N arg ''autoUpgradeStrategy'' (upo_autoUpgradeStrategy upgradePolicy);
       let upgradePolicy = upgradePolicy\<lparr>upo_autoUpgradeStrategy := b\<rparr>;
       (status, result) \<leftarrow> np_has_named_property N arg ''autoUpgradePeriods'' False;
       if result \<and> status = napi_ok then do {
         (status, value) \<leftarrow> np_get_named_property N arg ''autoUpgradePeriods'' (np_wild N);
         if status \<noteq> napi_ok then State_Monad.return (CLIENT_FAIL, upgradePolicy)
         else do {
           (status, result) \<leftarrow> np_is_array N value result;
           if status \<noteq> napi_ok then State_Monad.return (CLIENT_FAIL, upgradePolicy)
           else do {
             (status, count) \<leftarrow> np_get_array_length N value 0;
             if status \<noteq> napi_ok then State_Monad.return (CLIENT_FAIL, upgradePolicy)
             else do {
               periods \<leftarrow> period_read_loop N value count
                 [fst (upo_autoUpgradePeriods upgradePolicy), snd (upo_autoUpgradePeriods upgradePolicy)] 0;
               State_Monad.return (CLIENT_SUCCESS, upgradePolicy\<lparr>upo_autoUpgradePeriods := (periods ! 0, periods ! 1)\<rparr>)
             }
           }
         }
       } else State_Monad.return (CLIENT_SUCCESS, upgradePolicy)
     }
   }"

section \<open>Options\<close>

definition GetDescriptionFormat ::
  "('v, 'r, 'd, 'w, 'h) napi \<Rightarrow> 'v \<Rightarrow> DescriptionFormat \<Rightarrow> ('h, ClientStatus \<times> DescriptionFormat) state" where
  "GetDescriptionFormat N arg format = do {
     tmpFormat \<leftarrow> NapiUtil_GetInt32 N arg ''format'' 0;
     if \<not> IsValidEnum (map DescriptionFormat_code [DescriptionFormat.STANDARD, DescriptionFormat.SIMPLIFIED]) tmpFormat
     then State_Monad.return (CLIENT_INVALID_TYPE, format)
     else State_Monad.return (CLIENT_SUCCESS, DescriptionFormat_of tmpFormat)
   }"

definition GetNetType :: "('v, 'r, 'd, 'w, 'h) napi \<Rightarrow> 'v \<Rightarrow> NetType \<Rightarrow> ('h, ClientStatus \<times> NetType) state" where
  "GetNetType N arg netType = do {
     allowNetwork \<leftarrow> NapiUtil_GetInt32 N arg ''allowNetwork'' 0;
     if \<not> IsValidEnum (map NetType_code [NetType.CELLULAR, NetType.METERED_WIFI, NetType.NOT_METERED_WIFI,
         NetType.WIFI, NetType.CELLULAR_AND_WIFI]) allowNetwork
     then State_Monad.return (CLIENT_INVALID_TYPE, netType)
     else State_Monad.return (CLIENT_SUCCESS, NetType_of allowNetwork)
   }"

definition GetOrder :: "('v, 'r, 'd, 'w, 'h) napi \<Rightarrow> 'v \<Rightarrow> Order \<Rightarrow> ('h, ClientStatus \<times> Order) state" where
  "GetOrder N arg order = do {
     tmpOrder \<leftarrow> NapiUtil_GetInt32 N arg ''order'' 0;
     if \<not> IsValidEnum (map Order_code [Order.DOWNLOAD, Order.INSTALL, Order.APPLY, Order.DOWNLOAD_AND_INSTALL,
         Order.INSTALL_AND_APPLY]) tmpOrder
     then State_Monad.return (CLIENT_INVALID_TYPE, order)
     else State_Monad.return (CLIENT_SUCCESS, Order_of tmpOrder)
   }"

text \<open>The overloads of \<open>GetOptionsFromArg\<close>, by the type of the options.\<close>

definition GetOptions_Description ::
  "('v, 'r, 'd, 'w, 'h) napi \<Rightarrow> 'v \<Rightarrow> DescriptionOptions \<Rightarrow> ('h, ClientStatus \<times> DescriptionOptions) state" where
  "GetOptions_Description N arg descriptionOptions = do {
     (ret, format) \<leftarrow> GetDescriptionFormat N arg (do_format descriptionOptions);
     let descriptionOptions = descriptionOptions\<lparr>do_format := format\<rparr>;
     if ret \<noteq> CLIENT_SUCCESS then State_Monad.return (CLIENT_INVALID_TYPE, descriptionOptions)
     else do {
       (_, language) \<leftarrow> NapiUtil_GetString N arg ''language'' (do_language descriptionOptions);
       State_Monad.return (CLIENT_SUCCESS, descriptionOptions\<lparr>do_language := language\<rparr>)
     }
   }"

definition GetOptions_Download ::
  "('v, 'r, 'd, 'w, 'h) napi \<Rightarrow> 'v \<Rightarrow> DownloadOptions \<Rightarrow> ('h, ClientStatus \<times> DownloadOptions) state" where
  "GetOptions_Download N arg downloadOptions = do {
     (ret, net) \<leftarrow> GetNetType N arg (dl_allowNetwork downloadOptions);
     let downloadOptions = downloadOptions\<lparr>dl_allowNetwork := net\<rparr>;
     if ret \<noteq> CLIENT_SUCCESS then State_Monad.return (CLIENT_INVALID_TYPE, downloadOptions)
     else do {
       (ret, order) \<leftarrow> GetOrder N arg (dl_order downloadOptions);
       let downloadOptions = downloadOptions\<lparr>dl_order := order\<rparr>;
       if ret \<noteq> CLIENT_SUCCESS then State_Monad.return (CLIENT_INVALID_TYPE, downloadOptions)
       else State_Monad.return (CLIENT_SUCCESS, downloadOptions)
     }
   }"

definition GetOptions_PauseDownload ::
  "('v, 'r, 'd, 'w, 'h) napi \<Rightarrow> 'v \<Rightarrow> PauseDownloadOptions \<Rightarrow> ('h, ClientStatus \<times> PauseDownloadOptions) state" where
  "GetOptions_PauseDownload N arg pauseDownloadOptions = do {
     b \<leftarrow> NapiUtil_GetBool N arg ''isAllowAutoResume'' (pd_isAllowAutoResume pauseDownloadOptions);
     State_Monad.return (CLIENT_SUCCESS, pauseDownloadOptions\<lparr>pd_isAllowAutoResume := b\<rparr>)
   }"

definition GetOptions_ResumeDownload ::
  "('v, 'r, 'd, 'w, 'h) napi \<Rightarrow> 'v \<Rightarrow> ResumeDownloadOptions \<Rightarrow> ('h, ClientStatus \<times> ResumeDownloadOptions) state" where
  "GetOptions_ResumeDownload N arg resumeDownloadOptions = do {
     (ret, net) \<leftarrow> GetNetType N arg (rd_allowNetwork resumeDownloadOptions);
     State_Monad.return (ret, resumeDownloadOptions\<lparr>rd_allowNetwork := net\<rparr>)
   }"

definition GetOptions_Upgrade ::
  "('v, 'r, 'd, 'w, 'h) napi \<Rightarrow> 'v \<Rightarrow> UpgradeOptions \<Rightarrow> ('h, ClientStatus \<times> UpgradeOptions) state" where
  "GetOptions_Upgrade N arg upgradeOptions = do {
     (ret, order) \<leftarrow> GetOrder N arg (uo_order upgradeOptions);
     State_Monad.return (ret, upgradeOptions\<lparr>uo_order := order\<rparr>)
   }"

definition clear_status_list :: "UpgradeStatus list" where
  "clear_status_list =
     [UpgradeStatus.INIT, UpgradeStatus.CHECKING_VERSION,
      UpgradeStatus.CHECK_VERSION_FAIL, UpgradeStatus.CHECK_VERSION_SUCCESS,
      UpgradeStatus.DOWNLOADING, UpgradeStatus.DOWNLOAD_PAUSE,
      UpgradeStatus.DOWNLOAD_CANCEL, UpgradeStatus.DOWNLOAD_FAIL,
      UpgradeStatus.DOWNLOAD_SUCCESS, UpgradeStatus.VERIFYING,
      UpgradeStatus.VERIFY_FAIL, UpgradeStatus.VERIFY_SUCCESS,
      UpgradeStatus.PACKAGE_TRANSING, UpgradeStatus.PACKAGE_TRANS_FAIL,
      UpgradeStatus.PACKAGE_TRANS_SUCCESS, UpgradeStatus.INSTALLING,
      UpgradeStatus.INSTALL_FAIL, UpgradeStatus.INSTALL_SUCCESS,
      UpgradeStatus.UPDATING, UpgradeStatus.UPDATE_FAIL,
      UpgradeStatus.UPDATE_SUCCESS]"

definition GetOptions_Clear ::
  "('v, 'r, 'd, 'w, 'h) napi \<Rightarrow> 'v \<Rightarrow> ClearOptions \<Rightarrow> ('h, ClientStatus \<times> ClearOptions) state" where
  "GetOptions_Clear N arg clearOptions = do {
     status \<leftarrow> NapiUtil_GetInt32 N arg ''status'' 0;
     if \<not> IsValidEnum (map UpgradeStatus_code clear_status_list) status
     then State_Monad.return (CLIENT_INVALID_TYPE, clearOptions)
     else State_Monad.return (CLIENT_SUCCESS, clearOptions\<lparr>co_status := UpgradeStatus_of status\<rparr>)
   }"

definition GetVersionDigestInfoFromArg ::
  "('v, 'r, 'd, 'w, 'h) napi \<Rightarrow> 'v \<Rightarrow> VersionDigestInfo \<Rightarrow> ('h, ClientStatus \<times> VersionDigestInfo) state" where
  "GetVersionDigestInfoFromArg N arg versionDigestInfo = do {
     (_, s) \<leftarrow> NapiUtil_GetString N arg ''versionDigest'' (vd_versionDigest versionDigestInfo);
     State_Monad.return (CLIENT_SUCCESS, versionDigestInfo\<lparr>vd_versionDigest := s\<rparr>)
   }"

section \<open>Upgrade files and events\<close>

definition ParseUpgradeFile ::
  "('v, 'r, 'd, 'w, 'h) napi \<Rightarrow> 'v \<Rightarrow> UpgradeFile \<Rightarrow> ('h, ClientStatus \<times> UpgradeFile) state" where
  "ParseUpgradeFile N arg upgradeFile = do {
     (status, type) \<leftarrow> np_typeof N arg napi_undefined;
     if \<not> (status = napi_ok \<and> type = napi_object) then State_Monad.return (CLIENT_INVALID_TYPE, upgradeFile)
     else do {
       fileType \<leftarrow> NapiUtil_GetInt32 N arg ''fileType'' 0;
       if \<not> IsValidEnum [ComponentType_code ComponentType.OTA] fileType
       then State_Monad.return (CLIENT_INVALID_PARAM, upgradeFile)
       else do {
         let upgradeFile = upgradeFile\<lparr>uf_fileType := fileType\<rparr>;
         (_, path) \<leftarrow> NapiUtil_GetString N arg ''filePath'' (uf_filePath upgradeFile);
         let upgradeFile = upgradeFile\<lparr>uf_filePath := TrimString path\<rparr>;
         if \<not> IsValidUpgradeFile (uf_filePath upgradeFile) then State_Monad.return (CLIENT_INVALID_PARAM, upgradeFile)
         else State_Monad.return (CLIENT_SUCCESS, upgradeFile)
       }
     }
   }"

definition GetUpgradeFileFromArg ::
  "('v, 'r, 'd, 'w, 'h) napi \<Rightarrow> 'v \<Rightarrow> UpgradeFile \<Rightarrow> ('h, ClientStatus \<times> UpgradeFile) state" where
  "GetUpgradeFileFromArg N arg upgradeFile = ParseUpgradeFile N arg upgradeFile"

text \<open>The loop over the elements; the list holds the indices that are left.\<close>

fun upgrade_files_loop ::
  "('v, 'r, 'd, 'w, 'h) napi \<Rightarrow> 'v \<Rightarrow> nat list \<Rightarrow> UpgradeFile list \<Rightarrow> ('h, ClientStatus \<times> UpgradeFile list) state" where
  "upgrade_files_loop N arg [] upgradeFiles = State_Monad.return (CLIENT_SUCCESS, upgradeFiles)"
| "upgrade_files_loop N arg (idx # idxs) upgradeFiles = do {
     (_, element) \<leftarrow> np_get_element N arg (of_nat idx) (np_wild N);
     (ret, upgradeFile) \<leftarrow> ParseUpgradeFile N element UpgradeFile_default;
     if ret \<noteq> CLIENT_SUCCESS then State_Monad.return (ret, upgradeFiles)
     else upgrade_files_loop N arg idxs (upgradeFiles @ [upgradeFile])
   }"

definition GetUpgradeFilesFromArg ::
  "('v, 'r, 'd, 'w, 'h) napi \<Rightarrow> 'v \<Rightarrow> UpgradeFile list \<Rightarrow> ('h, ClientStatus \<times> UpgradeFile list) state" where
  "GetUpgradeFilesFromArg N arg upgradeFiles = do {
     (status, result) \<leftarrow> np_is_array N arg False;
     if \<not> (status = napi_ok \<and> result) then State_Monad.return (CLIENT_FAIL, upgradeFiles)
     else do {
       (status, count) \<leftarrow> np_get_array_length N arg 0;
       if \<not> (status = napi_ok \<and> count > 0) then State_Monad.return (CLIENT_FAIL, upgradeFiles)
       else upgrade_files_loop N arg [0..<unat count] upgradeFiles
     }
   }"

definition GetEventClassifyInfoFromArg ::
  "('v, 'r, 'd, 'w, 'h) napi \<Rightarrow> 'v \<Rightarrow> EventClassifyInfo \<Rightarrow> ('h, ClientStatus \<times> EventClassifyInfo) state" where
  "GetEventClassifyInfoFromArg N arg eventClassifyInfo = do {
     (status, type) \<leftarrow> np_typeof N arg napi_undefined;
     if \<not> (status = napi_ok \<and> type = napi_object) then State_Monad.return (CLIENT_INVALID_TYPE, eventClassifyInfo)
     else do {
       eventClassify \<leftarrow> NapiUtil_GetInt32 N arg ''eventClassify'' 0;
       if \<not> IsValidEnum [EventClassify_code EventClassify.TASK] eventClassify
       then State_Monad.return (CLIENT_INVALID_TYPE, eventClassifyInfo)
       else do {
         let eventClassifyInfo = eventClassifyInfo\<lparr>ec_eventClassify := EventClassify_of eventClassify\<rparr>;
         (_, extraInfo) \<leftarrow> NapiUtil_GetString N arg ''extraInfo'' (ec_extraInfo eventClassifyInfo);
         State_Monad.return (CLIENT_SUCCESS, eventClassifyInfo\<lparr>ec_extraInfo := extraInfo\<rparr>)
       }
     }
   }"

end
