(* ===== verification/Service_Kits.thy ===== *)
theory Service_Kits
  imports Service_Remote
begin

text \<open>
  The client library (\<open>update_service_kits_impl.cpp\<close>): it finds the service, loads it on demand
  (\<open>update_service_ondemand.cpp\<close>), registers the callbacks of its client again when it connects,
  and passes every operation on. The system ability manager is a parameter.
\<close>

section \<open>Loading the service\<close>

datatype LoadUpdaterSaStatus = WAIT_RESULT | LOAD_SUCCESS | LOAD_FAIL

definition RETRY_TIMES :: nat where
  "RETRY_TIMES = 100"

text \<open>
  What the system ability manager answers during one call: whether it is there, whether it knows
  the service before and after loading, the code of \<open>LoadSystemAbility\<close>, the status its callbacks
  have set at each poll, and whether the object found implements the interface.
\<close>

record Samgr =
  sg_samgr :: bool
  sg_object :: bool
  sg_load_code :: int32_t
  sg_status :: "nat \<Rightarrow> LoadUpdaterSaStatus"
  sg_object_after :: bool
  sg_iface_cast :: bool

definition OnLoadSystemAbilitySuccess :: "bool \<Rightarrow> LoadUpdaterSaStatus" where
  "OnLoadSystemAbilitySuccess remoteObject = (if remoteObject then LOAD_SUCCESS else LOAD_FAIL)"

definition OnLoadSystemAbilityFail :: LoadUpdaterSaStatus where
  "OnLoadSystemAbilityFail = LOAD_FAIL"

fun poll_loaded :: "nat \<Rightarrow> (nat \<Rightarrow> LoadUpdaterSaStatus) \<Rightarrow> nat \<Rightarrow> bool" where
  "poll_loaded 0 status i = False"
| "poll_loaded (Suc retry) status i =
     (if status i \<noteq> WAIT_RESULT then status i = LOAD_SUCCESS else poll_loaded retry status (Suc i))"

definition CheckUpdaterSaLoaded :: "Samgr \<Rightarrow> bool" where
  "CheckUpdaterSaLoaded A = poll_loaded RETRY_TIMES (sg_status A) 0"

definition LoadUpdaterSa :: "Samgr \<Rightarrow> bool" where
  "LoadUpdaterSa A =
     (if \<not> sg_samgr A then False
      else if sg_load_code A \<noteq> 0 then False
      else if \<not> CheckUpdaterSaLoaded A then False
      else True)"

definition TryLoadUpdaterSa :: "Samgr \<Rightarrow> bool" where
  "TryLoadUpdaterSa A = LoadUpdaterSa A"

section \<open>Connection\<close>

record Kits =
  ki_connected :: bool
  ki_callbacks :: "(UpgradeInfo \<times> Callback) list"

definition ResetService :: "bool \<Rightarrow> Kits \<Rightarrow> Kits" where
  "ResetService same_object k = (if ki_connected k \<and> same_object then k\<lparr>ki_connected := False\<rparr> else k)"

fun register_all :: "'s IUpdateService \<Rightarrow> (UpgradeInfo \<times> Callback) list \<Rightarrow> 's \<Rightarrow> 's option" where
  "register_all service [] s = Some s"
| "register_all service ((info, cb) # cbs) s =
     (case ius_RegisterUpdateCallback service info (Some cb) s of
        None \<Rightarrow> None
      | Some (_, _, s) \<Rightarrow> register_all service cbs s)"

text \<open>The flag of the result says that the pointer returned is not null.\<close>

definition GetService :: "Samgr \<Rightarrow> 's IUpdateService \<Rightarrow> Kits \<Rightarrow> 's \<Rightarrow> (bool \<times> Kits \<times> 's) option" where
  "GetService A service k s =
     (if ki_connected k then Some (True, k, s)
      else if \<not> sg_samgr A then Some (False, k, s)
      else if \<not> sg_object A \<and> \<not> TryLoadUpdaterSa A then Some (False, k, s)
      else if \<not> sg_object A \<and> \<not> sg_object_after A then Some (False, k, s)
      else if \<not> sg_iface_cast A then Some (False, k, s)
      else map_option (\<lambda>s. (True, k\<lparr>ki_connected := True\<rparr>, s)) (register_all service (ki_callbacks k) s))"

section \<open>Operations\<close>

text \<open>The frame of every operation: \<open>GetService\<close> and the null check, then the call.\<close>

definition kits_call ::
  "Samgr \<Rightarrow> 's IUpdateService \<Rightarrow> 'out \<Rightarrow> ('s \<Rightarrow> (int32_t \<times> 'out \<times> 's) option) \<Rightarrow> Kits \<times> 's \<Rightarrow>
   (int32_t \<times> 'out \<times> Kits \<times> 's) option" where
  "kits_call A service out call ks =
     (case GetService A service (fst ks) (snd ks) of
        None \<Rightarrow> None
      | Some (False, k, s) \<Rightarrow> Some (INT_CALL_IPC_ERR, out, k, s)
      | Some (True, k, s) \<Rightarrow> map_option (\<lambda>(ret, out, s). (ret, out, k, s)) (call s))"

definition Kits_RegisterUpdateCallback ::
  "Samgr \<Rightarrow> 's IUpdateService \<Rightarrow> UpgradeInfo \<Rightarrow> Callback \<Rightarrow> Kits \<times> 's \<Rightarrow> (int32_t \<times> unit \<times> Kits \<times> 's) option" where
  "Kits_RegisterUpdateCallback A service info cb ks =
     map_option (\<lambda>(ret, _, k, s).
         (ret, (), if ret = INT_CALL_SUCCESS then k\<lparr>ki_callbacks := om_assign UpgradeInfo_less info cb (ki_callbacks k)\<rparr> else k, s))
       (kits_call A service () (ius_RegisterUpdateCallback service info (Some cb)) ks)"

definition Kits_UnregisterUpdateCallback :: "UpgradeInfo \<Rightarrow> Kits \<times> 's \<Rightarrow> (int32_t \<times> unit \<times> Kits \<times> 's) option" where
  "Kits_UnregisterUpdateCallback info ks =
     Some (INT_CALL_SUCCESS, (), (fst ks)\<lparr>ki_callbacks := om_erase UpgradeInfo_less info (ki_callbacks (fst ks))\<rparr>, snd ks)"

definition Kits_CheckNewVersion ::
  "Samgr \<Rightarrow> 's IUpdateService \<Rightarrow> UpgradeInfo \<Rightarrow> Kits \<times> 's \<Rightarrow> (int32_t \<times> unit \<times> Kits \<times> 's) option" where
  "Kits_CheckNewVersion A service info =
     kits_call A service () (ius_CheckNewVersion service info)"

definition Kits_Download ::
  "Samgr \<Rightarrow> 's IUpdateService \<Rightarrow> UpgradeInfo \<Rightarrow> VersionDigestInfo \<Rightarrow> DownloadOptions \<Rightarrow> BusinessError \<Rightarrow> Kits \<times> 's \<Rightarrow> (int32_t \<times> BusinessError \<times> Kits \<times> 's) option" where
  "Kits_Download A service info versionDigestInfo downloadOptions businessError =
     kits_call A service businessError (ius_Download service info versionDigestInfo downloadOptions businessError)"

definition Kits_PauseDownload ::
  "Samgr \<Rightarrow> 's IUpdateService \<Rightarrow> UpgradeInfo \<Rightarrow> VersionDigestInfo \<Rightarrow> PauseDownloadOptions \<Rightarrow> BusinessError \<Rightarrow> Kits \<times> 's \<Rightarrow> (int32_t \<times> BusinessError \<times> Kits \<times> 's) option" where
  "Kits_PauseDownload A service info versionDigestInfo pauseDownloadOptions businessError =
     kits_call A service businessError (ius_PauseDownload service info versionDigestInfo pauseDownloadOptions businessError)"

definition Kits_ResumeDownload ::
  "Samgr \<Rightarrow> 's IUpdateService \<Rightarrow> UpgradeInfo \<Rightarrow> VersionDigestInfo \<Rightarrow> ResumeDownloadOptions \<Rightarrow> BusinessError \<Rightarrow> Kits \<times> 's \<Rightarrow> (int32_t \<times> BusinessError \<times> Kits \<times> 's) option" where
  "Kits_ResumeDownload A service info versionDigestInfo resumeDownloadOptions businessError =
     kits_call A service businessError (ius_ResumeDownload service info versionDigestInfo resumeDownloadOptions businessError)"

definition Kits_Upgrade ::
  "Samgr \<Rightarrow> 's IUpdateService \<Rightarrow> UpgradeInfo \<Rightarrow> VersionDigestInfo \<Rightarrow> UpgradeOptions \<Rightarrow> BusinessError \<Rightarrow> Kits \<times> 's \<Rightarrow> (int32_t \<times> BusinessError \<times> Kits \<times> 's) option" where
  "Kits_Upgrade A service info versionDigest upgradeOptions businessError =
     kits_call A service businessError (ius_Upgrade service info versionDigest upgradeOptions businessError)"

definition Kits_ClearError ::
  "Samgr \<Rightarrow> 's IUpdateService \<Rightarrow> UpgradeInfo \<Rightarrow> VersionDigestInfo \<Rightarrow> ClearOptions \<Rightarrow> BusinessError \<Rightarrow> Kits \<times> 's \<Rightarrow> (int32_t \<times> BusinessError \<times> Kits \<times> 's) option" where
  "Kits_ClearError A service info versionDigest clearOptions businessError =
     kits_call A service businessError (ius_ClearError service info versionDigest clearOptions businessError)"

definition Kits_TerminateUpgrade ::
  "Samgr \<Rightarrow> 's IUpdateService \<Rightarrow> UpgradeInfo \<Rightarrow> BusinessError \<Rightarrow> Kits \<times> 's \<Rightarrow> (int32_t \<times> BusinessError \<times> Kits \<times> 's) option" where
  "Kits_TerminateUpgrade A service info businessError =
     kits_call A service businessError (ius_TerminateUpgrade service info businessError)"

definition Kits_GetNewVersionInfo ::
  "Samgr \<Rightarrow> 's IUpdateService \<Rightarrow> UpgradeInfo \<Rightarrow> NewVersionInfo \<Rightarrow> BusinessError \<Rightarrow> Kits \<times> 's \<Rightarrow> (int32_t \<times> (NewVersionInfo \<times> BusinessError) \<times> Kits \<times> 's) option" where
  "Kits_GetNewVersionInfo A service info newVersionInfo businessError =
     kits_call A service (newVersionInfo, businessError) (ius_GetNewVersionInfo service info newVersionInfo businessError)"

definition Kits_GetNewVersionDescription ::
  "Samgr \<Rightarrow> 's IUpdateService \<Rightarrow> UpgradeInfo \<Rightarrow> VersionDigestInfo \<Rightarrow> DescriptionOptions \<Rightarrow> VersionDescriptionInfo \<Rightarrow> BusinessError \<Rightarrow> Kits \<times> 's \<Rightarrow> (int32_t \<times> (VersionDescriptionInfo \<times> BusinessError) \<times> Kits \<times> 's) option" where
  "Kits_GetNewVersionDescription A service info versionDigestInfo descriptionOptions newVersionDescriptionInfo businessError =
     kits_call A service (newVersionDescriptionInfo, businessError) (ius_GetNewVersionDescription service info versionDigestInfo descriptionOptions newVersionDescriptionInfo businessError)"

definition Kits_GetCurrentVersionInfo ::
  "Samgr \<Rightarrow> 's IUpdateService \<Rightarrow> UpgradeInfo \<Rightarrow> CurrentVersionInfo \<Rightarrow> BusinessError \<Rightarrow> Kits \<times> 's \<Rightarrow> (int32_t \<times> (CurrentVersionInfo \<times> BusinessError) \<times> Kits \<times> 's) option" where
  "Kits_GetCurrentVersionInfo A service info currentVersionInfo businessError =
     kits_call A service (currentVersionInfo, businessError) (ius_GetCurrentVersionInfo service info currentVersionInfo businessError)"

definition Kits_GetCurrentVersionDescription ::
  "Samgr \<Rightarrow> 's IUpdateService \<Rightarrow> UpgradeInfo \<Rightarrow> DescriptionOptions \<Rightarrow> VersionDescriptionInfo \<Rightarrow> BusinessError \<Rightarrow> Kits \<times> 's \<Rightarrow> (int32_t \<times> (VersionDescriptionInfo \<times> BusinessError) \<times> Kits \<times> 's) option" where
  "Kits_GetCurrentVersionDescription A service info descriptionOptions currentVersionDescriptionInfo businessError =
     kits_call A service (currentVersionDescriptionInfo, businessError) (ius_GetCurrentVersionDescription service info descriptionOptions currentVersionDescriptionInfo businessError)"

definition Kits_GetTaskInfo ::
  "Samgr \<Rightarrow> 's IUpdateService \<Rightarrow> UpgradeInfo \<Rightarrow> TaskInfo \<Rightarrow> BusinessError \<Rightarrow> Kits \<times> 's \<Rightarrow> (int32_t \<times> (TaskInfo \<times> BusinessError) \<times> Kits \<times> 's) option" where
  "Kits_GetTaskInfo A service info taskInfo businessError =
     kits_call A service (taskInfo, businessError) (ius_GetTaskInfo service info taskInfo businessError)"

definition Kits_SetUpgradePolicy ::
  "Samgr \<Rightarrow> 's IUpdateService \<Rightarrow> UpgradeInfo \<Rightarrow> UpgradePolicy \<Rightarrow> BusinessError \<Rightarrow> Kits \<times> 's \<Rightarrow> (int32_t \<times> BusinessError \<times> Kits \<times> 's) option" where
  "Kits_SetUpgradePolicy A service info policy businessError =
     kits_call A service businessError (ius_SetUpgradePolicy service info policy businessError)"

definition Kits_GetUpgradePolicy ::
  "Samgr \<Rightarrow> 's IUpdateService \<Rightarrow> UpgradeInfo \<Rightarrow> UpgradePolicy \<Rightarrow> BusinessError \<Rightarrow> Kits \<times> 's \<Rightarrow> (int32_t \<times> (UpgradePolicy \<times> BusinessError) \<times> Kits \<times> 's) option" where
  "Kits_GetUpgradePolicy A service info policy businessError =
     kits_call A service (policy, businessError) (ius_GetUpgradePolicy service info policy businessError)"

definition Kits_Cancel ::
  "Samgr \<Rightarrow> 's IUpdateService \<Rightarrow> UpgradeInfo \<Rightarrow> int32_t \<Rightarrow> BusinessError \<Rightarrow> Kits \<times> 's \<Rightarrow> (int32_t \<times> BusinessError \<times> Kits \<times> 's) option" where
  "Kits_Cancel A service info n businessError =
     kits_call A service businessError (ius_Cancel service info n businessError)"

definition Kits_FactoryReset ::
  "Samgr \<Rightarrow> 's IUpdateService \<Rightarrow> BusinessError \<Rightarrow> Kits \<times> 's \<Rightarrow> (int32_t \<times> BusinessError \<times> Kits \<times> 's) option" where
  "Kits_FactoryReset A service businessError =
     kits_call A service businessError (ius_FactoryReset service businessError)"

definition Kits_ApplyNewVersion ::
  "Samgr \<Rightarrow> 's IUpdateService \<Rightarrow> UpgradeInfo \<Rightarrow> string \<Rightarrow> string \<Rightarrow> BusinessError \<Rightarrow> Kits \<times> 's \<Rightarrow> (int32_t \<times> BusinessError \<times> Kits \<times> 's) option" where
  "Kits_ApplyNewVersion A service info miscFile packageName businessError =
     kits_call A service businessError (ius_ApplyNewVersion service info miscFile packageName businessError)"

definition Kits_VerifyUpgradePackage ::
  "Samgr \<Rightarrow> 's IUpdateService \<Rightarrow> string \<Rightarrow> string \<Rightarrow> BusinessError \<Rightarrow> Kits \<times> 's \<Rightarrow> (int32_t \<times> BusinessError \<times> Kits \<times> 's) option" where
  "Kits_VerifyUpgradePackage A service packagePath keyPath businessError =
     kits_call A service businessError (ius_VerifyUpgradePackage service packagePath keyPath businessError)"

section \<open>Properties\<close>

text \<open>The ways in which the service can be found.\<close>

definition reachable_service :: "Samgr \<Rightarrow> bool" where
  "reachable_service A \<longleftrightarrow> sg_samgr A \<and> sg_iface_cast A \<and>
     (sg_object A \<or> sg_object_after A \<and> sg_load_code A = 0 \<and>
        (\<exists>i < RETRY_TIMES. sg_status A i = LOAD_SUCCESS \<and> (\<forall>j < i. sg_status A j = WAIT_RESULT)))"

lemma poll_loaded_iff:
  "poll_loaded n status k \<longleftrightarrow> (\<exists>i < n. status (k + i) = LOAD_SUCCESS \<and> (\<forall>j < i. status (k + j) = WAIT_RESULT))"
proof (induction n arbitrary: k)
  case 0
  then show ?case by simp
next
  case (Suc n)
  have "(\<exists>i < Suc n. status (k + i) = LOAD_SUCCESS \<and> (\<forall>j < i. status (k + j) = WAIT_RESULT)) \<longleftrightarrow>
      status k = LOAD_SUCCESS \<or>
      status k = WAIT_RESULT \<and> (\<exists>i < n. status (Suc k + i) = LOAD_SUCCESS \<and> (\<forall>j < i. status (Suc k + j) = WAIT_RESULT))"
    (is "?L \<longleftrightarrow> ?R")
  proof
    assume ?L
    then obtain i where i: "i < Suc n" "status (k + i) = LOAD_SUCCESS" "\<forall>j < i. status (k + j) = WAIT_RESULT" by blast
    show ?R
    proof (cases i)
      case 0
      then show ?thesis using i by simp
    next
      case (Suc m)
      then show ?thesis using i by (intro disjI2 conjI exI [of _ m]) auto
    qed
  next
    assume ?R
    then consider "status k = LOAD_SUCCESS"
      | i where "status k = WAIT_RESULT" "i < n" "status (Suc k + i) = LOAD_SUCCESS" "\<forall>j < i. status (Suc k + j) = WAIT_RESULT"
      by blast
    then show ?L
    proof cases
      case 1
      then show ?thesis by (intro exI [of _ 0]) simp
    next
      case 2
      then show ?thesis by (intro exI [of _ "Suc i"]) (auto simp: less_Suc_eq_0_disj)
    qed
  qed
  then show ?case using Suc.IH [of "Suc k"] by (cases "status k") simp_all
qed

lemma GetService_reached:
  assumes "\<not> ki_connected k" and "reachable_service A"
  shows "GetService A service k s =
    map_option (\<lambda>s. (True, k\<lparr>ki_connected := True\<rparr>, s)) (register_all service (ki_callbacks k) s)"
  using assms poll_loaded_iff [of RETRY_TIMES "sg_status A" 0]
  by (auto simp: GetService_def reachable_service_def TryLoadUpdaterSa_def LoadUpdaterSa_def CheckUpdaterSaLoaded_def)

lemma register_all_clients:
  assumes "clients_ok (sv_world sv)" and "om_ordered UpgradeInfo_less cbs"
  shows "\<exists>sv'. register_all (UpdateService E K) cbs sv = Some sv' \<and> clients_ok (sv_world sv') \<and>
    w_ext (sv_world sv') = w_ext (sv_world sv) \<and> w_sent (sv_world sv') = w_sent (sv_world sv) \<and>
    (\<forall>(i, c) \<in> set cbs. om_find UpgradeInfo_less i (w_clients (sv_world sv')) = Some (Some c)) \<and>
    (\<forall>j. (\<forall>(i, c) \<in> set cbs. \<not> same_key UpgradeInfo_less j i) \<longrightarrow>
       om_find UpgradeInfo_less j (w_clients (sv_world sv')) = om_find UpgradeInfo_less j (w_clients (sv_world sv)))"
  using assms
proof (induction cbs arbitrary: sv)
  case Nil
  then show ?case by simp
next
  case (Cons a cbs)
  obtain i c where a: "a = (i, c)" by force
  let ?s = "sv\<lparr>sv_world := RegisterUpdateCallback i (Some c) (sv_world sv)\<rparr>"
  have step: "register_all (UpdateService E K) (a # cbs) sv = register_all (UpdateService E K) cbs ?s"
    by (simp add: a UpdateService_def UpdateService_RegisterUpdateCallback_def)
  note reg = register_refines [OF Cons.prems(1), of i "Some c"]
  have apart: "\<forall>(k, d) \<in> set cbs. \<not> same_key UpgradeInfo_less i k"
    and ord: "om_ordered UpgradeInfo_less cbs"
    using Cons.prems(2) by (auto simp: a um.ordered_Cons same_key_def)
  have frame: "w_ext (RegisterUpdateCallback i (Some c) w) = w_ext w" "w_sent (RegisterUpdateCallback i (Some c) w) = w_sent w"
    for w :: "'a World"
    by (simp_all add: RegisterUpdateCallback_def UnregisterUpdateCallback_def SetRemoteIdle_def Let_def split: option.split)
  obtain sv' where sv': "register_all (UpdateService E K) cbs ?s = Some sv'" "clients_ok (sv_world sv')"
      "w_ext (sv_world sv') = w_ext (sv_world ?s)" "w_sent (sv_world sv') = w_sent (sv_world ?s)"
      "\<forall>(i, c) \<in> set cbs. om_find UpgradeInfo_less i (w_clients (sv_world sv')) = Some (Some c)"
      "\<forall>j. (\<forall>(i, c) \<in> set cbs. \<not> same_key UpgradeInfo_less j i) \<longrightarrow>
         om_find UpgradeInfo_less j (w_clients (sv_world sv')) = om_find UpgradeInfo_less j (w_clients (sv_world ?s))"
    using Cons.IH [of ?s] reg ord by auto
  have "om_find UpgradeInfo_less i (w_clients (sv_world sv')) = Some (Some c)"
    using sv'(6) apart reg um.same_refl [of i] by simp
  then show ?case unfolding step using sv' reg
    by (intro exI [of _ sv']) (auto simp: a frame)
qed

text \<open>
  C15. A client survives the service: when the service process was stopped and its pointer reset,
  the next operation of the client library finds the service again, loading it on demand when
  the system ability manager reports success within its hundred polls, and registers every
  callback the client had, so that the new process sends its events to the same callbacks as the
  old one. Registrations of other clients, the tables and the notices are not touched.
\<close>

theorem reconnect_registers_callbacks:
  assumes "clients_ok (sv_world sv)" and "om_ordered UpgradeInfo_less (ki_callbacks k)"
    and "ki_connected k" and "reachable_service A"
  shows "\<exists>sv'. GetService A (UpdateService E K) (ResetService True k) sv = Some (True, k, sv') \<and>
    w_ext (sv_world sv') = w_ext (sv_world sv) \<and> w_sent (sv_world sv') = w_sent (sv_world sv) \<and>
    list_all (\<lambda>(i, c). UpdateService_GetUpgradeCallback i (sv_world sv') = Some c) (ki_callbacks k) \<and>
    (\<forall>j. list_all (\<lambda>(i, c). \<not> same_key UpgradeInfo_less j i) (ki_callbacks k) \<longrightarrow>
       UpdateService_GetUpgradeCallback j (sv_world sv') = UpdateService_GetUpgradeCallback j (sv_world sv))"
proof -
  have reset: "\<not> ki_connected (ResetService True k)" "ki_callbacks (ResetService True k) = ki_callbacks k"
      "(ResetService True k)\<lparr>ki_connected := True\<rparr> = k"
    using assms(3) by (simp_all add: ResetService_def)
  show ?thesis
    using register_all_clients [OF assms(1,2), of E K]
    by (auto simp: GetService_reached [OF reset(1) assms(4)] reset list_all_iff UpdateService_GetUpgradeCallback_def) fastforce
qed

definition other_info :: UpgradeInfo where
  "other_info = UpgradeInfo ''app2'' (BusinessType ''public'' BusinessSubType.FIRMWARE) ''dev'' ''ctl''"

definition sample_samgr :: Samgr where
  "sample_samgr = \<lparr>sg_samgr = True, sg_object = False, sg_load_code = 0,
     sg_status = \<lambda>i. if i < 3 then WAIT_RESULT else LOAD_SUCCESS, sg_object_after = True, sg_iface_cast = True\<rparr>"

definition restarted_service :: "MemDevice Service" where
  "restarted_service = empty_service\<lparr>sv_world := (World_new empty_device)\<lparr>w_started := True\<rparr>\<rparr>"

theorem reconnect_registers_callbacks_witness:
  "\<exists>sv'. GetService sample_samgr (UpdateService memory_device sample_kits)
       (ResetService True \<lparr>ki_connected = True, ki_callbacks = [(sample_info, 4), (other_info, 5)]\<rparr>) restarted_service =
     Some (True, \<lparr>ki_connected = True, ki_callbacks = [(sample_info, 4), (other_info, 5)]\<rparr>, sv') \<and>
   UpdateService_GetUpgradeCallback sample_info (sv_world sv') = Some 4 \<and>
   UpdateService_GetUpgradeCallback other_info (sv_world sv') = Some 5"
proof -
  have "clients_ok (sv_world restarted_service)"
    by (simp add: clients_ok_def restarted_service_def World_new_def um.ordered_Nil)
  moreover have "om_ordered UpgradeInfo_less [(sample_info, 4), (other_info, 5 :: Callback)]"
    by (simp add: om_ordered_def UpgradeInfo_less_def sample_info_def other_info_def)
  moreover have "reachable_service sample_samgr"
    unfolding reachable_service_def by (auto simp: sample_samgr_def RETRY_TIMES_def intro!: exI [of _ 3])
  ultimately show ?thesis
    using reconnect_registers_callbacks [of restarted_service "\<lparr>ki_connected = True, ki_callbacks = [(sample_info, 4), (other_info, 5)]\<rparr>"
        sample_samgr memory_device sample_kits] by auto
qed

text \<open>
  The client library forgets a callback without telling the service, which keeps the client in
  its map and does not become idle.
\<close>

lemma unregister_keeps_client:
  assumes "clients_ok (sv_world sv)" and "ki_connected k"
    and "Kits_RegisterUpdateCallback A (UpdateService E K) info cb (k, sv) = Some (ret, u, k1, sv1)"
    and "Kits_UnregisterUpdateCallback info (k1, sv1) = Some (ret', u', k2, sv2)"
  shows "UpdateService_GetUpgradeCallback info (sv_world sv2) = Some cb \<and> \<not> w_remoteIdle (sv_world sv2)"
proof -
  have "sv2 = sv\<lparr>sv_world := RegisterUpdateCallback info (Some cb) (sv_world sv)\<rparr>"
    using assms(2-4)
    by (auto simp: Kits_RegisterUpdateCallback_def Kits_UnregisterUpdateCallback_def kits_call_def GetService_def UpdateService_def
        UpdateService_RegisterUpdateCallback_def)
  moreover have "om_find UpgradeInfo_less info (w_clients (RegisterUpdateCallback info (Some cb) (sv_world sv))) = Some (Some cb)"
      "clients_ok (RegisterUpdateCallback info (Some cb) (sv_world sv))"
    using register_refines [OF assms(1), of info "Some cb"] um.same_refl [of info] by auto
  ultimately show ?thesis
    by (auto simp: UpdateService_GetUpgradeCallback_def clients_ok_def)
qed

end
