(* ===== verification/Js_Session.thy ===== *)
theory Js_Session
  imports Client_Args Std_Map Service_Kits
begin

text \<open>
  The sessions of the binding (\<open>client/update_session.h\<close>, \<open>.cpp\<close>): one call of an operation is one
  session, with a callback or a promise; a subscription is a session that stays. A session starts
  its work on the JavaScript thread, does it on a worker thread and reports on the JavaScript
  thread again.
\<close>

section \<open>State\<close>

record SessionParams =
  sp_type :: SessionType
  sp_callbackStartIndex :: nat
  sp_isNeedBusinessError :: bool
  sp_isAsyncCompleteWork :: bool

text \<open>The constructor; \<open>INDEX\<close> is the position less one.\<close>

definition SessionParams_new :: "SessionType \<Rightarrow> nat \<Rightarrow> bool \<Rightarrow> bool \<Rightarrow> SessionParams" where
  "SessionParams_new typeValue callbackPosition isNeedBusinessErrorValue isAsyncCompleteWorkValue =
     \<lparr>sp_type = typeValue, sp_callbackStartIndex = callbackPosition - 1,
      sp_isNeedBusinessError = isNeedBusinessErrorValue, sp_isAsyncCompleteWork = isAsyncCompleteWorkValue\<rparr>"

datatype SessionClass = UpdateAsyncession | UpdateAsyncessionNoCallback | UpdatePromiseSession | UpdateListener

text \<open>
  The work of a session. It captures \<open>this\<close>, so it reads and writes the members \<open>'c\<close> of the updater
  when it runs, and it calls the client library, whose state (with the service behind it) is \<open>'k\<close>.
  The context pointer is the error of the session or null. \<open>None\<close> is a crash.
\<close>

type_synonym ('c, 'k) DoWorkFunction =
  "SessionType \<Rightarrow> BusinessError option \<Rightarrow> 'c \<Rightarrow> 'k \<Rightarrow> (int32_t \<times> BusinessError option \<times> 'c \<times> 'k) option"

record ('r, 'd, 'w, 'c, 'k) Session =
  se_class :: SessionClass
  se_sessionId :: uint32_t
  se_params :: SessionParams
  se_businessError :: BusinessError
  se_workResult :: int32_t
  se_totalArgc :: nat
  se_callbackNumber :: nat
  se_doWorker :: "('c, 'k) DoWorkFunction option"
  se_asyncExecuteComplete :: bool
  se_worker :: 'w
  se_callbackRef :: "'r list"
  se_deferred :: 'd
  se_isOnce :: bool
  se_eventType :: string
  se_handlerRef :: 'r
  se_eventClassifyInfo :: EventClassifyInfo

text \<open>
  The process, seen from one updater: the engine, the client library, the counter \<open>g_sessionId\<close>,
  and of the updater its members, its map of sessions and its own reference. The last four say
  what N-API and libuv hold: the works that are queued, those whose call has returned and that may
  still wait for an answer, those that are done but not reported, and the events posted to the
  JavaScript thread. No null pointer is in the map, since \<open>AddSession\<close> refuses it.
\<close>

record ('r, 'd, 'w, 'h, 'c, 'k) Updater =
  ju_heap :: 'h
  ju_kits :: 'k
  ju_sessionId :: uint32_t
  ju_members :: 'c
  ju_sessions :: "(uint32_t \<times> ('r, 'd, 'w, 'c, 'k) Session) list"
  ju_thisReference :: 'r
  ju_queued :: "uint32_t list"
  ju_running :: "uint32_t list"
  ju_executed :: "uint32_t list"
  ju_posted :: "(EventClassifyInfo \<times> EventInfo) list"

abbreviation id_less :: "uint32_t \<Rightarrow> uint32_t \<Rightarrow> bool" where
  "id_less \<equiv> (<)"

definition engine :: "('h, 'a) state \<Rightarrow> (('r, 'd, 'w, 'h, 'c, 'k) Updater, 'a) state" where
  "engine c = State (\<lambda>u. let (x, h) = run_state c (ju_heap u) in (x, u\<lparr>ju_heap := h\<rparr>))"

definition modify :: "('u \<Rightarrow> 'u) \<Rightarrow> ('u, unit) state" where
  "modify f = State (\<lambda>u. ((), f u))"

lemma run_engine [simp]:
  "run_state (engine c) u = (let (x, h) = run_state c (ju_heap u) in (x, u\<lparr>ju_heap := h\<rparr>))"
  by (simp add: engine_def)

lemma run_modify [simp]: "run_state (modify f) u = ((), f u)"
  by (simp add: modify_def)

definition UpdateSession_new ::
  "('v, 'r, 'd, 'w, 'h) napi \<Rightarrow> SessionClass \<Rightarrow> SessionParams \<Rightarrow> nat \<Rightarrow> nat \<Rightarrow>
   (('r, 'd, 'w, 'h, 'c, 'k) Updater, ('r, 'd, 'w, 'c, 'k) Session) state" where
  "UpdateSession_new N cls sessionParams argc callbackNumber = do {
     u \<leftarrow> State_Monad.get;
     let sessionId = ju_sessionId u + 1;
     _ \<leftarrow> modify (\<lambda>u. u\<lparr>ju_sessionId := sessionId\<rparr>);
     State_Monad.return
       \<lparr>se_class = cls, se_sessionId = sessionId, se_params = sessionParams, se_businessError = BusinessError_default,
        se_workResult = INT_CALL_SUCCESS, se_totalArgc = argc, se_callbackNumber = callbackNumber, se_doWorker = None,
        se_asyncExecuteComplete = False, se_worker = np_null_work N,
        se_callbackRef = replicate callbackNumber (np_null_ref N), se_deferred = np_null_deferred N, se_isOnce = False,
        se_eventType = [], se_handlerRef = np_null_ref N, se_eventClassifyInfo = EventClassifyInfo_default\<rparr>
   }"

section \<open>What is common to all sessions\<close>

definition CreateWorkerName :: "('v, 'r, 'd, 'w, 'h) napi \<Rightarrow> ('r, 'd, 'w, 'c, 'k) Session \<Rightarrow> ('h, 'v) state" where
  "CreateWorkerName N s = do {
     (status, workName) \<leftarrow> np_create_string_utf8 N (''Async Work'' @ to_string_int (uint (se_sessionId s))) (np_wild N);
     State_Monad.return (if status \<noteq> napi_ok then np_nullptr N else workName)
   }"

definition IsAsyncCompleteWork :: "('r, 'd, 'w, 'c, 'k) Session \<Rightarrow> bool" where
  "IsAsyncCompleteWork s \<longleftrightarrow> sp_type (se_params s) = SESSION_CHECK_VERSION"

definition OnAsyncComplete :: "BusinessError \<Rightarrow> ('r, 'd, 'w, 'c, 'k) Session \<Rightarrow> ('r, 'd, 'w, 'c, 'k) Session" where
  "OnAsyncComplete businessError s = s\<lparr>se_businessError := businessError, se_asyncExecuteComplete := True\<rparr>"

definition IsWorkExecuteSuccess :: "('r, 'd, 'w, 'c, 'k) Session \<Rightarrow> bool" where
  "IsWorkExecuteSuccess s \<longleftrightarrow> se_workResult s = INT_CALL_SUCCESS"

text \<open>\<open>ExecuteWork\<close> on the worker thread: the call, and after the wait of at most 40 seconds.\<close>

definition ExecuteWork ::
  "('r, 'd, 'w, 'c, 'k) Session \<Rightarrow> 'c \<Rightarrow> 'k \<Rightarrow> (('r, 'd, 'w, 'c, 'k) Session \<times> 'c \<times> 'k) option" where
  "ExecuteWork s c k =
     (case se_doWorker s of
        None \<Rightarrow> Some (s, c, k)
      | Some doWorker \<Rightarrow>
          if sp_isNeedBusinessError (se_params s) then
            (case doWorker (sp_type (se_params s)) (Some (se_businessError s)) c k of
               None \<Rightarrow> None
             | Some (ret, be, c, k) \<Rightarrow>
                 Some (s\<lparr>se_workResult := ret, se_businessError := (case be of None \<Rightarrow> se_businessError s | Some e \<Rightarrow> e)\<rparr>, c, k))
          else
            (case doWorker (sp_type (se_params s)) None c k of
               None \<Rightarrow> None
             | Some (ret, be, c, k) \<Rightarrow> Some (s\<lparr>se_workResult := ret\<rparr>, c, k)))"

definition must_wait :: "('r, 'd, 'w, 'c, 'k) Session \<Rightarrow> bool" where
  "must_wait s \<longleftrightarrow> se_doWorker s \<noteq> None \<and> IsAsyncCompleteWork s \<and> IsWorkExecuteSuccess s"

definition ExecuteWork_waited :: "('r, 'd, 'w, 'c, 'k) Session \<Rightarrow> ('r, 'd, 'w, 'c, 'k) Session" where
  "ExecuteWork_waited s =
     (if must_wait s \<and> \<not> se_asyncExecuteComplete s
      then s\<lparr>se_businessError := (se_businessError s)\<lparr>be_errorNum := CallResult.TIME_OUT\<rparr>\<rparr> else s)"

section \<open>Results\<close>

text \<open>The pointers to members of the updater that a result can hold, and its function.\<close>

datatype ResultPtr =
    NoPtr | PolicyPtr UpgradePolicy | NewVersionPtr NewVersionInfo | DescriptionPtr VersionDescriptionInfo
  | CheckPtr CheckResult | CurrentPtr CurrentVersionInfo | TaskPtr TaskInfo

datatype BuildJSObject =
    Build_CheckResult | Build_NewVersionInfo | Build_VersionDescriptionInfo | Build_TaskInfo | Build_CurrentVersionInfo
  | Build_UpgradePolicy | Build_UndefinedStatus

record Js_UpdateResult =
  ur_type :: SessionType
  ur_businessError :: BusinessError
  ur_result :: ResultPtr
  ur_buildJSObject :: BuildJSObject

definition call_buildJSObject :: "('v, 'r, 'd, 'w, 'h) napi \<Rightarrow> 'v \<Rightarrow> Js_UpdateResult \<Rightarrow> ('h, int32_t \<times> 'v) state" where
  "call_buildJSObject N ob result =
     (case ur_buildJSObject result of
        Build_CheckResult \<Rightarrow>
          ClientHelper_BuildCheckResult N ob (ur_type result) (case ur_result result of CheckPtr p \<Rightarrow> Some p | _ \<Rightarrow> None)
      | Build_NewVersionInfo \<Rightarrow>
          ClientHelper_BuildNewVersionInfo N ob (ur_type result) (case ur_result result of NewVersionPtr p \<Rightarrow> Some p | _ \<Rightarrow> None)
      | Build_VersionDescriptionInfo \<Rightarrow>
          BuildVersionDescriptionInfo N ob (ur_type result) (case ur_result result of DescriptionPtr p \<Rightarrow> Some p | _ \<Rightarrow> None)
      | Build_TaskInfo \<Rightarrow> BuildTaskInfo N ob (case ur_result result of TaskPtr p \<Rightarrow> Some p | _ \<Rightarrow> None)
      | Build_CurrentVersionInfo \<Rightarrow>
          ClientHelper_BuildCurrentVersionInfo N ob (ur_type result) (case ur_result result of CurrentPtr p \<Rightarrow> Some p | _ \<Rightarrow> None)
      | Build_UpgradePolicy \<Rightarrow>
          BuildUpgradePolicy N ob (ur_type result) (case ur_result result of PolicyPtr p \<Rightarrow> Some p | _ \<Rightarrow> None)
      | Build_UndefinedStatus \<Rightarrow> BuildUndefinedStatus N ob)"

text \<open>The virtual \<open>GetUpdateResult\<close> of the updater is the argument \<open>get\<close>; the union starts without a value.\<close>

definition Session_GetUpdateResult ::
  "(SessionType \<Rightarrow> 'c \<Rightarrow> Js_UpdateResult \<Rightarrow> Js_UpdateResult) \<Rightarrow> 'c \<Rightarrow> ('r, 'd, 'w, 'c, 'k) Session \<Rightarrow> Js_UpdateResult" where
  "Session_GetUpdateResult get c s =
     get (sp_type (se_params s)) c
       \<lparr>ur_type = SESSION_MAX, ur_businessError = se_businessError s, ur_result = NoPtr, ur_buildJSObject = Build_UndefinedStatus\<rparr>"

definition session_func_map :: "(SessionType \<times> string) list" where
  "session_func_map =
     [(SESSION_CHECK_VERSION, ''checkNewVersion''), (SESSION_DOWNLOAD, ''download''),
      (SESSION_PAUSE_DOWNLOAD, ''pauseDownload''), (SESSION_RESUME_DOWNLOAD, ''resumeDownload''),
      (SESSION_UPGRADE, ''upgrade''), (SESSION_SET_POLICY, ''setUpgradePolicy''),
      (SESSION_GET_POLICY, ''getUpgradePolicy''), (SESSION_CLEAR_ERROR, ''clearError''),
      (SESSION_TERMINATE_UPGRADE, ''terminateUpgrade''), (SESSION_GET_NEW_VERSION, ''getNewVersionInfo''),
      (SESSION_GET_NEW_VERSION_DESCRIPTION, ''getNewVersionDescription''), (SESSION_SUBSCRIBE, ''subscribe''),
      (SESSION_UNSUBSCRIBE, ''unsubscribe''), (SESSION_GET_UPDATER, ''getUpdater''),
      (SESSION_APPLY_NEW_VERSION, ''applyNewVersion''), (SESSION_FACTORY_RESET, ''factoryReset''),
      (SESSION_VERIFY_PACKAGE, ''verifyPackage''), (SESSION_CANCEL_UPGRADE, ''cancel''),
      (SESSION_GET_CUR_VERSION, ''getCurrentVersionInfo''),
      (SESSION_GET_CUR_VERSION_DESCRIPTION, ''getCurrentVersionDescription''), (SESSION_GET_TASK_INFO, ''getTaskInfo''),
      (SESSION_REPLY_PARAM_ERROR, ''replyParamError''), (SESSION_MAX, ''max'')]"

definition GetSessionFuncParameter :: "SessionType \<Rightarrow> string \<times> string" where
  "GetSessionFuncParameter type =
     ((case map_of session_func_map type of None \<Rightarrow> '''' | Some func \<Rightarrow> func),
      (if type = SESSION_FACTORY_RESET then ''ohos.permission.FACTORY_RESET'' else ''ohos.permission.UPDATE_SYSTEM''))"

definition work_error_message :: "SessionType \<Rightarrow> int32_t \<Rightarrow> string" where
  "work_error_message type workResult =
     (let plain = ''BusinessError '' @ to_string workResult;
          component = ''BusinessError '' @ to_string (COMPONENT_ERR + workResult);
          (funcName, permissionName) = GetSessionFuncParameter type
      in if workResult = CallResult_code CallResult.NOT_SYSTEM_APP then plain @ '': Caller not system app.''
         else if workResult = CallResult_code CallResult.APP_NOT_GRANTED then
           plain @ '': Permission denied. An attempt was made to '' @ funcName @ '' forbidden by permission: '' @ permissionName @ ''.''
         else if workResult = CallResult_code CallResult.IPC_ERR then component @ '': IPC error.''
         else if workResult = CallResult_code CallResult.UN_SUPPORT then
           plain @ '': Capability not supported. '' @ ''function '' @ funcName @
             '' can not work correctly due to limited device capabilities.''
         else if workResult = CallResult_code CallResult.PARAM_ERR then ''param error''
         else if workResult = CallResult_code CallResult.FAIL then component @ '': Execute fail.''
         else if workResult = CallResult_code CallResult.FORBIDDEN then component @ '': Forbidden execution.''
         else if workResult = CallResult_code CallResult.DEV_UPG_INFO_ERR then component @ '': Device info error.''
         else if workResult = CallResult_code CallResult.TIME_OUT then component @ '': Execute timeout.''
         else if workResult = CallResult_code CallResult.DB_ERROR then component @ '': DB error.''
         else if workResult = CallResult_code CallResult.IO_ERROR then component @ '': IO error.''
         else if workResult = CallResult_code CallResult.NET_ERROR then component @ '': Network error.''
         else ''execute error'')"

definition BuildWorkBusinessErr :: "('r, 'd, 'w, 'c, 'k) Session \<Rightarrow> BusinessError \<Rightarrow> BusinessError" where
  "BuildWorkBusinessErr s businessError =
     Build (CallResult_of (se_workResult s)) (work_error_message (sp_type (se_params s)) (se_workResult s)) businessError"

definition GetBusinessError :: "('r, 'd, 'w, 'c, 'k) Session \<Rightarrow> BusinessError \<Rightarrow> Js_UpdateResult \<Rightarrow> BusinessError" where
  "GetBusinessError s businessError result =
     (if IsWorkExecuteSuccess s then ur_businessError result else BuildWorkBusinessErr s businessError)"

section \<open>Sessions with a callback\<close>

text \<open>The loop over the callbacks; the list holds the indices that are left.\<close>

fun callback_loop ::
  "('v, 'r, 'd, 'w, 'h) napi \<Rightarrow> 'v list \<Rightarrow> nat \<Rightarrow> nat list \<Rightarrow> ('r, 'd, 'w, 'c, 'k) Session \<Rightarrow>
   ('h, bool \<times> ('r, 'd, 'w, 'c, 'k) Session) state" where
  "callback_loop N args startIndex [] s = State_Monad.return (True, s)"
| "callback_loop N args startIndex (i # is) s = do {
     ret \<leftarrow> NapiUtil_IsTypeOf N (args ! (i + startIndex)) napi_function;
     if ret \<noteq> CLIENT_SUCCESS then do {
       _ \<leftarrow> NapiThrowParamError N [(''callback'', ''napi_function'')];
       State_Monad.return (False, s)
     } else do {
       (ret, r) \<leftarrow> NapiUtil_CreateReference N (args ! (i + startIndex)) 1 (se_callbackRef s ! i);
       let s = s\<lparr>se_callbackRef := (se_callbackRef s)[i := r]\<rparr>;
       if ret \<noteq> CLIENT_SUCCESS then State_Monad.return (False, s)
       else callback_loop N args startIndex is s
     }
   }"

text \<open>Queueing the work; the engine then owes the session its two calls.\<close>

definition queue_work ::
  "('v, 'r, 'd, 'w, 'h) napi \<Rightarrow> 'v \<Rightarrow> ('r, 'd, 'w, 'c, 'k) Session \<Rightarrow>
   (('r, 'd, 'w, 'h, 'c, 'k) Updater, bool \<times> ('r, 'd, 'w, 'c, 'k) Session) state" where
  "queue_work N workName s = do {
     (status, worker) \<leftarrow> engine (np_create_async_work N workName (se_sessionId s) (se_worker s));
     let s = s\<lparr>se_worker := worker\<rparr>;
     if status \<noteq> napi_ok then State_Monad.return (False, s)
     else do {
       status \<leftarrow> engine (np_queue_async_work N worker);
       if status \<noteq> napi_ok then State_Monad.return (False, s)
       else do {
         _ \<leftarrow> modify (\<lambda>u. u\<lparr>ju_queued := ju_queued u @ [se_sessionId s]\<rparr>);
         State_Monad.return (True, s)
       }
     }
   }"

definition UpdateAsyncession_StartWork ::
  "('v, 'r, 'd, 'w, 'h) napi \<Rightarrow> nat \<Rightarrow> 'v list \<Rightarrow> ('r, 'd, 'w, 'c, 'k) Session \<Rightarrow>
   (('r, 'd, 'w, 'h, 'c, 'k) Updater, 'v \<times> ('r, 'd, 'w, 'c, 'k) Session) state" where
  "UpdateAsyncession_StartWork N startIndex args s =
     (if \<not> startIndex \<le> se_totalArgc s then State_Monad.return (np_nullptr N, s)
      else do {
        workName \<leftarrow> engine (CreateWorkerName N s);
        if workName = np_nullptr N then State_Monad.return (np_nullptr N, s)
        else do {
          (good, s) \<leftarrow> engine (callback_loop N args startIndex [0..<min (se_totalArgc s - startIndex) (se_callbackNumber s)] s);
          if \<not> good then State_Monad.return (np_nullptr N, s)
          else do {
            (good, s) \<leftarrow> queue_work N workName s;
            if \<not> good then State_Monad.return (np_nullptr N, s)
            else do {
              (_, result) \<leftarrow> engine (np_create_int32 N 0 (np_wild N));
              State_Monad.return (result, s)
            }
          }
        }
      })"

text \<open>
  \<open>J\<close> is \<open>napi_call_function\<close>: the application's function may call the binding again, so it acts on
  the whole process.
\<close>

fun delete_references :: "('v, 'r, 'd, 'w, 'h) napi \<Rightarrow> 'r list \<Rightarrow> ('h, unit) state" where
  "delete_references N [] = State_Monad.return ()"
| "delete_references N (r # rs) = do { _ \<leftarrow> np_delete_reference N r; delete_references N rs }"

definition UpdateAsyncession_NotifyJS ::
  "('v, 'r, 'd, 'w, 'h) napi \<Rightarrow> ('v \<Rightarrow> 'v \<Rightarrow> 'v list \<Rightarrow> (('r, 'd, 'w, 'h, 'c, 'k) Updater, napi_status) state) \<Rightarrow>
   Js_UpdateResult \<Rightarrow> ('r, 'd, 'w, 'c, 'k) Session \<Rightarrow>
   (('r, 'd, 'w, 'h, 'c, 'k) Updater, ('r, 'd, 'w, 'c, 'k) Session) state" where
  "UpdateAsyncession_NotifyJS N J result s = do {
     (_, undef) \<leftarrow> engine (np_get_undefined N (np_wild N));
     let businessError = GetBusinessError s BusinessError_default result;
     (ret, a0, a1) \<leftarrow>
       (if IsErrorExist businessError then do {
          (ret, a0) \<leftarrow> engine (BuildBusinessError N (np_nullptr N) businessError);
          State_Monad.return (ret, a0, np_nullptr N)
        } else do {
          (ret, a1) \<leftarrow> engine (call_buildJSObject N (np_nullptr N) result);
          State_Monad.return (ret, np_nullptr N, a1)
        });
     if ret \<noteq> napi_ok then State_Monad.return s
     else do {
       (retStatus, callback) \<leftarrow> engine (np_get_reference_value N (se_callbackRef s ! 0) (np_wild N));
       if retStatus \<noteq> napi_ok then State_Monad.return s
       else do {
         retStatus \<leftarrow> J undef callback [a0, a1];
         if retStatus \<noteq> napi_ok then State_Monad.return s
         else do {
           _ \<leftarrow> engine (delete_references N (take (se_callbackNumber s) (se_callbackRef s)));
           let s = s\<lparr>se_callbackRef := map (\<lambda>_. np_null_ref N) (se_callbackRef s)\<rparr>;
           _ \<leftarrow> engine (np_delete_async_work N (se_worker s));
           State_Monad.return (s\<lparr>se_worker := np_null_work N\<rparr>)
         }
       }
     }
   }"

section \<open>Sessions with a promise\<close>

definition UpdatePromiseSession_StartWork ::
  "('v, 'r, 'd, 'w, 'h) napi \<Rightarrow> nat \<Rightarrow> 'v list \<Rightarrow> ('r, 'd, 'w, 'c, 'k) Session \<Rightarrow>
   (('r, 'd, 'w, 'h, 'c, 'k) Updater, 'v \<times> ('r, 'd, 'w, 'c, 'k) Session) state" where
  "UpdatePromiseSession_StartWork N startIndex args s = do {
     workName \<leftarrow> engine (CreateWorkerName N s);
     if workName = np_nullptr N then State_Monad.return (np_nullptr N, s)
     else do {
       (status, deferred, promise) \<leftarrow> engine (np_create_promise N (se_deferred s) (np_wild N));
       let s = s\<lparr>se_deferred := deferred\<rparr>;
       if status \<noteq> napi_ok then State_Monad.return (np_nullptr N, s)
       else do {
         (good, s) \<leftarrow> queue_work N workName s;
         State_Monad.return (if \<not> good then np_nullptr N else promise, s)
       }
     }
   }"

definition UpdatePromiseSession_NotifyJS ::
  "('v, 'r, 'd, 'w, 'h) napi \<Rightarrow> Js_UpdateResult \<Rightarrow> ('r, 'd, 'w, 'c, 'k) Session \<Rightarrow>
   (('r, 'd, 'w, 'h, 'c, 'k) Updater, ('r, 'd, 'w, 'c, 'k) Session) state" where
  "UpdatePromiseSession_NotifyJS N result s = do {
     let businessError = GetBusinessError s BusinessError_default result;
     _ \<leftarrow> (if \<not> IsErrorExist businessError then do {
            (_, processResult) \<leftarrow> engine (call_buildJSObject N (np_nullptr N) result);
            engine (np_resolve_deferred N (se_deferred s) processResult)
          } else do {
            (_, processResult) \<leftarrow> engine (BuildBusinessError N (np_nullptr N) businessError);
            engine (np_reject_deferred N (se_deferred s) processResult)
          });
     _ \<leftarrow> engine (np_delete_async_work N (se_worker s));
     State_Monad.return (s\<lparr>se_worker := np_null_work N\<rparr>)
   }"

section \<open>Subscriptions\<close>

definition UpdateListener_StartWork ::
  "('v, 'r, 'd, 'w, 'h) napi \<Rightarrow> nat \<Rightarrow> 'v list \<Rightarrow> ('r, 'd, 'w, 'c, 'k) Session \<Rightarrow>
   (('r, 'd, 'w, 'h, 'c, 'k) Updater, 'v \<times> ('r, 'd, 'w, 'c, 'k) Session) state" where
  "UpdateListener_StartWork N startIndex args s = engine
     (if \<not> startIndex < se_totalArgc s then State_Monad.return (np_nullptr N, s)
      else do {
        isString \<leftarrow> NapiUtil_IsTypeOf N (args ! 0) napi_string;
        (good, s) \<leftarrow>
          (if isString = CLIENT_SUCCESS then do {
             (ret, eventType) \<leftarrow> NapiUtil_GetString_value N (args ! 0) (se_eventType s);
             State_Monad.return (ret = napi_ok, s\<lparr>se_eventType := eventType\<rparr>)
           } else do {
             (ret, info) \<leftarrow> GetEventClassifyInfoFromArg N (args ! 0) (se_eventClassifyInfo s);
             State_Monad.return (ret = CLIENT_SUCCESS, s\<lparr>se_eventClassifyInfo := info\<rparr>)
           });
        if \<not> good then State_Monad.return (np_nullptr N, s)
        else do {
          isFunction \<leftarrow> NapiUtil_IsTypeOf N (args ! startIndex) napi_function;
          if isFunction \<noteq> CLIENT_SUCCESS then State_Monad.return (np_nullptr N, s)
          else do {
            (ret, r) \<leftarrow> NapiUtil_CreateReference N (args ! startIndex) 1 (se_handlerRef s);
            let s = s\<lparr>se_handlerRef := r\<rparr>;
            if ret \<noteq> CLIENT_SUCCESS then State_Monad.return (np_nullptr N, s)
            else do {
              (_, result) \<leftarrow> np_create_int32 N 0 (np_wild N);
              State_Monad.return (result, s)
            }
          }
        }
      })"

definition UpdateListener_NotifyJS ::
  "('v, 'r, 'd, 'w, 'h) napi \<Rightarrow> ('v \<Rightarrow> 'v \<Rightarrow> 'v list \<Rightarrow> (('r, 'd, 'w, 'h, 'c, 'k) Updater, napi_status) state) \<Rightarrow>
   'v \<Rightarrow> EventInfo \<Rightarrow> ('r, 'd, 'w, 'c, 'k) Session \<Rightarrow> (('r, 'd, 'w, 'h, 'c, 'k) Updater, unit) state" where
  "UpdateListener_NotifyJS N J thisVar eventInfo s = do {
     (ret, jsEvent) \<leftarrow> engine (BuildEventInfo N (np_nullptr N) eventInfo);
     if ret \<noteq> CLIENT_SUCCESS then State_Monad.return ()
     else if se_handlerRef s = np_null_ref N then State_Monad.return ()
     else do {
       (status, handler) \<leftarrow> engine (np_get_reference_value N (se_handlerRef s) (np_nullptr N));
       if \<not> (status = napi_ok \<and> handler \<noteq> np_nullptr N) then State_Monad.return ()
       else do {
         _ \<leftarrow> J thisVar handler [jsEvent];
         State_Monad.return ()
       }
     }
   }"

definition UpdateListener_NotifyJS_result ::
  "('v, 'r, 'd, 'w, 'h) napi \<Rightarrow> ('v \<Rightarrow> 'v \<Rightarrow> 'v list \<Rightarrow> (('r, 'd, 'w, 'h, 'c, 'k) Updater, napi_status) state) \<Rightarrow>
   'v \<Rightarrow> Js_UpdateResult \<Rightarrow> ('r, 'd, 'w, 'c, 'k) Session \<Rightarrow> (('r, 'd, 'w, 'h, 'c, 'k) Updater, unit) state" where
  "UpdateListener_NotifyJS_result N J thisVar result s = do {
     (ret, jsEvent) \<leftarrow> engine (call_buildJSObject N (np_wild N) result);
     if ret \<noteq> napi_ok then State_Monad.return ()
     else if se_handlerRef s = np_null_ref N then State_Monad.return ()
     else do {
       (status, handler) \<leftarrow> engine (np_get_reference_value N (se_handlerRef s) (np_nullptr N));
       if \<not> (status = napi_ok \<and> handler \<noteq> np_nullptr N) then State_Monad.return ()
       else do {
         _ \<leftarrow> J thisVar handler [jsEvent];
         State_Monad.return ()
       }
     }
   }"

definition CheckEqual ::
  "('v, 'r, 'd, 'w, 'h) napi \<Rightarrow> 'v \<Rightarrow> string \<Rightarrow> ('r, 'd, 'w, 'c, 'k) Session \<Rightarrow> ('h, bool) state" where
  "CheckEqual N handler type s = do {
     (status, handlerTemp) \<leftarrow> np_get_reference_value N (se_handlerRef s) (np_nullptr N);
     if status \<noteq> napi_ok then State_Monad.return False
     else do {
       (_, isEquals) \<leftarrow> np_strict_equals N handler handlerTemp False;
       State_Monad.return (isEquals \<and> type = se_eventType s)
     }
   }"

definition IsSubscribeEvent :: "EventClassifyInfo \<Rightarrow> ('r, 'd, 'w, 'c, 'k) Session \<Rightarrow> bool" where
  "IsSubscribeEvent eventClassifyInfo s \<longleftrightarrow>
     EventClassify_code (ec_eventClassify (se_eventClassifyInfo s)) = EventClassify_code (ec_eventClassify eventClassifyInfo)"

definition IsSameListener ::
  "('v, 'r, 'd, 'w, 'h) napi \<Rightarrow> EventClassifyInfo \<Rightarrow> 'v \<Rightarrow> ('r, 'd, 'w, 'c, 'k) Session \<Rightarrow> ('h, bool) state" where
  "IsSameListener N eventClassifyInfo handler s =
     (if EventClassify_code (ec_eventClassify (se_eventClassifyInfo s)) \<noteq> EventClassify_code (ec_eventClassify eventClassifyInfo)
      then State_Monad.return False
      else do {
        (status, currentHandler) \<leftarrow> np_get_reference_value N (se_handlerRef s) (np_nullptr N);
        if status \<noteq> napi_ok then State_Monad.return False
        else do {
          (status, isEquals) \<leftarrow> np_strict_equals N handler currentHandler False;
          State_Monad.return (status = napi_ok \<and> isEquals)
        }
      })"

definition RemoveHandlerRef ::
  "('v, 'r, 'd, 'w, 'h) napi \<Rightarrow> ('r, 'd, 'w, 'c, 'k) Session \<Rightarrow> ('h, ('r, 'd, 'w, 'c, 'k) Session) state" where
  "RemoveHandlerRef N s = do {
     _ \<leftarrow> np_delete_reference N (se_handlerRef s);
     State_Monad.return (s\<lparr>se_handlerRef := np_null_ref N\<rparr>)
   }"

section \<open>Virtual functions\<close>

definition StartWork ::
  "('v, 'r, 'd, 'w, 'h) napi \<Rightarrow> 'v list \<Rightarrow> ('c, 'k) DoWorkFunction \<Rightarrow> ('r, 'd, 'w, 'c, 'k) Session \<Rightarrow>
   (('r, 'd, 'w, 'h, 'c, 'k) Updater, 'v \<times> ('r, 'd, 'w, 'c, 'k) Session) state" where
  "StartWork N args worker s =
     (let s = s\<lparr>se_doWorker := Some worker\<rparr>;
          startIndex = sp_callbackStartIndex (se_params s)
      in case se_class s of
           UpdateAsyncession \<Rightarrow> UpdateAsyncession_StartWork N startIndex args s
         | UpdateAsyncessionNoCallback \<Rightarrow> UpdateAsyncession_StartWork N startIndex args s
         | UpdatePromiseSession \<Rightarrow> UpdatePromiseSession_StartWork N startIndex args s
         | UpdateListener \<Rightarrow> UpdateListener_StartWork N startIndex args s)"

definition Session_CompleteWork ::
  "('v, 'r, 'd, 'w, 'h) napi \<Rightarrow> ('v \<Rightarrow> 'v \<Rightarrow> 'v list \<Rightarrow> (('r, 'd, 'w, 'h, 'c, 'k) Updater, napi_status) state) \<Rightarrow>
   (SessionType \<Rightarrow> 'c \<Rightarrow> Js_UpdateResult \<Rightarrow> Js_UpdateResult) \<Rightarrow> ('r, 'd, 'w, 'c, 'k) Session \<Rightarrow>
   (('r, 'd, 'w, 'h, 'c, 'k) Updater, ('r, 'd, 'w, 'c, 'k) Session) state" where
  "Session_CompleteWork N J get s = do {
     u \<leftarrow> State_Monad.get;
     let result = Session_GetUpdateResult get (ju_members u) s;
     case se_class s of
       UpdateAsyncession \<Rightarrow> UpdateAsyncession_NotifyJS N J result s
     | UpdateAsyncessionNoCallback \<Rightarrow> State_Monad.return s
     | UpdatePromiseSession \<Rightarrow> UpdatePromiseSession_NotifyJS N result s
     | UpdateListener \<Rightarrow> State_Monad.return s
   }"

end
