(* ===== verification/Js_Manager.thy ===== *)
theory Js_Manager
  imports Js_Session
begin

text \<open>
  The session manager (\<open>base/src/session_manager.cpp\<close>), what every updater offers
  (\<open>base/src/iupdater.cpp\<close>: subscribing, unsubscribing, starting a session) and the calls N-API and
  libuv make back (\<open>ExecuteWork\<close>, \<open>CompleteWork\<close>, the posted events).
\<close>

interpretation im: std_map id_less
  by unfold_locales auto

section \<open>The map of sessions\<close>

definition AddSession ::
  "('r, 'd, 'w, 'c, 'k) Session \<Rightarrow> ('r, 'd, 'w, 'h, 'c, 'k) Updater \<Rightarrow> ('r, 'd, 'w, 'h, 'c, 'k) Updater" where
  "AddSession s u = u\<lparr>ju_sessions := om_insert id_less (se_sessionId s) s (ju_sessions u)\<rparr>"

definition RemoveSession :: "uint32_t \<Rightarrow> ('r, 'd, 'w, 'h, 'c, 'k) Updater \<Rightarrow> ('r, 'd, 'w, 'h, 'c, 'k) Updater" where
  "RemoveSession sessionId u = u\<lparr>ju_sessions := om_erase id_less sessionId (ju_sessions u)\<rparr>"

definition find_session :: "uint32_t \<Rightarrow> ('r, 'd, 'w, 'h, 'c, 'k) Updater \<Rightarrow> ('r, 'd, 'w, 'c, 'k) Session option" where
  "find_session sessionId u = om_find id_less sessionId (ju_sessions u)"

text \<open>The session object that is in the map was changed through its pointer.\<close>

definition put_session ::
  "('r, 'd, 'w, 'c, 'k) Session \<Rightarrow> ('r, 'd, 'w, 'h, 'c, 'k) Updater \<Rightarrow> ('r, 'd, 'w, 'h, 'c, 'k) Updater" where
  "put_session s u = u\<lparr>ju_sessions := om_assign id_less (se_sessionId s) s (ju_sessions u)\<rparr>"

definition SessionManager_Clear ::
  "('v, 'r, 'd, 'w, 'h) napi \<Rightarrow> (('r, 'd, 'w, 'h, 'c, 'k) Updater, unit) state" where
  "SessionManager_Clear N = do {
     _ \<leftarrow> modify (\<lambda>u. u\<lparr>ju_sessions := []\<rparr>);
     u \<leftarrow> State_Monad.get;
     if ju_thisReference u \<noteq> np_null_ref N then do {
       _ \<leftarrow> engine (np_delete_reference N (ju_thisReference u));
       State_Monad.return ()
     } else State_Monad.return ()
   }"

text \<open>The first entry of the map, and the entry after that of a key.\<close>

definition GetFirstSessionId :: "(uint32_t \<times> ('r, 'd, 'w, 'c, 'k) Session) list \<Rightarrow> uint32_t option" where
  "GetFirstSessionId sessions = (case sessions of [] \<Rightarrow> None | (k, s) # _ \<Rightarrow> Some (se_sessionId s))"

fun entry_after :: "uint32_t \<Rightarrow> (uint32_t \<times> 's) list \<Rightarrow> (uint32_t \<times> 's) option" where
  "entry_after k [] = None"
| "entry_after k ((j, s) # m) = (if k < j then Some (j, s) else entry_after k m)"

definition GetNextSessionId :: "uint32_t \<Rightarrow> (uint32_t \<times> ('r, 'd, 'w, 'c, 'k) Session) list \<Rightarrow> uint32_t option" where
  "GetNextSessionId sessionId sessions =
     (case om_find id_less sessionId sessions of
        None \<Rightarrow> None
      | Some _ \<Rightarrow> map_option (\<lambda>(k, s). se_sessionId s) (entry_after sessionId sessions))"

text \<open>
  The loops over \<open>GetFirstSessionId\<close> and \<open>GetNextSessionId\<close>. The number is the fuel: the length of
  the map, since every round goes to a later entry.
\<close>

fun process_unsubscribe_loop ::
  "('v, 'r, 'd, 'w, 'h) napi \<Rightarrow> string \<Rightarrow> nat \<Rightarrow> 'v \<Rightarrow> nat \<Rightarrow> uint32_t option \<Rightarrow>
   (uint32_t \<times> ('r, 'd, 'w, 'c, 'k) Session) list \<Rightarrow> ('h, (uint32_t \<times> ('r, 'd, 'w, 'c, 'k) Session) list) state" where
  "process_unsubscribe_loop N eventType argc arg 0 cur sessions = State_Monad.return sessions"
| "process_unsubscribe_loop N eventType argc arg (Suc n) cur sessions =
     (case cur of
        None \<Rightarrow> State_Monad.return sessions
      | Some currSessId \<Rightarrow>
          (case om_find id_less currSessId sessions of
             None \<Rightarrow> State_Monad.return sessions
           | Some listener \<Rightarrow>
               (let nextSessId = GetNextSessionId currSessId sessions
                in if sp_type (se_params listener) \<noteq> SESSION_SUBSCRIBE \<or> eventType \<noteq> se_eventType listener
                   then process_unsubscribe_loop N eventType argc arg n nextSessId sessions
                   else if argc = 1 then do {
                     _ \<leftarrow> RemoveHandlerRef N listener;
                     process_unsubscribe_loop N eventType argc arg n nextSessId (om_erase id_less currSessId sessions)
                   } else do {
                     equal \<leftarrow> CheckEqual N arg eventType listener;
                     if equal then do {
                       _ \<leftarrow> RemoveHandlerRef N listener;
                       State_Monad.return (om_erase id_less currSessId sessions)
                     } else process_unsubscribe_loop N eventType argc arg n nextSessId sessions
                   })))"

definition ProcessUnsubscribe ::
  "('v, 'r, 'd, 'w, 'h) napi \<Rightarrow> string \<Rightarrow> nat \<Rightarrow> 'v \<Rightarrow> (('r, 'd, 'w, 'h, 'c, 'k) Updater, int32_t) state" where
  "ProcessUnsubscribe N eventType argc arg = do {
     status \<leftarrow> engine (np_open_handle_scope N);
     if status \<noteq> napi_ok then State_Monad.return (- 1)
     else do {
       u \<leftarrow> State_Monad.get;
       sessions \<leftarrow> engine (process_unsubscribe_loop N eventType argc arg (length (ju_sessions u))
         (GetFirstSessionId (ju_sessions u)) (ju_sessions u));
       _ \<leftarrow> modify (\<lambda>u. u\<lparr>ju_sessions := sessions\<rparr>);
       _ \<leftarrow> engine (np_close_handle_scope N);
       State_Monad.return 0
     }
   }"

text \<open>The result is the new map: the loop erases as it goes.\<close>

fun unsubscribe_loop ::
  "('v, 'r, 'd, 'w, 'h) napi \<Rightarrow> EventClassifyInfo \<Rightarrow> 'v \<Rightarrow> (uint32_t \<times> ('r, 'd, 'w, 'c, 'k) Session) list \<Rightarrow>
   ('h, (uint32_t \<times> ('r, 'd, 'w, 'c, 'k) Session) list) state" where
  "unsubscribe_loop N eventClassifyInfo handle [] = State_Monad.return []"
| "unsubscribe_loop N eventClassifyInfo handle ((k, s) # m) =
     (if sp_type (se_params s) \<noteq> SESSION_SUBSCRIBE then do {
        m \<leftarrow> unsubscribe_loop N eventClassifyInfo handle m;
        State_Monad.return ((k, s) # m)
      } else if handle = np_nullptr N \<and> IsSubscribeEvent eventClassifyInfo s
      then unsubscribe_loop N eventClassifyInfo handle m
      else do {
        same \<leftarrow> IsSameListener N eventClassifyInfo handle s;
        m \<leftarrow> unsubscribe_loop N eventClassifyInfo handle m;
        State_Monad.return (if same then m else (k, s) # m)
      })"

definition Unsubscribe ::
  "('v, 'r, 'd, 'w, 'h) napi \<Rightarrow> EventClassifyInfo \<Rightarrow> 'v \<Rightarrow> (('r, 'd, 'w, 'h, 'c, 'k) Updater, unit) state" where
  "Unsubscribe N eventClassifyInfo handle = do {
     u \<leftarrow> State_Monad.get;
     sessions \<leftarrow> engine (unsubscribe_loop N eventClassifyInfo handle (ju_sessions u));
     modify (\<lambda>u. u\<lparr>ju_sessions := sessions\<rparr>)
   }"

fun find_by_type_loop ::
  "('v, 'r, 'd, 'w, 'h) napi \<Rightarrow> string \<Rightarrow> 'v \<Rightarrow> nat \<Rightarrow> uint32_t option \<Rightarrow>
   (uint32_t \<times> ('r, 'd, 'w, 'c, 'k) Session) list \<Rightarrow> ('h, ('r, 'd, 'w, 'c, 'k) Session option) state" where
  "find_by_type_loop N eventType arg 0 cur sessions = State_Monad.return None"
| "find_by_type_loop N eventType arg (Suc n) cur sessions =
     (case cur of
        None \<Rightarrow> State_Monad.return None
      | Some currSessId \<Rightarrow>
          (case om_find id_less currSessId sessions of
             None \<Rightarrow> State_Monad.return None
           | Some listener \<Rightarrow>
               (let nextSessId = GetNextSessionId currSessId sessions
                in if sp_type (se_params listener) \<noteq> SESSION_SUBSCRIBE
                   then find_by_type_loop N eventType arg n nextSessId sessions
                   else if eventType = se_eventType listener then do {
                     equal \<leftarrow> CheckEqual N arg eventType listener;
                     if equal then State_Monad.return (Some listener)
                     else find_by_type_loop N eventType arg n nextSessId sessions
                   } else find_by_type_loop N eventType arg n nextSessId sessions)))"

definition FindSessionByHandle_type ::
  "('v, 'r, 'd, 'w, 'h) napi \<Rightarrow> string \<Rightarrow> 'v \<Rightarrow>
   (('r, 'd, 'w, 'h, 'c, 'k) Updater, ('r, 'd, 'w, 'c, 'k) Session option) state" where
  "FindSessionByHandle_type N eventType arg = do {
     u \<leftarrow> State_Monad.get;
     engine (find_by_type_loop N eventType arg (length (ju_sessions u)) (GetFirstSessionId (ju_sessions u)) (ju_sessions u))
   }"

fun find_by_handle_loop ::
  "('v, 'r, 'd, 'w, 'h) napi \<Rightarrow> EventClassifyInfo \<Rightarrow> 'v \<Rightarrow> (uint32_t \<times> ('r, 'd, 'w, 'c, 'k) Session) list \<Rightarrow>
   ('h, ('r, 'd, 'w, 'c, 'k) Session option) state" where
  "find_by_handle_loop N eventClassifyInfo arg [] = State_Monad.return None"
| "find_by_handle_loop N eventClassifyInfo arg ((k, s) # m) =
     (if sp_type (se_params s) \<noteq> SESSION_SUBSCRIBE then find_by_handle_loop N eventClassifyInfo arg m
      else do {
        same \<leftarrow> IsSameListener N eventClassifyInfo arg s;
        if same then State_Monad.return (Some s) else find_by_handle_loop N eventClassifyInfo arg m
      })"

definition FindSessionByHandle ::
  "('v, 'r, 'd, 'w, 'h) napi \<Rightarrow> EventClassifyInfo \<Rightarrow> 'v \<Rightarrow>
   (('r, 'd, 'w, 'h, 'c, 'k) Updater, ('r, 'd, 'w, 'c, 'k) Session option) state" where
  "FindSessionByHandle N eventClassifyInfo arg = do {
     u \<leftarrow> State_Monad.get;
     engine (find_by_handle_loop N eventClassifyInfo arg (ju_sessions u))
   }"

section \<open>Events\<close>

text \<open>
  The loop of \<open>PublishToJS\<close> over the map, with the iterator at \<open>key\<close>. A handler may call the binding
  and change the map: the iterator goes on in the map as it then is, and if the handler erased its
  entry the next step uses an erased node, which is \<open>None\<close>. A handler that adds a subscription in
  every call keeps the loop running; that is \<open>None\<close> as well.
\<close>

partial_function (option) publish_loop ::
  "('v, 'r, 'd, 'w, 'h) napi \<Rightarrow> ('v \<Rightarrow> 'v \<Rightarrow> 'v list \<Rightarrow> (('r, 'd, 'w, 'h, 'c, 'k) Updater, napi_status) state) \<Rightarrow>
   'v \<Rightarrow> EventClassifyInfo \<Rightarrow> EventInfo \<Rightarrow> uint32_t \<Rightarrow>
   ('r, 'd, 'w, 'h, 'c, 'k) Updater \<Rightarrow> ('r, 'd, 'w, 'h, 'c, 'k) Updater option" where
  "publish_loop N J thisVar eventClassifyInfo eventInfo key u =
     (case find_session key u of
        None \<Rightarrow> None
      | Some s \<Rightarrow>
          (let u' = (if sp_type (se_params s) = SESSION_SUBSCRIBE \<and> IsSubscribeEvent eventClassifyInfo s
                     then snd (run_state (UpdateListener_NotifyJS N J thisVar eventInfo s) u) else u)
           in case find_session key u' of
                None \<Rightarrow> None
              | Some _ \<Rightarrow>
                  (case entry_after key (ju_sessions u') of
                     None \<Rightarrow> Some u'
                   | Some (k, _) \<Rightarrow> publish_loop N J thisVar eventClassifyInfo eventInfo k u')))"

definition PublishToJS ::
  "('v, 'r, 'd, 'w, 'h) napi \<Rightarrow> ('v \<Rightarrow> 'v \<Rightarrow> 'v list \<Rightarrow> (('r, 'd, 'w, 'h, 'c, 'k) Updater, napi_status) state) \<Rightarrow>
   EventClassifyInfo \<Rightarrow> EventInfo \<Rightarrow> ('r, 'd, 'w, 'h, 'c, 'k) Updater \<Rightarrow> ('r, 'd, 'w, 'h, 'c, 'k) Updater option" where
  "PublishToJS N J eventClassifyInfo eventInfo u =
     (let (status, u) = run_state (engine (np_open_handle_scope N)) u
      in if status \<noteq> napi_ok then Some u
         else
           (let ((status, thisVar), u) = run_state (engine (np_get_reference_value N (ju_thisReference u) (np_nullptr N))) u
            in if status \<noteq> napi_ok then Some (snd (run_state (engine (np_close_handle_scope N)) u))
               else map_option (\<lambda>u. snd (run_state (engine (np_close_handle_scope N)) u))
                 (case ju_sessions u of
                    [] \<Rightarrow> Some u
                  | (k, _) # _ \<Rightarrow> publish_loop N J thisVar eventClassifyInfo eventInfo k u)))"

fun emit_loop ::
  "BusinessError \<Rightarrow> nat \<Rightarrow> uint32_t option \<Rightarrow> (uint32_t \<times> ('r, 'd, 'w, 'c, 'k) Session) list \<Rightarrow>
   (uint32_t \<times> ('r, 'd, 'w, 'c, 'k) Session) list" where
  "emit_loop businessError 0 cur sessions = sessions"
| "emit_loop businessError (Suc n) cur sessions =
     (case cur of
        None \<Rightarrow> sessions
      | Some currSessId \<Rightarrow>
          (case om_find id_less currSessId sessions of
             None \<Rightarrow> sessions
           | Some updateSession \<Rightarrow>
               emit_loop businessError n (GetNextSessionId currSessId sessions)
                 (if IsAsyncCompleteWork updateSession
                  then om_assign id_less currSessId (OnAsyncComplete businessError updateSession) sessions else sessions)))"

definition Emit :: "BusinessError \<Rightarrow> ('r, 'd, 'w, 'h, 'c, 'k) Updater \<Rightarrow> ('r, 'd, 'w, 'h, 'c, 'k) Updater" where
  "Emit businessError u =
     u\<lparr>ju_sessions := emit_loop businessError (length (ju_sessions u)) (GetFirstSessionId (ju_sessions u)) (ju_sessions u)\<rparr>"

text \<open>\<open>loop\<close>: the event loop was found and the work could be allocated.\<close>

definition Emit_event ::
  "bool \<Rightarrow> EventClassifyInfo \<Rightarrow> EventInfo \<Rightarrow> ('r, 'd, 'w, 'h, 'c, 'k) Updater \<Rightarrow> ('r, 'd, 'w, 'h, 'c, 'k) Updater" where
  "Emit_event loop eventClassifyInfo eventInfo u =
     (if \<not> loop then u else u\<lparr>ju_posted := ju_posted u @ [(eventClassifyInfo, eventInfo)]\<rparr>)"

section \<open>Every updater\<close>

text \<open>
  What \<open>napi_get_cb_info\<close> says of a call: its status, the number of arguments, and the array of
  \<open>MAX_ARGC\<close> values.
\<close>

record 'v CallInfo =
  ci_status :: napi_status
  ci_argc :: nat
  ci_args :: "'v list"

definition start_and_keep ::
  "('v, 'r, 'd, 'w, 'h) napi \<Rightarrow> 'v list \<Rightarrow> ('c, 'k) DoWorkFunction \<Rightarrow> ('r, 'd, 'w, 'c, 'k) Session \<Rightarrow>
   (('r, 'd, 'w, 'h, 'c, 'k) Updater, 'v) state" where
  "start_and_keep N args worker s = do {
     u \<leftarrow> State_Monad.get;
     _ \<leftarrow> modify (AddSession s);
     (retValue, s) \<leftarrow> StartWork N args worker s;
     _ \<leftarrow> modify (if find_session (se_sessionId s) u = None then put_session s else (\<lambda>u. u));
     if retValue = np_nullptr N then do {
       _ \<leftarrow> modify (RemoveSession (se_sessionId s));
       State_Monad.return (np_nullptr N)
     } else State_Monad.return retValue
   }"

definition IUpdater_On :: "('v, 'r, 'd, 'w, 'h) napi \<Rightarrow> 'v CallInfo \<Rightarrow> (('r, 'd, 'w, 'h, 'c, 'k) Updater, 'v) state" where
  "IUpdater_On N info =
     (if \<not> (ci_status info = napi_ok \<and> 2 \<le> ci_argc info) then State_Monad.return (np_nullptr N)
      else do {
        (ret, eventClassifyInfo) \<leftarrow> engine (GetEventClassifyInfoFromArg N (ci_args info ! 0) EventClassifyInfo_default);
        if ret \<noteq> CLIENT_SUCCESS then do {
          _ \<leftarrow> engine (NapiThrowParamError N [(''eventClassifyInfo'', ''EventClassifyInfo'')]);
          State_Monad.return (np_nullptr N)
        } else do {
          found \<leftarrow> FindSessionByHandle N eventClassifyInfo (ci_args info ! 1);
          if found \<noteq> None then State_Monad.return (np_nullptr N)
          else do {
            sess \<leftarrow> UpdateSession_new N UpdateListener (SessionParams_new SESSION_SUBSCRIBE 2 False False) (ci_argc info) 1;
            start_and_keep N (ci_args info) (\<lambda>type context c k. Some (0, context, c, k)) sess
          }
        }
      })"

definition IUpdater_Off :: "('v, 'r, 'd, 'w, 'h) napi \<Rightarrow> 'v CallInfo \<Rightarrow> (('r, 'd, 'w, 'h, 'c, 'k) Updater, 'v) state" where
  "IUpdater_Off N info =
     (if ci_status info \<noteq> napi_ok then State_Monad.return (np_nullptr N)
      else do {
        (ret, eventClassifyInfo) \<leftarrow> engine (GetEventClassifyInfoFromArg N (ci_args info ! 0) EventClassifyInfo_default);
        if ret \<noteq> CLIENT_SUCCESS then do {
          _ \<leftarrow> engine (NapiThrowParamError N [(''eventClassifyInfo'', ''EventClassifyInfo'')]);
          State_Monad.return (np_nullptr N)
        } else do {
          (good, handle) \<leftarrow>
            (if 2 \<le> ci_argc info then do {
               ret \<leftarrow> engine (NapiUtil_IsTypeOf N (ci_args info ! 1) napi_function);
               if ret \<noteq> CLIENT_SUCCESS then do {
                 _ \<leftarrow> engine (NapiThrowParamError N [(''callback'', ''napi_function'')]);
                 State_Monad.return (False, np_nullptr N)
               } else State_Monad.return (True, ci_args info ! 1)
             } else State_Monad.return (True, np_nullptr N));
          if \<not> good then State_Monad.return (np_nullptr N)
          else do {
            _ \<leftarrow> Unsubscribe N eventClassifyInfo handle;
            (_, result) \<leftarrow> engine (np_create_int32 N 0 (np_wild N));
            State_Monad.return result
          }
        }
      })"

definition IUpdater_GetUpdateResult :: "SessionType \<Rightarrow> 'c \<Rightarrow> Js_UpdateResult \<Rightarrow> Js_UpdateResult" where
  "IUpdater_GetUpdateResult type c result = result\<lparr>ur_buildJSObject := Build_UndefinedStatus\<rparr>"

definition StartSession ::
  "('v, 'r, 'd, 'w, 'h) napi \<Rightarrow> 'v CallInfo \<Rightarrow> SessionParams \<Rightarrow> ('c, 'k) DoWorkFunction \<Rightarrow>
   (('r, 'd, 'w, 'h, 'c, 'k) Updater, 'v) state" where
  "StartSession N info sessionParams worker =
     (if ci_status info \<noteq> napi_ok then State_Monad.return (np_nullptr N)
      else do {
        sess \<leftarrow> (if sp_callbackStartIndex sessionParams < ci_argc info
                then UpdateSession_new N UpdateAsyncession sessionParams (ci_argc info) 1
                else UpdateSession_new N UpdatePromiseSession sessionParams (ci_argc info) 0);
        start_and_keep N (ci_args info) worker sess
      })"

definition StartParamErrorSession ::
  "('v, 'r, 'd, 'w, 'h) napi \<Rightarrow> 'v CallInfo \<Rightarrow> nat \<Rightarrow> (('r, 'd, 'w, 'h, 'c, 'k) Updater, 'v) state" where
  "StartParamErrorSession N info callbackPosition =
     StartSession N info (SessionParams_new SESSION_REPLY_PARAM_ERROR callbackPosition True False)
       (\<lambda>type context c k. Some (INT_PARAM_ERR, context, c, k))"

definition NotifyEventInfo :: "bool \<Rightarrow> EventInfo \<Rightarrow> ('r, 'd, 'w, 'h, 'c, 'k) Updater \<Rightarrow> ('r, 'd, 'w, 'h, 'c, 'k) Updater" where
  "NotifyEventInfo loop eventInfo u = Emit_event loop \<lparr>ec_eventClassify = EventClassify.TASK, ec_extraInfo = []\<rparr> eventInfo u"

section \<open>Calls back from N-API and libuv\<close>

text \<open>
  The worker thread takes a queued work and runs it; the wait for the answer of the search is the
  second step. A work whose session is gone is a use of freed memory, \<open>None\<close>.
\<close>

definition run_work :: "uint32_t \<Rightarrow> ('r, 'd, 'w, 'h, 'c, 'k) Updater \<Rightarrow> ('r, 'd, 'w, 'h, 'c, 'k) Updater option" where
  "run_work sid u =
     (case find_session sid u of
        None \<Rightarrow> None
      | Some s \<Rightarrow>
          (case ExecuteWork s (ju_members u) (ju_kits u) of
             None \<Rightarrow> None
           | Some (s, c, k) \<Rightarrow>
               Some ((put_session s u)\<lparr>ju_members := c, ju_kits := k, ju_queued := remove1 sid (ju_queued u),
                 ju_running := ju_running u @ [sid]\<rparr>)))"

definition finish_work :: "uint32_t \<Rightarrow> ('r, 'd, 'w, 'h, 'c, 'k) Updater \<Rightarrow> ('r, 'd, 'w, 'h, 'c, 'k) Updater option" where
  "finish_work sid u =
     (case find_session sid u of
        None \<Rightarrow> None
      | Some s \<Rightarrow>
          Some ((put_session (ExecuteWork_waited s) u)\<lparr>ju_running := remove1 sid (ju_running u),
            ju_executed := ju_executed u @ [sid]\<rparr>))"

text \<open>The static \<open>CompleteWork\<close> on the JavaScript thread.\<close>

definition CompleteWork ::
  "('v, 'r, 'd, 'w, 'h) napi \<Rightarrow> ('v \<Rightarrow> 'v \<Rightarrow> 'v list \<Rightarrow> (('r, 'd, 'w, 'h, 'c, 'k) Updater, napi_status) state) \<Rightarrow>
   (SessionType \<Rightarrow> 'c \<Rightarrow> Js_UpdateResult \<Rightarrow> Js_UpdateResult) \<Rightarrow> uint32_t \<Rightarrow>
   ('r, 'd, 'w, 'h, 'c, 'k) Updater \<Rightarrow> ('r, 'd, 'w, 'h, 'c, 'k) Updater option" where
  "CompleteWork N J get sid u =
     (let u = u\<lparr>ju_executed := remove1 sid (ju_executed u)\<rparr>
      in case find_session sid u of
           None \<Rightarrow> None
         | Some s \<Rightarrow> (let (s, u) = run_state (Session_CompleteWork N J get s) u in Some (RemoveSession sid u)))"

text \<open>A posted event is published.\<close>

definition run_posted ::
  "('v, 'r, 'd, 'w, 'h) napi \<Rightarrow> ('v \<Rightarrow> 'v \<Rightarrow> 'v list \<Rightarrow> (('r, 'd, 'w, 'h, 'c, 'k) Updater, napi_status) state) \<Rightarrow>
   ('r, 'd, 'w, 'h, 'c, 'k) Updater \<Rightarrow> ('r, 'd, 'w, 'h, 'c, 'k) Updater option" where
  "run_posted N J u =
     (case ju_posted u of
        [] \<Rightarrow> Some u
      | (info, ev) # ps \<Rightarrow> PublishToJS N J info ev (u\<lparr>ju_posted := ps\<rparr>))"

end
