(* ===== verification/Callback_Ipc.thy ===== *)
theory Callback_Ipc
  imports Service_Kits
begin

text \<open>
  How a notice of the service reaches a client: \<open>update_callback_proxy.cpp\<close> in the service,
  \<open>update_callback_stub.cpp\<close> in the client, and the callback object of the client library
  (\<open>RemoteUpdateCallback\<close> in \<open>update_service_kits_impl.cpp\<close>).
\<close>

section \<open>The stub\<close>

definition IUpdateCallback_descriptor :: string where
  "IUpdateCallback_descriptor = ''OHOS.Update.IUpdateCallback''"

definition CALLBACK_CHECK_VERSION :: uint32_t where
  "CALLBACK_CHECK_VERSION = 1"

definition CALLBACK_ON_EVENT :: uint32_t where
  "CALLBACK_ON_EVENT = 2"

definition EventInfo_default :: EventInfo where
  "EventInfo_default = \<lparr>ei_eventId = EventId.EVENT_TASK_BASE, ei_taskBody = TaskBody_default\<rparr>"

text \<open>The two virtual functions a client implements, on the state of the client.\<close>

record 'c IUpdateCallback =
  cb_OnCheckVersionDone :: "BusinessError \<Rightarrow> CheckResult \<Rightarrow> 'c \<Rightarrow> 'c"
  cb_OnEvent :: "EventInfo \<Rightarrow> 'c \<Rightarrow> 'c"

definition Callback_OnRemoteRequest ::
  "'p Ipc \<Rightarrow> 'c IUpdateCallback \<Rightarrow> uint32_t \<Rightarrow> 'p \<Rightarrow> 'p \<Rightarrow> 'c \<Rightarrow> int32_t \<times> 'p \<times> 'c" where
  "Callback_OnRemoteRequest I cb code data reply c =
     (let (token, data) = ip_ReadInterfaceToken I data
      in if token \<noteq> IUpdateCallback_descriptor then (- 1, reply, c)
         else if code = CALLBACK_CHECK_VERSION
         then (let (_, businessError, data) = ReadBusinessError (ip_parcel I) data BusinessError_default;
                   (_, checkResult, data) = ReadCheckResult (ip_parcel I) data CheckResult_default
               in (0, reply, cb_OnCheckVersionDone cb businessError checkResult c))
         else if code = CALLBACK_ON_EVENT
         then (let (_, eventInfo, data) = ReadEventInfo (ip_parcel I) data EventInfo_default
               in (0, reply, cb_OnEvent cb eventInfo c))
         else (let (ret, reply) = ip_base_OnRemoteRequest I code data reply in (ret, reply, c)))"

section \<open>The proxy\<close>

type_synonym ('p, 'c) CallbackRemote = "(uint32_t \<Rightarrow> 'p \<Rightarrow> 'p \<Rightarrow> 'c \<Rightarrow> int32_t \<times> 'p \<times> 'c) option"

text \<open>
  Both functions return nothing: a token that cannot be written, a null remote object and an
  error of the transport are only logged.
\<close>

definition callback_send ::
  "'p Ipc \<Rightarrow> ('p, 'c) CallbackRemote \<Rightarrow> uint32_t \<Rightarrow> ('p \<Rightarrow> 'p) \<Rightarrow> 'c \<Rightarrow> 'c" where
  "callback_send I remote code write c =
     (let (written, data) = ip_WriteInterfaceToken I IUpdateCallback_descriptor (ip_empty I)
      in if \<not> written then c
         else (case remote of None \<Rightarrow> c
               | Some SendRequest \<Rightarrow> snd (snd (SendRequest code (write data) (ip_empty I) c))))"

definition CallbackProxy_OnCheckVersionDone ::
  "'p Ipc \<Rightarrow> ('p, 'c) CallbackRemote \<Rightarrow> BusinessError \<Rightarrow> CheckResult \<Rightarrow> 'c \<Rightarrow> 'c" where
  "CallbackProxy_OnCheckVersionDone I remote businessError checkResult =
     callback_send I remote CALLBACK_CHECK_VERSION
       (\<lambda>data. WriteCheckResult (ip_parcel I) checkResult (WriteBusinessError (ip_parcel I) businessError data))"

definition CallbackProxy_OnEvent :: "'p Ipc \<Rightarrow> ('p, 'c) CallbackRemote \<Rightarrow> EventInfo \<Rightarrow> 'c \<Rightarrow> 'c" where
  "CallbackProxy_OnEvent I remote eventInfo =
     callback_send I remote CALLBACK_ON_EVENT (\<lambda>data. WriteEventInfo (ip_parcel I) eventInfo data)"

section \<open>The callback object of the client library\<close>

record 'c UpdateCallbackInfo =
  ci_checkNewVersionDone :: "(BusinessError \<Rightarrow> CheckResult \<Rightarrow> 'c \<Rightarrow> 'c) option"
  ci_onEvent :: "(EventInfo \<Rightarrow> 'c \<Rightarrow> 'c) option"

definition RemoteUpdateCallback_OnCheckVersionDone ::
  "'c UpdateCallbackInfo \<Rightarrow> BusinessError \<Rightarrow> CheckResult \<Rightarrow> 'c \<Rightarrow> 'c" where
  "RemoteUpdateCallback_OnCheckVersionDone cb businessError checkResult c =
     (case ci_checkNewVersionDone cb of None \<Rightarrow> c | Some f \<Rightarrow> f businessError checkResult c)"

definition RemoteUpdateCallback_OnEvent :: "'c UpdateCallbackInfo \<Rightarrow> EventInfo \<Rightarrow> 'c \<Rightarrow> 'c" where
  "RemoteUpdateCallback_OnEvent cb eventInfo c = (case ci_onEvent cb of None \<Rightarrow> c | Some f \<Rightarrow> f eventInfo c)"

definition RemoteUpdateCallback :: "'c UpdateCallbackInfo \<Rightarrow> 'c IUpdateCallback" where
  "RemoteUpdateCallback cb =
     \<lparr>cb_OnCheckVersionDone = RemoteUpdateCallback_OnCheckVersionDone cb, cb_OnEvent = RemoteUpdateCallback_OnEvent cb\<rparr>"

section \<open>Properties\<close>

context ipc_channel
begin

lemma wire_CheckResult:
  "wire (WriteCheckResult (ip_parcel I)) (\<lambda>p. ReadCheckResult (ip_parcel I) p CheckResult_default)
     (\<lambda>x. NewVersionInfo_ok utf8 (cr_newVersionInfo x))"
  apply (rule wireI)
   apply (simp add: WriteCheckResult_def write_laws items_WriteNewVersionInfoEx empty_items)
  apply (simp add: WriteCheckResult_def write_laws items_WriteNewVersionInfoEx empty_items)
  unfolding ReadCheckResult_def
  apply (erule read_laws)
  apply (rule post_let_pair [where R = "\<lambda>y p'. y = _ \<and> items p' = _"])
   apply (unfold ReadNewVersionInfoEx_def vector_read_defs)
   apply (erule read_laws)
   apply (erule vc.post_read_vector)
    apply (auto simp: NewVersionInfo_ok_def vc.ok_vector_def) [1]
   apply (simp add: post_def NewVersionInfo_ok_def utf8_roundtrip CheckResult_default_def NewVersionInfo_default_def)
  by (simp add: post_def)

lemma wire_EventInfo:
  "wire (WriteEventInfo (ip_parcel I)) (\<lambda>p. ReadEventInfo (ip_parcel I) p EventInfo_default)
     (\<lambda>x. ev.wf (ei_eventId x) \<and> TaskBody_ok utf8 (ei_taskBody x))"
  apply (rule wireI)
   apply (simp add: WriteEventInfo_def write_laws items_WriteTaskBody empty_items)
  apply (simp add: WriteEventInfo_def write_laws items_WriteTaskBody empty_items)
  unfolding ReadEventInfo_def
  apply (erule read_laws)
  apply (rule post_let_pair [where R = "\<lambda>y p'. y = _ \<and> items p' = _"])
   apply (unfold ReadTaskBody_def vector_read_defs)
   apply (erule read_laws)+
   apply (erule em.post_read_vector)
    apply (auto simp: TaskBody_ok_def em.ok_vector_def) [1]
   apply (erule vc.post_read_vector)
    apply (auto simp: TaskBody_ok_def vc.ok_vector_def) [1]
   apply (simp add: post_def TaskBody_ok_def utf8_roundtrip us.wf_def EventInfo_default_def TaskBody_default_def)
  by (simp add: post_def ev.wf_def)

lemma event_received:
  assumes "ev.wf (ei_eventId event) \<and> TaskBody_ok utf8 (ei_taskBody event)"
  shows "CallbackProxy_OnEvent I (Some (Callback_OnRemoteRequest I cb)) event c = cb_OnEvent cb event c"
proof -
  obtain data p where t: "ip_WriteInterfaceToken I IUpdateCallback_descriptor (ip_empty I) = (True, data)"
    "ip_ReadInterfaceToken I (WriteEventInfo (ip_parcel I) event data) = (IUpdateCallback_descriptor, p)"
    "items p = items (WriteEventInfo (ip_parcel I) event (ip_empty I))"
    by (rule token_passes [OF write_one [OF wire_EventInfo]])
  moreover obtain st q where "ReadEventInfo (ip_parcel I) p EventInfo_default = (st, event, q)"
    using wire_EventInfo assms t(3) unfolding wire_def by (metis append_Nil2)
  ultimately show ?thesis
    by (simp add: CallbackProxy_OnEvent_def callback_send_def Callback_OnRemoteRequest_def CALLBACK_CHECK_VERSION_def
        CALLBACK_ON_EVENT_def)
qed

lemma check_received:
  assumes "BusinessError_ok utf8 be" and "NewVersionInfo_ok utf8 (cr_newVersionInfo result)"
  shows "CallbackProxy_OnCheckVersionDone I (Some (Callback_OnRemoteRequest I cb)) be result c = cb_OnCheckVersionDone cb be result c"
proof -
  obtain data p where t: "ip_WriteInterfaceToken I IUpdateCallback_descriptor (ip_empty I) = (True, data)"
    "ip_ReadInterfaceToken I (WriteCheckResult (ip_parcel I) result (WriteBusinessError (ip_parcel I) be data)) =
       (IUpdateCallback_descriptor, p)"
    "items p = items (WriteBusinessError (ip_parcel I) be (ip_empty I)) @ items (WriteCheckResult (ip_parcel I) result (ip_empty I))"
    by (rule token_passes [OF write_two [OF wire_BusinessError wire_CheckResult]])
  moreover obtain st q where 1: "ReadBusinessError (ip_parcel I) p BusinessError_default = (st, be, q)"
      "items q = items (WriteCheckResult (ip_parcel I) result (ip_empty I))"
    using wire_BusinessError assms(1) t(3) unfolding wire_def by blast
  moreover obtain st' q' where "ReadCheckResult (ip_parcel I) q CheckResult_default = (st', result, q')"
    using wire_CheckResult assms(2) 1(2) unfolding wire_def by (metis append_Nil2)
  ultimately show ?thesis
    by (simp add: CallbackProxy_OnCheckVersionDone_def callback_send_def Callback_OnRemoteRequest_def CALLBACK_CHECK_VERSION_def)
qed

end

text \<open>
  C16. What the service reports, the client's own functions are called with: for every event and
  every check result the parcel can hold, the proxy in the service makes the stub in the client
  call the function the application gave to the client library, with the same event, or the same
  error and result. An application that gave no function is not called.
\<close>

theorem notices_reach_the_application:
  assumes "ipc_channel I items utf8"
  shows "(ev.wf (ei_eventId event) \<and> TaskBody_ok utf8 (ei_taskBody event) \<longrightarrow>
      CallbackProxy_OnEvent I (Some (Callback_OnRemoteRequest I (RemoteUpdateCallback cb))) event c =
        (case ci_onEvent cb of None \<Rightarrow> c | Some f \<Rightarrow> f event c)) \<and>
    (BusinessError_ok utf8 be \<and> NewVersionInfo_ok utf8 (cr_newVersionInfo result) \<longrightarrow>
      CallbackProxy_OnCheckVersionDone I (Some (Callback_OnRemoteRequest I (RemoteUpdateCallback cb))) be result c =
        (case ci_checkNewVersionDone cb of None \<Rightarrow> c | Some f \<Rightarrow> f be result c))"
  using ipc_channel.event_received [OF assms, of event "RemoteUpdateCallback cb" c]
    ipc_channel.check_received [OF assms, of be result "RemoteUpdateCallback cb" c]
  by (simp add: RemoteUpdateCallback_def RemoteUpdateCallback_OnEvent_def RemoteUpdateCallback_OnCheckVersionDone_def)

text \<open>An application that keeps the events it was told.\<close>

theorem notices_reach_the_application_witness:
  "CallbackProxy_OnEvent list_ipc (Some (Callback_OnRemoteRequest list_ipc (RemoteUpdateCallback
      \<lparr>ci_checkNewVersionDone = None, ci_onEvent = Some (\<lambda>e es. es @ [e])\<rparr>)))
     (EventInfo_default\<lparr>ei_eventId := EventId.EVENT_DOWNLOAD_SUCCESS\<rparr>) [] = [EventInfo_default\<lparr>ei_eventId := EventId.EVENT_DOWNLOAD_SUCCESS\<rparr>]"
proof -
  have "ev.wf EventId.EVENT_DOWNLOAD_SUCCESS" "TaskBody_ok (\<lambda>_. True) TaskBody_default"
    by (simp_all add: ev.wf_named TaskBody_ok_def TaskBody_default_def us.wf_named enum_simps)
  then show ?thesis
    using notices_reach_the_application [OF li.ipc_channel_axioms,
        of "EventInfo_default\<lparr>ei_eventId := EventId.EVENT_DOWNLOAD_SUCCESS\<rparr>"
        "\<lparr>ci_checkNewVersionDone = None, ci_onEvent = Some (\<lambda>e es. es @ [e])\<rparr>" "[]"]
    by (simp add: EventInfo_default_def)
qed

end
