(* ===== verification/Js_Client.thy ===== *)
theory Js_Client
  imports Js_Manager Callback_Ipc
begin

text \<open>
  The three kinds of updater (\<open>client/update_client.cpp\<close>, \<open>local_updater.cpp\<close>, \<open>restorer.cpp\<close>). An
  operation reads its arguments into members of the updater and starts a session. The work of the
  session captures \<open>this\<close>: it reads the members when it runs, and writes its results to members,
  from where \<open>GetUpdateResult\<close> takes them for the application.
\<close>

section \<open>The online updater\<close>

text \<open>The members that are read somewhere; \<open>upgradeFile_\<close>, \<open>certsFile_\<close> and the two progresses are not.\<close>

record UpdateClient =
  uc_isInit :: bool
  uc_upgradeInfo :: UpgradeInfo
  uc_upgradePolicy :: UpgradePolicy
  uc_checkResult :: CheckResult
  uc_newVersionInfo :: NewVersionInfo
  uc_newVersionDescriptionInfo :: VersionDescriptionInfo
  uc_currentVersionInfo :: CurrentVersionInfo
  uc_currentVersionDescriptionInfo :: VersionDescriptionInfo
  uc_taskInfo :: TaskInfo
  uc_versionDigestInfo :: VersionDigestInfo
  uc_descriptionOptions :: DescriptionOptions
  uc_upgradeOptions :: UpgradeOptions
  uc_clearOptions :: ClearOptions
  uc_downloadOptions :: DownloadOptions
  uc_resumeDownloadOptions :: ResumeDownloadOptions
  uc_pauseDownloadOptions :: PauseDownloadOptions

definition UpdateClient_default :: UpdateClient where
  "UpdateClient_default =
     \<lparr>uc_isInit = False, uc_upgradeInfo = UpgradeInfo_default, uc_upgradePolicy = UpgradePolicy_default,
      uc_checkResult = CheckResult_default, uc_newVersionInfo = NewVersionInfo_default,
      uc_newVersionDescriptionInfo = VersionDescriptionInfo_default,
      uc_currentVersionInfo = CurrentVersionInfo_default,
      uc_currentVersionDescriptionInfo = VersionDescriptionInfo_default, uc_taskInfo = TaskInfo_default,
      uc_versionDigestInfo = VersionDigestInfo_default, uc_descriptionOptions = DescriptionOptions_default,
      uc_upgradeOptions = UpgradeOptions_default, uc_clearOptions = ClearOptions_default,
      uc_downloadOptions = DownloadOptions_default, uc_resumeDownloadOptions = ResumeDownloadOptions_default,
      uc_pauseDownloadOptions = PauseDownloadOptions_default\<rparr>"

type_synonym ('r, 'd, 'w, 'h, 's) Online = "('r, 'd, 'w, 'h, UpdateClient, Kits \<times> 's) Updater"

text \<open>The constructors of the three classes: the reference to the object and an empty map.\<close>

definition updater_new ::
  "('v, 'r, 'd, 'w, 'h) napi \<Rightarrow> 'v \<Rightarrow> 'c \<Rightarrow> 'h \<Rightarrow> 'k \<Rightarrow> uint32_t \<Rightarrow> ('r, 'd, 'w, 'h, 'c, 'k) Updater" where
  "updater_new N thisVar members h k sessionId =
     (let ((_, thisReference), h) = run_state (np_create_reference N thisVar 1 (np_null_ref N)) h
      in \<lparr>ju_heap = h, ju_kits = k, ju_sessionId = sessionId, ju_members = members, ju_sessions = [],
          ju_thisReference = thisReference, ju_queued = [], ju_running = [], ju_executed = [], ju_posted = []\<rparr>)"

definition UpdateClient_new ::
  "('v, 'r, 'd, 'w, 'h) napi \<Rightarrow> 'v \<Rightarrow> 'h \<Rightarrow> Kits \<times> 's \<Rightarrow> uint32_t \<Rightarrow> ('r, 'd, 'w, 'h, 's) Online" where
  "UpdateClient_new N thisVar = updater_new N thisVar UpdateClient_default"

definition UpdateClient_delete :: "('v, 'r, 'd, 'w, 'h) napi \<Rightarrow> (('r, 'd, 'w, 'h, 's) Online, unit) state" where
  "UpdateClient_delete N = SessionManager_Clear N"

text \<open>
  \<open>GetOnlineUpdater\<close> starts a thread for \<open>InitCallback\<close>; the flag of the result says that the thread
  was started.
\<close>

definition UpdateClient_GetOnlineUpdater ::
  "('v, 'r, 'd, 'w, 'h) napi \<Rightarrow> int32_t \<Rightarrow> 'v CallInfo \<Rightarrow> (('r, 'd, 'w, 'h, 's) Online, 'v \<times> bool) state" where
  "UpdateClient_GetOnlineUpdater N wild info = do {
     (_, result) \<leftarrow> engine (np_create_int32 N 0 (np_wild N));
     u \<leftarrow> State_Monad.get;
     let paramInfos = [(''upgradeInfo'', ''UpgradeInfo'')];
     if ci_status info \<noteq> napi_ok then State_Monad.return (np_nullptr N, False)
     else if \<not> 1 \<le> ci_argc info then do {
       _ \<leftarrow> engine (NapiThrowParamError N paramInfos);
       State_Monad.return (np_nullptr N, False)
     } else if uc_isInit (ju_members u) then State_Monad.return (result, False)
     else do {
       (ret, upgradeInfo) \<leftarrow> engine (GetUpgradeInfoFromArg N wild (ci_args info ! 0) (uc_upgradeInfo (ju_members u)));
       _ \<leftarrow> modify (\<lambda>u. u\<lparr>ju_members := (ju_members u)\<lparr>uc_upgradeInfo := upgradeInfo\<rparr>\<rparr>);
       if ret \<noteq> CLIENT_SUCCESS then do {
         _ \<leftarrow> engine (NapiThrowParamError N paramInfos);
         State_Monad.return (np_nullptr N, False)
       } else do {
         _ \<leftarrow> modify (\<lambda>u. u\<lparr>ju_members := (ju_members u)\<lparr>uc_isInit := True\<rparr>\<rparr>);
         State_Monad.return (result, True)
       }
     }
   }"

text \<open>What the service calls back, on a thread of the IPC.\<close>

definition UpdateClient_NotifyCheckVersionDone ::
  "BusinessError \<Rightarrow> CheckResult \<Rightarrow> ('r, 'd, 'w, 'h, 's) Online \<Rightarrow> ('r, 'd, 'w, 'h, 's) Online" where
  "UpdateClient_NotifyCheckVersionDone businessError checkResult u =
     Emit businessError (u\<lparr>ju_members := (ju_members u)\<lparr>uc_checkResult := checkResult\<rparr>\<rparr>)"

definition UpdateClient_callback :: "bool \<Rightarrow> ('r, 'd, 'w, 'h, 's) Online UpdateCallbackInfo" where
  "UpdateClient_callback loop =
     \<lparr>ci_checkNewVersionDone = Some UpdateClient_NotifyCheckVersionDone, ci_onEvent = Some (NotifyEventInfo loop)\<rparr>"

text \<open>\<open>cb\<close> names the callback object that holds \<open>UpdateClient_callback\<close>.\<close>

definition UpdateClient_InitCallback ::
  "Samgr \<Rightarrow> 's IUpdateService \<Rightarrow> Callback \<Rightarrow> ('r, 'd, 'w, 'h, 's) Online \<Rightarrow> ('r, 'd, 'w, 'h, 's) Online option" where
  "UpdateClient_InitCallback A service cb u =
     map_option (\<lambda>(ret, _, ks). u\<lparr>ju_kits := ks\<rparr>)
       (Kits_RegisterUpdateCallback A service (uc_upgradeInfo (ju_members u)) cb (ju_kits u))"

section \<open>The works\<close>

text \<open>
  The lambdas: \<open>call\<close> is the call of the client library; \<open>put\<close> stores what the call handed back in
  the member that was its argument. A null context would be dereferenced.
\<close>

definition plain_worker ::
  "('c \<Rightarrow> BusinessError \<Rightarrow> Kits \<times> 's \<Rightarrow> (int32_t \<times> BusinessError \<times> Kits \<times> 's) option) \<Rightarrow> ('c, Kits \<times> 's) DoWorkFunction" where
  "plain_worker call type context c ks =
     (case context of
        None \<Rightarrow> None
      | Some businessError \<Rightarrow> map_option (\<lambda>(ret, be, ks). (ret, Some be, c, ks)) (call c businessError ks))"

definition result_worker ::
  "('c \<Rightarrow> BusinessError \<Rightarrow> Kits \<times> 's \<Rightarrow> (int32_t \<times> ('x \<times> BusinessError) \<times> Kits \<times> 's) option) \<Rightarrow> ('x \<Rightarrow> 'c \<Rightarrow> 'c) \<Rightarrow>
   ('c, Kits \<times> 's) DoWorkFunction" where
  "result_worker call put type context c ks =
     (case context of
        None \<Rightarrow> None
      | Some businessError \<Rightarrow> map_option (\<lambda>(ret, (x, be), ks). (ret, Some be, put x c, ks)) (call c businessError ks))"

definition check_worker :: "Samgr \<Rightarrow> 's IUpdateService \<Rightarrow> (UpdateClient, Kits \<times> 's) DoWorkFunction" where
  "check_worker A service type context c ks =
     map_option (\<lambda>(ret, _, ks). (ret, context, c, ks)) (Kits_CheckNewVersion A service (uc_upgradeInfo c) ks)"

section \<open>Operations without arguments\<close>

definition UpdateClient_CheckNewVersion ::
  "('v, 'r, 'd, 'w, 'h) napi \<Rightarrow> Samgr \<Rightarrow> 's IUpdateService \<Rightarrow> 'v CallInfo \<Rightarrow> (('r, 'd, 'w, 'h, 's) Online, 'v) state" where
  "UpdateClient_CheckNewVersion N A service info =
     StartSession N info (SessionParams_new SESSION_CHECK_VERSION 1 False True) (check_worker A service)"

definition UpdateClient_CancelUpgrade ::
  "('v, 'r, 'd, 'w, 'h) napi \<Rightarrow> Samgr \<Rightarrow> 's IUpdateService \<Rightarrow> 'v CallInfo \<Rightarrow> (('r, 'd, 'w, 'h, 's) Online, 'v) state" where
  "UpdateClient_CancelUpgrade N A service info =
     (if \<not> (ci_status info = napi_ok \<and> ci_argc info = 0) then State_Monad.return (np_nullptr N)
      else do {
        sess \<leftarrow> UpdateSession_new N UpdateAsyncessionNoCallback (SessionParams_new SESSION_CANCEL_UPGRADE 1 True False)
          (ci_argc info) 0;
        start_and_keep N (ci_args info)
          (plain_worker (\<lambda>c. Kits_Cancel A service (uc_upgradeInfo c) (ucast (UpdaterSaInterfaceCode_code UpdaterSaInterfaceCode.DOWNLOAD)))) sess
      })"

definition UpdateClient_TerminateUpgrade ::
  "('v, 'r, 'd, 'w, 'h) napi \<Rightarrow> Samgr \<Rightarrow> 's IUpdateService \<Rightarrow> 'v CallInfo \<Rightarrow> (('r, 'd, 'w, 'h, 's) Online, 'v) state" where
  "UpdateClient_TerminateUpgrade N A service info =
     (if ci_status info \<noteq> napi_ok then State_Monad.return (np_nullptr N)
      else StartSession N info (SessionParams_new SESSION_TERMINATE_UPGRADE 1 True False)
        (plain_worker (\<lambda>c. Kits_TerminateUpgrade A service (uc_upgradeInfo c))))"

definition UpdateClient_GetUpgradePolicy ::
  "('v, 'r, 'd, 'w, 'h) napi \<Rightarrow> Samgr \<Rightarrow> 's IUpdateService \<Rightarrow> 'v CallInfo \<Rightarrow> (('r, 'd, 'w, 'h, 's) Online, 'v) state" where
  "UpdateClient_GetUpgradePolicy N A service info =
     StartSession N info (SessionParams_new SESSION_GET_POLICY 1 True False)
       (result_worker (\<lambda>c. Kits_GetUpgradePolicy A service (uc_upgradeInfo c) (uc_upgradePolicy c)) (\<lambda>x c. c\<lparr>uc_upgradePolicy := x\<rparr>))"

definition UpdateClient_GetNewVersionInfo ::
  "('v, 'r, 'd, 'w, 'h) napi \<Rightarrow> Samgr \<Rightarrow> 's IUpdateService \<Rightarrow> 'v CallInfo \<Rightarrow> (('r, 'd, 'w, 'h, 's) Online, 'v) state" where
  "UpdateClient_GetNewVersionInfo N A service info =
     StartSession N info (SessionParams_new SESSION_GET_NEW_VERSION 1 True False)
       (result_worker (\<lambda>c. Kits_GetNewVersionInfo A service (uc_upgradeInfo c) (uc_newVersionInfo c)) (\<lambda>x c. c\<lparr>uc_newVersionInfo := x\<rparr>))"

definition UpdateClient_GetCurrentVersionInfo ::
  "('v, 'r, 'd, 'w, 'h) napi \<Rightarrow> Samgr \<Rightarrow> 's IUpdateService \<Rightarrow> 'v CallInfo \<Rightarrow> (('r, 'd, 'w, 'h, 's) Online, 'v) state" where
  "UpdateClient_GetCurrentVersionInfo N A service info =
     StartSession N info (SessionParams_new SESSION_GET_CUR_VERSION 1 True False)
       (result_worker (\<lambda>c. Kits_GetCurrentVersionInfo A service (uc_upgradeInfo c) (uc_currentVersionInfo c))
         (\<lambda>x c. c\<lparr>uc_currentVersionInfo := x\<rparr>))"

definition UpdateClient_GetTaskInfo ::
  "('v, 'r, 'd, 'w, 'h) napi \<Rightarrow> Samgr \<Rightarrow> 's IUpdateService \<Rightarrow> 'v CallInfo \<Rightarrow> (('r, 'd, 'w, 'h, 's) Online, 'v) state" where
  "UpdateClient_GetTaskInfo N A service info =
     StartSession N info (SessionParams_new SESSION_GET_TASK_INFO 1 True False)
       (result_worker (\<lambda>c. Kits_GetTaskInfo A service (uc_upgradeInfo c) (uc_taskInfo c)) (\<lambda>x c. c\<lparr>uc_taskInfo := x\<rparr>))"

section \<open>Operations with arguments\<close>

definition ParseUpgOptions_digest ::
  "('v, 'r, 'd, 'w, 'h) napi \<Rightarrow> ('v \<Rightarrow> 'o \<Rightarrow> ('h, ClientStatus \<times> 'o) state) \<Rightarrow> 'v CallInfo \<Rightarrow> VersionDigestInfo \<Rightarrow> 'o \<Rightarrow>
   ('h, ClientStatus \<times> VersionDigestInfo \<times> 'o) state" where
  "ParseUpgOptions_digest N GetOptionsFromArg info versionDigestInfo options =
     (if ci_status info \<noteq> napi_ok then State_Monad.return (CLIENT_INVALID_PARAM, versionDigestInfo, options)
      else do {
        (ret, versionDigestInfo) \<leftarrow> GetVersionDigestInfoFromArg N (ci_args info ! 0) versionDigestInfo;
        if ret \<noteq> CLIENT_SUCCESS then State_Monad.return (CLIENT_INVALID_PARAM, versionDigestInfo, options)
        else do {
          (ret, options) \<leftarrow> GetOptionsFromArg (ci_args info ! 1) options;
          State_Monad.return
            (if ret \<noteq> CLIENT_SUCCESS then CLIENT_INVALID_PARAM else CLIENT_SUCCESS, versionDigestInfo, options)
        }
      })"

definition ParseUpgOptions ::
  "('v, 'r, 'd, 'w, 'h) napi \<Rightarrow> ('v \<Rightarrow> 'o \<Rightarrow> ('h, ClientStatus \<times> 'o) state) \<Rightarrow> 'v CallInfo \<Rightarrow> 'o \<Rightarrow>
   ('h, ClientStatus \<times> 'o) state" where
  "ParseUpgOptions N GetOptionsFromArg info options =
     (if ci_status info \<noteq> napi_ok then State_Monad.return (CLIENT_INVALID_PARAM, options)
      else do {
        (ret, options) \<leftarrow> GetOptionsFromArg (ci_args info ! 0) options;
        State_Monad.return (if ret \<noteq> CLIENT_SUCCESS then CLIENT_INVALID_PARAM else CLIENT_SUCCESS, options)
      })"

text \<open>The frame of the operations that take a digest and options, which are the member \<open>sel\<close>.\<close>

definition digest_call ::
  "('v, 'r, 'd, 'w, 'h) napi \<Rightarrow> ('v \<Rightarrow> 'o \<Rightarrow> ('h, ClientStatus \<times> 'o) state) \<Rightarrow> (UpdateClient \<Rightarrow> 'o) \<Rightarrow>
   ('o \<Rightarrow> UpdateClient \<Rightarrow> UpdateClient) \<Rightarrow> string \<times> string \<Rightarrow> SessionType \<Rightarrow> (UpdateClient, Kits \<times> 's) DoWorkFunction \<Rightarrow>
   'v CallInfo \<Rightarrow> (('r, 'd, 'w, 'h, 's) Online, 'v) state" where
  "digest_call N GetOptionsFromArg sel put param type worker info =
     (if ci_status info \<noteq> napi_ok then State_Monad.return (np_nullptr N)
      else do {
        u \<leftarrow> State_Monad.get;
        (ret, digest, options) \<leftarrow> engine (ParseUpgOptions_digest N GetOptionsFromArg info
          (uc_versionDigestInfo (ju_members u)) (sel (ju_members u)));
        _ \<leftarrow> modify (\<lambda>u. u\<lparr>ju_members := put options ((ju_members u)\<lparr>uc_versionDigestInfo := digest\<rparr>)\<rparr>);
        if ret \<noteq> CLIENT_SUCCESS then do {
          _ \<leftarrow> engine (NapiThrowParamError N [(''versionDigestInfo'', ''VersionDigestInfo''), param]);
          State_Monad.return (np_nullptr N)
        } else StartSession N info (SessionParams_new type 3 True False) worker
      })"

definition UpdateClient_Download ::
  "('v, 'r, 'd, 'w, 'h) napi \<Rightarrow> Samgr \<Rightarrow> 's IUpdateService \<Rightarrow> 'v CallInfo \<Rightarrow> (('r, 'd, 'w, 'h, 's) Online, 'v) state" where
  "UpdateClient_Download N A service =
     digest_call N (GetOptions_Download N) uc_downloadOptions (\<lambda>x c. c\<lparr>uc_downloadOptions := x\<rparr>)
       (''downloadOptions'', ''DownloadOptions'') SESSION_DOWNLOAD
       (plain_worker (\<lambda>c. Kits_Download A service (uc_upgradeInfo c) (uc_versionDigestInfo c) (uc_downloadOptions c)))"

definition UpdateClient_PauseDownload ::
  "('v, 'r, 'd, 'w, 'h) napi \<Rightarrow> Samgr \<Rightarrow> 's IUpdateService \<Rightarrow> 'v CallInfo \<Rightarrow> (('r, 'd, 'w, 'h, 's) Online, 'v) state" where
  "UpdateClient_PauseDownload N A service =
     digest_call N (GetOptions_PauseDownload N) uc_pauseDownloadOptions (\<lambda>x c. c\<lparr>uc_pauseDownloadOptions := x\<rparr>)
       (''pauseDownloadOptions'', ''PauseDownloadOptions'') SESSION_PAUSE_DOWNLOAD
       (plain_worker (\<lambda>c. Kits_PauseDownload A service (uc_upgradeInfo c) (uc_versionDigestInfo c) (uc_pauseDownloadOptions c)))"

definition UpdateClient_ResumeDownload ::
  "('v, 'r, 'd, 'w, 'h) napi \<Rightarrow> Samgr \<Rightarrow> 's IUpdateService \<Rightarrow> 'v CallInfo \<Rightarrow> (('r, 'd, 'w, 'h, 's) Online, 'v) state" where
  "UpdateClient_ResumeDownload N A service =
     digest_call N (GetOptions_ResumeDownload N) uc_resumeDownloadOptions (\<lambda>x c. c\<lparr>uc_resumeDownloadOptions := x\<rparr>)
       (''resumeDownloadOptions'', ''ResumeDownloadOptions'') SESSION_RESUME_DOWNLOAD
       (plain_worker (\<lambda>c. Kits_ResumeDownload A service (uc_upgradeInfo c) (uc_versionDigestInfo c) (uc_resumeDownloadOptions c)))"

definition UpdateClient_Upgrade ::
  "('v, 'r, 'd, 'w, 'h) napi \<Rightarrow> Samgr \<Rightarrow> 's IUpdateService \<Rightarrow> 'v CallInfo \<Rightarrow> (('r, 'd, 'w, 'h, 's) Online, 'v) state" where
  "UpdateClient_Upgrade N A service =
     digest_call N (GetOptions_Upgrade N) uc_upgradeOptions (\<lambda>x c. c\<lparr>uc_upgradeOptions := x\<rparr>)
       (''upgradeOptions'', ''UpgradeOptions'') SESSION_UPGRADE
       (plain_worker (\<lambda>c. Kits_Upgrade A service (uc_upgradeInfo c) (uc_versionDigestInfo c) (uc_upgradeOptions c)))"

definition UpdateClient_ClearError ::
  "('v, 'r, 'd, 'w, 'h) napi \<Rightarrow> Samgr \<Rightarrow> 's IUpdateService \<Rightarrow> 'v CallInfo \<Rightarrow> (('r, 'd, 'w, 'h, 's) Online, 'v) state" where
  "UpdateClient_ClearError N A service =
     digest_call N (GetOptions_Clear N) uc_clearOptions (\<lambda>x c. c\<lparr>uc_clearOptions := x\<rparr>)
       (''clearOptions'', ''ClearOptions'') SESSION_CLEAR_ERROR
       (plain_worker (\<lambda>c. Kits_ClearError A service (uc_upgradeInfo c) (uc_versionDigestInfo c) (uc_clearOptions c)))"

definition UpdateClient_GetNewVersionDescription ::
  "('v, 'r, 'd, 'w, 'h) napi \<Rightarrow> Samgr \<Rightarrow> 's IUpdateService \<Rightarrow> 'v CallInfo \<Rightarrow> (('r, 'd, 'w, 'h, 's) Online, 'v) state" where
  "UpdateClient_GetNewVersionDescription N A service =
     digest_call N (GetOptions_Description N) uc_descriptionOptions (\<lambda>x c. c\<lparr>uc_descriptionOptions := x\<rparr>)
       (''descriptionOptions'', ''DescriptionOptions'') SESSION_GET_NEW_VERSION_DESCRIPTION
       (result_worker (\<lambda>c. Kits_GetNewVersionDescription A service (uc_upgradeInfo c) (uc_versionDigestInfo c)
            (uc_descriptionOptions c) (uc_newVersionDescriptionInfo c))
         (\<lambda>x c. c\<lparr>uc_newVersionDescriptionInfo := x\<rparr>))"

definition UpdateClient_GetCurrentVersionDescription ::
  "('v, 'r, 'd, 'w, 'h) napi \<Rightarrow> Samgr \<Rightarrow> 's IUpdateService \<Rightarrow> 'v CallInfo \<Rightarrow> (('r, 'd, 'w, 'h, 's) Online, 'v) state" where
  "UpdateClient_GetCurrentVersionDescription N A service info =
     (if ci_status info \<noteq> napi_ok then State_Monad.return (np_nullptr N)
      else do {
        u \<leftarrow> State_Monad.get;
        (ret, options) \<leftarrow> engine (ParseUpgOptions N (GetOptions_Description N) info (uc_descriptionOptions (ju_members u)));
        _ \<leftarrow> modify (\<lambda>u. u\<lparr>ju_members := (ju_members u)\<lparr>uc_descriptionOptions := options\<rparr>\<rparr>);
        if ret \<noteq> CLIENT_SUCCESS then do {
          _ \<leftarrow> engine (NapiThrowParamError N [(''descriptionOptions'', ''DescriptionOptions'')]);
          State_Monad.return (np_nullptr N)
        } else StartSession N info (SessionParams_new SESSION_GET_CUR_VERSION_DESCRIPTION 2 True False)
          (result_worker (\<lambda>c. Kits_GetCurrentVersionDescription A service (uc_upgradeInfo c) (uc_descriptionOptions c)
               (uc_currentVersionDescriptionInfo c))
            (\<lambda>x c. c\<lparr>uc_currentVersionDescriptionInfo := x\<rparr>))
      })"

definition UpdateClient_SetUpgradePolicy ::
  "('v, 'r, 'd, 'w, 'h) napi \<Rightarrow> Samgr \<Rightarrow> 's IUpdateService \<Rightarrow> 'v CallInfo \<Rightarrow> (('r, 'd, 'w, 'h, 's) Online, 'v) state" where
  "UpdateClient_SetUpgradePolicy N A service info =
     (if ci_status info \<noteq> napi_ok then State_Monad.return (np_nullptr N)
      else do {
        u \<leftarrow> State_Monad.get;
        (ret, policy) \<leftarrow> engine (GetUpgradePolicyFromArg N (ci_args info ! 0) (uc_upgradePolicy (ju_members u)));
        _ \<leftarrow> modify (\<lambda>u. u\<lparr>ju_members := (ju_members u)\<lparr>uc_upgradePolicy := policy\<rparr>\<rparr>);
        if ret \<noteq> CLIENT_SUCCESS then do {
          _ \<leftarrow> engine (NapiThrowParamError N [(''upgradePolicy'', ''UpgradePolicy'')]);
          State_Monad.return (np_nullptr N)
        } else StartSession N info (SessionParams_new SESSION_SET_POLICY 2 True False)
          (plain_worker (\<lambda>c. Kits_SetUpgradePolicy A service (uc_upgradeInfo c) (uc_upgradePolicy c)))
      })"

section \<open>What a session reports\<close>

definition UpdateClient_GetUpdateResult :: "SessionType \<Rightarrow> UpdateClient \<Rightarrow> Js_UpdateResult \<Rightarrow> Js_UpdateResult" where
  "UpdateClient_GetUpdateResult type c result =
     (let result = result\<lparr>ur_type := type\<rparr>
      in case type of
           SESSION_CHECK_VERSION \<Rightarrow>
             result\<lparr>ur_result := CheckPtr (uc_checkResult c), ur_buildJSObject := Build_CheckResult\<rparr>
         | SESSION_GET_NEW_VERSION \<Rightarrow>
             result\<lparr>ur_result := NewVersionPtr (uc_newVersionInfo c), ur_buildJSObject := Build_NewVersionInfo\<rparr>
         | SESSION_GET_NEW_VERSION_DESCRIPTION \<Rightarrow>
             result\<lparr>ur_result := DescriptionPtr (uc_newVersionDescriptionInfo c),
               ur_buildJSObject := Build_VersionDescriptionInfo\<rparr>
         | SESSION_GET_TASK_INFO \<Rightarrow>
             result\<lparr>ur_result := TaskPtr (uc_taskInfo c), ur_buildJSObject := Build_TaskInfo\<rparr>
         | SESSION_GET_CUR_VERSION \<Rightarrow>
             result\<lparr>ur_result := CurrentPtr (uc_currentVersionInfo c), ur_buildJSObject := Build_CurrentVersionInfo\<rparr>
         | SESSION_GET_CUR_VERSION_DESCRIPTION \<Rightarrow>
             result\<lparr>ur_result := DescriptionPtr (uc_currentVersionDescriptionInfo c),
               ur_buildJSObject := Build_VersionDescriptionInfo\<rparr>
         | SESSION_GET_POLICY \<Rightarrow>
             result\<lparr>ur_result := PolicyPtr (uc_upgradePolicy c), ur_buildJSObject := Build_UpgradePolicy\<rparr>
         | _ \<Rightarrow> result\<lparr>ur_buildJSObject := Build_UndefinedStatus\<rparr>)"

section \<open>The local updater\<close>

definition LocalUpdater_MISC_FILE :: string where
  "LocalUpdater_MISC_FILE = ''/dev/block/by-name/misc''"

definition local_upgrade_info :: UpgradeInfo where
  "local_upgrade_info =
     UpgradeInfo LOCAL_UPGRADE_INFO (businessType UpgradeInfo_default) (upgradeDevId UpgradeInfo_default)
       (controlDevId UpgradeInfo_default)"

record LocalUpdater =
  lu_isInit :: bool

type_synonym ('r, 'd, 'w, 'h, 's) Local = "('r, 'd, 'w, 'h, LocalUpdater, Kits \<times> 's) Updater"

definition LocalUpdater_new ::
  "('v, 'r, 'd, 'w, 'h) napi \<Rightarrow> 'v \<Rightarrow> 'h \<Rightarrow> Kits \<times> 's \<Rightarrow> uint32_t \<Rightarrow> ('r, 'd, 'w, 'h, 's) Local" where
  "LocalUpdater_new N thisVar = updater_new N thisVar \<lparr>lu_isInit = False\<rparr>"

definition LocalUpdater_callback :: "bool \<Rightarrow> ('r, 'd, 'w, 'h, 's) Local UpdateCallbackInfo" where
  "LocalUpdater_callback loop =
     \<lparr>ci_checkNewVersionDone = Some (\<lambda>businessError checkResult u. u), ci_onEvent = Some (NotifyEventInfo loop)\<rparr>"

definition LocalUpdater_Init ::
  "Samgr \<Rightarrow> 's IUpdateService \<Rightarrow> Callback \<Rightarrow> ('r, 'd, 'w, 'h, 's) Local \<Rightarrow> ('r, 'd, 'w, 'h, 's) Local option" where
  "LocalUpdater_Init A service cb u =
     (if lu_isInit (ju_members u) then Some u
      else map_option (\<lambda>(ret, _, ks). u\<lparr>ju_kits := ks, ju_members := \<lparr>lu_isInit = True\<rparr>\<rparr>)
        (Kits_RegisterUpdateCallback A service local_upgrade_info cb (ju_kits u)))"

definition JsLocalUpdater_VerifyUpgradePackage ::
  "('v, 'r, 'd, 'w, 'h) napi \<Rightarrow> Samgr \<Rightarrow> 's IUpdateService \<Rightarrow> 'v CallInfo \<Rightarrow> (('r, 'd, 'w, 'h, 's) Local, 'v) state" where
  "JsLocalUpdater_VerifyUpgradePackage N A service info =
     (if ci_status info \<noteq> napi_ok then State_Monad.return (np_nullptr N)
      else if \<not> 2 \<le> ci_argc info then State_Monad.return (np_nullptr N)
      else do {
        (ret, upgradeFile) \<leftarrow> engine (GetUpgradeFileFromArg N (ci_args info ! 0) UpgradeFile_default);
        if ret \<noteq> CLIENT_SUCCESS then StartParamErrorSession N info 3
        else do {
          (result, certsFile) \<leftarrow> engine (NapiUtil_GetString_value N (ci_args info ! 1) []);
          if result \<noteq> ClientStatus_code CLIENT_SUCCESS then StartParamErrorSession N info 3
          else StartSession N info (SessionParams_new SESSION_VERIFY_PACKAGE 3 True False)
            (plain_worker (\<lambda>c. Kits_VerifyUpgradePackage A service (uf_filePath upgradeFile) certsFile))
        }
      })"

definition JsLocalUpdater_ApplyNewVersion ::
  "('v, 'r, 'd, 'w, 'h) napi \<Rightarrow> Samgr \<Rightarrow> 's IUpdateService \<Rightarrow> 'v CallInfo \<Rightarrow> (('r, 'd, 'w, 'h, 's) Local, 'v) state" where
  "JsLocalUpdater_ApplyNewVersion N A service info =
     (if \<not> (ci_status info = napi_ok \<and> 1 \<le> ci_argc info) then State_Monad.return (np_nullptr N)
      else do {
        (ret, upgradeFiles) \<leftarrow> engine (GetUpgradeFilesFromArg N (ci_args info ! 0) []);
        if ret \<noteq> CLIENT_SUCCESS \<or> upgradeFiles = [] then StartParamErrorSession N info 2
        else StartSession N info (SessionParams_new SESSION_APPLY_NEW_VERSION 2 True False)
          (plain_worker (\<lambda>c. Kits_ApplyNewVersion A service local_upgrade_info LocalUpdater_MISC_FILE (uf_filePath (upgradeFiles ! 0))))
      })"

section \<open>The restorer\<close>

type_synonym ('r, 'd, 'w, 'h, 's) RestorerState = "('r, 'd, 'w, 'h, unit, Kits \<times> 's) Updater"

definition Restorer_new ::
  "('v, 'r, 'd, 'w, 'h) napi \<Rightarrow> 'v \<Rightarrow> 'h \<Rightarrow> Kits \<times> 's \<Rightarrow> uint32_t \<Rightarrow> ('r, 'd, 'w, 'h, 's) RestorerState" where
  "Restorer_new N thisVar = updater_new N thisVar ()"

definition JsRestorer_FactoryReset ::
  "('v, 'r, 'd, 'w, 'h) napi \<Rightarrow> Samgr \<Rightarrow> 's IUpdateService \<Rightarrow> 'v CallInfo \<Rightarrow> (('r, 'd, 'w, 'h, 's) RestorerState, 'v) state" where
  "JsRestorer_FactoryReset N A service info =
     StartSession N info (SessionParams_new SESSION_FACTORY_RESET 1 True False)
       (plain_worker (\<lambda>c. Kits_FactoryReset A service))"

end
