(* ===== verification/Js_Invariant.thy ===== *)
theory Js_Invariant
  imports Js_Client "HOL-Library.Multiset"
begin

text \<open>
  The invariant of the sessions of an updater: who is in the map, in which phase its work is, and
  what a session holds of the engine. The operations of the updater keep it.
\<close>

section \<open>The map in key order\<close>

lemma find_map_of: "om_ordered id_less m \<Longrightarrow> om_find id_less k m = map_of m k"
proof (induction m)
  case (Cons p m)
  obtain j s where p: "p = (j, s)" by force
  have "map_of m k = None" if "k < j"
    using Cons.prems that by (force simp: p im.ordered_Cons map_of_eq_None_iff)
  with Cons show ?case by (auto simp: p im.ordered_Cons)
qed simp

lemma insert_last: "(\<And>j s. (j, s) \<in> set m \<Longrightarrow> j < k) \<Longrightarrow> om_insert id_less k s m = m @ [(k, s)]"
proof (induction m)
  case (Cons p m)
  obtain j t where p: "p = (j, t)" by force
  then have "j < k" using Cons.prems by auto
  with Cons show ?case by (fastforce simp: p)
qed simp

lemma ordered_assign:
  "om_ordered id_less m \<Longrightarrow> om_ordered id_less (om_assign id_less k s m)"
proof -
  have keys: "(j, t) \<in> set (om_assign id_less k s m) \<Longrightarrow> j = k \<or> (\<exists>t. (j, t) \<in> set m)" for j t m
    by (induction m) (auto split: if_splits)
  show "om_ordered id_less m \<Longrightarrow> om_ordered id_less (om_assign id_less k s m)"
  proof (induction m)
    case (Cons p m)
    obtain i t where p: "p = (i, t)" by force
    with Cons show ?case by (fastforce simp: im.ordered_Cons dest!: keys)
  qed (simp add: im.ordered_Cons im.ordered_Nil)
qed

lemma find_assign:
  "om_ordered id_less m \<Longrightarrow> om_find id_less j (om_assign id_less k s m) = (if j = k then Some s else om_find id_less j m)"
proof (induction m)
  case (Cons p m)
  obtain i t where p: "p = (i, t)" by force
  have "j < i \<Longrightarrow> om_find id_less j m = None"
    using Cons.prems by (intro im.find_above) (auto simp: p im.ordered_Cons)
  with Cons show ?case by (auto simp: p im.ordered_Cons)
qed simp

lemma same_id [simp]: "same_key id_less j k \<longleftrightarrow> j = k"
  by (auto simp: same_key_def)

lemma distinct_keys: "om_ordered id_less m \<Longrightarrow> distinct (map fst m)"
  by (simp add: om_ordered_def strict_sorted_iff)

section \<open>What a session holds\<close>

definition works_of :: "('r, 'd, 'w, 'c, 'k) Session \<Rightarrow> 'w set" where
  "works_of s = (if se_class s = UpdateListener then {} else {se_worker s})"

definition refs_of :: "('r, 'd, 'w, 'c, 'k) Session \<Rightarrow> 'r set" where
  "refs_of s = (case se_class s of UpdateListener \<Rightarrow> {se_handlerRef s} | UpdateAsyncession \<Rightarrow> {se_callbackRef s ! 0} | _ \<Rightarrow> {})"

definition deferreds_of :: "('r, 'd, 'w, 'c, 'k) Session \<Rightarrow> 'd set" where
  "deferreds_of s = (if se_class s = UpdatePromiseSession then {se_deferred s} else {})"

definition holds :: "('v, 'r, 'd, 'w, 'h) js_obs \<Rightarrow> 'h \<Rightarrow> ('r, 'd, 'w, 'c, 'k) Session \<Rightarrow> bool" where
  "holds Ob h s \<longleftrightarrow> (\<forall>w \<in> works_of s. jo_work Ob h w) \<and> (\<forall>r \<in> refs_of s. jo_ref Ob h r \<noteq> None) \<and>
     (\<forall>d \<in> deferreds_of s. jo_deferred Ob h d = Some Pending)"

definition apart :: "('r, 'd, 'w, 'c, 'k) Session \<Rightarrow> ('r, 'd, 'w, 'c, 'k) Session \<Rightarrow> bool" where
  "apart s t \<longleftrightarrow> works_of s \<inter> works_of t = {} \<and> refs_of s \<inter> refs_of t = {} \<and> deferreds_of s \<inter> deferreds_of t = {}"

text \<open>From \<open>h\<close> to \<open>h'\<close> no reference was deleted, no promise settled and no work deleted.\<close>

definition keeps_handles :: "('v, 'r, 'd, 'w, 'h) js_obs \<Rightarrow> 'h \<Rightarrow> 'h \<Rightarrow> bool" where
  "keeps_handles Ob h h' \<longleftrightarrow> jo_live Ob h \<subseteq> jo_live Ob h' \<and> (\<forall>r f. jo_ref Ob h r = Some f \<longrightarrow> jo_ref Ob h' r = Some f) \<and>
     (\<forall>d. jo_deferred Ob h d = Some Pending \<longrightarrow> jo_deferred Ob h' d = Some Pending) \<and> (\<forall>j. jo_work Ob h j \<longrightarrow> jo_work Ob h' j)"

lemma keeps_handles_refl [simp]: "keeps_handles Ob h h"
  by (simp add: keeps_handles_def)

lemma keeps_handles_trans: "keeps_handles Ob h h1 \<Longrightarrow> keeps_handles Ob h1 h2 \<Longrightarrow> keeps_handles Ob h h2"
  by (auto simp: keeps_handles_def)

lemma keeps_handles_same: "keeps_values Ob S h h' \<Longrightarrow> same_handles Ob h h' \<Longrightarrow> keeps_handles Ob h h'"
  by (auto simp: keeps_handles_def keeps_values_def same_handles_def)

lemma keeps_handles_changes: "only_changes Ob S h h' \<Longrightarrow> keeps_handles Ob h h'"
  by (auto simp: only_changes_def intro: keeps_handles_same)

lemma holds_keep: "holds Ob h s \<Longrightarrow> keeps_handles Ob h h' \<Longrightarrow> holds Ob h' s"
  by (auto simp: holds_def keeps_handles_def)

text \<open>An argument that is data, with no code behind it: no array, no exotic object, no such member.\<close>

definition plain_arg :: "('v, 'r, 'd, 'w, 'h) js_obs \<Rightarrow> 'h \<Rightarrow> 'v \<Rightarrow> bool" where
  "plain_arg Ob h v \<longleftrightarrow> v \<in> jo_live Ob h \<and>
     (case jo_view Ob h v of
        JsObject m \<Rightarrow> \<forall>k w t. m k = Some w \<longrightarrow> jo_view Ob h w \<noteq> JsOther t
      | JsArray xs \<Rightarrow> False
      | JsOther t \<Rightarrow> False
      | _ \<Rightarrow> True)"

section \<open>The invariant\<close>

text \<open>The works that are not reported yet, in any phase.\<close>

definition outstanding :: "('r, 'd, 'w, 'h, 'c, 'k) Updater \<Rightarrow> uint32_t list" where
  "outstanding u = ju_queued u @ ju_running u @ ju_executed u"

definition session_ok :: "('r, 'd, 'w, 'c, 'k) Session \<Rightarrow> bool" where
  "session_ok s \<longleftrightarrow> (sp_type (se_params s) = SESSION_SUBSCRIBE \<longleftrightarrow> se_class s = UpdateListener) \<and>
     length (se_callbackRef s) = se_callbackNumber s \<and> (se_class s = UpdateAsyncession \<longrightarrow> se_callbackNumber s = 1)"

text \<open>\<open>X\<close> are the sessions that are being reported.\<close>

definition sessions_inv :: "('v, 'r, 'd, 'w, 'h) js_obs \<Rightarrow> uint32_t list \<Rightarrow> ('r, 'd, 'w, 'h, 'c, 'k) Updater \<Rightarrow> bool" where
  "sessions_inv Ob X u \<longleftrightarrow>
     om_ordered id_less (ju_sessions u) \<and>
     (\<forall>k s. find_session k u = Some s \<longrightarrow>
        se_sessionId s = k \<and> k \<le> ju_sessionId u \<and> session_ok s \<and> holds Ob (ju_heap u) s) \<and>
     (\<forall>k k' s s'. find_session k u = Some s \<longrightarrow> find_session k' u = Some s' \<longrightarrow> k \<noteq> k' \<longrightarrow> apart s s') \<and>
     distinct (outstanding u @ X) \<and>
     (\<forall>k. k \<in> set (outstanding u @ X) \<longleftrightarrow> (\<exists>s. find_session k u = Some s \<and> se_class s \<noteq> UpdateListener))"

lemma inv_ordered: "sessions_inv Ob X u \<Longrightarrow> om_ordered id_less (ju_sessions u)"
  by (simp add: sessions_inv_def)

lemma inv_session:
  "sessions_inv Ob X u \<Longrightarrow> find_session k u = Some s \<Longrightarrow>
   se_sessionId s = k \<and> k \<le> ju_sessionId u \<and> session_ok s \<and> holds Ob (ju_heap u) s"
  unfolding sessions_inv_def by blast

lemma inv_apart:
  "sessions_inv Ob X u \<Longrightarrow> find_session k u = Some s \<Longrightarrow> find_session k' u = Some s' \<Longrightarrow> k \<noteq> k' \<Longrightarrow> apart s s'"
  unfolding sessions_inv_def by blast

lemma inv_distinct: "sessions_inv Ob X u \<Longrightarrow> distinct (outstanding u @ X)"
  by (simp add: sessions_inv_def)

lemma inv_outstanding:
  "sessions_inv Ob X u \<Longrightarrow> k \<in> set (outstanding u @ X) \<longleftrightarrow> (\<exists>s. find_session k u = Some s \<and> se_class s \<noteq> UpdateListener)"
  unfolding sessions_inv_def by blast

lemma find_sessions: "ju_sessions u' = ju_sessions u \<Longrightarrow> find_session k u' = find_session k u"
  by (simp add: find_session_def)

lemma inv_frame:
  assumes "sessions_inv Ob X u" and "keeps_handles Ob (ju_heap u) (ju_heap u')" and "ju_sessions u' = ju_sessions u"
    and "ju_sessionId u \<le> ju_sessionId u'" and "mset (outstanding u') = mset (outstanding u)"
  shows "sessions_inv Ob X u'"
  unfolding sessions_inv_def find_sessions [OF assms(3)] assms(3)
proof (intro conjI allI impI)
  fix k s assume "find_session k u = Some s"
  with inv_session [OF assms(1) this] assms(2,4)
  show "se_sessionId s = k" "k \<le> ju_sessionId u'" "session_ok s" "holds Ob (ju_heap u') s"
    by (auto intro: holds_keep)
next
  have m: "mset (outstanding u' @ X) = mset (outstanding u @ X)" using assms(5) by simp
  then show "distinct (outstanding u' @ X)" using inv_distinct [OF assms(1)] by (metis mset_eq_imp_distinct_iff)
  fix k show "k \<in> set (outstanding u' @ X) \<longleftrightarrow> (\<exists>s. find_session k u = Some s \<and> se_class s \<noteq> UpdateListener)"
    using inv_outstanding [OF assms(1), of k] mset_eq_setD [OF m] by auto
qed (use assms(1) in \<open>auto intro: inv_ordered inv_apart\<close>)

text \<open>A new session, and what it holds was not held before.\<close>

lemma inv_add:
  assumes "sessions_inv Ob X u" and "keeps_handles Ob (ju_heap u) h'" and "uint (ju_sessionId u) + 1 < 2 ^ 32"
    and "se_sessionId s = ju_sessionId u + 1" and "session_ok s" and "holds Ob h' s"
    and "\<And>w. w \<in> works_of s \<Longrightarrow> \<not> jo_work Ob (ju_heap u) w" and "\<And>r. r \<in> refs_of s \<Longrightarrow> jo_ref Ob (ju_heap u) r = None"
    and "\<And>d. d \<in> deferreds_of s \<Longrightarrow> jo_deferred Ob (ju_heap u) d = None"
  shows "sessions_inv Ob X (u\<lparr>ju_heap := h', ju_sessionId := ju_sessionId u + 1,
      ju_sessions := ju_sessions u @ [(ju_sessionId u + 1, s)],
      ju_queued := ju_queued u @ (if se_class s = UpdateListener then [] else [ju_sessionId u + 1])\<rparr>)"
    (is "sessions_inv Ob X ?u")
proof -
  let ?k = "ju_sessionId u + 1"
  have "uint ?k = uint (ju_sessionId u) + 1" using assms(3) by (simp add: uint_word_ariths)
  then have less: "ju_sessionId u < ?k" by (simp add: word_less_def)
  have keys: "(j, t) \<in> set (ju_sessions u) \<Longrightarrow> j < ?k" for j t
  proof -
    assume "(j, t) \<in> set (ju_sessions u)"
    then have "map_of (ju_sessions u) j \<noteq> None" unfolding map_of_eq_None_iff by force
    then have "find_session j u \<noteq> None" by (simp add: find_session_def find_map_of inv_ordered [OF assms(1)])
    then show "j < ?k" using inv_session [OF assms(1)] less by fastforce
  qed
  have "sorted_wrt (<) (map fst (ju_sessions u) @ [?k])"
    using inv_ordered [OF assms(1)] keys by (auto simp: om_ordered_def sorted_wrt_append)
  then have ord: "om_ordered id_less (ju_sessions ?u)" by (simp add: om_ordered_def)
  have none: "find_session ?k u = None"
  proof (rule ccontr)
    assume "find_session ?k u \<noteq> None"
    then obtain t where "find_session ?k u = Some t" by blast
    then have "?k \<le> ju_sessionId u" using inv_session [OF assms(1)] by blast
    with less show False by simp
  qed
  then have "map_of (ju_sessions u) ?k = None" by (simp add: find_session_def find_map_of inv_ordered [OF assms(1)])
  then have find: "find_session j ?u = (if j = ?k then Some s else find_session j u)" for j
    using ord inv_ordered [OF assms(1)] by (auto simp: find_session_def find_map_of map_add_def split: option.splits)
  have new: "apart s t \<and> apart t s" if "find_session j u = Some t" for j t
  proof -
    from inv_session [OF assms(1) that] have "holds Ob (ju_heap u) t" by blast
    then have h: "\<And>w. w \<in> works_of t \<Longrightarrow> jo_work Ob (ju_heap u) w" "\<And>r. r \<in> refs_of t \<Longrightarrow> jo_ref Ob (ju_heap u) r \<noteq> None"
        "\<And>d. d \<in> deferreds_of t \<Longrightarrow> jo_deferred Ob (ju_heap u) d = Some Pending"
      by (simp_all add: holds_def)
    have "works_of s \<inter> works_of t = {}" using assms(7) h(1) by blast
    moreover have "refs_of s \<inter> refs_of t = {}" using assms(8) h(2) by blast
    moreover have "deferreds_of s \<inter> deferreds_of t = {}" using assms(9) h(3) by force
    ultimately have "works_of s \<inter> works_of t = {}" "refs_of s \<inter> refs_of t = {}" "deferreds_of s \<inter> deferreds_of t = {}" by blast+
    then show ?thesis by (simp add: apart_def Int_commute)
  qed
  show ?thesis
    unfolding sessions_inv_def
  proof (intro conjI allI impI)
    fix k t assume "find_session k ?u = Some t"
    then consider "k = ?k" "t = s" | "find_session k u = Some t" unfolding find by (cases "k = ?k") simp_all
    then have "se_sessionId t = k \<and> k \<le> ju_sessionId ?u \<and> session_ok t \<and> holds Ob (ju_heap ?u) t"
    proof cases
      case 2
      from inv_session [OF assms(1) this] less show ?thesis using assms(2) by (auto intro: holds_keep)
    qed (use assms(4-6) in auto)
    then show "se_sessionId t = k" "k \<le> ju_sessionId ?u" "session_ok t" "holds Ob (ju_heap ?u) t" by blast+
  next
    fix k k' t t' assume "find_session k ?u = Some t" "find_session k' ?u = Some t'" "k \<noteq> k'"
    then show "apart t t'"
      using new inv_apart [OF assms(1), of k t k' t'] unfolding find by (cases "k = ?k"; cases "k' = ?k") simp_all
  next
    have "?k \<notin> set (outstanding u @ X)" using inv_outstanding [OF assms(1), of ?k] none by simp
    then show "distinct (outstanding ?u @ X)"
      using inv_distinct [OF assms(1)] by (auto simp: outstanding_def)
    fix k
    have "set (outstanding ?u @ X) = set (outstanding u @ X) \<union> (if se_class s = UpdateListener then {} else {?k})"
      by (auto simp: outstanding_def)
    then show "k \<in> set (outstanding ?u @ X) \<longleftrightarrow> (\<exists>t. find_session k ?u = Some t \<and> se_class t \<noteq> UpdateListener)"
      unfolding find using inv_outstanding [OF assms(1), of k] none by (cases "k = ?k") simp_all
  qed (use ord in simp)
qed

text \<open>Subscriptions may go.\<close>

lemma inv_unsubscribed:
  assumes "sessions_inv Ob X u" and "om_ordered id_less m"
    and "\<And>k s. om_find id_less k m = Some s \<Longrightarrow> find_session k u = Some s"
    and "\<And>k s. find_session k u = Some s \<Longrightarrow> se_class s \<noteq> UpdateListener \<Longrightarrow> om_find id_less k m = Some s"
  shows "sessions_inv Ob X (u\<lparr>ju_sessions := m\<rparr>)" (is "sessions_inv Ob X ?u")
proof -
  have find: "find_session k ?u = om_find id_less k m" for k by (simp add: find_session_def)
  show ?thesis
    unfolding sessions_inv_def find
  proof (intro conjI allI impI)
    fix k
    have "outstanding ?u = outstanding u" by (simp add: outstanding_def)
    then show "k \<in> set (outstanding ?u @ X) \<longleftrightarrow> (\<exists>s. om_find id_less k m = Some s \<and> se_class s \<noteq> UpdateListener)"
      unfolding inv_outstanding [OF assms(1)] using assms(3,4) inv_outstanding [OF assms(1)] by metis
  next
    show "distinct (outstanding ?u @ X)" using inv_distinct [OF assms(1)] by (simp add: outstanding_def)
  next
    fix k s assume "om_find id_less k m = Some s"
    with inv_session [OF assms(1) assms(3)]
    show "se_sessionId s = k" "k \<le> ju_sessionId ?u" "session_ok s" "holds Ob (ju_heap ?u) s" by simp_all
  next
    fix k k' s s' assume "om_find id_less k m = Some s" "om_find id_less k' m = Some s'" "k \<noteq> k'"
    with inv_apart [OF assms(1) assms(3) assms(3)] show "apart s s'" by blast
  qed (simp add: assms(2))
qed

text \<open>A session object changes, but not what it holds.\<close>

lemma inv_put:
  assumes "sessions_inv Ob X u" and "find_session k u = Some s" and "se_sessionId t = k" and "session_ok t"
    and "se_class t = se_class s" and "works_of t = works_of s" and "refs_of t = refs_of s" and "deferreds_of t = deferreds_of s"
  shows "sessions_inv Ob X (put_session t u)"
proof -
  have find: "find_session j (put_session t u) = (if j = k then Some t else find_session j u)" for j
    by (simp add: find_session_def put_session_def assms(3) find_assign [OF inv_ordered [OF assms(1)]])
  show ?thesis
    unfolding sessions_inv_def
  proof (intro conjI allI impI)
    show "om_ordered id_less (ju_sessions (put_session t u))"
      by (simp add: put_session_def ordered_assign [OF inv_ordered [OF assms(1)]])
  next
    fix j r assume "find_session j (put_session t u) = Some r"
    then consider "j = k" "r = t" | "find_session j u = Some r" unfolding find by (cases "j = k") simp_all
    then have "se_sessionId r = j \<and> j \<le> ju_sessionId u \<and> session_ok r \<and> holds Ob (ju_heap u) r"
    proof cases
      case 1
      with inv_session [OF assms(1,2)] assms(3-) show ?thesis by (simp add: holds_def)
    qed (rule inv_session [OF assms(1)])
    then show "se_sessionId r = j" "j \<le> ju_sessionId (put_session t u)" "session_ok r" "holds Ob (ju_heap (put_session t u)) r"
      by (simp_all add: put_session_def)
  next
    fix i j r r' assume "find_session i (put_session t u) = Some r" "find_session j (put_session t u) = Some r'" "i \<noteq> j"
    moreover have "apart t r' = apart s r'" "apart r t = apart r s" by (simp_all add: apart_def assms(6-8))
    ultimately show "apart r r'"
      using inv_apart [OF assms(1), of i r j r'] inv_apart [OF assms(1,2), of j r'] inv_apart [OF assms(1) _ assms(2), of i r]
      unfolding find by (cases "i = k"; cases "j = k") simp_all
  next
    show "distinct (outstanding (put_session t u) @ X)"
      using inv_distinct [OF assms(1)] by (simp add: outstanding_def put_session_def)
    fix j
    have "outstanding (put_session t u) = outstanding u" by (simp add: outstanding_def put_session_def)
    then show "j \<in> set (outstanding (put_session t u) @ X) \<longleftrightarrow>
        (\<exists>r. find_session j (put_session t u) = Some r \<and> se_class r \<noteq> UpdateListener)"
      unfolding find using inv_outstanding [OF assms(1), of j] assms(2,5) by auto
  qed
qed

section \<open>Steps that keep the invariant\<close>

text \<open>The sessions that have a work stay, with what they hold.\<close>

definition same_holdings :: "('r, 'd, 'w, 'c, 'k) Session \<Rightarrow> ('r, 'd, 'w, 'c, 'k) Session \<Rightarrow> bool" where
  "same_holdings s t \<longleftrightarrow> se_class t = se_class s \<and> works_of t = works_of s \<and> refs_of t = refs_of s \<and> deferreds_of t = deferreds_of s"

definition stays :: "('r, 'd, 'w, 'h, 'c, 'k) Updater \<Rightarrow> ('r, 'd, 'w, 'h, 'c, 'k) Updater \<Rightarrow> bool" where
  "stays u u' \<longleftrightarrow> (\<forall>k s. find_session k u = Some s \<longrightarrow> se_class s \<noteq> UpdateListener \<longrightarrow>
     (\<exists>t. find_session k u' = Some t \<and> same_holdings s t))"

definition advances :: "('v, 'r, 'd, 'w, 'h) js_obs \<Rightarrow> uint32_t list \<Rightarrow> ('r, 'd, 'w, 'h, 'c, 'k) Updater \<Rightarrow>
    ('r, 'd, 'w, 'h, 'c, 'k) Updater \<Rightarrow> bool" where
  "advances Ob X u u' \<longleftrightarrow> sessions_inv Ob X u' \<and> stays u u'"

lemma same_holdings_refl [simp]: "same_holdings s s"
  by (simp add: same_holdings_def)

lemma stays_refl: "stays u u"
  unfolding stays_def using same_holdings_refl by blast

lemma stays_trans: "stays u v \<Longrightarrow> stays v w \<Longrightarrow> stays u w"
  unfolding stays_def same_holdings_def by metis

lemma stays_same: "ju_sessions u' = ju_sessions u \<Longrightarrow> stays u u'"
  unfolding stays_def find_sessions using same_holdings_refl by blast

lemma advances_refl: "sessions_inv Ob X u \<Longrightarrow> advances Ob X u u"
  by (simp add: advances_def stays_refl)

lemma advances_trans: "advances Ob X u v \<Longrightarrow> advances Ob X v w \<Longrightarrow> advances Ob X u w"
  unfolding advances_def using stays_trans by blast

lemma adv_frame:
  assumes "sessions_inv Ob X u" and "keeps_handles Ob (ju_heap u) (ju_heap u')" and "ju_sessions u' = ju_sessions u"
    and "ju_sessionId u \<le> ju_sessionId u'" and "mset (outstanding u') = mset (outstanding u)"
  shows "advances Ob X u u'"
  using inv_frame [OF assms] stays_same [OF assms(3)] by (simp add: advances_def)

lemma stays_add:
  assumes "om_ordered id_less (ju_sessions u)" and "om_ordered id_less (ju_sessions u')" and "ju_sessions u' = ju_sessions u @ [(k, s)]"
  shows "stays u u'"
  unfolding stays_def
proof (intro allI impI)
  fix j t assume "find_session j u = Some t"
  then have "find_session j u' = Some t"
    using assms distinct_keys [OF assms(2)] by (auto simp: find_session_def find_map_of map_add_def split: option.splits dest: map_of_SomeD)
  then show "\<exists>t'. find_session j u' = Some t' \<and> same_holdings t t'" by simp
qed

lemma stays_unsubscribed:
  assumes "\<And>k s. find_session k u = Some s \<Longrightarrow> se_class s \<noteq> UpdateListener \<Longrightarrow> om_find id_less k m = Some s"
  shows "stays u (u\<lparr>ju_sessions := m\<rparr>)"
  unfolding stays_def using assms by (auto simp: find_session_def)

lemma adv_put:
  assumes "sessions_inv Ob X u" and "find_session k u = Some s" and "se_sessionId t = k" and "session_ok t"
    and "same_holdings s t"
  shows "advances Ob X u (put_session t u)"
proof -
  have same: "se_class t = se_class s" "works_of t = works_of s" "refs_of t = refs_of s" "deferreds_of t = deferreds_of s"
    using assms(5) by (simp_all add: same_holdings_def)
  have "find_session j (put_session t u) = (if j = k then Some t else find_session j u)" for j
    by (simp add: find_session_def put_session_def assms(3) find_assign [OF inv_ordered [OF assms(1)]])
  then have "stays u (put_session t u)" using assms(2,5) by (auto simp: stays_def)
  then show ?thesis using inv_put [OF assms(1-4) same] by (simp add: advances_def)
qed

text \<open>A session that was being reported leaves the map; its handles are no longer needed.\<close>

lemma inv_reported:
  assumes "sessions_inv Ob (sid # X) u" and "find_session sid u = Some s" and "jo_live Ob (ju_heap u) \<subseteq> jo_live Ob h'"
    and "\<And>r f. r \<notin> refs_of s \<Longrightarrow> jo_ref Ob (ju_heap u) r = Some f \<Longrightarrow> jo_ref Ob h' r = Some f"
    and "\<And>d. d \<notin> deferreds_of s \<Longrightarrow> jo_deferred Ob (ju_heap u) d = Some Pending \<Longrightarrow> jo_deferred Ob h' d = Some Pending"
    and "\<And>j. j \<notin> works_of s \<Longrightarrow> jo_work Ob (ju_heap u) j \<Longrightarrow> jo_work Ob h' j"
  shows "sessions_inv Ob X (RemoveSession sid (u\<lparr>ju_heap := h'\<rparr>))" (is "sessions_inv Ob X ?u")
proof -
  have find: "find_session j ?u = (if j = sid then None else find_session j u)" for j
    by (simp add: find_session_def RemoveSession_def im.find_erase [OF inv_ordered [OF assms(1)]])
  have others: "holds Ob h' t" if t: "find_session j u = Some t" and "j \<noteq> sid" for j t
  proof -
    from inv_session [OF assms(1) t] have h: "holds Ob (ju_heap u) t" by blast
    from inv_apart [OF assms(1) assms(2) t] that(2)
    have a: "works_of s \<inter> works_of t = {}" "refs_of s \<inter> refs_of t = {}" "deferreds_of s \<inter> deferreds_of t = {}"
      by (auto simp: apart_def)
    show ?thesis
      unfolding holds_def
    proof (intro conjI ballI)
      fix r assume r: "r \<in> refs_of t"
      then obtain f where "jo_ref Ob (ju_heap u) r = Some f" using h by (auto simp: holds_def)
      moreover have "r \<notin> refs_of s" using r a(2) by blast
      ultimately show "jo_ref Ob h' r \<noteq> None" using assms(4) by fastforce
    next
      fix d assume d: "d \<in> deferreds_of t"
      then have "d \<notin> deferreds_of s" "jo_deferred Ob (ju_heap u) d = Some Pending" using a(3) h by (auto simp: holds_def)
      then show "jo_deferred Ob h' d = Some Pending" by (rule assms(5))
    next
      fix w assume w: "w \<in> works_of t"
      then have "w \<notin> works_of s" "jo_work Ob (ju_heap u) w" using a(1) h by (auto simp: holds_def)
      then show "jo_work Ob h' w" by (rule assms(6))
    qed
  qed
  show ?thesis
    unfolding sessions_inv_def
  proof (intro conjI allI impI)
    show "om_ordered id_less (ju_sessions ?u)"
      by (simp add: RemoveSession_def im.ordered_erase [OF inv_ordered [OF assms(1)]])
  next
    fix j t assume "find_session j ?u = Some t"
    then have t: "find_session j u = Some t" "j \<noteq> sid" by (simp_all add: find split: if_splits)
    show "se_sessionId t = j" "j \<le> ju_sessionId ?u" "session_ok t" "holds Ob (ju_heap ?u) t"
      using inv_session [OF assms(1) t(1)] others [OF t] by (simp_all add: RemoveSession_def)
  next
    fix i j r r' assume "find_session i ?u = Some r" "find_session j ?u = Some r'" "i \<noteq> j"
    then show "apart r r'" using inv_apart [OF assms(1)] by (auto simp: find split: if_splits)
  next
    show "distinct (outstanding ?u @ X)"
      using inv_distinct [OF assms(1)] by (simp add: outstanding_def RemoveSession_def)
    fix j
    have "outstanding ?u = outstanding u" by (simp add: outstanding_def RemoveSession_def)
    then show "j \<in> set (outstanding ?u @ X) \<longleftrightarrow> (\<exists>r. find_session j ?u = Some r \<and> se_class r \<noteq> UpdateListener)"
      unfolding find using inv_outstanding [OF assms(1), of j] inv_distinct [OF assms(1)] by auto
  qed
qed

end
