(* ===== verification/Js_Start.thy ===== *)
theory Js_Start
  imports Js_Invariant
begin

text \<open>
  Starting and stopping sessions keeps the invariant: \<open>StartSession\<close>, the session without a
  callback, \<open>On\<close> and \<open>Off\<close>.
\<close>

section \<open>The last entry of the map\<close>

lemma assign_last: "(\<And>j s. (j, s) \<in> set m \<Longrightarrow> j < k) \<Longrightarrow> om_assign id_less k t (m @ [(k, s)]) = m @ [(k, t)]"
proof (induction m)
  case (Cons p m)
  obtain j r where p: "p = (j, r)" by force
  then have "j < k" using Cons.prems by auto
  with Cons show ?case by (fastforce simp: p)
qed simp

lemma erase_last: "(\<And>j s. (j, s) \<in> set m \<Longrightarrow> j < k) \<Longrightarrow> om_erase id_less k (m @ [(k, s)]) = m"
proof (induction m)
  case (Cons p m)
  obtain j r where p: "p = (j, r)" by force
  then have "j < k" using Cons.prems by auto
  with Cons show ?case by (fastforce simp: p)
qed simp

lemma find_last: "(\<And>j s. (j, s) \<in> set m \<Longrightarrow> j < k) \<Longrightarrow> om_find id_less k m = None"
proof (induction m)
  case (Cons p m)
  obtain j r where p: "p = (j, r)" by force
  then have "j < k" using Cons.prems by auto
  with Cons show ?case by (fastforce simp: p)
qed simp

lemma inv_new_id:
  assumes "sessions_inv Ob X u" and "uint (ju_sessionId u) + 1 < 2 ^ 32" and "(j, s) \<in> set (ju_sessions u)"
  shows "j < ju_sessionId u + 1"
proof -
  have "uint (ju_sessionId u + 1) = uint (ju_sessionId u) + 1" using assms(2) by (simp add: uint_word_ariths)
  then have less: "ju_sessionId u < ju_sessionId u + 1" by (simp add: word_less_def)
  have "map_of (ju_sessions u) j \<noteq> None" using assms(3) unfolding map_of_eq_None_iff by force
  then obtain t where "find_session j u = Some t" by (auto simp: find_session_def find_map_of inv_ordered [OF assms(1)])
  then have "j \<le> ju_sessionId u" using inv_session [OF assms(1)] by blast
  with less show ?thesis by simp
qed

text \<open>What is left of a start: the new entry, or nothing when the start failed.\<close>

lemma start_and_keep_last:
  assumes "\<And>j s. (j, s) \<in> set (ju_sessions u) \<Longrightarrow> j < se_sessionId s0"
    and "run_state (StartWork N args worker s0) (u\<lparr>ju_sessions := ju_sessions u @ [(se_sessionId s0, s0)]\<rparr>) = ((ret, s1), u1)"
    and "ju_sessions u1 = ju_sessions u @ [(se_sessionId s0, s0)]" and "se_sessionId s1 = se_sessionId s0"
  shows "run_state (start_and_keep N args worker s0) u =
    (if ret = np_nullptr N then (np_nullptr N, u1\<lparr>ju_sessions := ju_sessions u\<rparr>)
     else (ret, u1\<lparr>ju_sessions := ju_sessions u @ [(se_sessionId s0, s1)]\<rparr>))"
proof -
  let ?k = "se_sessionId s0"
  have "find_session ?k u = None" unfolding find_session_def by (rule find_last [OF assms(1)])
  then show ?thesis
    using assms(2-4) insert_last [of "ju_sessions u" ?k s0, OF assms(1)] assign_last [of "ju_sessions u" ?k s1 s0, OF assms(1)]
      erase_last [of "ju_sessions u" ?k s1, OF assms(1)]
    by (simp add: start_and_keep_def AddSession_def RemoveSession_def put_session_def)
qed

text \<open>A subscription that \<open>off\<close> leaves alone.\<close>

definition other_listener ::
  "('v, 'r, 'd, 'w, 'h) napi \<Rightarrow> ('v, 'r, 'd, 'w, 'h) js_obs \<Rightarrow> 'h \<Rightarrow> EventClassifyInfo \<Rightarrow> 'v \<Rightarrow> ('r, 'd, 'w, 'c, 'k) Session \<Rightarrow> bool" where
  "other_listener N Ob h e handle s \<longleftrightarrow> (sp_type (se_params s) = SESSION_SUBSCRIBE \<longrightarrow>
     \<not> (IsSubscribeEvent e s \<and> (handle = np_nullptr N \<or> jo_ref Ob h (se_handlerRef s) = Some handle)))"

section \<open>The work of a session\<close>

context napi_engine
begin

lemma worker_name:
  assumes "jo_ready Ob h"
  shows "\<exists>v h'. run_state (CreateWorkerName N s) h = (v, h') \<and> only_changes Ob {} h h' \<and> v \<in> jo_live Ob h' \<and> v \<noteq> np_nullptr N"
proof -
  obtain v h' where "run_state (np_create_string_utf8 N (''Async Work'' @ to_string_int (uint (se_sessionId s))) (np_wild N)) h = ((napi_ok, v), h')"
      "only_changes Ob {} h h'" "v \<in> jo_live Ob h'"
    using create_string [OF assms] by blast
  moreover from this(3) null_not_live have "v \<noteq> np_nullptr N" by metis
  ultimately show ?thesis by (simp add: CreateWorkerName_def)
qed

lemma work_queued:
  assumes "jo_ready Ob (ju_heap u)" and "name \<in> jo_live Ob (ju_heap u)"
  shows "\<exists>j h'. run_state (queue_work N name s) u =
      ((True, s\<lparr>se_worker := j\<rparr>), u\<lparr>ju_heap := h', ju_queued := ju_queued u @ [se_sessionId s]\<rparr>) \<and>
    jo_ready Ob h' \<and> keeps_values Ob {} (ju_heap u) h' \<and> \<not> jo_work Ob (ju_heap u) j \<and>
    jo_work Ob h' = (jo_work Ob (ju_heap u))(j := True) \<and> jo_ref Ob h' = jo_ref Ob (ju_heap u) \<and>
    jo_deferred Ob h' = jo_deferred Ob (ju_heap u)"
proof -
  obtain j h1 where c: "run_state (np_create_async_work N name (se_sessionId s) (se_worker s)) (ju_heap u) = ((napi_ok, j), h1)"
      "jo_ready Ob h1" "keeps_values Ob {} (ju_heap u) h1" "\<not> jo_work Ob (ju_heap u) j"
      "jo_work Ob h1 = (jo_work Ob (ju_heap u))(j := True)" "jo_ref Ob h1 = jo_ref Ob (ju_heap u)"
      "jo_deferred Ob h1 = jo_deferred Ob (ju_heap u)"
    using create_work [OF assms] by blast
  then obtain h2 where q: "run_state (np_queue_async_work N j) h1 = (napi_ok, h2)" "only_changes Ob {} h1 h2"
    using queue_work [of h1 j] by auto
  then have "keeps_values Ob {} (ju_heap u) h2" using c(3) by (auto simp: only_changes_def intro: keeps_values_trans)
  moreover have "run_state (queue_work N name s) u =
      ((True, s\<lparr>se_worker := j\<rparr>), u\<lparr>ju_heap := h2, ju_queued := ju_queued u @ [se_sessionId s]\<rparr>)"
    using c(1) q(1) by (simp add: queue_work_def Let_def)
  moreover have "jo_ready Ob h2" "jo_work Ob h2 = (jo_work Ob (ju_heap u))(j := True)" "jo_ref Ob h2 = jo_ref Ob (ju_heap u)"
      "jo_deferred Ob h2 = jo_deferred Ob (ju_heap u)"
    using c(5-7) q(2) by (simp_all add: only_changes_def same_handles_def)
  ultimately show ?thesis using c(4) by blast
qed

section \<open>Promises\<close>

lemma promise_started:
  assumes "jo_ready Ob (ju_heap u)"
  shows "\<exists>p j d h'. run_state (UpdatePromiseSession_StartWork N i args s) u =
      ((p, s\<lparr>se_deferred := d, se_worker := j\<rparr>), u\<lparr>ju_heap := h', ju_queued := ju_queued u @ [se_sessionId s]\<rparr>) \<and>
    p \<in> jo_live Ob h' \<and> p \<noteq> np_nullptr N \<and> jo_ready Ob h' \<and> keeps_values Ob {} (ju_heap u) h' \<and> keeps_handles Ob (ju_heap u) h' \<and>
    \<not> jo_work Ob (ju_heap u) j \<and> jo_work Ob h' j \<and> jo_deferred Ob (ju_heap u) d = None \<and> jo_deferred Ob h' d = Some Pending"
proof -
  obtain name h1 where n: "run_state (CreateWorkerName N s) (ju_heap u) = (name, h1)" "only_changes Ob {} (ju_heap u) h1"
      "name \<in> jo_live Ob h1" "name \<noteq> np_nullptr N"
    using worker_name [OF assms] by blast
  obtain d p h2 where p: "run_state (np_create_promise N (se_deferred s) (np_wild N)) h1 = ((napi_ok, d, p), h2)"
      "jo_ready Ob h2" "keeps_values Ob {} h1 h2" "p \<in> jo_live Ob h2" "jo_deferred Ob h1 d = None"
      "jo_deferred Ob h2 = (jo_deferred Ob h1)(d \<mapsto> Pending)" "jo_ref Ob h2 = jo_ref Ob h1" "jo_work Ob h2 = jo_work Ob h1"
    using create_promise [OF only_changes_ready [OF n(2)]] by blast
  let ?u = "u\<lparr>ju_heap := h2\<rparr>" and ?s = "s\<lparr>se_deferred := d\<rparr>"
  have name2: "name \<in> jo_live Ob (ju_heap ?u)" using n(3) p(3) by (auto simp: keeps_values_def)
  obtain j h3 where q: "run_state (queue_work N name ?s) ?u =
      ((True, ?s\<lparr>se_worker := j\<rparr>), ?u\<lparr>ju_heap := h3, ju_queued := ju_queued ?u @ [se_sessionId ?s]\<rparr>)"
      "jo_ready Ob h3" "keeps_values Ob {} h2 h3" "\<not> jo_work Ob h2 j" "jo_work Ob h3 = (jo_work Ob h2)(j := True)"
      "jo_ref Ob h3 = jo_ref Ob h2" "jo_deferred Ob h3 = jo_deferred Ob h2"
    using work_queued [of ?u name ?s] p(2) name2 by auto
  have keep: "keeps_values Ob {} (ju_heap u) h3"
    using n(2) p(3) q(3) by (auto simp: only_changes_def intro: keeps_values_trans)
  have "p \<noteq> np_nullptr N" using null_not_live p(4) by metis
  moreover have "keeps_handles Ob (ju_heap u) h3"
    using keep n(2) p q(4-7) by (auto simp: keeps_handles_def keeps_values_def only_changes_def same_handles_def)
  moreover have "run_state (UpdatePromiseSession_StartWork N i args s) u =
      ((p, s\<lparr>se_deferred := d, se_worker := j\<rparr>), u\<lparr>ju_heap := h3, ju_queued := ju_queued u @ [se_sessionId s]\<rparr>)"
    using n(1,4) p(1) q(1) by (simp add: UpdatePromiseSession_StartWork_def Let_def)
  moreover have "p \<in> jo_live Ob h3" "\<not> jo_work Ob (ju_heap u) j" "jo_work Ob h3 j" "jo_deferred Ob (ju_heap u) d = None"
      "jo_deferred Ob h3 d = Some Pending"
    using n(2) p(4-8) q(3-7) by (auto simp: only_changes_def same_handles_def keeps_values_def)
  ultimately show ?thesis using q(2) keep by blast
qed

section \<open>Callbacks\<close>

text \<open>Without a callback to take, and with one.\<close>

lemma work_started:
  assumes "jo_ready Ob (ju_heap u)" and "i \<le> se_totalArgc s" and "se_callbackNumber s = 0"
  shows "\<exists>v j h'. run_state (UpdateAsyncession_StartWork N i args s) u =
      ((v, s\<lparr>se_worker := j\<rparr>), u\<lparr>ju_heap := h', ju_queued := ju_queued u @ [se_sessionId s]\<rparr>) \<and>
    v \<noteq> np_nullptr N \<and> jo_ready Ob h' \<and> keeps_handles Ob (ju_heap u) h' \<and> \<not> jo_work Ob (ju_heap u) j \<and> jo_work Ob h' j"
proof -
  obtain name h1 where n: "run_state (CreateWorkerName N s) (ju_heap u) = (name, h1)" "only_changes Ob {} (ju_heap u) h1"
      "name \<in> jo_live Ob h1" "name \<noteq> np_nullptr N"
    using worker_name [OF assms(1)] by blast
  let ?u = "u\<lparr>ju_heap := h1\<rparr>"
  obtain j h2 where q: "run_state (queue_work N name s) ?u =
      ((True, s\<lparr>se_worker := j\<rparr>), ?u\<lparr>ju_heap := h2, ju_queued := ju_queued ?u @ [se_sessionId s]\<rparr>)"
      "jo_ready Ob h2" "keeps_values Ob {} h1 h2" "\<not> jo_work Ob h1 j" "jo_work Ob h2 = (jo_work Ob h1)(j := True)"
      "jo_ref Ob h2 = jo_ref Ob h1" "jo_deferred Ob h2 = jo_deferred Ob h1"
    using work_queued [of ?u name s] n(2,3) by (auto simp: only_changes_def)
  obtain v h3 where v: "run_state (np_create_int32 N 0 (np_wild N)) h2 = ((napi_ok, v), h3)" "only_changes Ob {} h2 h3" "v \<in> jo_live Ob h3"
    using create_int32 [OF q(2)] by blast
  have "v \<noteq> np_nullptr N" using null_not_live v(3) by metis
  moreover have "keeps_handles Ob (ju_heap u) h3"
    using n(2) q(3-7) v(2) by (auto simp: keeps_handles_def keeps_values_def only_changes_def same_handles_def)
  moreover have "run_state (UpdateAsyncession_StartWork N i args s) u =
      ((v, s\<lparr>se_worker := j\<rparr>), u\<lparr>ju_heap := h3, ju_queued := ju_queued u @ [se_sessionId s]\<rparr>)"
    using assms(2,3) n(1,4) q(1) v(1) by (simp add: UpdateAsyncession_StartWork_def)
  moreover have "jo_ready Ob h3" "\<not> jo_work Ob (ju_heap u) j" "jo_work Ob h3 j"
    using n(2) q(4,5) v(2) by (auto simp: only_changes_def same_handles_def)
  ultimately show ?thesis by blast
qed

lemma callback_started:
  assumes "jo_ready Ob (ju_heap u)" and "i < se_totalArgc s" and "se_callbackNumber s = 1" and "length (se_callbackRef s) = 1"
    and "args ! i \<in> jo_live Ob (ju_heap u)"
  shows "jo_view Ob (ju_heap u) (args ! i) = JsFunction \<Longrightarrow>
      \<exists>v j r h'. run_state (UpdateAsyncession_StartWork N i args s) u =
        ((v, s\<lparr>se_callbackRef := [r], se_worker := j\<rparr>), u\<lparr>ju_heap := h', ju_queued := ju_queued u @ [se_sessionId s]\<rparr>) \<and>
      v \<noteq> np_nullptr N \<and> jo_ready Ob h' \<and> keeps_handles Ob (ju_heap u) h' \<and> \<not> jo_work Ob (ju_heap u) j \<and> jo_work Ob h' j \<and>
      jo_ref Ob (ju_heap u) r = None \<and> jo_ref Ob h' r = Some (args ! i)"
    and "typeof_view (jo_view Ob (ju_heap u) (args ! i)) \<noteq> napi_function \<Longrightarrow>
      \<exists>h'. run_state (UpdateAsyncession_StartWork N i args s) u = ((np_nullptr N, s), u\<lparr>ju_heap := h'\<rparr>) \<and>
        keeps_handles Ob (ju_heap u) h' \<and> \<not> jo_ready Ob h'"
proof -
  have range: "[0..<min (se_totalArgc s - i) (se_callbackNumber s)] = [0]" using assms(2,3) by simp
  obtain name h1 where n: "run_state (CreateWorkerName N s) (ju_heap u) = (name, h1)" "only_changes Ob {} (ju_heap u) h1"
      "name \<in> jo_live Ob h1" "name \<noteq> np_nullptr N"
    using worker_name [OF assms(1)] by blast
  note r1 = only_changes_ready [OF n(2)] only_changes_live [OF n(2) assms(5)]
  have view: "jo_view Ob h1 (args ! i) = jo_view Ob (ju_heap u) (args ! i)" by (rule only_changes_view [OF n(2) assms(5)]) simp
  { assume "jo_view Ob (ju_heap u) (args ! i) = JsFunction"
    then have ty: "run_state (NapiUtil_IsTypeOf N (args ! i) napi_function) h1 = (CLIENT_SUCCESS, h1)"
      using IsTypeOf_value [OF r1] view by simp
    obtain r h2 where r: "run_state (np_create_reference N (args ! i) 1 (se_callbackRef s ! 0)) h1 = ((napi_ok, r), h2)" "jo_ready Ob h2"
        "keeps_values Ob {} h1 h2" "jo_ref Ob h1 r = None" "jo_ref Ob h2 = (jo_ref Ob h1)(r \<mapsto> args ! i)"
        "jo_deferred Ob h2 = jo_deferred Ob h1" "jo_work Ob h2 = jo_work Ob h1"
      using create_reference [OF r1, of 1 "se_callbackRef s ! 0"] by auto
    have ref: "(se_callbackRef s)[0 := r] = [r]" using assms(4) by (cases "se_callbackRef s") auto
    have loop: "run_state (callback_loop N args i [0] s) h1 = ((True, s\<lparr>se_callbackRef := [r]\<rparr>), h2)"
      using ty r(1) ref by (simp add: NapiUtil_CreateReference_def)
    let ?u = "u\<lparr>ju_heap := h2\<rparr>" and ?s = "s\<lparr>se_callbackRef := [r]\<rparr>"
    have name2: "name \<in> jo_live Ob h2" using n(3) r(3) by (auto simp: keeps_values_def)
    obtain j h3 where q: "run_state (queue_work N name ?s) ?u =
        ((True, ?s\<lparr>se_worker := j\<rparr>), ?u\<lparr>ju_heap := h3, ju_queued := ju_queued ?u @ [se_sessionId ?s]\<rparr>)"
        "jo_ready Ob h3" "keeps_values Ob {} h2 h3" "\<not> jo_work Ob h2 j" "jo_work Ob h3 = (jo_work Ob h2)(j := True)"
        "jo_ref Ob h3 = jo_ref Ob h2" "jo_deferred Ob h3 = jo_deferred Ob h2"
      using work_queued [of ?u name ?s] r(2) name2 by auto
    obtain v h4 where v: "run_state (np_create_int32 N 0 (np_wild N)) h3 = ((napi_ok, v), h4)" "only_changes Ob {} h3 h4" "v \<in> jo_live Ob h4"
      using create_int32 [OF q(2)] by blast
    have "v \<noteq> np_nullptr N" using null_not_live v(3) by metis
    moreover have "keeps_values Ob {} (ju_heap u) h4"
      using n(2) r(3) q(3) v(2) by (auto simp: only_changes_def intro: keeps_values_trans)
    then have "keeps_handles Ob (ju_heap u) h4"
      using n(2) r(4-7) q(4-7) v(2) by (auto simp: keeps_handles_def keeps_values_def only_changes_def same_handles_def)
    moreover have "run_state (UpdateAsyncession_StartWork N i args s) u =
        ((v, ?s\<lparr>se_worker := j\<rparr>), u\<lparr>ju_heap := h4, ju_queued := ju_queued u @ [se_sessionId s]\<rparr>)"
      using assms(2) n loop q(1) v(1) unfolding UpdateAsyncession_StartWork_def range by simp
    moreover have "jo_ready Ob h4" "\<not> jo_work Ob (ju_heap u) j" "jo_work Ob h4 j" "jo_ref Ob (ju_heap u) r = None" "jo_ref Ob h4 r = Some (args ! i)"
      using n(2) r(4-7) q(4-7) v(2) by (auto simp: only_changes_def same_handles_def)
    ultimately show "\<exists>v j r h'. run_state (UpdateAsyncession_StartWork N i args s) u =
        ((v, s\<lparr>se_callbackRef := [r], se_worker := j\<rparr>), u\<lparr>ju_heap := h', ju_queued := ju_queued u @ [se_sessionId s]\<rparr>) \<and>
      v \<noteq> np_nullptr N \<and> jo_ready Ob h' \<and> keeps_handles Ob (ju_heap u) h' \<and> \<not> jo_work Ob (ju_heap u) j \<and> jo_work Ob h' j \<and>
      jo_ref Ob (ju_heap u) r = None \<and> jo_ref Ob h' r = Some (args ! i)"
      by blast }
  { assume "typeof_view (jo_view Ob (ju_heap u) (args ! i)) \<noteq> napi_function"
    then have ty: "run_state (NapiUtil_IsTypeOf N (args ! i) napi_function) h1 = (CLIENT_INVALID_TYPE, h1)"
      using IsTypeOf_value [OF r1] view by simp
    obtain h2 where t: "run_state (NapiThrowParamError N [(''callback'', ''napi_function'')]) h1 = ((), h2)" "\<not> jo_ready Ob h2"
        "keeps_values Ob {} h1 h2" "same_handles Ob h1 h2"
      using throws_param_error [OF r1(1)] by blast
    have "keeps_handles Ob (ju_heap u) h2"
      by (rule keeps_handles_trans [OF keeps_handles_changes [OF n(2)] keeps_handles_same [OF t(3,4)]])
    moreover have "run_state (UpdateAsyncession_StartWork N i args s) u = ((np_nullptr N, s), u\<lparr>ju_heap := h2\<rparr>)"
      using assms(2) n ty t(1) unfolding UpdateAsyncession_StartWork_def range by simp
    ultimately show "\<exists>h'. run_state (UpdateAsyncession_StartWork N i args s) u = ((np_nullptr N, s), u\<lparr>ju_heap := h'\<rparr>) \<and>
        keeps_handles Ob (ju_heap u) h' \<and> \<not> jo_ready Ob h'"
      using t(2) by blast }
qed

section \<open>Reading an argument\<close>

lemma GetString_value_pure:
  assumes "jo_ready Ob h" and "w \<in> jo_live Ob h" and "\<And>t. jo_view Ob h w \<noteq> JsOther t"
  shows "\<exists>r. run_state (NapiUtil_GetString_value N w s0) h = (r, h)"
  using assms(3) type_of [OF assms(1,2), of napi_undefined] value_string [OF assms(1,2), where n = STRING_MAX_LENGTH]
  by (cases "jo_view Ob h w") (auto simp: NapiUtil_GetString_value_def STRING_MAX_LENGTH_def)

lemma GetString_pure:
  assumes "jo_ready Ob h" and "v \<in> jo_live Ob h" and "jo_view Ob h v = JsObject m" and "own_name k"
    and "\<And>w t. m k = Some w \<Longrightarrow> jo_view Ob h w \<noteq> JsOther t"
  shows "\<exists>r. run_state (NapiUtil_GetString N v k s0) h = (r, h)"
proof (cases "m k")
  case (Some w)
  then obtain r where "run_state (NapiUtil_GetString_value N w s0) h = (r, h)"
    using GetString_value_pure [OF assms(1) member_live [OF assms(1-3) Some], where ?s0.0 = s0] assms(5) by blast
  then show ?thesis
    using has_named [OF assms(1-4), of False] get_named [OF assms(1-3) Some assms(4)] Some by (auto simp: NapiUtil_GetString_def)
qed (use GetString_reads(1) [OF assms(1-4)] in auto)

lemma GetInt32_pure:
  assumes "jo_ready Ob h" and "v \<in> jo_live Ob h" and "jo_view Ob h v = JsObject m" and "own_name k"
    and "\<And>w t. m k = Some w \<Longrightarrow> jo_view Ob h w \<noteq> JsOther t"
  shows "\<exists>i'. run_state (NapiUtil_GetInt32 N v k i) h = (i', h)"
proof (cases "m k")
  case (Some w)
  then show ?thesis
    using GetInt32_reads(2,3) [OF assms(1-4) Some, where i = i] assms(5) [OF Some] by (cases "jo_view Ob h w") auto
qed (use GetInt32_reads(1) [OF assms(1-4)] in auto)

lemma GetEventClassifyInfo_pure:
  assumes "jo_ready Ob h" and "plain_arg Ob h v"
  shows "\<exists>r. run_state (GetEventClassifyInfoFromArg N v e) h = (r, h)"
proof -
  have live: "v \<in> jo_live Ob h" using assms(2) by (simp add: plain_arg_def)
  note ty = type_of [OF assms(1) live, of napi_undefined]
  show ?thesis
  proof (cases "typeof_view (jo_view Ob h v) = napi_object")
    case False
    then show ?thesis using ty by (simp add: GetEventClassifyInfoFromArg_def)
  next
    case True
    then obtain m where m: "jo_view Ob h v = JsObject m" and plain: "\<And>k w t. m k = Some w \<Longrightarrow> jo_view Ob h w \<noteq> JsOther t"
      using assms(2) by (cases "jo_view Ob h v") (auto simp: plain_arg_def)
    have own: "own_name ''eventClassify''" "own_name ''extraInfo''" by (simp_all add: own_names)
    obtain i where i: "run_state (NapiUtil_GetInt32 N v ''eventClassify'' 0) h = (i, h)"
      using GetInt32_pure [OF assms(1) live m own(1), where i = 0] plain by blast
    obtain r where r: "run_state (NapiUtil_GetString N v ''extraInfo'' (ec_extraInfo e)) h = (r, h)"
      using GetString_pure [OF assms(1) live m own(2), where ?s0.0 = "ec_extraInfo e"] plain by blast
    show ?thesis using ty True i r by (cases r) (simp add: GetEventClassifyInfoFromArg_def Let_def)
  qed
qed

section \<open>Subscriptions\<close>

lemma listener_started:
  assumes "jo_ready Ob (ju_heap u)" and "plain_arg Ob (ju_heap u) (args ! 0)" and "args ! i \<in> jo_live Ob (ju_heap u)"
  shows "\<exists>ret s' h'. run_state (UpdateListener_StartWork N i args s) u = ((ret, s'), u\<lparr>ju_heap := h'\<rparr>) \<and>
    keeps_handles Ob (ju_heap u) h' \<and> se_sessionId s' = se_sessionId s \<and> se_class s' = se_class s \<and> se_params s' = se_params s \<and>
    se_callbackRef s' = se_callbackRef s \<and> se_callbackNumber s' = se_callbackNumber s \<and>
    (ret \<noteq> np_nullptr N \<longrightarrow> jo_ready Ob h' \<and> jo_ref Ob (ju_heap u) (se_handlerRef s') = None \<and>
       jo_ref Ob h' (se_handlerRef s') = Some (args ! i))"
proof -
  let ?h = "ju_heap u"
  have live: "args ! 0 \<in> jo_live Ob ?h" using assms(2) by (simp add: plain_arg_def)
  note ty0 = IsTypeOf_value [OF assms(1) live, of napi_string] and ty = IsTypeOf_value [OF assms(1,3), of napi_function]
  obtain good s1 where read: "run_state (if typeof_view (jo_view Ob ?h (args ! 0)) = napi_string then do {
             (ret, eventType) \<leftarrow> NapiUtil_GetString_value N (args ! 0) (se_eventType s);
             State_Monad.return (ret = napi_ok, s\<lparr>se_eventType := eventType\<rparr>)
           } else do {
             (ret, info) \<leftarrow> GetEventClassifyInfoFromArg N (args ! 0) (se_eventClassifyInfo s);
             State_Monad.return (ret = CLIENT_SUCCESS, s\<lparr>se_eventClassifyInfo := info\<rparr>)
           }) ?h = ((good, s1), ?h)"
    and same: "se_sessionId s1 = se_sessionId s" "se_class s1 = se_class s" "se_params s1 = se_params s"
      "se_callbackRef s1 = se_callbackRef s" "se_callbackNumber s1 = se_callbackNumber s"
  proof (cases "typeof_view (jo_view Ob ?h (args ! 0)) = napi_string")
    case True
    have "jo_view Ob ?h (args ! 0) \<noteq> JsOther t" for t using assms(2) by (auto simp: plain_arg_def)
    then obtain r where "run_state (NapiUtil_GetString_value N (args ! 0) (se_eventType s)) ?h = (r, ?h)"
      using GetString_value_pure [OF assms(1) live, where ?s0.0 = "se_eventType s"] by blast
    with True that show ?thesis by (cases r) simp
  next
    case False
    obtain r where "run_state (GetEventClassifyInfoFromArg N (args ! 0) (se_eventClassifyInfo s)) ?h = (r, ?h)"
      using GetEventClassifyInfo_pure [OF assms(1,2)] by blast
    with False that show ?thesis by (cases r) simp
  qed
  let ?k = "\<lambda>(good, s). if \<not> good then State_Monad.return (np_nullptr N, s)
      else NapiUtil_IsTypeOf N (args ! i) napi_function \<bind> (\<lambda>isFunction.
        if isFunction \<noteq> CLIENT_SUCCESS then State_Monad.return (np_nullptr N, s)
        else NapiUtil_CreateReference N (args ! i) 1 (se_handlerRef s) \<bind> (\<lambda>(ret, r).
          if ret \<noteq> CLIENT_SUCCESS then State_Monad.return (np_nullptr N, s\<lparr>se_handlerRef := r\<rparr>)
          else np_create_int32 N 0 (np_wild N) \<bind> (\<lambda>(_, result). State_Monad.return (result, s\<lparr>se_handlerRef := r\<rparr>))))"
  have run: "run_state (UpdateListener_StartWork N i args s) u =
      (if \<not> i < se_totalArgc s then ((np_nullptr N, s), u)
       else let (x, h) = run_state (?k (good, s1)) ?h in (x, u\<lparr>ju_heap := h\<rparr>))"
    using read ty0 by (cases "typeof_view (jo_view Ob ?h (args ! 0)) = napi_string")
      (simp_all add: UpdateListener_StartWork_def Let_def case_prod_unfold)
  show ?thesis
  proof (cases "i < se_totalArgc s \<and> good \<and> typeof_view (jo_view Ob ?h (args ! i)) = napi_function")
    case False
    then have "run_state (UpdateListener_StartWork N i args s) u = ((np_nullptr N, if i < se_totalArgc s then s1 else s), u\<lparr>ju_heap := ?h\<rparr>)"
      using run ty by auto
    then show ?thesis
      using same by (intro exI [of _ "np_nullptr N"] exI [of _ "if i < se_totalArgc s then s1 else s"] exI [of _ ?h] conjI) auto
  next
    case True
    obtain r h1 where r: "run_state (np_create_reference N (args ! i) 1 (se_handlerRef s1)) ?h = ((napi_ok, r), h1)" "jo_ready Ob h1"
        "keeps_values Ob {} ?h h1" "jo_ref Ob ?h r = None" "jo_ref Ob h1 = (jo_ref Ob ?h)(r \<mapsto> args ! i)"
        "jo_deferred Ob h1 = jo_deferred Ob ?h" "jo_work Ob h1 = jo_work Ob ?h"
      using create_reference [OF assms(1,3), of 1 "se_handlerRef s1"] by auto
    obtain v h2 where v: "run_state (np_create_int32 N 0 (np_wild N)) h1 = ((napi_ok, v), h2)" "only_changes Ob {} h1 h2" "v \<in> jo_live Ob h2"
      using create_int32 [OF r(2)] by blast
    have "run_state (UpdateListener_StartWork N i args s) u = ((v, s1\<lparr>se_handlerRef := r\<rparr>), u\<lparr>ju_heap := h2\<rparr>)"
      using run True ty r(1) v(1) by (simp add: NapiUtil_CreateReference_def)
    moreover have "keeps_handles Ob ?h h2"
      using r(3-7) v(2) by (auto simp: keeps_handles_def keeps_values_def only_changes_def same_handles_def)
    moreover have "jo_ready Ob h2" "jo_ref Ob h2 r = Some (args ! i)" using r(5) v(2) by (auto simp: only_changes_def same_handles_def)
    ultimately show ?thesis
      using r(4) same by (intro exI [of _ v] exI [of _ "s1\<lparr>se_handlerRef := r\<rparr>"] exI [of _ h2] conjI) auto
  qed
qed

section \<open>Looking for listeners\<close>

lemma IsSameListener_pure:
  assumes "jo_ready Ob h" and "jo_ref Ob h (se_handlerRef s) = Some f"
    and "IsSubscribeEvent e s \<Longrightarrow> handler \<in> jo_live Ob h"
  shows "\<exists>same. run_state (IsSameListener N e handler s) h = (same, h) \<and>
    (jo_view Ob h handler = JsFunction \<longrightarrow> same = (IsSubscribeEvent e s \<and> f = handler))"
proof (cases "IsSubscribeEvent e s")
  case True
  note live = assms(3) [OF True] reference_live [OF assms(2)]
  obtain st x where "run_state (np_strict_equals N handler f False) h = ((st, x), h)"
    using strict_equals_any [OF assms(1) live] by blast
  moreover have "jo_view Ob h handler = JsFunction \<Longrightarrow> run_state (np_strict_equals N handler f False) h = ((napi_ok, handler = f), h)"
    by (rule strict_equals [OF assms(1) live])
  ultimately show ?thesis
    using True reference_value [OF assms(1,2), of "np_nullptr N"] by (auto simp: IsSameListener_def IsSubscribeEvent_def)
qed (auto simp: IsSameListener_def IsSubscribeEvent_def)

lemma unsubscribe_loop_result:
  assumes "jo_ready Ob h" and "handle = np_nullptr N \<or> handle \<in> jo_live Ob h"
    and "\<And>k s. (k, s) \<in> set m \<Longrightarrow> sp_type (se_params s) = SESSION_SUBSCRIBE \<Longrightarrow> jo_ref Ob h (se_handlerRef s) \<noteq> None"
  shows "\<exists>m'. run_state (unsubscribe_loop N e handle m) h = (m', h) \<and> set m' \<subseteq> set m \<and>
    (\<forall>k s. (k, s) \<in> set m \<longrightarrow> sp_type (se_params s) \<noteq> SESSION_SUBSCRIBE \<longrightarrow> (k, s) \<in> set m') \<and>
    (om_ordered id_less m \<longrightarrow> om_ordered id_less m') \<and>
    (handle = np_nullptr N \<or> jo_view Ob h handle = JsFunction \<longrightarrow> m' = filter (\<lambda>(k, s). other_listener N Ob h e handle s) m)"
  using assms(3)
proof (induction m)
  case Nil
  show ?case by simp
next
  case (Cons p m)
  obtain k s where p: "p = (k, s)" by force
  obtain m' where m': "run_state (unsubscribe_loop N e handle m) h = (m', h)" "set m' \<subseteq> set m"
      "\<forall>k s. (k, s) \<in> set m \<longrightarrow> sp_type (se_params s) \<noteq> SESSION_SUBSCRIBE \<longrightarrow> (k, s) \<in> set m'"
      "om_ordered id_less m \<longrightarrow> om_ordered id_less m'"
      "handle = np_nullptr N \<or> jo_view Ob h handle = JsFunction \<longrightarrow> m' = filter (\<lambda>(k, s). other_listener N Ob h e handle s) m"
    using Cons.IH Cons.prems by (metis list.set_intros(2))
  have ord: "om_ordered id_less (p # m) \<Longrightarrow> om_ordered id_less m' \<and> om_ordered id_less (p # m')"
    using m'(2,4) by (auto simp: p im.ordered_Cons)
  consider (other) "sp_type (se_params s) \<noteq> SESSION_SUBSCRIBE"
    | (all) "sp_type (se_params s) = SESSION_SUBSCRIBE" "handle = np_nullptr N" "IsSubscribeEvent e s"
    | (one) f where "sp_type (se_params s) = SESSION_SUBSCRIBE" "\<not> (handle = np_nullptr N \<and> IsSubscribeEvent e s)"
        "jo_ref Ob h (se_handlerRef s) = Some f"
    using Cons.prems [of k s] by (auto simp: p)
  then show ?case
  proof cases
    case other
    then show ?thesis
      using m'(1,2,3,5) ord by (intro exI [of _ "(k, s) # m'"]) (auto simp: p other_listener_def)
  next
    case all
    then show ?thesis
      using m'(1,2,3,5) ord by (intro exI [of _ m']) (auto simp: p other_listener_def)
  next
    case one
    then obtain same where same: "run_state (IsSameListener N e handle s) h = (same, h)"
        "jo_view Ob h handle = JsFunction \<longrightarrow> same = (IsSubscribeEvent e s \<and> f = handle)"
        "handle = np_nullptr N \<Longrightarrow> \<not> same"
      using IsSameListener_pure [OF assms(1) one(3), of e handle] assms(2)
      by (cases "IsSubscribeEvent e s") (auto simp: IsSameListener_def IsSubscribeEvent_def)
    have run: "run_state (unsubscribe_loop N e handle (p # m)) h = (if same then m' else p # m', h)"
      using one(1,2) same(1) m'(1) by (auto simp: p)
    show ?thesis
      unfolding run
    proof (intro exI conjI impI allI)
      show "(if same then m' else p # m', h) = (if same then m' else p # m', h)" ..
      assume "handle = np_nullptr N \<or> jo_view Ob h handle = JsFunction"
      then show "(if same then m' else p # m') = filter (\<lambda>(k, s). other_listener N Ob h e handle s) (p # m)"
        using m'(5) same(2,3) one by (auto simp: p other_listener_def)
    qed (use m'(2,3) ord one(1) in \<open>auto simp: p split: if_splits\<close>)
  qed
qed

lemma find_by_handle_pure:
  assumes "jo_ready Ob h" and "handle \<in> jo_live Ob h"
    and "\<And>k s. (k, s) \<in> set m \<Longrightarrow> sp_type (se_params s) = SESSION_SUBSCRIBE \<Longrightarrow> jo_ref Ob h (se_handlerRef s) \<noteq> None"
  shows "\<exists>r. run_state (find_by_handle_loop N e handle m) h = (r, h) \<and>
    (jo_view Ob h handle = JsFunction \<longrightarrow> (r = None \<longleftrightarrow> (\<forall>(k, s) \<in> set m. other_listener N Ob h e handle s)))"
  using assms(3)
proof (induction m)
  case (Cons p m)
  obtain k s where p: "p = (k, s)" by force
  have ne: "handle \<noteq> np_nullptr N" using null_not_live assms(2) by metis
  obtain r where r: "run_state (find_by_handle_loop N e handle m) h = (r, h)"
      "jo_view Ob h handle = JsFunction \<longrightarrow> (r = None \<longleftrightarrow> (\<forall>(k, s) \<in> set m. other_listener N Ob h e handle s))"
    using Cons.IH Cons.prems by (metis list.set_intros(2))
  show ?case
  proof (cases "sp_type (se_params s) = SESSION_SUBSCRIBE")
    case True
    then obtain f where f: "jo_ref Ob h (se_handlerRef s) = Some f" using Cons.prems [of k s] by (auto simp: p)
    obtain same where same: "run_state (IsSameListener N e handle s) h = (same, h)"
        "jo_view Ob h handle = JsFunction \<longrightarrow> same = (IsSubscribeEvent e s \<and> f = handle)"
      using IsSameListener_pure [OF assms(1) f assms(2)] by blast
    then show ?thesis using r True f ne by (auto simp: p other_listener_def)
  qed (use r in \<open>auto simp: p other_listener_def\<close>)
qed simp

section \<open>The invariant is kept\<close>

lemma inv_started:
  assumes inv: "sessions_inv Ob X u" and room: "uint (ju_sessionId u) + 1 < 2 ^ 32" and id: "se_sessionId s0 = ju_sessionId u + 1"
    and run: "run_state (StartWork N args worker s0)
        (u\<lparr>ju_sessionId := ju_sessionId u + 1, ju_sessions := ju_sessions u @ [(ju_sessionId u + 1, s0)]\<rparr>) =
      ((ret, s1), u\<lparr>ju_sessionId := ju_sessionId u + 1, ju_sessions := ju_sessions u @ [(ju_sessionId u + 1, s0)], ju_heap := h',
        ju_queued := ju_queued u @ (if ret = np_nullptr N \<or> se_class s1 = UpdateListener then [] else [ju_sessionId u + 1])\<rparr>)"
    and keep: "keeps_handles Ob (ju_heap u) h'" and id1: "se_sessionId s1 = ju_sessionId u + 1"
    and new: "ret \<noteq> np_nullptr N \<Longrightarrow> session_ok s1 \<and> holds Ob h' s1 \<and> (\<forall>w \<in> works_of s1. \<not> jo_work Ob (ju_heap u) w) \<and>
        (\<forall>r \<in> refs_of s1. jo_ref Ob (ju_heap u) r = None) \<and> (\<forall>d \<in> deferreds_of s1. jo_deferred Ob (ju_heap u) d = None)"
  shows "advances Ob X u (snd (run_state (start_and_keep N args worker s0) (u\<lparr>ju_sessionId := ju_sessionId u + 1\<rparr>)))"
proof -
  let ?u = "u\<lparr>ju_sessionId := ju_sessionId u + 1\<rparr>"
  have less: "j < se_sessionId s0" if "(j, s) \<in> set (ju_sessions ?u)" for j s
    using inv_new_id [OF inv room] that id by simp
  have final: "run_state (start_and_keep N args worker s0) ?u =
    (if ret = np_nullptr N then (np_nullptr N, u\<lparr>ju_sessionId := ju_sessionId u + 1, ju_heap := h'\<rparr>)
     else (ret, u\<lparr>ju_sessionId := ju_sessionId u + 1, ju_sessions := ju_sessions u @ [(ju_sessionId u + 1, s1)], ju_heap := h',
        ju_queued := ju_queued u @ (if se_class s1 = UpdateListener then [] else [ju_sessionId u + 1])\<rparr>))"
  proof -
    let ?v = "u\<lparr>ju_sessionId := ju_sessionId u + 1, ju_sessions := ju_sessions u @ [(ju_sessionId u + 1, s0)], ju_heap := h',
        ju_queued := ju_queued u @ (if ret = np_nullptr N \<or> se_class s1 = UpdateListener then [] else [ju_sessionId u + 1])\<rparr>"
    have "run_state (StartWork N args worker s0) (?u\<lparr>ju_sessions := ju_sessions ?u @ [(se_sessionId s0, s0)]\<rparr>) = ((ret, s1), ?v)"
      using run id by simp
    from start_and_keep_last [OF less this] id id1 show ?thesis by simp
  qed
  show ?thesis
  proof (cases "ret = np_nullptr N")
    case True
    have "ju_sessionId u \<le> ju_sessionId u + 1" using room by (simp add: word_le_def uint_word_ariths)
    with True show ?thesis unfolding final by (intro adv_frame [OF inv]) (simp_all add: keep outstanding_def)
  next
    case False
    let ?w = "u\<lparr>ju_sessionId := ju_sessionId u + 1, ju_sessions := ju_sessions u @ [(ju_sessionId u + 1, s1)], ju_heap := h',
        ju_queued := ju_queued u @ (if se_class s1 = UpdateListener then [] else [ju_sessionId u + 1])\<rparr>"
    have "?w = u\<lparr>ju_heap := h', ju_sessionId := ju_sessionId u + 1, ju_sessions := ju_sessions u @ [(ju_sessionId u + 1, s1)],
      ju_queued := ju_queued u @ (if se_class s1 = UpdateListener then [] else [ju_sessionId u + 1])\<rparr>" (is "_ = ?w'")
      by (rule Updater.equality) simp_all
    moreover have "sessions_inv Ob X ?w'" using inv_add [OF inv keep room id1] new [OF False] by blast
    ultimately have "sessions_inv Ob X ?w" by metis
    moreover have "stays u ?w" by (rule stays_add [OF inv_ordered [OF inv] inv_ordered [OF calculation]]) simp
    ultimately have "advances Ob X u ?w" by (simp add: advances_def)
    with False show ?thesis unfolding final by (simp only: if_False snd_conv)
  qed
qed

text \<open>A session with a callback or a promise; a subscription is started by \<open>On\<close> alone.\<close>

lemma inv_StartSession:
  assumes "sessions_inv Ob X u" and "uint (ju_sessionId u) + 1 < 2 ^ 32" and "jo_ready Ob (ju_heap u)"
    and "sp_type params \<noteq> SESSION_SUBSCRIBE"
    and "sp_callbackStartIndex params < ci_argc info \<Longrightarrow> ci_args info ! sp_callbackStartIndex params \<in> jo_live Ob (ju_heap u) \<and>
      (typeof_view (jo_view Ob (ju_heap u) (ci_args info ! sp_callbackStartIndex params)) = napi_function \<longrightarrow>
       jo_view Ob (ju_heap u) (ci_args info ! sp_callbackStartIndex params) = JsFunction)"
  shows "advances Ob X u (snd (run_state (StartSession N info params worker) u))"
proof (cases "ci_status info = napi_ok")
  case False
  then show ?thesis using advances_refl [OF assms(1)] by (simp add: StartSession_def)
next
  case True
  let ?i = "sp_callbackStartIndex params" and ?k = "ju_sessionId u + 1"
  let ?s = "\<lparr>se_class = UpdatePromiseSession, se_sessionId = ?k, se_params = params, se_businessError = BusinessError_default,
        se_workResult = INT_CALL_SUCCESS, se_totalArgc = ci_argc info, se_callbackNumber = 0, se_doWorker = None,
        se_asyncExecuteComplete = False, se_worker = np_null_work N,
        se_callbackRef = [], se_deferred = np_null_deferred N, se_isOnce = False,
        se_eventType = [], se_handlerRef = np_null_ref N, se_eventClassifyInfo = EventClassifyInfo_default\<rparr>"
  let ?c = "?s\<lparr>se_class := UpdateAsyncession, se_callbackNumber := 1, se_callbackRef := [np_null_ref N]\<rparr>"
  let ?v = "\<lambda>s. u\<lparr>ju_sessionId := ?k, ju_sessions := ju_sessions u @ [(?k, s)]\<rparr>"
  show ?thesis
  proof (cases "?i < ci_argc info")
    case callback: True
    have run: "snd (run_state (StartSession N info params worker) u) =
        snd (run_state (start_and_keep N (ci_args info) worker ?c) (u\<lparr>ju_sessionId := ?k\<rparr>))"
      using True callback by (simp add: StartSession_def UpdateSession_new_def Let_def)
    let ?d = "?c\<lparr>se_doWorker := Some worker\<rparr>"
    have heap: "ju_heap (?v ?c) = ju_heap u" by simp
    have work: "run_state (StartWork N (ci_args info) worker ?c) (?v ?c) = run_state (UpdateAsyncession_StartWork N ?i (ci_args info) ?d) (?v ?c)"
      by (simp add: StartWork_def Let_def)
    show ?thesis
    proof (cases "typeof_view (jo_view Ob (ju_heap u) (ci_args info ! ?i)) = napi_function")
      case True
      then obtain v j r h' where w: "run_state (UpdateAsyncession_StartWork N ?i (ci_args info) ?d) (?v ?c) =
        ((v, ?d\<lparr>se_callbackRef := [r], se_worker := j\<rparr>), (?v ?c)\<lparr>ju_heap := h', ju_queued := ju_queued (?v ?c) @ [se_sessionId ?d]\<rparr>)"
        "v \<noteq> np_nullptr N" "keeps_handles Ob (ju_heap u) h'" "\<not> jo_work Ob (ju_heap u) j" "jo_work Ob h' j"
        "jo_ref Ob (ju_heap u) r = None" "jo_ref Ob h' r = Some (ci_args info ! ?i)"
        using callback_started(1) [of "?v ?c" ?i ?d "ci_args info"] assms(3,5) callback by auto
      show ?thesis
        unfolding run
        by (rule inv_started [OF assms(1,2) _ _ w(3), where ret = v and ?s1.0 = "?d\<lparr>se_callbackRef := [r], se_worker := j\<rparr>"])
          (use work w assms(4) in \<open>simp_all add: session_ok_def holds_def works_of_def refs_of_def deferreds_of_def\<close>)
    next
      case False
      then obtain h' where w: "run_state (UpdateAsyncession_StartWork N ?i (ci_args info) ?d) (?v ?c) = ((np_nullptr N, ?d), (?v ?c)\<lparr>ju_heap := h'\<rparr>)"
        "keeps_handles Ob (ju_heap u) h'"
        using callback_started(2) [of "?v ?c" ?i ?d "ci_args info"] assms(3,5) callback by auto
      show ?thesis
        unfolding run
        by (rule inv_started [OF assms(1,2) _ _ w(2), where ret = "np_nullptr N" and ?s1.0 = ?d]) (use work w in simp_all)
    qed
  next
    case promise: False
    have run: "snd (run_state (StartSession N info params worker) u) =
        snd (run_state (start_and_keep N (ci_args info) worker ?s) (u\<lparr>ju_sessionId := ?k\<rparr>))"
      using True promise by (simp add: StartSession_def UpdateSession_new_def Let_def)
    let ?d = "?s\<lparr>se_doWorker := Some worker\<rparr>"
    have work: "run_state (StartWork N (ci_args info) worker ?s) (?v ?s) = run_state (UpdatePromiseSession_StartWork N ?i (ci_args info) ?d) (?v ?s)"
      by (simp add: StartWork_def Let_def)
    obtain p j d h' where w: "run_state (UpdatePromiseSession_StartWork N ?i (ci_args info) ?d) (?v ?s) =
      ((p, ?d\<lparr>se_deferred := d, se_worker := j\<rparr>), (?v ?s)\<lparr>ju_heap := h', ju_queued := ju_queued (?v ?s) @ [se_sessionId ?d]\<rparr>)"
      "p \<noteq> np_nullptr N" "keeps_handles Ob (ju_heap u) h'" "\<not> jo_work Ob (ju_heap u) j" "jo_work Ob h' j"
      "jo_deferred Ob (ju_heap u) d = None" "jo_deferred Ob h' d = Some Pending"
      using promise_started [of "?v ?s" ?i "ci_args info" ?d] assms(3) by auto
    show ?thesis
      unfolding run
      by (rule inv_started [OF assms(1,2) _ _ w(3), where ret = p and ?s1.0 = "?d\<lparr>se_deferred := d, se_worker := j\<rparr>"])
        (use work w assms(4) in \<open>simp_all add: session_ok_def holds_def works_of_def refs_of_def deferreds_of_def\<close>)
  qed
qed

lemma inv_no_callback:
  assumes "sessions_inv Ob X u" and "uint (ju_sessionId u) + 1 < 2 ^ 32" and "jo_ready Ob (ju_heap u)"
    and "sp_type params \<noteq> SESSION_SUBSCRIBE" and "sp_callbackStartIndex params \<le> argc"
  shows "advances Ob X u (snd (run_state
    (UpdateSession_new N UpdateAsyncessionNoCallback params argc 0 \<bind> start_and_keep N args worker) u))"
proof -
  let ?i = "sp_callbackStartIndex params" and ?k = "ju_sessionId u + 1"
  let ?s = "\<lparr>se_class = UpdateAsyncessionNoCallback, se_sessionId = ?k, se_params = params, se_businessError = BusinessError_default,
        se_workResult = INT_CALL_SUCCESS, se_totalArgc = argc, se_callbackNumber = 0, se_doWorker = None,
        se_asyncExecuteComplete = False, se_worker = np_null_work N,
        se_callbackRef = [], se_deferred = np_null_deferred N, se_isOnce = False,
        se_eventType = [], se_handlerRef = np_null_ref N, se_eventClassifyInfo = EventClassifyInfo_default\<rparr>"
  let ?v = "u\<lparr>ju_sessionId := ?k, ju_sessions := ju_sessions u @ [(?k, ?s)]\<rparr>"
  have run: "snd (run_state (UpdateSession_new N UpdateAsyncessionNoCallback params argc 0 \<bind> start_and_keep N args worker) u) =
      snd (run_state (start_and_keep N args worker ?s) (u\<lparr>ju_sessionId := ?k\<rparr>))"
    by (simp add: UpdateSession_new_def Let_def)
  let ?d = "?s\<lparr>se_doWorker := Some worker\<rparr>"
  have work: "run_state (StartWork N args worker ?s) ?v = run_state (UpdateAsyncession_StartWork N ?i args ?d) ?v"
    by (simp add: StartWork_def Let_def)
  obtain v j h' where w: "run_state (UpdateAsyncession_StartWork N ?i args ?d) ?v =
      ((v, ?d\<lparr>se_worker := j\<rparr>), ?v\<lparr>ju_heap := h', ju_queued := ju_queued ?v @ [se_sessionId ?d]\<rparr>)"
      "v \<noteq> np_nullptr N" "keeps_handles Ob (ju_heap u) h'" "\<not> jo_work Ob (ju_heap u) j" "jo_work Ob h' j"
    using work_started [of ?v ?i ?d args] assms(3,5) by auto
  show ?thesis
    unfolding run
    by (rule inv_started [OF assms(1,2) _ _ w(3), where ret = v and ?s1.0 = "?d\<lparr>se_worker := j\<rparr>"])
      (use work w assms(4) in \<open>simp_all add: session_ok_def holds_def works_of_def refs_of_def deferreds_of_def\<close>)
qed

text \<open>The subscriptions of a state that has the invariant have their handlers.\<close>

lemma inv_handlers:
  assumes "sessions_inv Ob X u" and "(k, s) \<in> set (ju_sessions u)" and "sp_type (se_params s) = SESSION_SUBSCRIBE"
  shows "jo_ref Ob (ju_heap u) (se_handlerRef s) \<noteq> None" and "se_class s = UpdateListener" and "find_session k u = Some s"
proof -
  have "distinct (map fst (ju_sessions u))"
    using inv_ordered [OF assms(1)] by (simp add: om_ordered_def strict_sorted_iff)
  then show find: "find_session k u = Some s"
    using assms(2) by (simp add: find_session_def find_map_of inv_ordered [OF assms(1)])
  have ok: "session_ok s" "holds Ob (ju_heap u) s" using inv_session [OF assms(1) find] by auto
  then show cls: "se_class s = UpdateListener" using assms(3) by (simp add: session_ok_def)
  then show "jo_ref Ob (ju_heap u) (se_handlerRef s) \<noteq> None" using ok(2) by (simp add: holds_def refs_of_def)
qed

lemma inv_On:
  assumes "sessions_inv Ob X u" and "uint (ju_sessionId u) + 1 < 2 ^ 32" and "jo_ready Ob (ju_heap u)"
    and "plain_arg Ob (ju_heap u) (ci_args info ! 0)" and "ci_args info ! 1 \<in> jo_live Ob (ju_heap u)"
  shows "advances Ob X u (snd (run_state (IUpdater_On N info) u))"
proof (cases "ci_status info = napi_ok \<and> 2 \<le> ci_argc info")
  case False
  then show ?thesis using advances_refl [OF assms(1)] by (auto simp: IUpdater_On_def)
next
  case True
  let ?h = "ju_heap u" and ?k = "ju_sessionId u + 1" and ?p = "SessionParams_new SESSION_SUBSCRIBE 2 False False"
  obtain ret e where read: "run_state (GetEventClassifyInfoFromArg N (ci_args info ! 0) EventClassifyInfo_default) ?h = ((ret, e), ?h)"
    using GetEventClassifyInfo_pure [OF assms(3,4), of EventClassifyInfo_default] by force
  obtain r where found: "run_state (find_by_handle_loop N e (ci_args info ! 1) (ju_sessions u)) ?h = (r, ?h)"
    using find_by_handle_pure [OF assms(3,5), of "ju_sessions u" e] inv_handlers(1) [OF assms(1)] by blast
  obtain h1 where throw: "run_state (NapiThrowParamError N [(''eventClassifyInfo'', ''EventClassifyInfo'')]) ?h = ((), h1)"
      "keeps_values Ob {} ?h h1" "same_handles Ob ?h h1"
    using throws_param_error [OF assms(3)] by blast
  have u: "u\<lparr>ju_heap := ju_heap u\<rparr> = u" by simp
  let ?s = "\<lparr>se_class = UpdateListener, se_sessionId = ?k, se_params = ?p, se_businessError = BusinessError_default,
        se_workResult = INT_CALL_SUCCESS, se_totalArgc = ci_argc info, se_callbackNumber = 1, se_doWorker = None,
        se_asyncExecuteComplete = False, se_worker = np_null_work N,
        se_callbackRef = [np_null_ref N], se_deferred = np_null_deferred N, se_isOnce = False,
        se_eventType = [], se_handlerRef = np_null_ref N, se_eventClassifyInfo = EventClassifyInfo_default\<rparr>"
  let ?v = "u\<lparr>ju_sessionId := ?k, ju_sessions := ju_sessions u @ [(?k, ?s)]\<rparr>"
  let ?wk = "\<lambda>type context c k. Some (0, context, c, k)"
  have run: "snd (run_state (IUpdater_On N info) u) =
      (if ret \<noteq> CLIENT_SUCCESS then u\<lparr>ju_heap := h1\<rparr> else if r \<noteq> None then u
       else snd (run_state (start_and_keep N (ci_args info) ?wk ?s) (u\<lparr>ju_sessionId := ?k\<rparr>)))"
    using True read throw(1) found
    by (auto simp: IUpdater_On_def FindSessionByHandle_def UpdateSession_new_def Let_def)
  consider (bad) "ret \<noteq> CLIENT_SUCCESS" | (there) "ret = CLIENT_SUCCESS" "r \<noteq> None" | (new) "ret = CLIENT_SUCCESS" "r = None" by blast
  then show ?thesis
  proof cases
    case bad
    then show ?thesis
      unfolding run by (simp, intro adv_frame [OF assms(1)]) (simp_all add: keeps_handles_same [OF throw(2,3)] outstanding_def)
  next
    case there
    then show ?thesis unfolding run using advances_refl [OF assms(1)] by simp
  next
    case new
    let ?d = "?s\<lparr>se_doWorker := Some ?wk\<rparr>"
    have work: "run_state (StartWork N (ci_args info) ?wk ?s) ?v = run_state (UpdateListener_StartWork N 1 (ci_args info) ?d) ?v"
      by (simp add: StartWork_def Let_def SessionParams_new_def)
    have "\<exists>ret s' h'. run_state (UpdateListener_StartWork N 1 (ci_args info) ?d) ?v = ((ret, s'), ?v\<lparr>ju_heap := h'\<rparr>) \<and>
        keeps_handles Ob ?h h' \<and> se_sessionId s' = ?k \<and> se_class s' = UpdateListener \<and> se_params s' = ?p \<and>
        se_callbackRef s' = [np_null_ref N] \<and> se_callbackNumber s' = 1 \<and>
        (ret \<noteq> np_nullptr N \<longrightarrow> jo_ref Ob ?h (se_handlerRef s') = None \<and> jo_ref Ob h' (se_handlerRef s') = Some (ci_args info ! 1))"
      using listener_started [of ?v "ci_args info" 1 ?d] assms(3-5) by auto
    then obtain ret s' h' where w: "run_state (UpdateListener_StartWork N 1 (ci_args info) ?d) ?v = ((ret, s'), ?v\<lparr>ju_heap := h'\<rparr>)"
        "keeps_handles Ob ?h h'" "se_sessionId s' = ?k" "se_class s' = UpdateListener" "se_params s' = ?p"
        "se_callbackRef s' = [np_null_ref N]" "se_callbackNumber s' = 1"
        "ret \<noteq> np_nullptr N \<longrightarrow> jo_ref Ob ?h (se_handlerRef s') = None \<and> jo_ref Ob h' (se_handlerRef s') = Some (ci_args info ! 1)"
      by (elim exE conjE)
    have "advances Ob X u (snd (run_state (start_and_keep N (ci_args info) ?wk ?s) (u\<lparr>ju_sessionId := ?k\<rparr>)))"
      by (rule inv_started [OF assms(1,2) _ _ w(2), where ret = ret and ?s1.0 = s'])
        (use work w(1,3-8) in \<open>simp_all add: session_ok_def holds_def works_of_def refs_of_def deferreds_of_def SessionParams_new_def\<close>)
    with new show ?thesis unfolding run by simp
  qed
qed

lemma inv_Unsubscribe:
  assumes "sessions_inv Ob X u" and "jo_ready Ob (ju_heap u)" and "handle = np_nullptr N \<or> handle \<in> jo_live Ob (ju_heap u)"
  shows "\<exists>m. run_state (Unsubscribe N e handle) u = ((), u\<lparr>ju_sessions := m\<rparr>) \<and> advances Ob X u (u\<lparr>ju_sessions := m\<rparr>) \<and>
    (handle = np_nullptr N \<or> jo_view Ob (ju_heap u) handle = JsFunction \<longrightarrow>
      m = filter (\<lambda>(k, s). other_listener N Ob (ju_heap u) e handle s) (ju_sessions u))"
proof -
  note ord = inv_ordered [OF assms(1)]
  have dist: "distinct (map fst (ju_sessions u))" using ord by (simp add: om_ordered_def strict_sorted_iff)
  obtain m where m: "run_state (unsubscribe_loop N e handle (ju_sessions u)) (ju_heap u) = (m, ju_heap u)" "set m \<subseteq> set (ju_sessions u)"
      "\<forall>k s. (k, s) \<in> set (ju_sessions u) \<longrightarrow> sp_type (se_params s) \<noteq> SESSION_SUBSCRIBE \<longrightarrow> (k, s) \<in> set m"
      "om_ordered id_less m"
      "handle = np_nullptr N \<or> jo_view Ob (ju_heap u) handle = JsFunction \<longrightarrow>
        m = filter (\<lambda>(k, s). other_listener N Ob (ju_heap u) e handle s) (ju_sessions u)"
    using unsubscribe_loop_result [OF assms(2,3), of "ju_sessions u" e] inv_handlers(1) [OF assms(1)] ord by blast
  have dist': "distinct (map fst m)" using m(4) by (simp add: om_ordered_def strict_sorted_iff)
  have stay: "om_find id_less k m = Some s" if find: "find_session k u = Some s" and cls: "se_class s \<noteq> UpdateListener" for k s
  proof -
    from cls have "sp_type (se_params s) \<noteq> SESSION_SUBSCRIBE" using inv_session [OF assms(1) find] by (auto simp: session_ok_def)
    then have "(k, s) \<in> set m" using m(3) find by (auto simp: find_session_def find_map_of ord dest!: map_of_SomeD)
    then show ?thesis using dist' by (simp add: find_map_of m(4))
  qed
  have "sessions_inv Ob X (u\<lparr>ju_sessions := m\<rparr>)"
  proof (rule inv_unsubscribed [OF assms(1) m(4) _ stay])
    fix k s show "om_find id_less k m = Some s \<Longrightarrow> find_session k u = Some s"
      using m(2) dist by (auto simp: find_session_def find_map_of ord m(4) dest!: map_of_SomeD)
  qed
  with stays_unsubscribed [OF stay] have "advances Ob X u (u\<lparr>ju_sessions := m\<rparr>)" by (simp add: advances_def)
  then show ?thesis using m(1,5) by (auto simp: Unsubscribe_def)
qed

lemma inv_Off:
  assumes "sessions_inv Ob X u" and "jo_ready Ob (ju_heap u)"
    and "plain_arg Ob (ju_heap u) (ci_args info ! 0)" and "2 \<le> ci_argc info \<Longrightarrow> ci_args info ! 1 \<in> jo_live Ob (ju_heap u)"
  shows "advances Ob X u (snd (run_state (IUpdater_Off N info) u))"
proof (cases "ci_status info = napi_ok")
  case False
  then show ?thesis using advances_refl [OF assms(1)] by (simp add: IUpdater_Off_def)
next
  case True
  let ?h = "ju_heap u"
  obtain ret e where read: "run_state (GetEventClassifyInfoFromArg N (ci_args info ! 0) EventClassifyInfo_default) ?h = ((ret, e), ?h)"
    using GetEventClassifyInfo_pure [OF assms(2,3), of EventClassifyInfo_default] by force
  have thrown: "\<exists>h1. run_state (NapiThrowParamError N ps) ?h = ((), h1) \<and> advances Ob X u (u\<lparr>ju_heap := h1\<rparr>)" for ps
  proof -
    obtain h1 where "run_state (NapiThrowParamError N ps) ?h = ((), h1)" "keeps_values Ob {} ?h h1" "same_handles Ob ?h h1"
      using throws_param_error [OF assms(2), of ps] by blast
    then show ?thesis
      by (intro exI [of _ h1] conjI adv_frame [OF assms(1)]) (simp_all add: keeps_handles_same outstanding_def)
  qed
  consider (bad) ps where "snd (run_state (IUpdater_Off N info) u) = u\<lparr>ju_heap := snd (run_state (NapiThrowParamError N ps) ?h)\<rparr>"
    | (good) handle where "handle = np_nullptr N \<or> handle \<in> jo_live Ob ?h"
        "snd (run_state (IUpdater_Off N info) u) = snd (run_state (engine (np_create_int32 N 0 (np_wild N))) (snd (run_state (Unsubscribe N e handle) u)))"
  proof (cases "ret = CLIENT_SUCCESS")
    case False
    then show ?thesis using True read that(1) [of "[(''eventClassifyInfo'', ''EventClassifyInfo'')]"]
      by (simp add: IUpdater_Off_def case_prod_unfold)
  next
    case ok: True
    show ?thesis
    proof (cases "2 \<le> ci_argc info")
      case False
      then show ?thesis using True read ok that(2) [of "np_nullptr N"] by (simp add: IUpdater_Off_def case_prod_unfold)
    next
      case two: True
      note ty = IsTypeOf_value [OF assms(2) assms(4) [OF two], of napi_function]
      show ?thesis
      proof (cases "typeof_view (jo_view Ob ?h (ci_args info ! 1)) = napi_function")
        case False
        then show ?thesis using True read ok two ty that(1) [of "[(''callback'', ''napi_function'')]"]
          by (simp add: IUpdater_Off_def case_prod_unfold)
      next
        case handler: True
        then show ?thesis using True read ok two ty that(2) [of "ci_args info ! 1"] assms(4) by (simp add: IUpdater_Off_def case_prod_unfold)
      qed
    qed
  qed
  then show ?thesis
  proof cases
    case bad
    then show ?thesis using thrown [of ps] by auto
  next
    case good
    obtain m where m: "run_state (Unsubscribe N e handle) u = ((), u\<lparr>ju_sessions := m\<rparr>)" "advances Ob X u (u\<lparr>ju_sessions := m\<rparr>)"
      using inv_Unsubscribe [OF assms(1,2) good(1)] by blast
    obtain v h1 where v: "run_state (np_create_int32 N 0 (np_wild N)) ?h = ((napi_ok, v), h1)" "only_changes Ob {} ?h h1"
      using create_int32 [OF assms(2)] by blast
    have "snd (run_state (IUpdater_Off N info) u) = u\<lparr>ju_sessions := m, ju_heap := h1\<rparr>" using good(2) m(1) v(1) by simp
    moreover have "advances Ob X (u\<lparr>ju_sessions := m\<rparr>) (u\<lparr>ju_sessions := m, ju_heap := h1\<rparr>)"
      using m(2) by (intro adv_frame) (simp_all add: advances_def keeps_handles_changes [OF v(2)] outstanding_def)
    moreover note advances_trans [OF m(2) this]
    ultimately show ?thesis by simp
  qed
qed

end

end
