(* ===== verification/Js_Report.thy ===== *)
theory Js_Report
  imports Js_Start
begin

text \<open>
  What the application gets: the reference tree of every result, and what \<open>CompleteWork\<close> leaves
  behind for a session with a promise.
\<close>

section \<open>Results\<close>

text \<open>The value an operation of the online updater hands out; \<open>None\<close> is a null pointer.\<close>

definition descriptions_tree :: "(string \<Rightarrow> string) \<Rightarrow> VersionDescriptionInfo \<Rightarrow> js_tree option" where
  "descriptions_tree T i =
     (case filter IsValidData_ComponentDescription (vi_componentDescriptions i) of
        [] \<Rightarrow> None
      | cs \<Rightarrow> Some (TArray (map (ComponentDescription_tree T) cs)))"

definition result_tree :: "(string \<Rightarrow> string) \<Rightarrow> SessionType \<Rightarrow> UpdateClient \<Rightarrow> js_tree option" where
  "result_tree T type c =
     (case type of
        SESSION_CHECK_VERSION \<Rightarrow> Some (CheckResult_tree T (uc_checkResult c))
      | SESSION_GET_NEW_VERSION \<Rightarrow> Some (TObject (NewVersionInfo_fields T (uc_newVersionInfo c)))
      | SESSION_GET_NEW_VERSION_DESCRIPTION \<Rightarrow> descriptions_tree T (uc_newVersionDescriptionInfo c)
      | SESSION_GET_TASK_INFO \<Rightarrow> Some (TaskInfo_tree T (uc_taskInfo c))
      | SESSION_GET_CUR_VERSION \<Rightarrow> Some (CurrentVersionInfo_tree T (uc_currentVersionInfo c))
      | SESSION_GET_CUR_VERSION_DESCRIPTION \<Rightarrow> descriptions_tree T (uc_currentVersionDescriptionInfo c)
      | SESSION_GET_POLICY \<Rightarrow> Some (UpgradePolicy_tree (uc_upgradePolicy c))
      | _ \<Rightarrow> Some TUndefined)"

text \<open>The vectors have less than \<open>2 ^ 32\<close> elements, the length of the longest JavaScript array.\<close>

definition members_fit :: "UpdateClient \<Rightarrow> bool" where
  "members_fit c \<longleftrightarrow>
     length (nv_versionComponents (cr_newVersionInfo (uc_checkResult c))) < 2 ^ 32 \<and>
     length (nv_versionComponents (uc_newVersionInfo c)) < 2 ^ 32 \<and>
     length (vi_componentDescriptions (uc_newVersionDescriptionInfo c)) < 2 ^ 32 \<and>
     length (tb_errorMessages (ti_taskBody (uc_taskInfo c))) < 2 ^ 32 \<and>
     length (tb_versionComponents (ti_taskBody (uc_taskInfo c))) < 2 ^ 32 \<and>
     length (cv_versionComponents (uc_currentVersionInfo c)) < 2 ^ 32 \<and>
     length (vi_componentDescriptions (uc_currentVersionDescriptionInfo c)) < 2 ^ 32"

definition event_fits :: "EventInfo \<Rightarrow> bool" where
  "event_fits e \<longleftrightarrow> length (tb_errorMessages (ei_taskBody e)) < 2 ^ 32 \<and> length (tb_versionComponents (ei_taskBody e)) < 2 ^ 32"

text \<open>The error a session reports: its own, or that of the call that failed.\<close>

definition session_error :: "('r, 'd, 'w, 'c, 'k) Session \<Rightarrow> BusinessError" where
  "session_error s = (if IsWorkExecuteSuccess s then se_businessError s else BuildWorkBusinessErr s BusinessError_default)"

lemma GetUpdateResult_error [simp]:
  "ur_businessError (Session_GetUpdateResult UpdateClient_GetUpdateResult c s) = se_businessError s"
  by (cases "sp_type (se_params s)") (simp_all add: Session_GetUpdateResult_def UpdateClient_GetUpdateResult_def)

lemma error_of_session:
  "GetBusinessError s BusinessError_default (Session_GetUpdateResult UpdateClient_GetUpdateResult c s) = session_error s"
  by (simp add: GetBusinessError_def session_error_def)

lemma session_error_fits: "length (be_data (se_businessError s)) < 2 ^ 32 \<Longrightarrow> length (be_data (session_error s)) < 2 ^ 32"
  by (simp add: session_error_def BuildWorkBusinessErr_def Build_def BusinessError_default_def)

text \<open>A promise is settled with the error or the value, but left alone when the value is a null pointer.\<close>

definition settled :: "('v, 'r, 'd, 'w, 'h) js_obs \<Rightarrow> 'h \<Rightarrow> 'h \<Rightarrow> UpdateClient \<Rightarrow> ('r, 'd, 'w, 'c, 'k) Session \<Rightarrow> bool" where
  "settled Ob h h' c s \<longleftrightarrow>
     (if IsErrorExist (session_error s)
      then \<exists>v. jo_deferred Ob h' = (jo_deferred Ob h)(se_deferred s \<mapsto> Rejected v) \<and>
        renders Ob {} h' v (TObject (BusinessError_fields (jo_text Ob) (session_error s)))
      else case result_tree (jo_text Ob) (sp_type (se_params s)) c of
        None \<Rightarrow> jo_deferred Ob h' = jo_deferred Ob h
      | Some t \<Rightarrow> \<exists>v. jo_deferred Ob h' = (jo_deferred Ob h)(se_deferred s \<mapsto> Resolved v) \<and> renders Ob {} h' v t)"

context napi_engine
begin

lemma builds_undefined: "builds Ob (Pair 0) TUndefined (BuildUndefinedStatus N old)"
  using get_undefined by (fastforce simp: builds_def BuildUndefinedStatus_def napi_ok_def intro: renders_undefined)

lemma builds_descriptions:
  assumes "length (vi_componentDescriptions i) < 2 ^ 32"
    and "type = SESSION_GET_NEW_VERSION_DESCRIPTION \<or> type = SESSION_GET_CUR_VERSION_DESCRIPTION"
  shows "case descriptions_tree (jo_text Ob) i of
      None \<Rightarrow> (\<forall>h. run_state (BuildVersionDescriptionInfo N old type (Some i)) h = ((0, old), h))
    | Some t \<Rightarrow> builds Ob (Pair 0) t (BuildVersionDescriptionInfo N old type (Some i))"
  using no_description_built [OF _ assms(2), of i old] builds_VersionDescriptionInfo [OF assms, of old]
  by (auto simp: descriptions_tree_def split: list.split option.split)

lemma result_built:
  assumes "members_fit c"
  shows "case result_tree (jo_text Ob) (sp_type (se_params s)) c of
      None \<Rightarrow> (\<forall>h. run_state (call_buildJSObject N old (Session_GetUpdateResult UpdateClient_GetUpdateResult c s)) h = ((0, old), h))
    | Some t \<Rightarrow> builds Ob (Pair 0) t (call_buildJSObject N old (Session_GetUpdateResult UpdateClient_GetUpdateResult c s))"
  using assms
  by (cases "sp_type (se_params s)")
    (simp_all add: result_tree_def Session_GetUpdateResult_def UpdateClient_GetUpdateResult_def call_buildJSObject_def members_fit_def
      builds_undefined builds_CheckResult builds_NewVersionInfo builds_TaskInfo builds_CurrentVersionInfo builds_UpgradePolicy
      builds_descriptions cong: option.case_cong)

lemma event_built:
  assumes "event_fits e" and "jo_ready Ob h"
  shows "\<exists>st v h'. run_state (BuildEventInfo N old e) h = ((st, v), h') \<and> only_changes Ob {} h h' \<and> v \<in> jo_live Ob h' \<and>
    (case g_taskBodyTemplateMap (ei_eventId e) of
       None \<Rightarrow> st \<noteq> CLIENT_SUCCESS
     | Some shown \<Rightarrow> st = CLIENT_SUCCESS \<and> renders Ob (jo_live Ob h) h' v (EventInfo_tree (jo_text Ob) shown e))"
proof (cases "g_taskBodyTemplateMap (ei_eventId e)")
  case (Some shown)
  then show ?thesis
    using builds_EventInfo [of e shown old] assms unfolding builds_def event_fits_def by (fastforce dest: renders_live)
next
  case None
  obtain ob h1 where c: "run_state (np_create_object N old) h = ((napi_ok, ob), h1)" "only_changes Ob {} h h1" "ob \<in> jo_live Ob h1"
      "ob \<notin> jo_live Ob h" "jo_view Ob h1 ob = JsObject Map.empty"
    using create_object [OF assms(2)] by blast
  have b: "building Ob (jo_live Ob h) {} h1 ob []" by (rule building_new [OF assms(2) c(2-5)]) simp
  obtain x h2 where x: "run_state (NapiUtil_SetInt32 N ob ''eventId'' (EventId_code (ei_eventId e))) h1 = (x, h2)" "only_changes Ob {ob} h1 h2"
    using extends_SetInt32 [of "''eventId''" ob "EventId_code (ei_eventId e)"] b unfolding extends_def by (fastforce simp: own_names)
  have "only_changes Ob {} h h2" by (rule only_changes_new [OF c(2) x(2)]) (use c(4) in auto)
  moreover have "ob \<in> jo_live Ob h2" by (rule only_changes_live [OF x(2) c(3)])
  ultimately show ?thesis using c(1) x(1) None by (simp add: BuildEventInfo_def BuildTaskBody_event_def)
qed

section \<open>Reports\<close>

text \<open>The value of a report.\<close>

lemma error_built:
  assumes "length (be_data e) < 2 ^ 32" and "IsErrorExist e" and "jo_ready Ob h"
  shows "\<exists>v h'. run_state (BuildBusinessError N old e) h = ((0, v), h') \<and> only_changes Ob {} h h' \<and> v \<in> jo_live Ob h' \<and>
    renders Ob {} h' v (TObject (BusinessError_fields (jo_text Ob) e))"
  using builds_BusinessError [OF assms(1,2), of old] assms(3) unfolding builds_def
  by (meson empty_subsetI renders_apart renders_live)

lemma value_built:
  assumes "members_fit c" and "jo_ready Ob h"
  shows "\<exists>v h'. run_state (call_buildJSObject N (np_nullptr N) (Session_GetUpdateResult UpdateClient_GetUpdateResult c s)) h = ((0, v), h') \<and>
    only_changes Ob {} h h' \<and>
    (case result_tree (jo_text Ob) (sp_type (se_params s)) c of
       None \<Rightarrow> v = np_nullptr N
     | Some t \<Rightarrow> v \<in> jo_live Ob h' \<and> renders Ob {} h' v t)"
proof (cases "result_tree (jo_text Ob) (sp_type (se_params s)) c")
  case None
  then show ?thesis
    using result_built [OF assms(1), where s = s and old = "np_nullptr N"] only_changes_refl [OF assms(2)] by auto
next
  case (Some t)
  then show ?thesis
    using result_built [OF assms(1), where s = s and old = "np_nullptr N"] assms(2) unfolding builds_def
    by simp (meson empty_subsetI renders_apart renders_live)
qed

lemma promise_reported:
  fixes u :: "('r, 'd, 'w, 'h, UpdateClient, 'k) Updater"
  assumes "jo_ready Ob (ju_heap u)" and "jo_deferred Ob (ju_heap u) (se_deferred s) = Some Pending" and "jo_work Ob (ju_heap u) (se_worker s)"
    and "members_fit c" and "length (be_data (se_businessError s)) < 2 ^ 32"
  shows "\<exists>h'. run_state (UpdatePromiseSession_NotifyJS N (Session_GetUpdateResult UpdateClient_GetUpdateResult c s) s) u =
      (s\<lparr>se_worker := np_null_work N\<rparr>, u\<lparr>ju_heap := h'\<rparr>) \<and>
    jo_ready Ob h' \<and> jo_live Ob (ju_heap u) \<subseteq> jo_live Ob h' \<and> jo_ref Ob h' = jo_ref Ob (ju_heap u) \<and>
    jo_work Ob h' = (jo_work Ob (ju_heap u))(se_worker s := False) \<and> settled Ob (ju_heap u) h' c s"
proof -
  let ?h = "ju_heap u" and ?d = "se_deferred s" and ?r = "Session_GetUpdateResult UpdateClient_GetUpdateResult c s"
  have deleted: "\<exists>h2. run_state (np_delete_async_work N (se_worker s)) h1 = (napi_ok, h2) \<and> jo_ready Ob h2 \<and> keeps_values Ob {} h1 h2 \<and>
      jo_work Ob h2 = (jo_work Ob h1)(se_worker s := False) \<and> jo_ref Ob h2 = jo_ref Ob h1 \<and> jo_deferred Ob h2 = jo_deferred Ob h1"
    if "jo_ready Ob h1" "jo_work Ob h1 = jo_work Ob ?h" for h1
    using delete_work [OF that(1), of "se_worker s"] assms(3) that(2) by simp
  show ?thesis
  proof (cases "IsErrorExist (session_error s)")
    case True
    obtain v h1 where v: "run_state (BuildBusinessError N (np_nullptr N) (session_error s)) ?h = ((0, v), h1)" "only_changes Ob {} ?h h1"
        "v \<in> jo_live Ob h1" "renders Ob {} h1 v (TObject (BusinessError_fields (jo_text Ob) (session_error s)))"
      using error_built [OF session_error_fits [OF assms(5)] True assms(1)] by blast
    obtain h2 where r: "run_state (np_reject_deferred N ?d v) h1 = (napi_ok, h2)" "jo_ready Ob h2" "keeps_values Ob {} h1 h2"
        "jo_deferred Ob h2 = (jo_deferred Ob h1)(?d \<mapsto> Rejected v)" "jo_ref Ob h2 = jo_ref Ob h1" "jo_work Ob h2 = jo_work Ob h1"
      using reject_deferred [OF only_changes_ready [OF v(2)], of ?d v] v(2,3) assms(2) by (auto simp: only_changes_def same_handles_def)
    obtain h3 where w: "run_state (np_delete_async_work N (se_worker s)) h2 = (napi_ok, h3)" "jo_ready Ob h3" "keeps_values Ob {} h2 h3"
        "jo_work Ob h3 = (jo_work Ob h2)(se_worker s := False)" "jo_ref Ob h3 = jo_ref Ob h2" "jo_deferred Ob h3 = jo_deferred Ob h2"
      using deleted [OF r(2)] r(6) v(2) by (auto simp: only_changes_def same_handles_def)
    have "renders Ob {} h3 v (TObject (BusinessError_fields (jo_text Ob) (session_error s)))"
      by (rule renders_frame [OF v(4) keeps_values_trans [OF r(3) w(3)]]) simp_all
    then have "settled Ob ?h h3 c s" using True v(2) r(4) w(6) by (auto simp: settled_def only_changes_def same_handles_def)
    moreover have "run_state (UpdatePromiseSession_NotifyJS N ?r s) u = (s\<lparr>se_worker := np_null_work N\<rparr>, u\<lparr>ju_heap := h3\<rparr>)"
      using True v(1) r(1) w(1) by (simp add: UpdatePromiseSession_NotifyJS_def Let_def error_of_session)
    moreover have "jo_live Ob ?h \<subseteq> jo_live Ob h3" using v(2) r(3) w(3) by (auto simp: only_changes_def keeps_values_def)
    ultimately show ?thesis using v(2) r(5,6) w(2,4,5) by (auto simp: only_changes_def same_handles_def)
  next
    case False
    obtain v h1 where v: "run_state (call_buildJSObject N (np_nullptr N) ?r) ?h = ((0, v), h1)" "only_changes Ob {} ?h h1"
        "case result_tree (jo_text Ob) (sp_type (se_params s)) c of None \<Rightarrow> v = np_nullptr N
           | Some t \<Rightarrow> v \<in> jo_live Ob h1 \<and> renders Ob {} h1 v t"
      using value_built [OF assms(4,1)] by blast
    have "\<exists>st h2. run_state (np_resolve_deferred N ?d v) h1 = (st, h2) \<and> jo_ready Ob h2 \<and> keeps_values Ob {} h1 h2 \<and>
        jo_ref Ob h2 = jo_ref Ob h1 \<and> jo_work Ob h2 = jo_work Ob h1 \<and>
        jo_deferred Ob h2 = (if result_tree (jo_text Ob) (sp_type (se_params s)) c = None then jo_deferred Ob h1
          else (jo_deferred Ob h1)(?d \<mapsto> Resolved v))"
    proof (cases "result_tree (jo_text Ob) (sp_type (se_params s)) c")
      case None
      then show ?thesis
        using resolve_null [OF only_changes_ready [OF v(2)], of ?d] v(2,3) by (auto simp: keeps_values_refl only_changes_def)
    next
      case (Some t)
      then show ?thesis
        using resolve_deferred [OF only_changes_ready [OF v(2)], of ?d v] v(2,3) assms(2) by (auto simp: only_changes_def same_handles_def)
    qed
    then obtain st h2 where r: "run_state (np_resolve_deferred N ?d v) h1 = (st, h2)" "jo_ready Ob h2" "keeps_values Ob {} h1 h2"
        "jo_ref Ob h2 = jo_ref Ob h1" "jo_work Ob h2 = jo_work Ob h1"
        "jo_deferred Ob h2 = (if result_tree (jo_text Ob) (sp_type (se_params s)) c = None then jo_deferred Ob h1
          else (jo_deferred Ob h1)(?d \<mapsto> Resolved v))"
      by blast
    obtain h3 where w: "run_state (np_delete_async_work N (se_worker s)) h2 = (napi_ok, h3)" "jo_ready Ob h3" "keeps_values Ob {} h2 h3"
        "jo_work Ob h3 = (jo_work Ob h2)(se_worker s := False)" "jo_ref Ob h3 = jo_ref Ob h2" "jo_deferred Ob h3 = jo_deferred Ob h2"
      using deleted [OF r(2)] r(5) v(2) by (auto simp: only_changes_def same_handles_def)
    have "renders Ob {} h1 v t \<Longrightarrow> renders Ob {} h3 v t" for t
      by (rule renders_frame [OF _ keeps_values_trans [OF r(3) w(3)]]) simp_all
    then have "settled Ob ?h h3 c s"
      using False v(2,3) r(6) w(6) by (auto simp: settled_def only_changes_def same_handles_def split: option.splits)
    moreover have "run_state (UpdatePromiseSession_NotifyJS N ?r s) u = (s\<lparr>se_worker := np_null_work N\<rparr>, u\<lparr>ju_heap := h3\<rparr>)"
      using False v(1) r(1) w(1) by (simp add: UpdatePromiseSession_NotifyJS_def Let_def error_of_session)
    moreover have "jo_live Ob ?h \<subseteq> jo_live Ob h3" using v(2) r(3) w(3) by (auto simp: only_changes_def keeps_values_def)
    ultimately show ?thesis using v(2) r(4,5) w(2,4,5) by (auto simp: only_changes_def same_handles_def)
  qed
qed

end

end
