(* ===== verification/Js_Steps.thy ===== *)
theory Js_Steps
  imports Js_Report
begin

text \<open>
  The steps of a process with an online updater, seen from the sessions: \<open>api_step\<close> is what the
  application, the worker threads and the service do beside the reports. Each step keeps the
  invariant of the sessions and what an outstanding session holds.
\<close>

section \<open>The answer of a check\<close>

definition answered :: "BusinessError \<Rightarrow> ('r, 'd, 'w, 'c, 'k) Session \<Rightarrow> ('r, 'd, 'w, 'c, 'k) Session" where
  "answered e s = (if IsAsyncCompleteWork s then OnAsyncComplete e s else s)"

text \<open>What a session holds does not change with its result.\<close>

lemma held_result [simp]:
  "works_of (s\<lparr>se_workResult := r\<rparr>) = works_of s" "works_of (s\<lparr>se_businessError := e\<rparr>) = works_of s"
  "refs_of (s\<lparr>se_workResult := r\<rparr>) = refs_of s" "refs_of (s\<lparr>se_businessError := e\<rparr>) = refs_of s"
  "deferreds_of (s\<lparr>se_workResult := r\<rparr>) = deferreds_of s" "deferreds_of (s\<lparr>se_businessError := e\<rparr>) = deferreds_of s"
  "works_of (s\<lparr>se_asyncExecuteComplete := b\<rparr>) = works_of s" "refs_of (s\<lparr>se_asyncExecuteComplete := b\<rparr>) = refs_of s"
  "deferreds_of (s\<lparr>se_asyncExecuteComplete := b\<rparr>) = deferreds_of s"
  by (simp_all add: works_of_def refs_of_def deferreds_of_def cong: SessionClass.case_cong)

lemma answered_simps [simp]:
  "works_of (answered e s) = works_of s" "refs_of (answered e s) = refs_of s" "deferreds_of (answered e s) = deferreds_of s"
  "se_sessionId (answered e s) = se_sessionId s" "session_ok (answered e s) = session_ok s" "se_class (answered e s) = se_class s"
  by (simp_all add: answered_def OnAsyncComplete_def session_ok_def)

lemma answered_same [simp]:
  "holds Ob h (answered e s) = holds Ob h s" "same_holdings s (answered e s)"
  "apart (answered e s) t = apart s t" "apart t (answered e s) = apart t s"
  by (simp_all add: holds_def same_holdings_def apart_def)

lemma ordered_append: "om_ordered id_less (m @ m') \<longleftrightarrow>
    om_ordered id_less m \<and> om_ordered id_less m' \<and> (\<forall>p \<in> set m. \<forall>q \<in> set m'. fst p < fst q)"
  by (auto simp: om_ordered_def sorted_wrt_append)

lemma entry_after_append:
  "(\<And>p. p \<in> set pre \<Longrightarrow> fst p \<le> k) \<Longrightarrow> entry_after k (pre @ m) = entry_after k m"
  by (induction pre) (force split: if_splits)+

lemma entry_after_next:
  assumes "om_ordered id_less (pre @ (k, s) # m)"
  shows "entry_after k (pre @ (k, s) # m) = (case m of [] \<Rightarrow> None | p # _ \<Rightarrow> Some p)"
proof -
  have "fst p \<le> k" if "p \<in> set pre" for p using assms that by (force simp: ordered_append)
  moreover have "entry_after k ((k, s) # m) = (case m of [] \<Rightarrow> None | p # _ \<Rightarrow> Some p)"
    using assms by (cases m) (auto simp: ordered_append im.ordered_Cons)
  ultimately show ?thesis by (simp add: entry_after_append)
qed

lemma find_middle: "om_ordered id_less (pre @ (k, s) # m) \<Longrightarrow> om_find id_less k (pre @ (k, s) # m) = Some s"
  using distinct_keys [of "pre @ (k, s) # m"] by (simp add: find_map_of map_of_eq_Some_iff del: map_of_append)

lemma assign_middle: "(\<And>p. p \<in> set pre \<Longrightarrow> fst p < k) \<Longrightarrow> om_assign id_less k t (pre @ (k, s) # m) = pre @ (k, t) # m"
proof (induction pre)
  case (Cons p pre)
  obtain j r where p: "p = (j, r)" by force
  then have "j < k" using Cons.prems [of p] by simp
  moreover have "om_assign id_less k t (pre @ (k, s) # m) = pre @ (k, t) # m" by (rule Cons.IH) (simp add: Cons.prems)
  ultimately show ?case by (auto simp: p)
qed simp

definition ids_ok :: "(uint32_t \<times> ('r, 'd, 'w, 'c, 'k) Session) list \<Rightarrow> bool" where
  "ids_ok m \<longleftrightarrow> om_ordered id_less m \<and> (\<forall>(k, s) \<in> set m. se_sessionId s = k)"

lemma ids_answered: "ids_ok (map (\<lambda>(k, s). (k, answered e s)) pre @ m) \<longleftrightarrow> ids_ok (pre @ m)"
proof -
  have "om_ordered id_less (map (\<lambda>(k, s). (k, answered e s)) pre @ m) \<longleftrightarrow> om_ordered id_less (pre @ m)"
    by (simp add: om_ordered_def comp_def case_prod_beta)
  moreover have "(\<forall>(k, s) \<in> set (map (\<lambda>(k, s). (k, answered e s)) pre). se_sessionId s = k) \<longleftrightarrow> (\<forall>(k, s) \<in> set pre. se_sessionId s = k)"
    by auto
  ultimately show ?thesis by (simp only: ids_ok_def set_append ball_Un)
qed

lemma emit_loop_maps:
  assumes "ids_ok (pre @ m)" and "length m \<le> n"
  shows "emit_loop e n (GetFirstSessionId m) (map (\<lambda>(k, s). (k, answered e s)) pre @ m) = map (\<lambda>(k, s). (k, answered e s)) (pre @ m)"
  using assms
proof (induction m arbitrary: pre n)
  case Nil
  then show ?case by (cases n) (simp_all add: GetFirstSessionId_def)
next
  case (Cons p m)
  obtain k s where p: "p = (k, s)" by force
  obtain n' where n: "n = Suc n'" using Cons.prems(2) by (cases n) auto
  let ?pre = "map (\<lambda>(k, s). (k, answered e s)) pre"
  have ok: "ids_ok (?pre @ (k, s) # m)" using Cons.prems(1) unfolding p ids_answered .
  then have ord: "om_ordered id_less (?pre @ (k, s) # m)" and k: "se_sessionId s = k"
    unfolding ids_ok_def by simp_all
  have first: "GetFirstSessionId ((k, s) # m) = Some k" by (simp add: k GetFirstSessionId_def)
  have nxt: "GetNextSessionId k (?pre @ (k, s) # m) = GetFirstSessionId m"
    using ok unfolding GetNextSessionId_def find_middle [OF ord] entry_after_next [OF ord]
    by (auto simp: GetFirstSessionId_def ids_ok_def split: list.split)
  have put: "om_assign id_less k t (?pre @ (k, s) # m) = ?pre @ (k, t) # m" for t
    by (rule assign_middle) (use ord in \<open>auto simp: ordered_append\<close>)
  have ids: "ids_ok ((pre @ [p]) @ m)" using Cons.prems(1) by simp
  have "emit_loop e n (GetFirstSessionId (p # m)) (?pre @ p # m) =
      emit_loop e n' (GetFirstSessionId m) (?pre @ (k, answered e s) # m)"
    unfolding n p first by (simp add: find_middle [OF ord] nxt put) (simp add: answered_def)
  also have "?pre @ (k, answered e s) # m = map (\<lambda>(k, s). (k, answered e s)) (pre @ [p]) @ m" by (simp add: p)
  also have "emit_loop e n' (GetFirstSessionId m) (map (\<lambda>(k, s). (k, answered e s)) (pre @ [p]) @ m) =
      map (\<lambda>(k, s). (k, answered e s)) ((pre @ [p]) @ m)"
    by (rule Cons.IH [OF ids]) (use Cons.prems(2) n in simp)
  finally show ?case by simp
qed

lemma Emit_answers:
  assumes "ids_ok (ju_sessions u)"
  shows "Emit e u = u\<lparr>ju_sessions := map (\<lambda>(k, s). (k, answered e s)) (ju_sessions u)\<rparr>"
  using emit_loop_maps [where pre = "[]" and m = "ju_sessions u" and n = "length (ju_sessions u)" and e = e] assms by (simp add: Emit_def)

lemma inv_ids: "sessions_inv Ob X u \<Longrightarrow> ids_ok (ju_sessions u)"
  unfolding ids_ok_def
proof (intro conjI ballI)
  assume inv: "sessions_inv Ob X u"
  then show "om_ordered id_less (ju_sessions u)" by (rule inv_ordered)
  then have "find_session (fst p) u = Some (snd p)" if "p \<in> set (ju_sessions u)" for p
    using that distinct_keys [of "ju_sessions u"] by (simp add: find_session_def find_map_of)
  then show "case p of (k, s) \<Rightarrow> se_sessionId s = k" if "p \<in> set (ju_sessions u)" for p
    using inv_session [OF inv] that by (fastforce split: prod.split)
qed

lemma adv_Emit:
  assumes "sessions_inv Ob X u"
  shows "advances Ob X u (Emit e u)"
proof -
  let ?u = "u\<lparr>ju_sessions := map (\<lambda>(k, s). (k, answered e s)) (ju_sessions u)\<rparr>"
  have ord: "om_ordered id_less (ju_sessions ?u)" using inv_ordered [OF assms] by (simp add: om_ordered_def comp_def case_prod_beta)
  have find: "find_session k ?u = map_option (answered e) (find_session k u)" for k
    using ord inv_ordered [OF assms] map_of_map [where f = "answered e" and xs = "ju_sessions u"]
    by (simp add: find_session_def find_map_of)
  have out: "outstanding ?u = outstanding u" by (simp add: outstanding_def)
  have "sessions_inv Ob X ?u"
    unfolding sessions_inv_def find out
  proof (intro conjI allI impI)
    fix k s assume "map_option (answered e) (find_session k u) = Some s"
    then show "se_sessionId s = k" "k \<le> ju_sessionId ?u" "session_ok s" "holds Ob (ju_heap ?u) s"
      using inv_session [OF assms] by auto
  next
    fix k k' s s' assume "map_option (answered e) (find_session k u) = Some s" "map_option (answered e) (find_session k' u) = Some s'" "k \<noteq> k'"
    then show "apart s s'" using inv_apart [OF assms] by auto
  next
    fix k show "k \<in> set (outstanding u @ X) \<longleftrightarrow>
        (\<exists>s. map_option (answered e) (find_session k u) = Some s \<and> se_class s \<noteq> UpdateListener)"
      using inv_outstanding [OF assms, of k] by auto
  qed (use ord inv_distinct [OF assms] in simp_all)
  moreover have "stays u ?u" unfolding stays_def find by simp
  ultimately show ?thesis using Emit_answers [OF inv_ids [OF assms]] by (simp add: advances_def)
qed

section \<open>Works on their threads\<close>

lemma ExecuteWork_keeps:
  assumes "ExecuteWork s c k = Some (s', c', k')"
  shows "se_sessionId s' = se_sessionId s" "session_ok s' = session_ok s" "same_holdings s s'" "se_params s' = se_params s"
    "se_class s' = se_class s"
  using assms by (auto simp: ExecuteWork_def session_ok_def same_holdings_def split: option.splits if_splits)

lemma waited_keeps:
  "se_sessionId (ExecuteWork_waited s) = se_sessionId s" "session_ok (ExecuteWork_waited s) = session_ok s"
  "same_holdings s (ExecuteWork_waited s)"
  by (simp_all add: ExecuteWork_waited_def session_ok_def same_holdings_def)

lemma adv_run_work:
  assumes "sessions_inv Ob X u" and "sid \<in> set (ju_queued u)" and "run_work sid u = Some u'"
  shows "advances Ob X u u'"
proof -
  obtain s s' c k where s: "find_session sid u = Some s" "ExecuteWork s (ju_members u) (ju_kits u) = Some (s', c, k)"
      "u' = (put_session s' u)\<lparr>ju_members := c, ju_kits := k, ju_queued := remove1 sid (ju_queued u), ju_running := ju_running u @ [sid]\<rparr>"
    using assms(3) by (auto simp: run_work_def split: option.splits)
  have "advances Ob X u (put_session s' u)"
    by (rule adv_put [OF assms(1) s(1)]) (use inv_session [OF assms(1) s(1)] ExecuteWork_keeps [OF s(2)] in auto)
  moreover from this have "advances Ob X (put_session s' u) u'"
    by (intro adv_frame) (use assms(2) in \<open>simp_all add: advances_def s(3) outstanding_def put_session_def\<close>)
  ultimately show ?thesis by (rule advances_trans)
qed

lemma adv_finish_work:
  assumes "sessions_inv Ob X u" and "sid \<in> set (ju_running u)" and "finish_work sid u = Some u'"
  shows "advances Ob X u u'"
proof -
  obtain s where s: "find_session sid u = Some s"
      "u' = (put_session (ExecuteWork_waited s) u)\<lparr>ju_running := remove1 sid (ju_running u), ju_executed := ju_executed u @ [sid]\<rparr>"
    using assms(3) by (auto simp: finish_work_def split: option.splits)
  have "advances Ob X u (put_session (ExecuteWork_waited s) u)"
    by (rule adv_put [OF assms(1) s(1)]) (use inv_session [OF assms(1) s(1)] waited_keeps in auto)
  moreover from this have "advances Ob X (put_session (ExecuteWork_waited s) u) u'"
    by (intro adv_frame) (use assms(2) in \<open>simp_all add: advances_def s(2) outstanding_def put_session_def\<close>)
  ultimately show ?thesis by (rule advances_trans)
qed

section \<open>What happens beside the reports\<close>

text \<open>The counter of sessions has not run out.\<close>

definition room :: "('r, 'd, 'w, 'h, 'c, 'k) Updater \<Rightarrow> bool" where
  "room u \<longleftrightarrow> uint (ju_sessionId u) + 1 < 2 ^ 32"

text \<open>The argument at the place of the callback is a value; if it is a function, an ordinary one.\<close>

definition callback_arg :: "('v, 'r, 'd, 'w, 'h) js_obs \<Rightarrow> 'h \<Rightarrow> 'v CallInfo \<Rightarrow> nat \<Rightarrow> bool" where
  "callback_arg Ob h info i \<longleftrightarrow> (i < ci_argc info \<longrightarrow> ci_args info ! i \<in> jo_live Ob h \<and>
     (typeof_view (jo_view Ob h (ci_args info ! i)) = napi_function \<longrightarrow> jo_view Ob h (ci_args info ! i) = JsFunction))"

text \<open>
  \<open>api_start\<close>, \<open>api_cancel\<close>, \<open>api_on\<close>, \<open>api_off\<close>: calls of the application. \<open>api_engine\<close>: the
  application computes, and catches what was thrown. \<open>api_members\<close>: arguments are read into the
  members, the service changes. \<open>api_answer\<close>, \<open>api_event\<close>: the service calls back. \<open>api_run\<close>,
  \<open>api_finish\<close>: a worker thread takes a work, and ends it.
\<close>

inductive api_step :: "('v, 'r, 'd, 'w, 'h) napi \<Rightarrow> ('v, 'r, 'd, 'w, 'h) js_obs \<Rightarrow>
    ('r, 'd, 'w, 'h, 'c, 'k) Updater \<Rightarrow> ('r, 'd, 'w, 'h, 'c, 'k) Updater \<Rightarrow> bool" for N Ob where
  api_start: "jo_ready Ob (ju_heap u) \<Longrightarrow> room u \<Longrightarrow> sp_type params \<noteq> SESSION_SUBSCRIBE \<Longrightarrow>
    callback_arg Ob (ju_heap u) info (sp_callbackStartIndex params) \<Longrightarrow>
    api_step N Ob u (snd (run_state (StartSession N info params worker) u))"
| api_cancel: "jo_ready Ob (ju_heap u) \<Longrightarrow> room u \<Longrightarrow> sp_type params \<noteq> SESSION_SUBSCRIBE \<Longrightarrow> sp_callbackStartIndex params \<le> argc \<Longrightarrow>
    api_step N Ob u (snd (run_state (UpdateSession_new N UpdateAsyncessionNoCallback params argc 0 \<bind> start_and_keep N args worker) u))"
| api_on: "jo_ready Ob (ju_heap u) \<Longrightarrow> room u \<Longrightarrow> plain_arg Ob (ju_heap u) (ci_args info ! 0) \<Longrightarrow>
    ci_args info ! 1 \<in> jo_live Ob (ju_heap u) \<Longrightarrow> api_step N Ob u (snd (run_state (IUpdater_On N info) u))"
| api_off: "jo_ready Ob (ju_heap u) \<Longrightarrow> plain_arg Ob (ju_heap u) (ci_args info ! 0) \<Longrightarrow>
    (2 \<le> ci_argc info \<longrightarrow> ci_args info ! 1 \<in> jo_live Ob (ju_heap u)) \<Longrightarrow> api_step N Ob u (snd (run_state (IUpdater_Off N info) u))"
| api_engine: "keeps_handles Ob (ju_heap u) h \<Longrightarrow> api_step N Ob u (u\<lparr>ju_heap := h\<rparr>)"
| api_members: "api_step N Ob u (u\<lparr>ju_members := c, ju_kits := k\<rparr>)"
| api_answer: "api_step N Ob u (Emit e u)"
| api_event: "api_step N Ob u (Emit_event found info e u)"
| api_run: "sid \<in> set (ju_queued u) \<Longrightarrow> run_work sid u = Some u' \<Longrightarrow> api_step N Ob u u'"
| api_finish: "sid \<in> set (ju_running u) \<Longrightarrow> finish_work sid u = Some u' \<Longrightarrow> api_step N Ob u u'"

context napi_engine
begin

lemma adv_api_step: "api_step N Ob u u' \<Longrightarrow> sessions_inv Ob X u \<Longrightarrow> advances Ob X u u'"
proof (induction rule: api_step.induct)
  case (api_start u params info worker)
  then show ?case using inv_StartSession [of X u params info worker] by (auto simp: room_def callback_arg_def)
next
  case (api_cancel u params argc args worker)
  then show ?case using inv_no_callback [of X u params argc args worker] by (simp add: room_def)
next
  case (api_on u info)
  then show ?case using inv_On [of X u info] by (simp add: room_def)
next
  case (api_off u info)
  then show ?case using inv_Off [of X u info] by blast
next
  case (api_event u found info e)
  then show ?case by (intro adv_frame) (simp_all add: Emit_event_def outstanding_def)
next
  case (api_engine u h)
  then show ?case by (intro adv_frame) (simp_all add: outstanding_def)
next
  case (api_members u c k)
  then show ?case by (intro adv_frame) (simp_all add: outstanding_def)
qed (blast intro: adv_Emit adv_run_work adv_finish_work)+

lemma adv_api_steps: "(api_step N Ob)\<^sup>*\<^sup>* u u' \<Longrightarrow> sessions_inv Ob X u \<Longrightarrow> advances Ob X u u'"
proof (induction rule: rtranclp_induct)
  case base
  then show ?case by (rule advances_refl)
next
  case (step v w)
  then have a: "advances Ob X u v" by blast
  then have "advances Ob X v w" by (intro adv_api_step [OF step(2)]) (simp add: advances_def)
  with a show ?case by (rule advances_trans)
qed

end

end
