(* ===== verification/Js_Reach.thy ===== *)
theory Js_Reach
  imports Js_Steps
begin

text \<open>
  The reports on the JavaScript thread and the reachable states of an online updater: a function of
  the application may use the binding again while it runs (\<open>handler_ok\<close>), and the invariant of the
  sessions still holds after every report.
\<close>

section \<open>Functions of the application\<close>

text \<open>What a call of a function does to the process is a sequence of steps; no exception is left behind.\<close>

definition handler_ok :: "('v, 'r, 'd, 'w, 'h) napi \<Rightarrow> ('v, 'r, 'd, 'w, 'h) js_obs \<Rightarrow>
    ('v \<Rightarrow> 'v \<Rightarrow> 'v list \<Rightarrow> (('r, 'd, 'w, 'h, 'c, 'k) Updater, napi_status) state) \<Rightarrow> bool" where
  "handler_ok N Ob J \<longleftrightarrow> (\<forall>v f args u. jo_ready Ob (ju_heap u) \<longrightarrow>
     (api_step N Ob)\<^sup>*\<^sup>* u (snd (run_state (J v f args) u)) \<and> jo_ready Ob (ju_heap (snd (run_state (J v f args) u))))"

text \<open>The two arguments of a callback: the error, or null and the value.\<close>

definition callback_value :: "('v, 'r, 'd, 'w, 'h) napi \<Rightarrow> ('v, 'r, 'd, 'w, 'h) js_obs \<Rightarrow> 'h \<Rightarrow> UpdateClient \<Rightarrow>
    ('r, 'd, 'w, 'c, 'k) Session \<Rightarrow> 'v \<Rightarrow> 'v \<Rightarrow> bool" where
  "callback_value N Ob h c s a0 a1 \<longleftrightarrow>
     (if IsErrorExist (session_error s)
      then a1 = np_nullptr N \<and> renders Ob {} h a0 (TObject (BusinessError_fields (jo_text Ob) (session_error s)))
      else a0 = np_nullptr N \<and> (case result_tree (jo_text Ob) (sp_type (se_params s)) c of
             None \<Rightarrow> a1 = np_nullptr N | Some t \<Rightarrow> renders Ob {} h a1 t))"

lemma inv_moved:
  assumes "sessions_inv Ob X u" and "ju_heap u' = ju_heap u" and "ju_sessions u' = ju_sessions u"
    and "ju_sessionId u' = ju_sessionId u" and m: "mset (outstanding u' @ X') = mset (outstanding u @ X)"
  shows "sessions_inv Ob X' u'"
  unfolding sessions_inv_def find_sessions [OF assms(3)] assms(2-4)
proof (intro conjI allI impI)
  show "distinct (outstanding u' @ X')" using inv_distinct [OF assms(1)] m by (metis mset_eq_imp_distinct_iff)
  fix k show "k \<in> set (outstanding u' @ X') \<longleftrightarrow> (\<exists>s. find_session k u = Some s \<and> se_class s \<noteq> UpdateListener)"
    using inv_outstanding [OF assms(1), of k] mset_eq_setD [OF m] by auto
qed (use inv_session [OF assms(1)] in \<open>auto intro: inv_ordered [OF assms(1)] inv_apart [OF assms(1)]\<close>)

context napi_engine
begin

lemma handler_advances:
  assumes "handler_ok N Ob J" and "sessions_inv Ob X u" and "jo_ready Ob (ju_heap u)"
  shows "advances Ob X u (snd (run_state (J v f args) u))" and "jo_ready Ob (ju_heap (snd (run_state (J v f args) u)))"
  using assms adv_api_steps unfolding handler_ok_def by blast+

lemma callback_arguments:
  fixes u :: "('r, 'd, 'w, 'h, UpdateClient, 'k) Updater"
  assumes "jo_ready Ob (ju_heap u)" and "members_fit c" and "length (be_data (se_businessError s)) < 2 ^ 32"
  shows "\<exists>a0 a1 h. run_state
      (if IsErrorExist (session_error s) then do {
         (ret, a0) \<leftarrow> engine (BuildBusinessError N (np_nullptr N) (session_error s));
         State_Monad.return (ret, a0, np_nullptr N)
       } else do {
         (ret, a1) \<leftarrow> engine (call_buildJSObject N (np_nullptr N) (Session_GetUpdateResult UpdateClient_GetUpdateResult c s));
         State_Monad.return (ret, np_nullptr N, a1)
       }) u = ((0, a0, a1), u\<lparr>ju_heap := h\<rparr>) \<and>
    only_changes Ob {} (ju_heap u) h \<and> callback_value N Ob h c s a0 a1"
proof (cases "IsErrorExist (session_error s)")
  case True
  then show ?thesis
    using error_built [OF session_error_fits [OF assms(3)] True assms(1), of "np_nullptr N"] by (force simp: callback_value_def)
next
  case False
  obtain v h where v: "run_state (call_buildJSObject N (np_nullptr N) (Session_GetUpdateResult UpdateClient_GetUpdateResult c s)) (ju_heap u)
        = ((0, v), h)" "only_changes Ob {} (ju_heap u) h"
      "case result_tree (jo_text Ob) (sp_type (se_params s)) c of None \<Rightarrow> v = np_nullptr N
         | Some t \<Rightarrow> v \<in> jo_live Ob h \<and> renders Ob {} h v t"
    using value_built [OF assms(2,1)] by blast
  then show ?thesis using False by (force simp: callback_value_def split: option.splits)
qed

lemma callback_reported:
  fixes u :: "('r, 'd, 'w, 'h, UpdateClient, 'k) Updater"
  assumes inv: "sessions_inv Ob [sid] u" and s: "find_session sid u = Some s" "se_class s = UpdateAsyncession"
    and ready: "jo_ready Ob (ju_heap u)" and fit: "members_fit c" "length (be_data (se_businessError s)) < 2 ^ 32"
    and J: "handler_ok N Ob J"
  shows "\<exists>undef callback a0 a1 h s' h'.
      jo_ref Ob (ju_heap u) (se_callbackRef s ! 0) = Some callback \<and> callback_value N Ob h c s a0 a1 \<and>
      run_state (UpdateAsyncession_NotifyJS N J (Session_GetUpdateResult UpdateClient_GetUpdateResult c s) s) u =
        (s', (snd (run_state (J undef callback [a0, a1]) (u\<lparr>ju_heap := h\<rparr>)))\<lparr>ju_heap := h'\<rparr>) \<and>
      jo_ready Ob h' \<and>
      sessions_inv Ob [] (RemoveSession sid ((snd (run_state (J undef callback [a0, a1]) (u\<lparr>ju_heap := h\<rparr>)))\<lparr>ju_heap := h'\<rparr>))"
proof -
  obtain undef h1 where a: "run_state (np_get_undefined N (np_wild N)) (ju_heap u) = ((napi_ok, undef), h1)"
      "only_changes Ob {} (ju_heap u) h1"
    using get_undefined [OF ready] by blast
  obtain a0 a1 h where b: "run_state
      (if IsErrorExist (session_error s) then do {
         (ret, a0) \<leftarrow> engine (BuildBusinessError N (np_nullptr N) (session_error s));
         State_Monad.return (ret, a0, np_nullptr N)
       } else do {
         (ret, a1) \<leftarrow> engine (call_buildJSObject N (np_nullptr N) (Session_GetUpdateResult UpdateClient_GetUpdateResult c s));
         State_Monad.return (ret, np_nullptr N, a1)
       }) (u\<lparr>ju_heap := h1\<rparr>) = ((0, a0, a1), u\<lparr>ju_heap := h\<rparr>)"
      "only_changes Ob {} h1 h" "callback_value N Ob h c s a0 a1"
    using callback_arguments [OF _ fit, of "u\<lparr>ju_heap := h1\<rparr>"] only_changes_ready [OF a(2)] by auto
  let ?u = "u\<lparr>ju_heap := h\<rparr>"
  have h: "jo_ready Ob h" "keeps_handles Ob (ju_heap u) h" "jo_ref Ob h = jo_ref Ob (ju_heap u)"
    using a(2) b(2) keeps_handles_trans [OF keeps_handles_changes [OF a(2)] keeps_handles_changes [OF b(2)]]
    by (auto simp: only_changes_def same_handles_def)
  have invu: "sessions_inv Ob [sid] ?u" by (rule inv_frame [OF inv]) (simp_all add: h(2) outstanding_def)
  have ok: "session_ok s" "holds Ob (ju_heap u) s" using inv_session [OF inv s(1)] by auto
  then obtain callback where cb: "jo_ref Ob (ju_heap u) (se_callbackRef s ! 0) = Some callback"
    using s(2) by (auto simp: holds_def refs_of_def)
  have get: "run_state (np_get_reference_value N (se_callbackRef s ! 0) (np_wild N)) h = ((napi_ok, callback), h)"
    using reference_value [OF h(1)] cb h(3) by simp
  obtain st v where j: "run_state (J undef callback [a0, a1]) ?u = (st, v)" by fastforce
  have adv: "advances Ob [sid] ?u v" "jo_ready Ob (ju_heap v)"
    using handler_advances [OF J invu, of undef callback "[a0, a1]"] h(1) j by simp_all
  have "find_session sid ?u = Some s" using s(1) by (simp add: find_session_def)
  then obtain t where t: "find_session sid v = Some t" "same_holdings s t"
    using adv(1) s(2) unfolding advances_def stays_def by force
  have invv: "sessions_inv Ob [sid] v" using adv(1) by (simp add: advances_def)
  have t': "holds Ob (ju_heap v) t" "refs_of t = {se_callbackRef s ! 0}" "works_of t = {se_worker s}" "deferreds_of t = {}"
    using inv_session [OF invv t(1)] t(2) s(2) by (auto simp: same_holdings_def refs_of_def works_of_def deferreds_of_def)
  have "\<exists>s' h'. run_state (UpdateAsyncession_NotifyJS N J (Session_GetUpdateResult UpdateClient_GetUpdateResult c s) s) u =
        (s', v\<lparr>ju_heap := h'\<rparr>) \<and> jo_ready Ob h' \<and> sessions_inv Ob [] (RemoveSession sid (v\<lparr>ju_heap := h'\<rparr>))"
  proof (cases "st = napi_ok")
    case False
    have "run_state (UpdateAsyncession_NotifyJS N J (Session_GetUpdateResult UpdateClient_GetUpdateResult c s) s) u = (s, v)"
      using False a(1) b(1) get j by (simp add: UpdateAsyncession_NotifyJS_def Let_def error_of_session napi_ok_def)
    moreover have "sessions_inv Ob [] (RemoveSession sid (v\<lparr>ju_heap := ju_heap v\<rparr>))"
      by (rule inv_reported [OF invv t(1)]) auto
    ultimately show ?thesis using adv(2) by (intro exI [of _ s] exI [of _ "ju_heap v"]) simp
  next
    case True
    have "take (se_callbackNumber s) (se_callbackRef s) = [se_callbackRef s ! 0]"
      using ok(1) s(2) by (cases "se_callbackRef s") (auto simp: session_ok_def)
    moreover obtain f where "jo_ref Ob (ju_heap v) (se_callbackRef s ! 0) = Some f" using t' by (auto simp: holds_def)
    then obtain h4 where d: "run_state (np_delete_reference N (se_callbackRef s ! 0)) (ju_heap v) = (napi_ok, h4)" "jo_ready Ob h4"
        "keeps_values Ob {} (ju_heap v) h4" "jo_ref Ob h4 = (jo_ref Ob (ju_heap v))(se_callbackRef s ! 0 := None)"
        "jo_deferred Ob h4 = jo_deferred Ob (ju_heap v)" "jo_work Ob h4 = jo_work Ob (ju_heap v)"
      using delete_reference [OF adv(2)] by blast
    moreover have "jo_work Ob h4 (se_worker s)" using t' d(6) by (auto simp: holds_def)
    then obtain h5 where e: "run_state (np_delete_async_work N (se_worker s)) h4 = (napi_ok, h5)" "jo_ready Ob h5" "keeps_values Ob {} h4 h5"
        "jo_work Ob h5 = (jo_work Ob h4)(se_worker s := False)" "jo_ref Ob h5 = jo_ref Ob h4" "jo_deferred Ob h5 = jo_deferred Ob h4"
      using delete_work [OF d(2)] by blast
    ultimately have "\<exists>s'. run_state (UpdateAsyncession_NotifyJS N J (Session_GetUpdateResult UpdateClient_GetUpdateResult c s) s) u =
        (s', v\<lparr>ju_heap := h5\<rparr>)"
      using True a(1) b(1) get j by (simp add: UpdateAsyncession_NotifyJS_def Let_def error_of_session napi_ok_def)
    moreover have "sessions_inv Ob [] (RemoveSession sid (v\<lparr>ju_heap := h5\<rparr>))"
      by (rule inv_reported [OF invv t(1)]) (use d e t' in \<open>auto simp: keeps_values_def\<close>)
    ultimately show ?thesis using e(2) by blast
  qed
  then show ?thesis using cb b(3) j by (metis snd_conv)
qed

text \<open>The reports of \<open>CompleteWork\<close>: the session leaves the map, and the invariant holds without it.\<close>

lemma being_reported:
  assumes "sessions_inv Ob [] u" and "sid \<in> set (ju_executed u)"
  shows "sessions_inv Ob [sid] (u\<lparr>ju_executed := remove1 sid (ju_executed u)\<rparr>)" (is "sessions_inv Ob _ ?u")
proof -
  have "mset (outstanding ?u @ [sid]) = mset (outstanding u)" using assms(2) by (simp add: outstanding_def)
  then show ?thesis by (intro inv_moved [OF assms(1)]) simp_all
qed

lemma promise_completed:
  fixes u :: "('r, 'd, 'w, 'h, UpdateClient, 'k) Updater"
  assumes inv: "sessions_inv Ob [] u" and sid: "sid \<in> set (ju_executed u)" and ready: "jo_ready Ob (ju_heap u)"
    and fit: "members_fit (ju_members u)" "length (be_data (se_businessError s)) < 2 ^ 32"
    and s: "find_session sid u = Some s" "se_class s = UpdatePromiseSession"
  shows "\<exists>h'. CompleteWork N J UpdateClient_GetUpdateResult sid u =
      Some (RemoveSession sid (u\<lparr>ju_executed := remove1 sid (ju_executed u), ju_heap := h'\<rparr>)) \<and>
    jo_ready Ob h' \<and> settled Ob (ju_heap u) h' (ju_members u) s \<and>
    sessions_inv Ob [] (RemoveSession sid (u\<lparr>ju_executed := remove1 sid (ju_executed u), ju_heap := h'\<rparr>))"
proof -
  let ?u = "u\<lparr>ju_executed := remove1 sid (ju_executed u)\<rparr>" and ?get = "UpdateClient_GetUpdateResult"
  have s1: "find_session sid ?u = Some s" using s(1) by (simp add: find_session_def)
  have h: "jo_deferred Ob (ju_heap u) (se_deferred s) = Some Pending" "jo_work Ob (ju_heap u) (se_worker s)"
      "refs_of s = {}" "works_of s = {se_worker s}" "deferreds_of s = {se_deferred s}"
    using inv_session [OF inv s(1)] s(2) by (auto simp: holds_def deferreds_of_def works_of_def refs_of_def)
  obtain h' where r: "run_state (UpdatePromiseSession_NotifyJS N (Session_GetUpdateResult ?get (ju_members u) s) s) ?u =
        (s\<lparr>se_worker := np_null_work N\<rparr>, ?u\<lparr>ju_heap := h'\<rparr>)"
      "jo_ready Ob h'" "jo_live Ob (ju_heap u) \<subseteq> jo_live Ob h'" "jo_ref Ob h' = jo_ref Ob (ju_heap u)"
      "jo_work Ob h' = (jo_work Ob (ju_heap u))(se_worker s := False)" "settled Ob (ju_heap u) h' (ju_members u) s"
    using promise_reported [of ?u s "ju_members u"] ready h(1,2) fit by auto
  have "sessions_inv Ob [] (RemoveSession sid (?u\<lparr>ju_heap := h'\<rparr>))"
    by (rule inv_reported [OF being_reported [OF inv sid] s1])
      (use r h in \<open>auto simp: settled_def split: if_splits option.splits\<close>)
  moreover have "CompleteWork N J ?get sid u = Some (RemoveSession sid (?u\<lparr>ju_heap := h'\<rparr>))"
    using s(2) s1 r(1) by (simp add: CompleteWork_def Session_CompleteWork_def)
  ultimately show ?thesis using r(2,6) by auto
qed

lemma callback_completed:
  fixes u :: "('r, 'd, 'w, 'h, UpdateClient, 'k) Updater"
  assumes inv: "sessions_inv Ob [] u" and sid: "sid \<in> set (ju_executed u)" and ready: "jo_ready Ob (ju_heap u)"
    and fit: "members_fit (ju_members u)" "length (be_data (se_businessError s)) < 2 ^ 32"
    and s: "find_session sid u = Some s" "se_class s = UpdateAsyncession" and J: "handler_ok N Ob J"
  shows "\<exists>undef callback a0 a1 h h' w.
      jo_ref Ob (ju_heap u) (se_callbackRef s ! 0) = Some callback \<and> callback_value N Ob h (ju_members u) s a0 a1 \<and>
      w = snd (run_state (J undef callback [a0, a1]) (u\<lparr>ju_executed := remove1 sid (ju_executed u), ju_heap := h\<rparr>)) \<and>
      CompleteWork N J UpdateClient_GetUpdateResult sid u = Some (RemoveSession sid (w\<lparr>ju_heap := h'\<rparr>)) \<and>
      jo_ready Ob h' \<and> sessions_inv Ob [] (RemoveSession sid (w\<lparr>ju_heap := h'\<rparr>))"
proof -
  let ?u = "u\<lparr>ju_executed := remove1 sid (ju_executed u)\<rparr>" and ?get = "UpdateClient_GetUpdateResult"
  have s1: "find_session sid ?u = Some s" and r: "jo_ready Ob (ju_heap ?u)" using s(1) ready by (simp_all add: find_session_def)
  obtain undef callback a0 a1 h s' h' where c: "jo_ref Ob (ju_heap ?u) (se_callbackRef s ! 0) = Some callback"
      "callback_value N Ob h (ju_members u) s a0 a1"
      "run_state (UpdateAsyncession_NotifyJS N J (Session_GetUpdateResult ?get (ju_members u) s) s) ?u =
        (s', (snd (run_state (J undef callback [a0, a1]) (?u\<lparr>ju_heap := h\<rparr>)))\<lparr>ju_heap := h'\<rparr>)"
      "jo_ready Ob h'"
      "sessions_inv Ob [] (RemoveSession sid ((snd (run_state (J undef callback [a0, a1]) (?u\<lparr>ju_heap := h\<rparr>)))\<lparr>ju_heap := h'\<rparr>))"
    using callback_reported [OF being_reported [OF inv sid] s1 s(2) r fit J] by blast
  have "CompleteWork N J ?get sid u =
      Some (RemoveSession sid ((snd (run_state (J undef callback [a0, a1]) (?u\<lparr>ju_heap := h\<rparr>)))\<lparr>ju_heap := h'\<rparr>))"
    using s(2) s1 c(3) by (simp add: CompleteWork_def Session_CompleteWork_def)
  moreover have "jo_ref Ob (ju_heap u) (se_callbackRef s ! 0) = Some callback" using c(1) by simp
  ultimately show ?thesis using c(2,4,5) by metis
qed

lemma inv_CompleteWork:
  fixes u :: "('r, 'd, 'w, 'h, UpdateClient, 'k) Updater"
  assumes inv: "sessions_inv Ob [] u" and sid: "sid \<in> set (ju_executed u)" and ready: "jo_ready Ob (ju_heap u)"
    and fit: "members_fit (ju_members u)" and J: "handler_ok N Ob J"
    and data: "\<And>s. find_session sid u = Some s \<Longrightarrow> length (be_data (se_businessError s)) < 2 ^ 32"
  shows "\<exists>u'. CompleteWork N J UpdateClient_GetUpdateResult sid u = Some u' \<and> sessions_inv Ob [] u' \<and> jo_ready Ob (ju_heap u')"
proof -
  obtain s where s: "find_session sid u = Some s" "se_class s \<noteq> UpdateListener"
    using inv_outstanding [OF inv, of sid] sid by (auto simp: outstanding_def)
  consider "se_class s = UpdateAsyncession" | "se_class s = UpdateAsyncessionNoCallback" | "se_class s = UpdatePromiseSession"
    using s(2) by (cases "se_class s") auto
  then show ?thesis
  proof cases
    case 1
    then show ?thesis
      using callback_completed [OF inv sid ready fit data [OF s(1)] s(1) 1 J] by (fastforce simp: RemoveSession_def)
  next
    case 2
    let ?u = "u\<lparr>ju_executed := remove1 sid (ju_executed u)\<rparr>"
    have s1: "find_session sid ?u = Some s" using s(1) by (simp add: find_session_def)
    then have "CompleteWork N J UpdateClient_GetUpdateResult sid u = Some (RemoveSession sid (?u\<lparr>ju_heap := ju_heap u\<rparr>))"
      using 2 by (simp add: CompleteWork_def Session_CompleteWork_def)
    moreover have "sessions_inv Ob [] (RemoveSession sid (?u\<lparr>ju_heap := ju_heap u\<rparr>))"
      by (rule inv_reported [OF being_reported [OF inv sid] s1]) auto
    ultimately show ?thesis using ready by (auto simp: RemoveSession_def)
  next
    case 3
    then show ?thesis
      using promise_completed [OF inv sid ready fit data [OF s(1)] s(1) 3, of J] by (force simp: RemoveSession_def)
  qed
qed

lemma listener_notified:
  assumes inv: "sessions_inv Ob X u" and ready: "jo_ready Ob (ju_heap u)" and fit: "event_fits e" and J: "handler_ok N Ob J"
    and s: "find_session k u = Some s" "sp_type (se_params s) = SESSION_SUBSCRIBE"
  shows "sessions_inv Ob X (snd (run_state (UpdateListener_NotifyJS N J this e s) u)) \<and>
    jo_ready Ob (ju_heap (snd (run_state (UpdateListener_NotifyJS N J this e s) u)))"
proof -
  obtain st v h where b: "run_state (BuildEventInfo N (np_nullptr N) e) (ju_heap u) = ((st, v), h)" "only_changes Ob {} (ju_heap u) h"
    using event_built [OF fit ready] by blast
  let ?u = "u\<lparr>ju_heap := h\<rparr>"
  have i: "sessions_inv Ob X ?u" "jo_ready Ob h"
    using inv_frame [OF inv, of ?u] keeps_handles_changes [OF b(2)] only_changes_ready [OF b(2)] by (simp_all add: outstanding_def)
  obtain f where f: "jo_ref Ob h (se_handlerRef s) = Some f"
    using inv_session [OF inv s(1)] s(2) b(2)
    by (auto simp: session_ok_def holds_def refs_of_def only_changes_def same_handles_def)
  have "sessions_inv Ob X (snd (run_state (J this f [v]) ?u))" "jo_ready Ob (ju_heap (snd (run_state (J this f [v]) ?u)))"
    using handler_advances [OF J i(1)] i(2) by (simp_all add: advances_def)
  then show ?thesis
    using b(1) i reference_value [OF i(2) f, of "np_nullptr N"]
    by (auto simp: UpdateListener_NotifyJS_def Let_def split: prod.splits)
qed

lemma inv_publish_loop:
  assumes "publish_loop N' J this info e key u = Some u'"
  shows "N' = N \<Longrightarrow> event_fits e \<Longrightarrow> handler_ok N Ob J \<Longrightarrow> sessions_inv Ob X u \<Longrightarrow>
    jo_ready Ob (ju_heap u) \<Longrightarrow> sessions_inv Ob X u' \<and> jo_ready Ob (ju_heap u')"
  using assms
proof (induction N' J this info e key u u' rule: publish_loop.raw_induct [rotated, consumes 1, case_names step])
  case (step loop N' J this info e key u u')
  note prems = step(2-)
  obtain s where s: "find_session key u = Some s" using prems(1) by (cases "find_session key u") simp_all
  define w where "w = (if sp_type (se_params s) = SESSION_SUBSCRIBE \<and> IsSubscribeEvent info s
    then snd (run_state (UpdateListener_NotifyJS N' J this e s) u) else u)"
  have i: "sessions_inv Ob X w" "jo_ready Ob (ju_heap w)"
    using listener_notified [OF prems(5,6,3,4) s, of this] prems(2,5,6) by (simp_all add: w_def)
  have "(case find_session key w of None \<Rightarrow> None
      | Some _ \<Rightarrow> (case entry_after key (ju_sessions w) of None \<Rightarrow> Some w | Some (k, _) \<Rightarrow> loop N' J this info e k w)) = Some u'"
    using prems(1) unfolding s option.case Let_def w_def [symmetric] .
  then have "u' = w \<or> (\<exists>k. loop N' J this info e k w = Some u')"
    by (cases "find_session key w"; cases "entry_after key (ju_sessions w)") auto
  then consider "u' = w" | k where "loop N' J this info e k w = Some u'" by blast
  then show ?case
  proof cases
    case 1
    with i show ?thesis by simp
  next
    case (2 k)
    show ?thesis by (rule step(1) [OF 2 prems(2,3,4) i])
  qed
qed

lemma inv_PublishToJS:
  fixes u :: "('r, 'd, 'w, 'h, 'x, 'y) Updater"
  assumes "PublishToJS N J info e u = Some u'" and "event_fits e" and "handler_ok N Ob J" and "sessions_inv Ob X u"
    and "jo_ready Ob (ju_heap u)" and "jo_ref Ob (ju_heap u) (ju_thisReference u) \<noteq> None"
  shows "sessions_inv Ob X u' \<and> jo_ready Ob (ju_heap u')"
proof -
  obtain h1 where o: "run_state (np_open_handle_scope N) (ju_heap u) = (napi_ok, h1)" "only_changes Ob {} (ju_heap u) h1"
    using open_scope [OF assms(5)] by blast
  have same: "sessions_inv Ob X (v\<lparr>ju_heap := h\<rparr>) \<and> jo_ready Ob h"
    if "sessions_inv Ob X v" "only_changes Ob {} (ju_heap v) h" for v :: "('r, 'd, 'w, 'h, 'x, 'y) Updater" and h
    using inv_frame [OF that(1), of "v\<lparr>ju_heap := h\<rparr>"] keeps_handles_changes [OF that(2)] only_changes_ready [OF that(2)]
    by (simp add: outstanding_def)
  have i: "sessions_inv Ob X (u\<lparr>ju_heap := h1\<rparr>)" "jo_ready Ob h1" using same [OF assms(4) o(2)] by simp_all
  obtain this where t: "run_state (np_get_reference_value N (ju_thisReference u) (np_nullptr N)) h1 = ((napi_ok, this), h1)"
    using reference_value [OF i(2)] assms(6) o(2) by (fastforce simp: only_changes_def same_handles_def)
  obtain v where v: "u' = snd (run_state (engine (np_close_handle_scope N)) v)" "sessions_inv Ob X v" "jo_ready Ob (ju_heap v)"
  proof (cases "ju_sessions u")
    case Nil
    with assms(1) o(1) t i that [of "u\<lparr>ju_heap := h1\<rparr>"] show ?thesis by (auto simp: PublishToJS_def Let_def)
  next
    case (Cons p m)
    with assms(1) o(1) t obtain v where l: "publish_loop N J this info e (fst p) (u\<lparr>ju_heap := h1\<rparr>) = Some v"
        "u' = snd (run_state (engine (np_close_handle_scope N)) v)"
      by (cases p) (auto simp: PublishToJS_def Let_def)
    then show ?thesis using inv_publish_loop [OF l(1) refl assms(2,3) i(1)] i(2) that [OF l(2)] by simp
  qed
  obtain h2 where "run_state (np_close_handle_scope N) (ju_heap v) = (napi_ok, h2)" "only_changes Ob {} (ju_heap v) h2"
    using close_scope [OF v(3)] by blast
  then show ?thesis using same [OF v(2)] v(1) by simp
qed

end

section \<open>Reachable states\<close>

text \<open>
  The process beside the application: \<open>step_complete\<close> is the report of a work that is done,
  \<open>step_publish\<close> the event at the head of the queue, whose loop comes to an end. Vectors have less
  than \<open>2 ^ 32\<close> elements, and the updater has a reference while events reach it.
\<close>

inductive session_step ::
  "('v, 'r, 'd, 'w, 'h) napi \<Rightarrow> ('v, 'r, 'd, 'w, 'h) js_obs \<Rightarrow>
   ('v \<Rightarrow> 'v \<Rightarrow> 'v list \<Rightarrow> (('r, 'd, 'w, 'h, UpdateClient, 'k) Updater, napi_status) state) \<Rightarrow>
   ('r, 'd, 'w, 'h, UpdateClient, 'k) Updater \<Rightarrow> ('r, 'd, 'w, 'h, UpdateClient, 'k) Updater \<Rightarrow> bool" for N Ob J where
  step_api: "api_step N Ob u u' \<Longrightarrow> session_step N Ob J u u'"
| step_complete: "sid \<in> set (ju_executed u) \<Longrightarrow> jo_ready Ob (ju_heap u) \<Longrightarrow> members_fit (ju_members u) \<Longrightarrow>
    (\<forall>s. find_session sid u = Some s \<longrightarrow> length (be_data (se_businessError s)) < 2 ^ 32) \<Longrightarrow>
    CompleteWork N J UpdateClient_GetUpdateResult sid u = Some u' \<Longrightarrow> session_step N Ob J u u'"
| step_publish: "jo_ready Ob (ju_heap u) \<Longrightarrow> jo_ref Ob (ju_heap u) (ju_thisReference u) \<noteq> None \<Longrightarrow>
    (\<forall>p \<in> set (ju_posted u). event_fits (snd p)) \<Longrightarrow> run_posted N J u = Some u' \<Longrightarrow> session_step N Ob J u u'"

context napi_engine
begin

lemma inv_session_step:
  assumes "session_step N Ob J u u'" and "handler_ok N Ob J" and "sessions_inv Ob [] u"
  shows "sessions_inv Ob [] u'"
  using assms(1)
proof cases
  case step_api
  then show ?thesis using adv_api_step assms(3) by (auto simp: advances_def)
next
  case (step_complete sid)
  then show ?thesis using inv_CompleteWork [OF assms(3), of sid J] assms(2) by auto
next
  case step_publish
  show ?thesis
  proof (cases "ju_posted u")
    case Nil
    with step_publish assms(3) show ?thesis by (simp add: run_posted_def)
  next
    case (Cons p ps)
    have i: "sessions_inv Ob [] (u\<lparr>ju_posted := ps\<rparr>)" by (rule inv_moved [OF assms(3)]) (simp_all add: outstanding_def)
    have "PublishToJS N J (fst p) (snd p) (u\<lparr>ju_posted := ps\<rparr>) = Some u'"
      using step_publish(4) Cons by (cases p) (simp add: run_posted_def)
    from inv_PublishToJS [OF this _ assms(2) i] show ?thesis using step_publish(1-3) Cons by simp
  qed
qed

lemma inv_session_steps: "(session_step N Ob J)\<^sup>*\<^sup>* u u' \<Longrightarrow> handler_ok N Ob J \<Longrightarrow> sessions_inv Ob [] u \<Longrightarrow> sessions_inv Ob [] u'"
  by (induction rule: rtranclp_induct) (auto intro: inv_session_step)

lemma inv_new: "sessions_inv Ob [] (updater_new N this members h k n)"
  by (simp add: updater_new_def Let_def sessions_inv_def find_session_def outstanding_def im.ordered_Nil
      split: prod.split)

end

end
