(* ===== verification/Js_Calls.thy ===== *)
theory Js_Calls
  imports Js_Reach
begin

text \<open>
  What the calls of the application come to: the way of a call with a promise from the start to the
  settlement, the exact effect of \<open>off\<close>, the order in which an event reaches the subscriptions, and
  what becomes of a policy that is read and written back.
\<close>

section \<open>The outcome of a promise\<close>

text \<open>The error a call reports: that of the operation, or that of the call that failed.\<close>

definition call_error :: "SessionType \<Rightarrow> int32_t \<Rightarrow> BusinessError \<Rightarrow> BusinessError" where
  "call_error type ret e =
     (if ret = INT_CALL_SUCCESS then e else Build (CallResult_of ret) (work_error_message type ret) BusinessError_default)"

definition promise_outcome :: "('v, 'r, 'd, 'w, 'h) js_obs \<Rightarrow> 'h \<Rightarrow> 'h \<Rightarrow> 'd \<Rightarrow> BusinessError \<Rightarrow> js_tree option \<Rightarrow> bool" where
  "promise_outcome Ob h h' d e t \<longleftrightarrow>
     (if IsErrorExist e
      then \<exists>v. jo_deferred Ob h' = (jo_deferred Ob h)(d \<mapsto> Rejected v) \<and> renders Ob {} h' v (TObject (BusinessError_fields (jo_text Ob) e))
      else case t of
        None \<Rightarrow> jo_deferred Ob h' = jo_deferred Ob h
      | Some t \<Rightarrow> \<exists>v. jo_deferred Ob h' = (jo_deferred Ob h)(d \<mapsto> Resolved v) \<and> renders Ob {} h' v t)"

lemma session_error_call: "session_error s = call_error (sp_type (se_params s)) (se_workResult s) (se_businessError s)"
  by (simp add: session_error_def call_error_def IsWorkExecuteSuccess_def BuildWorkBusinessErr_def)

lemma settled_outcome:
  "settled Ob h h' c s = promise_outcome Ob h h' (se_deferred s)
     (call_error (sp_type (se_params s)) (se_workResult s) (se_businessError s)) (result_tree (jo_text Ob) (sp_type (se_params s)) c)"
  by (simp add: settled_def promise_outcome_def session_error_call)

section \<open>Events\<close>

text \<open>What a subscription does with an event.\<close>

definition notified :: "('v, 'r, 'd, 'w, 'h) napi \<Rightarrow> ('v \<Rightarrow> 'v \<Rightarrow> 'v list \<Rightarrow> (('r, 'd, 'w, 'h, 'c, 'k) Updater, napi_status) state) \<Rightarrow>
    'v \<Rightarrow> EventClassifyInfo \<Rightarrow> EventInfo \<Rightarrow> uint32_t \<times> ('r, 'd, 'w, 'c, 'k) Session \<Rightarrow>
    ('r, 'd, 'w, 'h, 'c, 'k) Updater \<Rightarrow> ('r, 'd, 'w, 'h, 'c, 'k) Updater" where
  "notified N J this info e p u =
     (if sp_type (se_params (snd p)) = SESSION_SUBSCRIBE \<and> IsSubscribeEvent info (snd p)
      then snd (run_state (UpdateListener_NotifyJS N J this e (snd p)) u) else u)"

lemma publish_step:
  "publish_loop N J this info e k u =
     (case find_session k u of
        None \<Rightarrow> None
      | Some s \<Rightarrow>
          (case find_session k (notified N J this info e (k, s) u) of
             None \<Rightarrow> None
           | Some _ \<Rightarrow>
               (case entry_after k (ju_sessions (notified N J this info e (k, s) u)) of
                  None \<Rightarrow> Some (notified N J this info e (k, s) u)
                | Some (k', _) \<Rightarrow> publish_loop N J this info e k' (notified N J this info e (k, s) u))))"
  unfolding notified_def snd_conv by (rule publish_loop.simps [unfolded Let_def])

lemma notified_sessions:
  assumes "\<And>v f args u. ju_sessions (snd (run_state (J v f args) u)) = ju_sessions u"
  shows "ju_sessions (notified N J this info e p u) = ju_sessions u"
proof -
  have J: "run_state (J v f args) w = (x, w') \<Longrightarrow> ju_sessions w' = ju_sessions w" for v f args w x w'
    using assms by (metis snd_conv)
  show ?thesis by (auto simp: notified_def UpdateListener_NotifyJS_def Let_def J split: prod.split)
qed

lemma publish_loop_fold:
  assumes "\<And>v f args u. ju_sessions (snd (run_state (J v f args) u)) = ju_sessions u"
    and "om_ordered id_less (ju_sessions u)" and "ju_sessions u = pre @ (k, s) # m"
  shows "publish_loop N J this info e k u = Some (fold (notified N J this info e) ((k, s) # m) u)"
  using assms(2,3)
proof (induction m arbitrary: pre k s u)
  case Nil
  let ?w = "notified N J this info e (k, s) u"
  have w: "ju_sessions ?w = pre @ [(k, s)]" using Nil(2) notified_sessions [of J, OF assms(1)] by metis
  have ord: "om_ordered id_less (pre @ [(k, s)])" using Nil by simp
  have "find_session k u = Some s" "find_session k ?w = Some s" "entry_after k (ju_sessions ?w) = None"
    using find_middle [OF ord] entry_after_next [OF ord] Nil(2) w by (simp_all add: find_session_def)
  then show ?case by (subst publish_step) simp
next
  case (Cons p m)
  let ?w = "notified N J this info e (k, s) u"
  obtain j t where p: "p = (j, t)" by force
  have w: "ju_sessions ?w = pre @ (k, s) # p # m" using Cons.prems(2) notified_sessions [of J, OF assms(1)] by metis
  have ord: "om_ordered id_less (pre @ (k, s) # p # m)" using Cons.prems by simp
  have f: "find_session k u = Some s" "find_session k ?w = Some s" "entry_after k (ju_sessions ?w) = Some (j, t)"
    using find_middle [OF ord] entry_after_next [OF ord] Cons.prems(2) w by (simp_all add: find_session_def p)
  have "publish_loop N J this info e j ?w = Some (fold (notified N J this info e) ((j, t) # m) ?w)"
    by (rule Cons.IH [of _ "pre @ [(k, s)]"]) (use w ord in \<open>simp_all add: p\<close>)
  with f show ?case by (subst publish_step) (simp add: p)
qed

text \<open>A handler that takes its own subscription away leaves the loop with an erased entry.\<close>

lemma publish_after_erase:
  assumes "find_session k u = Some s" and "find_session k (notified N J this info e (k, s) u) = None"
  shows "publish_loop N J this info e k u = None"
  using assms by (subst publish_step) simp

section \<open>Calls\<close>

lemma find_last_entry: "(\<And>j s. (j, s) \<in> set m \<Longrightarrow> j < k) \<Longrightarrow> om_find id_less k (m @ [(k, t)]) = Some t"
proof (induction m)
  case (Cons p m)
  obtain j r where p: "p = (j, r)" by force
  then have "j < k" using Cons.prems by auto
  with Cons show ?case by (fastforce simp: p)
qed simp

context napi_engine
begin

lemma promise_start:
  assumes inv: "sessions_inv Ob X u" and room: "room u" and ready: "jo_ready Ob (ju_heap u)"
    and promise: "ci_status info = napi_ok" "\<not> sp_callbackStartIndex params < ci_argc info"
  obtains p s h where "run_state (StartSession N info params worker) u =
      (p, u\<lparr>ju_sessionId := ju_sessionId u + 1, ju_sessions := ju_sessions u @ [(ju_sessionId u + 1, s)], ju_heap := h,
        ju_queued := ju_queued u @ [ju_sessionId u + 1]\<rparr>)"
    and "p \<noteq> np_nullptr N" and "p \<in> jo_live Ob h" and "jo_ready Ob h"
    and "se_class s = UpdatePromiseSession" and "se_sessionId s = ju_sessionId u + 1" and "se_params s = params"
    and "se_doWorker s = Some worker" and "se_businessError s = BusinessError_default"
    and "jo_work Ob h (se_worker s)" and "jo_deferred Ob (ju_heap u) (se_deferred s) = None" and "jo_deferred Ob h (se_deferred s) = Some Pending"
    and "\<not> se_asyncExecuteComplete s"
proof -
  let ?i = "sp_callbackStartIndex params" and ?k = "ju_sessionId u + 1"
  let ?s = "\<lparr>se_class = UpdatePromiseSession, se_sessionId = ?k, se_params = params, se_businessError = BusinessError_default,
        se_workResult = INT_CALL_SUCCESS, se_totalArgc = ci_argc info, se_callbackNumber = 0, se_doWorker = None,
        se_asyncExecuteComplete = False, se_worker = np_null_work N,
        se_callbackRef = [], se_deferred = np_null_deferred N, se_isOnce = False,
        se_eventType = [], se_handlerRef = np_null_ref N, se_eventClassifyInfo = EventClassifyInfo_default\<rparr>"
  let ?v = "u\<lparr>ju_sessionId := ?k, ju_sessions := ju_sessions u @ [(?k, ?s)]\<rparr>" and ?d = "?s\<lparr>se_doWorker := Some worker\<rparr>"
  have run: "run_state (StartSession N info params worker) u = run_state (start_and_keep N (ci_args info) worker ?s) (u\<lparr>ju_sessionId := ?k\<rparr>)"
    using promise by (simp add: StartSession_def UpdateSession_new_def Let_def)
  obtain p j d h' where w: "run_state (UpdatePromiseSession_StartWork N ?i (ci_args info) ?d) ?v =
      ((p, ?d\<lparr>se_deferred := d, se_worker := j\<rparr>), ?v\<lparr>ju_heap := h', ju_queued := ju_queued ?v @ [se_sessionId ?d]\<rparr>)"
      "p \<in> jo_live Ob h'" "p \<noteq> np_nullptr N" "jo_ready Ob h'" "jo_work Ob h' j"
      "jo_deferred Ob (ju_heap u) d = None" "jo_deferred Ob h' d = Some Pending"
    using promise_started [of ?v ?i "ci_args info" ?d] ready by auto
  have "run_state (StartWork N (ci_args info) worker ?s) ?v = run_state (UpdatePromiseSession_StartWork N ?i (ci_args info) ?d) ?v"
    by (simp add: StartWork_def Let_def)
  then have "run_state (start_and_keep N (ci_args info) worker ?s) (u\<lparr>ju_sessionId := ?k\<rparr>) =
      (p, u\<lparr>ju_sessionId := ?k, ju_sessions := ju_sessions u @ [(?k, ?d\<lparr>se_deferred := d, se_worker := j\<rparr>)], ju_heap := h',
        ju_queued := ju_queued u @ [?k]\<rparr>)"
    using start_and_keep_last [of "u\<lparr>ju_sessionId := ?k\<rparr>" ?s N "ci_args info" worker p "?d\<lparr>se_deferred := d, se_worker := j\<rparr>"
        "?v\<lparr>ju_heap := h', ju_queued := ju_queued u @ [?k]\<rparr>"] w(1,3) inv_new_id [OF inv] room
    by (simp add: room_def)
  with that run w(2-) show ?thesis by fastforce
qed

lemma promise_call:
  fixes u :: "('r, 'd, 'w, 'h, UpdateClient, 'k) Updater"
  assumes inv: "sessions_inv Ob [] u" and room: "room u" and ready: "jo_ready Ob (ju_heap u)"
    and promise: "ci_status info = napi_ok" "\<not> sp_callbackStartIndex params < ci_argc info"
    and type: "sp_type params \<noteq> SESSION_CHECK_VERSION" "sp_isNeedBusinessError params"
    and work: "worker (sp_type params) (Some BusinessError_default) (ju_members u) (ju_kits u) = Some (ret, Some e, c, k)"
    and fit: "members_fit c" "length (be_data e) < 2 ^ 32"
  shows "\<exists>p u1 u2 u3 u4 d. run_state (StartSession N info params worker) u = (p, u1) \<and> p \<noteq> np_nullptr N \<and>
    jo_deferred Ob (ju_heap u) d = None \<and> jo_deferred Ob (ju_heap u1) d = Some Pending \<and>
    run_work (ju_sessionId u + 1) u1 = Some u2 \<and> finish_work (ju_sessionId u + 1) u2 = Some u3 \<and>
    CompleteWork N J UpdateClient_GetUpdateResult (ju_sessionId u + 1) u3 = Some u4 \<and>
    ju_sessions u4 = ju_sessions u \<and> ju_members u4 = c \<and> ju_kits u4 = k \<and>
    promise_outcome Ob (ju_heap u1) (ju_heap u4) d (call_error (sp_type params) ret e) (result_tree (jo_text Ob) (sp_type params) c)"
proof -
  let ?k = "ju_sessionId u + 1"
  obtain p s h where s: "run_state (StartSession N info params worker) u =
      (p, u\<lparr>ju_sessionId := ?k, ju_sessions := ju_sessions u @ [(?k, s)], ju_heap := h, ju_queued := ju_queued u @ [?k]\<rparr>)"
      "p \<noteq> np_nullptr N" "p \<in> jo_live Ob h" "jo_ready Ob h" "se_class s = UpdatePromiseSession" "se_sessionId s = ?k" "se_params s = params"
      "se_doWorker s = Some worker" "se_businessError s = BusinessError_default" "jo_work Ob h (se_worker s)"
      "jo_deferred Ob (ju_heap u) (se_deferred s) = None" "jo_deferred Ob h (se_deferred s) = Some Pending"
      "\<not> se_asyncExecuteComplete s"
    by (rule promise_start [OF inv room ready promise, of worker])
  let ?u1 = "u\<lparr>ju_sessionId := ?k, ju_sessions := ju_sessions u @ [(?k, s)], ju_heap := h, ju_queued := ju_queued u @ [?k]\<rparr>"
  let ?s = "s\<lparr>se_workResult := ret, se_businessError := e\<rparr>"
  have less: "\<And>j t. (j, t) \<in> set (ju_sessions u) \<Longrightarrow> j < ?k" using inv_new_id [OF inv] room by (simp add: room_def)
  note last = find_last_entry [OF less] assign_last [OF less] erase_last [OF less]
  let ?u2 = "u\<lparr>ju_sessionId := ?k, ju_sessions := ju_sessions u @ [(?k, ?s)], ju_heap := h, ju_members := c, ju_kits := k,
    ju_queued := remove1 ?k (ju_queued u @ [?k]), ju_running := ju_running u @ [?k]\<rparr>"
  let ?u3 = "?u2\<lparr>ju_running := remove1 ?k (ju_running u @ [?k]), ju_executed := ju_executed u @ [?k]\<rparr>"
  let ?u = "?u3\<lparr>ju_executed := remove1 ?k (ju_executed u @ [?k])\<rparr>"
  have "ExecuteWork s (ju_members u) (ju_kits u) = Some (?s, c, k)"
    using s(7-9) type(2) work by (simp add: ExecuteWork_def)
  then have run: "run_work ?k ?u1 = Some ?u2"
    using s(6) by (simp add: run_work_def find_session_def put_session_def last)
  have "ExecuteWork_waited ?s = ?s" using s(7) type(1) by (simp add: ExecuteWork_waited_def must_wait_def IsAsyncCompleteWork_def)
  then have finish: "finish_work ?k ?u2 = Some ?u3"
    using s(6) by (simp add: finish_work_def find_session_def put_session_def last)
  obtain h' where r: "run_state (UpdatePromiseSession_NotifyJS N (Session_GetUpdateResult UpdateClient_GetUpdateResult c ?s) ?s) ?u =
      (?s\<lparr>se_worker := np_null_work N\<rparr>, ?u\<lparr>ju_heap := h'\<rparr>)" "settled Ob h h' c ?s"
    using promise_reported [of ?u ?s c] s(4,10,12) fit by auto
  have "CompleteWork N J UpdateClient_GetUpdateResult ?k ?u3 = Some (RemoveSession ?k (?u\<lparr>ju_heap := h'\<rparr>))"
    using s(5) r(1) by (simp add: CompleteWork_def Session_CompleteWork_def find_session_def last)
  moreover have "promise_outcome Ob h h' (se_deferred s) (call_error (sp_type params) ret e) (result_tree (jo_text Ob) (sp_type params) c)"
    using r(2) s(7) by (simp add: settled_outcome)
  ultimately show ?thesis
    using s(1,2,11,12) run finish
    by (intro exI [of _ p] exI [of _ ?u1] exI [of _ ?u2] exI [of _ ?u3] exI [of _ "RemoveSession ?k (?u\<lparr>ju_heap := h'\<rparr>)"] exI [of _ "se_deferred s"])
      (simp add: RemoveSession_def last)
qed

lemma Off_exact:
  assumes inv: "sessions_inv Ob X u" and ready: "jo_ready Ob (ju_heap u)"
    and read: "run_state (GetEventClassifyInfoFromArg N (ci_args info ! 0) EventClassifyInfo_default) (ju_heap u) = ((CLIENT_SUCCESS, e), ju_heap u)"
    and info: "ci_status info = napi_ok"
    and handle: "handle = (if 2 \<le> ci_argc info then ci_args info ! 1 else np_nullptr N)"
      "2 \<le> ci_argc info \<Longrightarrow> ci_args info ! 1 \<in> jo_live Ob (ju_heap u) \<and> jo_view Ob (ju_heap u) (ci_args info ! 1) = JsFunction"
  shows "\<exists>v h. run_state (IUpdater_Off N info) u =
      (v, u\<lparr>ju_sessions := filter (\<lambda>(k, s). other_listener N Ob (ju_heap u) e handle s) (ju_sessions u), ju_heap := h\<rparr>) \<and>
    v \<in> jo_live Ob h \<and> only_changes Ob {} (ju_heap u) h"
proof -
  define m where "m = filter (\<lambda>(k, s). other_listener N Ob (ju_heap u) e handle s) (ju_sessions u)"
  have "handle = np_nullptr N \<or> handle \<in> jo_live Ob (ju_heap u)" using handle by auto
  then obtain m' where m': "run_state (Unsubscribe N e handle) u = ((), u\<lparr>ju_sessions := m'\<rparr>)"
      "handle = np_nullptr N \<or> jo_view Ob (ju_heap u) handle = JsFunction \<longrightarrow> m' = m"
    using inv_Unsubscribe [OF inv ready, of handle e] unfolding m_def by blast
  moreover have "handle = np_nullptr N \<or> jo_view Ob (ju_heap u) handle = JsFunction" using handle by (cases "2 \<le> ci_argc info") auto
  ultimately have m: "run_state (Unsubscribe N e handle) u = ((), u\<lparr>ju_sessions := m\<rparr>)" by blast
  have ty: "run_state (NapiUtil_IsTypeOf N (ci_args info ! 1) napi_function) (ju_heap u) = (CLIENT_SUCCESS, ju_heap u)" if "2 \<le> ci_argc info"
    using IsTypeOf_value [OF ready, of "ci_args info ! 1" napi_function] handle(2) [OF that] by simp
  obtain v h where v: "run_state (np_create_int32 N 0 (np_wild N)) (ju_heap u) = ((napi_ok, v), h)" "only_changes Ob {} (ju_heap u) h"
      "v \<in> jo_live Ob h"
    using create_int32 [OF ready] by blast
  have "run_state (IUpdater_Off N info) u = (v, u\<lparr>ju_sessions := m, ju_heap := h\<rparr>)"
  proof (cases "2 \<le> ci_argc info")
    case True
    then show ?thesis using info read m v(1) ty handle(1) by (simp add: IUpdater_Off_def case_prod_unfold)
  next
    case False
    then show ?thesis using info read m v(1) handle(1) by (simp add: IUpdater_Off_def case_prod_unfold)
  qed
  with v(2,3) show ?thesis unfolding m_def by blast
qed

section \<open>Publishing\<close>

text \<open>A subscription gets one call, with the tree of the event.\<close>

lemma notified_calls:
  assumes fit: "event_fits e" and shown: "g_taskBodyTemplateMap (ei_eventId e) = Some shown"
    and s: "sp_type (se_params s) = SESSION_SUBSCRIBE" "IsSubscribeEvent info s"
    and ready: "jo_ready Ob (ju_heap w)" and f: "jo_ref Ob (ju_heap w) (se_handlerRef s) = Some f"
  shows "\<exists>v h. renders Ob {} h v (EventInfo_tree (jo_text Ob) shown e) \<and>
    notified N J this info e (k, s) w = snd (run_state (J this f [v]) (w\<lparr>ju_heap := h\<rparr>))"
proof -
  obtain v h where v: "run_state (BuildEventInfo N (np_nullptr N) e) (ju_heap w) = ((CLIENT_SUCCESS, v), h)" "only_changes Ob {} (ju_heap w) h"
      "renders Ob (jo_live Ob (ju_heap w)) h v (EventInfo_tree (jo_text Ob) shown e)"
    using event_built [OF fit ready, of "np_nullptr N"] shown by auto
  have h: "jo_ready Ob h" "jo_ref Ob h (se_handlerRef s) = Some f"
    using only_changes_ready [OF v(2)] f v(2) by (auto simp: only_changes_def same_handles_def)
  have "f \<noteq> np_nullptr N" "se_handlerRef s \<noteq> np_null_ref N"
    using reference_live [OF f] null_not_live null_reference [of "ju_heap w"] f by auto
  then have "notified N J this info e (k, s) w = snd (run_state (J this f [v]) (w\<lparr>ju_heap := h\<rparr>))"
    using s v(1) reference_value [OF h, of "np_nullptr N"] by (simp add: notified_def UpdateListener_NotifyJS_def split: prod.split)
  moreover have "renders Ob {} h v (EventInfo_tree (jo_text Ob) shown e)" using v(3) by (rule renders_apart) simp
  ultimately show ?thesis by blast
qed

lemma PublishToJS_fold:
  fixes u :: "('r, 'd, 'w, 'h, 'x, 'y) Updater"
  assumes keeps: "\<And>v f args w. ju_sessions (snd (run_state (J v f args) w)) = ju_sessions (w :: ('r, 'd, 'w, 'h, 'x, 'y) Updater)"
    and inv: "sessions_inv Ob X u" and ready: "jo_ready Ob (ju_heap u)" and self: "jo_ref Ob (ju_heap u) (ju_thisReference u) = Some this"
  shows "\<exists>h. only_changes Ob {} (ju_heap u) h \<and>
    PublishToJS N J info e u =
      Some (snd (run_state (engine (np_close_handle_scope N)) (fold (notified N J this info e) (ju_sessions u) (u\<lparr>ju_heap := h\<rparr>))))"
proof -
  obtain h where o: "run_state (np_open_handle_scope N) (ju_heap u) = (napi_ok, h)" "only_changes Ob {} (ju_heap u) h"
    using open_scope [OF ready] by blast
  have "jo_ready Ob h" "jo_ref Ob h (ju_thisReference u) = Some this"
    using only_changes_ready [OF o(2)] self o(2) by (auto simp: only_changes_def same_handles_def)
  then have t: "run_state (np_get_reference_value N (ju_thisReference u) (np_nullptr N)) h = ((napi_ok, this), h)"
    by (rule reference_value)
  show ?thesis
  proof (cases "ju_sessions u")
    case Nil
    with o t show ?thesis by (intro exI [of _ h]) (simp add: PublishToJS_def Let_def)
  next
    case (Cons p m)
    obtain k s where p: "p = (k, s)" by force
    have "publish_loop N J this info e k (u\<lparr>ju_heap := h\<rparr>) =
        Some (fold (notified N J this info e) ((k, s) # m) (u\<lparr>ju_heap := h\<rparr>))"
      by (rule publish_loop_fold [where pre = "[]", OF keeps]) (use inv_ordered [OF inv] Cons p in simp_all)
    with Cons o t p show ?thesis by (intro exI [of _ h]) (simp add: PublishToJS_def Let_def)
  qed
qed

section \<open>Policies\<close>

text \<open>Members that are not of the type that is read leave the policy as it was.\<close>

lemma period_read_keeps:
  assumes "jo_ready Ob h" and "v \<in> jo_live Ob h" and "jo_view Ob h v = JsArray [w0, w1]"
    and "typeof_view (jo_view Ob h w0) \<noteq> napi_number" and "typeof_view (jo_view Ob h w1) \<noteq> napi_number"
  shows "run_state (period_read_loop N v 2 [p, q] 0) h = ([p, q], h)"
proof -
  have live: "w0 \<in> jo_live Ob h" "w1 \<in> jo_live Ob h" using element_live [OF assms(1-3)] by simp_all
  have e: "run_state (np_get_element N v 0 (np_wild N)) h = ((napi_ok, w0), h)"
      "run_state (np_get_element N v 1 (np_wild N)) h = ((napi_ok, w1), h)"
    using get_element [OF assms(1-3), of 0] get_element [OF assms(1-3), of 1] by simp_all
  obtain s0 s1 s2 s3 where "run_state (np_get_value_uint32 N w0 (up_start p)) h = ((s0, up_start p), h)"
      "run_state (np_get_value_uint32 N w0 (up_end p)) h = ((s1, up_end p), h)"
      "run_state (np_get_value_uint32 N w1 (up_start q)) h = ((s2, up_start q), h)"
      "run_state (np_get_value_uint32 N w1 (up_end q)) h = ((s3, up_end q), h)"
    using value_uint32_type [OF assms(1) live(1) assms(4)] value_uint32_type [OF assms(1) live(2) assms(5)] by metis
  with e show ?thesis by simp
qed

lemma policy_not_read_back:
  assumes ready: "jo_ready Ob h" and v: "renders Ob L h v (UpgradePolicy_tree p)"
  shows "run_state (GetUpgradePolicyFromArg N v q) h = ((CLIENT_SUCCESS, q), h)"
proof -
  let ?ps = "[UpgradePeriod_tree (fst (upo_autoUpgradePeriods p)), UpgradePeriod_tree (snd (upo_autoUpgradePeriods p))]"
  note own = own_name_def inherited_names_def
  let ?fs = "[(''downloadStrategy'', bool_tree (upo_downloadStrategy p)), (''autoUpgradeStrategy'', bool_tree (upo_autoUpgradeStrategy p)),
      (''autoUpgradePeriods'', TArray ?ps)]"
  obtain m where obj: "v \<in> jo_live Ob h" "jo_view Ob h v = JsObject m"
      "\<forall>k t. (k, t) \<in> set ?fs \<longrightarrow> (\<exists>w. m k = Some w \<and> renders Ob L h w t)"
    using v unfolding UpgradePolicy_tree_def by (rule renders_objectE) blast
  have "(''autoUpgradePeriods'', TArray ?ps) \<in> set ?fs" by simp
  with obj(3) obtain a where "m ''autoUpgradePeriods'' = Some a" "renders Ob L h a (TArray ?ps)" by blast
  with obj(1,2) have m: "v \<in> jo_live Ob h" "jo_view Ob h v = JsObject m" "m ''autoUpgradePeriods'' = Some a" "renders Ob L h a (TArray ?ps)"
    by blast+
  have bools: "run_state (NapiUtil_GetBool N v ''downloadStrategy'' b) h = (b, h)"
      "run_state (NapiUtil_GetBool N v ''autoUpgradeStrategy'' b) h = (b, h)" for b
    using read_back(3) [OF v [unfolded UpgradePolicy_tree_def bool_tree_def] ready] by (simp_all add: own)
  obtain xs where xs: "a \<in> jo_live Ob h" "jo_view Ob h a = JsArray xs" "length xs = 2" "\<forall>i < 2. renders Ob L h (xs ! i) (?ps ! i)"
    using m(4) by (auto elim!: renders_arrayE)
  then obtain w0 w1 where w: "jo_view Ob h a = JsArray [w0, w1]" "a \<in> jo_live Ob h" "renders Ob L h w0 (?ps ! 0)" "renders Ob L h w1 (?ps ! 1)"
    by (auto simp: numeral_2_eq_2 length_Suc_conv less_Suc_eq)
  have ty: "typeof_view (jo_view Ob h w0) \<noteq> napi_number" "typeof_view (jo_view Ob h w1) \<noteq> napi_number"
    using w(3,4) by (auto simp: UpgradePeriod_tree_def elim!: renders_objectE)
  have "run_state (np_is_array N a b) h = ((napi_ok, True), h)" for b using is_array [OF ready w(2), of b] w(1) by simp
  moreover have "run_state (np_get_array_length N a 0) h = ((napi_ok, 2), h)" using array_length [OF ready w(2,1), of 0] by simp
  moreover have "run_state (np_has_named_property N v ''autoUpgradePeriods'' False) h = ((napi_ok, True), h)"
    using has_named [OF ready m(1,2)] m(3) by (simp add: own)
  moreover have "run_state (np_get_named_property N v ''autoUpgradePeriods'' (np_wild N)) h = ((napi_ok, a), h)"
    using get_named [OF ready m(1-3)] by (simp add: own)
  moreover have "run_state (CheckNapiObjectType N v) h = (CLIENT_SUCCESS, h)"
    using type_of [OF ready m(1), of napi_undefined] m(2) by (simp add: CheckNapiObjectType_def)
  ultimately show ?thesis
    using period_read_keeps [OF ready w(2,1) ty] bools by (simp add: GetUpgradePolicyFromArg_def Let_def del: period_read_loop.simps)
qed

end

end
