(* ===== verification/Js_Check.thy ===== *)
theory Js_Check
  imports Js_Calls
begin

text \<open>
  A search of the application: from \<open>checkNewVersion\<close> over the answer of the service, or the time-out
  without one, to the promise.
\<close>

text \<open>What the session of the search has as its error when its thread ends.\<close>

definition search_error :: "int32_t \<Rightarrow> (BusinessError \<times> CheckResult) option \<Rightarrow> BusinessError" where
  "search_error ret answer =
     (case answer of
        Some (e, _) \<Rightarrow> e
      | None \<Rightarrow> if ret = INT_CALL_SUCCESS then BusinessError_default\<lparr>be_errorNum := CallResult.TIME_OUT\<rparr> else BusinessError_default)"

definition notice_of_answer ::
  "(BusinessError \<times> CheckResult) option \<Rightarrow> ('r, 'd, 'w, 'h, 's) Online \<Rightarrow> ('r, 'd, 'w, 'h, 's) Online" where
  "notice_of_answer answer u =
     (case answer of None \<Rightarrow> u | Some (e, r) \<Rightarrow> UpdateClient_NotifyCheckVersionDone e r u)"

definition members_after :: "(BusinessError \<times> CheckResult) option \<Rightarrow> UpdateClient \<Rightarrow> UpdateClient" where
  "members_after answer c = (case answer of None \<Rightarrow> c | Some (_, r) \<Rightarrow> c\<lparr>uc_checkResult := r\<rparr>)"

definition sessions_after ::
  "(BusinessError \<times> CheckResult) option \<Rightarrow> (uint32_t \<times> ('r, 'd, 'w, 'c, 'k) Session) list \<Rightarrow> (uint32_t \<times> ('r, 'd, 'w, 'c, 'k) Session) list" where
  "sessions_after answer m = (case answer of None \<Rightarrow> m | Some (e, _) \<Rightarrow> map (\<lambda>(k, s). (k, answered e s)) m)"

lemma notice_sessions:
  assumes "ids_ok (ju_sessions u)"
  shows "notice_of_answer answer u =
    u\<lparr>ju_members := members_after answer (ju_members u), ju_sessions := sessions_after answer (ju_sessions u)\<rparr>"
  using assms by (auto simp: notice_of_answer_def members_after_def sessions_after_def UpdateClient_NotifyCheckVersionDone_def Emit_answers
      split: option.split)

lemma sessions_after_append:
  "sessions_after answer (m @ [(k, s)]) =
    sessions_after answer m @ [(k, case answer of None \<Rightarrow> s | Some (e, _) \<Rightarrow> answered e s)]"
  by (auto simp: sessions_after_def split: option.split)

lemma sessions_after_keys: "(\<And>j s. (j, s) \<in> set m \<Longrightarrow> j < k) \<Longrightarrow> (j, s) \<in> set (sessions_after answer m) \<Longrightarrow> j < (k :: uint32_t)"
  by (fastforce simp: sessions_after_def split: option.splits)

lemma ids_ok_last: "ids_ok m \<Longrightarrow> (\<And>j s. (j, s) \<in> set m \<Longrightarrow> j < k) \<Longrightarrow> se_sessionId s = k \<Longrightarrow> ids_ok (m @ [(k, s)])"
  unfolding ids_ok_def ordered_append by (fastforce simp: im.ordered_Cons im.ordered_Nil)

text \<open>The error of the session at the end of its thread.\<close>

lemma search_waited:
  assumes "sp_type (se_params s) = SESSION_CHECK_VERSION" and "se_doWorker s = Some f" and "se_businessError s = BusinessError_default"
    and "\<not> se_asyncExecuteComplete s"
  shows "ExecuteWork_waited (case answer of None \<Rightarrow> s\<lparr>se_workResult := ret\<rparr> | Some (e, _) \<Rightarrow> answered e (s\<lparr>se_workResult := ret\<rparr>)) =
    s\<lparr>se_workResult := ret, se_businessError := search_error ret answer, se_asyncExecuteComplete := answer \<noteq> None\<rparr>"
  using assms
  by (auto simp: ExecuteWork_waited_def must_wait_def answered_def IsAsyncCompleteWork_def OnAsyncComplete_def IsWorkExecuteSuccess_def
      search_error_def split: option.split)

context napi_engine
begin

lemma search_call:
  fixes u :: "('r, 'd, 'w, 'h, UpdateClient, Kits \<times> 's) Updater"
  assumes inv: "sessions_inv Ob [] u" and room: "room u" and ready: "jo_ready Ob (ju_heap u)"
    and info: "ci_status info = napi_ok" "ci_argc info = 0"
    and call: "Kits_CheckNewVersion A service (uc_upgradeInfo (ju_members u)) (ju_kits u) = Some (ret, x, ks)"
    and fit: "members_fit (members_after answer (ju_members u))" "length (be_data (search_error ret answer)) < 2 ^ 32"
  shows "\<exists>p u1 u2 u3 u4 d. run_state (UpdateClient_CheckNewVersion N A service info) u = (p, u1) \<and> p \<noteq> np_nullptr N \<and>
    jo_deferred Ob (ju_heap u) d = None \<and> jo_deferred Ob (ju_heap u1) d = Some Pending \<and>
    run_work (ju_sessionId u + 1) u1 = Some u2 \<and> finish_work (ju_sessionId u + 1) (notice_of_answer answer u2) = Some u3 \<and>
    CompleteWork N J UpdateClient_GetUpdateResult (ju_sessionId u + 1) u3 = Some u4 \<and>
    ju_kits u4 = ks \<and> ju_sessions u4 = sessions_after answer (ju_sessions u) \<and>
    promise_outcome Ob (ju_heap u1) (ju_heap u4) d (call_error SESSION_CHECK_VERSION ret (search_error ret answer))
      (Some (CheckResult_tree (jo_text Ob) (uc_checkResult (members_after answer (ju_members u)))))"
proof -
  let ?k = "ju_sessionId u + 1" and ?ps = "SessionParams_new SESSION_CHECK_VERSION 1 False True"
  let ?c = "members_after answer (ju_members u)"
  have promise: "\<not> sp_callbackStartIndex ?ps < ci_argc info" using info(2) by simp
  obtain p s h where s: "run_state (StartSession N info ?ps (check_worker A service)) u =
      (p, u\<lparr>ju_sessionId := ?k, ju_sessions := ju_sessions u @ [(?k, s)], ju_heap := h, ju_queued := ju_queued u @ [?k]\<rparr>)"
      "p \<noteq> np_nullptr N" "p \<in> jo_live Ob h" "jo_ready Ob h" "se_class s = UpdatePromiseSession" "se_sessionId s = ?k" "se_params s = ?ps"
      "se_doWorker s = Some (check_worker A service)" "se_businessError s = BusinessError_default" "jo_work Ob h (se_worker s)"
      "jo_deferred Ob (ju_heap u) (se_deferred s) = None" "jo_deferred Ob h (se_deferred s) = Some Pending"
      "\<not> se_asyncExecuteComplete s"
    by (rule promise_start [OF inv room ready info(1) promise, of "check_worker A service"])
  let ?u1 = "u\<lparr>ju_sessionId := ?k, ju_sessions := ju_sessions u @ [(?k, s)], ju_heap := h, ju_queued := ju_queued u @ [?k]\<rparr>"
  let ?s = "s\<lparr>se_workResult := ret\<rparr>"
  have less: "\<And>j t. (j, t) \<in> set (ju_sessions u) \<Longrightarrow> j < ?k" using inv_new_id [OF inv] room by (simp add: room_def)
  note after = sessions_after_keys [where answer = answer, OF less]
  let ?u2 = "u\<lparr>ju_sessionId := ?k, ju_sessions := ju_sessions u @ [(?k, ?s)], ju_heap := h, ju_kits := ks,
    ju_queued := remove1 ?k (ju_queued u @ [?k]), ju_running := ju_running u @ [?k]\<rparr>"
  have "ExecuteWork s (ju_members u) (ju_kits u) = Some (?s, ju_members u, ks)"
    using s(7-9) call by (simp add: ExecuteWork_def SessionParams_new_def check_worker_def)
  then have run: "run_work ?k ?u1 = Some ?u2"
    using s(6) by (simp add: run_work_def find_session_def put_session_def find_last_entry [OF less] assign_last [OF less])
  let ?w = "s\<lparr>se_workResult := ret, se_businessError := search_error ret answer, se_asyncExecuteComplete := answer \<noteq> None\<rparr>"
  let ?m = "sessions_after answer (ju_sessions u)"
  have "ids_ok (ju_sessions ?u2)" using ids_ok_last [OF inv_ids [OF inv] less] s(6) by simp
  then have notice: "notice_of_answer answer ?u2 = ?u2\<lparr>ju_members := ?c,
      ju_sessions := ?m @ [(?k, case answer of None \<Rightarrow> ?s | Some (e, _) \<Rightarrow> answered e ?s)]\<rparr>"
    by (simp add: notice_sessions sessions_after_append)
  let ?u3 = "u\<lparr>ju_sessionId := ?k, ju_members := ?c, ju_sessions := ?m @ [(?k, ?w)], ju_heap := h, ju_kits := ks,
    ju_queued := remove1 ?k (ju_queued u @ [?k]), ju_running := remove1 ?k (ju_running u @ [?k]), ju_executed := ju_executed u @ [?k]\<rparr>"
  let ?t = "case answer of None \<Rightarrow> ?s | Some (e, _) \<Rightarrow> answered e ?s"
  have waited: "ExecuteWork_waited ?t = ?w"
    using s(7,8,9,13) by (intro search_waited) (simp_all add: SessionParams_new_def)
  have finish: "finish_work ?k (notice_of_answer answer ?u2) = Some ?u3"
    unfolding notice
    using s(6) by (simp add: finish_work_def find_session_def put_session_def find_last_entry [OF after] assign_last [OF after] waited)
  let ?u = "?u3\<lparr>ju_executed := remove1 ?k (ju_executed u @ [?k])\<rparr>"
  obtain h' where r: "run_state (UpdatePromiseSession_NotifyJS N (Session_GetUpdateResult UpdateClient_GetUpdateResult ?c ?w) ?w) ?u =
      (?w\<lparr>se_worker := np_null_work N\<rparr>, ?u\<lparr>ju_heap := h'\<rparr>)" "settled Ob h h' ?c ?w"
    using promise_reported [of ?u ?w ?c] s(4,10,12) fit by auto
  have "CompleteWork N J UpdateClient_GetUpdateResult ?k ?u3 = Some (RemoveSession ?k (?u\<lparr>ju_heap := h'\<rparr>))"
    using s(5) r(1) by (simp add: CompleteWork_def Session_CompleteWork_def find_session_def find_last_entry [OF after])
  moreover have "promise_outcome Ob h h' (se_deferred s) (call_error SESSION_CHECK_VERSION ret (search_error ret answer))
      (Some (CheckResult_tree (jo_text Ob) (uc_checkResult ?c)))"
    using r(2) s(7) by (simp add: settled_outcome SessionParams_new_def result_tree_def)
  ultimately show ?thesis
    using s(1,2,11,12) run finish
    by (intro exI [of _ p] exI [of _ ?u1] exI [of _ ?u2] exI [of _ ?u3] exI [of _ "RemoveSession ?k (?u\<lparr>ju_heap := h'\<rparr>)"] exI [of _ "se_deferred s"])
      (simp add: RemoveSession_def UpdateClient_CheckNewVersion_def erase_last [OF after])
qed

end

end
