(* ===== verification/Define_Property.thy ===== *)
theory Define_Property
  imports Client_Args
begin

text \<open>
  The constants the module exports (\<open>base/src/define_property.cpp\<close>): one object per enumeration,
  whose properties are named by \<open>GetEnumValueString\<close> of the source text of the enumerator and carry
  its code; the object \<open>CallResult\<close> carries the codes that errors reach the application with.
\<close>

definition UpgradeAction_UPGRADE :: string where
  "UpgradeAction_UPGRADE = ''upgrade''"

definition UpgradeAction_RECOVERY :: string where
  "UpgradeAction_RECOVERY = ''recovery''"

definition BusinessVendor_PUBLIC :: string where
  "BusinessVendor_PUBLIC = ''public''"

text \<open>The initialiser lists of the macros: the values are made in the order of the list.\<close>

fun declare_enums ::
  "('v, 'r, 'd, 'w, 'h) napi \<Rightarrow> ('e \<Rightarrow> uint32_t) \<Rightarrow> (string \<times> 'e) list \<Rightarrow> ('h, (string \<times> 'v) list) state" where
  "declare_enums N code [] = State_Monad.return []"
| "declare_enums N code ((item, e) # items) = do {
     v \<leftarrow> NapiUtil_CreateUint32 N (code e);
     rest \<leftarrow> declare_enums N code items;
     State_Monad.return ((GetEnumValueString item, v) # rest)
   }"

fun declare_strings ::
  "('v, 'r, 'd, 'w, 'h) napi \<Rightarrow> (string \<times> string) list \<Rightarrow> ('h, (string \<times> 'v) list) state" where
  "declare_strings N [] = State_Monad.return []"
| "declare_strings N ((item, s) # items) = do {
     v \<leftarrow> NapiUtil_CreateStringUtf8 N s;
     rest \<leftarrow> declare_strings N items;
     State_Monad.return ((GetEnumValueString item, v) # rest)
   }"

definition DefineCallResult :: "('v, 'r, 'd, 'w, 'h) napi \<Rightarrow> 'v \<Rightarrow> ('h, unit) state" where
  "DefineCallResult N exports = do {
     items \<leftarrow> declare_enums N (ucast \<circ> ConvertToErrorCode)
       [(''CallResult::APP_NOT_GRANTED'', CallResult.APP_NOT_GRANTED),
        (''CallResult::PARAM_ERR'', CallResult.PARAM_ERR), (''CallResult::UN_SUPPORT'', CallResult.UN_SUPPORT),
        (''CallResult::SUCCESS'', CallResult.SUCCESS), (''CallResult::FAIL'', CallResult.FAIL),
        (''CallResult::DEV_UPG_INFO_ERR'', CallResult.DEV_UPG_INFO_ERR),
        (''CallResult::FORBIDDEN'', CallResult.FORBIDDEN), (''CallResult::IPC_ERR'', CallResult.IPC_ERR),
        (''CallResult::TIME_OUT'', CallResult.TIME_OUT), (''CallResult::DB_ERROR'', CallResult.DB_ERROR),
        (''CallResult::IO_ERROR'', CallResult.IO_ERROR), (''CallResult::NET_ERROR'', CallResult.NET_ERROR)];
     NapiUtil_CreateProperty N exports ''CallResult'' items
   }"

definition DefineUpgradeStatus :: "('v, 'r, 'd, 'w, 'h) napi \<Rightarrow> 'v \<Rightarrow> ('h, unit) state" where
  "DefineUpgradeStatus N exports = do {
     items \<leftarrow> declare_enums N (ucast \<circ> UpgradeStatus_code)
       [(''UpgradeStatus::INIT'', UpgradeStatus.INIT),
        (''UpgradeStatus::CHECKING_VERSION'', UpgradeStatus.CHECKING_VERSION),
        (''UpgradeStatus::CHECK_VERSION_FAIL'', UpgradeStatus.CHECK_VERSION_FAIL),
        (''UpgradeStatus::CHECK_VERSION_SUCCESS'', UpgradeStatus.CHECK_VERSION_SUCCESS),
        (''UpgradeStatus::DOWNLOADING'', UpgradeStatus.DOWNLOADING),
        (''UpgradeStatus::DOWNLOAD_PAUSE'', UpgradeStatus.DOWNLOAD_PAUSE),
        (''UpgradeStatus::DOWNLOAD_CANCEL'', UpgradeStatus.DOWNLOAD_CANCEL),
        (''UpgradeStatus::DOWNLOAD_FAIL'', UpgradeStatus.DOWNLOAD_FAIL),
        (''UpgradeStatus::DOWNLOAD_SUCCESS'', UpgradeStatus.DOWNLOAD_SUCCESS),
        (''UpgradeStatus::VERIFYING'', UpgradeStatus.VERIFYING),
        (''UpgradeStatus::VERIFY_FAIL'', UpgradeStatus.VERIFY_FAIL),
        (''UpgradeStatus::VERIFY_SUCCESS'', UpgradeStatus.VERIFY_SUCCESS),
        (''UpgradeStatus::PACKAGE_TRANSING'', UpgradeStatus.PACKAGE_TRANSING),
        (''UpgradeStatus::PACKAGE_TRANS_FAIL'', UpgradeStatus.PACKAGE_TRANS_FAIL),
        (''UpgradeStatus::PACKAGE_TRANS_SUCCESS'', UpgradeStatus.PACKAGE_TRANS_SUCCESS),
        (''UpgradeStatus::INSTALLING'', UpgradeStatus.INSTALLING),
        (''UpgradeStatus::INSTALL_FAIL'', UpgradeStatus.INSTALL_FAIL),
        (''UpgradeStatus::INSTALL_SUCCESS'', UpgradeStatus.INSTALL_SUCCESS),
        (''UpgradeStatus::UPDATING'', UpgradeStatus.UPDATING),
        (''UpgradeStatus::UPDATE_FAIL'', UpgradeStatus.UPDATE_FAIL),
        (''UpgradeStatus::UPDATE_SUCCESS'', UpgradeStatus.UPDATE_SUCCESS)];
     NapiUtil_CreateProperty N exports ''UpgradeStatus'' items
   }"

definition DefineComponentType :: "('v, 'r, 'd, 'w, 'h) napi \<Rightarrow> 'v \<Rightarrow> ('h, unit) state" where
  "DefineComponentType N exports = do {
     items \<leftarrow> declare_enums N (ucast \<circ> ComponentType_code)
       [(''ComponentType::OTA'', ComponentType.OTA)];
     NapiUtil_CreateProperty N exports ''ComponentType'' items
   }"

definition DefineEffectiveMode :: "('v, 'r, 'd, 'w, 'h) napi \<Rightarrow> 'v \<Rightarrow> ('h, unit) state" where
  "DefineEffectiveMode N exports = do {
     items \<leftarrow> declare_enums N (ucast \<circ> EffectiveMode_code)
       [(''EffectiveMode::COLD'', EffectiveMode.COLD), (''EffectiveMode::LIVE'', EffectiveMode.LIVE),
        (''EffectiveMode::LIVE_AND_COLD'', EffectiveMode.LIVE_AND_COLD)];
     NapiUtil_CreateProperty N exports ''EffectiveMode'' items
   }"

definition DefineNetType :: "('v, 'r, 'd, 'w, 'h) napi \<Rightarrow> 'v \<Rightarrow> ('h, unit) state" where
  "DefineNetType N exports = do {
     items \<leftarrow> declare_enums N (ucast \<circ> NetType_code)
       [(''NetType::CELLULAR'', NetType.CELLULAR), (''NetType::METERED_WIFI'', NetType.METERED_WIFI),
        (''NetType::NOT_METERED_WIFI'', NetType.NOT_METERED_WIFI), (''NetType::WIFI'', NetType.WIFI),
        (''NetType::CELLULAR_AND_WIFI'', NetType.CELLULAR_AND_WIFI)];
     NapiUtil_CreateProperty N exports ''NetType'' items
   }"

definition DefineOrder :: "('v, 'r, 'd, 'w, 'h) napi \<Rightarrow> 'v \<Rightarrow> ('h, unit) state" where
  "DefineOrder N exports = do {
     items \<leftarrow> declare_enums N (ucast \<circ> Order_code)
       [(''Order::DOWNLOAD'', Order.DOWNLOAD), (''Order::INSTALL'', Order.INSTALL),
        (''Order::DOWNLOAD_AND_INSTALL'', Order.DOWNLOAD_AND_INSTALL), (''Order::APPLY'', Order.APPLY),
        (''Order::INSTALL_AND_APPLY'', Order.INSTALL_AND_APPLY)];
     NapiUtil_CreateProperty N exports ''Order'' items
   }"

definition DefineEventClassify :: "('v, 'r, 'd, 'w, 'h) napi \<Rightarrow> 'v \<Rightarrow> ('h, unit) state" where
  "DefineEventClassify N exports = do {
     items \<leftarrow> declare_enums N (ucast \<circ> EventClassify_code)
       [(''EventClassify::TASK'', EventClassify.TASK)];
     NapiUtil_CreateProperty N exports ''EventClassify'' items
   }"

definition DefineBusinessSubType :: "('v, 'r, 'd, 'w, 'h) napi \<Rightarrow> 'v \<Rightarrow> ('h, unit) state" where
  "DefineBusinessSubType N exports = do {
     items \<leftarrow> declare_enums N (ucast \<circ> BusinessSubType_code)
       [(''BusinessSubType::FIRMWARE'', BusinessSubType.FIRMWARE),
        (''BusinessSubType::PARAM'', BusinessSubType.PARAM)];
     NapiUtil_CreateProperty N exports ''BusinessSubType'' items
   }"

definition DefineDescriptionType :: "('v, 'r, 'd, 'w, 'h) napi \<Rightarrow> 'v \<Rightarrow> ('h, unit) state" where
  "DefineDescriptionType N exports = do {
     items \<leftarrow> declare_enums N (ucast \<circ> DescriptionType_code)
       [(''DescriptionType::CONTENT'', DescriptionType.CONTENT),
        (''DescriptionType::URI'', DescriptionType.URI), (''DescriptionType::ID'', DescriptionType.ID)];
     NapiUtil_CreateProperty N exports ''DescriptionType'' items
   }"

definition DefineDescriptionFormat :: "('v, 'r, 'd, 'w, 'h) napi \<Rightarrow> 'v \<Rightarrow> ('h, unit) state" where
  "DefineDescriptionFormat N exports = do {
     items \<leftarrow> declare_enums N (ucast \<circ> DescriptionFormat_code)
       [(''DescriptionFormat::STANDARD'', DescriptionFormat.STANDARD),
        (''DescriptionFormat::SIMPLIFIED'', DescriptionFormat.SIMPLIFIED)];
     NapiUtil_CreateProperty N exports ''DescriptionFormat'' items
   }"

definition DefineEventId :: "('v, 'r, 'd, 'w, 'h) napi \<Rightarrow> 'v \<Rightarrow> ('h, unit) state" where
  "DefineEventId N exports = do {
     items \<leftarrow> declare_enums N (ucast \<circ> EventId_code)
       [(''EventId::EVENT_TASK_BASE'', EventId.EVENT_TASK_BASE),
        (''EventId::EVENT_TASK_RECEIVE'', EventId.EVENT_TASK_RECEIVE),
        (''EventId::EVENT_TASK_CANCEL'', EventId.EVENT_TASK_CANCEL),
        (''EventId::EVENT_DOWNLOAD_WAIT'', EventId.EVENT_DOWNLOAD_WAIT),
        (''EventId::EVENT_DOWNLOAD_START'', EventId.EVENT_DOWNLOAD_START),
        (''EventId::EVENT_DOWNLOAD_UPDATE'', EventId.EVENT_DOWNLOAD_UPDATE),
        (''EventId::EVENT_DOWNLOAD_PAUSE'', EventId.EVENT_DOWNLOAD_PAUSE),
        (''EventId::EVENT_DOWNLOAD_RESUME'', EventId.EVENT_DOWNLOAD_RESUME),
        (''EventId::EVENT_DOWNLOAD_SUCCESS'', EventId.EVENT_DOWNLOAD_SUCCESS),
        (''EventId::EVENT_DOWNLOAD_FAIL'', EventId.EVENT_DOWNLOAD_FAIL),
        (''EventId::EVENT_UPGRADE_WAIT'', EventId.EVENT_UPGRADE_WAIT),
        (''EventId::EVENT_UPGRADE_START'', EventId.EVENT_UPGRADE_START),
        (''EventId::EVENT_UPGRADE_UPDATE'', EventId.EVENT_UPGRADE_UPDATE),
        (''EventId::EVENT_APPLY_WAIT'', EventId.EVENT_APPLY_WAIT),
        (''EventId::EVENT_APPLY_START'', EventId.EVENT_APPLY_START),
        (''EventId::EVENT_UPGRADE_SUCCESS'', EventId.EVENT_UPGRADE_SUCCESS),
        (''EventId::EVENT_UPGRADE_FAIL'', EventId.EVENT_UPGRADE_FAIL),
        (''EventId::EVENT_AUTH_START'', EventId.EVENT_AUTH_START),
        (''EventId::EVENT_AUTH_SUCCESS'', EventId.EVENT_AUTH_SUCCESS),
        (''EventId::EVENT_DOWNLOAD_CANCEL'', EventId.EVENT_DOWNLOAD_CANCEL),
        (''EventId::EVENT_INITIALIZE'', EventId.EVENT_INITIALIZE)];
     NapiUtil_CreateProperty N exports ''EventId'' items
   }"

definition DefineUpgradeAction :: "('v, 'r, 'd, 'w, 'h) napi \<Rightarrow> 'v \<Rightarrow> ('h, unit) state" where
  "DefineUpgradeAction N exports = do {
     items \<leftarrow> declare_strings N 
       [(''UpgradeAction::UPGRADE'', UpgradeAction_UPGRADE),
        (''UpgradeAction::RECOVERY'', UpgradeAction_RECOVERY)];
     NapiUtil_CreateProperty N exports ''UpgradeAction'' items
   }"

definition DefineBusinessVendor :: "('v, 'r, 'd, 'w, 'h) napi \<Rightarrow> 'v \<Rightarrow> ('h, unit) state" where
  "DefineBusinessVendor N exports = do {
     items \<leftarrow> declare_strings N 
       [(''BusinessVendor::PUBLIC'', BusinessVendor_PUBLIC)];
     NapiUtil_CreateProperty N exports ''BusinessVendor'' items
   }"

definition Module_DefineProperties :: "('v, 'r, 'd, 'w, 'h) napi \<Rightarrow> 'v \<Rightarrow> ('h, unit) state" where
  "Module_DefineProperties N exports = do {
     _ \<leftarrow> DefineCallResult N exports;
     _ \<leftarrow> DefineUpgradeStatus N exports;
     _ \<leftarrow> DefineComponentType N exports;
     _ \<leftarrow> DefineEffectiveMode N exports;
     _ \<leftarrow> DefineNetType N exports;
     _ \<leftarrow> DefineOrder N exports;
     _ \<leftarrow> DefineEventClassify N exports;
     _ \<leftarrow> DefineBusinessSubType N exports;
     _ \<leftarrow> DefineDescriptionType N exports;
     _ \<leftarrow> DefineDescriptionFormat N exports;
     _ \<leftarrow> DefineEventId N exports;
     _ \<leftarrow> DefineUpgradeAction N exports;
     DefineBusinessVendor N exports
   }"

section \<open>What is exported\<close>

text \<open>The objects with the names and numbers written out.\<close>

definition CallResult_items :: "('v, 'r, 'd, 'w, 'h) js_obs \<Rightarrow> (string \<times> js_tree) list" where
  "CallResult_items Ob =
    [(''APP_NOT_GRANTED'', TNumber 201), (''PARAM_ERR'', TNumber 401), (''UN_SUPPORT'', TNumber 801),
     (''SUCCESS'', TNumber 0), (''FAIL'', TNumber 11500100), (''DEV_UPG_INFO_ERR'', TNumber 11500102),
     (''FORBIDDEN'', TNumber 11500103), (''IPC_ERR'', TNumber 11500104), (''TIME_OUT'', TNumber 11500402),
     (''DB_ERROR'', TNumber 11500501), (''IO_ERROR'', TNumber 11500502), (''NET_ERROR'', TNumber 11500503)]"

definition UpgradeStatus_items :: "('v, 'r, 'd, 'w, 'h) js_obs \<Rightarrow> (string \<times> js_tree) list" where
  "UpgradeStatus_items Ob =
    [(''INIT'', TNumber 0), (''CHECKING_VERSION'', TNumber 10), (''CHECK_VERSION_FAIL'', TNumber 11),
     (''CHECK_VERSION_SUCCESS'', TNumber 12), (''DOWNLOADING'', TNumber 20),
     (''DOWNLOAD_PAUSE'', TNumber 21), (''DOWNLOAD_CANCEL'', TNumber 22), (''DOWNLOAD_FAIL'', TNumber 23),
     (''DOWNLOAD_SUCCESS'', TNumber 24), (''VERIFYING'', TNumber 30), (''VERIFY_FAIL'', TNumber 31),
     (''VERIFY_SUCCESS'', TNumber 32), (''PACKAGE_TRANSING'', TNumber 70),
     (''PACKAGE_TRANS_FAIL'', TNumber 71), (''PACKAGE_TRANS_SUCCESS'', TNumber 72),
     (''INSTALLING'', TNumber 80), (''INSTALL_FAIL'', TNumber 81), (''INSTALL_SUCCESS'', TNumber 82),
     (''UPDATING'', TNumber 90), (''UPDATE_FAIL'', TNumber 91), (''UPDATE_SUCCESS'', TNumber 92)]"

definition ComponentType_items :: "('v, 'r, 'd, 'w, 'h) js_obs \<Rightarrow> (string \<times> js_tree) list" where
  "ComponentType_items Ob =
    [(''OTA'', TNumber 1)]"

definition EffectiveMode_items :: "('v, 'r, 'd, 'w, 'h) js_obs \<Rightarrow> (string \<times> js_tree) list" where
  "EffectiveMode_items Ob =
    [(''COLD'', TNumber 1), (''LIVE'', TNumber 2), (''LIVE_AND_COLD'', TNumber 3)]"

definition NetType_items :: "('v, 'r, 'd, 'w, 'h) js_obs \<Rightarrow> (string \<times> js_tree) list" where
  "NetType_items Ob =
    [(''CELLULAR'', TNumber 1), (''METERED_WIFI'', TNumber 2), (''NOT_METERED_WIFI'', TNumber 4),
     (''WIFI'', TNumber 6), (''CELLULAR_AND_WIFI'', TNumber 7)]"

definition Order_items :: "('v, 'r, 'd, 'w, 'h) js_obs \<Rightarrow> (string \<times> js_tree) list" where
  "Order_items Ob =
    [(''DOWNLOAD'', TNumber 1), (''INSTALL'', TNumber 2), (''DOWNLOAD_AND_INSTALL'', TNumber 3),
     (''APPLY'', TNumber 4), (''INSTALL_AND_APPLY'', TNumber 6)]"

definition EventClassify_items :: "('v, 'r, 'd, 'w, 'h) js_obs \<Rightarrow> (string \<times> js_tree) list" where
  "EventClassify_items Ob =
    [(''TASK'', TNumber 0x1000000)]"

definition BusinessSubType_items :: "('v, 'r, 'd, 'w, 'h) js_obs \<Rightarrow> (string \<times> js_tree) list" where
  "BusinessSubType_items Ob =
    [(''FIRMWARE'', TNumber 1), (''PARAM'', TNumber 2)]"

definition DescriptionType_items :: "('v, 'r, 'd, 'w, 'h) js_obs \<Rightarrow> (string \<times> js_tree) list" where
  "DescriptionType_items Ob =
    [(''CONTENT'', TNumber 0), (''URI'', TNumber 1), (''ID'', TNumber 2)]"

definition DescriptionFormat_items :: "('v, 'r, 'd, 'w, 'h) js_obs \<Rightarrow> (string \<times> js_tree) list" where
  "DescriptionFormat_items Ob =
    [(''STANDARD'', TNumber 0), (''SIMPLIFIED'', TNumber 1)]"

definition EventId_items :: "('v, 'r, 'd, 'w, 'h) js_obs \<Rightarrow> (string \<times> js_tree) list" where
  "EventId_items Ob =
    [(''EVENT_TASK_BASE'', TNumber 0x1000000), (''EVENT_TASK_RECEIVE'', TNumber 0x1000001),
     (''EVENT_TASK_CANCEL'', TNumber 0x1000002), (''EVENT_DOWNLOAD_WAIT'', TNumber 0x1000003),
     (''EVENT_DOWNLOAD_START'', TNumber 0x1000004), (''EVENT_DOWNLOAD_UPDATE'', TNumber 0x1000005),
     (''EVENT_DOWNLOAD_PAUSE'', TNumber 0x1000006), (''EVENT_DOWNLOAD_RESUME'', TNumber 0x1000007),
     (''EVENT_DOWNLOAD_SUCCESS'', TNumber 0x1000008), (''EVENT_DOWNLOAD_FAIL'', TNumber 0x1000009),
     (''EVENT_UPGRADE_WAIT'', TNumber 0x100000a), (''EVENT_UPGRADE_START'', TNumber 0x100000b),
     (''EVENT_UPGRADE_UPDATE'', TNumber 0x100000c), (''EVENT_APPLY_WAIT'', TNumber 0x100000d),
     (''EVENT_APPLY_START'', TNumber 0x100000e), (''EVENT_UPGRADE_SUCCESS'', TNumber 0x100000f),
     (''EVENT_UPGRADE_FAIL'', TNumber 0x1000010), (''EVENT_AUTH_START'', TNumber 0x1000011),
     (''EVENT_AUTH_SUCCESS'', TNumber 0x1000012), (''EVENT_DOWNLOAD_CANCEL'', TNumber 0x1000013),
     (''EVENT_INITIALIZE'', TNumber 0x1000014)]"

definition UpgradeAction_items :: "('v, 'r, 'd, 'w, 'h) js_obs \<Rightarrow> (string \<times> js_tree) list" where
  "UpgradeAction_items Ob =
    [(''UPGRADE'', TString (jo_text Ob ''upgrade'')), (''RECOVERY'', TString (jo_text Ob ''recovery''))]"

definition BusinessVendor_items :: "('v, 'r, 'd, 'w, 'h) js_obs \<Rightarrow> (string \<times> js_tree) list" where
  "BusinessVendor_items Ob =
    [(''PUBLIC'', TString (jo_text Ob ''public''))]"

definition module_items :: "('v, 'r, 'd, 'w, 'h) js_obs \<Rightarrow> (string \<times> js_tree) list" where
  "module_items Ob =
    [(''CallResult'', TObject (CallResult_items Ob)),
     (''UpgradeStatus'', TObject (UpgradeStatus_items Ob)),
     (''ComponentType'', TObject (ComponentType_items Ob)),
     (''EffectiveMode'', TObject (EffectiveMode_items Ob)),
     (''NetType'', TObject (NetType_items Ob)),
     (''Order'', TObject (Order_items Ob)),
     (''EventClassify'', TObject (EventClassify_items Ob)),
     (''BusinessSubType'', TObject (BusinessSubType_items Ob)),
     (''DescriptionType'', TObject (DescriptionType_items Ob)),
     (''DescriptionFormat'', TObject (DescriptionFormat_items Ob)),
     (''EventId'', TObject (EventId_items Ob)),
     (''UpgradeAction'', TObject (UpgradeAction_items Ob)),
     (''BusinessVendor'', TObject (BusinessVendor_items Ob))]"

lemmas items_defs = CallResult_items_def UpgradeStatus_items_def ComponentType_items_def EffectiveMode_items_def NetType_items_def Order_items_def EventClassify_items_def BusinessSubType_items_def DescriptionType_items_def DescriptionFormat_items_def EventId_items_def UpgradeAction_items_def BusinessVendor_items_def

lemma map_of_rev_distinct: "distinct (map fst xs) \<Longrightarrow> map_of (rev xs) = map_of xs"
  by (subst map_of_inject_set) (simp_all add: rev_map [symmetric])

fun atom :: "js_tree \<Rightarrow> bool" where
  "atom (TNumber i) = True"
| "atom (TString s) = True"
| "atom _ = False"

lemma renders_atom: "renders Ob L h v t \<Longrightarrow> atom t \<Longrightarrow> renders Ob L' h v t"
  by (cases t) (auto elim!: renders_numberE renders_stringE intro: renders_number renders_string)

text \<open>\<open>declares Ob ps c\<close>: \<open>c\<close> makes one value for each of the pairs \<open>ps\<close>.\<close>

definition declares ::
  "('v, 'r, 'd, 'w, 'h) js_obs \<Rightarrow> (string \<times> js_tree) list \<Rightarrow> ('h, (string \<times> 'v) list) state \<Rightarrow> bool" where
  "declares Ob ps c \<longleftrightarrow> (\<forall>h. jo_ready Ob h \<longrightarrow>
     (\<exists>items h'. run_state c h = (items, h') \<and> only_changes Ob {} h h' \<and>
       list_all2 (\<lambda>(k, w) (k', t). k = k' \<and> renders Ob {} h' w t) items ps))"

definition good_name :: "string \<Rightarrow> bool" where
  "good_name k \<longleftrightarrow> k \<noteq> [] \<and> c_str k = k \<and> own_name k"

lemma string_names:
  "GetEnumValueString ''UpgradeAction::UPGRADE'' = ''UPGRADE''"
  "GetEnumValueString ''UpgradeAction::RECOVERY'' = ''RECOVERY''"
  "GetEnumValueString ''BusinessVendor::PUBLIC'' = ''PUBLIC''"
  by code_simp+

context napi_engine
begin

lemma declares_Cons:
  assumes "\<And>h. jo_ready Ob h \<Longrightarrow> \<exists>w h'. run_state c h = (w, h') \<and> only_changes Ob {} h h' \<and> renders Ob {} h' w t"
    and "declares Ob ps d"
  shows "declares Ob ((k, t) # ps) (do { v \<leftarrow> c; rest \<leftarrow> d; State_Monad.return ((k, v) # rest) })"
  unfolding declares_def
proof (intro allI impI)
  fix h assume "jo_ready Ob h"
  then obtain w h1 where c: "run_state c h = (w, h1)" "only_changes Ob {} h h1" "renders Ob {} h1 w t"
    using assms(1) by blast
  then obtain items h2 where d: "run_state d h1 = (items, h2)" "only_changes Ob {} h1 h2"
      "list_all2 (\<lambda>(k, w) (k', t). k = k' \<and> renders Ob {} h2 w t) items ps"
    using assms(2) unfolding declares_def by (meson only_changes_ready)
  have "renders Ob {} h2 w t" using c(3) d(2) by (auto intro: renders_frame simp: only_changes_def)
  then show "\<exists>items h'. run_state (do { v \<leftarrow> c; rest \<leftarrow> d; State_Monad.return ((k, v) # rest) }) h = (items, h') \<and>
      only_changes Ob {} h h' \<and> list_all2 (\<lambda>(k, w) (k', t). k = k' \<and> renders Ob {} h' w t) items ((k, t) # ps)"
    using c d by (auto intro: only_changes_trans)
qed

lemma declares_enums:
  "declares Ob (map (\<lambda>(item, e). (GetEnumValueString item, TNumber (uint (code e)))) items) (declare_enums N code items)"
proof (induction items)
  case Nil
  show ?case by (auto simp: declares_def intro: only_changes_refl)
next
  case (Cons p items)
  obtain item e where p: "p = (item, e)" by force
  have "\<exists>w h'. run_state (NapiUtil_CreateUint32 N (code e)) h = (w, h') \<and> only_changes Ob {} h h' \<and>
      renders Ob {} h' w (TNumber (uint (code e)))" if "jo_ready Ob h" for h
    using create_uint32 [OF that, of "code e" "np_nullptr N"] by (auto simp: NapiUtil_CreateUint32_def intro: renders_number)
  from declares_Cons [OF this Cons.IH] show ?case by (simp add: p)
qed

lemma declares_strings:
  assumes "\<And>item s. (item, s) \<in> set items \<Longrightarrow> c_str s = s"
  shows "declares Ob (map (\<lambda>(item, s). (GetEnumValueString item, TString (jo_text Ob s))) items) (declare_strings N items)"
  using assms
proof (induction items)
  case Nil
  show ?case by (auto simp: declares_def intro: only_changes_refl)
next
  case (Cons p items)
  obtain item s where p: "p = (item, s)" by force
  have "\<exists>w h'. run_state (NapiUtil_CreateStringUtf8 N s) h = (w, h') \<and> only_changes Ob {} h h' \<and>
      renders Ob {} h' w (TString (jo_text Ob s))" if "jo_ready Ob h" for h
    using create_string [OF that, of s "np_nullptr N"] Cons.prems [of item s]
    by (auto simp: p NapiUtil_CreateStringUtf8_def intro: renders_string)
  from declares_Cons [OF this Cons.IH] show ?case using Cons.prems by (auto simp: p)
qed

lemma extends_declared:
  assumes "declares Ob ps c" and "distinct (map fst ps)" and "list_all (\<lambda>(k, t). good_name k \<and> atom t) ps" and "own_name name"
  shows "extends Ob exports [(name, TObject ps)] (c \<bind> NapiUtil_CreateProperty N exports name)"
  unfolding extends_def
proof (intro allI impI)
  fix L B h pv
  assume b: "building Ob L B h exports pv" and d: "distinct (map fst (pv @ [(name, TObject ps)]))"
  then have r: "jo_ready Ob h" by (simp add: building_def)
  then obtain items h1 where c: "run_state c h = (items, h1)" "only_changes Ob {} h h1"
      "list_all2 (\<lambda>(k, w) (k', t). k = k' \<and> renders Ob {} h1 w t) items ps"
    using assms(1) unfolding declares_def by blast
  obtain ob h2 where ob: "run_state (np_create_object N (np_nullptr N)) h1 = ((napi_ok, ob), h2)" "only_changes Ob {} h1 h2"
      "ob \<in> jo_live Ob h2" "ob \<notin> jo_live Ob h1" "jo_view Ob h2 ob = JsObject Map.empty"
    using create_object [OF only_changes_ready [OF c(2)]] by blast
  have keys: "map fst items = map fst ps"
    using c(3) by (induction rule: list_all2_induct) auto
  have key_sets: "fst ` set items = fst ` set ps" using arg_cong [OF keys, of set] by simp
  have same: "map (\<lambda>(k, v). if k = [] then ([], np_wild N) else (c_str k, v)) items = items"
    using assms(3) c(3) by (induction ps arbitrary: items) (auto simp: list_all2_Cons2 good_name_def)
  have items: "renders Ob {} h2 w t \<and> atom t" if kw: "(k, w) \<in> set items" and kt: "(k, t) \<in> set ps" for k w t
  proof -
    obtain i where i: "i < length items" "items ! i = (k, w)" using kw by (auto simp: in_set_conv_nth)
    then obtain t' where "ps ! i = (k, t')" "renders Ob {} h1 w t'"
      using list_all2_nthD [OF c(3) i(1)] by (auto split: prod.splits)
    moreover have "ps ! i \<in> set ps" using i(1) list_all2_lengthD [OF c(3)] by simp
    ultimately have t': "(k, t') \<in> set ps" "renders Ob {} h1 w t'" by auto
    with kt assms(2) have "t' = t" by (metis eq_key_imp_eq_value)
    with t'(2) have "renders Ob {} h2 w t" using ob(2) by (auto intro: renders_frame simp: only_changes_def)
    then show ?thesis using assms(3) kt by (auto simp: list_all_iff)
  qed
  have live: "w \<in> jo_live Ob h2 \<and> own_name k" if kw: "(k, w) \<in> set items" for k w
  proof -
    from kw key_sets obtain t where "(k, t) \<in> set ps" by force
    then show ?thesis using items [OF kw] assms(3) by (auto simp: list_all_iff good_name_def intro: renders_live)
  qed
  obtain h3 where df: "run_state (np_define_properties N ob items) h2 = (napi_ok, h3)" "only_changes Ob {ob} h2 h3"
      "jo_view Ob h3 ob = JsObject (map_of (rev items))"
    using define_properties [OF only_changes_ready [OF ob(2)] ob(3,5), of items] live by auto
  have di: "distinct (map fst items)" using assms(2) keys by simp
  then have mo: "map_of (rev items) = map_of items" by (rule map_of_rev_distinct)
  have ne: "ob \<noteq> np_nullptr N" using null_not_live ob(3) by metis
  have c03: "only_changes Ob {} h h3"
    by (rule only_changes_new [OF only_changes_trans [OF c(2) ob(2)] df(2)]) (use ob(4) c(2) in \<open>auto simp: only_changes_def keeps_values_def\<close>)
  have rend: "renders Ob (jo_live Ob h) h3 ob (TObject ps)"
  proof (rule renders_object)
    show "ob \<in> jo_live Ob h3" using df(2) ob(3) by (auto intro: only_changes_live)
    show "ob \<notin> jo_live Ob h" using ob(4) c(2) by (auto dest: only_changes_live)
    show "jo_view Ob h3 ob = JsObject (map_of items)" using df(3) mo by simp
    show "dom (map_of items) = fst ` set ps" using key_sets by (simp add: dom_map_of_conv_image_fst)
    show "\<forall>k t. (k, t) \<in> set ps \<longrightarrow> (\<exists>w. map_of items k = Some w \<and> renders Ob (jo_live Ob h) h3 w t)"
    proof (intro allI impI)
      fix k t assume t: "(k, t) \<in> set ps"
      then obtain w where w: "(k, w) \<in> set items" using key_sets by force
      have "renders Ob {ob} h2 w t" using items [OF w t] by (blast intro: renders_atom)
      then have "renders Ob {ob} h3 w t"
        by (rule renders_frame) (use df(2) ob(5) in \<open>auto simp: only_changes_def\<close>)
      then have "renders Ob (jo_live Ob h) h3 w t" using items [OF w t] by (blast intro: renders_atom)
      then show "\<exists>w. map_of items k = Some w \<and> renders Ob (jo_live Ob h) h3 w t" using w di by auto
    qed
  qed (fact assms(2))
  obtain m where m: "jo_view Ob h3 exports = JsObject m" "exports \<in> jo_live Ob h3" "jo_ready Ob h3"
    using building_frame [OF b c03] by (auto simp: building_def)
  obtain h4 where st: "run_state (np_set_named_property N exports name ob) h3 = (napi_ok, h4)" "only_changes Ob {exports} h3 h4"
      "jo_view Ob h4 exports = JsObject (m(name \<mapsto> ob))"
    using set_named [OF m(3,2,1) renders_live [OF rend] assms(4)] by blast
  have "building Ob L B h4 exports (pv @ [(name, TObject ps)])" "only_changes Ob {exports} h h4"
    by (rule building_set [OF b c03 rend st(2)]; use st(3) m(1) d in auto)+
  then show "\<exists>x h'. run_state (c \<bind> NapiUtil_CreateProperty N exports name) h = (x, h') \<and>
      building Ob L B h' exports (pv @ [(name, TObject ps)]) \<and> only_changes Ob {exports} h h'"
    by (simp add: c(1) NapiUtil_CreateProperty_def NapiUtil_CreateObject_def ob(1) ne NapiUtil_DefineProperties_def same df(1) st(1))
qed

lemma declares_enum_items:
  "map (\<lambda>(item, e). (GetEnumValueString item, TNumber (uint (code e)))) items = ps \<Longrightarrow> declares Ob ps (declare_enums N code items)"
  using declares_enums by blast

lemma declares_string_items:
  "list_all (\<lambda>(item, s). c_str s = s) items \<Longrightarrow> map (\<lambda>(item, s). (GetEnumValueString item, TString (jo_text Ob s))) items = ps \<Longrightarrow>
   declares Ob ps (declare_strings N items)"
  using declares_strings by (fastforce simp: list_all_iff)

lemma extends_DefineCallResult: "extends Ob exports [(''CallResult'', TObject (CallResult_items Ob))] (DefineCallResult N exports)"
  unfolding DefineCallResult_def
  by (rule extends_declared, rule declares_enum_items) (code_simp)+

lemma extends_DefineUpgradeStatus: "extends Ob exports [(''UpgradeStatus'', TObject (UpgradeStatus_items Ob))] (DefineUpgradeStatus N exports)"
  unfolding DefineUpgradeStatus_def
  by (rule extends_declared, rule declares_enum_items) (code_simp)+

lemma extends_DefineComponentType: "extends Ob exports [(''ComponentType'', TObject (ComponentType_items Ob))] (DefineComponentType N exports)"
  unfolding DefineComponentType_def
  by (rule extends_declared, rule declares_enum_items) (code_simp)+

lemma extends_DefineEffectiveMode: "extends Ob exports [(''EffectiveMode'', TObject (EffectiveMode_items Ob))] (DefineEffectiveMode N exports)"
  unfolding DefineEffectiveMode_def
  by (rule extends_declared, rule declares_enum_items) (code_simp)+

lemma extends_DefineNetType: "extends Ob exports [(''NetType'', TObject (NetType_items Ob))] (DefineNetType N exports)"
  unfolding DefineNetType_def
  by (rule extends_declared, rule declares_enum_items) (code_simp)+

lemma extends_DefineOrder: "extends Ob exports [(''Order'', TObject (Order_items Ob))] (DefineOrder N exports)"
  unfolding DefineOrder_def
  by (rule extends_declared, rule declares_enum_items) (code_simp)+

lemma extends_DefineEventClassify: "extends Ob exports [(''EventClassify'', TObject (EventClassify_items Ob))] (DefineEventClassify N exports)"
  unfolding DefineEventClassify_def
  by (rule extends_declared, rule declares_enum_items) (code_simp)+

lemma extends_DefineBusinessSubType: "extends Ob exports [(''BusinessSubType'', TObject (BusinessSubType_items Ob))] (DefineBusinessSubType N exports)"
  unfolding DefineBusinessSubType_def
  by (rule extends_declared, rule declares_enum_items) (code_simp)+

lemma extends_DefineDescriptionType: "extends Ob exports [(''DescriptionType'', TObject (DescriptionType_items Ob))] (DefineDescriptionType N exports)"
  unfolding DefineDescriptionType_def
  by (rule extends_declared, rule declares_enum_items) (code_simp)+

lemma extends_DefineDescriptionFormat: "extends Ob exports [(''DescriptionFormat'', TObject (DescriptionFormat_items Ob))] (DefineDescriptionFormat N exports)"
  unfolding DefineDescriptionFormat_def
  by (rule extends_declared, rule declares_enum_items) (code_simp)+

lemma extends_DefineEventId: "extends Ob exports [(''EventId'', TObject (EventId_items Ob))] (DefineEventId N exports)"
  unfolding DefineEventId_def
  by (rule extends_declared, rule declares_enum_items) (code_simp)+

lemma extends_DefineUpgradeAction: "extends Ob exports [(''UpgradeAction'', TObject (UpgradeAction_items Ob))] (DefineUpgradeAction N exports)"
  unfolding DefineUpgradeAction_def
  by (rule extends_declared, rule declares_string_items) (simp_all add: UpgradeAction_items_def string_names
    UpgradeAction_UPGRADE_def UpgradeAction_RECOVERY_def BusinessVendor_PUBLIC_def c_str_def good_name_def own_name_def inherited_names_def)

lemma extends_DefineBusinessVendor: "extends Ob exports [(''BusinessVendor'', TObject (BusinessVendor_items Ob))] (DefineBusinessVendor N exports)"
  unfolding DefineBusinessVendor_def
  by (rule extends_declared, rule declares_string_items) (simp_all add: BusinessVendor_items_def string_names
    UpgradeAction_UPGRADE_def UpgradeAction_RECOVERY_def BusinessVendor_PUBLIC_def c_str_def good_name_def own_name_def inherited_names_def)

lemma extends_module: "extends Ob exports (module_items Ob) (Module_DefineProperties N exports)"
proof -
  note last = extends_DefineBusinessVendor
  note extends_bind [OF extends_DefineUpgradeAction last]
  note extends_bind [OF extends_DefineEventId this]
  note extends_bind [OF extends_DefineDescriptionFormat this]
  note extends_bind [OF extends_DefineDescriptionType this]
  note extends_bind [OF extends_DefineBusinessSubType this]
  note extends_bind [OF extends_DefineEventClassify this]
  note extends_bind [OF extends_DefineOrder this]
  note extends_bind [OF extends_DefineNetType this]
  note extends_bind [OF extends_DefineEffectiveMode this]
  note extends_bind [OF extends_DefineComponentType this]
  note extends_bind [OF extends_DefineUpgradeStatus this]
  note extends_bind [OF extends_DefineCallResult this]
  then show ?thesis by (simp add: Module_DefineProperties_def module_items_def)
qed

lemma exports_module:
  assumes "jo_ready Ob h" and "exports \<in> jo_live Ob h" and "jo_view Ob h exports = JsObject Map.empty"
  shows "\<exists>h'. run_state (Module_DefineProperties N exports) h = ((), h') \<and> only_changes Ob {exports} h h' \<and>
    renders Ob {} h' exports (TObject (module_items Ob))"
proof -
  have "building Ob {} {} h exports []" using assms by (simp add: building_def)
  moreover have "distinct (map fst (module_items Ob))" by (simp add: module_items_def)
  ultimately show ?thesis using extends_module [of exports] unfolding extends_def by (fastforce dest: building_renders)
qed

end

end
