(* ===== verification/Js_Module.thy ===== *)
theory Js_Module
  imports Js_Client Define_Property
begin

text \<open>
  The module (\<open>client/update_module.cpp\<close>): the native objects, one online updater for every key,
  one restorer and one local updater; the constructors of the three JavaScript classes, which give
  a JavaScript object its native object; the functions the module exports.
\<close>

section \<open>Classes of the engine\<close>

text \<open>What a JavaScript object wraps: the pointer to a native object.\<close>

datatype Native = OnlineNative UpgradeInfo | RestorerNative | LocalNative

text \<open>
  \<open>nc_new_object\<close> is the part of \<open>napi_new_instance\<close> before the constructor runs.
\<close>

record ('v, 'h) napi_classes =
  nc_define_class :: "string \<Rightarrow> string list \<Rightarrow> 'v \<Rightarrow> ('h, napi_status \<times> 'v) state"
  nc_define_methods :: "'v \<Rightarrow> string list \<Rightarrow> ('h, napi_status) state"
  nc_new_object :: "'v \<Rightarrow> 'v \<Rightarrow> ('h, napi_status \<times> 'v) state"
  nc_wrap :: "'v \<Rightarrow> Native \<Rightarrow> ('h, napi_status) state"
  nc_unwrap :: "'v \<Rightarrow> ('h, napi_status \<times> Native option) state"
  nc_remove_wrap :: "'v \<Rightarrow> ('h, napi_status) state"

section \<open>State\<close>

text \<open>
  The updaters share the engine, the client library and the counter of sessions; \<open>load\<close> puts the
  shared part into an updater before it runs.
\<close>

record ('r, 'd, 'w, 'h, 's) Module =
  jm_heap :: 'h
  jm_kits :: "Kits \<times> 's"
  jm_sessionId :: uint32_t
  jm_updateClientConstructorRef :: 'r
  jm_restorerConstructorRef :: 'r
  jm_localUpdaterConstructorRef :: 'r
  jm_onlineUpdater :: "(UpgradeInfo \<times> ('r, 'd, 'w, 'h, 's) Online) list"
  jm_restorer :: "('r, 'd, 'w, 'h, 's) RestorerState option"
  jm_localUpdater :: "('r, 'd, 'w, 'h, 's) Local option"

definition load ::
  "('r, 'd, 'w, 'h, 's) Module \<Rightarrow> ('r, 'd, 'w, 'h, 'c, Kits \<times> 's) Updater \<Rightarrow> ('r, 'd, 'w, 'h, 'c, Kits \<times> 's) Updater" where
  "load m u = u\<lparr>ju_heap := jm_heap m, ju_kits := jm_kits m, ju_sessionId := jm_sessionId m\<rparr>"

definition save ::
  "('r, 'd, 'w, 'h, 'c, Kits \<times> 's) Updater \<Rightarrow> ('r, 'd, 'w, 'h, 's) Module \<Rightarrow> ('r, 'd, 'w, 'h, 's) Module" where
  "save u m = m\<lparr>jm_heap := ju_heap u, jm_kits := ju_kits u, jm_sessionId := ju_sessionId u\<rparr>"

definition module_engine :: "('h, 'a) state \<Rightarrow> (('r, 'd, 'w, 'h, 's) Module, 'a) state" where
  "module_engine c = State (\<lambda>m. let (x, h) = run_state c (jm_heap m) in (x, m\<lparr>jm_heap := h\<rparr>))"

text \<open>A method of a native object; \<open>none\<close> is the result when there is no such object.\<close>

definition on_client ::
  "UpgradeInfo \<Rightarrow> 'a \<Rightarrow> (('r, 'd, 'w, 'h, 's) Online, 'a) state \<Rightarrow> (('r, 'd, 'w, 'h, 's) Module, 'a) state" where
  "on_client key none c = State (\<lambda>m.
     (case om_find UpgradeInfo_less key (jm_onlineUpdater m) of
        None \<Rightarrow> (none, m)
      | Some u \<Rightarrow>
          (let (x, u) = run_state c (load m u)
           in (x, (save u m)\<lparr>jm_onlineUpdater := om_assign UpgradeInfo_less key u (jm_onlineUpdater m)\<rparr>))))"

definition on_local :: "'a \<Rightarrow> (('r, 'd, 'w, 'h, 's) Local, 'a) state \<Rightarrow> (('r, 'd, 'w, 'h, 's) Module, 'a) state" where
  "on_local none c = State (\<lambda>m.
     (case jm_localUpdater m of
        None \<Rightarrow> (none, m)
      | Some u \<Rightarrow> (let (x, u) = run_state c (load m u) in (x, (save u m)\<lparr>jm_localUpdater := Some u\<rparr>))))"

definition on_restorer :: "'a \<Rightarrow> (('r, 'd, 'w, 'h, 's) RestorerState, 'a) state \<Rightarrow> (('r, 'd, 'w, 'h, 's) Module, 'a) state" where
  "on_restorer none c = State (\<lambda>m.
     (case jm_restorer m of
        None \<Rightarrow> (none, m)
      | Some u \<Rightarrow> (let (x, u) = run_state c (load m u) in (x, (save u m)\<lparr>jm_restorer := Some u\<rparr>))))"

section \<open>Constructors\<close>

text \<open>The initialisers: the native object of the new JavaScript object \<open>thisVar\<close>, made when needed.\<close>

definition initializer_UpdateClient ::
  "('v, 'r, 'd, 'w, 'h) napi \<Rightarrow> int32_t \<Rightarrow> 'v \<Rightarrow> 'v \<Rightarrow> (('r, 'd, 'w, 'h, 's) Module, Native option) state" where
  "initializer_UpdateClient N wild thisVar arg = do {
     (ret, upgradeInfo) \<leftarrow> module_engine (GetUpgradeInfoFromArg N wild arg UpgradeInfo_default);
     if ret \<noteq> CLIENT_SUCCESS then State_Monad.return None
     else do {
       m \<leftarrow> State_Monad.get;
       _ \<leftarrow> modify (\<lambda>m.
         if om_find UpgradeInfo_less upgradeInfo (jm_onlineUpdater m) = None
         then (let u = UpdateClient_new N thisVar (jm_heap m) (jm_kits m) (jm_sessionId m)
               in (save u m)\<lparr>jm_onlineUpdater := om_assign UpgradeInfo_less upgradeInfo u (jm_onlineUpdater m)\<rparr>)
         else m);
       State_Monad.return (Some (OnlineNative upgradeInfo))
     }
   }"

definition initializer_Restorer ::
  "('v, 'r, 'd, 'w, 'h) napi \<Rightarrow> 'v \<Rightarrow> 'v \<Rightarrow> (('r, 'd, 'w, 'h, 's) Module, Native option) state" where
  "initializer_Restorer N thisVar arg = do {
     _ \<leftarrow> modify (\<lambda>m.
       if jm_restorer m = None
       then (let u = Restorer_new N thisVar (jm_heap m) (jm_kits m) (jm_sessionId m) in (save u m)\<lparr>jm_restorer := Some u\<rparr>)
       else m);
     State_Monad.return (Some RestorerNative)
   }"

definition initializer_LocalUpdater ::
  "('v, 'r, 'd, 'w, 'h) napi \<Rightarrow> 'v \<Rightarrow> 'v \<Rightarrow> (('r, 'd, 'w, 'h, 's) Module, Native option) state" where
  "initializer_LocalUpdater N thisVar arg = do {
     _ \<leftarrow> modify (\<lambda>m.
       if jm_localUpdater m = None
       then (let u = LocalUpdater_new N thisVar (jm_heap m) (jm_kits m) (jm_sessionId m) in (save u m)\<lparr>jm_localUpdater := Some u\<rparr>)
       else m);
     State_Monad.return (Some LocalNative)
   }"

definition JsConstructor ::
  "('v, 'h) napi_classes \<Rightarrow> ('v \<Rightarrow> 'v \<Rightarrow> (('r, 'd, 'w, 'h, 's) Module, Native option) state) \<Rightarrow> 'v \<Rightarrow> 'v list \<Rightarrow>
   (('r, 'd, 'w, 'h, 's) Module, 'v) state" where
  "JsConstructor C initialise thisVar args = do {
     object \<leftarrow> initialise thisVar (args ! 0);
     case object of
       None \<Rightarrow> State_Monad.return thisVar
     | Some native \<Rightarrow> do { _ \<leftarrow> module_engine (nc_wrap C thisVar native); State_Monad.return thisVar }
   }"

text \<open>
  The native pointer and the JavaScript object. The argument \<open>ctorCall\<close> is the constructor
  \<open>napi_new_instance\<close> calls; what it returns is the object itself.
\<close>

definition CreateJsObject ::
  "('v, 'r, 'd, 'w, 'h) napi \<Rightarrow> ('v, 'h) napi_classes \<Rightarrow> ('v \<Rightarrow> 'v list \<Rightarrow> (('r, 'd, 'w, 'h, 's) Module, 'v) state) \<Rightarrow>
   'r \<Rightarrow> 'v CallInfo \<Rightarrow> (('r, 'd, 'w, 'h, 's) Module, Native option \<times> 'v) state" where
  "CreateJsObject N C ctorCall constructorRef info = do {
     (status, ctor) \<leftarrow> module_engine (np_get_reference_value N constructorRef (np_nullptr N));
     if status \<noteq> napi_ok then State_Monad.return (None, np_nullptr N)
     else do {
       (status, jsObject) \<leftarrow> module_engine (nc_new_object C ctor (np_nullptr N));
       if status \<noteq> napi_ok then State_Monad.return (None, jsObject)
       else do {
         jsObject \<leftarrow> ctorCall jsObject (ci_args info);
         (status, native) \<leftarrow> module_engine (nc_unwrap C jsObject);
         if status \<noteq> napi_ok then do {
           _ \<leftarrow> module_engine (nc_remove_wrap C jsObject);
           State_Monad.return (None, np_nullptr N)
         } else State_Monad.return (native, jsObject)
       }
     }
   }"

section \<open>Functions of the module\<close>

text \<open>The key whose \<open>InitCallback\<close> was started on a thread is part of the result.\<close>

definition Module_GetOnlineUpdater ::
  "('v, 'r, 'd, 'w, 'h) napi \<Rightarrow> ('v, 'h) napi_classes \<Rightarrow> int32_t \<Rightarrow> 'v CallInfo \<Rightarrow>
   (('r, 'd, 'w, 'h, 's) Module, 'v \<times> UpgradeInfo option) state" where
  "Module_GetOnlineUpdater N C wild info = do {
     m \<leftarrow> State_Monad.get;
     (client, jsObject) \<leftarrow> CreateJsObject N C (JsConstructor C (initializer_UpdateClient N wild))
       (jm_updateClientConstructorRef m) info;
     case client of
       Some (OnlineNative key) \<Rightarrow> do {
         (result, started) \<leftarrow> on_client key (np_nullptr N, False) (UpdateClient_GetOnlineUpdater N wild info);
         State_Monad.return
           (if result \<noteq> np_nullptr N then jsObject else np_nullptr N, if started then Some key else None)
       }
     | _ \<Rightarrow> State_Monad.return (np_nullptr N, None)
   }"

definition Module_GetRestorer ::
  "('v, 'r, 'd, 'w, 'h) napi \<Rightarrow> ('v, 'h) napi_classes \<Rightarrow> 'v CallInfo \<Rightarrow> (('r, 'd, 'w, 'h, 's) Module, 'v) state" where
  "Module_GetRestorer N C info = do {
     m \<leftarrow> State_Monad.get;
     (restorer, jsObject) \<leftarrow> CreateJsObject N C (JsConstructor C (initializer_Restorer N)) (jm_restorerConstructorRef m) info;
     State_Monad.return (if restorer = None then np_nullptr N else jsObject)
   }"

text \<open>\<open>None\<close> is a crash in the registration of the callback \<open>cb\<close>.\<close>

definition Module_GetLocalUpdater ::
  "('v, 'r, 'd, 'w, 'h) napi \<Rightarrow> ('v, 'h) napi_classes \<Rightarrow> Samgr \<Rightarrow> 's IUpdateService \<Rightarrow> Callback \<Rightarrow> 'v CallInfo \<Rightarrow>
   ('r, 'd, 'w, 'h, 's) Module \<Rightarrow> ('v \<times> ('r, 'd, 'w, 'h, 's) Module) option" where
  "Module_GetLocalUpdater N C A service cb info m =
     (let ((localUpdater, jsObject), m) =
        run_state (CreateJsObject N C (JsConstructor C (initializer_LocalUpdater N)) (jm_localUpdaterConstructorRef m) info) m
      in case (localUpdater, jm_localUpdater m) of
           (Some _, Some u) \<Rightarrow>
             map_option (\<lambda>u. (jsObject, (save u m)\<lparr>jm_localUpdater := Some u\<rparr>)) (LocalUpdater_Init A service cb (load m u))
         | _ \<Rightarrow> Some (np_nullptr N, m))"

text \<open>The exported methods: \<open>UnwrapJsObject\<close>, the null check and the method of the native object.\<close>

definition client_method ::
  "('v, 'r, 'd, 'w, 'h) napi \<Rightarrow> ('v, 'h) napi_classes \<Rightarrow> ('v CallInfo \<Rightarrow> (('r, 'd, 'w, 'h, 's) Online, 'v) state) \<Rightarrow>
   'v \<Rightarrow> 'v CallInfo \<Rightarrow> (('r, 'd, 'w, 'h, 's) Module, 'v) state" where
  "client_method N C method thisVar info = do {
     (status, client) \<leftarrow> module_engine (nc_unwrap C thisVar);
     case client of
       Some (OnlineNative key) \<Rightarrow> on_client key (np_nullptr N) (method info)
     | _ \<Rightarrow> State_Monad.return (np_nullptr N)
   }"

definition local_method ::
  "('v, 'r, 'd, 'w, 'h) napi \<Rightarrow> ('v, 'h) napi_classes \<Rightarrow> ('v CallInfo \<Rightarrow> (('r, 'd, 'w, 'h, 's) Local, 'v) state) \<Rightarrow>
   'v \<Rightarrow> 'v CallInfo \<Rightarrow> (('r, 'd, 'w, 'h, 's) Module, 'v) state" where
  "local_method N C method thisVar info = do {
     (status, client) \<leftarrow> module_engine (nc_unwrap C thisVar);
     case client of
       Some LocalNative \<Rightarrow> on_local (np_nullptr N) (method info)
     | _ \<Rightarrow> State_Monad.return (np_nullptr N)
   }"

definition restorer_method ::
  "('v, 'r, 'd, 'w, 'h) napi \<Rightarrow> ('v, 'h) napi_classes \<Rightarrow> ('v CallInfo \<Rightarrow> (('r, 'd, 'w, 'h, 's) RestorerState, 'v) state) \<Rightarrow>
   'v \<Rightarrow> 'v CallInfo \<Rightarrow> (('r, 'd, 'w, 'h, 's) Module, 'v) state" where
  "restorer_method N C method thisVar info = do {
     (status, client) \<leftarrow> module_engine (nc_unwrap C thisVar);
     case client of
       Some RestorerNative \<Rightarrow> on_restorer (np_nullptr N) (method info)
     | _ \<Rightarrow> State_Monad.return (np_nullptr N)
   }"

text \<open>The descriptors of the classes, with what their functions call.\<close>

definition UpdateClient_desc ::
  "('v, 'r, 'd, 'w, 'h) napi \<Rightarrow> Samgr \<Rightarrow> 's IUpdateService \<Rightarrow>
   (string \<times> ('v CallInfo \<Rightarrow> (('r, 'd, 'w, 'h, 's) Online, 'v) state)) list" where
  "UpdateClient_desc N A service =
     [(''checkNewVersion'', UpdateClient_CheckNewVersion N A service),
      (''getNewVersionInfo'', UpdateClient_GetNewVersionInfo N A service),
      (''getNewVersionDescription'', UpdateClient_GetNewVersionDescription N A service),
      (''getCurrentVersionInfo'', UpdateClient_GetCurrentVersionInfo N A service),
      (''getCurrentVersionDescription'', UpdateClient_GetCurrentVersionDescription N A service),
      (''getTaskInfo'', UpdateClient_GetTaskInfo N A service),
      (''setUpgradePolicy'', UpdateClient_SetUpgradePolicy N A service),
      (''getUpgradePolicy'', UpdateClient_GetUpgradePolicy N A service),
      (''cancel'', UpdateClient_CancelUpgrade N A service),
      (''download'', UpdateClient_Download N A service),
      (''pauseDownload'', UpdateClient_PauseDownload N A service),
      (''resumeDownload'', UpdateClient_ResumeDownload N A service),
      (''upgrade'', UpdateClient_Upgrade N A service),
      (''clearError'', UpdateClient_ClearError N A service),
      (''terminateUpgrade'', UpdateClient_TerminateUpgrade N A service),
      (''on'', IUpdater_On N),
      (''off'', IUpdater_Off N)]"

definition LocalUpdater_desc ::
  "('v, 'r, 'd, 'w, 'h) napi \<Rightarrow> Samgr \<Rightarrow> 's IUpdateService \<Rightarrow>
   (string \<times> ('v CallInfo \<Rightarrow> (('r, 'd, 'w, 'h, 's) Local, 'v) state)) list" where
  "LocalUpdater_desc N A service =
     [(''verifyUpgradePackage'', JsLocalUpdater_VerifyUpgradePackage N A service),
      (''applyNewVersion'', JsLocalUpdater_ApplyNewVersion N A service),
      (''on'', IUpdater_On N),
      (''off'', IUpdater_Off N)]"

definition Restorer_desc ::
  "('v, 'r, 'd, 'w, 'h) napi \<Rightarrow> Samgr \<Rightarrow> 's IUpdateService \<Rightarrow>
   (string \<times> ('v CallInfo \<Rightarrow> (('r, 'd, 'w, 'h, 's) RestorerState, 'v) state)) list" where
  "Restorer_desc N A service = [(''factoryReset'', JsRestorer_FactoryReset N A service)]"

section \<open>Initialisation\<close>

text \<open>The flag of success and the reference to the constructor, which the caller keeps.\<close>

definition DefineClass ::
  "('v, 'r, 'd, 'w, 'h) napi \<Rightarrow> ('v, 'h) napi_classes \<Rightarrow> 'v \<Rightarrow> string \<Rightarrow> string list \<Rightarrow> 'r \<Rightarrow> ('h, bool \<times> 'r) state" where
  "DefineClass N C exports className desc constructorRef = do {
     (status, result) \<leftarrow> nc_define_class C className desc (np_nullptr N);
     if status \<noteq> napi_ok then State_Monad.return (False, constructorRef)
     else do {
       status \<leftarrow> np_set_named_property N exports className result;
       if status \<noteq> napi_ok then State_Monad.return (False, constructorRef)
       else do {
         (status, constructorRef) \<leftarrow> np_create_reference N result 1 constructorRef;
         State_Monad.return (status = napi_ok, constructorRef)
       }
     }
   }"

definition DefineUpdateClient ::
  "('v, 'r, 'd, 'w, 'h) napi \<Rightarrow> ('v, 'h) napi_classes \<Rightarrow> 'v \<Rightarrow> (('r, 'd, 'w, 'h, 's) Module, bool) state" where
  "DefineUpdateClient N C exports = do {
     m \<leftarrow> State_Monad.get;
     (good, r) \<leftarrow> module_engine (DefineClass N C exports ''UpdateClient''
       [''checkNewVersion'', ''getNewVersionInfo'', ''getNewVersionDescription'', ''getCurrentVersionInfo'',
        ''getCurrentVersionDescription'', ''getTaskInfo'', ''setUpgradePolicy'', ''getUpgradePolicy'', ''cancel'',
        ''download'', ''pauseDownload'', ''resumeDownload'', ''upgrade'', ''clearError'', ''terminateUpgrade'', ''on'', ''off'']
       (jm_updateClientConstructorRef m));
     _ \<leftarrow> modify (\<lambda>m. m\<lparr>jm_updateClientConstructorRef := r\<rparr>);
     State_Monad.return good
   }"

definition DefineRestorer ::
  "('v, 'r, 'd, 'w, 'h) napi \<Rightarrow> ('v, 'h) napi_classes \<Rightarrow> 'v \<Rightarrow> (('r, 'd, 'w, 'h, 's) Module, bool) state" where
  "DefineRestorer N C exports = do {
     m \<leftarrow> State_Monad.get;
     (good, r) \<leftarrow> module_engine (DefineClass N C exports ''Restorer'' [''factoryReset''] (jm_restorerConstructorRef m));
     _ \<leftarrow> modify (\<lambda>m. m\<lparr>jm_restorerConstructorRef := r\<rparr>);
     State_Monad.return good
   }"

definition DefineLocalUpdater ::
  "('v, 'r, 'd, 'w, 'h) napi \<Rightarrow> ('v, 'h) napi_classes \<Rightarrow> 'v \<Rightarrow> (('r, 'd, 'w, 'h, 's) Module, bool) state" where
  "DefineLocalUpdater N C exports = do {
     m \<leftarrow> State_Monad.get;
     (good, r) \<leftarrow> module_engine (DefineClass N C exports ''LocalUpdater''
       [''verifyUpgradePackage'', ''applyNewVersion'', ''on'', ''off''] (jm_localUpdaterConstructorRef m));
     _ \<leftarrow> modify (\<lambda>m. m\<lparr>jm_localUpdaterConstructorRef := r\<rparr>);
     State_Monad.return good
   }"

definition UpdateClientInit ::
  "('v, 'r, 'd, 'w, 'h) napi \<Rightarrow> ('v, 'h) napi_classes \<Rightarrow> 'v \<Rightarrow> (('r, 'd, 'w, 'h, 's) Module, 'v) state" where
  "UpdateClientInit N C exports = do {
     _ \<leftarrow> module_engine (nc_define_methods C exports [''getOnlineUpdater'', ''getRestorer'', ''getLocalUpdater'']);
     ret \<leftarrow> DefineUpdateClient N C exports;
     if \<not> ret then State_Monad.return (np_nullptr N)
     else do {
       ret \<leftarrow> DefineRestorer N C exports;
       if \<not> ret then State_Monad.return (np_nullptr N)
       else do {
         ret \<leftarrow> DefineLocalUpdater N C exports;
         if \<not> ret then State_Monad.return (np_nullptr N)
         else do {
           _ \<leftarrow> module_engine (Module_DefineProperties N exports);
           State_Monad.return exports
         }
       }
     }
   }"

end
