(* ===== verification/Js_Memory.thy ===== *)
theory Js_Memory
  imports Js_Tree
begin

text \<open>
  An engine in memory: values, references, deferreds and works are indices into lists. It shows
  that the laws of \<open>napi_engine\<close> can hold together, and it is the engine on which the properties
  of the binding are applied to concrete input.
\<close>

record JsMemory =
  mm_cells :: "nat js_view list"
  mm_refs :: "nat option list"
  mm_deferreds :: "nat settlement list"
  mm_works :: "bool list"
  mm_thrown :: "nat option"

text \<open>Index 0 of each list stands for the null pointer.\<close>

definition mm_empty :: JsMemory where
  "mm_empty = \<lparr>mm_cells = [JsUndefined], mm_refs = [None], mm_deferreds = [Pending], mm_works = [False], mm_thrown = None\<rparr>"

definition mm_live :: "JsMemory \<Rightarrow> nat set" where
  "mm_live h = {v. 0 < v \<and> v < length (mm_cells h)}"

definition mm_alloc :: "nat js_view \<Rightarrow> (JsMemory, napi_status \<times> nat) state" where
  "mm_alloc c = State (\<lambda>h. ((napi_ok, length (mm_cells h)), h\<lparr>mm_cells := mm_cells h @ [c]\<rparr>))"

definition napi_invalid_arg :: napi_status where
  "napi_invalid_arg = 1"

text \<open>A function that only looks at a value.\<close>

definition mm_read :: "nat \<Rightarrow> 'a \<Rightarrow> (nat js_view \<Rightarrow> 'a option) \<Rightarrow> (JsMemory, napi_status \<times> 'a) state" where
  "mm_read v a f = State (\<lambda>h. (case f (mm_cells h ! v) of None \<Rightarrow> ((napi_invalid_arg, a), h) | Some x \<Rightarrow> ((napi_ok, x), h)))"

definition mm_write :: "nat \<Rightarrow> (nat js_view \<Rightarrow> nat js_view option) \<Rightarrow> (JsMemory, napi_status) state" where
  "mm_write v f = State (\<lambda>h.
     (case f (mm_cells h ! v) of None \<Rightarrow> (napi_invalid_arg, h) | Some c \<Rightarrow> (napi_ok, h\<lparr>mm_cells := (mm_cells h)[v := c]\<rparr>)))"

definition mm_ref :: "JsMemory \<Rightarrow> nat \<Rightarrow> nat option" where
  "mm_ref h r = (if 0 < r \<and> r < length (mm_refs h) then
      (case mm_refs h ! r of None \<Rightarrow> None | Some v \<Rightarrow> if v \<in> mm_live h then Some v else None) else None)"

definition mm_deferred :: "JsMemory \<Rightarrow> nat \<Rightarrow> nat settlement option" where
  "mm_deferred h d = (if d < length (mm_deferreds h) then Some (mm_deferreds h ! d) else None)"

definition mm_settle :: "nat \<Rightarrow> nat settlement \<Rightarrow> (JsMemory, napi_status) state" where
  "mm_settle d s = State (\<lambda>h. (napi_ok, h\<lparr>mm_deferreds := (mm_deferreds h)[d := s]\<rparr>))"

fun string_of :: "nat js_view \<Rightarrow> string option" where
  "string_of (JsString s) = Some s"
| "string_of _ = None"

fun number_of :: "nat js_view \<Rightarrow> int option" where
  "number_of (JsNumber z) = Some z"
| "number_of _ = None"

fun bool_of :: "nat js_view \<Rightarrow> bool option" where
  "bool_of (JsBoolean b) = Some b"
| "bool_of _ = None"

fun object_of :: "nat js_view \<Rightarrow> (string \<Rightarrow> nat option) option" where
  "object_of (JsObject m) = Some m"
| "object_of _ = None"

fun array_of :: "nat js_view \<Rightarrow> nat list option" where
  "array_of (JsArray xs) = Some xs"
| "array_of _ = None"

definition mm_get_named :: "nat \<Rightarrow> string \<Rightarrow> nat \<Rightarrow> (JsMemory, napi_status \<times> nat) state" where
  "mm_get_named v k w0 = State (\<lambda>h.
     (case object_of (mm_cells h ! v) of
        None \<Rightarrow> ((napi_invalid_arg, w0), h)
      | Some m \<Rightarrow> (case m k of None \<Rightarrow> run_state (mm_alloc JsUndefined) h | Some w \<Rightarrow> ((napi_ok, w), h))))"

definition mm_napi :: "(nat, nat, nat, nat, JsMemory) napi" where
  "mm_napi = \<lparr>
     np_nullptr = 0, np_wild = 0, np_null_ref = 0, np_null_deferred = 0, np_null_work = 0,
     np_create_object = (\<lambda>v0. mm_alloc (JsObject Map.empty)),
     np_create_array_with_length = (\<lambda>n v0. do {
        (st, e) \<leftarrow> mm_alloc JsUndefined;
        mm_alloc (JsArray (replicate (unat n) e)) }),
     np_create_string_utf8 = (\<lambda>s v0. mm_alloc (JsString s)),
     np_create_int32 = (\<lambda>i v0. mm_alloc (JsNumber (sint i))),
     np_create_int64 = (\<lambda>i v0. mm_alloc (JsNumber (sint i))),
     np_create_uint32 = (\<lambda>u v0. mm_alloc (JsNumber (uint u))),
     np_create_error = (\<lambda>code msg v0. mm_alloc (JsObject [''message'' \<mapsto> msg])),
     np_get_undefined = (\<lambda>v0. mm_alloc JsUndefined),
     np_set_named_property = (\<lambda>v k w. mm_write v (\<lambda>c. map_option (\<lambda>m. JsObject (m(k \<mapsto> w))) (object_of c))),
     np_set_element = (\<lambda>v i w. mm_write v (\<lambda>c. map_option (\<lambda>xs. JsArray (xs[unat i := w])) (array_of c))),
     np_has_named_property = (\<lambda>v k b. mm_read v b (\<lambda>c. map_option (\<lambda>m. m k \<noteq> None) (object_of c))),
     np_get_named_property = mm_get_named,
     np_is_array = (\<lambda>v b. mm_read v b (\<lambda>c. Some (array_of c \<noteq> None))),
     np_get_array_length = (\<lambda>v u. mm_read v u (\<lambda>c. map_option (\<lambda>xs. of_nat (length xs)) (array_of c))),
     np_get_element = (\<lambda>v i w0. mm_read v w0 (\<lambda>c. map_option (\<lambda>xs. xs ! unat i) (array_of c))),
     np_typeof = (\<lambda>v t. mm_read v t (\<lambda>c. Some (typeof_view c))),
     np_get_value_int32 = (\<lambda>v i. mm_read v i (\<lambda>c. map_option word_of_int (number_of c))),
     np_get_value_uint32 = (\<lambda>v u. mm_read v u (\<lambda>c. map_option word_of_int (number_of c))),
     np_get_value_bool = (\<lambda>v b. mm_read v b bool_of),
     np_get_value_string_utf8 = (\<lambda>v n. mm_read v [] (\<lambda>c. map_option (take (unat n - 1)) (string_of c))),
     np_strict_equals = (\<lambda>v w b. State_Monad.return (napi_ok, v = w)),
     np_throw = (\<lambda>v. State (\<lambda>h. (napi_ok, h\<lparr>mm_thrown := Some v\<rparr>))),
     np_define_properties = (\<lambda>v ps. mm_write v (\<lambda>c. map_option (\<lambda>m. JsObject (m ++ map_of (rev ps))) (object_of c))),
     np_create_reference = (\<lambda>v u r0. State (\<lambda>h. ((napi_ok, length (mm_refs h)), h\<lparr>mm_refs := mm_refs h @ [Some v]\<rparr>))),
     np_get_reference_value = (\<lambda>r v0. State (\<lambda>h.
        (case mm_ref h r of None \<Rightarrow> ((napi_invalid_arg, v0), h) | Some v \<Rightarrow> ((napi_ok, v), h)))),
     np_delete_reference = (\<lambda>r. State (\<lambda>h. (napi_ok, h\<lparr>mm_refs := (mm_refs h)[r := None]\<rparr>))),
     np_create_promise = (\<lambda>d0 v0. do {
        (st, v) \<leftarrow> mm_alloc (JsOther napi_object);
        State (\<lambda>h. ((napi_ok, length (mm_deferreds h), v), h\<lparr>mm_deferreds := mm_deferreds h @ [Pending]\<rparr>)) }),
     np_resolve_deferred = (\<lambda>d v. if v = 0 then State_Monad.return napi_invalid_arg else mm_settle d (Resolved v)),
     np_reject_deferred = (\<lambda>d v. if v = 0 then State_Monad.return napi_invalid_arg else mm_settle d (Rejected v)),
     np_create_async_work = (\<lambda>v sid j0. State (\<lambda>h. ((napi_ok, length (mm_works h)), h\<lparr>mm_works := mm_works h @ [True]\<rparr>))),
     np_queue_async_work = (\<lambda>j. State_Monad.return napi_ok),
     np_delete_async_work = (\<lambda>j. State (\<lambda>h. (napi_ok, h\<lparr>mm_works := (mm_works h)[j := False]\<rparr>))),
     np_open_handle_scope = State_Monad.return napi_ok,
     np_close_handle_scope = State_Monad.return napi_ok\<rparr>"

section \<open>The laws\<close>

text \<open>What a cell refers to exists.\<close>

definition cell_ok :: "nat set \<Rightarrow> nat js_view \<Rightarrow> bool" where
  "cell_ok L c = (case c of
     JsObject m \<Rightarrow> ran m \<subseteq> L
   | JsArray xs \<Rightarrow> set xs \<subseteq> L \<and> length xs < 2 ^ 32
   | _ \<Rightarrow> True)"

definition mm_ready :: "JsMemory \<Rightarrow> bool" where
  "mm_ready h \<longleftrightarrow> mm_thrown h = None \<and> mm_cells h \<noteq> [] \<and> mm_refs h \<noteq> [] \<and>
     list_all (cell_ok (mm_live h)) (mm_cells h) \<and> list_all (\<lambda>r. r = None \<or> the r \<in> mm_live h) (mm_refs h)"

definition mm_obs :: "(nat, nat, nat, nat, JsMemory) js_obs" where
  "mm_obs = \<lparr>jo_ready = mm_ready, jo_live = mm_live, jo_view = (\<lambda>h v. mm_cells h ! v), jo_thrown = mm_thrown,
     jo_ref = mm_ref, jo_deferred = mm_deferred, jo_work = (\<lambda>h j. j < length (mm_works h) \<and> mm_works h ! j),
     jo_text = (\<lambda>s. s)\<rparr>"

lemma cell_ok_mono: "cell_ok L c \<Longrightarrow> L \<subseteq> L' \<Longrightarrow> cell_ok L' c"
  by (auto simp: cell_ok_def split: js_view.splits)

lemma cells_ok: "mm_ready h \<Longrightarrow> v \<in> mm_live h \<Longrightarrow> cell_ok (mm_live h) (mm_cells h ! v)"
  by (auto simp: mm_ready_def mm_live_def list_all_length)

lemma live_alloc: "mm_live (h\<lparr>mm_cells := mm_cells h @ [c]\<rparr>) = mm_live h \<union> (if mm_cells h = [] then {} else {length (mm_cells h)})"
  by (auto simp: mm_live_def)

lemma live_write: "mm_live (h\<lparr>mm_cells := (mm_cells h)[v := c]\<rparr>) = mm_live h"
  by (simp add: mm_live_def)

lemma ref_eq: "mm_ready h \<Longrightarrow> mm_live h \<subseteq> mm_live h' \<Longrightarrow> mm_refs h' = mm_refs h \<Longrightarrow> mm_ref h' = mm_ref h"
  by (rule ext) (auto simp: mm_ref_def mm_ready_def list_all_length split: option.splits)

lemma alloc_changes:
  assumes "mm_ready h" and "cell_ok (mm_live h) c"
  shows "only_changes mm_obs {} h (h\<lparr>mm_cells := mm_cells h @ [c]\<rparr>)"
    and "length (mm_cells h) \<in> mm_live (h\<lparr>mm_cells := mm_cells h @ [c]\<rparr>)" and "length (mm_cells h) \<notin> mm_live h"
proof -
  let ?h = "h\<lparr>mm_cells := mm_cells h @ [c]\<rparr>"
  have sub: "mm_live h \<subseteq> mm_live ?h" by (auto simp: live_alloc)
  have "mm_ready ?h"
    using assms sub by (auto simp: mm_ready_def list_all_iff intro: cell_ok_mono)
  moreover have "mm_ref ?h = mm_ref h" by (rule ref_eq [OF assms(1) sub]) simp
  moreover have "mm_deferred ?h = mm_deferred h" by (rule ext) (simp add: mm_deferred_def)
  ultimately show "only_changes mm_obs {} h ?h"
    using sub by (auto simp: only_changes_def keeps_values_def same_handles_def mm_obs_def mm_live_def nth_append)
  show "length (mm_cells h) \<in> mm_live ?h" "length (mm_cells h) \<notin> mm_live h"
    using assms(1) by (auto simp: mm_live_def mm_ready_def)
qed

lemma write_changes:
  assumes "mm_ready h" and "cell_ok (mm_live h) c"
  shows "only_changes mm_obs {v} h (h\<lparr>mm_cells := (mm_cells h)[v := c]\<rparr>)"
proof -
  let ?h = "h\<lparr>mm_cells := (mm_cells h)[v := c]\<rparr>"
  have "mm_ready ?h"
    using assms by (auto simp: mm_ready_def live_write list_all_iff dest!: set_update_subset_insert [THEN subsetD])
  moreover have "mm_ref ?h = mm_ref h" by (rule ref_eq [OF assms(1)]) (simp_all add: live_write)
  moreover have "mm_deferred ?h = mm_deferred h" by (rule ext) (simp add: mm_deferred_def)
  ultimately show ?thesis
    by (auto simp: only_changes_def keeps_values_def same_handles_def mm_obs_def live_write)
qed

lemma alloc_new:
  assumes "mm_ready h" and "cell_ok (mm_live h) c"
  shows "\<exists>v h'. run_state (mm_alloc c) h = ((napi_ok, v), h') \<and> only_changes mm_obs {} h h' \<and> v \<in> mm_live h' \<and>
    v \<notin> mm_live h \<and> mm_cells h' ! v = c"
  using alloc_changes [OF assms] by (auto simp: mm_alloc_def)

lemma write_object:
  assumes "mm_ready h" and "v \<in> mm_live h" and "f (mm_cells h ! v) = Some c" and "cell_ok (mm_live h) c"
  shows "\<exists>h'. run_state (mm_write v f) h = (napi_ok, h') \<and> only_changes mm_obs {v} h h' \<and> mm_cells h' ! v = c"
  using write_changes [OF assms(1,4)] assms(2,3) by (auto simp: mm_write_def mm_live_def)

lemma handles_change:
  assumes "mm_ready h" and "mm_cells h' = mm_cells h" and "mm_thrown h' = None"
    and "mm_refs h' \<noteq> []" and "list_all (\<lambda>r. r = None \<or> the r \<in> mm_live h) (mm_refs h')"
  shows "mm_ready h' \<and> keeps_values mm_obs {} h h'"
  using assms by (auto simp: mm_ready_def mm_live_def keeps_values_def mm_obs_def)

lemma same_ref: "mm_cells h' = mm_cells h \<Longrightarrow> mm_refs h' = mm_refs h \<Longrightarrow> mm_ref h' = mm_ref h"
  by (rule ext) (simp add: mm_ref_def mm_live_def cong: option.case_cong)

lemma same_deferred: "mm_deferreds h' = mm_deferreds h \<Longrightarrow> mm_deferred h' = mm_deferred h"
  by (rule ext) (simp add: mm_deferred_def)

lemma array_alloc:
  assumes "mm_ready h" and "unat (n :: size_t) < 2 ^ 32"
  shows "\<exists>v xs h'. run_state (np_create_array_with_length mm_napi n v0) h = ((napi_ok, v), h') \<and> only_changes mm_obs {} h h' \<and>
    v \<in> mm_live h' \<and> v \<notin> mm_live h \<and> mm_cells h' ! v = JsArray xs \<and> length xs = unat n"
proof -
  obtain e h1 where e: "run_state (mm_alloc JsUndefined) h = ((napi_ok, e), h1)" "only_changes mm_obs {} h h1" "e \<in> mm_live h1"
    using alloc_new [OF assms(1), of JsUndefined] by (auto simp: cell_ok_def)
  have r: "mm_ready h1" "mm_live h \<subseteq> mm_live h1"
    using e(2) by (auto simp: only_changes_def keeps_values_def mm_obs_def)
  have "cell_ok (mm_live h1) (JsArray (replicate (unat n) e))"
    using e(3) assms(2) by (auto simp: cell_ok_def set_replicate_conv_if)
  then obtain v h2 where v: "run_state (mm_alloc (JsArray (replicate (unat n) e))) h1 = ((napi_ok, v), h2)" "only_changes mm_obs {} h1 h2"
      "v \<in> mm_live h2" "v \<notin> mm_live h1" "mm_cells h2 ! v = JsArray (replicate (unat n) e)"
    using alloc_new [OF r(1)] by blast
  have "only_changes mm_obs {} h h2" by (rule only_changes_new [OF e(2) v(2)]) simp
  then show ?thesis using e(1) v r(2) by (auto simp: mm_napi_def)
qed

lemma add_reference:
  assumes "mm_ready h" and "v \<in> mm_live h"
  shows "mm_ref h (length (mm_refs h)) = None" and "length (mm_refs h) \<noteq> 0"
    and "mm_ref (h\<lparr>mm_refs := mm_refs h @ [Some v]\<rparr>) = (mm_ref h)(length (mm_refs h) \<mapsto> v)"
  using assms by (auto simp: mm_ref_def mm_ready_def mm_live_def nth_append fun_eq_iff cong: option.case_cong)

lemma remove_reference: "mm_ref h r = Some v \<Longrightarrow> mm_ref (h\<lparr>mm_refs := (mm_refs h)[r := None]\<rparr>) = (mm_ref h)(r := None)"
  by (rule ext) (auto simp: mm_ref_def mm_live_def nth_list_update cong: option.case_cong split: if_splits)

lemma settle_deferred:
  "mm_deferred h d = Some s0 \<Longrightarrow> mm_deferred (h\<lparr>mm_deferreds := (mm_deferreds h)[d := s]\<rparr>) = (mm_deferred h)(d \<mapsto> s)"
  by (rule ext) (auto simp: mm_deferred_def nth_list_update split: if_splits)

lemma add_deferred: "mm_deferred (h\<lparr>mm_deferreds := mm_deferreds h @ [s]\<rparr>) = (mm_deferred h)(length (mm_deferreds h) \<mapsto> s)"
  by (rule ext) (auto simp: mm_deferred_def nth_append)

lemma mm_select [simp]:
  "jo_ready mm_obs = mm_ready" "jo_live mm_obs = mm_live" "jo_view mm_obs h v = mm_cells h ! v" "jo_thrown mm_obs = mm_thrown"
  "jo_ref mm_obs = mm_ref" "jo_deferred mm_obs = mm_deferred" "jo_text mm_obs s = s"
  "jo_work mm_obs h j = (j < length (mm_works h) \<and> mm_works h ! j)"
  by (simp_all add: mm_obs_def)

lemmas mm_fields = mm_napi_def mm_read_def

interpretation mm: napi_engine mm_napi mm_obs
proof (unfold_locales, goal_cases)
  case (1 h) then show ?case by (simp add: mm_fields mm_ready_def)
next
  case (2 h) then show ?case by (simp add: mm_fields mm_live_def)
next
  case (3 h v m k w) then show ?case using cells_ok [of h v] by (auto simp: mm_fields cell_ok_def ran_def)
next
  case (4 h v xs w) then show ?case using cells_ok [of h v] by (auto simp: mm_fields cell_ok_def)
next
  case (5 h v xs) then show ?case using cells_ok [of h v] by (auto simp: mm_fields cell_ok_def)
next
  case (6 h v0) then show ?case using alloc_new [of h "JsObject Map.empty"] by (auto simp: mm_fields cell_ok_def)
next
  case (7 h n v0) then show ?case using array_alloc [of h n v0] by (simp add: mm_obs_def)
next
  case (8 h s v0) then show ?case using alloc_new [of h "JsString s"] by (auto simp: mm_fields cell_ok_def)
next
  case (9 h i v0) then show ?case using alloc_new [of h "JsNumber (sint i)"] by (auto simp: mm_fields cell_ok_def)
next
  case (10 h u v0) then show ?case using alloc_new [of h "JsNumber (uint u)"] by (auto simp: mm_fields cell_ok_def)
next
  case (11 h msg s v0) then show ?case
    using alloc_new [of h "JsObject [''message'' \<mapsto> msg]"] by (auto simp: mm_fields cell_ok_def)
next
  case (12 h v0) then show ?case using alloc_new [of h JsUndefined] by (auto simp: mm_fields cell_ok_def)
next
  case (13 h v m w k)
  have "cell_ok (mm_live h) (JsObject (m(k \<mapsto> w)))"
    using cells_ok [of h v] 13 by (auto simp: cell_ok_def ran_def split: if_splits)
  then show ?case
    using write_object [of h v "\<lambda>c. map_option (\<lambda>m. JsObject (m(k \<mapsto> w))) (object_of c)" "JsObject (m(k \<mapsto> w))"] 13
    by (auto simp: mm_fields)
next
  case (14 h v xs w i) then show ?case
    using write_object [of h v "\<lambda>c. map_option (\<lambda>xs. JsArray (xs[unat i := w])) (array_of c)" "JsArray (xs[unat i := w])"] cells_ok [of h v]
    by (auto simp: mm_fields cell_ok_def dest: set_update_subset_insert [THEN subsetD])
next
  case (15 h v m k b) then show ?case by (simp add: mm_fields)
next
  case (16 h v b) then show ?case by (auto simp: mm_fields napi_ok_def napi_invalid_arg_def)
next
  case (17 h v m k w w0) then show ?case by (simp add: mm_fields mm_get_named_def)
next
  case (18 h v b) then show ?case by (cases "mm_cells h ! v") (auto simp: mm_fields)
next
  case (19 h v xs u) then show ?case by (simp add: mm_fields)
next
  case (20 h v xs i w0) then show ?case by (simp add: mm_fields)
next
  case (21 h v t0) then show ?case by (simp add: mm_fields)
next
  case (22 h v z i) then show ?case by (simp add: mm_fields)
next
  case (23 h v i) then show ?case by (cases "mm_cells h ! v") (auto simp: mm_fields napi_ok_def napi_invalid_arg_def)
next
  case (24 h v z u) then show ?case by (simp add: mm_fields)
next
  case (25 h v u) then show ?case by (cases "mm_cells h ! v") (auto simp: mm_fields napi_ok_def napi_invalid_arg_def)
next
  case (26 h v x b) then show ?case by (simp add: mm_fields)
next
  case (27 h v b) then show ?case by (cases "mm_cells h ! v") (auto simp: mm_fields napi_ok_def napi_invalid_arg_def)
next
  case (28 h v s n) 
  then have "0 < unat n" using unat_gt_0 by auto
  with 28 show ?case by (auto simp: mm_fields intro!: exI [of _ "min (length s) (unat n - 1)"])
next
  case (29 h v w b) then show ?case by (simp add: mm_fields)
next
  case (30 h v) then show ?case
    by (auto simp: mm_fields mm_ready_def keeps_values_def same_handles_def mm_live_def intro!: same_ref same_deferred)
next
  case (31 h v m ps) 
  have "cell_ok (mm_live h) (JsObject (m ++ map_of (rev ps)))"
    using cells_ok [of h v] 31 by (auto simp: cell_ok_def ran_def dest!: map_of_SomeD)
  then show ?case
    using write_object [of h v "\<lambda>c. map_option (\<lambda>m. JsObject (m ++ map_of (rev ps))) (object_of c)" "JsObject (m ++ map_of (rev ps))"] 31
    by (auto simp: mm_fields)
next
  case (32 h v u r0) 
  then have r: "mm_ready h" "v \<in> mm_live h" by (simp_all add: mm_fields)
  have "mm_ready (h\<lparr>mm_refs := mm_refs h @ [Some v]\<rparr>) \<and> keeps_values mm_obs {} h (h\<lparr>mm_refs := mm_refs h @ [Some v]\<rparr>)"
    by (rule handles_change [OF r(1)]) (use r in \<open>auto simp: mm_ready_def\<close>)
  moreover have "mm_deferred (h\<lparr>mm_refs := mm_refs h @ [Some v]\<rparr>) = mm_deferred h" by (rule same_deferred) simp
  ultimately show ?case using add_reference [OF r] by (simp add: mm_napi_def fun_eq_iff)
next
  case (33 h r v v0) then show ?case by (simp add: mm_fields)
next
  case (34 h r v) then show ?case by (auto simp: mm_fields mm_ref_def split: if_splits option.splits)
next
  case (35 h) then show ?case by (simp add: mm_fields mm_ref_def)
next
  case (36 h r v) 
  then have r: "mm_ready h" "mm_ref h r = Some v" by (simp_all add: mm_fields)
  have "mm_ready (h\<lparr>mm_refs := (mm_refs h)[r := None]\<rparr>) \<and> keeps_values mm_obs {} h (h\<lparr>mm_refs := (mm_refs h)[r := None]\<rparr>)"
    by (rule handles_change [OF r(1)]) (use r(1) in \<open>auto simp: mm_ready_def list_all_iff dest: set_update_subset_insert [THEN subsetD]\<close>)
  moreover have "mm_deferred (h\<lparr>mm_refs := (mm_refs h)[r := None]\<rparr>) = mm_deferred h" by (rule same_deferred) simp
  ultimately show ?case using remove_reference [OF r(2)] by (simp add: mm_napi_def fun_eq_iff)
next
  case (37 h d0 v0) 
  then have "mm_ready h" by (simp add: mm_fields)
  then obtain v h1 where v: "run_state (mm_alloc (JsOther napi_object)) h = ((napi_ok, v), h1)" "only_changes mm_obs {} h h1" "v \<in> mm_live h1"
    using alloc_new [of h "JsOther napi_object"] by (auto simp: cell_ok_def)
  let ?h = "h1\<lparr>mm_deferreds := mm_deferreds h1 @ [Pending]\<rparr>"
  have r: "mm_ready h1" "keeps_values mm_obs {} h h1" "same_handles mm_obs h h1" using v(2) by (simp_all add: only_changes_def mm_obs_def)
  have "mm_ready ?h \<and> keeps_values mm_obs {} h1 ?h"
    by (rule handles_change [OF r(1)]) (use r(1) in \<open>auto simp: mm_ready_def\<close>)
  moreover from this r(2) have "keeps_values mm_obs {} h ?h" by (blast intro: keeps_values_trans)
  moreover have "mm_ref ?h = mm_ref h" using r(3) same_ref [of ?h h1] by (simp add: same_handles_def)
  moreover have same: "mm_deferred h1 = mm_deferred h" "jo_work mm_obs h1 = jo_work mm_obs h" using r(3) by (simp_all add: same_handles_def)
  moreover have "mm_deferred h (length (mm_deferreds h1)) = None" by (simp add: same(1) [symmetric] mm_deferred_def)
  moreover have "jo_work mm_obs ?h = jo_work mm_obs h" by (simp add: same(2) [symmetric] fun_eq_iff)
  moreover have "v \<in> mm_live ?h" using v(3) by (simp add: mm_live_def)
  ultimately show ?case using v(1) by (simp add: mm_napi_def add_deferred)
next
  case (38 h d v) 
  then have r: "mm_ready h" "mm_deferred h d = Some Pending" and v: "v \<noteq> 0" by (auto simp: mm_fields mm_live_def)
  let ?h = "h\<lparr>mm_deferreds := (mm_deferreds h)[d := Resolved v]\<rparr>"
  have "mm_ready ?h \<and> keeps_values mm_obs {} h ?h"
    by (rule handles_change [OF r(1)]) (use r(1) in \<open>auto simp: mm_ready_def\<close>)
  moreover have "mm_ref ?h = mm_ref h" by (rule same_ref) simp_all
  ultimately show ?case using settle_deferred [OF r(2)] v by (simp add: mm_napi_def mm_settle_def fun_eq_iff)
next
  case (39 h d v) 
  then have r: "mm_ready h" "mm_deferred h d = Some Pending" and v: "v \<noteq> 0" by (auto simp: mm_fields mm_live_def)
  let ?h = "h\<lparr>mm_deferreds := (mm_deferreds h)[d := Rejected v]\<rparr>"
  have "mm_ready ?h \<and> keeps_values mm_obs {} h ?h"
    by (rule handles_change [OF r(1)]) (use r(1) in \<open>auto simp: mm_ready_def\<close>)
  moreover have "mm_ref ?h = mm_ref h" by (rule same_ref) simp_all
  ultimately show ?case using settle_deferred [OF r(2)] v by (simp add: mm_napi_def mm_settle_def fun_eq_iff)
next
  case (40 h v sid j0) 
  then have r: "mm_ready h" by (simp add: mm_fields)
  let ?h = "h\<lparr>mm_works := mm_works h @ [True]\<rparr>"
  have "mm_ready ?h \<and> keeps_values mm_obs {} h ?h" by (rule handles_change [OF r]) (use r in \<open>auto simp: mm_ready_def\<close>)
  moreover have "mm_ref ?h = mm_ref h" "mm_deferred ?h = mm_deferred h" by (rule same_ref same_deferred; simp)+
  ultimately show ?case by (simp add: mm_napi_def fun_eq_iff nth_append less_Suc_eq)
next
  case (41 h j) then show ?case by (auto simp: mm_fields only_changes_def keeps_values_def same_handles_def)
next
  case (42 h j) 
  then have r: "mm_ready h" by (simp add: mm_fields)
  let ?h = "h\<lparr>mm_works := (mm_works h)[j := False]\<rparr>"
  have "mm_ready ?h \<and> keeps_values mm_obs {} h ?h" by (rule handles_change [OF r]) (use r in \<open>auto simp: mm_ready_def\<close>)
  moreover have "mm_ref ?h = mm_ref h" "mm_deferred ?h = mm_deferred h" by (rule same_ref same_deferred; simp)+
  ultimately show ?case by (simp add: mm_napi_def fun_eq_iff nth_list_update)
next
  case (43 h) then show ?case by (auto simp: mm_fields only_changes_def keeps_values_def same_handles_def)
next
  case (44 h) then show ?case by (auto simp: mm_fields only_changes_def keeps_values_def same_handles_def)
next
  case (45 h v w b) then show ?case by (simp add: mm_fields)
next
  case (46 h d) then show ?case by (simp add: mm_fields napi_ok_def napi_invalid_arg_def)
qed

end
