(* ===== verification/Js_Properties.thy ===== *)
theory Js_Properties
  imports Js_Check Js_Module Js_Memory
begin

text \<open>
  The properties of the JavaScript binding. Each of them holds for every engine with the laws of
  \<open>napi_engine\<close>; the witnesses run on the engine in memory.
\<close>

section \<open>A sample process\<close>

text \<open>Value 1 is a function, 2 an argument of \<open>on\<close> and \<open>off\<close>, 4 an empty object.\<close>

definition sample_heap :: JsMemory where
  "sample_heap = \<lparr>mm_cells = [JsUndefined, JsFunction, JsObject [''eventClassify'' \<mapsto> 3], JsNumber 16777216, JsObject Map.empty],
     mm_refs = [None, Some 1, Some 1, Some 4], mm_deferreds = [Pending, Pending], mm_works = [False, True, True], mm_thrown = None\<rparr>"

definition sample_session :: "SessionClass \<Rightarrow> uint32_t \<Rightarrow> SessionType \<Rightarrow> (nat, nat, nat, UpdateClient, unit) Session" where
  "sample_session cls sid type =
     \<lparr>se_class = cls, se_sessionId = sid, se_params = SessionParams_new type 1 True False, se_businessError = BusinessError_default,
      se_workResult = INT_CALL_SUCCESS, se_totalArgc = 1, se_callbackNumber = 1, se_doWorker = None, se_asyncExecuteComplete = False,
      se_worker = unat sid, se_callbackRef = [1], se_deferred = 1, se_isOnce = False, se_eventType = [], se_handlerRef = 2,
      se_eventClassifyInfo = EventClassifyInfo_default\<rparr>"

text \<open>A promise and a callback that are due to be reported, and a subscription.\<close>

definition sample_updater :: "(nat, nat, nat, JsMemory, UpdateClient, unit) Updater" where
  "sample_updater =
     \<lparr>ju_heap = sample_heap, ju_kits = (), ju_sessionId = 3, ju_members = UpdateClient_default,
      ju_sessions = [(1, sample_session UpdatePromiseSession 1 SESSION_GET_TASK_INFO),
        (2, sample_session UpdateAsyncession 2 SESSION_CHECK_VERSION), (3, sample_session UpdateListener 3 SESSION_SUBSCRIBE)],
      ju_thisReference = 3, ju_queued = [], ju_running = [], ju_executed = [1, 2], ju_posted = []\<rparr>"

lemma sample_ready: "jo_ready mm_obs sample_heap" "{1, 2, 3, 4} \<subseteq> jo_live mm_obs sample_heap"
  by (simp_all add: mm_obs_def mm_ready_def sample_heap_def mm_live_def cell_ok_def)

lemma sample_find:
  "find_session k sample_updater =
    (if k = 1 then Some (sample_session UpdatePromiseSession 1 SESSION_GET_TASK_INFO)
     else if k = 2 then Some (sample_session UpdateAsyncession 2 SESSION_CHECK_VERSION)
     else if k = 3 then Some (sample_session UpdateListener 3 SESSION_SUBSCRIBE) else None)"
proof -
  have "om_ordered id_less (ju_sessions sample_updater)" by (simp add: sample_updater_def im.ordered_Cons im.ordered_Nil)
  then show ?thesis by (simp add: find_session_def find_map_of) (simp add: sample_updater_def)
qed

lemma sample_parts:
  "ju_heap sample_updater = sample_heap" "ju_executed sample_updater = [1, 2]" "ju_members sample_updater = UpdateClient_default"
  "ju_sessionId sample_updater = 3" "ju_kits sample_updater = ()"
  by (simp_all add: sample_updater_def)

lemma sample_inv: "sessions_inv mm_obs [] sample_updater"
  unfolding sessions_inv_def sample_find
  by (auto simp: sample_updater_def sample_session_def im.ordered_Cons im.ordered_Nil outstanding_def session_ok_def holds_def works_of_def
      refs_of_def deferreds_of_def apart_def mm_obs_def sample_heap_def mm_ref_def mm_live_def mm_deferred_def SessionParams_new_def)

text \<open>A function that does nothing.\<close>

definition idle_function :: "nat \<Rightarrow> nat \<Rightarrow> nat list \<Rightarrow> ((nat, nat, nat, JsMemory, UpdateClient, unit) Updater, napi_status) state" where
  "idle_function v f args = State_Monad.return napi_ok"

lemma idle_ok: "handler_ok mm_napi mm_obs idle_function"
  by (simp add: handler_ok_def idle_function_def)

lemma sample_fits: "members_fit UpdateClient_default" "length (be_data BusinessError_default) < 2 ^ 32"
  by (simp_all add: members_fit_def UpdateClient_default_def BusinessError_default_def CheckResult_default_def NewVersionInfo_default_def
      VersionDescriptionInfo_default_def TaskInfo_default_def TaskBody_default_def CurrentVersionInfo_default_def)

section \<open>Sessions\<close>

text \<open>
  C17. In every state an online updater can reach, the works that are queued, running or waiting for
  their report are distinct and belong to sessions that are still in the map, and every session but
  a subscription is in exactly one of these phases. The session holds a live work, its promise is
  not settled and its references are not deleted; no two sessions share one of them. So a report is
  never the use of a session that was freed.
\<close>

theorem sessions_safe:
  assumes "napi_engine N Ob" and "handler_ok N Ob J"
    and "(session_step N Ob J)\<^sup>*\<^sup>* (updater_new N thisVar members h k n) u"
  shows "sessions_inv Ob [] u \<and> distinct (outstanding u) \<and>
    (\<forall>sid. sid \<in> set (outstanding u) \<longleftrightarrow> (\<exists>s. find_session sid u = Some s \<and> se_class s \<noteq> UpdateListener))"
proof -
  have inv: "sessions_inv Ob [] u"
    by (rule napi_engine.inv_session_steps [OF assms(1,3,2)], rule napi_engine.inv_new [OF assms(1)])
  then show ?thesis using inv_distinct [OF inv] inv_outstanding [OF inv] by simp
qed

text \<open>An updater that was just made, and a call with a promise.\<close>

definition sample_start :: "(nat, nat, nat, JsMemory, UpdateClient, unit) Updater" where
  "sample_start = updater_new mm_napi 4 UpdateClient_default sample_heap () 0"

lemma sample_start_ready: "sessions_inv mm_obs [] sample_start" "room sample_start" "jo_ready mm_obs (ju_heap sample_start)"
  "ju_sessionId sample_start = 0" "ju_queued sample_start = []" "ju_running sample_start = []" "ju_executed sample_start = []"
  "ju_sessions sample_start = []" "ju_members sample_start = UpdateClient_default"
  by (simp_all add: sample_start_def napi_engine.inv_new [OF mm.napi_engine_axioms]) (simp_all add: updater_new_def room_def mm_napi_def mm_obs_def mm_ready_def
      sample_heap_def mm_live_def cell_ok_def)

text \<open>The work of the witness fails.\<close>

definition failing_worker :: "(UpdateClient, unit) DoWorkFunction" where
  "failing_worker type context c k = Some (CallResult_code CallResult.FAIL, context, c, k)"

definition no_arguments :: "nat CallInfo" where
  "no_arguments = \<lparr>ci_status = napi_ok, ci_argc = 0, ci_args = []\<rparr>"

theorem sessions_safe_witness:
  "\<exists>u s. (session_step mm_napi mm_obs idle_function)\<^sup>*\<^sup>* (updater_new mm_napi 4 UpdateClient_default sample_heap () 0) u \<and>
    outstanding u = [1] \<and> find_session 1 u = Some s \<and> se_class s = UpdatePromiseSession \<and>
    jo_deferred mm_obs (ju_heap u) (se_deferred s) = Some Pending \<and> sessions_inv mm_obs [] u"
proof -
  let ?ps = "SessionParams_new SESSION_CLEAR_ERROR 1 True False"
  have "ci_status no_arguments = napi_ok" "\<not> sp_callbackStartIndex ?ps < ci_argc no_arguments"
    by (simp_all add: no_arguments_def SessionParams_new_def)
  then obtain p s h where "run_state (StartSession mm_napi no_arguments ?ps failing_worker) sample_start =
      (p, sample_start\<lparr>ju_sessionId := ju_sessionId sample_start + 1,
        ju_sessions := ju_sessions sample_start @ [(ju_sessionId sample_start + 1, s)], ju_heap := h,
        ju_queued := ju_queued sample_start @ [ju_sessionId sample_start + 1]\<rparr>)"
      "se_class s = UpdatePromiseSession" "jo_deferred mm_obs h (se_deferred s) = Some Pending"
    by (rule napi_engine.promise_start [OF mm.napi_engine_axioms sample_start_ready(1-3)])
  then have s: "run_state (StartSession mm_napi no_arguments ?ps failing_worker) sample_start =
      (p, sample_start\<lparr>ju_sessionId := 1, ju_sessions := [(1, s)], ju_heap := h, ju_queued := [1]\<rparr>)"
      "se_class s = UpdatePromiseSession" "jo_deferred mm_obs h (se_deferred s) = Some Pending"
    by (simp_all add: sample_start_ready)
  let ?u = "sample_start\<lparr>ju_sessionId := 1, ju_sessions := [(1, s)], ju_heap := h, ju_queued := [1]\<rparr>"
  have "api_step mm_napi mm_obs sample_start (snd (run_state (StartSession mm_napi no_arguments ?ps failing_worker) sample_start))"
    by (rule api_start) (use sample_start_ready(2,3) in \<open>simp_all add: callback_arg_def no_arguments_def SessionParams_new_def\<close>)
  then have "session_step mm_napi mm_obs idle_function sample_start ?u" using s(1) by (auto intro: step_api)
  then have r: "(session_step mm_napi mm_obs idle_function)\<^sup>*\<^sup>* (updater_new mm_napi 4 UpdateClient_default sample_heap () 0) ?u"
    unfolding sample_start_def by (rule r_into_rtranclp)
  show ?thesis
    using sessions_safe [OF mm.napi_engine_axioms idle_ok r] r s(2,3)
    by (intro exI [of _ ?u] exI [of _ s]) (simp add: outstanding_def find_session_def sample_start_ready)
qed

text \<open>
  C20. Reporting a finished call with a promise settles exactly this promise: it is rejected with an
  object that shows the error, if the call failed or its business error is not SUCCESS, and resolved
  with the reference tree of the result otherwise. A description without a valid component has no
  tree: the promise is then never settled. The session has left the map and the invariant holds.
\<close>

theorem promise_settles:
  assumes "napi_engine N Ob" and "sessions_inv Ob [] u" and "jo_ready Ob (ju_heap u)"
    and "sid \<in> set (ju_executed u)" and "find_session sid u = Some s" and "se_class s = UpdatePromiseSession"
    and "members_fit (ju_members u)" and "length (be_data (se_businessError s)) < 2 ^ 32"
  shows "\<exists>u'. CompleteWork N J UpdateClient_GetUpdateResult sid u = Some u' \<and> find_session sid u' = None \<and> sessions_inv Ob [] u' \<and>
    promise_outcome Ob (ju_heap u) (ju_heap u') (se_deferred s)
      (call_error (sp_type (se_params s)) (se_workResult s) (se_businessError s))
      (result_tree (jo_text Ob) (sp_type (se_params s)) (ju_members u))"
  using napi_engine.promise_completed [OF assms(1,2,4,3,7,8,5,6), of J]
  by (fastforce simp: settled_outcome RemoveSession_def find_session_def im.find_erase [OF inv_ordered [OF assms(2)]])

theorem promise_settles_witness:
  "\<exists>u'. CompleteWork mm_napi idle_function UpdateClient_GetUpdateResult 1 sample_updater = Some u' \<and> find_session 1 u' = None \<and>
    sessions_inv mm_obs [] u' \<and>
    promise_outcome mm_obs (ju_heap sample_updater) (ju_heap u') 1 BusinessError_default
      (Some (TaskInfo_tree (\<lambda>s. s) (uc_taskInfo UpdateClient_default)))"
proof -
  let ?s = "sample_session UpdatePromiseSession 1 SESSION_GET_TASK_INFO"
  have s: "se_class ?s = UpdatePromiseSession" "se_businessError ?s = BusinessError_default" "se_workResult ?s = INT_CALL_SUCCESS"
      "se_deferred ?s = 1" "sp_type (se_params ?s) = SESSION_GET_TASK_INFO"
    by (simp_all add: sample_session_def SessionParams_new_def)
  have "call_error SESSION_GET_TASK_INFO INT_CALL_SUCCESS BusinessError_default = BusinessError_default"
      "result_tree (jo_text mm_obs) SESSION_GET_TASK_INFO UpdateClient_default =
        Some (TaskInfo_tree (\<lambda>s. s) (uc_taskInfo UpdateClient_default))"
    by (simp_all add: call_error_def result_tree_def mm_obs_def)
  then show ?thesis
    using promise_settles [OF mm.napi_engine_axioms sample_inv, of 1 ?s idle_function] sample_ready(1) sample_fits
    unfolding s sample_find sample_parts by simp
qed





text \<open>
  C18. \<open>checkNewVersion\<close> without a callback, when nothing else happens: the promise is rejected with
  the error of the call when the service did not take the request. Otherwise it is settled with
  the error and the check result of the answer that comes while its thread waits, and rejected with
  TIME_OUT when none comes. Every other search that is outstanding gets the same answer.
\<close>

theorem search_answers:
  assumes "napi_engine N Ob" and "sessions_inv Ob [] u" and "room u" and "jo_ready Ob (ju_heap u)"
    and "ci_status info = napi_ok" and "ci_argc info = 0"
    and "Kits_CheckNewVersion A service (uc_upgradeInfo (ju_members u)) (ju_kits u) = Some (ret, x, ks)"
    and "members_fit (members_after answer (ju_members u))" and "length (be_data (search_error ret answer)) < 2 ^ 32"
  shows "\<exists>p u1 u2 u3 u4 d. run_state (UpdateClient_CheckNewVersion N A service info) u = (p, u1) \<and> p \<noteq> np_nullptr N \<and>
    jo_deferred Ob (ju_heap u) d = None \<and> jo_deferred Ob (ju_heap u1) d = Some Pending \<and>
    run_work (ju_sessionId u + 1) u1 = Some u2 \<and> finish_work (ju_sessionId u + 1) (notice_of_answer answer u2) = Some u3 \<and>
    CompleteWork N J UpdateClient_GetUpdateResult (ju_sessionId u + 1) u3 = Some u4 \<and>
    ju_kits u4 = ks \<and> ju_sessions u4 = sessions_after answer (ju_sessions u) \<and>
    promise_outcome Ob (ju_heap u1) (ju_heap u4) d (call_error SESSION_CHECK_VERSION ret (search_error ret answer))
      (Some (CheckResult_tree (jo_text Ob) (uc_checkResult (members_after answer (ju_members u)))))"
  by (rule napi_engine.search_call [where service = service, OF assms])

text \<open>A service that takes every search, and no answer: the promise is rejected with TIME_OUT.\<close>

definition searching_service :: "MemDevice Service IUpdateService" where
  "searching_service = (UpdateService memory_device sample_kits)\<lparr>ius_CheckNewVersion := \<lambda>info s. Some (INT_CALL_SUCCESS, (), s)\<rparr>"

definition sample_online :: "(nat, nat, nat, JsMemory, MemDevice Service) Online" where
  "sample_online = UpdateClient_new mm_napi 4 sample_heap (\<lparr>ki_connected = True, ki_callbacks = []\<rparr>, empty_service) 0"

lemma sample_online_ready: "sessions_inv mm_obs [] sample_online" "room sample_online" "jo_ready mm_obs (ju_heap sample_online)"
  "ju_sessionId sample_online = 0" "ju_sessions sample_online = []" "ju_members sample_online = UpdateClient_default"
  "ju_kits sample_online = (\<lparr>ki_connected = True, ki_callbacks = []\<rparr>, empty_service)"
  by (simp_all add: sample_online_def UpdateClient_new_def napi_engine.inv_new [OF mm.napi_engine_axioms]) (simp_all add: updater_new_def room_def mm_napi_def mm_obs_def
      mm_ready_def sample_heap_def mm_live_def cell_ok_def)

theorem search_answers_witness:
  "\<exists>p u1 u2 u3 u4 d. run_state (UpdateClient_CheckNewVersion mm_napi sample_samgr searching_service no_arguments) sample_online = (p, u1) \<and>
    run_work 1 u1 = Some u2 \<and> finish_work 1 u2 = Some u3 \<and>
    CompleteWork mm_napi (\<lambda>_ _ _. State_Monad.return napi_ok) UpdateClient_GetUpdateResult 1 u3 = Some u4 \<and>
    (\<exists>v. jo_deferred mm_obs (ju_heap u4) d = Some (Rejected v) \<and>
       renders mm_obs {} (ju_heap u4) v
         (TObject (BusinessError_fields (jo_text mm_obs) (BusinessError_default\<lparr>be_errorNum := CallResult.TIME_OUT\<rparr>))))"
proof -
  have call: "Kits_CheckNewVersion sample_samgr searching_service (uc_upgradeInfo (ju_members sample_online)) (ju_kits sample_online) =
      Some (INT_CALL_SUCCESS, (), ju_kits sample_online)"
    by (simp add: Kits_CheckNewVersion_def kits_call_def GetService_def sample_online_ready searching_service_def)
  have e: "call_error SESSION_CHECK_VERSION INT_CALL_SUCCESS (search_error INT_CALL_SUCCESS None) =
      BusinessError_default\<lparr>be_errorNum := CallResult.TIME_OUT\<rparr>"
    by (simp add: call_error_def search_error_def)
  have "length (be_data (search_error INT_CALL_SUCCESS None)) < 2 ^ 32" "members_fit (members_after None (ju_members sample_online))"
    using sample_fits by (simp_all add: search_error_def members_after_def sample_online_ready)
  from search_answers [OF mm.napi_engine_axioms sample_online_ready(1-3) _ _ call this(2,1), of no_arguments "\<lambda>_ _ _. State_Monad.return napi_ok"]
  obtain p u1 u2 u3 u4 d where w: "run_state (UpdateClient_CheckNewVersion mm_napi sample_samgr searching_service no_arguments) sample_online = (p, u1)"
      "run_work 1 u1 = Some u2" "finish_work 1 u2 = Some u3"
      "CompleteWork mm_napi (\<lambda>_ _ _. State_Monad.return napi_ok) UpdateClient_GetUpdateResult 1 u3 = Some u4"
      "promise_outcome mm_obs (ju_heap u1) (ju_heap u4) d (BusinessError_default\<lparr>be_errorNum := CallResult.TIME_OUT\<rparr>)
        (Some (CheckResult_tree (jo_text mm_obs) (uc_checkResult (members_after None (ju_members sample_online)))))"
    unfolding e by (auto simp: no_arguments_def sample_online_ready notice_of_answer_def)
  have "IsErrorExist (BusinessError_default\<lparr>be_errorNum := CallResult.TIME_OUT\<rparr>)" by (simp add: IsErrorExist_def)
  with w(5) obtain v where "jo_deferred mm_obs (ju_heap u4) d = Some (Rejected v)" "renders mm_obs {} (ju_heap u4) v
         (TObject (BusinessError_fields (jo_text mm_obs) (BusinessError_default\<lparr>be_errorNum := CallResult.TIME_OUT\<rparr>)))"
    by (auto simp: promise_outcome_def)
  with w(1-4) show ?thesis by blast
qed

section \<open>Subscriptions\<close>


text \<open>The session of the class TASK is told of a finished download.\<close>

definition sample_task_event :: EventInfo where
  "sample_task_event = \<lparr>ei_eventId = EventId.EVENT_DOWNLOAD_SUCCESS, ei_taskBody = TaskBody_default\<rparr>"


text \<open>
  C23. \<open>off\<close> with an event class and a function, or with the class only, removes exactly the
  subscriptions to this class with this function, or all to this class. Every other session stays
  where it was, and nothing is reported to the application but the number 0.
\<close>

theorem off_leaves_the_others:
  assumes "napi_engine N Ob" and "sessions_inv Ob X u" and "jo_ready Ob (ju_heap u)"
    and "run_state (GetEventClassifyInfoFromArg N (ci_args info ! 0) EventClassifyInfo_default) (ju_heap u) = ((CLIENT_SUCCESS, e), ju_heap u)"
    and "ci_status info = napi_ok" and "handle = (if 2 \<le> ci_argc info then ci_args info ! 1 else np_nullptr N)"
    and "2 \<le> ci_argc info \<Longrightarrow> ci_args info ! 1 \<in> jo_live Ob (ju_heap u) \<and> jo_view Ob (ju_heap u) (ci_args info ! 1) = JsFunction"
  shows "\<exists>v h. run_state (IUpdater_Off N info) u =
      (v, u\<lparr>ju_sessions := filter (\<lambda>(k, s). other_listener N Ob (ju_heap u) e handle s) (ju_sessions u), ju_heap := h\<rparr>) \<and>
    v \<in> jo_live Ob h \<and> only_changes Ob {} (ju_heap u) h"
  by (rule napi_engine.Off_exact [OF assms])

theorem off_leaves_the_others_witness:
  "\<exists>v h. run_state (IUpdater_Off mm_napi \<lparr>ci_status = napi_ok, ci_argc = 2, ci_args = [2, 1]\<rparr>) sample_updater =
     (v, sample_updater\<lparr>ju_sessions := [(1, sample_session UpdatePromiseSession 1 SESSION_GET_TASK_INFO),
        (2, sample_session UpdateAsyncession 2 SESSION_CHECK_VERSION)], ju_heap := h\<rparr>)"
proof -
  let ?info = "\<lparr>ci_status = napi_ok, ci_argc = 2, ci_args = [2, 1]\<rparr>"
  have read: "run_state (GetEventClassifyInfoFromArg mm_napi (ci_args ?info ! 0) EventClassifyInfo_default) (ju_heap sample_updater) =
      ((CLIENT_SUCCESS, EventClassifyInfo_default), ju_heap sample_updater)"
    by (simp add: GetEventClassifyInfoFromArg_def NapiUtil_GetInt32_def NapiUtil_GetString_def EventClassifyInfo_default_def
        EventClassify_of_def mm_napi_def mm_read_def mm_get_named_def sample_parts sample_heap_def Let_def comp_def)
  have "filter (\<lambda>(k, s). other_listener mm_napi mm_obs sample_heap EventClassifyInfo_default 1 s) (ju_sessions sample_updater) =
      [(1, sample_session UpdatePromiseSession 1 SESSION_GET_TASK_INFO), (2, sample_session UpdateAsyncession 2 SESSION_CHECK_VERSION)]"
    by (simp add: sample_updater_def sample_session_def SessionParams_new_def other_listener_def IsSubscribeEvent_def mm_obs_def
        sample_heap_def mm_ref_def mm_live_def)
  moreover have "jo_ready mm_obs (ju_heap sample_updater)" "1 \<in> jo_live mm_obs (ju_heap sample_updater)"
      "jo_view mm_obs (ju_heap sample_updater) 1 = JsFunction"
    using sample_ready by (simp_all add: sample_parts mm_obs_def sample_heap_def)
  ultimately show ?thesis
    using off_leaves_the_others [OF mm.napi_engine_axioms sample_inv _ read, of 1] by (auto simp: sample_parts)
qed

section \<open>Values\<close>

text \<open>
  C40. A policy that \<open>getUpgradePolicy\<close> hands out cannot be given back: \<open>setUpgradePolicy\<close> accepts
  the object and keeps the policy it had, since it reads booleans where numbers were written and
  numbers where the periods are objects.
\<close>

theorem policy_not_given_back:
  assumes "napi_engine N Ob" and "jo_ready Ob h"
  shows "\<exists>v h'. run_state (BuildUpgradePolicy N old SESSION_GET_POLICY (Some p)) h = ((0, v), h') \<and>
    renders Ob {} h' v (UpgradePolicy_tree p) \<and> run_state (GetUpgradePolicyFromArg N v q) h' = ((CLIENT_SUCCESS, q), h')"
proof -
  obtain v h' where b: "run_state (BuildUpgradePolicy N old SESSION_GET_POLICY (Some p)) h = ((0, v), h')" "only_changes Ob {} h h'"
      "renders Ob (jo_live Ob h) h' v (UpgradePolicy_tree p)"
    using napi_engine.builds_UpgradePolicy [OF assms(1), of p old] assms(2) unfolding builds_def by blast
  then show ?thesis
    using napi_engine.policy_not_read_back [OF assms(1) only_changes_ready [OF b(2)] b(3), of q] renders_apart [OF b(3), of "{}"]
    by blast
qed

theorem policy_not_given_back_witness:
  "\<exists>v h'. run_state (BuildUpgradePolicy mm_napi 0 SESSION_GET_POLICY (Some UpgradePolicy_default)) sample_heap = ((0, v), h') \<and>
    run_state (GetUpgradePolicyFromArg mm_napi v (UpgradePolicy_default\<lparr>upo_downloadStrategy := True\<rparr>)) h' =
      ((CLIENT_SUCCESS, UpgradePolicy_default\<lparr>upo_downloadStrategy := True\<rparr>), h')"
  using policy_not_given_back [OF mm.napi_engine_axioms sample_ready(1), of 0 UpgradePolicy_default
      "UpgradePolicy_default\<lparr>upo_downloadStrategy := True\<rparr>"] by blast

text \<open>
  Loading the module gives its exports exactly the 13 objects of constants, each with exactly
  the names and numbers of its table, and changes nothing else.
\<close>

theorem module_constants:
  assumes "napi_engine N Ob" and "jo_ready Ob h" and "exports \<in> jo_live Ob h" and "jo_view Ob h exports = JsObject Map.empty"
  shows "\<exists>h'. run_state (Module_DefineProperties N exports) h = ((), h') \<and> only_changes Ob {exports} h h' \<and>
    renders Ob {} h' exports (TObject (module_items Ob))"
  by (rule napi_engine.exports_module [OF assms])

theorem module_constants_witness:
  "\<exists>h'. run_state (Module_DefineProperties mm_napi 4) sample_heap = ((), h') \<and> renders mm_obs {} h' 4 (TObject (module_items mm_obs))"
proof -
  have "jo_view mm_obs sample_heap 4 = JsObject Map.empty" by (simp add: mm_obs_def sample_heap_def)
  then show ?thesis using module_constants [OF mm.napi_engine_axioms sample_ready(1), of 4] sample_ready(2) by blast
qed

end
