(* ===== verification/Timer_Table.thy ===== *)
theory Timer_Table
  imports Update_Prelude
begin

text \<open>
  The table of cycle timers (\<open>services/utils/src/dupdate_timer.c\<close>): at most fifteen POSIX timers
  under small numbers. The timers of the system are a parameter; what is relied on is the locale
  \<open>posix_timers\<close>. The table owns its timers: none is lost and none is deleted twice.
\<close>

section \<open>State\<close>

text \<open>\<open>'i\<close> is \<open>timer_t\<close>, \<open>'x\<close> the system; \<open>pt_zero\<close> is the value whose bytes are all
  zero; the two codes are those of \<open>ohos_types.h\<close>.\<close>

record timespec =
  tv_sec :: int
  tv_nsec :: int

record itimerspec =
  it_interval :: timespec
  it_value :: timespec

record ('i, 'x) posix =
  pt_OHOS_SUCCESS :: int32_t
  pt_OHOS_FAILURE :: int32_t
  pt_zero :: 'i
  pt_create :: "nat \<Rightarrow> 'x \<Rightarrow> (int32_t \<times> 'i) \<times> 'x"
  pt_delete :: "'i \<Rightarrow> 'x \<Rightarrow> int32_t \<times> 'x"
  pt_settime :: "'i \<Rightarrow> itimerspec \<Rightarrow> 'x \<Rightarrow> int32_t \<times> 'x"

record 'i TimerObject =
  to_timeout :: uint32_t
  to_timerId :: 'i
  to_tid :: uint32_t

record ('i, 'x) Timers =
  ti_list :: "'i TimerObject list"
  ti_system :: 'x

definition TIMERLIST_LEN :: nat where
  "TIMERLIST_LEN = 16"

definition zero_timer :: "('i, 'x) posix \<Rightarrow> 'i TimerObject" where
  "zero_timer P = \<lparr>to_timeout = 0, to_timerId = pt_zero P, to_tid = 0\<rparr>"

section \<open>Operations\<close>

text \<open>The pointer to the entry is its index.\<close>

definition GetTimerById :: "uint32_t \<Rightarrow> ('i, 'x) Timers \<Rightarrow> nat option" where
  "GetTimerById tid t =
     (if tid = 0 then None else List.find (\<lambda>i. to_tid (ti_list t ! i) = tid) [0..<length (ti_list t)])"

definition InitUpdateTimer :: "('i, 'x) posix \<Rightarrow> ('i, 'x) Timers \<Rightarrow> int32_t \<times> ('i, 'x) Timers" where
  "InitUpdateTimer P t = (pt_OHOS_SUCCESS P, t\<lparr>ti_list := replicate TIMERLIST_LEN (zero_timer P)\<rparr>)"

definition ExitUpdateTimer :: "('i, 'x) posix \<Rightarrow> ('i, 'x) Timers \<Rightarrow> ('i, 'x) Timers" where
  "ExitUpdateTimer P t =
     t\<lparr>ti_system := foldl (\<lambda>x e. if to_tid e = 0 then x else snd (pt_delete P (to_timerId e) x)) (ti_system t) (ti_list t),
       ti_list := replicate TIMERLIST_LEN (zero_timer P)\<rparr>"

text \<open>The callback object is a number the system keeps with the timer.\<close>

fun register_loop ::
  "('i, 'x) posix \<Rightarrow> nat \<Rightarrow> uint32_t \<Rightarrow> nat list \<Rightarrow> ('i, 'x) Timers \<Rightarrow> uint32_t \<times> ('i, 'x) Timers" where
  "register_loop P ob timeout [] t = (0, t)"
| "register_loop P ob timeout (tid # tids) t =
     (if to_tid (ti_list t ! tid) = 0 then
        (let ((ret, timerId), x) = pt_create P ob (ti_system t)
         in if ret = - 1 then (0, t\<lparr>ti_system := x\<rparr>)
            else (of_nat tid, t\<lparr>ti_system := x,
              ti_list := (ti_list t)[tid := \<lparr>to_timeout = timeout, to_timerId = timerId, to_tid = of_nat tid\<rparr>]\<rparr>))
      else register_loop P ob timeout tids t)"

definition RegisterCycleTimerCB ::
  "('i, 'x) posix \<Rightarrow> nat \<Rightarrow> uint32_t \<Rightarrow> ('i, 'x) Timers \<Rightarrow> uint32_t \<times> ('i, 'x) Timers" where
  "RegisterCycleTimerCB P ob timeout t = register_loop P ob timeout [1..<TIMERLIST_LEN] t"

definition DeregisterCycleTimerCB ::
  "('i, 'x) posix \<Rightarrow> uint32_t \<Rightarrow> ('i, 'x) Timers \<Rightarrow> int32_t \<times> ('i, 'x) Timers" where
  "DeregisterCycleTimerCB P tid t =
     (if \<not> unat tid < TIMERLIST_LEN then (pt_OHOS_FAILURE P, t)
      else let e = ti_list t ! unat tid
           in if to_tid e \<noteq> tid then (pt_OHOS_FAILURE P, t)
              else let (ret, x) = pt_delete P (to_timerId e) (ti_system t);
                       t = t\<lparr>ti_system := x, ti_list := (ti_list t)[unat tid := e\<lparr>to_tid := 0\<rparr>]\<rparr>
                   in (if ret = - 1 then ret else pt_OHOS_SUCCESS P, t))"

definition timer_period :: "uint32_t \<Rightarrow> timespec" where
  "timer_period timeout =
     \<lparr>tv_sec = sint (timeout div 1000 :: int32_t), tv_nsec = sint (timeout mod 1000 * 1000000 :: int32_t)\<rparr>"

definition StartTimer :: "('i, 'x) posix \<Rightarrow> uint32_t \<Rightarrow> ('i, 'x) Timers \<Rightarrow> int32_t \<times> ('i, 'x) Timers" where
  "StartTimer P tid t =
     (case GetTimerById tid t of
        None \<Rightarrow> (pt_OHOS_FAILURE P, t)
      | Some i \<Rightarrow>
          (let e = ti_list t ! i;
               it = \<lparr>it_interval = timer_period (to_timeout e), it_value = timer_period (to_timeout e)\<rparr>;
               (ret, x) = pt_settime P (to_timerId e) it (ti_system t)
           in (if ret \<noteq> 0 then ret else pt_OHOS_SUCCESS P, t\<lparr>ti_system := x\<rparr>)))"

definition StopTimer :: "('i, 'x) posix \<Rightarrow> uint32_t \<Rightarrow> ('i, 'x) Timers \<Rightarrow> ('i, 'x) Timers" where
  "StopTimer P tid t =
     (case GetTimerById tid t of
        None \<Rightarrow> t
      | Some i \<Rightarrow>
          t\<lparr>ti_system := snd (pt_settime P (to_timerId (ti_list t ! i))
              \<lparr>it_interval = \<lparr>tv_sec = 0, tv_nsec = 0\<rparr>, it_value = \<lparr>tv_sec = 0, tv_nsec = 0\<rparr>\<rparr> (ti_system t))\<rparr>)"

section \<open>The laws\<close>

text \<open>
  \<open>alive\<close> are the timers of the process. A new timer is none of them; deleting one of them succeeds;
  setting one keeps them. Nothing is said of the deletion of a timer that does not exist.
\<close>

locale posix_timers =
  fixes P :: "('i, 'x) posix" and alive :: "'x \<Rightarrow> 'i set"
  assumes create_new: "pt_create P ob x = ((ret, i), x') \<Longrightarrow> ret \<noteq> - 1 \<Longrightarrow> i \<notin> alive x \<and> alive x' = insert i (alive x)"
    and create_fails: "pt_create P ob x = ((- 1, i), x') \<Longrightarrow> alive x' = alive x"
    and delete_own: "i \<in> alive x \<Longrightarrow> pt_delete P i x = (ret, x') \<Longrightarrow> ret = 0 \<and> alive x' = alive x - {i}"
    and set_keeps: "i \<in> alive x \<Longrightarrow> pt_settime P i it x = (ret, x') \<Longrightarrow> alive x' = alive x"

text \<open>The entries in use, and what the table owns: every timer the process has beside \<open>L\<close>.\<close>

definition used :: "'i TimerObject list \<Rightarrow> nat set" where
  "used es = {i. i < length es \<and> to_tid (es ! i) \<noteq> 0}"

definition timers_of :: "'i TimerObject list \<Rightarrow> 'i set" where
  "timers_of es = (\<lambda>i. to_timerId (es ! i)) ` used es"

definition table_ok :: "'i set \<Rightarrow> ('x \<Rightarrow> 'i set) \<Rightarrow> ('i, 'x) Timers \<Rightarrow> bool" where
  "table_ok L alive t \<longleftrightarrow> length (ti_list t) = TIMERLIST_LEN \<and> 0 \<notin> used (ti_list t) \<and>
     (\<forall>i \<in> used (ti_list t). to_tid (ti_list t ! i) = of_nat i) \<and>
     inj_on (\<lambda>i. to_timerId (ti_list t ! i)) (used (ti_list t)) \<and>
     alive (ti_system t) = L \<union> timers_of (ti_list t) \<and> L \<inter> timers_of (ti_list t) = {}"

text \<open>The calls of a user of the table; 0 is not the number of a timer.\<close>

datatype timer_call =
    Call_Register nat uint32_t | Call_Deregister uint32_t | Call_Start uint32_t | Call_Stop uint32_t | Call_Exit

fun timer_step :: "('i, 'x) posix \<Rightarrow> timer_call \<Rightarrow> ('i, 'x) Timers \<Rightarrow> ('i, 'x) Timers" where
  "timer_step P (Call_Register ob timeout) t = snd (RegisterCycleTimerCB P ob timeout t)"
| "timer_step P (Call_Deregister tid) t = snd (DeregisterCycleTimerCB P tid t)"
| "timer_step P (Call_Start tid) t = snd (StartTimer P tid t)"
| "timer_step P (Call_Stop tid) t = StopTimer P tid t"
| "timer_step P Call_Exit t = ExitUpdateTimer P t"

section \<open>The table owns its timers\<close>

lemma used_update:
  assumes "i < length es"
  shows "used (es[i := e]) = (if to_tid e = 0 then used es - {i} else insert i (used es))"
  using assms by (auto simp: used_def nth_list_update)

lemma used_zero [simp]: "used (replicate n (zero_timer P)) = {}"
  by (auto simp: used_def zero_timer_def)

lemma GetTimerById_used:
  assumes "GetTimerById tid t = Some i"
  shows "i \<in> used (ti_list t)"
  using assms by (auto simp: GetTimerById_def used_def find_Some_iff split: if_splits)

lemma timer_free:
  assumes "table_ok L alive t" and "i < TIMERLIST_LEN" and "0 < i" and "to_tid (ti_list t ! i) = 0"
    and "tid = of_nat i" and "k \<notin> alive (ti_system t)" and "alive x = insert k (alive (ti_system t))"
  shows "table_ok L alive (t\<lparr>ti_system := x, ti_list := (ti_list t)[i := \<lparr>to_timeout = timeout, to_timerId = k, to_tid = tid\<rparr>]\<rparr>)"
proof -
  let ?es = "ti_list t"
  have "unat tid = i" using assms(2,5) by (simp add: TIMERLIST_LEN_def unsigned_of_nat take_bit_nat_eq_self_iff)
  then have tid: "tid \<noteq> 0" using assms(3) by auto
  have len: "i < length ?es" "i \<notin> used ?es" using assms(1,2,4) by (simp_all add: table_ok_def used_def)
  note tbl = assms(1) [unfolded table_ok_def]
  have ids: "timers_of (?es[i := \<lparr>to_timeout = timeout, to_timerId = k, to_tid = tid\<rparr>]) = insert k (timers_of ?es)"
    using len tid by (force simp: timers_of_def used_update nth_list_update)
  have "k \<notin> timers_of ?es" "k \<notin> L" using tbl assms(6) by auto
  then have "inj_on (\<lambda>j. to_timerId (?es[i := \<lparr>to_timeout = timeout, to_timerId = k, to_tid = tid\<rparr>] ! j)) (insert i (used ?es))"
    using tbl len by (auto simp: inj_on_def nth_list_update timers_of_def)
  then show ?thesis
    using tbl len tid assms(3,5,7) ids \<open>k \<notin> L\<close> by (auto simp: table_ok_def used_update nth_list_update)
qed

lemma timer_gone:
  assumes "table_ok L alive t" and "i \<in> used (ti_list t)"
    and "alive x = alive (ti_system t) - {to_timerId (ti_list t ! i)}"
  shows "table_ok L alive (t\<lparr>ti_system := x, ti_list := (ti_list t)[i := (ti_list t ! i)\<lparr>to_tid := 0\<rparr>]\<rparr>)"
proof -
  let ?es = "ti_list t" and ?k = "to_timerId (ti_list t ! i)"
  note tbl = assms(1) [unfolded table_ok_def]
  have len: "i < length ?es" using assms(2) by (simp add: used_def)
  have ids: "timers_of (?es[i := (?es ! i)\<lparr>to_tid := 0\<rparr>]) = timers_of ?es - {?k}"
    using tbl len assms(2) by (auto simp: timers_of_def used_update nth_list_update inj_on_def)
  have "inj_on (\<lambda>j. to_timerId (?es[i := (?es ! i)\<lparr>to_tid := 0\<rparr>] ! j)) (used ?es - {i})"
    using tbl by (auto simp: inj_on_def nth_list_update)
  moreover have "?k \<notin> L" using tbl assms(2) by (auto simp: timers_of_def)
  ultimately show ?thesis using tbl len assms(3) ids by (auto simp: table_ok_def used_update nth_list_update)
qed

context posix_timers
begin

lemma register_keeps:
  assumes "table_ok L alive t" and "set tids \<subseteq> {1..<TIMERLIST_LEN}"
  shows "table_ok L alive (snd (register_loop P ob timeout tids t))"
  using assms(2)
proof (induction tids)
  case Nil
  then show ?case using assms(1) by simp
next
  case (Cons tid tids)
  obtain ret i x where c: "pt_create P ob (ti_system t) = ((ret, i), x)" by (metis surj_pair)
  show ?case
  proof (cases "ret = - 1")
    case True
    then have "alive x = alive (ti_system t)" using create_fails c by blast
    then show ?thesis using Cons assms(1) c True by (simp add: table_ok_def)
  next
    case False
    with create_new [OF c] timer_free [OF assms(1), of tid "of_nat tid" i x timeout] Cons c show ?thesis by simp
  qed
qed

lemma set_frame:
  assumes "table_ok L alive t" and "i \<in> used (ti_list t)"
  shows "table_ok L alive (t\<lparr>ti_system := snd (pt_settime P (to_timerId (ti_list t ! i)) it (ti_system t))\<rparr>)"
proof -
  have "to_timerId (ti_list t ! i) \<in> alive (ti_system t)" using assms by (auto simp: table_ok_def timers_of_def)
  then have "alive (snd (pt_settime P (to_timerId (ti_list t ! i)) it (ti_system t))) = alive (ti_system t)"
    using set_keeps by (metis surj_pair snd_conv)
  then show ?thesis using assms(1) by (simp add: table_ok_def)
qed

lemma deregister_keeps:
  assumes "table_ok L alive t" and "tid \<noteq> 0"
  shows "table_ok L alive (snd (DeregisterCycleTimerCB P tid t))"
proof (cases "unat tid < TIMERLIST_LEN \<and> to_tid (ti_list t ! unat tid) = tid")
  case True
  then have i: "unat tid \<in> used (ti_list t)" using assms by (auto simp: used_def table_ok_def)
  then have "to_timerId (ti_list t ! unat tid) \<in> alive (ti_system t)" using assms(1) by (auto simp: table_ok_def timers_of_def)
  moreover obtain ret x where d: "pt_delete P (to_timerId (ti_list t ! unat tid)) (ti_system t) = (ret, x)" by fastforce
  ultimately have "alive x = alive (ti_system t) - {to_timerId (ti_list t ! unat tid)}" using delete_own by blast
  with timer_gone [OF assms(1) i] True d show ?thesis by (simp add: DeregisterCycleTimerCB_def Let_def)
qed (use assms(1) in \<open>auto simp: DeregisterCycleTimerCB_def Let_def\<close>)

lemma exit_deletes:
  assumes "inj_on (\<lambda>i. to_timerId (es ! i)) (used es)" and "timers_of es \<subseteq> alive x"
  shows "alive (foldl (\<lambda>x e. if to_tid e = 0 then x else snd (pt_delete P (to_timerId e) x)) x es) = alive x - timers_of es"
  using assms
proof (induction es rule: rev_induct)
  case (snoc e es)
  let ?f = "\<lambda>x e. if to_tid e = 0 then x else snd (pt_delete P (to_timerId e) x)"
  have used: "used (es @ [e]) = (if to_tid e = 0 then used es else insert (length es) (used es))"
    by (auto simp: used_def nth_append less_Suc_eq)
  have sub: "inj_on (\<lambda>i. to_timerId ((es @ [e]) ! i)) (used es)"
    by (rule inj_on_subset [OF snoc.prems(1)]) (simp add: used subset_insertI)
  have same: "i \<in> used es \<Longrightarrow> (es @ [e]) ! i = es ! i" for i by (simp add: used_def nth_append)
  have inj: "inj_on (\<lambda>i. to_timerId (es ! i)) (used es)" using sub same by (auto simp: inj_on_def)
  have ids: "timers_of (es @ [e]) = (if to_tid e = 0 then timers_of es else insert (to_timerId e) (timers_of es))"
    using same by (auto simp: timers_of_def used)
  have rest: "alive (foldl ?f x es) = alive x - timers_of es" using snoc.IH inj snoc.prems(2) ids by (auto split: if_splits)
  show ?case
  proof (cases "to_tid e = 0")
    case True
    then show ?thesis using rest ids by simp
  next
    case False
    have "length es \<notin> used es" by (simp add: used_def)
    moreover have "length es = i" if "i \<in> used es" "to_timerId e = to_timerId (es ! i)" for i
      by (rule inj_onD [OF snoc.prems(1)]) (use that same [OF that(1)] False in \<open>simp_all add: used\<close>)
    ultimately have "to_timerId e \<notin> timers_of es" by (auto simp: timers_of_def)
    then have "to_timerId e \<in> alive (foldl ?f x es)" using rest ids snoc.prems(2) False by simp
    then have "alive (snd (pt_delete P (to_timerId e) (foldl ?f x es))) = alive (foldl ?f x es) - {to_timerId e}"
      using delete_own [OF _ surjective_pairing] by blast
    then show ?thesis using rest ids False by auto
  qed
qed (simp add: timers_of_def used_def)

lemma exit_keeps:
  assumes "table_ok L alive t"
  shows "table_ok L alive (ExitUpdateTimer P t)" and "alive (ti_system (ExitUpdateTimer P t)) = L"
proof -
  note tbl = assms [unfolded table_ok_def]
  have "alive (ti_system (ExitUpdateTimer P t)) = alive (ti_system t) - timers_of (ti_list t)"
    using exit_deletes [of "ti_list t" "ti_system t"] tbl by (simp add: ExitUpdateTimer_def)
  then show "alive (ti_system (ExitUpdateTimer P t)) = L" using tbl by auto
  then show "table_ok L alive (ExitUpdateTimer P t)" by (simp add: table_ok_def ExitUpdateTimer_def timers_of_def)
qed

lemma step_keeps: "table_ok L alive t \<Longrightarrow> c \<noteq> Call_Deregister 0 \<Longrightarrow> table_ok L alive (timer_step P c t)"
proof (cases c)
  case (Call_Register ob timeout)
  moreover assume "table_ok L alive t"
  ultimately show ?thesis by (simp add: RegisterCycleTimerCB_def register_keeps del: upt.simps)
qed (auto simp: deregister_keeps exit_keeps StartTimer_def StopTimer_def Let_def split_beta set_frame GetTimerById_used split: option.split)

lemma steps_keep:
  "table_ok L alive t \<Longrightarrow> Call_Deregister 0 \<notin> set cs \<Longrightarrow> table_ok L alive (foldl (\<lambda>t c. timer_step P c t) t cs)"
  by (induction cs arbitrary: t) (auto simp: step_keeps)

end

lemma number_of_entry: "i < TIMERLIST_LEN \<Longrightarrow> unat (of_nat i :: uint32_t) = i"
  by (simp add: TIMERLIST_LEN_def unsigned_of_nat take_bit_nat_eq_self_iff)

lemma get_own:
  assumes "table_ok L alive t" and "i \<in> used (ti_list t)"
  shows "GetTimerById (of_nat i) t = Some i"
proof -
  have i: "i < TIMERLIST_LEN" "0 < i" using assms by (auto simp: table_ok_def used_def intro: gr0I)
  have only: "j = i" if "j < TIMERLIST_LEN" "to_tid (ti_list t ! j) = of_nat i" for j
  proof -
    have "(of_nat i :: uint32_t) \<noteq> 0" using number_of_entry [OF i(1)] i(2) by auto
    then have "j \<in> used (ti_list t)" using that assms(1) by (auto simp: used_def table_ok_def)
    then have "(of_nat j :: uint32_t) = of_nat i" using that assms(1) by (auto simp: table_ok_def)
    then show ?thesis using number_of_entry [OF i(1)] number_of_entry [OF that(1)] by metis
  qed
  have "to_tid (ti_list t ! i) = of_nat i" using assms by (simp add: table_ok_def)
  moreover have "to_tid (ti_list t ! j) \<noteq> of_nat i" if "j < i" for j using only [of j] that i(1) by fastforce
  ultimately have "List.find (\<lambda>j. to_tid (ti_list t ! j) = of_nat i) [0..<TIMERLIST_LEN] = Some i"
    unfolding find_Some_iff using i(1) by (intro exI [of _ i]) simp
  moreover have "(of_nat i :: uint32_t) \<noteq> 0" using number_of_entry [OF i(1)] i(2) by auto
  ultimately show ?thesis using assms(1) by (simp add: GetTimerById_def table_ok_def)
qed

lemma register_result:
  assumes "register_loop P ob timeout tids t = (tid, t')"
  shows "(if \<exists>i \<in> set tids. to_tid (ti_list t ! i) = 0 then
      if fst (fst (pt_create P ob (ti_system t))) = - 1 then tid = 0 \<and> ti_list t' = ti_list t
      else \<exists>i \<in> set tids. tid = of_nat i \<and> to_tid (ti_list t ! i) = 0 \<and>
        ti_list t' = (ti_list t)[i := \<lparr>to_timeout = timeout, to_timerId = snd (fst (pt_create P ob (ti_system t))), to_tid = of_nat i\<rparr>]
    else tid = 0 \<and> t' = t)"
  using assms by (induction tids) (auto simp: split_beta Let_def split: if_splits)

section \<open>Timers in memory\<close>

text \<open>The number of the last timer and the timers there are.\<close>

definition memory_timers :: "(nat, nat \<times> nat set) posix" where
  "memory_timers = \<lparr>pt_OHOS_SUCCESS = 0, pt_OHOS_FAILURE = - 1, pt_zero = 0,
     pt_create = (\<lambda>ob (n, ts). ((0, Suc n), Suc n, insert (Suc n) ts)),
     pt_delete = (\<lambda>i (n, ts). (if i \<in> ts then 0 else - 1, n, ts - {i})),
     pt_settime = (\<lambda>i it (n, ts). (0, n, ts))\<rparr>"

definition memory_alive :: "nat \<times> nat set \<Rightarrow> nat set" where
  "memory_alive x = {i \<in> snd x. i \<le> fst x}"

interpretation mt: posix_timers memory_timers memory_alive
  by unfold_locales (auto simp: memory_timers_def memory_alive_def split: if_splits)

section \<open>Properties\<close>


text \<open>A process with a timer of its own registers two timers and removes the first.\<close>

definition sample_timers :: "(nat, nat \<times> nat set) Timers" where
  "sample_timers = \<lparr>ti_list = replicate TIMERLIST_LEN (zero_timer memory_timers), ti_system = (1, {1})\<rparr>"

definition sample_calls :: "timer_call list" where
  "sample_calls = [Call_Register 7 500, Call_Register 8 1500, Call_Start 2, Call_Deregister 1]"


text \<open>
  The period of a timer is its time to the millisecond, in the form \<open>timer_settime\<close> accepts; a time
  of 0 disarms the timer, which never fires although \<open>StartTimer\<close> reports success.
\<close>

lemma sint_small: "uint w < 2 ^ 31 \<Longrightarrow> sint (w :: int32_t) = uint w"
  using signed_take_bit_int_eq_self [of 31 "uint w"] uint_ge_0 [of w] by (simp add: sint_uint del: uint_ge_0)

lemma timer_period_exact:
  "tv_sec (timer_period timeout) * 1000 + tv_nsec (timer_period timeout) div 1000000 = uint timeout \<and>
   0 \<le> tv_nsec (timer_period timeout) \<and> tv_nsec (timer_period timeout) < 1000000000"
proof -
  have b: "uint timeout < 2 ^ 32" "0 \<le> uint timeout" using uint_bounded [of timeout] by simp_all
  have s: "uint (timeout div 1000) = uint timeout div 1000" by (simp add: uint_div)
  have m: "uint (timeout mod 1000) = uint timeout mod 1000" by (simp add: uint_mod)
  have "0 \<le> uint timeout mod 1000" "uint timeout mod 1000 < 1000" by simp_all
  then have n: "uint (timeout mod 1000 * 1000000) = (uint timeout mod 1000) * 1000000" by (simp add: uint_word_ariths m)
  have "sint (timeout div 1000) = uint timeout div 1000" using b s by (subst sint_small) simp_all
  moreover have "sint (timeout mod 1000 * 1000000) = (uint timeout mod 1000) * 1000000" using n by (subst sint_small) simp_all
  ultimately show ?thesis by (simp add: timer_period_def)
qed

end
