(* ===== verification/Net_Observer.thy ===== *)
theory Net_Observer
  imports Firmware_Manager
begin

text \<open>
  The observer of the system's network service (\<open>services/utils/src/dupdate_net_observer.cpp\<close>) and
  the way of its reports through \<open>NetManager\<close> to the firmware manager.
\<close>

section \<open>Reports\<close>

text \<open>What the network service says of a network; further capabilities and bearers are not looked at.\<close>

datatype NetCap = NET_CAPABILITY_INTERNET | NetCap_other nat

datatype NetBearType = BEARER_CELLULAR | BEARER_WIFI | BEARER_ETHERNET | BEARER_WIFI_AWARE | BEARER_other nat

record NetAllCapabilities =
  netCaps :: "NetCap list"
  bearerTypes :: "NetBearType list"

text \<open>\<open>live\<close> says whether the manager behind the weak pointer still exists.\<close>

definition Observer_OnNetChange :: "'x Platform \<Rightarrow> bool \<Rightarrow> NetType \<Rightarrow> 'x World \<Rightarrow> 'x World" where
  "Observer_OnNetChange E live netType w = (if \<not> live then w else NetChanged E netType w)"

definition NetCapabilitiesChange :: "'x Platform \<Rightarrow> bool \<Rightarrow> NetAllCapabilities option \<Rightarrow> 'x World \<Rightarrow> int32_t \<times> 'x World" where
  "NetCapabilitiesChange E live netAllCap w =
     (case netAllCap of
        None \<Rightarrow> (0, w)
      | Some cap \<Rightarrow>
          if NET_CAPABILITY_INTERNET \<notin> set (netCaps cap) then (0, Observer_OnNetChange E live NetType.NO_NET w)
          else if BEARER_ETHERNET \<in> set (bearerTypes cap) \<or> BEARER_WIFI \<in> set (bearerTypes cap)
          then (0, Observer_OnNetChange E live NetType.NOT_METERED_WIFI w)
          else if BEARER_WIFI_AWARE \<in> set (bearerTypes cap) then (0, Observer_OnNetChange E live NetType.METERED_WIFI w)
          else if BEARER_CELLULAR \<in> set (bearerTypes cap) then (0, Observer_OnNetChange E live NetType.CELLULAR w)
          else (0, w))"

definition NetLost :: "'x Platform \<Rightarrow> bool \<Rightarrow> 'x World \<Rightarrow> int32_t \<times> 'x World" where
  "NetLost E live w = (0, Observer_OnNetChange E live NetType.NO_NET w)"

section \<open>Registration\<close>

definition RETRY_MAX_TIMES :: nat where
  "RETRY_MAX_TIMES = 10"

text \<open>
  The thread of \<open>StartObserver\<close>: \<open>register i\<close> says whether the network service answers the attempt
  \<open>i\<close> with \<open>NET_CONN_SUCCESS\<close>. The result says whether the observer is registered, and how many attempts there were; after
  each but a successful one it sleeps for a second.
\<close>

function observer_loop :: "(nat \<Rightarrow> bool) \<Rightarrow> nat \<Rightarrow> bool \<times> nat" where
  "observer_loop register retryCount =
     (if register retryCount then (True, Suc retryCount)
      else if Suc retryCount < RETRY_MAX_TIMES then observer_loop register (Suc retryCount)
      else (False, Suc retryCount))"
  by pat_completeness auto

termination
  by (relation "measure (\<lambda>(_, retryCount). RETRY_MAX_TIMES - retryCount)") auto

declare observer_loop.simps [simp del]

definition StartObserver :: "(nat \<Rightarrow> bool) \<Rightarrow> bool \<times> nat" where
  "StartObserver register = observer_loop register 0"

text \<open>\<open>NetManager::Init\<close>; an observer that could not be made is never registered.\<close>

definition NetManager_Init :: "bool \<Rightarrow> (nat \<Rightarrow> bool) \<Rightarrow> bool \<times> nat" where
  "NetManager_Init observer register = (if \<not> observer then (False, 0) else StartObserver register)"

lemma observer_loop_result:
  assumes "n < RETRY_MAX_TIMES"
  shows "observer_loop register n =
    (if \<exists>i. n \<le> i \<and> i < RETRY_MAX_TIMES \<and> register i
     then (True, Suc (LEAST i. n \<le> i \<and> register i)) else (False, RETRY_MAX_TIMES))"
  using assms
proof (induction register n rule: observer_loop.induct)
  case (1 register n)
  show ?case
  proof (cases "register n")
    case True
    then have "(LEAST i. n \<le> i \<and> register i) = n" by (intro Least_equality) auto
    then show ?thesis using True 1(2) by (subst observer_loop.simps) auto
  next
    case False
    then have later: "n \<le> i \<and> register i \<longleftrightarrow> Suc n \<le> i \<and> register i" for i
      using le_eq_less_or_eq [of n i] by auto
    show ?thesis
    proof (cases "Suc n < RETRY_MAX_TIMES")
      case True
      have "(\<exists>i. n \<le> i \<and> i < RETRY_MAX_TIMES \<and> register i) \<longleftrightarrow>
          (\<exists>i. Suc n \<le> i \<and> i < RETRY_MAX_TIMES \<and> register i)" using later by blast
      moreover have "(LEAST i. n \<le> i \<and> register i) = (LEAST i. Suc n \<le> i \<and> register i)"
        by (simp only: later)
      moreover have "observer_loop register n = observer_loop register (Suc n)"
        by (subst observer_loop.simps) (simp add: False True)
      ultimately show ?thesis using 1(1) [OF False True True] by (simp only:)
    next
      case short: False
      then have "i = n" if "n \<le> i" "i < RETRY_MAX_TIMES" for i using that by simp
      then have "\<not> (\<exists>i. n \<le> i \<and> i < RETRY_MAX_TIMES \<and> register i)" using False by blast
      then show ?thesis using False short 1(2) by (subst observer_loop.simps) simp
    qed
  qed
qed

section \<open>What a report says\<close>

text \<open>The reports of the network service, the class of network a report tells, and the reports in a row.\<close>

datatype net_report = Capabilities "NetAllCapabilities option" | Lost

definition told_class :: "net_report \<Rightarrow> NetType option" where
  "told_class r =
     (case r of
        Lost \<Rightarrow> Some NetType.NO_NET
      | Capabilities None \<Rightarrow> None
      | Capabilities (Some cap) \<Rightarrow>
          if NET_CAPABILITY_INTERNET \<notin> set (netCaps cap) then Some NetType.NO_NET
          else map_option snd (List.find (\<lambda>(b, _). b \<in> set (bearerTypes cap))
            [(BEARER_ETHERNET, NetType.NOT_METERED_WIFI), (BEARER_WIFI, NetType.NOT_METERED_WIFI),
             (BEARER_WIFI_AWARE, NetType.METERED_WIFI), (BEARER_CELLULAR, NetType.CELLULAR)]))"

definition net_reported :: "'x Platform \<Rightarrow> 'x World \<Rightarrow> net_report \<Rightarrow> 'x World" where
  "net_reported E w r =
     (case r of Lost \<Rightarrow> snd (NetLost E True w) | Capabilities c \<Rightarrow> snd (NetCapabilitiesChange E True c w))"

definition last_told :: "NetType \<Rightarrow> net_report list \<Rightarrow> NetType" where
  "last_told t rs = last (t # List.map_filter told_class rs)"

lemma reported_class: "net_reported E w r = (case told_class r of None \<Rightarrow> w | Some t \<Rightarrow> NetChanged E t w)"
  by (auto simp: net_reported_def told_class_def NetLost_def NetCapabilitiesChange_def Observer_OnNetChange_def
      split: net_report.split option.split)

lemma told_base: "told_class r = Some t \<Longrightarrow> t \<in> {NetType.CELLULAR, NetType.METERED_WIFI, NetType.NOT_METERED_WIFI, NetType.NO_NET}"
  by (auto simp: told_class_def split: net_report.splits option.splits if_splits)

text \<open>The listener of the firmware manager is registered.\<close>

definition listening :: "'x World \<Rightarrow> bool" where
  "listening w \<longleftrightarrow> (HOTA_DOWNLOAD_callback, [NetType.CELLULAR, NetType.METERED_WIFI, NetType.NOT_METERED_WIFI, NetType.NO_NET])
     \<in> set (nm_callbacks (w_net w))"

lemma listening_register: "listening (RegisterNetChangedListener w)"
  by (simp add: listening_def RegisterNetChangedListener_def NetManager_RegisterCallback_def IsBaseNetType_def set_insort_key)

lemma changed_effect:
  assumes "listening w" and "t \<in> {NetType.CELLULAR, NetType.METERED_WIFI, NetType.NOT_METERED_WIFI, NetType.NO_NET}"
  shows "NetChanged E t w =
    (if t = nm_netType (w_net w) then w
     else w\<lparr>w_net := (w_net w)\<lparr>nm_netType := t\<rparr>, w_isNoNet := (t = NetType.NO_NET)\<rparr>)"
proof -
  have called: "HOTA_DOWNLOAD_callback \<in> set (map fst (filter (\<lambda>c. t \<in> set (snd c)) (nm_callbacks (w_net w))))"
    using assms unfolding listening_def by force
  have "IsBaseNetType t" "IsNetAvailable NetType.CELLULAR_AND_WIFI ((w_net w)\<lparr>nm_netType := t\<rparr>) \<longleftrightarrow> t \<noteq> NetType.NO_NET"
    using assms(2) by (auto simp: IsBaseNetType_def IsNetAvailable_def)
  then show ?thesis using called by (simp add: NetChanged_def OnNetChange_def HandleEvent_def HandleNetChanged_def Let_def)
qed

lemma changed_listening: "listening w \<Longrightarrow> listening (w\<lparr>w_net := (w_net w)\<lparr>nm_netType := t\<rparr>, w_isNoNet := b\<rparr>)"
  by (simp add: listening_def)

text \<open>Nothing but the network type and the flag differs.\<close>

definition only_net :: "'x World \<Rightarrow> 'x World \<Rightarrow> bool" where
  "only_net w w' \<longleftrightarrow> w' = w\<lparr>w_net := w_net w', w_isNoNet := w_isNoNet w'\<rparr> \<and> nm_callbacks (w_net w') = nm_callbacks (w_net w)"

lemma only_net_refl: "only_net w w"
  by (simp add: only_net_def)

lemma only_net_trans: "only_net u v \<Longrightarrow> only_net v w \<Longrightarrow> only_net u w"
  by (cases u; cases v; cases w) (simp add: only_net_def)

lemma reports_tracked:
  assumes "listening w"
  shows "listening (foldl (net_reported E) w rs) \<and> nm_netType (w_net (foldl (net_reported E) w rs)) = last_told (nm_netType (w_net w)) rs \<and>
    only_net w (foldl (net_reported E) w rs) \<and>
    (w_isNoNet w = (nm_netType (w_net w) = NetType.NO_NET) \<longrightarrow>
       w_isNoNet (foldl (net_reported E) w rs) = (last_told (nm_netType (w_net w)) rs = NetType.NO_NET))"
  using assms
proof (induction rs arbitrary: w)
  case Nil
  then show ?case by (simp add: last_told_def map_filter_simps only_net_refl)
next
  case (Cons r rs)
  show ?case
  proof (cases "told_class r")
    case None
    then have "net_reported E w r = w" "last_told (nm_netType (w_net w)) (r # rs) = last_told (nm_netType (w_net w)) rs"
      by (simp_all add: reported_class last_told_def map_filter_simps)
    then show ?thesis using Cons by simp
  next
    case (Some t)
    let ?w = "net_reported E w r"
    have w: "?w = (if t = nm_netType (w_net w) then w
        else w\<lparr>w_net := (w_net w)\<lparr>nm_netType := t\<rparr>, w_isNoNet := (t = NetType.NO_NET)\<rparr>)"
      using changed_effect [OF Cons.prems told_base [OF Some]] Some by (simp add: reported_class)
    then have l: "listening ?w" "nm_netType (w_net ?w) = t" using Cons.prems changed_listening by auto
    moreover have "last_told (nm_netType (w_net w)) (r # rs) = last_told t rs" by (simp add: last_told_def map_filter_simps Some)
    moreover have "w_isNoNet w = (nm_netType (w_net w) = NetType.NO_NET) \<longrightarrow> w_isNoNet ?w = (t = NetType.NO_NET)" using w by auto
    moreover have "only_net w ?w" using w by (simp add: only_net_def)
    ultimately show ?thesis using Cons.IH [OF l(1)] only_net_trans [of w ?w] by simp
  qed
qed

section \<open>Properties\<close>


text \<open>A wifi network is reported; an empty report changes nothing, then the network is lost.\<close>

definition wifi_report :: net_report where
  "wifi_report = Capabilities (Some \<lparr>netCaps = [NET_CAPABILITY_INTERNET], bearerTypes = [BEARER_CELLULAR, BEARER_WIFI]\<rparr>)"


end
