(* ===== verification/Update_Dump.thy ===== *)
theory Update_Dump
  imports Update_Service Napi_Util
begin

text \<open>
  What the service prints for diagnosis (\<open>Dump\<close> of \<open>update_service.cpp\<close>), with the anonymisation of
  \<open>encrypt_utils.h\<close>: the printed text does not depend on the hidden part of a device id.
\<close>

section \<open>EncryptUtils\<close>

definition ENCRYPT_LENGTH :: nat where
  "ENCRYPT_LENGTH = 4"

definition ENCRYPT_TOTAL_LENGTH :: nat where
  "ENCRYPT_TOTAL_LENGTH = 8"

definition ENCRYPT_STR :: string where
  "ENCRYPT_STR = ''****''"

definition EncryptString :: "string \<Rightarrow> string" where
  "EncryptString inputStr =
     (if inputStr = [] then inputStr
      else if length inputStr \<ge> ENCRYPT_TOTAL_LENGTH then take ENCRYPT_LENGTH inputStr @ ENCRYPT_STR
      else if length inputStr > ENCRYPT_LENGTH then take (length inputStr - ENCRYPT_LENGTH) inputStr @ ENCRYPT_STR
      else ENCRYPT_STR)"

text \<open>\<open>std::string::replace\<close> of at most \<open>n\<close> bytes from \<open>i\<close>.\<close>

definition replace_at :: "nat \<Rightarrow> nat \<Rightarrow> string \<Rightarrow> string \<Rightarrow> string" where
  "replace_at i n new s = take i s @ new @ drop (i + n) s"

definition EncryptUrl :: "string \<Rightarrow> string" where
  "EncryptUrl url =
     (let httpsPrefix = ''https://''; httpPrefix = ''http://''
      in if take (length httpsPrefix) url = httpsPrefix then replace_at (length httpsPrefix) ENCRYPT_LENGTH ENCRYPT_STR url
         else if take (length httpPrefix) url = httpPrefix then replace_at (length httpPrefix) ENCRYPT_LENGTH ENCRYPT_STR url
         else url)"

text \<open>
  \<open>r\<close> is what \<open>rand\<close> returns, which is not negative. \<open>None\<close> is the division by zero of an empty
  range or the overflow of its length.
\<close>

definition EncryptUtils_GetRand :: "int32_t \<Rightarrow> int32_t \<Rightarrow> int32_t \<Rightarrow> int64_t option" where
  "EncryptUtils_GetRand r lo hi =
     (if sint hi < sint lo then Some (scast lo)
      else if hi = lo \<or> sint hi - sint lo \<ge> 2 ^ 31 then None
      else Some (word_of_int (sint lo + sint r mod (sint hi - sint lo))))"

definition UpgradeInfo_ToString :: "UpgradeInfo \<Rightarrow> string" where
  "UpgradeInfo_ToString info =
     ''upgradeApp:'' @ upgradeApp info @ '',businessType(vender:'' @ vendor (businessType info) @
     '',subType:'' @ to_string (BusinessSubType_code (subType (businessType info))) @
     ''),upgradeDevId:'' @ EncryptString (upgradeDevId info) @ '',controlDevId:'' @ EncryptString (controlDevId info)"

section \<open>Dump\<close>

text \<open>The text written to the file. \<open>%s\<close> prints the bytes before the first null byte.\<close>

abbreviation newline :: string where
  "newline \<equiv> [CHR 0x0A]"

definition BuildUpgradeInfoDump :: "UpgradeInfo \<Rightarrow> string" where
  "BuildUpgradeInfoDump info =
     ''---------------------upgrade info info--------------------'' @ newline @
     ''UpgradeApp: '' @ c_str (upgradeApp info) @ newline @
     ''vendor: '' @ c_str (vendor (businessType info)) @ newline @
     ''subType: '' @ to_string (BusinessSubType_code (subType (businessType info))) @ newline"

definition BuildVersionInfoDump :: "CheckResult \<Rightarrow> string" where
  "BuildVersionInfoDump checkResult =
     ''---------------------version info--------------------'' @ newline @
     ''isExistNewVersion: '' @ to_string (if cr_isExistNewVersion checkResult then 1 else 0) @ newline @
     (case nv_versionComponents (cr_newVersionInfo checkResult) of
        [] \<Rightarrow> ''''
      | c # _ \<Rightarrow>
          ''PackageSize: '' @ to_string_int (uint (vc_size c)) @ newline @
          ''ComponentType: '' @ to_string (vc_componentType c) @ newline @
          ''UpgradeAction: '' @ c_str (vc_upgradeAction c) @ newline @
          ''DisplayVersion: '' @ c_str (vc_displayVersion c) @ newline @
          ''InnerVersion: '' @ c_str (vc_innerVersion c) @ newline @
          ''Content: '' @ c_str (di_content (vc_descriptionInfo c)) @ newline)"

text \<open>
  \<open>taskInfo\<close> is the local variable: its \<open>existTask\<close> is what the stack held. The call can make the
  online updater; \<open>None\<close> is a crash.
\<close>

definition task_text :: "TaskInfo \<Rightarrow> string" where
  "task_text taskInfo =
     (if \<not> ti_existTask taskInfo then ''TaskInfo is empty'' @ newline
      else ''---------------------OTA status info--------------------'' @ newline @
        ''Progress: '' @ to_string (tb_progress (ti_taskBody taskInfo)) @ newline @
        ''UpgradeStatus: '' @ to_string (UpgradeStatus_code (tb_status (ti_taskBody taskInfo))) @ newline @
        ''SubStatus: '' @ to_string (tb_subStatus (ti_taskBody taskInfo)) @ newline @
        concat (map (\<lambda>e. ''ErrorCode: '' @ to_string (em_errorCode e) @ newline @ ''ErrorMsg: '' @ c_str (em_errorMessage e) @ newline)
          (tb_errorMessages (ti_taskBody taskInfo))))"

definition BuildTaskInfoDump :: "'x Platform \<Rightarrow> TaskInfo \<Rightarrow> 'x Service \<Rightarrow> (string \<times> 'x Service) option" where
  "BuildTaskInfoDump E taskInfo sv =
     (if \<not> w_started (sv_world sv) then Some ('''', sv)
      else map_option (\<lambda>(_, (taskInfo, _), sv). (task_text taskInfo, sv))
        (UpdateService_GetTaskInfo E UpgradeInfo_default taskInfo BusinessError_default sv))"

definition DumpUpgradeCallback :: "'x Service \<Rightarrow> string" where
  "DumpUpgradeCallback sv =
     ''---------------------callback info--------------------'' @ newline @
     concat (map (\<lambda>(info, _). c_str (UpgradeInfo_ToString info) @ newline) (w_clients (sv_world sv)))"

text \<open>The result of the call, the text and the service.\<close>

definition Dump :: "'x Platform \<Rightarrow> TaskInfo \<Rightarrow> int32_t \<Rightarrow> string list \<Rightarrow> 'x Service \<Rightarrow> (int32_t \<times> string \<times> 'x Service) option" where
  "Dump E taskInfo fd args sv =
     (if sint fd < 0 then Some (- 1, '''', sv)
      else if args \<noteq> [] then Some (0, ''input error, no parameters required'' @ newline, sv)
      else map_option (\<lambda>(task, sv).
          (0, BuildUpgradeInfoDump (Cache_GetUpgradeInfo BusinessSubType.FIRMWARE (w_cache (sv_world sv))) @ task @ DumpUpgradeCallback sv, sv))
        (BuildTaskInfoDump E taskInfo sv))"

section \<open>What the text hides\<close>

text \<open>Ids that have the same four first bytes and are longer are not told apart.\<close>

definition same_shown :: "string \<Rightarrow> string \<Rightarrow> bool" where
  "same_shown a b \<longleftrightarrow> a = b \<or>
     ENCRYPT_TOTAL_LENGTH \<le> length a \<and> ENCRYPT_TOTAL_LENGTH \<le> length b \<and> take ENCRYPT_LENGTH a = take ENCRYPT_LENGTH b \<or>
     a \<noteq> [] \<and> b \<noteq> [] \<and> length a \<le> ENCRYPT_LENGTH \<and> length b \<le> ENCRYPT_LENGTH"

lemma EncryptString_same: "same_shown a b \<Longrightarrow> EncryptString a = EncryptString b"
  by (auto simp: same_shown_def EncryptString_def ENCRYPT_LENGTH_def ENCRYPT_TOTAL_LENGTH_def)

text \<open>At least four bytes of an id are hidden, and at most four shown.\<close>

lemma EncryptString_hides:
  "\<exists>k. EncryptString s = take k s @ (if s = [] then [] else ''****'') \<and> k \<le> 4 \<and> (k = 0 \<or> k + 4 \<le> length s)"
proof -
  note defs = EncryptString_def ENCRYPT_LENGTH_def ENCRYPT_TOTAL_LENGTH_def ENCRYPT_STR_def
  consider "8 \<le> length s" | "4 < length s" "length s < 8" | "length s \<le> 4" by linarith
  then show ?thesis
  proof cases
    case 1
    then show ?thesis by (intro exI [of _ 4]) (auto simp: defs)
  next
    case 2
    then show ?thesis by (intro exI [of _ "length s - 4"]) (auto simp: defs)
  next
    case 3
    then show ?thesis by (intro exI [of _ 0]) (auto simp: defs)
  qed
qed

definition same_client :: "UpgradeInfo \<times> Callback option \<Rightarrow> UpgradeInfo \<times> Callback option \<Rightarrow> bool" where
  "same_client c d \<longleftrightarrow> upgradeApp (fst c) = upgradeApp (fst d) \<and> businessType (fst c) = businessType (fst d) \<and>
     same_shown (upgradeDevId (fst c)) (upgradeDevId (fst d)) \<and> same_shown (controlDevId (fst c)) (controlDevId (fst d))"

definition with_clients :: "(UpgradeInfo \<times> Callback option) list \<Rightarrow> 'x Service \<Rightarrow> 'x Service" where
  "with_clients cs sv = sv\<lparr>sv_world := (sv_world sv)\<lparr>w_clients := cs\<rparr>\<rparr>"

lemma clients_text:
  "list_all2 same_client cs ds \<Longrightarrow> DumpUpgradeCallback (with_clients cs sv) = DumpUpgradeCallback (with_clients ds sv)"
proof -
  have "concat (map (\<lambda>(info, _). c_str (UpgradeInfo_ToString info) @ newline) cs) =
      concat (map (\<lambda>(info, _). c_str (UpgradeInfo_ToString info) @ newline) ds)" if "list_all2 same_client cs ds"
    using that
  proof (induction cs ds rule: list_all2_induct)
    case (Cons c cs d ds)
    then have "EncryptString (upgradeDevId (fst c)) = EncryptString (upgradeDevId (fst d))"
        "EncryptString (controlDevId (fst c)) = EncryptString (controlDevId (fst d))"
        "upgradeApp (fst c) = upgradeApp (fst d)" "businessType (fst c) = businessType (fst d)"
      by (auto simp: same_client_def intro: EncryptString_same)
    then have "UpgradeInfo_ToString (fst c) = UpgradeInfo_ToString (fst d)" by (simp only: UpgradeInfo_ToString_def)
    with Cons show ?case by (simp add: case_prod_beta)
  qed simp
  then show "list_all2 same_client cs ds \<Longrightarrow> ?thesis" by (simp add: DumpUpgradeCallback_def with_clients_def)
qed

lemma task_read:
  "UpdateService_GetTaskInfo E info ti be (with_clients cs sv) =
    map_option (\<lambda>(r, out, sv). (r, out, with_clients cs sv)) (UpdateService_GetTaskInfo E info ti be sv)"
proof -
  have "Impl_GetTaskInfo E ti be (w\<lparr>w_clients := cs\<rparr>) = Impl_GetTaskInfo E ti be w" for w
    by (simp add: Impl_GetTaskInfo_def QueryTask_def)
  then have "reading (Impl_GetTaskInfo E ti be) (with_clients cs v) =
      map_option (\<lambda>(r, out, v). (r, out, with_clients cs v)) (reading (Impl_GetTaskInfo E ti be) v)" for v
    by (simp add: reading_def with_clients_def split: prod.split)
  moreover have "GetOnlineUpdater info (with_clients cs sv) = map_prod id (with_clients cs) (GetOnlineUpdater info sv)"
    by (simp add: GetOnlineUpdater_def with_clients_def split: option.split)
  ultimately show ?thesis
    by (auto simp: UpdateService_GetTaskInfo_def online_def split: prod.split option.split IServiceOnlineUpdater.split)
qed

lemma task_dumped:
  "BuildTaskInfoDump E ti (with_clients cs sv) = map_option (\<lambda>(s, sv). (s, with_clients cs sv)) (BuildTaskInfoDump E ti sv)"
proof -
  have "w_started (sv_world (with_clients cs sv)) = w_started (sv_world sv)" by (simp add: with_clients_def)
  then show ?thesis by (simp add: BuildTaskInfoDump_def task_read option.map_comp comp_def case_prod_beta)
qed

section \<open>Properties\<close>



end
