(* ===== verification/Ability_Notify.thy ===== *)
theory Ability_Notify
  imports Firmware_World
begin

text \<open>
  The connection to the ability that shows notices (\<open>services/engine/src/update_notify.cpp\<close>). The
  ability manager of the system is a parameter; the notices the service state records are the
  abilities that are started (locale \<open>ability_service\<close>).
\<close>

section \<open>State\<close>

record Want =
  wa_deviceId :: string
  wa_bundleName :: string
  wa_abilityName :: string
  wa_params :: "(string \<times> string) list"

text \<open>
  What the system answers: whether there is a system ability manager and a remote object of the
  ability manager, and its interface: \<open>None\<close> is a null pointer, the flag says that the proxy has an
  object. Connections and tokens are numbers.
\<close>

record 'x Abilities =
  ab_samgr :: "'x \<Rightarrow> bool"
  ab_remoteObject :: "'x \<Rightarrow> bool"
  ab_iface_cast :: "'x \<Rightarrow> bool option"
  ab_StartAbility :: "Want \<Rightarrow> 'x \<Rightarrow> int32_t \<times> 'x"
  ab_StopServiceAbility :: "Want \<Rightarrow> 'x \<Rightarrow> int32_t \<times> 'x"
  ab_ConnectAbility :: "Want \<Rightarrow> nat \<Rightarrow> nat \<Rightarrow> 'x \<Rightarrow> int32_t \<times> 'x"
  ab_DisconnectAbility :: "nat \<Rightarrow> 'x \<Rightarrow> int32_t \<times> 'x"
  ab_invalid_value :: int32_t

text \<open>\<open>no_abilityMgr\<close>: the static pointer is set.\<close>

record 'x Notifier =
  no_abilityMgr :: bool
  no_system :: 'x

section \<open>Operations\<close>

definition InitAbilityManagerService :: "'x Abilities \<Rightarrow> 'x Notifier \<Rightarrow> bool \<times> 'x Notifier" where
  "InitAbilityManagerService A s =
     (if no_abilityMgr s then (True, s)
      else if \<not> ab_samgr A (no_system s) then (False, s)
      else if \<not> ab_remoteObject A (no_system s) then (False, s)
      else (case ab_iface_cast A (no_system s) of
              None \<Rightarrow> (False, s)
            | Some object \<Rightarrow> (object, s\<lparr>no_abilityMgr := True\<rparr>)))"

text \<open>The frame of the four calls.\<close>

definition with_manager :: "'x Abilities \<Rightarrow> ('x \<Rightarrow> int32_t \<times> 'x) \<Rightarrow> 'x Notifier \<Rightarrow> int32_t \<times> 'x Notifier" where
  "with_manager A call s =
     (let (ok, s) = InitAbilityManagerService A s
      in if \<not> ok then (ab_invalid_value A, s)
         else let (result, x) = call (no_system s) in (result, s\<lparr>no_system := x\<rparr>))"

definition UpdateNotify_StartAbility :: "'x Abilities \<Rightarrow> Want \<Rightarrow> 'x Notifier \<Rightarrow> int32_t \<times> 'x Notifier" where
  "UpdateNotify_StartAbility A want = with_manager A (ab_StartAbility A want)"

definition UpdateNotify_StopServiceAbility :: "'x Abilities \<Rightarrow> Want \<Rightarrow> 'x Notifier \<Rightarrow> int32_t \<times> 'x Notifier" where
  "UpdateNotify_StopServiceAbility A want = with_manager A (ab_StopServiceAbility A want)"

definition UpdateNotify_ConnectAbility :: "'x Abilities \<Rightarrow> Want \<Rightarrow> nat \<Rightarrow> nat \<Rightarrow> 'x Notifier \<Rightarrow> int32_t \<times> 'x Notifier" where
  "UpdateNotify_ConnectAbility A want connect callerToken = with_manager A (ab_ConnectAbility A want connect callerToken)"

definition UpdateNotify_DisconnectAbility :: "'x Abilities \<Rightarrow> nat \<Rightarrow> 'x Notifier \<Rightarrow> int32_t \<times> 'x Notifier" where
  "UpdateNotify_DisconnectAbility A connect = with_manager A (ab_DisconnectAbility A connect)"

definition MakeWant :: "string \<Rightarrow> string \<Rightarrow> string \<Rightarrow> string \<Rightarrow> string \<Rightarrow> Want" where
  "MakeWant deviceId abilityName bundleName subscribeInfo params =
     \<lparr>wa_deviceId = deviceId, wa_bundleName = bundleName, wa_abilityName = abilityName,
      wa_params = [(''EventInfo'', params), (''SubscribeInfo'', subscribeInfo)]\<rparr>"

definition OUC_SERVICE_EXT_ABILITY_NAME :: string where
  "OUC_SERVICE_EXT_ABILITY_NAME = ''ServiceExtAbility''"

definition UpdateNotify_NotifyToAppService :: "'x Abilities \<Rightarrow> string \<Rightarrow> string \<Rightarrow> 'x Notifier \<Rightarrow> 'x Notifier" where
  "UpdateNotify_NotifyToAppService A eventInfo subscribeInfo s =
     (if eventInfo = [] then s
      else snd (UpdateNotify_StartAbility A
        (MakeWant [] OUC_SERVICE_EXT_ABILITY_NAME OUC_PACKAGE_NAME subscribeInfo eventInfo) s))"

section \<open>The notices of the service state\<close>

text \<open>\<open>started\<close> are the abilities that were started, in order; every one is.\<close>

locale ability_service =
  fixes A :: "'x Abilities" and started :: "'x \<Rightarrow> Want list"
  assumes start_logged: "started (snd (ab_StartAbility A want x)) = started x @ [want]"

definition reachable_manager :: "'x Abilities \<Rightarrow> bool" where
  "reachable_manager A \<longleftrightarrow> (\<forall>x. ab_samgr A x \<and> ab_remoteObject A x \<and> ab_iface_cast A x = Some True)"

fun want_of :: "Notice \<Rightarrow> Want list" where
  "want_of (AppService eventInfo subscribeInfo) = [MakeWant [] OUC_SERVICE_EXT_ABILITY_NAME OUC_PACKAGE_NAME subscribeInfo eventInfo]"
| "want_of _ = []"

context ability_service
begin

lemma notified_want:
  assumes "reachable_manager A"
  shows "started (no_system (UpdateNotify_NotifyToAppService A e i s)) =
    started (no_system s) @ (if e = [] then [] else want_of (AppService e i))"
  using assms start_logged
  by (auto simp: UpdateNotify_NotifyToAppService_def UpdateNotify_StartAbility_def with_manager_def InitAbilityManagerService_def
      reachable_manager_def split: prod.split) (metis snd_conv)+

lemma notified_wants:
  assumes "reachable_manager A" and "started (no_system s) = concat (map want_of (w_sent w))"
  shows "started (no_system (foldl (\<lambda>s (e, i). UpdateNotify_NotifyToAppService A e i s) s ns)) =
    concat (map want_of (w_sent (foldl (\<lambda>w (e, i). NotifyToAppService e i w) w ns)))"
  using assms(2)
proof (induction ns arbitrary: s w)
  case (Cons n ns)
  obtain e i where n: "n = (e, i)" by force
  have "started (no_system (UpdateNotify_NotifyToAppService A e i s)) = concat (map want_of (w_sent (NotifyToAppService e i w)))"
    using notified_want [OF assms(1)] Cons.prems by (simp add: NotifyToAppService_def)
  from Cons.IH [OF this] show ?case by (simp add: n)
qed simp

end

text \<open>A system that starts everything and keeps a list.\<close>

definition memory_abilities :: "Want list Abilities" where
  "memory_abilities = \<lparr>ab_samgr = \<lambda>x. True, ab_remoteObject = \<lambda>x. True, ab_iface_cast = \<lambda>x. Some True,
     ab_StartAbility = \<lambda>want x. (0, x @ [want]), ab_StopServiceAbility = \<lambda>want x. (0, x),
     ab_ConnectAbility = \<lambda>want c t x. (0, x), ab_DisconnectAbility = \<lambda>c x. (0, x), ab_invalid_value = 22\<rparr>"

interpretation ma: ability_service memory_abilities "\<lambda>x. x"
  by unfold_locales (simp add: memory_abilities_def)

section \<open>Properties\<close>

text \<open>
  The notices the service state records are what the ability manager is asked for: after any
  sequence of notices the abilities started are exactly those of the recorded notices, in order,
  once each, with the text of the event and of the subscription, provided the ability manager can
  be reached.
\<close>

theorem notices_start_the_application:
  assumes "ability_service A started" and "reachable_manager A" and "started (no_system s) = concat (map want_of (w_sent w))"
  shows "started (no_system (foldl (\<lambda>s (e, i). UpdateNotify_NotifyToAppService A e i s) s ns)) =
    concat (map want_of (w_sent (foldl (\<lambda>w (e, i). NotifyToAppService e i w) w ns)))"
  by (rule ability_service.notified_wants [OF assms])

theorem notices_start_the_application_witness:
  "no_system (foldl (\<lambda>s (e, i). UpdateNotify_NotifyToAppService memory_abilities e i s) \<lparr>no_abilityMgr = False, no_system = []\<rparr>
     [(''{1}'', ''s''), ([], ''s''), (''{2}'', ''s'')]) =
   [MakeWant [] OUC_SERVICE_EXT_ABILITY_NAME OUC_PACKAGE_NAME ''s'' ''{1}'', MakeWant [] OUC_SERVICE_EXT_ABILITY_NAME OUC_PACKAGE_NAME ''s'' ''{2}'']"
proof -
  have "reachable_manager memory_abilities" by (simp add: reachable_manager_def memory_abilities_def)
  from notices_start_the_application [OF ma.ability_service_axioms this, of "\<lparr>no_abilityMgr = False, no_system = []\<rparr>" "World_new ()"
      "[(''{1}'', ''s''), ([], ''s''), (''{2}'', ''s'')]"]
  show ?thesis by (simp add: World_new_def NotifyToAppService_def)
qed

end
