(* ===== verification/Sha256_Utils.thy ===== *)
theory Sha256_Utils
  imports Platform
begin

text \<open>
  The digests of \<open>services/core/ability/utils/src/sha256_utils.cpp\<close>, below the two parameters
  \<open>pl_sha256\<close> and \<open>pl_file_sha256\<close> of \<open>Platform\<close>: the chunk loop over a file, the one-shot digest
  of a text and the hexadecimal text of both. The mbedtls library and the file system are
  parameters; what is relied on is the locale \<open>digest_library\<close>.
\<close>

section \<open>Library and files\<close>

text \<open>
  \<open>'c\<close> is the context after \<open>mbedtls_sha256_init\<close>; every call gives its code and what it leaves
  in its output. \<open>fs_fopen\<close> gives the bytes of a file that can be opened. A \<open>FILE\<close> is the bytes
  not yet read and its end-of-file flag.
\<close>

type_synonym byte = "8 word"

record 'c mbedtls =
  sha_init :: 'c
  sha_starts :: "'c \<Rightarrow> int32_t \<times> 'c"
  sha_update :: "'c \<Rightarrow> byte list \<Rightarrow> int32_t \<times> 'c"
  sha_finish :: "'c \<Rightarrow> byte list \<Rightarrow> int32_t \<times> byte list"

record file_system =
  fs_realpath :: "string \<Rightarrow> string option"
  fs_fopen :: "string \<Rightarrow> byte list option"

record FILE =
  fi_rest :: "byte list"
  fi_eof :: bool

definition SHA256_STRING_LEN :: nat where
  "SHA256_STRING_LEN = 65"

definition SHA256_LENGTH :: nat where
  "SHA256_LENGTH = 32"

definition MAX_BUFFER_LENGTH :: nat where
  "MAX_BUFFER_LENGTH = 1024"

definition SHA256_TO_STRING_STEP :: nat where
  "SHA256_TO_STRING_STEP = 2"

definition fread :: "nat \<Rightarrow> FILE \<Rightarrow> byte list \<times> FILE" where
  "fread n fp =
     (take n (fi_rest fp),
      \<lparr>fi_rest = drop n (fi_rest fp), fi_eof = (fi_eof fp \<or> length (fi_rest fp) < n)\<rparr>)"

section \<open>The digest of a file\<close>

text \<open>
  \<open>sizeof(buffer) > (uint32_t)fLen\<close> compares with the low half of the length; the choice is
  converted to \<open>int\<close>.
\<close>

definition readCount :: "int64_t \<Rightarrow> int32_t" where
  "readCount fLen =
     (if of_nat MAX_BUFFER_LENGTH > (ucast fLen :: uint32_t) then ucast fLen else of_nat MAX_BUFFER_LENGTH)"

partial_function (option) digest_loop ::
  "'c mbedtls \<Rightarrow> int64_t \<Rightarrow> FILE \<Rightarrow> 'c \<Rightarrow> 'c option" where
  "digest_loop M fLen fp ctx =
     (if \<not> fi_eof fp \<and> sint fLen > 0
      then let (buffer, fp') = fread (unat (readCount fLen)) fp
           in if length buffer \<noteq> unat (readCount fLen) then Some ctx
              else digest_loop M (fLen - of_nat (length buffer)) fp' (snd (sha_update M ctx buffer))
      else Some ctx)"

definition GetDigestFromFile ::
  "'c mbedtls \<Rightarrow> file_system \<Rightarrow> string \<Rightarrow> byte list \<Rightarrow> (bool \<times> byte list) option" where
  "GetDigestFromFile M F fileName digest =
     (case Option.bind (fs_realpath F fileName) (fs_fopen F) of
        None \<Rightarrow> Some (False, digest)
      | Some content \<Rightarrow>
          (case digest_loop M (of_nat (length content)) \<lparr>fi_rest = content, fi_eof = False\<rparr>
                  (snd (sha_starts M (sha_init M))) of
             None \<Rightarrow> None
           | Some ctx \<Rightarrow> Some (True, snd (sha_finish M ctx digest))))"

section \<open>Hexadecimal text\<close>

text \<open>
  \<open>sprintf_s\<close> with \<open>%02x\<close> needs two digits and the closing zero; with less room it answers -1 and
  leaves an empty string.
\<close>

definition NUL :: char where
  "NUL = char_of (0 :: nat)"

definition hex_digit :: "nat \<Rightarrow> char" where
  "hex_digit n = (if n < 10 then char_of (48 + n) else char_of (87 + n))"

definition hex_byte :: "byte \<Rightarrow> string" where
  "hex_byte b = [hex_digit (unat b div 16), hex_digit (unat b mod 16)]"

definition c_str :: "char list \<Rightarrow> string" where
  "c_str = takeWhile (\<lambda>c. c \<noteq> NUL)"

definition sprintf_02x :: "nat \<Rightarrow> nat \<Rightarrow> byte \<Rightarrow> char list \<Rightarrow> int \<times> char list" where
  "sprintf_02x deviation room b buf =
     (if room < 3 then (- 1, buf[deviation := NUL])
      else (2, take deviation buf @ hex_byte b @ [NUL] @ drop (deviation + 3) buf))"

primrec trans_loop :: "nat list \<Rightarrow> char list \<Rightarrow> nat \<Rightarrow> byte list \<Rightarrow> bool \<times> char list" where
  "trans_loop [] sha256Result componentIdLen digest = (True, sha256Result)"
| "trans_loop (i # is) sha256Result componentIdLen digest =
     (let deviation = i * SHA256_TO_STRING_STEP
      in if deviation \<ge> componentIdLen then (False, sha256Result)
         else let (result, buf) = sprintf_02x deviation (componentIdLen - deviation) (digest ! i) sha256Result
              in if result \<le> 0 then (False, buf) else trans_loop is buf componentIdLen digest)"

definition TransDigestToSha256Result :: "char list \<Rightarrow> nat \<Rightarrow> byte list \<Rightarrow> bool \<times> char list" where
  "TransDigestToSha256Result sha256Result componentIdLen digest =
     trans_loop [0..<SHA256_LENGTH] sha256Result componentIdLen digest"

definition GetFileSha256Str ::
  "'c mbedtls \<Rightarrow> file_system \<Rightarrow> string \<Rightarrow> char list \<Rightarrow> nat \<Rightarrow> (bool \<times> char list) option" where
  "GetFileSha256Str M F fileName sha256Result len =
     (case GetDigestFromFile M F fileName (replicate SHA256_LENGTH 0) of
        None \<Rightarrow> None
      | Some (_, digest) \<Rightarrow> Some (TransDigestToSha256Result sha256Result len digest))"

text \<open>\<open>memset_s\<close> over the whole context succeeds. The length is an \<open>int\<close> that becomes a \<open>size_t\<close>.\<close>

definition Sha256Calculate ::
  "'c mbedtls \<Rightarrow> byte list \<Rightarrow> int32_t \<Rightarrow> char list \<Rightarrow> nat \<Rightarrow> bool \<times> char list" where
  "Sha256Calculate M input len componentId componentIdLen =
     (let (startRet, ctx) = sha_starts M (sha_init M)
      in if startRet \<noteq> 0 then (False, componentId)
         else let (updateRet, ctx) = sha_update M ctx (take (unat (size_of_int32 len)) input)
              in if updateRet \<noteq> 0 then (False, componentId)
                 else let (finishRet, digest) = sha_finish M ctx (replicate SHA256_LENGTH 0)
                      in if finishRet \<noteq> 0 then (False, componentId)
                         else TransDigestToSha256Result componentId componentIdLen digest)"


section \<open>What the loop reads\<close>

text \<open>
  Feeding the library in pieces is feeding it the concatenation, and a digest has 32 bytes.
\<close>

locale digest_library =
  fixes M :: "'c mbedtls"
  assumes update_update: "snd (sha_update M (snd (sha_update M c a)) b) = snd (sha_update M c (a @ b))"
    and update_none: "snd (sha_update M c []) = c"
    and digest_length: "length d = SHA256_LENGTH \<Longrightarrow> length (snd (sha_finish M c d)) = SHA256_LENGTH"

lemma low_half: "n < 2 ^ 63 \<Longrightarrow> unat (ucast (of_nat n :: int64_t) :: uint32_t) = n mod 2 ^ 32"
  by (simp add: unsigned_ucast_eq unsigned_of_nat take_bit_eq_mod mod_mod_cancel)

lemma readCount_nat:
  assumes "n < 2 ^ 63"
  shows "unat (readCount (of_nat n)) = (if n mod 2 ^ 32 < MAX_BUFFER_LENGTH then n mod 2 ^ 32 else MAX_BUFFER_LENGTH)"
  using low_half [OF assms] by (simp add: readCount_def word_less_nat_alt MAX_BUFFER_LENGTH_def)

lemma sint_file: "n < 2 ^ 63 \<Longrightarrow> sint (of_nat n :: int64_t) = int n"
  by (simp add: signed_of_nat signed_take_bit_int_eq_self)

lemma readCount_le: "n < 2 ^ 63 \<Longrightarrow> unat (readCount (of_nat n)) \<le> n"
  by (simp add: readCount_nat) (metis mod_less_eq_dividend order_trans linorder_not_less)

lemma loop_step:
  assumes "length rest < 2 ^ 63" and "rest \<noteq> []"
  shows "digest_loop M (of_nat (length rest)) \<lparr>fi_rest = rest, fi_eof = False\<rparr> ctx =
    (let n = unat (readCount (of_nat (length rest)))
     in digest_loop M (of_nat (length (drop n rest))) \<lparr>fi_rest = drop n rest, fi_eof = False\<rparr>
          (snd (sha_update M ctx (take n rest))))"
proof -
  have le: "unat (readCount (of_nat (length rest))) \<le> length rest" using readCount_le assms(1) by blast
  then have sub: "(of_nat (length rest) :: int64_t) - of_nat (unat (readCount (of_nat (length rest)))) =
      of_nat (length rest - unat (readCount (of_nat (length rest))))" by (simp add: of_nat_diff)
  show ?thesis
    by (subst digest_loop.simps) (use assms le sub in \<open>simp add: sint_file fread_def Let_def min_def\<close>)
qed

lemma loop_end: "digest_loop M (of_nat 0) \<lparr>fi_rest = [], fi_eof = False\<rparr> ctx = Some ctx"
  by (subst digest_loop.simps) simp

context digest_library
begin

lemma loop_reads_all:
  assumes "length rest < 2 ^ 32"
  shows "digest_loop M (of_nat (length rest)) \<lparr>fi_rest = rest, fi_eof = False\<rparr> ctx =
    Some (snd (sha_update M ctx rest))"
  using assms
proof (induction rest arbitrary: ctx rule: length_induct)
  case (1 rest)
  show ?case
  proof (cases "rest = []")
    case True
    then show ?thesis using loop_end update_none by simp
  next
    case False
    let ?n = "unat (readCount (of_nat (length rest)))"
    have len: "length rest < 2 ^ 63" using 1(2) by simp
    have "0 < ?n" using False 1(2) by (simp add: readCount_nat [OF len] MAX_BUFFER_LENGTH_def)
    then have "length (drop ?n rest) < length rest" using False by simp
    moreover from this have "length (drop ?n rest) < 2 ^ 32" using 1(2) by linarith
    ultimately have "digest_loop M (of_nat (length (drop ?n rest))) \<lparr>fi_rest = drop ?n rest, fi_eof = False\<rparr> c =
        Some (snd (sha_update M c (drop ?n rest)))" for c using 1(1) by blast
    then show ?thesis unfolding loop_step [OF len False] Let_def by (simp add: update_update)
  qed
qed

end

text \<open>
  Above 4 GiB the loop stops advancing at a multiple of \<open>2 ^ 32\<close>: \<open>readCount\<close> is then 0, which
  neither advances the file nor sets its end-of-file flag.
\<close>

lemma readCount_large:
  assumes "2 ^ 32 \<le> n" and "n < 2 ^ 63"
  shows "2 ^ 32 \<le> n - unat (readCount (of_nat n))"
proof -
  have "n = 2 ^ 32 * (n div 2 ^ 32) + n mod 2 ^ 32" by simp
  moreover have "1 \<le> n div 2 ^ 32" using assms(1) by (metis One_nat_def Suc_leI div_greater_zero_iff zero_less_numeral zero_less_power)
  then have "2 ^ 32 * 1 \<le> 2 ^ 32 * (n div 2 ^ 32)" by (rule mult_left_mono) simp
  ultimately have "2 ^ 32 \<le> n - n mod 2 ^ 32" by linarith
  moreover have "unat (readCount (of_nat n)) \<le> n mod 2 ^ 32" using readCount_nat [OF assms(2)] by simp
  ultimately show ?thesis by linarith
qed

lemma loop_small:
  assumes "digest_loop M fLen fp ctx = Some c"
  shows "fLen = of_nat (length (fi_rest fp)) \<Longrightarrow> \<not> fi_eof fp \<Longrightarrow> length (fi_rest fp) < 2 ^ 63 \<Longrightarrow>
    length (fi_rest fp) < 2 ^ 32"
  using assms
proof (induction M fLen fp ctx c rule: digest_loop.raw_induct [rotated, consumes 1, case_names step])
  case (step loop M fLen fp ctx c)
  let ?rest = "fi_rest fp" and ?n = "unat (readCount (of_nat (length (fi_rest fp))))"
  show "length ?rest < 2 ^ 32"
  proof (rule ccontr)
    assume "\<not> length ?rest < 2 ^ 32"
    then have big: "2 ^ 32 \<le> length ?rest" by simp
    have left: "2 ^ 32 \<le> length (drop ?n ?rest)" using readCount_large [OF big step(5)] by simp
    have "0 < length ?rest" by (rule less_le_trans [OF _ big]) simp
    then have pos: "0 < sint fLen" using sint_file [OF step(5)] step(3) by simp
    have le: "?n \<le> length ?rest" by (rule readCount_le [OF step(5)])
    then have sub: "fLen - of_nat ?n = of_nat (length (drop ?n ?rest))" using step(3) by (simp add: of_nat_diff)
    have "loop M (fLen - of_nat ?n) \<lparr>fi_rest = drop ?n ?rest, fi_eof = False\<rparr> (snd (sha_update M ctx (take ?n ?rest))) = Some c"
      using step(2-4) pos le by (simp add: fread_def Let_def min_absorb2)
    moreover have "length (drop ?n ?rest) < 2 ^ 63" using step(5) by (simp add: less_imp_diff_less)
    ultimately show False using step(1) left sub by fastforce
  qed
qed

section \<open>What the text says\<close>

definition hex_text :: "byte list \<Rightarrow> string" where
  "hex_text d = concat (map hex_byte d)"

lemma hex_digit_NUL: "n < 16 \<Longrightarrow> hex_digit n \<noteq> NUL"
  by (auto simp: hex_digit_def NUL_def of_char_eq_iff simp flip: of_char_eq_iff)

lemma hex_byte_NUL: "c \<in> set (hex_byte b) \<Longrightarrow> c \<noteq> NUL"
proof -
  have "unat b div 16 < 16" using unsigned_less [of b, where 'a = nat] by simp
  then have "hex_digit (unat b div 16) \<noteq> NUL" "hex_digit (unat b mod 16) \<noteq> NUL" by (simp_all add: hex_digit_NUL)
  then show "c \<in> set (hex_byte b) \<Longrightarrow> c \<noteq> NUL" by (auto simp: hex_byte_def)
qed

lemma hex_text_c_str: "c_str (hex_text d @ [NUL]) = hex_text d"
proof -
  have "c \<noteq> NUL" if "c \<in> set (hex_text d)" for c using that hex_byte_NUL by (auto simp: hex_text_def)
  then show ?thesis by (simp add: c_str_def takeWhile_append)
qed

lemma hex_text_length: "length (hex_text d) = 2 * length d"
  by (induction d) (simp_all add: hex_text_def hex_byte_def)

lemma trans_loop_text:
  assumes "length digest = SHA256_LENGTH" and "i \<le> SHA256_LENGTH"
    and "length buf = SHA256_STRING_LEN" and "buf ! (2 * i) = NUL"
  shows "trans_loop [i..<SHA256_LENGTH] buf SHA256_STRING_LEN digest =
    (True, take (2 * i) buf @ hex_text (drop i digest) @ [NUL])"
  using assms(2-4)
proof (induction i arbitrary: buf rule: inc_induct)
  case base
  then have "take 64 buf @ [buf ! 64] = buf"
    by (simp add: SHA256_STRING_LEN_def take_Suc_conv_app_nth [of 64, symmetric])
  then show ?case using base assms(1) by (simp add: SHA256_LENGTH_def hex_text_def)
next
  case (step i)
  let ?b = "take (2 * i) buf @ hex_byte (digest ! i) @ [NUL] @ drop (2 * i + 3) buf"
  have i: "i < 32" using step by (simp add: SHA256_LENGTH_def)
  have "length ?b = SHA256_STRING_LEN" "?b ! (2 * Suc i) = NUL"
    using step i by (simp_all add: SHA256_STRING_LEN_def hex_byte_def nth_append)
  note rest = step.IH [OF this]
  have "take (2 * Suc i) ?b = take (2 * i) buf @ hex_byte (digest ! i)"
    using step i by (simp add: SHA256_STRING_LEN_def hex_byte_def)
  moreover have "hex_text (drop i digest) = hex_byte (digest ! i) @ hex_text (drop (Suc i) digest)"
    using i assms(1) by (simp add: hex_text_def SHA256_LENGTH_def flip: Cons_nth_drop_Suc)
  ultimately show ?case
    using rest i
    by (simp add: upt_conv_Cons SHA256_LENGTH_def SHA256_STRING_LEN_def SHA256_TO_STRING_STEP_def sprintf_02x_def
        Let_def mult.commute)
qed

lemma TransDigest_text:
  assumes "length digest = SHA256_LENGTH"
  shows "TransDigestToSha256Result (replicate SHA256_STRING_LEN NUL) SHA256_STRING_LEN digest =
    (True, hex_text digest @ [NUL])"
  unfolding TransDigestToSha256Result_def
  using trans_loop_text [of digest 0 "replicate SHA256_STRING_LEN NUL"] assms by (simp add: SHA256_STRING_LEN_def)

text \<open>The specification: the digest of the whole content in one piece.\<close>

definition sha256_of :: "'c mbedtls \<Rightarrow> byte list \<Rightarrow> byte list" where
  "sha256_of M content =
     snd (sha_finish M (snd (sha_update M (snd (sha_starts M (sha_init M))) content)) (replicate SHA256_LENGTH 0))"

context digest_library
begin

lemma sha256_length: "length (sha256_of M content) = SHA256_LENGTH"
  by (simp add: sha256_of_def digest_length)

lemma file_text:
  assumes "fs_realpath F fileName = Some path" and "fs_fopen F path = Some content" and "length content < 2 ^ 32"
  shows "GetFileSha256Str M F fileName (replicate SHA256_STRING_LEN NUL) SHA256_STRING_LEN =
    Some (True, hex_text (sha256_of M content) @ [NUL])"
  using assms TransDigest_text [OF sha256_length [of content]]
  by (simp add: GetFileSha256Str_def GetDigestFromFile_def loop_reads_all sha256_of_def)

lemma input_text:
  assumes "length input < 2 ^ 31" and "\<forall>c. fst (sha_starts M c) = 0"
    and "\<forall>c a. fst (sha_update M c a) = 0" and "\<forall>c d. fst (sha_finish M c d) = 0"
  shows "Sha256Calculate M input (of_nat (length input)) (replicate SHA256_STRING_LEN NUL) SHA256_STRING_LEN =
    (True, hex_text (sha256_of M input) @ [NUL])"
proof -
  have "sint (of_nat (length input) :: int32_t) = int (length input)"
    using assms(1) by (simp add: signed_of_nat signed_take_bit_int_eq_self)
  then have "uint (size_of_int32 (of_nat (length input))) = int (length input)"
    unfolding scast_eq using assms(1) by (simp add: unsigned_of_nat take_bit_nat_eq_self)
  then have "take (unat (size_of_int32 (of_nat (length input)))) input = input" by (simp flip: nat_uint_eq)
  then show ?thesis
    using assms(2-4) TransDigest_text [OF sha256_length [of input]]
    by (simp add: Sha256Calculate_def split_beta sha256_of_def)
qed

end

lemma large_file_hangs:
  assumes "fs_realpath F fileName = Some path" and "fs_fopen F path = Some content"
    and "2 ^ 32 \<le> length content" and "length content < 2 ^ 63"
  shows "GetFileSha256Str M F fileName buf len = None"
proof -
  have "digest_loop M (of_nat (length content)) \<lparr>fi_rest = content, fi_eof = False\<rparr> ctx = None" for ctx
    using loop_small [of M "of_nat (length content)" "\<lparr>fi_rest = content, fi_eof = False\<rparr>" ctx] assms(3,4)
    by (fastforce intro: ccontr)
  then show ?thesis using assms(1,2) by (simp add: GetFileSha256Str_def GetDigestFromFile_def)
qed

section \<open>A library in memory\<close>

text \<open>The context is what was fed; the digest is its first 32 bytes.\<close>

definition memory_digests :: "byte list mbedtls" where
  "memory_digests = \<lparr>sha_init = [], sha_starts = (\<lambda>c. (0, [])), sha_update = (\<lambda>c a. (0, c @ a)),
     sha_finish = (\<lambda>c d. (0, take SHA256_LENGTH (c @ replicate SHA256_LENGTH 0)))\<rparr>"

interpretation md: digest_library memory_digests
  by unfold_locales (simp_all add: memory_digests_def)

section \<open>Properties\<close>



end
