(* ===== verification/Spec2Isabelle.thy ===== *)
theory Spec2Isabelle
  imports Progress_Thread System_Steps Js_Properties Timer_Table Net_Observer Update_Dump Ability_Notify
    Sha256_Utils
begin

text \<open>
  A verification development for the OpenHarmony update service (\<open>update_updateservice\<close>): a system
  ability that searches for a new firmware version, downloads its packages, hands them to an
  installer and settles the result after the reboot, together with the client library, the parcels
  between the two and the JavaScript binding applications use.

  \<^bold>\<open>The program and its theories.\<close> Sources are under \<open>src/\<close>; a definition has the name of the
  function it models, with the class in front where the name alone is taken.

  \<^item> \<open>Update_Prelude\<close>: machine integers, lemma collections, the contract \<open>enum_class\<close> of an
    \<open>enum class\<close> that is cast to and from an integer, \<open>post\<close> rules for sequences of calls.
  \<^item> \<open>Update_Types\<close>: the structs and enumerations of \<open>update_helper.h\<close> and \<open>firmware_common.h\<close>, with
    the order of \<open>UpgradeInfo\<close>. \<open>Std_Map\<close>: \<open>std::map\<close> over such an order (locale \<open>std_map\<close>).
    \<open>String_Utils\<close>: \<open>string_utils.h\<close>. \<open>Update_Json\<close>: \<open>JsonBuilder\<close> and the text of an event.
  \<^item> \<open>Parcel_Codec\<close>: \<open>message_parcel_helper.cpp\<close> over a parcel that is a parameter (locale
    \<open>message_parcel\<close>).
  \<^item> \<open>Rdb_Table\<close>, \<open>Firmware_Store\<close>: the table layer over the relational store (locales \<open>rdb_store\<close>,
    \<open>rdb_reliable\<close>, \<open>typed_table\<close>) and the task and component tables (locale \<open>firmware_db\<close>).
  \<^item> \<open>Platform\<close>: preferences, files, device parameters, hashes, status cache, network manager over a
    device that is a parameter (locale \<open>platform\<close>). \<open>Memory_Device\<close> is a device in memory that
    satisfies the laws; the witnesses run on it. \<open>Sha256_Utils\<close>: the routines of \<open>sha256_utils.cpp\<close>
    below the digests that \<open>Platform\<close> takes as functions (locale \<open>digest_library\<close>).
  \<^item> \<open>Firmware_World\<close>: the state of the service as one record, the client registry, the cache, the
    notifications and the helpers of the firmware component (locale \<open>firmware_world\<close>).
  \<^item> \<open>Firmware_Check\<close>, \<open>Firmware_Download\<close>, \<open>Firmware_Install\<close>: for each stage of an upgrade the
    executor, the data processor and the mode (\<open>services/firmware/upgrade\<close>), with the server's
    answer, the transfer thread and the installers. \<open>Firmware_Flow\<close> is the flow manager that runs
    the stages; a callback is a function argument, as in the code, and the use of a deleted flow
    manager or an uncaught exception is the result \<open>None\<close>. \<open>Firmware_Result\<close> is the verdict after
    the reboot, \<open>Firmware_Manager\<close> the operations, the restore at start-up and the events.
    \<open>Progress_Thread\<close> is the thread loop as a step relation.
  \<^item> \<open>Update_Service\<close>: the operations of the service. \<open>Service_Stub\<close>, \<open>Service_Proxy\<close>: the two ends
    of its interface; \<open>Service_Wire\<close>, \<open>Service_Remote\<close>: what a struct or a call is after the way
    through both (locale \<open>ipc_channel\<close>). \<open>Service_Kits\<close>: the client library with loading on demand.
    \<open>Callback_Ipc\<close>: the way of a notice back to the application.
  \<^item> \<open>Startup_Schedule\<close>, \<open>Startup_Manager\<close>: start reasons, configuration, alarms, the idle loop.
  \<^item> \<open>Net_Observer\<close>: \<open>dupdate_net_observer.cpp\<close>, the reports of the network service on their way to the
    firmware manager. \<open>Ability_Notify\<close>: \<open>update_notify.cpp\<close>, how a notice starts the ability of the
    application (locale \<open>ability_service\<close>). \<open>Timer_Table\<close>: \<open>dupdate_timer.c\<close>, the table of cycle timers
    (locale \<open>posix_timers\<close>). \<open>Update_Dump\<close>: the \<open>Dump\<close> of the service and \<open>encrypt_utils.h\<close>.
  \<^item> \<open>World_Keeper\<close>, \<open>System_Steps\<close>: invariants of the service state, and the service as a state
    machine of requests, threads, events and restarts (locales \<open>world_keeper\<close>, \<open>service_keeper\<close>,
    \<open>update_system\<close>).

  The JavaScript binding (\<open>frameworks/js/napi\<close>):

  \<^item> \<open>Js_Engine\<close>: the calls of Node-API the binding makes, as a record of functions on the state of
    the engine, and their laws (locale \<open>napi_engine\<close>); \<open>Js_Tree\<close>: trees of values and when a value
    of the engine is one. \<open>Js_Memory\<close> is an engine in memory that satisfies the laws.
  \<^item> \<open>Napi_Util\<close>, \<open>Client_Helper\<close>, \<open>Client_Args\<close>: \<open>napi_util.cpp\<close> and \<open>client_helper.cpp\<close>, the
    conversions in both directions; \<open>Js_Values\<close>: the reference tree of every struct, and that the
    builders make it. \<open>Define_Property\<close>: the exported constants.
  \<^item> \<open>Js_Session\<close>, \<open>Js_Manager\<close>, \<open>Js_Client\<close>, \<open>Js_Module\<close>: the sessions (\<open>update_session.cpp\<close>), their
    map with subscriptions and events (\<open>session_manager.cpp\<close>, \<open>iupdater.cpp\<close>), the three updaters
    with their works, and the module with its classes. The state is the record \<open>Updater\<close>; what
    Node-API and libuv hold for it (queued, running and finished works, posted events) is part of it.
  \<^item> \<open>Js_Invariant\<close>, \<open>Js_Start\<close>, \<open>Js_Report\<close>, \<open>Js_Steps\<close>, \<open>Js_Reach\<close>: the invariant of the sessions
    through the start of a call, its report and every other step; the reachable states, in which a
    function of the application may use the binding again while it is called. \<open>Js_Calls\<close>,
    \<open>Js_Check\<close>: whole calls from the start to the settlement. \<open>Js_Properties\<close>: the properties.

  \<^bold>\<open>Parameters.\<close> The relational store, the preference store, the file system, the clock, the hash
  library, the transfer library, the JSON parsers, the sockets, the system installer, the updater
  kits, the parcels, the caller's token, the system ability manager, the ability manager, the network
  service, the timers, the JavaScript engine and the functions of the application are not part of the
  repository. They are arguments of the definitions; what is relied on is stated as the assumptions
  of the locales, and every locale is interpreted on a concrete instance.

  \<^bold>\<open>What is shown.\<close> The properties are numbered in the order of their weight. C1 is the invariant of
  the whole service; C2 to C9 are the life of an upgrade: recovery after a restart, the verdict
  after the reboot, that downloads and installations end and what they leave in the tables, the
  guards of their starts and what a check does to the tables. C10 to C16 are the interface: who may
  call, what is refused, that a remote call is the call, unloading when idle, reconnection and
  notices. C17 to C23 are the JavaScript binding: no use of a freed session, what a search, a
  promise and a callback come to, events and \<open>off\<close>. C24 to C26 are the update verdict, the client
  map and the size limit of the parcels, C27 and C28 the network and the digests of the packages,
  C29 to C37 threads, reports, time-outs, arithmetic and the server's answer, C38 to C40 the cycle
  timers, the dump and the policy of the binding. The basic utilities, the database and the codecs
  have their theorems in their theories. Several properties pin down behaviour that is not what the
  code is meant to do; these are listed as findings of the development.

  \<^bold>\<open>Bounds and fuel.\<close> Loops are structural recursion or terminate by a measure. Four need not end
  and are \<open>partial_function (option)\<close> with theorems that say when they return: \<open>ReplaceStringAll\<close>, the
  wait for the system installer, the digest of a file, and the publishing of an event to functions
  that subscribe again. The loops of \<open>Emit\<close> and \<open>Clear\<close> over the ids of the sessions have the length
  of the map as fuel, which is enough: \<open>emit_loop_maps\<close> shows that every session is reached. Integers
  have the width of the source. Single precision arithmetic is modelled by rounding to 24 bits.

  \<^bold>\<open>What is not modelled.\<close> Logging and system events, the registration of the JavaScript module, the
  callbacks of a connection to an ability, which only log, the variants of files that are built when
  a feature is off (\<open>*_empty.cpp\<close>), build files and tests. Threads of a flow run to their end in one
  step of \<open>system_step\<close>; the interleaving inside a transfer is kept as the flags each report of it
  sees.
\<close>

end
